(* ===== verification/Prelude.thy ===== *)
theory Prelude
  imports Main "HOL-Library.Word" "HOL-Library.Monad_Syntax" "HOL-Library.Product_Lexorder"
begin

text \<open>
  Shared material of the development: the types of addresses and machine words, the named
  theorem collections, and the generic facts on options, lists and words that the component
  theories use. Nothing here models source code by itself.
\<close>

unbundle bit_operations_syntax

type_synonym addr = "64 word"

named_theorems routine_defs \<open>definitions of the analysis routines\<close>
named_theorems flow_simps \<open>rewriting a routine to the data flow it implements\<close>
named_theorems inspect_defs \<open>definitions of the instrumentation cases\<close>

subsection \<open>Lists\<close>

lemma upts:
  "[0..<2] = [0, 1]"
  "[0..<4] = [0, 1, 2, 3]"
  "[0..<8] = [0, 1, 2, 3, 4, 5, 6, 7]"
  "[0..<16] = [0, 1, 2, 3, 4, 5, 6, 7, 8, 9, 10, 11, 12, 13, 14, 15]"
  "[Suc 0..<2] = [1]"
  "[Suc 0..<4] = [1, 2, 3]"
  "[Suc 0..<8] = [1, 2, 3, 4, 5, 6, 7]"
  by (simp_all add: upt_rec)

lemma replicate_8: "replicate 8 x = [x, x, x, x, x, x, x, x]"
  by (simp add: numeral_eq_Suc)

lemma Suc_Suc_0: "Suc (Suc 0) = 2"
  by simp

lemma find_append_conv:
  "find P (xs @ ys) = (case find P xs of None \<Rightarrow> find P ys | Some x \<Rightarrow> Some x)"
  by (induction xs) simp_all

lemma find_unique_upt:
  "(\<And>i. i < n \<Longrightarrow> P i \<longleftrightarrow> Q \<and> i = k) \<Longrightarrow>
   find P [0..<n] = (if Q \<and> k < n then Some k else None)"
proof (induction n)
  case 0
  then show ?case by simp
next
  case (Suc n)
  then have "find P [0..<n] = (if Q \<and> k < n then Some k else None)"
    by (intro Suc.IH) auto
  with Suc.prems [of n] show ?case
    by (auto simp: find_append_conv)
qed

lemma find_rev_map_upt:
  assumes "\<And>i j. i < n \<Longrightarrow> j < n \<Longrightarrow> P (f i) \<Longrightarrow> P (f j) \<Longrightarrow> i = j"
  shows "find P (rev (map f [0..<n])) = map_option f (find (\<lambda>i. P (f i)) [0..<n])"
  using assms
proof (induction n)
  case 0
  then show ?case by simp
next
  case (Suc n)
  show ?case
  proof (cases "P (f n)")
    case True
    have "\<not> P (f i)" if "i < n" for i
      using Suc.prems [of i n] True that by auto
    then have "find (\<lambda>i. P (f i)) [0..<n] = None"
      by (auto simp: find_None_iff)
    with True show ?thesis
      by (simp add: find_append_conv)
  next
    case False
    have "find P (rev (map f [0..<n])) = map_option f (find (\<lambda>i. P (f i)) [0..<n])"
      by (rule Suc.IH) (use Suc.prems in auto)
    with False show ?thesis
      by (cases "find (\<lambda>i. P (f i)) [0..<n]") (simp_all add: find_append_conv)
  qed
qed

subsection \<open>Words\<close>

lemma ucast_add_32 [simp]:
  "(ucast (a + b :: 64 word) :: 32 word) = ucast a + ucast b"
proof transfer
  fix a b :: int
  have "take_bit 32 (take_bit 64 a + take_bit 64 b) =
      take_bit 32 (take_bit 32 (take_bit 64 a) + take_bit 32 (take_bit 64 b))"
    by (simp only: take_bit_add)
  also have "\<dots> = take_bit 32 (a + b)"
    by (simp add: take_bit_add)
  finally show "take_bit LENGTH(32) (take_bit LENGTH(64) (a + b)) =
      take_bit LENGTH(32) (take_bit LENGTH(64) a + take_bit LENGTH(64) b)"
    by simp
qed

lemma ucast_64_32 [simp]: "(ucast (ucast x :: 64 word) :: 32 word) = x"
  by (rule bit_word_eqI) (simp add: bit_simps)

lemma ucast_64_inject: "(ucast x :: 64 word) = ucast y \<longleftrightarrow> x = (y :: 32 word)"
  by (metis ucast_64_32)

lemma unat_less_64: "unat (x :: 64 word) < 18446744073709551616"
proof -
  have "unat x < 2 ^ LENGTH(64)" by (rule unsigned_less)
  then show ?thesis by simp
qed

lemma unat_Suc_less:
  fixes i e :: "64 word"
  assumes "i < e"
  shows "unat (i + 1) = unat i + 1"
proof -
  have "unat i + 1 < 18446744073709551616"
    using assms unat_less_64 [of e] by (simp add: word_less_nat_alt)
  then show ?thesis
    by (simp add: unat_word_ariths)
qed

lemma unat_of_nat_below:
  "k < unat (e :: 64 word) \<Longrightarrow> unat (of_nat k :: 64 word) = k"
  using unat_less_64 [of e] by (simp add: unat_of_nat)

lemma of_nat_32_inject:
  assumes "i < n" "j < n" "n \<le> 4294967296"
  shows "(of_nat i :: 32 word) = of_nat j \<longleftrightarrow> i = j"
proof
  assume "(of_nat i :: 32 word) = of_nat j"
  then have "unat (of_nat i :: 32 word) = unat (of_nat j :: 32 word)" by simp
  with assms show "i = j" by (simp add: unat_of_nat)
qed simp

lemma ucast_of_nat_32 [simp]:
  "(ucast (of_nat i :: 64 word) :: 32 word) = of_nat i"
  by transfer (simp add: take_bit_of_nat)

end
