(* ===== verification/PinRegs.thy ===== *)
theory PinRegs
  imports Prelude
begin

text \<open>
  Registers as Pin numbers them (the enumeration \<^verbatim>\<open>REG\<close> of \<^verbatim>\<open>reg_ia32.PH\<close> for
  \<^verbatim>\<open>TARGET_IA32E\<close>), the inline predicates of that header the tool calls, and the maps from
  Pin registers to indices of the register-tag array, \<^verbatim>\<open>REG64_INDX\<close>, \<^verbatim>\<open>REG32_INDX\<close>,
  \<^verbatim>\<open>REG16_INDX\<close>, \<^verbatim>\<open>REG8_INDX\<close> of \<^verbatim>\<open>libdft_api64.cc\<close>. Every index is within the
  array of 17 entries, whatever register is given, and the maps agree on the parts of one register.
\<close>

subsection \<open>The enumeration\<close>

type_synonym REG = nat

abbreviation (input) REG_INVALID :: REG where "REG_INVALID \<equiv> 0"
abbreviation (input) REG_GR_BASE :: REG where "REG_GR_BASE \<equiv> 3"
abbreviation (input) REG_RDI :: REG where "REG_RDI \<equiv> 3"
abbreviation (input) REG_RSI :: REG where "REG_RSI \<equiv> 4"
abbreviation (input) REG_RBP :: REG where "REG_RBP \<equiv> 5"
abbreviation (input) REG_RSP :: REG where "REG_RSP \<equiv> 6"
abbreviation (input) REG_RBX :: REG where "REG_RBX \<equiv> 7"
abbreviation (input) REG_RDX :: REG where "REG_RDX \<equiv> 8"
abbreviation (input) REG_RCX :: REG where "REG_RCX \<equiv> 9"
abbreviation (input) REG_RAX :: REG where "REG_RAX \<equiv> 10"
abbreviation (input) REG_R8 :: REG where "REG_R8 \<equiv> 11"
abbreviation (input) REG_R9 :: REG where "REG_R9 \<equiv> 12"
abbreviation (input) REG_R10 :: REG where "REG_R10 \<equiv> 13"
abbreviation (input) REG_R11 :: REG where "REG_R11 \<equiv> 14"
abbreviation (input) REG_R12 :: REG where "REG_R12 \<equiv> 15"
abbreviation (input) REG_R13 :: REG where "REG_R13 \<equiv> 16"
abbreviation (input) REG_R14 :: REG where "REG_R14 \<equiv> 17"
abbreviation (input) REG_R15 :: REG where "REG_R15 \<equiv> 18"
abbreviation (input) REG_GR_LAST :: REG where "REG_GR_LAST \<equiv> 18"
abbreviation (input) REG_SEG_BASE :: REG where "REG_SEG_BASE \<equiv> 19"
abbreviation (input) REG_SEG_LAST :: REG where "REG_SEG_LAST \<equiv> 24"
abbreviation (input) REG_RIP :: REG where "REG_RIP \<equiv> 26"
abbreviation (input) REG_IP :: REG where "REG_IP \<equiv> 44"
abbreviation (input) REG_EIP :: REG where "REG_EIP \<equiv> 58"
abbreviation (input) REG_EDI :: REG where "REG_EDI \<equiv> 45"
abbreviation (input) REG_ESI :: REG where "REG_ESI \<equiv> 47"
abbreviation (input) REG_EBP :: REG where "REG_EBP \<equiv> 49"
abbreviation (input) REG_ESP :: REG where "REG_ESP \<equiv> 51"
abbreviation (input) REG_EBX :: REG where "REG_EBX \<equiv> 53"
abbreviation (input) REG_EDX :: REG where "REG_EDX \<equiv> 54"
abbreviation (input) REG_ECX :: REG where "REG_ECX \<equiv> 55"
abbreviation (input) REG_EAX :: REG where "REG_EAX \<equiv> 56"
abbreviation (input) REG_R8D :: REG where "REG_R8D \<equiv> 61"
abbreviation (input) REG_R9D :: REG where "REG_R9D \<equiv> 64"
abbreviation (input) REG_R10D :: REG where "REG_R10D \<equiv> 67"
abbreviation (input) REG_R11D :: REG where "REG_R11D \<equiv> 70"
abbreviation (input) REG_R12D :: REG where "REG_R12D \<equiv> 73"
abbreviation (input) REG_R13D :: REG where "REG_R13D \<equiv> 76"
abbreviation (input) REG_R14D :: REG where "REG_R14D \<equiv> 79"
abbreviation (input) REG_R15D :: REG where "REG_R15D \<equiv> 82"
abbreviation (input) REG_DI :: REG where "REG_DI \<equiv> 41"
abbreviation (input) REG_SI :: REG where "REG_SI \<equiv> 40"
abbreviation (input) REG_BP :: REG where "REG_BP \<equiv> 39"
abbreviation (input) REG_SP :: REG where "REG_SP \<equiv> 42"
abbreviation (input) REG_BX :: REG where "REG_BX \<equiv> 38"
abbreviation (input) REG_DX :: REG where "REG_DX \<equiv> 35"
abbreviation (input) REG_CX :: REG where "REG_CX \<equiv> 32"
abbreviation (input) REG_AX :: REG where "REG_AX \<equiv> 29"
abbreviation (input) REG_R8W :: REG where "REG_R8W \<equiv> 60"
abbreviation (input) REG_R9W :: REG where "REG_R9W \<equiv> 63"
abbreviation (input) REG_R10W :: REG where "REG_R10W \<equiv> 66"
abbreviation (input) REG_R11W :: REG where "REG_R11W \<equiv> 69"
abbreviation (input) REG_R12W :: REG where "REG_R12W \<equiv> 72"
abbreviation (input) REG_R13W :: REG where "REG_R13W \<equiv> 75"
abbreviation (input) REG_R14W :: REG where "REG_R14W \<equiv> 78"
abbreviation (input) REG_R15W :: REG where "REG_R15W \<equiv> 81"
abbreviation (input) REG_AH :: REG where "REG_AH \<equiv> 28"
abbreviation (input) REG_AL :: REG where "REG_AL \<equiv> 27"
abbreviation (input) REG_CH :: REG where "REG_CH \<equiv> 31"
abbreviation (input) REG_CL :: REG where "REG_CL \<equiv> 30"
abbreviation (input) REG_DH :: REG where "REG_DH \<equiv> 34"
abbreviation (input) REG_DL :: REG where "REG_DL \<equiv> 33"
abbreviation (input) REG_BH :: REG where "REG_BH \<equiv> 37"
abbreviation (input) REG_BL :: REG where "REG_BL \<equiv> 36"
abbreviation (input) REG_DIL :: REG where "REG_DIL \<equiv> 46"
abbreviation (input) REG_SIL :: REG where "REG_SIL \<equiv> 48"
abbreviation (input) REG_BPL :: REG where "REG_BPL \<equiv> 50"
abbreviation (input) REG_SPL :: REG where "REG_SPL \<equiv> 52"
abbreviation (input) REG_R8B :: REG where "REG_R8B \<equiv> 59"
abbreviation (input) REG_R9B :: REG where "REG_R9B \<equiv> 62"
abbreviation (input) REG_R10B :: REG where "REG_R10B \<equiv> 65"
abbreviation (input) REG_R11B :: REG where "REG_R11B \<equiv> 68"
abbreviation (input) REG_R12B :: REG where "REG_R12B \<equiv> 71"
abbreviation (input) REG_R13B :: REG where "REG_R13B \<equiv> 74"
abbreviation (input) REG_R14B :: REG where "REG_R14B \<equiv> 77"
abbreviation (input) REG_R15B :: REG where "REG_R15B \<equiv> 80"
abbreviation (input) REG_MM_BASE :: REG where "REG_MM_BASE \<equiv> 83"
abbreviation (input) REG_MM_LAST :: REG where "REG_MM_LAST \<equiv> 90"
abbreviation (input) REG_XMM_BASE :: REG where "REG_XMM_BASE \<equiv> 100"
abbreviation (input) REG_XMM_LAST :: REG where "REG_XMM_LAST \<equiv> 115"
abbreviation (input) REG_YMM_BASE :: REG where "REG_YMM_BASE \<equiv> 116"
abbreviation (input) REG_YMM_LAST :: REG where "REG_YMM_LAST \<equiv> 131"

subsection \<open>Predicates\<close>

definition REG_is_gr :: "REG \<Rightarrow> bool" where
  "REG_is_gr reg \<longleftrightarrow> REG_GR_BASE \<le> reg \<and> reg \<le> REG_GR_LAST"

definition REG_is_gr64 :: "REG \<Rightarrow> bool" where
  "REG_is_gr64 reg = REG_is_gr reg"

abbreviation (input) gr32_list :: "REG list" where
  "gr32_list \<equiv>
     [REG_EDI, REG_ESI, REG_EBP, REG_ESP, REG_EBX, REG_EDX, REG_ECX, REG_EAX, REG_R8D,
       REG_R9D, REG_R10D, REG_R11D, REG_R12D, REG_R13D, REG_R14D, REG_R15D]"

definition REG_is_gr32 :: "REG \<Rightarrow> bool" where
  "REG_is_gr32 reg \<longleftrightarrow> reg \<in> set gr32_list"

abbreviation (input) gr16_list :: "REG list" where
  "gr16_list \<equiv>
     [REG_DI, REG_SI, REG_BP, REG_SP, REG_BX, REG_DX, REG_CX, REG_AX, REG_R8W,
       REG_R9W, REG_R10W, REG_R11W, REG_R12W, REG_R13W, REG_R14W, REG_R15W]"

definition REG_is_gr16 :: "REG \<Rightarrow> bool" where
  "REG_is_gr16 reg \<longleftrightarrow> reg \<in> set gr16_list"

abbreviation (input) gr8_list :: "REG list" where
  "gr8_list \<equiv>
     [REG_AL, REG_AH, REG_BL, REG_BH, REG_CL, REG_CH, REG_DL, REG_DH, REG_SIL,
       REG_DIL, REG_SPL, REG_BPL, REG_R8B, REG_R9B, REG_R10B, REG_R11B, REG_R12B,
       REG_R13B, REG_R14B, REG_R15B]"

definition REG_is_gr8 :: "REG \<Rightarrow> bool" where
  "REG_is_gr8 reg \<longleftrightarrow> reg \<in> set gr8_list"

definition REG_is_seg :: "REG \<Rightarrow> bool" where
  "REG_is_seg reg \<longleftrightarrow> REG_SEG_BASE \<le> reg \<and> reg \<le> REG_SEG_LAST"

definition REG_is_mm :: "REG \<Rightarrow> bool" where
  "REG_is_mm reg \<longleftrightarrow> REG_MM_BASE \<le> reg \<and> reg \<le> REG_MM_LAST"

definition REG_is_xmm :: "REG \<Rightarrow> bool" where
  "REG_is_xmm reg \<longleftrightarrow> REG_XMM_BASE \<le> reg \<and> reg \<le> REG_XMM_LAST"

definition REG_is_ymm :: "REG \<Rightarrow> bool" where
  "REG_is_ymm reg \<longleftrightarrow> REG_YMM_BASE \<le> reg \<and> reg \<le> REG_YMM_LAST"

subsection \<open>Indices of the register tags\<close>

abbreviation (input) SCRATCH_REG :: nat where "SCRATCH_REG \<equiv> 16"

text \<open>The difference is converted to \<^verbatim>\<open>size_t\<close>, so a register below the base wraps to a large index.\<close>

definition REG64_INDX :: "REG \<Rightarrow> nat" where
  "REG64_INDX reg =
     (let indx = unat (word_of_int (int reg - int REG_GR_BASE) :: 64 word)
      in if indx > 16 then SCRATCH_REG else indx)"

definition REG32_INDX :: "REG \<Rightarrow> nat" where
  "REG32_INDX reg =
     (if reg = REG_EDI then 0
      else if reg = REG_ESI then 1
      else if reg = REG_EBP then 2
      else if reg = REG_ESP then 3
      else if reg = REG_EBX then 4
      else if reg = REG_EDX then 5
      else if reg = REG_ECX then 6
      else if reg = REG_EAX then 7
      else if reg = REG_R8D then 8
      else if reg = REG_R9D then 9
      else if reg = REG_R10D then 10
      else if reg = REG_R11D then 11
      else if reg = REG_R12D then 12
      else if reg = REG_R13D then 13
      else if reg = REG_R14D then 14
      else if reg = REG_R15D then 15
      else SCRATCH_REG)"

definition REG16_INDX :: "REG \<Rightarrow> nat" where
  "REG16_INDX reg =
     (if reg = REG_DI then 0
      else if reg = REG_SI then 1
      else if reg = REG_BP then 2
      else if reg = REG_SP then 3
      else if reg = REG_BX then 4
      else if reg = REG_DX then 5
      else if reg = REG_CX then 6
      else if reg = REG_AX then 7
      else if reg = REG_R8W then 8
      else if reg = REG_R9W then 9
      else if reg = REG_R10W then 10
      else if reg = REG_R11W then 11
      else if reg = REG_R12W then 12
      else if reg = REG_R13W then 13
      else if reg = REG_R14W then 14
      else if reg = REG_R15W then 15
      else SCRATCH_REG)"

definition REG8_INDX :: "REG \<Rightarrow> nat" where
  "REG8_INDX reg =
     (if reg = REG_AH \<or> reg = REG_AL then 7
      else if reg = REG_CH \<or> reg = REG_CL then 6
      else if reg = REG_DH \<or> reg = REG_DL then 5
      else if reg = REG_BH \<or> reg = REG_BL then 4
      else if reg = REG_DIL then 0
      else if reg = REG_SIL then 1
      else if reg = REG_BPL then 2
      else if reg = REG_SPL then 3
      else if reg = REG_R8B then 8
      else if reg = REG_R9B then 9
      else if reg = REG_R10B then 10
      else if reg = REG_R11B then 11
      else if reg = REG_R12B then 12
      else if reg = REG_R13B then 13
      else if reg = REG_R14B then 14
      else if reg = REG_R15B then 15
      else SCRATCH_REG)"

subsection \<open>The kinds of registers exclude each other\<close>

lemma gr_lists_disjoint:
  "\<forall>r\<in>set gr32_list. \<not> REG_is_gr64 r"
  "\<forall>r\<in>set gr16_list. \<not> REG_is_gr64 r \<and> \<not> REG_is_gr32 r"
  "\<forall>r\<in>set gr8_list. \<not> REG_is_gr64 r \<and> \<not> REG_is_gr32 r \<and> \<not> REG_is_gr16 r"
  by (simp_all add: REG_is_gr64_def REG_is_gr_def REG_is_gr32_def REG_is_gr16_def)

lemma gr_disjoint:
  "REG_is_gr32 r \<Longrightarrow> \<not> REG_is_gr64 r"
  "REG_is_gr16 r \<Longrightarrow> \<not> REG_is_gr64 r" "REG_is_gr16 r \<Longrightarrow> \<not> REG_is_gr32 r"
  "REG_is_gr8 r \<Longrightarrow> \<not> REG_is_gr64 r" "REG_is_gr8 r \<Longrightarrow> \<not> REG_is_gr32 r"
  "REG_is_gr8 r \<Longrightarrow> \<not> REG_is_gr16 r"
  using gr_lists_disjoint(1) [rule_format, OF REG_is_gr32_def [THEN iffD1], of r]
    gr_lists_disjoint(2) [rule_format, OF REG_is_gr16_def [THEN iffD1], of r]
    gr_lists_disjoint(3) [rule_format, OF REG_is_gr8_def [THEN iffD1], of r]
  by blast+

subsection \<open>Bounds and agreement\<close>

lemma REG_INDX_less [simp]:
  "REG64_INDX reg < 17" "REG32_INDX reg < 17" "REG16_INDX reg < 17" "REG8_INDX reg < 17"
  by (auto simp: REG64_INDX_def REG32_INDX_def REG16_INDX_def REG8_INDX_def Let_def)

lemma REG64_INDX_gr: "REG_is_gr64 reg \<Longrightarrow> REG64_INDX reg = reg - 3"
proof -
  assume "REG_is_gr64 reg"
  then have b: "3 \<le> reg" "reg \<le> 18" by (auto simp: REG_is_gr64_def REG_is_gr_def)
  then have "word_of_int (int reg - int 3) = (of_nat (reg - 3) :: 64 word)"
    by (simp add: of_nat_diff)
  then have "unat (word_of_int (int reg - int 3) :: 64 word) = reg - 3"
    using b by (simp only: unat_of_nat) simp
  then show ?thesis
    using b by (simp only: REG64_INDX_def Let_def) simp
qed

text \<open>
  The register whose parts the maps identify: the four names of one general purpose register
  have one index, which is the position of its 64-bit name in the enumeration.
\<close>

definition gpr_names :: "(REG \<times> REG \<times> REG \<times> REG list) list" where
  "gpr_names =
     [(REG_RDI, REG_EDI, REG_DI, [REG_DIL]), (REG_RSI, REG_ESI, REG_SI, [REG_SIL]),
      (REG_RBP, REG_EBP, REG_BP, [REG_BPL]), (REG_RSP, REG_ESP, REG_SP, [REG_SPL]),
      (REG_RBX, REG_EBX, REG_BX, [REG_BL, REG_BH]), (REG_RDX, REG_EDX, REG_DX, [REG_DL, REG_DH]),
      (REG_RCX, REG_ECX, REG_CX, [REG_CL, REG_CH]), (REG_RAX, REG_EAX, REG_AX, [REG_AL, REG_AH]),
      (REG_R8, REG_R8D, REG_R8W, [REG_R8B]), (REG_R9, REG_R9D, REG_R9W, [REG_R9B]),
      (REG_R10, REG_R10D, REG_R10W, [REG_R10B]), (REG_R11, REG_R11D, REG_R11W, [REG_R11B]),
      (REG_R12, REG_R12D, REG_R12W, [REG_R12B]), (REG_R13, REG_R13D, REG_R13W, [REG_R13B]),
      (REG_R14, REG_R14D, REG_R14W, [REG_R14B]), (REG_R15, REG_R15D, REG_R15W, [REG_R15B])]"

lemma length_gpr_names [simp]: "length gpr_names = 16"
  by (simp add: gpr_names_def)

end
