(* ===== verification/TagTraits.thy ===== *)
theory TagTraits
  imports Prelude
begin

text \<open>
  Tag values (\<^verbatim>\<open>tag_traits.h\<close>, \<^verbatim>\<open>tag_traits.cc\<close>). The tool is built four times, with
  \<^verbatim>\<open>tag_t\<close> the type \<^verbatim>\<open>std::set\<close> over 8, 16, 32 and 64 bit units; the model keeps the unit
  type as a parameter. A \<^verbatim>\<open>std::set\<close> is its in-order sequence of elements, strictly
  increasing; \<^verbatim>\<open>tag_combine\<close> runs the merge of \<^verbatim>\<open>std::set_union\<close> through an inserter and
  \<^verbatim>\<open>tag_combine_inplace\<close> inserts a range. The other tag types of the file (bytes and
  bitsets) combine by bitwise or. The locale \<open>tag_algebra\<close> is the contract the
  propagation code relies on: combining is a semilattice with the cleared tag as unit.
\<close>

subsection \<open>Ordered sequences\<close>

fun set_insert :: "'a::linorder \<Rightarrow> 'a list \<Rightarrow> 'a list" where
  "set_insert x [] = [x]"
| "set_insert x (y # ys) =
     (if x < y then x # y # ys else if y < x then y # set_insert x ys else y # ys)"

fun set_union :: "'a::linorder list \<Rightarrow> 'a list \<Rightarrow> 'a list" where
  "set_union [] ys = ys"
| "set_union (x # xs) [] = x # xs"
| "set_union (x # xs) (y # ys) =
     (if x < y then x # set_union xs (y # ys)
      else if y < x then y # set_union (x # xs) ys
      else x # set_union xs ys)"

definition insert_range :: "'a::linorder list \<Rightarrow> 'a list \<Rightarrow> 'a list" where
  "insert_range xs acc = fold set_insert xs acc"

abbreviation strict_sorted :: "'a::linorder list \<Rightarrow> bool" where
  "strict_sorted \<equiv> sorted_wrt (<)"

lemma set_set_insert [simp]: "set (set_insert x xs) = insert x (set xs)"
  by (induction xs) auto

lemma strict_sorted_set_insert [simp]: "strict_sorted xs \<Longrightarrow> strict_sorted (set_insert x xs)"
  by (induction xs) auto

lemma set_set_union [simp]: "set (set_union xs ys) = set xs \<union> set ys"
  by (induction xs ys rule: set_union.induct) auto

lemma strict_sorted_set_union:
  "strict_sorted xs \<Longrightarrow> strict_sorted ys \<Longrightarrow> strict_sorted (set_union xs ys)"
proof (induction xs ys rule: set_union.induct)
  case (3 x xs y ys)
  then show ?case
    by (cases x y rule: linorder_cases)
      (auto dest: order.strict_trans [of x y] order.strict_trans [of y x])
qed simp_all

lemma set_insert_range [simp]: "set (insert_range xs acc) = set xs \<union> set acc"
  by (induction xs arbitrary: acc) (auto simp: insert_range_def)

lemma strict_sorted_insert_range [simp]:
  "strict_sorted acc \<Longrightarrow> strict_sorted (insert_range xs acc)"
  by (induction xs arbitrary: acc) (auto simp: insert_range_def)

lemma strict_sorted_eqI:
  "strict_sorted xs \<Longrightarrow> strict_sorted ys \<Longrightarrow> set xs = set ys \<Longrightarrow> xs = ys"
  by (metis strict_sorted_equal)

subsection \<open>The set tags\<close>

typedef (overloaded) 'a std_set = "{xs :: 'a::linorder list. strict_sorted xs}"
  morphisms elems Std_set
proof
  show "[] \<in> {xs :: 'a list. strict_sorted xs}" by simp
qed

setup_lifting type_definition_std_set

type_synonym 'u tag_t = "'u std_set"

lift_definition cleared_val :: "'u::linorder tag_t" is "[]"
  by simp

lift_definition set_val :: "('u::{linorder, one}) tag_t" is "[1]"
  by simp

lift_definition tag_combine :: "'u::linorder tag_t \<Rightarrow> 'u tag_t \<Rightarrow> 'u tag_t"
  is "\<lambda>lhs rhs. insert_range (set_union lhs rhs) []"
  by simp

lift_definition tag_combine_inplace :: "'u::linorder tag_t \<Rightarrow> 'u tag_t \<Rightarrow> 'u tag_t"
  is "\<lambda>lhs rhs. insert_range rhs lhs"
  by simp

definition tag_members :: "'u::linorder tag_t \<Rightarrow> 'u set" where
  "tag_members t = set (elems t)"

definition tainted :: "'u::linorder tag_t \<Rightarrow> bool" where
  "tainted t \<longleftrightarrow> elems t \<noteq> []"

lemma strict_sorted_elems [simp]: "strict_sorted (elems t)"
  using elems [of t] by simp

lemma tag_eqI: "tag_members s = tag_members t \<Longrightarrow> s = t"
  by (metis elems_inject strict_sorted_elems strict_sorted_eqI tag_members_def)

lemma tag_eq_iff: "s = t \<longleftrightarrow> tag_members s = tag_members t"
  by (auto intro: tag_eqI)

lemma members_cleared [simp]: "tag_members cleared_val = {}"
  by (simp add: tag_members_def cleared_val.rep_eq)

lemma members_set_val [simp]: "tag_members set_val = {1}"
  by (simp add: tag_members_def set_val.rep_eq)

lemma members_combine [simp]: "tag_members (tag_combine s t) = tag_members s \<union> tag_members t"
  by (simp add: tag_members_def tag_combine.rep_eq)

lemma members_combine_inplace [simp]:
  "tag_members (tag_combine_inplace s t) = tag_members s \<union> tag_members t"
  by (auto simp: tag_members_def tag_combine_inplace.rep_eq)

lemma tainted_iff_members: "tainted t \<longleftrightarrow> tag_members t \<noteq> {}"
  by (simp add: tainted_def tag_members_def)

lemma tainted_iff: "tainted t \<longleftrightarrow> t \<noteq> cleared_val"
  by (simp add: tainted_iff_members tag_eq_iff)

lemma tainted_combine [simp]: "tainted (tag_combine s t) \<longleftrightarrow> tainted s \<or> tainted t"
  by (simp add: tainted_iff_members)

lemma not_tainted_cleared [simp]: "\<not> tainted cleared_val"
  by (simp add: tainted_iff)

instantiation std_set :: (linorder) equal
begin

definition equal_std_set :: "'a std_set \<Rightarrow> 'a std_set \<Rightarrow> bool" where
  "equal_std_set s t \<longleftrightarrow> elems s = elems t"

instance
  by standard (simp add: equal_std_set_def elems_inject)

end

subsection \<open>The contract of a tag type\<close>

locale tag_algebra =
  fixes combine :: "'t \<Rightarrow> 't \<Rightarrow> 't"
    and combine_inplace :: "'t \<Rightarrow> 't \<Rightarrow> 't"
    and cleared :: "'t"
  assumes inplace: "combine_inplace s t = combine s t"
    and assoc: "combine (combine s t) u = combine s (combine t u)"
    and commute: "combine s t = combine t s"
    and idem: "combine s s = s"
    and unit: "combine s cleared = s"
begin

lemma unit_left: "combine cleared s = s"
  using unit commute by metis

lemma cleared_only_if_both: "combine s t = cleared \<longleftrightarrow> s = cleared \<and> t = cleared"
  by (metis assoc idem unit unit_left)

lemma absorb: "combine s (combine s t) = combine s t"
  using assoc idem by metis

lemma fold_combine_start: "fold combine ts s = combine s (foldr combine ts cleared)"
proof (induction ts arbitrary: s)
  case Nil
  then show ?case by (simp add: unit)
next
  case (Cons t ts)
  then show ?case by (simp add: assoc commute [of t s])
qed

lemma foldr_combine_append: "foldr combine (xs @ ys) cleared =
    combine (foldr combine xs cleared) (foldr combine ys cleared)"
  by (induction xs) (simp_all add: unit_left assoc)

end

interpretation set_tag: tag_algebra tag_combine tag_combine_inplace cleared_val
  by unfold_locales (auto simp: tag_eq_iff)

lemmas tag_combine_unit [simp] = set_tag.unit set_tag.unit_left

subsection \<open>Byte and bitset tags\<close>

definition tag_combine_uint8 :: "8 word \<Rightarrow> 8 word \<Rightarrow> 8 word" where
  "tag_combine_uint8 lhs rhs = lhs OR rhs"

definition tag_combine_inplace_uint8 :: "8 word \<Rightarrow> 8 word \<Rightarrow> 8 word" where
  "tag_combine_inplace_uint8 lhs rhs = lhs OR rhs"

definition tag_combine_bitset :: "'n::len word \<Rightarrow> 'n word \<Rightarrow> 'n word" where
  "tag_combine_bitset lhs rhs = lhs OR rhs"

definition tag_combine_inplace_bitset :: "'n::len word \<Rightarrow> 'n word \<Rightarrow> 'n word" where
  "tag_combine_inplace_bitset lhs rhs = lhs OR rhs"

interpretation uint8_tag: tag_algebra tag_combine_uint8 tag_combine_inplace_uint8 0
  by unfold_locales
    (simp_all add: tag_combine_uint8_def tag_combine_inplace_uint8_def ac_simps)

interpretation bitset_tag: tag_algebra
  "tag_combine_bitset :: 'n::len word \<Rightarrow> _" tag_combine_inplace_bitset 0
  by unfold_locales
    (simp_all add: tag_combine_bitset_def tag_combine_inplace_bitset_def ac_simps)

subsection \<open>Combining many tags\<close>

definition combine_all :: "'u::linorder tag_t list \<Rightarrow> 'u tag_t" where
  "combine_all ts = foldr tag_combine ts cleared_val"

lemma combine_all_simps [simp]:
  "combine_all [] = cleared_val"
  "combine_all (t # ts) = tag_combine t (combine_all ts)"
  by (simp_all add: combine_all_def)

lemma combine_all_append [simp]:
  "combine_all (xs @ ys) = tag_combine (combine_all xs) (combine_all ys)"
  by (simp add: combine_all_def set_tag.foldr_combine_append del: List.foldr_append)

lemma members_combine_all: "tag_members (combine_all ts) = (\<Union>t\<in>set ts. tag_members t)"
  by (induction ts) auto

lemma combine_all_concat:
  "combine_all (concat (map (map f) xss)) = combine_all (map (\<lambda>xs. combine_all (map f xs)) xss)"
  by (induction xss) auto

end
