(* ===== verification/TagDir.thy ===== *)
theory TagDir
  imports TagTraits
begin

text \<open>
  The shadow memory of the tool as built, \<^verbatim>\<open>tagmap_custom.h\<close>: a directory of 1024 tables of
  1024 pages of 4096 tags, allocated on the first write. Pointers that may be null are
  options. The outcome of \<^verbatim>\<open>new (nothrow)\<close> is an argument of the write: where it returns
  null the code calls \<^verbatim>\<open>libdft_die\<close> and goes on to use the null pointer, which is \<open>None\<close>
  here. The index functions use 32 bits of the 64-bit address, so the directory is a map
  on addresses modulo \<open>2 ^ 32\<close>: that is what the locale \<open>byte_shadow\<close>, the contract the
  tagmap and the analysis routines use, is interpreted with.
\<close>

subsection \<open>Address decomposition\<close>

definition DIR_PAGE_BITS :: nat where "DIR_PAGE_BITS = 12"
definition DIR_PAGE_SZ :: "64 word" where "DIR_PAGE_SZ = push_bit DIR_PAGE_BITS 1"
definition DIR_PAGE_MASK :: "64 word" where "DIR_PAGE_MASK = DIR_PAGE_SZ - 1"
definition DIR_TABLE_BITS :: nat where "DIR_TABLE_BITS = 10"
definition DIR_TABLE_SZ :: "64 word" where "DIR_TABLE_SZ = push_bit DIR_TABLE_BITS 1"
definition DIR_TABLE_MASK :: "64 word" where "DIR_TABLE_MASK = DIR_TABLE_SZ - 1"
definition DIR_BITS :: nat where "DIR_BITS = 10"
definition DIR_SZ :: "64 word" where "DIR_SZ = push_bit DIR_BITS 1"
definition DIR_MASK :: "64 word" where "DIR_MASK = DIR_SZ - 1"

lemmas dir_consts =
  DIR_PAGE_BITS_def DIR_PAGE_SZ_def DIR_PAGE_MASK_def DIR_TABLE_BITS_def DIR_TABLE_SZ_def
  DIR_TABLE_MASK_def DIR_BITS_def DIR_SZ_def DIR_MASK_def

definition virt2table :: "addr \<Rightarrow> 64 word" where
  "virt2table addr = drop_bit (DIR_PAGE_BITS + DIR_TABLE_BITS) addr AND DIR_MASK"

definition virt2page :: "addr \<Rightarrow> 64 word" where
  "virt2page addr = drop_bit DIR_PAGE_BITS addr AND DIR_TABLE_MASK"

definition virt2offset :: "addr \<Rightarrow> 64 word" where
  "virt2offset addr = addr AND DIR_PAGE_MASK"

lemma dir_masks [simp]:
  "DIR_PAGE_MASK = mask 12" "DIR_TABLE_MASK = mask 10" "DIR_MASK = mask 10"
  by (simp_all add: dir_consts mask_eq_exp_minus_1)

lemma unat_and_mask_less: "n < 64 \<Longrightarrow> unat (a AND mask n :: 64 word) < 2 ^ n"
  unfolding take_bit_eq_mask [symmetric] by (simp add: unsigned_take_bit_eq take_bit_nat_def)

lemma virt_in_bounds:
  "unat (virt2table a) < 1024" "unat (virt2page a) < 1024" "unat (virt2offset a) < 4096"
  using unat_and_mask_less [of 10] unat_and_mask_less [of 12]
  by (simp_all add: virt2table_def virt2page_def virt2offset_def)

lemma low_bits_split:
  fixes a b :: "64 word"
  shows "(\<forall>n<32. bit a n = bit b n) \<longleftrightarrow>
     (\<forall>n<10. bit a (22 + n) = bit b (22 + n)) \<and> (\<forall>n<10. bit a (12 + n) = bit b (12 + n)) \<and>
     (\<forall>n<12. bit a n = bit b n)" (is "?l = ?r")
proof
  assume r: ?r
  show ?l
  proof (intro allI impI)
    fix n :: nat
    assume "n < 32"
    then consider "n < 12" | "12 \<le> n" "n - 12 < 10" | "22 \<le> n" "n - 22 < 10" by linarith
    then show "bit a n = bit b n"
      using r [THEN conjunct1, rule_format, of "n - 22"]
        r [THEN conjunct2, THEN conjunct1, rule_format, of "n - 12"]
        r [THEN conjunct2, THEN conjunct2, rule_format, of n]
      by cases auto
  qed
qed simp

lemma and_mask_eq_iff:
  fixes x y :: "64 word"
  assumes "k \<le> 64"
  shows "x AND mask k = y AND mask k \<longleftrightarrow> (\<forall>n<k. bit x n = bit y n)"
proof
  assume eq: "x AND mask k = y AND mask k"
  show "\<forall>n<k. bit x n = bit y n"
  proof (intro allI impI)
    fix n
    assume "n < k"
    moreover from eq have "bit (x AND mask k) n = bit (y AND mask k) n" by simp
    ultimately show "bit x n = bit y n" using assms by (simp add: bit_simps)
  qed
qed (auto simp: bit_eq_iff bit_simps)

lemma virt_eq_iff:
  "virt2table a = virt2table b \<and> virt2page a = virt2page b \<and> virt2offset a = virt2offset b \<longleftrightarrow>
   (ucast a :: 32 word) = ucast b"
proof -
  have "virt2table a = virt2table b \<longleftrightarrow> (\<forall>n<10. bit a (22 + n) = bit b (22 + n))"
    by (simp add: virt2table_def DIR_PAGE_BITS_def DIR_TABLE_BITS_def and_mask_eq_iff bit_simps)
  moreover have "virt2page a = virt2page b \<longleftrightarrow> (\<forall>n<10. bit a (12 + n) = bit b (12 + n))"
    by (simp add: virt2page_def DIR_PAGE_BITS_def and_mask_eq_iff bit_simps)
  moreover have "virt2offset a = virt2offset b \<longleftrightarrow> (\<forall>n<12. bit a n = bit b n)"
    by (simp add: virt2offset_def and_mask_eq_iff bit_simps)
  moreover have "(ucast a :: 32 word) = ucast b \<longleftrightarrow> (\<forall>n<32. bit a n = bit b n)"
    by (auto simp: bit_eq_iff bit_simps)
  ultimately show ?thesis
    by (simp only: low_bits_split)
qed

subsection \<open>The directory\<close>

type_synonym 'u tag_page_t = "64 word \<Rightarrow> 'u tag_t"
type_synonym 'u tag_table_t = "64 word \<Rightarrow> 'u tag_page_t option"
type_synonym 'u tag_dir_t = "64 word \<Rightarrow> 'u tag_table_t option"

definition tag_dir_init :: "'u::linorder tag_dir_t" where
  "tag_dir_init = (\<lambda>_. None)"

definition tag_dir_getb_as_ptr :: "'u::linorder tag_dir_t \<Rightarrow> addr \<Rightarrow> 'u tag_t" where
  "tag_dir_getb_as_ptr dir addr =
     (case dir (virt2table addr) of
        Some table \<Rightarrow>
          (case table (virt2page addr) of
             Some page \<Rightarrow> page (virt2offset addr)
           | None \<Rightarrow> cleared_val)
      | None \<Rightarrow> cleared_val)"

definition tag_dir_getb :: "'u::linorder tag_dir_t \<Rightarrow> addr \<Rightarrow> 'u tag_t" where
  "tag_dir_getb dir addr = tag_dir_getb_as_ptr dir addr"

record new_outcome =
  new_table_ok :: bool
  new_page_ok :: bool

definition tag_dir_setb ::
  "new_outcome \<Rightarrow> 'u::linorder tag_dir_t \<Rightarrow> addr \<Rightarrow> 'u tag_t \<Rightarrow> 'u tag_dir_t option" where
  "tag_dir_setb new dir addr tag =
     do {
       dir \<leftarrow> (if dir (virt2table addr) = None
              then if new_table_ok new then Some (dir(virt2table addr \<mapsto> (\<lambda>_. None))) else None
              else Some dir);
       table \<leftarrow> dir (virt2table addr);
       table \<leftarrow> (if table (virt2page addr) = None
                then if new_page_ok new then Some (table(virt2page addr \<mapsto> (\<lambda>_. cleared_val))) else None
                else Some table);
       page \<leftarrow> table (virt2page addr);
       Some (dir(virt2table addr \<mapsto> table(virt2page addr \<mapsto> page(virt2offset addr := tag))))
     }"

definition mapped :: "'u tag_dir_t \<Rightarrow> addr \<Rightarrow> bool" where
  "mapped dir addr \<longleftrightarrow>
     (case dir (virt2table addr) of Some table \<Rightarrow> table (virt2page addr) \<noteq> None | None \<Rightarrow> False)"

lemma tag_dir_getb_init [simp]: "tag_dir_getb tag_dir_init a = cleared_val"
  by (simp add: tag_dir_getb_def tag_dir_getb_as_ptr_def tag_dir_init_def)

lemma tag_dir_setb_get:
  assumes "tag_dir_setb new dir a t = Some dir'"
  shows "tag_dir_getb dir' b = (if (ucast a :: 32 word) = ucast b then t else tag_dir_getb dir b)"
  using assms unfolding virt_eq_iff [symmetric]
  by (auto simp: tag_dir_setb_def tag_dir_getb_def tag_dir_getb_as_ptr_def
      split: option.splits if_splits bind_splits)

lemma tag_dir_setb_mapped:
  "mapped dir a \<Longrightarrow> \<exists>dir'. tag_dir_setb new dir a t = Some dir'"
  by (auto simp: tag_dir_setb_def mapped_def split: option.splits)

lemma tag_dir_setb_total:
  "new_table_ok new \<Longrightarrow> new_page_ok new \<Longrightarrow> \<exists>dir'. tag_dir_setb new dir a t = Some dir'"
  by (auto simp: tag_dir_setb_def)

lemma tag_dir_setb_fails:
  "\<not> mapped dir a \<Longrightarrow> \<not> new_page_ok new \<Longrightarrow> tag_dir_setb new dir a t = None"
  by (auto simp: tag_dir_setb_def mapped_def split: option.splits)

subsection \<open>The byte-granular contract\<close>

locale byte_shadow =
  fixes getb :: "'m \<Rightarrow> addr \<Rightarrow> 't"
    and setb :: "'m \<Rightarrow> addr \<Rightarrow> 't \<Rightarrow> 'm"
    and key :: "addr \<Rightarrow> 'k"
  assumes get_set: "getb (setb m a t) b = (if key a = key b then t else getb m b)"
begin

lemma get_set_same: "getb (setb m a t) a = t"
  by (simp add: get_set)

lemma get_set_other: "key a \<noteq> key b \<Longrightarrow> getb (setb m a t) b = getb m b"
  by (simp add: get_set)

lemma get_fold_set:
  "getb (fold (\<lambda>a m. setb m a t) as m) b = (if key b \<in> key ` set as then t else getb m b)"
  by (induction as arbitrary: m) (auto simp: get_set)

end

text \<open>Writing with an allocator that succeeds, the form the analysis routines use.\<close>

definition alloc_ok :: new_outcome where
  "alloc_ok = \<lparr>new_table_ok = True, new_page_ok = True\<rparr>"

definition setb :: "'u::linorder tag_dir_t \<Rightarrow> addr \<Rightarrow> 'u tag_t \<Rightarrow> 'u tag_dir_t" where
  "setb dir a t = the (tag_dir_setb alloc_ok dir a t)"

lemma tag_dir_setb_ok [simp]: "tag_dir_setb alloc_ok dir a t = Some (setb dir a t)"
  using tag_dir_setb_total [of alloc_ok dir a t] by (auto simp: setb_def alloc_ok_def)

interpretation dir_shadow: byte_shadow tag_dir_getb setb "\<lambda>a. (ucast a :: 32 word)"
  by unfold_locales (rule tag_dir_setb_get [OF tag_dir_setb_ok])

end
