(* ===== verification/TagMap.thy ===== *)
theory TagMap
  imports TagDir
begin

text \<open>
  The tagmap API of the tool as built (\<^verbatim>\<open>tagmap64.cc\<close> with \<^verbatim>\<open>USE_CUSTOM_TAG\<close>): byte, word,
  long, quad and range operations on the directory of \<^verbatim>\<open>tagmap_custom.h\<close>, with an
  allocator that succeeds. The loop of the range operations compares 64-bit addresses, so
  a range that wraps around the address space is an empty loop.
\<close>

subsection \<open>Operations\<close>

definition tagmap_alloc :: int where
  "tagmap_alloc = 0"

definition tagmap_free :: "'u tag_dir_t \<Rightarrow> 'u tag_dir_t" where
  "tagmap_free dir = dir"

definition tagmap_setb :: "'u::{linorder, one} tag_dir_t \<Rightarrow> addr \<Rightarrow> 'u tag_dir_t" where
  "tagmap_setb dir addr = setb dir addr set_val"

definition tagmap_setb_with_tags ::
  "'u::linorder tag_dir_t \<Rightarrow> addr \<Rightarrow> 'u tag_t \<Rightarrow> 'u tag_dir_t" where
  "tagmap_setb_with_tags dir addr tags = setb dir addr tags"

definition tagmap_clrb :: "'u::linorder tag_dir_t \<Rightarrow> addr \<Rightarrow> 'u tag_dir_t" where
  "tagmap_clrb dir addr = setb dir addr cleared_val"

definition tagmap_getb :: "'u::linorder tag_dir_t \<Rightarrow> addr \<Rightarrow> 'u tag_t" where
  "tagmap_getb dir addr = tag_dir_getb dir addr"

definition tagmap_getb_as_ptr :: "'u::linorder tag_dir_t \<Rightarrow> addr \<Rightarrow> 'u tag_t" where
  "tagmap_getb_as_ptr dir addr = tag_dir_getb_as_ptr dir addr"

definition tagmap_setw :: "'u::{linorder, one} tag_dir_t \<Rightarrow> addr \<Rightarrow> 'u tag_dir_t" where
  "tagmap_setw dir addr = (let dir = tagmap_setb dir addr in tagmap_setb dir (addr + 1))"

definition tagmap_clrw :: "'u::linorder tag_dir_t \<Rightarrow> addr \<Rightarrow> 'u tag_dir_t" where
  "tagmap_clrw dir addr = (let dir = tagmap_clrb dir addr in tagmap_clrb dir (addr + 1))"

definition tagmap_getw :: "'u::linorder tag_dir_t \<Rightarrow> addr \<Rightarrow> 'u tag_t" where
  "tagmap_getw dir addr = tag_combine (tagmap_getb dir addr) (tagmap_getb dir (addr + 1))"

definition tagmap_setl :: "'u::{linorder, one} tag_dir_t \<Rightarrow> addr \<Rightarrow> 'u tag_dir_t" where
  "tagmap_setl dir addr = (let dir = tagmap_setw dir addr in tagmap_setw dir (addr + 2))"

definition tagmap_clrl :: "'u::linorder tag_dir_t \<Rightarrow> addr \<Rightarrow> 'u tag_dir_t" where
  "tagmap_clrl dir addr = (let dir = tagmap_clrw dir addr in tagmap_clrw dir (addr + 2))"

definition tagmap_getl :: "'u::linorder tag_dir_t \<Rightarrow> addr \<Rightarrow> 'u tag_t" where
  "tagmap_getl dir addr = tag_combine (tagmap_getw dir addr) (tagmap_getw dir (addr + 2))"

definition tagmap_setq :: "'u::{linorder, one} tag_dir_t \<Rightarrow> addr \<Rightarrow> 'u tag_dir_t" where
  "tagmap_setq dir addr = (let dir = tagmap_setl dir addr in tagmap_setl dir (addr + 4))"

definition tagmap_clrq :: "'u::linorder tag_dir_t \<Rightarrow> addr \<Rightarrow> 'u tag_dir_t" where
  "tagmap_clrq dir addr = (let dir = tagmap_clrl dir addr in tagmap_clrl dir (addr + 4))"

definition tagmap_getq :: "'u::linorder tag_dir_t \<Rightarrow> addr \<Rightarrow> 'u tag_t" where
  "tagmap_getq dir addr = tag_combine (tagmap_getl dir addr) (tagmap_getl dir (addr + 4))"

function for_addr :: "(addr \<Rightarrow> 'm \<Rightarrow> 'm) \<Rightarrow> addr \<Rightarrow> addr \<Rightarrow> 'm \<Rightarrow> 'm" where
  "for_addr f i e m = (if i < e then for_addr f (i + 1) e (f i m) else m)"
  by pat_completeness auto
termination
proof (relation "measure (\<lambda>(f, i, e, m). unat e - unat i)")
  fix f :: "addr \<Rightarrow> 'm \<Rightarrow> 'm" and i e :: addr and m :: 'm
  assume less: "i < e"
  then have "unat (i + 1) = unat i + 1"
    by (rule unat_Suc_less)
  with less show "((f, i + 1, e, f i m), f, i, e, m) \<in> measure (\<lambda>(f, i, e, m). unat e - unat i)"
    by (simp add: word_less_nat_alt)
qed simp

declare for_addr.simps [simp del]

definition tagmap_setn :: "'u::{linorder, one} tag_dir_t \<Rightarrow> addr \<Rightarrow> 64 word \<Rightarrow> 'u tag_dir_t" where
  "tagmap_setn dir addr num = for_addr (\<lambda>i dir. tagmap_setb dir i) addr (addr + num) dir"

definition tagmap_clrn :: "'u::linorder tag_dir_t \<Rightarrow> addr \<Rightarrow> 64 word \<Rightarrow> 'u tag_dir_t" where
  "tagmap_clrn dir addr num = for_addr (\<lambda>i dir. tagmap_clrb dir i) addr (addr + num) dir"

subsection \<open>The range loop\<close>

lemma for_addr_fold: "for_addr f i e m = fold f (map of_nat [unat i..<unat e]) m"
proof (induction f i e m rule: for_addr.induct)
  case (1 f i e m)
  show ?case
  proof (cases "i < e")
    case True
    then have "[unat i..<unat e] = unat i # [unat (i + 1)..<unat e]"
      by (simp add: unat_Suc_less upt_conv_Cons word_less_nat_alt)
    with True 1 show ?thesis
      by (simp add: for_addr.simps [of f i e m])
  next
    case False
    then have "unat e \<le> unat i"
      by (simp add: word_less_nat_alt)
    with False show ?thesis
      by (simp add: for_addr.simps [of f i e m])
  qed
qed

lemma get_for_addr_setb:
  "tag_dir_getb (for_addr (\<lambda>i dir. setb dir i t) a (a + n) dir) b =
     (if \<exists>i. a \<le> i \<and> i < a + n \<and> (ucast i :: 32 word) = ucast b then t else tag_dir_getb dir b)"
proof -
  have "(\<exists>k\<in>{unat a..<unat (a + n)}. (ucast (of_nat k :: addr) :: 32 word) = ucast b) \<longleftrightarrow>
      (\<exists>i. a \<le> i \<and> i < a + n \<and> (ucast i :: 32 word) = ucast b)" (is "?l = ?r")
  proof
    assume ?l
    then obtain k where k: "unat a \<le> k" "k < unat (a + n)"
      "(ucast (of_nat k :: addr) :: 32 word) = ucast b" by auto
    then have "unat (of_nat k :: addr) = k"
      by (simp add: unat_of_nat_below)
    with k show ?r
      by (intro exI [of _ "of_nat k"]) (simp add: word_le_nat_alt word_less_nat_alt)
  next
    assume ?r
    then obtain i where "a \<le> i" "i < a + n" "(ucast i :: 32 word) = ucast b" by auto
    then show ?l
      by (intro bexI [of _ "unat i"]) (simp_all add: word_le_nat_alt word_less_nat_alt)
  qed
  moreover have "tag_dir_getb (for_addr (\<lambda>i dir. setb dir i t) a (a + n) dir) b =
      (if \<exists>k\<in>{unat a..<unat (a + n)}. (ucast (of_nat k :: addr) :: 32 word) = ucast b
       then t else tag_dir_getb dir b)"
    unfolding for_addr_fold dir_shadow.get_fold_set by (auto simp: image_iff)
  ultimately show ?thesis by simp
qed

subsection \<open>The quad-word operations as loops over bytes\<close>

lemma tagmap_setq_fold:
  "tagmap_setq dir a = fold (\<lambda>b m. setb m b set_val) (map (\<lambda>i. a + of_nat i) [0..<8]) dir"
  by (simp add: tagmap_setq_def tagmap_setl_def tagmap_setw_def tagmap_setb_def upts ac_simps)

lemma tagmap_clrq_fold:
  "tagmap_clrq dir a = fold (\<lambda>b m. setb m b cleared_val) (map (\<lambda>i. a + of_nat i) [0..<8]) dir"
  by (simp add: tagmap_clrq_def tagmap_clrl_def tagmap_clrw_def tagmap_clrb_def upts ac_simps)

lemma tagmap_getq_all:
  "tagmap_getq dir a = combine_all (map (\<lambda>i. tagmap_getb dir (a + of_nat i)) [0..<8])"
  by (simp add: tagmap_getq_def tagmap_getl_def tagmap_getw_def upts set_tag.assoc ac_simps)

end
