(* ===== verification/TaintState.thy ===== *)
theory TaintState
  imports TagMap
begin

text \<open>
  The state the analysis routines of \<^verbatim>\<open>libdft_core64.cc\<close> work on: the register tags of the
  running thread (\<^verbatim>\<open>vcpu_ctx_t.gpr\<close> of \<^verbatim>\<open>libdft_api64.h\<close>, 17 registers of 8 byte tags) and the
  global shadow directory, with the accessor macros (\<^verbatim>\<open>RTAG\<close>, \<^verbatim>\<open>R16TAG\<close> \dots, \<^verbatim>\<open>M8TAG\<close>
  \dots) and the element loops of the routines. Indexing a register array out of bounds is
  undefined behaviour in the source and \<open>None\<close> here.

  The second half is the abstract specification: a data flow lists, for each byte location
  written, the locations whose tags are combined into it; \<open>apply_flow\<close> performs it as one
  parallel assignment. Every routine is shown equal to the parallel assignment of its flow.
\<close>

subsection \<open>Registers\<close>

abbreviation (input) GPR_EDI :: nat where "GPR_EDI \<equiv> 0"
abbreviation (input) GPR_ESI :: nat where "GPR_ESI \<equiv> 1"
abbreviation (input) GPR_EBP :: nat where "GPR_EBP \<equiv> 2"
abbreviation (input) GPR_ESP :: nat where "GPR_ESP \<equiv> 3"
abbreviation (input) GPR_EBX :: nat where "GPR_EBX \<equiv> 4"
abbreviation (input) GPR_EDX :: nat where "GPR_EDX \<equiv> 5"
abbreviation (input) GPR_ECX :: nat where "GPR_ECX \<equiv> 6"
abbreviation (input) GPR_EAX :: nat where "GPR_EAX \<equiv> 7"
abbreviation (input) GPR_NUM :: nat where "GPR_NUM \<equiv> 16"
abbreviation (input) GPR_SCRATCH :: nat where "GPR_SCRATCH \<equiv> 16"
abbreviation (input) TAGS_PER_GPR :: nat where "TAGS_PER_GPR \<equiv> 8"

record (overloaded) 'u taint_state =
  gpr :: "nat \<Rightarrow> nat \<Rightarrow> 'u tag_t"
  tag_dir :: "'u tag_dir_t"

definition RTAG :: "'u::linorder taint_state \<Rightarrow> nat \<Rightarrow> nat \<Rightarrow> 'u tag_t option" where
  "RTAG tc r i = (if r < GPR_NUM + 1 \<and> i < TAGS_PER_GPR then Some (gpr tc r i) else None)"

definition set_RTAG ::
  "'u::linorder taint_state \<Rightarrow> nat \<Rightarrow> nat \<Rightarrow> 'u tag_t \<Rightarrow> 'u taint_state option" where
  "set_RTAG tc r i t =
     (if r < GPR_NUM + 1 \<and> i < TAGS_PER_GPR
      then Some (tc\<lparr>gpr := (gpr tc)(r := (gpr tc r)(i := t))\<rparr>) else None)"

fun RTAGs :: "'u::linorder taint_state \<Rightarrow> nat \<Rightarrow> nat list \<Rightarrow> 'u tag_t list option" where
  "RTAGs tc r [] = Some []"
| "RTAGs tc r (i # is) = do { t \<leftarrow> RTAG tc r i; ts \<leftarrow> RTAGs tc r is; Some (t # ts) }"

definition R16TAG :: "'u::linorder taint_state \<Rightarrow> nat \<Rightarrow> 'u tag_t list option" where
  "R16TAG tc r = RTAGs tc r [0, 1]"

definition R32TAG :: "'u::linorder taint_state \<Rightarrow> nat \<Rightarrow> 'u tag_t list option" where
  "R32TAG tc r = RTAGs tc r [0, 1, 2, 3]"

definition R64TAG :: "'u::linorder taint_state \<Rightarrow> nat \<Rightarrow> 'u tag_t list option" where
  "R64TAG tc r = RTAGs tc r [0, 1, 2, 3, 4, 5, 6, 7]"

text \<open>\<^verbatim>\<open>for (i = 0; i < n; i++) RTAG[r][i] = ts[i]\<close>, from index \<open>i\<close> on.\<close>

fun set_RTAGs ::
  "'u::linorder taint_state \<Rightarrow> nat \<Rightarrow> nat \<Rightarrow> 'u tag_t list \<Rightarrow> 'u taint_state option" where
  "set_RTAGs tc r i [] = Some tc"
| "set_RTAGs tc r i (t # ts) = do { tc \<leftarrow> set_RTAG tc r i t; set_RTAGs tc r (i + 1) ts }"

text \<open>\<^verbatim>\<open>for (i = m; i < n; i++)\<close> with a body that may fail.\<close>

fun iterM :: "('i \<Rightarrow> 's \<Rightarrow> 's option) \<Rightarrow> 'i list \<Rightarrow> 's \<Rightarrow> 's option" where
  "iterM f [] s = Some s"
| "iterM f (i # is) s = do { s \<leftarrow> f i s; iterM f is s }"

definition for_upto :: "nat \<Rightarrow> nat \<Rightarrow> (nat \<Rightarrow> 's \<Rightarrow> 's option) \<Rightarrow> 's \<Rightarrow> 's option" where
  "for_upto m n f s = iterM f [m..<n] s"

subsection \<open>Memory\<close>

definition M8TAG :: "'u::linorder taint_state \<Rightarrow> addr \<Rightarrow> 'u tag_t" where
  "M8TAG tc a = tag_dir_getb (tag_dir tc) a"

definition M16TAG :: "'u::linorder taint_state \<Rightarrow> addr \<Rightarrow> 'u tag_t list" where
  "M16TAG tc a = [M8TAG tc a, M8TAG tc (a + 1)]"

definition M32TAG :: "'u::linorder taint_state \<Rightarrow> addr \<Rightarrow> 'u tag_t list" where
  "M32TAG tc a = [M8TAG tc a, M8TAG tc (a + 1), M8TAG tc (a + 2), M8TAG tc (a + 3)]"

definition M64TAG :: "'u::linorder taint_state \<Rightarrow> addr \<Rightarrow> 'u tag_t list" where
  "M64TAG tc a =
     [M8TAG tc a, M8TAG tc (a + 1), M8TAG tc (a + 2), M8TAG tc (a + 3),
      M8TAG tc (a + 4), M8TAG tc (a + 5), M8TAG tc (a + 6), M8TAG tc (a + 7)]"

definition set_MTAG ::
  "'u::linorder taint_state \<Rightarrow> addr \<Rightarrow> 'u tag_t \<Rightarrow> 'u taint_state option" where
  "set_MTAG tc a t =
     do { d \<leftarrow> tag_dir_setb alloc_ok (tag_dir tc) a t; Some (tc\<lparr>tag_dir := d\<rparr>) }"

text \<open>\<^verbatim>\<open>for (i = 0; i < n; i++) tag_dir_setb(tag_dir, a + i, ts[i])\<close>, from index \<open>i\<close> on.\<close>

fun set_MTAGs ::
  "'u::linorder taint_state \<Rightarrow> addr \<Rightarrow> nat \<Rightarrow> 'u tag_t list \<Rightarrow> 'u taint_state option" where
  "set_MTAGs tc a i [] = Some tc"
| "set_MTAGs tc a i (t # ts) =
     do { tc \<leftarrow> set_MTAG tc (a + of_nat i) t; set_MTAGs tc a (i + 1) ts }"

subsection \<open>Locations and data flows\<close>

datatype loc = Reg nat nat | Mem addr

type_synonym flow = "(loc \<times> loc list) list"

fun norm_loc :: "loc \<Rightarrow> loc" where
  "norm_loc (Reg r i) = Reg r i"
| "norm_loc (Mem a) = Mem (ucast (ucast a :: 32 word))"

fun tag_of :: "'u::linorder taint_state \<Rightarrow> loc \<Rightarrow> 'u tag_t" where
  "tag_of tc (Reg r i) = gpr tc r i"
| "tag_of tc (Mem a) = tag_dir_getb (tag_dir tc) a"

fun put :: "loc \<Rightarrow> 'u::linorder tag_t \<Rightarrow> 'u taint_state \<Rightarrow> 'u taint_state" where
  "put (Reg r i) t tc = tc\<lparr>gpr := (gpr tc)(r := (gpr tc r)(i := t))\<rparr>"
| "put (Mem a) t tc = tc\<lparr>tag_dir := setb (tag_dir tc) a t\<rparr>"

declare tag_of.simps [simp del] put.simps [simp del]

definition apply_flow :: "flow \<Rightarrow> 'u::linorder taint_state \<Rightarrow> 'u taint_state" where
  "apply_flow F tc = fold (\<lambda>(l, srcs). put l (combine_all (map (tag_of tc) srcs))) F tc"

definition flow_at :: "flow \<Rightarrow> loc \<Rightarrow> loc list" where
  "flow_at F l =
     (case find (\<lambda>(l', _). norm_loc l' = norm_loc l) (rev F) of
        None \<Rightarrow> [l] | Some (_, srcs) \<Rightarrow> srcs)"

definition loc_ok :: "loc \<Rightarrow> bool" where
  "loc_ok l \<longleftrightarrow> (case l of Reg r i \<Rightarrow> r < GPR_NUM + 1 \<and> i < TAGS_PER_GPR | Mem a \<Rightarrow> True)"

lemma norm_Mem_eq: "norm_loc (Mem a) = norm_loc (Mem b) \<longleftrightarrow> (ucast a :: 32 word) = ucast b"
  by (simp add: ucast_64_inject)

lemma norm_Reg_eq [simp]: "norm_loc (Reg r i) = norm_loc l \<longleftrightarrow> l = Reg r i"
  "norm_loc l = Reg r i \<longleftrightarrow> l = Reg r i" "Reg r i = norm_loc l \<longleftrightarrow> l = Reg r i"
  by (cases l; auto)+

lemma tag_of_put:
  "tag_of (put l t tc) l' = (if norm_loc l = norm_loc l' then t else tag_of tc l')"
  by (cases l; cases l')
    (auto simp: tag_of.simps put.simps norm_Mem_eq dir_shadow.get_set simp del: norm_loc.simps(2))

lemma tag_of_put_Reg [simp]:
  "tag_of (put (Reg r i) t tc) (Reg r' i') = (if r = r' \<and> i = i' then t else tag_of tc (Reg r' i'))"
  "tag_of (put (Reg r i) t tc) (Mem a) = tag_of tc (Mem a)"
  "tag_of (put (Mem a) t tc) (Reg r i) = tag_of tc (Reg r i)"
  by (auto simp: tag_of_put)

lemma tag_of_fold_put:
  "tag_of (fold (\<lambda>(l, srcs). put l (f srcs)) F tc) l =
     (case find (\<lambda>(l', _). norm_loc l' = norm_loc l) (rev F) of
        None \<Rightarrow> tag_of tc l | Some (_, srcs) \<Rightarrow> f srcs)"
proof (induction F arbitrary: tc)
  case Nil
  then show ?case by simp
next
  case (Cons x F)
  then show ?case
    by (cases x) (simp add: find_append_conv tag_of_put split: option.split)
qed

text \<open>What a flow does to each location: the tags at its sources are combined.\<close>

lemma tag_of_apply_flow:
  "tag_of (apply_flow F tc) l = combine_all (map (tag_of tc) (flow_at F l))"
  by (auto simp: apply_flow_def tag_of_fold_put flow_at_def split: option.split)

subsection \<open>Accessors as writes and reads of locations\<close>

lemma RTAG_ok [simp]:
  "r < 17 \<Longrightarrow> i < 8 \<Longrightarrow> RTAG tc r i = Some (tag_of tc (Reg r i))"
  by (simp add: RTAG_def tag_of.simps)

lemma set_RTAG_ok [simp]:
  "r < 17 \<Longrightarrow> i < 8 \<Longrightarrow> set_RTAG tc r i t = Some (put (Reg r i) t tc)"
  by (simp add: set_RTAG_def put.simps)

lemma RTAG_oob [simp]: "17 \<le> r \<Longrightarrow> RTAG tc r i = None"
  by (simp add: RTAG_def)

lemma set_RTAG_oob [simp]: "17 \<le> r \<Longrightarrow> set_RTAG tc r i t = None"
  by (simp add: set_RTAG_def)

lemma M8TAG_tag_of [simp]: "M8TAG tc a = tag_of tc (Mem a)"
  by (simp add: M8TAG_def tag_of.simps)

lemma set_MTAG_ok [simp]: "set_MTAG tc a t = Some (put (Mem a) t tc)"
  by (simp add: set_MTAG_def put.simps)

subsection \<open>Common shapes of flows\<close>

definition copy_rr :: "nat \<Rightarrow> nat \<Rightarrow> nat \<Rightarrow> flow" where
  "copy_rr d s n = map (\<lambda>i. (Reg d i, [Reg s i])) [0..<n]"

definition copy_mr :: "nat \<Rightarrow> addr \<Rightarrow> nat \<Rightarrow> flow" where
  "copy_mr d a n = map (\<lambda>i. (Reg d i, [Mem (a + of_nat i)])) [0..<n]"

definition copy_rm :: "addr \<Rightarrow> nat \<Rightarrow> nat \<Rightarrow> flow" where
  "copy_rm a s n = map (\<lambda>i. (Mem (a + of_nat i), [Reg s i])) [0..<n]"

definition copy_mm :: "addr \<Rightarrow> addr \<Rightarrow> nat \<Rightarrow> flow" where
  "copy_mm a b n = map (\<lambda>i. (Mem (a + of_nat i), [Mem (b + of_nat i)])) [0..<n]"

definition merge_rr :: "nat \<Rightarrow> nat \<Rightarrow> nat \<Rightarrow> flow" where
  "merge_rr d s n = map (\<lambda>i. (Reg d i, [Reg d i, Reg s i])) [0..<n]"

definition clear_r :: "nat \<Rightarrow> nat \<Rightarrow> nat \<Rightarrow> flow" where
  "clear_r d m n = map (\<lambda>i. (Reg d i, [])) [m..<n]"

definition EFLAGS_DF :: "64 word \<Rightarrow> 64 word" where
  "EFLAGS_DF eflags = eflags AND 1024"

lemma flow_at_Nil [simp]: "flow_at [] l = [l]"
  by (simp add: flow_at_def)

lemma flow_at_append:
  "flow_at (F @ G) l =
     (if norm_loc l \<in> (norm_loc \<circ> fst) ` set G then flow_at G l else flow_at F l)"
proof (cases "find (\<lambda>(l', _). norm_loc l' = norm_loc l) (rev G)")
  case None
  then have "norm_loc l \<notin> (norm_loc \<circ> fst) ` set G"
    by (auto simp: find_None_iff)
  with None show ?thesis
    by (simp add: flow_at_def find_append_conv)
next
  case (Some x)
  then have "norm_loc l \<in> (norm_loc \<circ> fst) ` set G"
    by (auto simp: find_Some_iff in_set_conv_nth rev_nth image_iff)
      (metis diff_Suc_less fst_conv length_pos_if_in_set less_zeroE list.size(3) not_gr_zero nth_mem)
  with Some show ?thesis
    by (simp add: flow_at_def find_append_conv split: prod.split)
qed

lemma flow_at_map:
  assumes "\<And>i j. i < n \<Longrightarrow> j < n \<Longrightarrow> norm_loc (L i) = norm_loc (L j) \<Longrightarrow> i = j"
  shows "flow_at (map (\<lambda>i. (L i, S i)) [0..<n]) l =
     (case find (\<lambda>i. norm_loc (L i) = norm_loc l) [0..<n] of None \<Rightarrow> [l] | Some i \<Rightarrow> S i)"
proof -
  have "find (\<lambda>(l', _). norm_loc l' = norm_loc l) (rev (map (\<lambda>i. (L i, S i)) [0..<n])) =
      map_option (\<lambda>i. (L i, S i)) (find (\<lambda>i. norm_loc (L i) = norm_loc l) [0..<n])"
    by (subst find_rev_map_upt) (use assms in auto)
  then show ?thesis
    by (simp add: flow_at_def split: option.split)
qed

lemma flow_at_regs:
  "flow_at (map (\<lambda>i. (Reg d i, S i)) [0..<n]) l =
     (case l of Reg r i \<Rightarrow> if r = d \<and> i < n then S i else [l] | Mem a \<Rightarrow> [l])"
proof (cases l)
  case (Reg r k)
  have "find (\<lambda>i. norm_loc (Reg d i) = norm_loc l) [0..<n] = (if r = d \<and> k < n then Some k else None)"
    by (rule find_unique_upt) (auto simp: Reg)
  with Reg show ?thesis by (subst flow_at_map) auto
next
  case (Mem a)
  then have "find (\<lambda>i. norm_loc (Reg d i) = norm_loc l) [0..<n] = None"
    by (auto simp: find_None_iff)
  with Mem show ?thesis by (subst flow_at_map) auto
qed

lemma flow_at_mems:
  assumes "n \<le> 2 ^ 32"
  shows "flow_at (map (\<lambda>i. (Mem (a + of_nat i), S i)) [0..<n]) l =
     (case l of Reg r i \<Rightarrow> [l]
      | Mem b \<Rightarrow> let k = unat (ucast b - ucast a :: 32 word) in if k < n then S k else [l])"
proof (cases l)
  case (Reg r k)
  then have "find (\<lambda>i. norm_loc (Mem (a + of_nat i)) = norm_loc l) [0..<n] = None"
    by (auto simp: find_None_iff)
  with Reg assms show ?thesis
    by (subst flow_at_map) (auto simp: norm_Mem_eq of_nat_32_inject [of _ n] simp del: norm_loc.simps)
next
  case (Mem b)
  have "norm_loc (Mem (a + of_nat i)) = norm_loc l \<longleftrightarrow> True \<and> i = unat (ucast b - ucast a :: 32 word)"
    if "i < n" for i
  proof -
    have "(ucast a + of_nat i :: 32 word) = ucast b \<longleftrightarrow> of_nat i = (ucast b - ucast a :: 32 word)"
      by (auto simp: algebra_simps)
    also have "\<dots> \<longleftrightarrow> i = unat (ucast b - ucast a :: 32 word)"
      using that assms by (auto simp: word_unat_eq_iff unat_of_nat)
    finally show ?thesis by (simp add: Mem norm_Mem_eq del: norm_loc.simps)
  qed
  then have "find (\<lambda>i. norm_loc (Mem (a + of_nat i)) = norm_loc l) [0..<n] =
      (if True \<and> unat (ucast b - ucast a :: 32 word) < n
       then Some (unat (ucast b - ucast a :: 32 word)) else None)"
    by (rule find_unique_upt)
  with Mem assms show ?thesis
    by (subst flow_at_map) (auto simp: norm_Mem_eq of_nat_32_inject [of _ n] Let_def simp del: norm_loc.simps)
qed

lemma apply_flow_seq:
  assumes "list_all2 (\<lambda>(l, srcs) (l', srcs'). l = l' \<and>
      combine_all (map (tag_of (apply_flow F tc)) srcs) = combine_all (map (tag_of tc) srcs')) G G'"
  shows "apply_flow G (apply_flow F tc) = apply_flow (F @ G') tc"
proof -
  have "fold (\<lambda>(l, srcs). put l (combine_all (map (tag_of (apply_flow F tc)) srcs))) G s =
      fold (\<lambda>(l, srcs). put l (combine_all (map (tag_of tc) srcs))) G' s" for s
    using assms by (induction G G' arbitrary: s rule: list_all2_induct) auto
  then show ?thesis by (simp add: apply_flow_def)
qed

lemma iterM_put:
  "iterM (\<lambda>i tc. Some (put (L i) (T i) tc)) is tc = Some (fold (\<lambda>i. put (L i) (T i)) is tc)"
  by (induction "is" arbitrary: tc) simp_all

lemma fold_flow_map:
  "fold (\<lambda>(l, srcs). put l (f srcs)) (map (\<lambda>i. (L i, S i)) is) tc =
     fold (\<lambda>i. put (L i) (f (S i))) is tc"
  by (induction "is" arbitrary: tc) simp_all

lemma RnTAG_map:
  assumes "r < 17"
  shows "R16TAG tc r = Some (map (\<lambda>i. tag_of tc (Reg r i)) [0..<2])"
    and "R32TAG tc r = Some (map (\<lambda>i. tag_of tc (Reg r i)) [0..<4])"
    and "R64TAG tc r = Some (map (\<lambda>i. tag_of tc (Reg r i)) [0..<8])"
  using assms by (simp_all add: R16TAG_def R32TAG_def R64TAG_def upts)

lemmas loop_simps = iterM_put fold_flow_map RnTAG_map for_upto_def Let_def apply_flow_def

lemmas [flow_simps] =
  R16TAG_def R32TAG_def R64TAG_def M16TAG_def M32TAG_def M64TAG_def apply_flow_def
  copy_rr_def copy_mr_def copy_rm_def copy_mm_def merge_rr_def clear_r_def
  for_upto_def upts replicate_8 Suc_Suc_0 Let_def

end
