(* ===== verification/CoreMov.thy ===== *)
theory CoreMov
  imports TaintState
begin

text \<open>
  Sign and zero extension routines of \<^verbatim>\<open>libdft_core64.cc\<close> (\<^verbatim>\<open>_cwde\<close> to
  \<^verbatim>\<open>_movzx_m2r_opqw\<close>), in the configuration the build selects (\<^verbatim>\<open>USE_CUSTOM_TAG\<close>). Both
  families move the source bytes and clear the rest of the destination operand.
\<close>

subsection \<open>Routines\<close>

definition cwde ::
  "'u::linorder taint_state \<Rightarrow> 'u taint_state option" where
  "cwde tc =
     do {
       tc \<leftarrow> set_RTAG tc GPR_EAX 2 cleared_val;
       set_RTAG tc GPR_EAX 3 cleared_val
     }"

definition cdqe ::
  "'u::linorder taint_state \<Rightarrow> 'u taint_state option" where
  "cdqe tc =
     do {
       tc \<leftarrow> set_RTAG tc GPR_EAX 4 cleared_val;
       tc \<leftarrow> set_RTAG tc GPR_EAX 5 cleared_val;
       tc \<leftarrow> set_RTAG tc GPR_EAX 6 cleared_val;
       set_RTAG tc GPR_EAX 7 cleared_val
     }"

definition movsx_r2r_opwb_u ::
  "'u::linorder taint_state \<Rightarrow> nat \<Rightarrow> nat \<Rightarrow> 'u taint_state option" where
  "movsx_r2r_opwb_u tc dst src =
     do {
       src_tag \<leftarrow> RTAG tc src 1;
       tc \<leftarrow> set_RTAG tc dst 0 src_tag;
       set_RTAG tc dst 1 cleared_val
     }"

definition movsx_r2r_opwb_l ::
  "'u::linorder taint_state \<Rightarrow> nat \<Rightarrow> nat \<Rightarrow> 'u taint_state option" where
  "movsx_r2r_opwb_l tc dst src =
     do {
       src_tag \<leftarrow> RTAG tc src 0;
       tc \<leftarrow> set_RTAG tc dst 0 src_tag;
       set_RTAG tc dst 1 cleared_val
     }"

definition movsx_r2r_oplb_u ::
  "'u::linorder taint_state \<Rightarrow> nat \<Rightarrow> nat \<Rightarrow> 'u taint_state option" where
  "movsx_r2r_oplb_u tc dst src =
     do {
       src_tag \<leftarrow> RTAG tc src 1;
       tc \<leftarrow> set_RTAG tc dst 0 src_tag;
       tc \<leftarrow> set_RTAG tc dst 1 cleared_val;
       tc \<leftarrow> set_RTAG tc dst 2 cleared_val;
       set_RTAG tc dst 3 cleared_val
     }"

definition movsx_r2r_oplb_l ::
  "'u::linorder taint_state \<Rightarrow> nat \<Rightarrow> nat \<Rightarrow> 'u taint_state option" where
  "movsx_r2r_oplb_l tc dst src =
     do {
       src_tag \<leftarrow> RTAG tc src 0;
       tc \<leftarrow> set_RTAG tc dst 0 src_tag;
       tc \<leftarrow> set_RTAG tc dst 1 cleared_val;
       tc \<leftarrow> set_RTAG tc dst 2 cleared_val;
       set_RTAG tc dst 3 cleared_val
     }"

definition movsx_r2r_oplw ::
  "'u::linorder taint_state \<Rightarrow> nat \<Rightarrow> nat \<Rightarrow> 'u taint_state option" where
  "movsx_r2r_oplw tc dst src =
     do {
       src_tags \<leftarrow> R16TAG tc src;
       tc \<leftarrow> set_RTAG tc dst 0 (src_tags ! 0);
       tc \<leftarrow> set_RTAG tc dst 1 (src_tags ! 1);
       tc \<leftarrow> set_RTAG tc dst 2 cleared_val;
       set_RTAG tc dst 3 cleared_val
     }"

definition movsx_r2r_opqb_u ::
  "'u::linorder taint_state \<Rightarrow> nat \<Rightarrow> nat \<Rightarrow> 'u taint_state option" where
  "movsx_r2r_opqb_u tc dst src =
     do {
       src_tag \<leftarrow> RTAG tc src 1;
       tc \<leftarrow> set_RTAG tc dst 0 src_tag;
       tc \<leftarrow> set_RTAG tc dst 1 cleared_val;
       tc \<leftarrow> set_RTAG tc dst 2 cleared_val;
       tc \<leftarrow> set_RTAG tc dst 3 cleared_val;
       tc \<leftarrow> set_RTAG tc dst 4 cleared_val;
       tc \<leftarrow> set_RTAG tc dst 5 cleared_val;
       tc \<leftarrow> set_RTAG tc dst 6 cleared_val;
       set_RTAG tc dst 7 cleared_val
     }"

definition movsx_r2r_opqb_l ::
  "'u::linorder taint_state \<Rightarrow> nat \<Rightarrow> nat \<Rightarrow> 'u taint_state option" where
  "movsx_r2r_opqb_l tc dst src =
     do {
       src_tag \<leftarrow> RTAG tc src 0;
       tc \<leftarrow> set_RTAG tc dst 0 src_tag;
       tc \<leftarrow> set_RTAG tc dst 1 cleared_val;
       tc \<leftarrow> set_RTAG tc dst 2 cleared_val;
       tc \<leftarrow> set_RTAG tc dst 3 cleared_val;
       tc \<leftarrow> set_RTAG tc dst 4 cleared_val;
       tc \<leftarrow> set_RTAG tc dst 5 cleared_val;
       tc \<leftarrow> set_RTAG tc dst 6 cleared_val;
       set_RTAG tc dst 7 cleared_val
     }"

definition movsx_r2r_opqw ::
  "'u::linorder taint_state \<Rightarrow> nat \<Rightarrow> nat \<Rightarrow> 'u taint_state option" where
  "movsx_r2r_opqw tc dst src =
     do {
       src_tags \<leftarrow> R16TAG tc src;
       tc \<leftarrow> set_RTAG tc dst 0 (src_tags ! 0);
       tc \<leftarrow> set_RTAG tc dst 1 (src_tags ! 1);
       tc \<leftarrow> set_RTAG tc dst 2 cleared_val;
       tc \<leftarrow> set_RTAG tc dst 3 cleared_val;
       tc \<leftarrow> set_RTAG tc dst 4 cleared_val;
       tc \<leftarrow> set_RTAG tc dst 5 cleared_val;
       tc \<leftarrow> set_RTAG tc dst 6 cleared_val;
       set_RTAG tc dst 7 cleared_val
     }"

definition movsxd_r2r_opql ::
  "'u::linorder taint_state \<Rightarrow> nat \<Rightarrow> nat \<Rightarrow> 'u taint_state option" where
  "movsxd_r2r_opql tc dst src =
     do {
       src_tags \<leftarrow> R32TAG tc src;
       tc \<leftarrow> set_RTAG tc dst 0 (src_tags ! 0);
       tc \<leftarrow> set_RTAG tc dst 1 (src_tags ! 1);
       tc \<leftarrow> set_RTAG tc dst 2 (src_tags ! 2);
       tc \<leftarrow> set_RTAG tc dst 3 (src_tags ! 3);
       tc \<leftarrow> set_RTAG tc dst 4 cleared_val;
       tc \<leftarrow> set_RTAG tc dst 5 cleared_val;
       tc \<leftarrow> set_RTAG tc dst 6 cleared_val;
       set_RTAG tc dst 7 cleared_val
     }"

definition movsx_m2r_opwb ::
  "'u::linorder taint_state \<Rightarrow> nat \<Rightarrow> addr \<Rightarrow> 'u taint_state option" where
  "movsx_m2r_opwb tc dst src =
     do {
       let src_tag = M8TAG tc src;
       tc \<leftarrow> set_RTAG tc dst 0 src_tag;
       set_RTAG tc dst 1 cleared_val
     }"

definition movsx_m2r_oplb ::
  "'u::linorder taint_state \<Rightarrow> nat \<Rightarrow> addr \<Rightarrow> 'u taint_state option" where
  "movsx_m2r_oplb tc dst src =
     do {
       let src_tag = M8TAG tc src;
       tc \<leftarrow> set_RTAG tc dst 0 src_tag;
       tc \<leftarrow> set_RTAG tc dst 1 cleared_val;
       tc \<leftarrow> set_RTAG tc dst 2 cleared_val;
       set_RTAG tc dst 3 cleared_val
     }"

definition movsx_m2r_oplw ::
  "'u::linorder taint_state \<Rightarrow> nat \<Rightarrow> addr \<Rightarrow> 'u taint_state option" where
  "movsx_m2r_oplw tc dst src =
     do {
       let src_tags = M16TAG tc src;
       tc \<leftarrow> set_RTAG tc dst 0 (src_tags ! 0);
       tc \<leftarrow> set_RTAG tc dst 1 (src_tags ! 1);
       tc \<leftarrow> set_RTAG tc dst 2 cleared_val;
       set_RTAG tc dst 3 cleared_val
     }"

definition movsx_m2r_opqb ::
  "'u::linorder taint_state \<Rightarrow> nat \<Rightarrow> addr \<Rightarrow> 'u taint_state option" where
  "movsx_m2r_opqb tc dst src =
     do {
       let src_tag = M8TAG tc src;
       tc \<leftarrow> set_RTAG tc dst 0 src_tag;
       tc \<leftarrow> set_RTAG tc dst 1 cleared_val;
       tc \<leftarrow> set_RTAG tc dst 2 cleared_val;
       tc \<leftarrow> set_RTAG tc dst 3 cleared_val;
       tc \<leftarrow> set_RTAG tc dst 4 cleared_val;
       tc \<leftarrow> set_RTAG tc dst 5 cleared_val;
       tc \<leftarrow> set_RTAG tc dst 6 cleared_val;
       set_RTAG tc dst 7 cleared_val
     }"

definition movsx_m2r_opqw ::
  "'u::linorder taint_state \<Rightarrow> nat \<Rightarrow> addr \<Rightarrow> 'u taint_state option" where
  "movsx_m2r_opqw tc dst src =
     do {
       let src_tags = M16TAG tc src;
       tc \<leftarrow> set_RTAG tc dst 0 (src_tags ! 0);
       tc \<leftarrow> set_RTAG tc dst 1 (src_tags ! 1);
       tc \<leftarrow> set_RTAG tc dst 2 cleared_val;
       tc \<leftarrow> set_RTAG tc dst 3 cleared_val;
       tc \<leftarrow> set_RTAG tc dst 4 cleared_val;
       tc \<leftarrow> set_RTAG tc dst 5 cleared_val;
       tc \<leftarrow> set_RTAG tc dst 6 cleared_val;
       set_RTAG tc dst 7 cleared_val
     }"

definition movsxd_m2r_opql ::
  "'u::linorder taint_state \<Rightarrow> nat \<Rightarrow> addr \<Rightarrow> 'u taint_state option" where
  "movsxd_m2r_opql tc dst src =
     do {
       let src_tags = M32TAG tc src;
       tc \<leftarrow> set_RTAG tc dst 0 (src_tags ! 0);
       tc \<leftarrow> set_RTAG tc dst 1 (src_tags ! 1);
       tc \<leftarrow> set_RTAG tc dst 2 (src_tags ! 2);
       tc \<leftarrow> set_RTAG tc dst 3 (src_tags ! 3);
       tc \<leftarrow> set_RTAG tc dst 4 cleared_val;
       tc \<leftarrow> set_RTAG tc dst 5 cleared_val;
       tc \<leftarrow> set_RTAG tc dst 6 cleared_val;
       set_RTAG tc dst 7 cleared_val
     }"

definition movzx_r2r_opwb_u ::
  "'u::linorder taint_state \<Rightarrow> nat \<Rightarrow> nat \<Rightarrow> 'u taint_state option" where
  "movzx_r2r_opwb_u tc dst src =
     do {
       src_high_tag \<leftarrow> RTAG tc src 1;
       tc \<leftarrow> set_RTAG tc dst 0 src_high_tag;
       set_RTAG tc dst 1 cleared_val
     }"

definition movzx_r2r_opwb_l ::
  "'u::linorder taint_state \<Rightarrow> nat \<Rightarrow> nat \<Rightarrow> 'u taint_state option" where
  "movzx_r2r_opwb_l tc dst src =
     do {
       src_low_tag \<leftarrow> RTAG tc src 0;
       tc \<leftarrow> set_RTAG tc dst 0 src_low_tag;
       set_RTAG tc dst 1 cleared_val
     }"

definition movzx_r2r_oplb_u ::
  "'u::linorder taint_state \<Rightarrow> nat \<Rightarrow> nat \<Rightarrow> 'u taint_state option" where
  "movzx_r2r_oplb_u tc dst src =
     do {
       src_high_tag \<leftarrow> RTAG tc src 1;
       tc \<leftarrow> set_RTAG tc dst 0 src_high_tag;
       tc \<leftarrow> set_RTAG tc dst 1 cleared_val;
       tc \<leftarrow> set_RTAG tc dst 2 cleared_val;
       set_RTAG tc dst 3 cleared_val
     }"

definition movzx_r2r_oplb_l ::
  "'u::linorder taint_state \<Rightarrow> nat \<Rightarrow> nat \<Rightarrow> 'u taint_state option" where
  "movzx_r2r_oplb_l tc dst src =
     do {
       src_low_tag \<leftarrow> RTAG tc src 0;
       tc \<leftarrow> set_RTAG tc dst 0 src_low_tag;
       tc \<leftarrow> set_RTAG tc dst 1 cleared_val;
       tc \<leftarrow> set_RTAG tc dst 2 cleared_val;
       set_RTAG tc dst 3 cleared_val
     }"

definition movzx_r2r_oplw ::
  "'u::linorder taint_state \<Rightarrow> nat \<Rightarrow> nat \<Rightarrow> 'u taint_state option" where
  "movzx_r2r_oplw tc dst src =
     do {
       src_tags \<leftarrow> R16TAG tc src;
       tc \<leftarrow> set_RTAG tc dst 0 (src_tags ! 0);
       tc \<leftarrow> set_RTAG tc dst 1 (src_tags ! 1);
       tc \<leftarrow> set_RTAG tc dst 2 cleared_val;
       set_RTAG tc dst 3 cleared_val
     }"

definition movzx_r2r_opqb_u ::
  "'u::linorder taint_state \<Rightarrow> nat \<Rightarrow> nat \<Rightarrow> 'u taint_state option" where
  "movzx_r2r_opqb_u tc dst src =
     do {
       src_high_tag \<leftarrow> RTAG tc src 1;
       tc \<leftarrow> set_RTAG tc dst 0 src_high_tag;
       tc \<leftarrow> set_RTAG tc dst 1 cleared_val;
       tc \<leftarrow> set_RTAG tc dst 2 cleared_val;
       tc \<leftarrow> set_RTAG tc dst 3 cleared_val;
       tc \<leftarrow> set_RTAG tc dst 4 cleared_val;
       tc \<leftarrow> set_RTAG tc dst 5 cleared_val;
       tc \<leftarrow> set_RTAG tc dst 6 cleared_val;
       set_RTAG tc dst 7 cleared_val
     }"

definition movzx_r2r_opqb_l ::
  "'u::linorder taint_state \<Rightarrow> nat \<Rightarrow> nat \<Rightarrow> 'u taint_state option" where
  "movzx_r2r_opqb_l tc dst src =
     do {
       src_low_tag \<leftarrow> RTAG tc src 0;
       tc \<leftarrow> set_RTAG tc dst 0 src_low_tag;
       tc \<leftarrow> set_RTAG tc dst 1 cleared_val;
       tc \<leftarrow> set_RTAG tc dst 2 cleared_val;
       tc \<leftarrow> set_RTAG tc dst 3 cleared_val;
       tc \<leftarrow> set_RTAG tc dst 4 cleared_val;
       tc \<leftarrow> set_RTAG tc dst 5 cleared_val;
       tc \<leftarrow> set_RTAG tc dst 6 cleared_val;
       set_RTAG tc dst 7 cleared_val
     }"

definition movzx_r2r_opqw ::
  "'u::linorder taint_state \<Rightarrow> nat \<Rightarrow> nat \<Rightarrow> 'u taint_state option" where
  "movzx_r2r_opqw tc dst src =
     do {
       src_tags \<leftarrow> R16TAG tc src;
       tc \<leftarrow> set_RTAG tc dst 0 (src_tags ! 0);
       tc \<leftarrow> set_RTAG tc dst 1 (src_tags ! 1);
       tc \<leftarrow> set_RTAG tc dst 2 cleared_val;
       tc \<leftarrow> set_RTAG tc dst 3 cleared_val;
       tc \<leftarrow> set_RTAG tc dst 4 cleared_val;
       tc \<leftarrow> set_RTAG tc dst 5 cleared_val;
       tc \<leftarrow> set_RTAG tc dst 6 cleared_val;
       set_RTAG tc dst 7 cleared_val
     }"

definition movzx_m2r_opwb ::
  "'u::linorder taint_state \<Rightarrow> nat \<Rightarrow> addr \<Rightarrow> 'u taint_state option" where
  "movzx_m2r_opwb tc dst src =
     do {
       let src_tag = M8TAG tc src;
       tc \<leftarrow> set_RTAG tc dst 0 src_tag;
       set_RTAG tc dst 1 cleared_val
     }"

definition movzx_m2r_oplb ::
  "'u::linorder taint_state \<Rightarrow> nat \<Rightarrow> addr \<Rightarrow> 'u taint_state option" where
  "movzx_m2r_oplb tc dst src =
     do {
       let src_tag = M8TAG tc src;
       tc \<leftarrow> set_RTAG tc dst 0 src_tag;
       tc \<leftarrow> set_RTAG tc dst 1 cleared_val;
       tc \<leftarrow> set_RTAG tc dst 2 cleared_val;
       set_RTAG tc dst 3 cleared_val
     }"

definition movzx_m2r_oplw ::
  "'u::linorder taint_state \<Rightarrow> nat \<Rightarrow> addr \<Rightarrow> 'u taint_state option" where
  "movzx_m2r_oplw tc dst src =
     do {
       let src_tags = M16TAG tc src;
       tc \<leftarrow> set_RTAG tc dst 0 (src_tags ! 0);
       tc \<leftarrow> set_RTAG tc dst 1 (src_tags ! 1);
       tc \<leftarrow> set_RTAG tc dst 2 cleared_val;
       set_RTAG tc dst 3 cleared_val
     }"

definition movzx_m2r_opqb ::
  "'u::linorder taint_state \<Rightarrow> nat \<Rightarrow> addr \<Rightarrow> 'u taint_state option" where
  "movzx_m2r_opqb tc dst src =
     do {
       let src_tag = M8TAG tc src;
       tc \<leftarrow> set_RTAG tc dst 0 src_tag;
       tc \<leftarrow> set_RTAG tc dst 1 cleared_val;
       tc \<leftarrow> set_RTAG tc dst 2 cleared_val;
       tc \<leftarrow> set_RTAG tc dst 3 cleared_val;
       tc \<leftarrow> set_RTAG tc dst 4 cleared_val;
       tc \<leftarrow> set_RTAG tc dst 5 cleared_val;
       tc \<leftarrow> set_RTAG tc dst 6 cleared_val;
       set_RTAG tc dst 7 cleared_val
     }"

definition movzx_m2r_opqw ::
  "'u::linorder taint_state \<Rightarrow> nat \<Rightarrow> addr \<Rightarrow> 'u taint_state option" where
  "movzx_m2r_opqw tc dst src =
     do {
       let src_tags = M16TAG tc src;
       tc \<leftarrow> set_RTAG tc dst 0 (src_tags ! 0);
       tc \<leftarrow> set_RTAG tc dst 1 (src_tags ! 1);
       tc \<leftarrow> set_RTAG tc dst 2 cleared_val;
       tc \<leftarrow> set_RTAG tc dst 3 cleared_val;
       tc \<leftarrow> set_RTAG tc dst 4 cleared_val;
       tc \<leftarrow> set_RTAG tc dst 5 cleared_val;
       tc \<leftarrow> set_RTAG tc dst 6 cleared_val;
       set_RTAG tc dst 7 cleared_val
     }"

lemmas mov_defs [routine_defs] =
  cwde_def cdqe_def movsx_r2r_opwb_u_def movsx_r2r_opwb_l_def movsx_r2r_oplb_u_def
  movsx_r2r_oplb_l_def movsx_r2r_oplw_def movsx_r2r_opqb_u_def movsx_r2r_opqb_l_def
  movsx_r2r_opqw_def movsxd_r2r_opql_def movsx_m2r_opwb_def movsx_m2r_oplb_def
  movsx_m2r_oplw_def movsx_m2r_opqb_def movsx_m2r_opqw_def movsxd_m2r_opql_def
  movzx_r2r_opwb_u_def movzx_r2r_opwb_l_def movzx_r2r_oplb_u_def movzx_r2r_oplb_l_def
  movzx_r2r_oplw_def movzx_r2r_opqb_u_def movzx_r2r_opqb_l_def movzx_r2r_opqw_def
  movzx_m2r_opwb_def movzx_m2r_oplb_def movzx_m2r_oplw_def movzx_m2r_opqb_def movzx_m2r_opqw_def

subsection \<open>Calls and the data flow of each\<close>

datatype mov_call =
    Cwde
  | Cdqe
  | Movsx_r2r_opwb_u nat nat
  | Movsx_r2r_opwb_l nat nat
  | Movsx_r2r_oplb_u nat nat
  | Movsx_r2r_oplb_l nat nat
  | Movsx_r2r_oplw nat nat
  | Movsx_r2r_opqb_u nat nat
  | Movsx_r2r_opqb_l nat nat
  | Movsx_r2r_opqw nat nat
  | Movsxd_r2r_opql nat nat
  | Movsx_m2r_opwb nat addr
  | Movsx_m2r_oplb nat addr
  | Movsx_m2r_oplw nat addr
  | Movsx_m2r_opqb nat addr
  | Movsx_m2r_opqw nat addr
  | Movsxd_m2r_opql nat addr
  | Movzx_r2r_opwb_u nat nat
  | Movzx_r2r_opwb_l nat nat
  | Movzx_r2r_oplb_u nat nat
  | Movzx_r2r_oplb_l nat nat
  | Movzx_r2r_oplw nat nat
  | Movzx_r2r_opqb_u nat nat
  | Movzx_r2r_opqb_l nat nat
  | Movzx_r2r_opqw nat nat
  | Movzx_m2r_opwb nat addr
  | Movzx_m2r_oplb nat addr
  | Movzx_m2r_oplw nat addr
  | Movzx_m2r_opqb nat addr
  | Movzx_m2r_opqw nat addr

fun exec_mov :: "mov_call \<Rightarrow> 'u::linorder taint_state \<Rightarrow> 'u taint_state option" where
    "exec_mov Cwde tc = cwde tc"
  | "exec_mov Cdqe tc = cdqe tc"
  | "exec_mov (Movsx_r2r_opwb_u dst src) tc = movsx_r2r_opwb_u tc dst src"
  | "exec_mov (Movsx_r2r_opwb_l dst src) tc = movsx_r2r_opwb_l tc dst src"
  | "exec_mov (Movsx_r2r_oplb_u dst src) tc = movsx_r2r_oplb_u tc dst src"
  | "exec_mov (Movsx_r2r_oplb_l dst src) tc = movsx_r2r_oplb_l tc dst src"
  | "exec_mov (Movsx_r2r_oplw dst src) tc = movsx_r2r_oplw tc dst src"
  | "exec_mov (Movsx_r2r_opqb_u dst src) tc = movsx_r2r_opqb_u tc dst src"
  | "exec_mov (Movsx_r2r_opqb_l dst src) tc = movsx_r2r_opqb_l tc dst src"
  | "exec_mov (Movsx_r2r_opqw dst src) tc = movsx_r2r_opqw tc dst src"
  | "exec_mov (Movsxd_r2r_opql dst src) tc = movsxd_r2r_opql tc dst src"
  | "exec_mov (Movsx_m2r_opwb dst src) tc = movsx_m2r_opwb tc dst src"
  | "exec_mov (Movsx_m2r_oplb dst src) tc = movsx_m2r_oplb tc dst src"
  | "exec_mov (Movsx_m2r_oplw dst src) tc = movsx_m2r_oplw tc dst src"
  | "exec_mov (Movsx_m2r_opqb dst src) tc = movsx_m2r_opqb tc dst src"
  | "exec_mov (Movsx_m2r_opqw dst src) tc = movsx_m2r_opqw tc dst src"
  | "exec_mov (Movsxd_m2r_opql dst src) tc = movsxd_m2r_opql tc dst src"
  | "exec_mov (Movzx_r2r_opwb_u dst src) tc = movzx_r2r_opwb_u tc dst src"
  | "exec_mov (Movzx_r2r_opwb_l dst src) tc = movzx_r2r_opwb_l tc dst src"
  | "exec_mov (Movzx_r2r_oplb_u dst src) tc = movzx_r2r_oplb_u tc dst src"
  | "exec_mov (Movzx_r2r_oplb_l dst src) tc = movzx_r2r_oplb_l tc dst src"
  | "exec_mov (Movzx_r2r_oplw dst src) tc = movzx_r2r_oplw tc dst src"
  | "exec_mov (Movzx_r2r_opqb_u dst src) tc = movzx_r2r_opqb_u tc dst src"
  | "exec_mov (Movzx_r2r_opqb_l dst src) tc = movzx_r2r_opqb_l tc dst src"
  | "exec_mov (Movzx_r2r_opqw dst src) tc = movzx_r2r_opqw tc dst src"
  | "exec_mov (Movzx_m2r_opwb dst src) tc = movzx_m2r_opwb tc dst src"
  | "exec_mov (Movzx_m2r_oplb dst src) tc = movzx_m2r_oplb tc dst src"
  | "exec_mov (Movzx_m2r_oplw dst src) tc = movzx_m2r_oplw tc dst src"
  | "exec_mov (Movzx_m2r_opqb dst src) tc = movzx_m2r_opqb tc dst src"
  | "exec_mov (Movzx_m2r_opqw dst src) tc = movzx_m2r_opqw tc dst src"

fun mov_ok :: "mov_call \<Rightarrow> bool" where
    "mov_ok Cwde \<longleftrightarrow> True"
  | "mov_ok Cdqe \<longleftrightarrow> True"
  | "mov_ok (Movsx_r2r_opwb_u dst src) \<longleftrightarrow> dst < 17 \<and> src < 17"
  | "mov_ok (Movsx_r2r_opwb_l dst src) \<longleftrightarrow> dst < 17 \<and> src < 17"
  | "mov_ok (Movsx_r2r_oplb_u dst src) \<longleftrightarrow> dst < 17 \<and> src < 17"
  | "mov_ok (Movsx_r2r_oplb_l dst src) \<longleftrightarrow> dst < 17 \<and> src < 17"
  | "mov_ok (Movsx_r2r_oplw dst src) \<longleftrightarrow> dst < 17 \<and> src < 17"
  | "mov_ok (Movsx_r2r_opqb_u dst src) \<longleftrightarrow> dst < 17 \<and> src < 17"
  | "mov_ok (Movsx_r2r_opqb_l dst src) \<longleftrightarrow> dst < 17 \<and> src < 17"
  | "mov_ok (Movsx_r2r_opqw dst src) \<longleftrightarrow> dst < 17 \<and> src < 17"
  | "mov_ok (Movsxd_r2r_opql dst src) \<longleftrightarrow> dst < 17 \<and> src < 17"
  | "mov_ok (Movsx_m2r_opwb dst src) \<longleftrightarrow> dst < 17"
  | "mov_ok (Movsx_m2r_oplb dst src) \<longleftrightarrow> dst < 17"
  | "mov_ok (Movsx_m2r_oplw dst src) \<longleftrightarrow> dst < 17"
  | "mov_ok (Movsx_m2r_opqb dst src) \<longleftrightarrow> dst < 17"
  | "mov_ok (Movsx_m2r_opqw dst src) \<longleftrightarrow> dst < 17"
  | "mov_ok (Movsxd_m2r_opql dst src) \<longleftrightarrow> dst < 17"
  | "mov_ok (Movzx_r2r_opwb_u dst src) \<longleftrightarrow> dst < 17 \<and> src < 17"
  | "mov_ok (Movzx_r2r_opwb_l dst src) \<longleftrightarrow> dst < 17 \<and> src < 17"
  | "mov_ok (Movzx_r2r_oplb_u dst src) \<longleftrightarrow> dst < 17 \<and> src < 17"
  | "mov_ok (Movzx_r2r_oplb_l dst src) \<longleftrightarrow> dst < 17 \<and> src < 17"
  | "mov_ok (Movzx_r2r_oplw dst src) \<longleftrightarrow> dst < 17 \<and> src < 17"
  | "mov_ok (Movzx_r2r_opqb_u dst src) \<longleftrightarrow> dst < 17 \<and> src < 17"
  | "mov_ok (Movzx_r2r_opqb_l dst src) \<longleftrightarrow> dst < 17 \<and> src < 17"
  | "mov_ok (Movzx_r2r_opqw dst src) \<longleftrightarrow> dst < 17 \<and> src < 17"
  | "mov_ok (Movzx_m2r_opwb dst src) \<longleftrightarrow> dst < 17"
  | "mov_ok (Movzx_m2r_oplb dst src) \<longleftrightarrow> dst < 17"
  | "mov_ok (Movzx_m2r_oplw dst src) \<longleftrightarrow> dst < 17"
  | "mov_ok (Movzx_m2r_opqb dst src) \<longleftrightarrow> dst < 17"
  | "mov_ok (Movzx_m2r_opqw dst src) \<longleftrightarrow> dst < 17"

fun mov_flow :: "mov_call \<Rightarrow> flow" where
    "mov_flow Cwde =
     clear_r GPR_EAX 2 4"
  | "mov_flow Cdqe =
     clear_r GPR_EAX 4 8"
  | "mov_flow (Movsx_r2r_opwb_u dst src) =
     [(Reg dst 0, [Reg src 1])] @ clear_r dst 1 2"
  | "mov_flow (Movsx_r2r_opwb_l dst src) =
     [(Reg dst 0, [Reg src 0])] @ clear_r dst 1 2"
  | "mov_flow (Movsx_r2r_oplb_u dst src) =
     [(Reg dst 0, [Reg src 1])] @ clear_r dst 1 4"
  | "mov_flow (Movsx_r2r_oplb_l dst src) =
     [(Reg dst 0, [Reg src 0])] @ clear_r dst 1 4"
  | "mov_flow (Movsx_r2r_oplw dst src) =
     copy_rr dst src 2 @ clear_r dst 2 4"
  | "mov_flow (Movsx_r2r_opqb_u dst src) =
     [(Reg dst 0, [Reg src 1])] @ clear_r dst 1 8"
  | "mov_flow (Movsx_r2r_opqb_l dst src) =
     [(Reg dst 0, [Reg src 0])] @ clear_r dst 1 8"
  | "mov_flow (Movsx_r2r_opqw dst src) =
     copy_rr dst src 2 @ clear_r dst 2 8"
  | "mov_flow (Movsxd_r2r_opql dst src) =
     copy_rr dst src 4 @ clear_r dst 4 8"
  | "mov_flow (Movsx_m2r_opwb dst src) =
     [(Reg dst 0, [Mem src])] @ clear_r dst 1 2"
  | "mov_flow (Movsx_m2r_oplb dst src) =
     [(Reg dst 0, [Mem src])] @ clear_r dst 1 4"
  | "mov_flow (Movsx_m2r_oplw dst src) =
     copy_mr dst src 2 @ clear_r dst 2 4"
  | "mov_flow (Movsx_m2r_opqb dst src) =
     [(Reg dst 0, [Mem src])] @ clear_r dst 1 8"
  | "mov_flow (Movsx_m2r_opqw dst src) =
     copy_mr dst src 2 @ clear_r dst 2 8"
  | "mov_flow (Movsxd_m2r_opql dst src) =
     copy_mr dst src 4 @ clear_r dst 4 8"
  | "mov_flow (Movzx_r2r_opwb_u dst src) =
     [(Reg dst 0, [Reg src 1])] @ clear_r dst 1 2"
  | "mov_flow (Movzx_r2r_opwb_l dst src) =
     [(Reg dst 0, [Reg src 0])] @ clear_r dst 1 2"
  | "mov_flow (Movzx_r2r_oplb_u dst src) =
     [(Reg dst 0, [Reg src 1])] @ clear_r dst 1 4"
  | "mov_flow (Movzx_r2r_oplb_l dst src) =
     [(Reg dst 0, [Reg src 0])] @ clear_r dst 1 4"
  | "mov_flow (Movzx_r2r_oplw dst src) =
     copy_rr dst src 2 @ clear_r dst 2 4"
  | "mov_flow (Movzx_r2r_opqb_u dst src) =
     [(Reg dst 0, [Reg src 1])] @ clear_r dst 1 8"
  | "mov_flow (Movzx_r2r_opqb_l dst src) =
     [(Reg dst 0, [Reg src 0])] @ clear_r dst 1 8"
  | "mov_flow (Movzx_r2r_opqw dst src) =
     copy_rr dst src 2 @ clear_r dst 2 8"
  | "mov_flow (Movzx_m2r_opwb dst src) =
     [(Reg dst 0, [Mem src])] @ clear_r dst 1 2"
  | "mov_flow (Movzx_m2r_oplb dst src) =
     [(Reg dst 0, [Mem src])] @ clear_r dst 1 4"
  | "mov_flow (Movzx_m2r_oplw dst src) =
     copy_mr dst src 2 @ clear_r dst 2 4"
  | "mov_flow (Movzx_m2r_opqb dst src) =
     [(Reg dst 0, [Mem src])] @ clear_r dst 1 8"
  | "mov_flow (Movzx_m2r_opqw dst src) =
     copy_mr dst src 2 @ clear_r dst 2 8"

text \<open>Each routine is the parallel assignment of its flow; outside its register bounds it fails.\<close>

lemma exec_mov_flow: "mov_ok c \<Longrightarrow> exec_mov c tc = Some (apply_flow (mov_flow c) tc)"
  by (cases c) (simp_all add: mov_defs flow_simps)

lemma exec_mov_oob: "\<not> mov_ok c \<Longrightarrow> exec_mov c tc = None"
  by (cases c) (auto simp: mov_defs flow_simps not_less bind_eq_None_conv)

end
