(* ===== verification/CoreXchg.thy ===== *)
theory CoreXchg
  imports TaintState
begin

text \<open>
  Exchange routines of \<^verbatim>\<open>libdft_core64.cc\<close>: \<^verbatim>\<open>_cmpxchg_*\<close>, \<^verbatim>\<open>_xchg_*\<close> and
  \<^verbatim>\<open>_xadd_*\<close>. A compare-and-exchange is instrumented as a pair: the fast routine runs
  always and returns whether the values were equal, the slow one only if they were. The
  memory operand's value, which the fast routine reads through the pointer, is an argument.
\<close>

subsection \<open>Routines\<close>

definition cmpxchg_r2r_opq_fast ::
  "'u::linorder taint_state \<Rightarrow> 64 word \<Rightarrow> nat \<Rightarrow> 64 word \<Rightarrow> (bool \<times> 'u taint_state) option" where
  "cmpxchg_r2r_opq_fast tc dst_val src src_val =
     do {
       tc \<leftarrow> set_RTAGs tc GPR_SCRATCH 0 (replicate 8 cleared_val);
       save_tags \<leftarrow> R64TAG tc GPR_EAX;
       tc \<leftarrow> set_RTAGs tc GPR_SCRATCH 0 save_tags;
       src_tags \<leftarrow> R64TAG tc src;
       tc \<leftarrow> set_RTAGs tc GPR_EAX 0 src_tags;
       Some (dst_val = src_val, tc)
     }"

definition cmpxchg_r2r_opq_slow ::
  "'u::linorder taint_state \<Rightarrow> nat \<Rightarrow> nat \<Rightarrow> 'u taint_state option" where
  "cmpxchg_r2r_opq_slow tc dst src =
     do {
       saved_tags \<leftarrow> R64TAG tc GPR_SCRATCH;
       tc \<leftarrow> set_RTAGs tc GPR_EAX 0 saved_tags;
       src_tags \<leftarrow> R64TAG tc src;
       set_RTAGs tc dst 0 src_tags
     }"

definition cmpxchg_r2r_opl_fast ::
  "'u::linorder taint_state \<Rightarrow> 64 word \<Rightarrow> nat \<Rightarrow> 64 word \<Rightarrow> (bool \<times> 'u taint_state) option" where
  "cmpxchg_r2r_opl_fast tc dst_val src src_val =
     do {
       tc \<leftarrow> set_RTAGs tc GPR_SCRATCH 0 (replicate 8 cleared_val);
       save_tags \<leftarrow> R32TAG tc GPR_EAX;
       tc \<leftarrow> set_RTAGs tc GPR_SCRATCH 0 save_tags;
       src_tags \<leftarrow> R32TAG tc src;
       tc \<leftarrow> set_RTAGs tc GPR_EAX 0 src_tags;
       Some (dst_val = src_val, tc)
     }"

definition cmpxchg_r2r_opl_slow ::
  "'u::linorder taint_state \<Rightarrow> nat \<Rightarrow> nat \<Rightarrow> 'u taint_state option" where
  "cmpxchg_r2r_opl_slow tc dst src =
     do {
       saved_tags \<leftarrow> R32TAG tc GPR_SCRATCH;
       tc \<leftarrow> set_RTAGs tc GPR_EAX 0 saved_tags;
       src_tags \<leftarrow> R32TAG tc src;
       set_RTAGs tc dst 0 src_tags
     }"

definition cmpxchg_r2r_opw_fast ::
  "'u::linorder taint_state \<Rightarrow> 64 word \<Rightarrow> nat \<Rightarrow> 64 word \<Rightarrow> (bool \<times> 'u taint_state) option" where
  "cmpxchg_r2r_opw_fast tc dst_val src src_val =
     do {
       tc \<leftarrow> set_RTAGs tc GPR_SCRATCH 0 (replicate 8 cleared_val);
       save_tags \<leftarrow> R16TAG tc GPR_EAX;
       tc \<leftarrow> set_RTAGs tc GPR_SCRATCH 0 save_tags;
       src_tags \<leftarrow> R16TAG tc src;
       tc \<leftarrow> set_RTAG tc GPR_EAX 0 (src_tags ! 0);
       tc \<leftarrow> set_RTAG tc GPR_EAX 1 (src_tags ! 1);
       Some (dst_val = src_val, tc)
     }"

definition cmpxchg_r2r_opw_slow ::
  "'u::linorder taint_state \<Rightarrow> nat \<Rightarrow> nat \<Rightarrow> 'u taint_state option" where
  "cmpxchg_r2r_opw_slow tc dst src =
     do {
       saved_tags \<leftarrow> R16TAG tc GPR_SCRATCH;
       tc \<leftarrow> set_RTAGs tc GPR_EAX 0 saved_tags;
       src_tags \<leftarrow> R16TAG tc src;
       tc \<leftarrow> set_RTAG tc dst 0 (src_tags ! 0);
       set_RTAG tc dst 1 (src_tags ! 1)
     }"

definition cmpxchg_m2r_opq_fast ::
  "'u::linorder taint_state \<Rightarrow> 64 word \<Rightarrow> addr \<Rightarrow> 64 word \<Rightarrow> (bool \<times> 'u taint_state) option" where
  "cmpxchg_m2r_opq_fast tc dst_val src mem_val =
     do {
       tc \<leftarrow> set_RTAGs tc GPR_SCRATCH 0 (replicate 8 cleared_val);
       save_tags \<leftarrow> R64TAG tc GPR_EAX;
       tc \<leftarrow> set_RTAGs tc GPR_SCRATCH 0 save_tags;
       let src_tags = M64TAG tc src;
       tc \<leftarrow> set_RTAGs tc GPR_EAX 0 src_tags;
       Some (dst_val = mem_val, tc)
     }"

definition cmpxchg_r2m_opq_slow ::
  "'u::linorder taint_state \<Rightarrow> addr \<Rightarrow> nat \<Rightarrow> 'u taint_state option" where
  "cmpxchg_r2m_opq_slow tc dst src =
     do {
       saved_tags \<leftarrow> R64TAG tc GPR_SCRATCH;
       tc \<leftarrow> set_RTAGs tc GPR_EAX 0 saved_tags;
       src_tags \<leftarrow> R64TAG tc src;
       set_MTAGs tc dst 0 src_tags
     }"

definition cmpxchg_m2r_opl_fast ::
  "'u::linorder taint_state \<Rightarrow> 64 word \<Rightarrow> addr \<Rightarrow> 64 word \<Rightarrow> (bool \<times> 'u taint_state) option" where
  "cmpxchg_m2r_opl_fast tc dst_val src mem_val =
     do {
       tc \<leftarrow> set_RTAGs tc GPR_SCRATCH 0 (replicate 8 cleared_val);
       save_tags \<leftarrow> R32TAG tc GPR_EAX;
       tc \<leftarrow> set_RTAGs tc GPR_SCRATCH 0 save_tags;
       let src_tags = M32TAG tc src;
       tc \<leftarrow> set_RTAGs tc GPR_EAX 0 src_tags;
       Some ((ucast dst_val :: 32 word) = ucast mem_val, tc)
     }"

definition cmpxchg_r2m_opl_slow ::
  "'u::linorder taint_state \<Rightarrow> addr \<Rightarrow> nat \<Rightarrow> 'u taint_state option" where
  "cmpxchg_r2m_opl_slow tc dst src =
     do {
       saved_tags \<leftarrow> R32TAG tc GPR_SCRATCH;
       tc \<leftarrow> set_RTAGs tc GPR_EAX 0 saved_tags;
       src_tags \<leftarrow> R32TAG tc src;
       set_MTAGs tc dst 0 src_tags
     }"

definition cmpxchg_m2r_opw_fast ::
  "'u::linorder taint_state \<Rightarrow> 64 word \<Rightarrow> addr \<Rightarrow> 64 word \<Rightarrow> (bool \<times> 'u taint_state) option" where
  "cmpxchg_m2r_opw_fast tc dst_val src mem_val =
     do {
       tc \<leftarrow> set_RTAGs tc GPR_SCRATCH 0 (replicate 8 cleared_val);
       save_tags \<leftarrow> R16TAG tc GPR_EAX;
       tc \<leftarrow> set_RTAGs tc GPR_SCRATCH 0 save_tags;
       let src_tags = M16TAG tc src;
       tc \<leftarrow> set_RTAGs tc GPR_EAX 0 src_tags;
       Some ((ucast dst_val :: 16 word) = ucast mem_val, tc)
     }"

definition cmpxchg_r2m_opw_slow ::
  "'u::linorder taint_state \<Rightarrow> addr \<Rightarrow> nat \<Rightarrow> 'u taint_state option" where
  "cmpxchg_r2m_opw_slow tc dst src =
     do {
       saved_tags \<leftarrow> R16TAG tc GPR_SCRATCH;
       tc \<leftarrow> set_RTAGs tc GPR_EAX 0 saved_tags;
       src_tags \<leftarrow> R16TAG tc src;
       set_MTAGs tc dst 0 src_tags
     }"

definition xchg_r2r_opb_ul ::
  "'u::linorder taint_state \<Rightarrow> nat \<Rightarrow> nat \<Rightarrow> 'u taint_state option" where
  "xchg_r2r_opb_ul tc dst src =
     do {
       src_tag \<leftarrow> RTAG tc src 0;
       tmp_tag \<leftarrow> RTAG tc dst 1;
       tc \<leftarrow> set_RTAG tc src 0 tmp_tag;
       set_RTAG tc dst 1 src_tag
     }"

definition xchg_r2r_opb_lu ::
  "'u::linorder taint_state \<Rightarrow> nat \<Rightarrow> nat \<Rightarrow> 'u taint_state option" where
  "xchg_r2r_opb_lu tc dst src =
     do {
       src_tag \<leftarrow> RTAG tc src 1;
       tmp_tag \<leftarrow> RTAG tc dst 0;
       tc \<leftarrow> set_RTAG tc src 1 tmp_tag;
       set_RTAG tc dst 0 src_tag
     }"

definition xchg_r2r_opb_u ::
  "'u::linorder taint_state \<Rightarrow> nat \<Rightarrow> nat \<Rightarrow> 'u taint_state option" where
  "xchg_r2r_opb_u tc dst src =
     do {
       src_tag \<leftarrow> RTAG tc src 1;
       tmp_tag \<leftarrow> RTAG tc dst 1;
       tc \<leftarrow> set_RTAG tc src 1 tmp_tag;
       set_RTAG tc dst 1 src_tag
     }"

definition xchg_r2r_opb_l ::
  "'u::linorder taint_state \<Rightarrow> nat \<Rightarrow> nat \<Rightarrow> 'u taint_state option" where
  "xchg_r2r_opb_l tc dst src =
     do {
       src_tag \<leftarrow> RTAG tc src 0;
       tmp_tag \<leftarrow> RTAG tc dst 0;
       tc \<leftarrow> set_RTAG tc src 0 tmp_tag;
       set_RTAG tc dst 0 src_tag
     }"

definition xchg_r2r_opw ::
  "'u::linorder taint_state \<Rightarrow> nat \<Rightarrow> nat \<Rightarrow> 'u taint_state option" where
  "xchg_r2r_opw tc dst src =
     do {
       src_tags \<leftarrow> R16TAG tc src;
       tmp_tags \<leftarrow> R16TAG tc dst;
       tc \<leftarrow> set_RTAGs tc src 0 tmp_tags;
       set_RTAGs tc dst 0 src_tags
     }"

definition xchg_r2r_opl ::
  "'u::linorder taint_state \<Rightarrow> nat \<Rightarrow> nat \<Rightarrow> 'u taint_state option" where
  "xchg_r2r_opl tc dst src =
     do {
       src_tags \<leftarrow> R32TAG tc src;
       tmp_tags \<leftarrow> R32TAG tc dst;
       tc \<leftarrow> set_RTAGs tc src 0 tmp_tags;
       set_RTAGs tc dst 0 src_tags
     }"

definition xchg_r2r_opq ::
  "'u::linorder taint_state \<Rightarrow> nat \<Rightarrow> nat \<Rightarrow> 'u taint_state option" where
  "xchg_r2r_opq tc dst src =
     do {
       src_tags \<leftarrow> R64TAG tc src;
       tmp_tags \<leftarrow> R64TAG tc dst;
       tc \<leftarrow> set_RTAGs tc src 0 tmp_tags;
       set_RTAGs tc dst 0 src_tags
     }"

definition xchg_m2r_opb_u ::
  "'u::linorder taint_state \<Rightarrow> nat \<Rightarrow> addr \<Rightarrow> 'u taint_state option" where
  "xchg_m2r_opb_u tc dst src =
     do {
       let src_tag = M8TAG tc src;
       tmp_tag \<leftarrow> RTAG tc dst 1;
       tc \<leftarrow> set_MTAG tc src tmp_tag;
       set_RTAG tc dst 1 src_tag
     }"

definition xchg_m2r_opb_l ::
  "'u::linorder taint_state \<Rightarrow> nat \<Rightarrow> addr \<Rightarrow> 'u taint_state option" where
  "xchg_m2r_opb_l tc dst src =
     do {
       let src_tag = M8TAG tc src;
       tmp_tag \<leftarrow> RTAG tc dst 0;
       tc \<leftarrow> set_MTAG tc src tmp_tag;
       set_RTAG tc dst 0 src_tag
     }"

definition xchg_m2r_opw ::
  "'u::linorder taint_state \<Rightarrow> nat \<Rightarrow> addr \<Rightarrow> 'u taint_state option" where
  "xchg_m2r_opw tc dst src =
     do {
       let src_tags = M16TAG tc src;
       tmp_tags \<leftarrow> R16TAG tc dst;
       tc \<leftarrow> set_MTAGs tc src 0 tmp_tags;
       set_RTAGs tc dst 0 src_tags
     }"

definition xchg_m2r_opl ::
  "'u::linorder taint_state \<Rightarrow> nat \<Rightarrow> addr \<Rightarrow> 'u taint_state option" where
  "xchg_m2r_opl tc dst src =
     do {
       let src_tags = M32TAG tc src;
       tmp_tags \<leftarrow> R32TAG tc dst;
       tc \<leftarrow> set_MTAGs tc src 0 tmp_tags;
       set_RTAGs tc dst 0 src_tags
     }"

definition xchg_m2r_opq ::
  "'u::linorder taint_state \<Rightarrow> nat \<Rightarrow> addr \<Rightarrow> 'u taint_state option" where
  "xchg_m2r_opq tc dst src =
     do {
       let src_tags = M64TAG tc src;
       tmp_tags \<leftarrow> R64TAG tc dst;
       tc \<leftarrow> set_MTAGs tc src 0 tmp_tags;
       set_RTAGs tc dst 0 src_tags
     }"

definition xadd_r2r_opb_ul ::
  "'u::linorder taint_state \<Rightarrow> nat \<Rightarrow> nat \<Rightarrow> 'u taint_state option" where
  "xadd_r2r_opb_ul tc dst src =
     do {
       tmp_tag \<leftarrow> RTAG tc dst 1;
       dst_tag \<leftarrow> RTAG tc dst 1;
       src_tag \<leftarrow> RTAG tc src 0;
       tc \<leftarrow> set_RTAG tc dst 1 (tag_combine dst_tag src_tag);
       set_RTAG tc src 0 tmp_tag
     }"

definition xadd_r2r_opb_lu ::
  "'u::linorder taint_state \<Rightarrow> nat \<Rightarrow> nat \<Rightarrow> 'u taint_state option" where
  "xadd_r2r_opb_lu tc dst src =
     do {
       tmp_tag \<leftarrow> RTAG tc dst 0;
       dst_tag \<leftarrow> RTAG tc dst 0;
       src_tag \<leftarrow> RTAG tc src 1;
       tc \<leftarrow> set_RTAG tc dst 0 (tag_combine dst_tag src_tag);
       set_RTAG tc src 1 tmp_tag
     }"

definition xadd_r2r_opb_u ::
  "'u::linorder taint_state \<Rightarrow> nat \<Rightarrow> nat \<Rightarrow> 'u taint_state option" where
  "xadd_r2r_opb_u tc dst src =
     do {
       tmp_tag \<leftarrow> RTAG tc dst 1;
       dst_tag \<leftarrow> RTAG tc dst 1;
       src_tag \<leftarrow> RTAG tc src 1;
       tc \<leftarrow> set_RTAG tc dst 1 (tag_combine dst_tag src_tag);
       set_RTAG tc src 1 tmp_tag
     }"

definition xadd_r2r_opb_l ::
  "'u::linorder taint_state \<Rightarrow> nat \<Rightarrow> nat \<Rightarrow> 'u taint_state option" where
  "xadd_r2r_opb_l tc dst src =
     do {
       tmp_tag \<leftarrow> RTAG tc dst 0;
       dst_tag \<leftarrow> RTAG tc dst 0;
       src_tag \<leftarrow> RTAG tc src 0;
       tc \<leftarrow> set_RTAG tc dst 0 (tag_combine dst_tag src_tag);
       set_RTAG tc src 0 tmp_tag
     }"

definition xadd_r2r_opw ::
  "'u::linorder taint_state \<Rightarrow> nat \<Rightarrow> nat \<Rightarrow> 'u taint_state option" where
  "xadd_r2r_opw tc dst src =
     do {
       src_tags \<leftarrow> R16TAG tc src;
       dst_tags \<leftarrow> R16TAG tc dst;
       tc \<leftarrow> set_RTAGs tc dst 0 (map2 tag_combine dst_tags src_tags);
       set_RTAGs tc src 0 dst_tags
     }"

definition xadd_r2r_opl ::
  "'u::linorder taint_state \<Rightarrow> nat \<Rightarrow> nat \<Rightarrow> 'u taint_state option" where
  "xadd_r2r_opl tc dst src =
     do {
       src_tags \<leftarrow> R32TAG tc src;
       dst_tags \<leftarrow> R32TAG tc dst;
       tc \<leftarrow> set_RTAGs tc dst 0 (map2 tag_combine dst_tags src_tags);
       set_RTAGs tc src 0 dst_tags
     }"

definition xadd_r2r_opq ::
  "'u::linorder taint_state \<Rightarrow> nat \<Rightarrow> nat \<Rightarrow> 'u taint_state option" where
  "xadd_r2r_opq tc dst src =
     do {
       src_tags \<leftarrow> R64TAG tc src;
       dst_tags \<leftarrow> R64TAG tc dst;
       tc \<leftarrow> set_RTAGs tc dst 0 (map2 tag_combine dst_tags src_tags);
       set_RTAGs tc src 0 dst_tags
     }"

definition xadd_r2m_opb_u ::
  "'u::linorder taint_state \<Rightarrow> nat \<Rightarrow> addr \<Rightarrow> 'u taint_state option" where
  "xadd_r2m_opb_u tc src dst =
     do {
       src_tag \<leftarrow> RTAG tc src 1;
       let dst_tag = M8TAG tc dst;
       tc \<leftarrow> set_RTAG tc src 1 dst_tag;
       set_MTAG tc dst (tag_combine src_tag dst_tag)
     }"

definition xadd_r2m_opb_l ::
  "'u::linorder taint_state \<Rightarrow> nat \<Rightarrow> addr \<Rightarrow> 'u taint_state option" where
  "xadd_r2m_opb_l tc src dst =
     do {
       src_tag \<leftarrow> RTAG tc src 0;
       let dst_tag = M8TAG tc dst;
       tc \<leftarrow> set_RTAG tc src 0 dst_tag;
       set_MTAG tc dst (tag_combine src_tag dst_tag)
     }"

definition xadd_r2m_opw ::
  "'u::linorder taint_state \<Rightarrow> nat \<Rightarrow> addr \<Rightarrow> 'u taint_state option" where
  "xadd_r2m_opw tc src dst =
     do {
       src_tags \<leftarrow> R16TAG tc src;
       let dst_tags = M16TAG tc dst;
       tc \<leftarrow> set_RTAGs tc src 0 dst_tags;
       set_MTAGs tc dst 0 (map2 tag_combine src_tags dst_tags)
     }"

definition xadd_r2m_opl ::
  "'u::linorder taint_state \<Rightarrow> nat \<Rightarrow> addr \<Rightarrow> 'u taint_state option" where
  "xadd_r2m_opl tc src dst =
     do {
       src_tags \<leftarrow> R32TAG tc src;
       let dst_tags = M32TAG tc dst;
       tc \<leftarrow> set_RTAGs tc src 0 dst_tags;
       set_MTAGs tc dst 0 (map2 tag_combine src_tags dst_tags)
     }"

definition xadd_r2m_opq ::
  "'u::linorder taint_state \<Rightarrow> nat \<Rightarrow> addr \<Rightarrow> 'u taint_state option" where
  "xadd_r2m_opq tc src dst =
     do {
       src_tags \<leftarrow> R64TAG tc src;
       let dst_tags = M64TAG tc dst;
       tc \<leftarrow> set_RTAGs tc src 0 dst_tags;
       set_MTAGs tc dst 0 (map2 tag_combine src_tags dst_tags)
     }"

lemmas xchg_defs [routine_defs] =
  cmpxchg_r2r_opq_fast_def cmpxchg_r2r_opq_slow_def cmpxchg_r2r_opl_fast_def
  cmpxchg_r2r_opl_slow_def cmpxchg_r2r_opw_fast_def cmpxchg_r2r_opw_slow_def
  cmpxchg_m2r_opq_fast_def cmpxchg_r2m_opq_slow_def cmpxchg_m2r_opl_fast_def
  cmpxchg_r2m_opl_slow_def cmpxchg_m2r_opw_fast_def cmpxchg_r2m_opw_slow_def xchg_r2r_opb_ul_def
  xchg_r2r_opb_lu_def xchg_r2r_opb_u_def xchg_r2r_opb_l_def xchg_r2r_opw_def xchg_r2r_opl_def
  xchg_r2r_opq_def xchg_m2r_opb_u_def xchg_m2r_opb_l_def xchg_m2r_opw_def xchg_m2r_opl_def
  xchg_m2r_opq_def xadd_r2r_opb_ul_def xadd_r2r_opb_lu_def xadd_r2r_opb_u_def xadd_r2r_opb_l_def
  xadd_r2r_opw_def xadd_r2r_opl_def xadd_r2r_opq_def xadd_r2m_opb_u_def xadd_r2m_opb_l_def
  xadd_r2m_opw_def xadd_r2m_opl_def xadd_r2m_opq_def

subsection \<open>Calls and the data flow of each\<close>

text \<open>
  The fast routine overwrites the scratch register before the slow one, or its own second
  read, can look at it: a read of the scratch register sees the saved accumulator.
\<close>

definition unscratch :: "nat \<Rightarrow> nat" where
  "unscratch r = (if r = GPR_SCRATCH then GPR_EAX else r)"

definition cmpxchg_fast_flow :: "flow \<Rightarrow> nat \<Rightarrow> flow" where
  "cmpxchg_fast_flow acc n = clear_r GPR_SCRATCH 0 8 @ copy_rr GPR_SCRATCH GPR_EAX n @ acc"

datatype xchg_call =
    Cmpxchg_r2r_opq "64 word" nat nat "64 word"
  | Cmpxchg_r2r_opl "64 word" nat nat "64 word"
  | Cmpxchg_r2r_opw "64 word" nat nat "64 word"
  | Cmpxchg_m2r_opq "64 word" addr "64 word" addr nat
  | Cmpxchg_m2r_opl "64 word" addr "64 word" addr nat
  | Cmpxchg_m2r_opw "64 word" addr "64 word" addr nat
  | Xchg_r2r_opb_ul nat nat
  | Xchg_r2r_opb_lu nat nat
  | Xchg_r2r_opb_u nat nat
  | Xchg_r2r_opb_l nat nat
  | Xchg_r2r_opw nat nat
  | Xchg_r2r_opl nat nat
  | Xchg_r2r_opq nat nat
  | Xchg_m2r_opb_u nat addr
  | Xchg_m2r_opb_l nat addr
  | Xchg_m2r_opw nat addr
  | Xchg_m2r_opl nat addr
  | Xchg_m2r_opq nat addr
  | Xadd_r2r_opb_ul nat nat
  | Xadd_r2r_opb_lu nat nat
  | Xadd_r2r_opb_u nat nat
  | Xadd_r2r_opb_l nat nat
  | Xadd_r2r_opw nat nat
  | Xadd_r2r_opl nat nat
  | Xadd_r2r_opq nat nat
  | Xadd_r2m_opb_u nat addr
  | Xadd_r2m_opb_l nat addr
  | Xadd_r2m_opw nat addr
  | Xadd_r2m_opl nat addr
  | Xadd_r2m_opq nat addr

fun exec_xchg :: "xchg_call \<Rightarrow> 'u::linorder taint_state \<Rightarrow> 'u taint_state option" where
    "exec_xchg (Cmpxchg_r2r_opq dst_val dst src src_val) tc = do {
       (eq, tc) \<leftarrow> cmpxchg_r2r_opq_fast tc dst_val dst src_val;
       if eq then cmpxchg_r2r_opq_slow tc dst src else Some tc }"
  | "exec_xchg (Cmpxchg_r2r_opl dst_val dst src src_val) tc = do {
       (eq, tc) \<leftarrow> cmpxchg_r2r_opl_fast tc dst_val dst src_val;
       if eq then cmpxchg_r2r_opl_slow tc dst src else Some tc }"
  | "exec_xchg (Cmpxchg_r2r_opw dst_val dst src src_val) tc = do {
       (eq, tc) \<leftarrow> cmpxchg_r2r_opw_fast tc dst_val dst src_val;
       if eq then cmpxchg_r2r_opw_slow tc dst src else Some tc }"
  | "exec_xchg (Cmpxchg_m2r_opq eax_val raddr mem_val waddr src) tc = do {
       (eq, tc) \<leftarrow> cmpxchg_m2r_opq_fast tc eax_val raddr mem_val;
       if eq then cmpxchg_r2m_opq_slow tc waddr src else Some tc }"
  | "exec_xchg (Cmpxchg_m2r_opl eax_val raddr mem_val waddr src) tc = do {
       (eq, tc) \<leftarrow> cmpxchg_m2r_opl_fast tc eax_val raddr mem_val;
       if eq then cmpxchg_r2m_opl_slow tc waddr src else Some tc }"
  | "exec_xchg (Cmpxchg_m2r_opw eax_val raddr mem_val waddr src) tc = do {
       (eq, tc) \<leftarrow> cmpxchg_m2r_opw_fast tc eax_val raddr mem_val;
       if eq then cmpxchg_r2m_opw_slow tc waddr src else Some tc }"
  | "exec_xchg (Xchg_r2r_opb_ul dst src) tc = xchg_r2r_opb_ul tc dst src"
  | "exec_xchg (Xchg_r2r_opb_lu dst src) tc = xchg_r2r_opb_lu tc dst src"
  | "exec_xchg (Xchg_r2r_opb_u dst src) tc = xchg_r2r_opb_u tc dst src"
  | "exec_xchg (Xchg_r2r_opb_l dst src) tc = xchg_r2r_opb_l tc dst src"
  | "exec_xchg (Xchg_r2r_opw dst src) tc = xchg_r2r_opw tc dst src"
  | "exec_xchg (Xchg_r2r_opl dst src) tc = xchg_r2r_opl tc dst src"
  | "exec_xchg (Xchg_r2r_opq dst src) tc = xchg_r2r_opq tc dst src"
  | "exec_xchg (Xchg_m2r_opb_u dst src) tc = xchg_m2r_opb_u tc dst src"
  | "exec_xchg (Xchg_m2r_opb_l dst src) tc = xchg_m2r_opb_l tc dst src"
  | "exec_xchg (Xchg_m2r_opw dst src) tc = xchg_m2r_opw tc dst src"
  | "exec_xchg (Xchg_m2r_opl dst src) tc = xchg_m2r_opl tc dst src"
  | "exec_xchg (Xchg_m2r_opq dst src) tc = xchg_m2r_opq tc dst src"
  | "exec_xchg (Xadd_r2r_opb_ul dst src) tc = xadd_r2r_opb_ul tc dst src"
  | "exec_xchg (Xadd_r2r_opb_lu dst src) tc = xadd_r2r_opb_lu tc dst src"
  | "exec_xchg (Xadd_r2r_opb_u dst src) tc = xadd_r2r_opb_u tc dst src"
  | "exec_xchg (Xadd_r2r_opb_l dst src) tc = xadd_r2r_opb_l tc dst src"
  | "exec_xchg (Xadd_r2r_opw dst src) tc = xadd_r2r_opw tc dst src"
  | "exec_xchg (Xadd_r2r_opl dst src) tc = xadd_r2r_opl tc dst src"
  | "exec_xchg (Xadd_r2r_opq dst src) tc = xadd_r2r_opq tc dst src"
  | "exec_xchg (Xadd_r2m_opb_u src dst) tc = xadd_r2m_opb_u tc src dst"
  | "exec_xchg (Xadd_r2m_opb_l src dst) tc = xadd_r2m_opb_l tc src dst"
  | "exec_xchg (Xadd_r2m_opw src dst) tc = xadd_r2m_opw tc src dst"
  | "exec_xchg (Xadd_r2m_opl src dst) tc = xadd_r2m_opl tc src dst"
  | "exec_xchg (Xadd_r2m_opq src dst) tc = xadd_r2m_opq tc src dst"

fun xchg_ok :: "xchg_call \<Rightarrow> bool" where
    "xchg_ok (Cmpxchg_r2r_opq dst_val dst src src_val) \<longleftrightarrow> dst < 17 \<and> (dst_val = src_val \<longrightarrow> src < 17)"
  | "xchg_ok (Cmpxchg_r2r_opl dst_val dst src src_val) \<longleftrightarrow> dst < 17 \<and> (dst_val = src_val \<longrightarrow> src < 17)"
  | "xchg_ok (Cmpxchg_r2r_opw dst_val dst src src_val) \<longleftrightarrow> dst < 17 \<and> (dst_val = src_val \<longrightarrow> src < 17)"
  | "xchg_ok (Cmpxchg_m2r_opq eax_val raddr mem_val waddr src) \<longleftrightarrow> (eax_val = mem_val \<longrightarrow> src < 17)"
  | "xchg_ok (Cmpxchg_m2r_opl eax_val raddr mem_val waddr src) \<longleftrightarrow> ((ucast eax_val :: 32 word) = ucast mem_val \<longrightarrow> src < 17)"
  | "xchg_ok (Cmpxchg_m2r_opw eax_val raddr mem_val waddr src) \<longleftrightarrow> ((ucast eax_val :: 16 word) = ucast mem_val \<longrightarrow> src < 17)"
  | "xchg_ok (Xchg_r2r_opb_ul dst src) \<longleftrightarrow> dst < 17 \<and> src < 17"
  | "xchg_ok (Xchg_r2r_opb_lu dst src) \<longleftrightarrow> dst < 17 \<and> src < 17"
  | "xchg_ok (Xchg_r2r_opb_u dst src) \<longleftrightarrow> dst < 17 \<and> src < 17"
  | "xchg_ok (Xchg_r2r_opb_l dst src) \<longleftrightarrow> dst < 17 \<and> src < 17"
  | "xchg_ok (Xchg_r2r_opw dst src) \<longleftrightarrow> dst < 17 \<and> src < 17"
  | "xchg_ok (Xchg_r2r_opl dst src) \<longleftrightarrow> dst < 17 \<and> src < 17"
  | "xchg_ok (Xchg_r2r_opq dst src) \<longleftrightarrow> dst < 17 \<and> src < 17"
  | "xchg_ok (Xchg_m2r_opb_u dst src) \<longleftrightarrow> dst < 17"
  | "xchg_ok (Xchg_m2r_opb_l dst src) \<longleftrightarrow> dst < 17"
  | "xchg_ok (Xchg_m2r_opw dst src) \<longleftrightarrow> dst < 17"
  | "xchg_ok (Xchg_m2r_opl dst src) \<longleftrightarrow> dst < 17"
  | "xchg_ok (Xchg_m2r_opq dst src) \<longleftrightarrow> dst < 17"
  | "xchg_ok (Xadd_r2r_opb_ul dst src) \<longleftrightarrow> dst < 17 \<and> src < 17"
  | "xchg_ok (Xadd_r2r_opb_lu dst src) \<longleftrightarrow> dst < 17 \<and> src < 17"
  | "xchg_ok (Xadd_r2r_opb_u dst src) \<longleftrightarrow> dst < 17 \<and> src < 17"
  | "xchg_ok (Xadd_r2r_opb_l dst src) \<longleftrightarrow> dst < 17 \<and> src < 17"
  | "xchg_ok (Xadd_r2r_opw dst src) \<longleftrightarrow> dst < 17 \<and> src < 17"
  | "xchg_ok (Xadd_r2r_opl dst src) \<longleftrightarrow> dst < 17 \<and> src < 17"
  | "xchg_ok (Xadd_r2r_opq dst src) \<longleftrightarrow> dst < 17 \<and> src < 17"
  | "xchg_ok (Xadd_r2m_opb_u src dst) \<longleftrightarrow> src < 17"
  | "xchg_ok (Xadd_r2m_opb_l src dst) \<longleftrightarrow> src < 17"
  | "xchg_ok (Xadd_r2m_opw src dst) \<longleftrightarrow> src < 17"
  | "xchg_ok (Xadd_r2m_opl src dst) \<longleftrightarrow> src < 17"
  | "xchg_ok (Xadd_r2m_opq src dst) \<longleftrightarrow> src < 17"

fun xchg_flow :: "xchg_call \<Rightarrow> flow" where
    "xchg_flow (Cmpxchg_r2r_opq dst_val dst src src_val) =
     cmpxchg_fast_flow (copy_rr GPR_EAX (unscratch dst) 8) 8 @
     (if dst_val = src_val then copy_rr GPR_EAX GPR_EAX 8 @ copy_rr dst (unscratch src) 8 else [])"
  | "xchg_flow (Cmpxchg_r2r_opl dst_val dst src src_val) =
     cmpxchg_fast_flow (copy_rr GPR_EAX (unscratch dst) 4) 4 @
     (if dst_val = src_val then copy_rr GPR_EAX GPR_EAX 4 @ copy_rr dst (unscratch src) 4 else [])"
  | "xchg_flow (Cmpxchg_r2r_opw dst_val dst src src_val) =
     cmpxchg_fast_flow (copy_rr GPR_EAX (unscratch dst) 2) 2 @
     (if dst_val = src_val then copy_rr GPR_EAX GPR_EAX 2 @ copy_rr dst (unscratch src) 2 else [])"
  | "xchg_flow (Cmpxchg_m2r_opq eax_val raddr mem_val waddr src) =
     cmpxchg_fast_flow (copy_mr GPR_EAX raddr 8) 8 @
     (if eax_val = mem_val then copy_rr GPR_EAX GPR_EAX 8 @ copy_rm waddr (unscratch src) 8 else [])"
  | "xchg_flow (Cmpxchg_m2r_opl eax_val raddr mem_val waddr src) =
     cmpxchg_fast_flow (copy_mr GPR_EAX raddr 4) 4 @
     (if (ucast eax_val :: 32 word) = ucast mem_val then copy_rr GPR_EAX GPR_EAX 4 @ copy_rm waddr (unscratch src) 4 else [])"
  | "xchg_flow (Cmpxchg_m2r_opw eax_val raddr mem_val waddr src) =
     cmpxchg_fast_flow (copy_mr GPR_EAX raddr 2) 2 @
     (if (ucast eax_val :: 16 word) = ucast mem_val then copy_rr GPR_EAX GPR_EAX 2 @ copy_rm waddr (unscratch src) 2 else [])"
  | "xchg_flow (Xchg_r2r_opb_ul dst src) =
     [(Reg src 0, [Reg dst 1]), (Reg dst 1, [Reg src 0])]"
  | "xchg_flow (Xchg_r2r_opb_lu dst src) =
     [(Reg src 1, [Reg dst 0]), (Reg dst 0, [Reg src 1])]"
  | "xchg_flow (Xchg_r2r_opb_u dst src) =
     [(Reg src 1, [Reg dst 1]), (Reg dst 1, [Reg src 1])]"
  | "xchg_flow (Xchg_r2r_opb_l dst src) =
     [(Reg src 0, [Reg dst 0]), (Reg dst 0, [Reg src 0])]"
  | "xchg_flow (Xchg_r2r_opw dst src) =
     copy_rr src dst 2 @ copy_rr dst src 2"
  | "xchg_flow (Xchg_r2r_opl dst src) =
     copy_rr src dst 4 @ copy_rr dst src 4"
  | "xchg_flow (Xchg_r2r_opq dst src) =
     copy_rr src dst 8 @ copy_rr dst src 8"
  | "xchg_flow (Xchg_m2r_opb_u dst src) =
     [(Mem src, [Reg dst 1]), (Reg dst 1, [Mem src])]"
  | "xchg_flow (Xchg_m2r_opb_l dst src) =
     [(Mem src, [Reg dst 0]), (Reg dst 0, [Mem src])]"
  | "xchg_flow (Xchg_m2r_opw dst src) =
     copy_rm src dst 2 @ copy_mr dst src 2"
  | "xchg_flow (Xchg_m2r_opl dst src) =
     copy_rm src dst 4 @ copy_mr dst src 4"
  | "xchg_flow (Xchg_m2r_opq dst src) =
     copy_rm src dst 8 @ copy_mr dst src 8"
  | "xchg_flow (Xadd_r2r_opb_ul dst src) =
     [(Reg dst 1, [Reg dst 1, Reg src 0]), (Reg src 0, [Reg dst 1])]"
  | "xchg_flow (Xadd_r2r_opb_lu dst src) =
     [(Reg dst 0, [Reg dst 0, Reg src 1]), (Reg src 1, [Reg dst 0])]"
  | "xchg_flow (Xadd_r2r_opb_u dst src) =
     [(Reg dst 1, [Reg dst 1, Reg src 1]), (Reg src 1, [Reg dst 1])]"
  | "xchg_flow (Xadd_r2r_opb_l dst src) =
     [(Reg dst 0, [Reg dst 0, Reg src 0]), (Reg src 0, [Reg dst 0])]"
  | "xchg_flow (Xadd_r2r_opw dst src) =
     merge_rr dst src 2 @ copy_rr src dst 2"
  | "xchg_flow (Xadd_r2r_opl dst src) =
     merge_rr dst src 4 @ copy_rr src dst 4"
  | "xchg_flow (Xadd_r2r_opq dst src) =
     merge_rr dst src 8 @ copy_rr src dst 8"
  | "xchg_flow (Xadd_r2m_opb_u src dst) =
     [(Reg src 1, [Mem dst]), (Mem dst, [Reg src 1, Mem dst])]"
  | "xchg_flow (Xadd_r2m_opb_l src dst) =
     [(Reg src 0, [Mem dst]), (Mem dst, [Reg src 0, Mem dst])]"
  | "xchg_flow (Xadd_r2m_opw src dst) =
     copy_mr src dst 2 @ map (\<lambda>i. (Mem (dst + of_nat i), [Reg src i, Mem (dst + of_nat i)])) [0..<2]"
  | "xchg_flow (Xadd_r2m_opl src dst) =
     copy_mr src dst 4 @ map (\<lambda>i. (Mem (dst + of_nat i), [Reg src i, Mem (dst + of_nat i)])) [0..<4]"
  | "xchg_flow (Xadd_r2m_opq src dst) =
     copy_mr src dst 8 @ map (\<lambda>i. (Mem (dst + of_nat i), [Reg src i, Mem (dst + of_nat i)])) [0..<8]"

lemma unscratch_eq [simp]:
  "unscratch 16 = 7" "r \<noteq> 16 \<Longrightarrow> unscratch r = r"
  by (simp_all add: unscratch_def)

lemmas cmpxchg_simps = xchg_defs flow_simps cmpxchg_fast_flow_def

definition cmpxchg_slow_src :: "nat \<Rightarrow> nat" where
  "cmpxchg_slow_src r = (if r = GPR_EAX then GPR_SCRATCH else r)"

lemma cmpxchg_r2r_fast_ok:
  assumes "src < 17"
  shows "cmpxchg_r2r_opq_fast tc v src w =
      Some (v = w, apply_flow (cmpxchg_fast_flow (copy_rr GPR_EAX (unscratch src) 8) 8) tc)"
    and "cmpxchg_r2r_opl_fast tc v src w =
      Some (v = w, apply_flow (cmpxchg_fast_flow (copy_rr GPR_EAX (unscratch src) 4) 4) tc)"
    and "cmpxchg_r2r_opw_fast tc v src w =
      Some (v = w, apply_flow (cmpxchg_fast_flow (copy_rr GPR_EAX (unscratch src) 2) 2) tc)"
  using assms by (cases "src = 16"; simp add: cmpxchg_simps)+

lemma cmpxchg_m2r_fast_ok:
  "cmpxchg_m2r_opq_fast tc v src m =
      Some (v = m, apply_flow (cmpxchg_fast_flow (copy_mr GPR_EAX src 8) 8) tc)"
  "cmpxchg_m2r_opl_fast tc v src m =
      Some ((ucast v :: 32 word) = ucast m,
        apply_flow (cmpxchg_fast_flow (copy_mr GPR_EAX src 4) 4) tc)"
  "cmpxchg_m2r_opw_fast tc v src m =
      Some ((ucast v :: 16 word) = ucast m,
        apply_flow (cmpxchg_fast_flow (copy_mr GPR_EAX src 2) 2) tc)"
  by (simp_all add: cmpxchg_simps)

lemma cmpxchg_r2r_slow_ok:
  assumes "dst < 17" "src < 17"
  shows "cmpxchg_r2r_opq_slow tc dst src =
      Some (apply_flow (copy_rr GPR_EAX GPR_SCRATCH 8 @ copy_rr dst (cmpxchg_slow_src src) 8) tc)"
    and "cmpxchg_r2r_opl_slow tc dst src =
      Some (apply_flow (copy_rr GPR_EAX GPR_SCRATCH 4 @ copy_rr dst (cmpxchg_slow_src src) 4) tc)"
    and "cmpxchg_r2r_opw_slow tc dst src =
      Some (apply_flow (copy_rr GPR_EAX GPR_SCRATCH 2 @ copy_rr dst (cmpxchg_slow_src src) 2) tc)"
  using assms by (cases "src = 7"; simp add: cmpxchg_simps cmpxchg_slow_src_def)+

lemma cmpxchg_r2m_slow_ok:
  assumes "src < 17"
  shows "cmpxchg_r2m_opq_slow tc dst src =
      Some (apply_flow (copy_rr GPR_EAX GPR_SCRATCH 8 @ copy_rm dst (cmpxchg_slow_src src) 8) tc)"
    and "cmpxchg_r2m_opl_slow tc dst src =
      Some (apply_flow (copy_rr GPR_EAX GPR_SCRATCH 4 @ copy_rm dst (cmpxchg_slow_src src) 4) tc)"
    and "cmpxchg_r2m_opw_slow tc dst src =
      Some (apply_flow (copy_rr GPR_EAX GPR_SCRATCH 2 @ copy_rm dst (cmpxchg_slow_src src) 2) tc)"
  using assms by (cases "src = 7"; simp add: cmpxchg_simps cmpxchg_slow_src_def)+

text \<open>What the slow routine reads after the fast one: the saved accumulator or the source.\<close>

lemma tag_after_fast:
  assumes acc: "(norm_loc \<circ> fst) ` set acc \<subseteq> range (Reg GPR_EAX)" and i: "i < n"
  shows "tag_of (apply_flow (cmpxchg_fast_flow acc n) tc) (Reg GPR_SCRATCH i) = tag_of tc (Reg GPR_EAX i)"
    and "tag_of (apply_flow (cmpxchg_fast_flow acc n) tc) (Reg (cmpxchg_slow_src src) i) =
      tag_of tc (Reg (unscratch src) i)"
proof -
  have dests: "norm_loc (Reg r i) \<notin> (norm_loc \<circ> fst) ` set acc" if "r \<noteq> 7" for r
    using acc that by auto
  have "norm_loc (Reg 16 i) \<in> (norm_loc \<circ> fst) ` set (copy_rr 16 7 n)"
    using i by (force simp: copy_rr_def)
  then have scratch: "flow_at (cmpxchg_fast_flow acc n) (Reg 16 i) = [Reg 7 i]"
    using i dests [of 16]
    by (simp add: cmpxchg_fast_flow_def flow_at_append image_Un copy_rr_def flow_at_regs)
  then show "tag_of (apply_flow (cmpxchg_fast_flow acc n) tc) (Reg 16 i) = tag_of tc (Reg 7 i)"
    by (simp add: tag_of_apply_flow)
  have other: "flow_at (cmpxchg_fast_flow acc n) (Reg r i) = [Reg r i]" if "r \<noteq> 7" "r \<noteq> 16" for r
    using dests [of r] that
    by (auto simp: cmpxchg_fast_flow_def flow_at_append copy_rr_def clear_r_def flow_at_regs image_iff)
  show "tag_of (apply_flow (cmpxchg_fast_flow acc n) tc) (Reg (cmpxchg_slow_src src) i) =
      tag_of tc (Reg (unscratch src) i)"
    using scratch other [of src]
    by (auto simp: tag_of_apply_flow cmpxchg_slow_src_def unscratch_def)
qed

lemma list_all2_map_upt:
  "(\<And>i. i < n \<Longrightarrow> P (f i) (g i)) \<Longrightarrow> list_all2 P (map f [0..<n]) (map g [0..<n])"
  by (simp add: list_all2_map1 list_all2_map2 list_all2_same)

lemma cmpxchg_eq_flow:
  assumes "(norm_loc \<circ> fst) ` set acc \<subseteq> range (Reg GPR_EAX)"
  shows "apply_flow (copy_rr GPR_EAX GPR_SCRATCH n @ copy_rr dst (cmpxchg_slow_src src) n)
      (apply_flow (cmpxchg_fast_flow acc n) tc) =
    apply_flow (cmpxchg_fast_flow acc n @ copy_rr GPR_EAX GPR_EAX n @ copy_rr dst (unscratch src) n) tc"
    and "apply_flow (copy_rr GPR_EAX GPR_SCRATCH n @ copy_rm a (cmpxchg_slow_src src) n)
      (apply_flow (cmpxchg_fast_flow acc n) tc) =
    apply_flow (cmpxchg_fast_flow acc n @ copy_rr GPR_EAX GPR_EAX n @ copy_rm a (unscratch src) n) tc"
  by (rule apply_flow_seq;
      auto intro!: list_all2_appendI list_all2_map_upt simp: copy_rr_def copy_rm_def tag_after_fast [OF assms])+

lemma copy_EAX_dests:
  "(norm_loc \<circ> fst) ` set (copy_rr GPR_EAX s n) \<subseteq> range (Reg GPR_EAX)"
  "(norm_loc \<circ> fst) ` set (copy_mr GPR_EAX a n) \<subseteq> range (Reg GPR_EAX)"
  by (auto simp: copy_rr_def copy_mr_def)

lemmas cmpxchg_ok =
  cmpxchg_r2r_fast_ok cmpxchg_m2r_fast_ok cmpxchg_r2r_slow_ok cmpxchg_r2m_slow_ok
  cmpxchg_eq_flow [OF copy_EAX_dests(1)] cmpxchg_eq_flow [OF copy_EAX_dests(2)]

fun is_cmpxchg :: "xchg_call \<Rightarrow> bool" where
  "is_cmpxchg (Cmpxchg_r2r_opq _ _ _ _) = True"
| "is_cmpxchg (Cmpxchg_r2r_opl _ _ _ _) = True"
| "is_cmpxchg (Cmpxchg_r2r_opw _ _ _ _) = True"
| "is_cmpxchg (Cmpxchg_m2r_opq _ _ _ _ _) = True"
| "is_cmpxchg (Cmpxchg_m2r_opl _ _ _ _ _) = True"
| "is_cmpxchg (Cmpxchg_m2r_opw _ _ _ _ _) = True"
| "is_cmpxchg _ = False"

lemma exec_cmpxchg_flow:
  "is_cmpxchg c \<Longrightarrow> xchg_ok c \<Longrightarrow> exec_xchg c tc = Some (apply_flow (xchg_flow c) tc)"
  by (cases c) (auto simp: cmpxchg_ok)

lemma exec_plain_xchg_flow:
  "\<not> is_cmpxchg c \<Longrightarrow> xchg_ok c \<Longrightarrow> exec_xchg c tc = Some (apply_flow (xchg_flow c) tc)"
  by (cases c) (simp_all add: xchg_defs flow_simps)

lemma exec_xchg_flow: "xchg_ok c \<Longrightarrow> exec_xchg c tc = Some (apply_flow (xchg_flow c) tc)"
  using exec_cmpxchg_flow exec_plain_xchg_flow by blast

lemma cmpxchg_oob:
  assumes "17 \<le> src"
  shows "cmpxchg_r2r_opq_fast tc v src w = None" "cmpxchg_r2r_opl_fast tc v src w = None"
    "cmpxchg_r2r_opw_fast tc v src w = None"
    "cmpxchg_r2r_opq_slow tc dst src = None" "cmpxchg_r2r_opl_slow tc dst src = None"
    "cmpxchg_r2r_opw_slow tc dst src = None"
    "cmpxchg_r2m_opq_slow tc a src = None" "cmpxchg_r2m_opl_slow tc a src = None"
    "cmpxchg_r2m_opw_slow tc a src = None"
  using assms by (simp_all add: xchg_defs flow_simps)

lemma cmpxchg_pair_oob:
  assumes "17 \<le> src"
  shows "exec_xchg (Cmpxchg_r2r_opq v dst src v) tc = None"
    "exec_xchg (Cmpxchg_r2r_opl v dst src v) tc = None"
    "exec_xchg (Cmpxchg_r2r_opw v dst src v) tc = None"
  using assms by (cases "dst < 17"; simp add: not_less cmpxchg_oob cmpxchg_r2r_fast_ok)+

lemma exec_xchg_oob: "\<not> xchg_ok c \<Longrightarrow> exec_xchg c tc = None"
proof (cases "is_cmpxchg c")
  case True
  then show "\<not> xchg_ok c \<Longrightarrow> exec_xchg c tc = None"
    using cmpxchg_pair_oob
    by (cases c) (auto simp: not_less cmpxchg_oob cmpxchg_m2r_fast_ok)
next
  case False
  then show "\<not> xchg_ok c \<Longrightarrow> exec_xchg c tc = None"
    by (cases c) (auto simp: xchg_defs flow_simps not_less bind_eq_None_conv)
qed

end
