(* ===== verification/CoreAlu.thy ===== *)
theory CoreAlu
  imports TaintState
begin

text \<open>
  Routines of \<^verbatim>\<open>libdft_core64.cc\<close> that combine tags: \<^verbatim>\<open>_lea_*\<close>, the
  ternary operations with the implicit \<^verbatim>\<open>EDX:EAX\<close> destination, and the binary operations.
\<close>

subsection \<open>Routines\<close>

definition lea_r2r_opw ::
  "'u::linorder taint_state \<Rightarrow> nat \<Rightarrow> nat \<Rightarrow> nat \<Rightarrow> 'u taint_state option" where
  "lea_r2r_opw tc dst base index =
     do {
       base_tag \<leftarrow> R16TAG tc base;
       idx_tag \<leftarrow> R16TAG tc index;
       set_RTAGs tc dst 0 (map2 tag_combine base_tag idx_tag)
     }"

definition lea_r2r_opl ::
  "'u::linorder taint_state \<Rightarrow> nat \<Rightarrow> nat \<Rightarrow> nat \<Rightarrow> 'u taint_state option" where
  "lea_r2r_opl tc dst base index =
     do {
       base_tag \<leftarrow> R32TAG tc base;
       idx_tag \<leftarrow> R32TAG tc index;
       set_RTAGs tc dst 0 (map2 tag_combine base_tag idx_tag)
     }"

definition lea_r2r_opq ::
  "'u::linorder taint_state \<Rightarrow> nat \<Rightarrow> nat \<Rightarrow> nat \<Rightarrow> 'u taint_state option" where
  "lea_r2r_opq tc dst base index =
     do {
       base_tag \<leftarrow> R64TAG tc base;
       idx_tag \<leftarrow> R64TAG tc index;
       set_RTAGs tc dst 0 (map2 tag_combine base_tag idx_tag)
     }"

definition r2r_ternary_opb_u ::
  "'u::linorder taint_state \<Rightarrow> nat \<Rightarrow> 'u taint_state option" where
  "r2r_ternary_opb_u tc src =
     do {
       tmp_tag \<leftarrow> RTAG tc src 1;
       eax_tag \<leftarrow> RTAG tc GPR_EAX 0;
       tc \<leftarrow> set_RTAG tc GPR_EAX 0 (tag_combine eax_tag tmp_tag);
       eax_tag \<leftarrow> RTAG tc GPR_EAX 1;
       set_RTAG tc GPR_EAX 1 (tag_combine eax_tag tmp_tag)
     }"

definition r2r_ternary_opb_l ::
  "'u::linorder taint_state \<Rightarrow> nat \<Rightarrow> 'u taint_state option" where
  "r2r_ternary_opb_l tc src =
     do {
       tmp_tag \<leftarrow> RTAG tc src 0;
       eax_tag \<leftarrow> RTAG tc GPR_EAX 0;
       tc \<leftarrow> set_RTAG tc GPR_EAX 0 (tag_combine eax_tag tmp_tag);
       eax_tag \<leftarrow> RTAG tc GPR_EAX 1;
       set_RTAG tc GPR_EAX 1 (tag_combine eax_tag tmp_tag)
     }"

definition r2r_ternary_opw ::
  "'u::linorder taint_state \<Rightarrow> nat \<Rightarrow> 'u taint_state option" where
  "r2r_ternary_opw tc src =
     do {
       tmp_tag \<leftarrow> R16TAG tc src;
       dst1_tag \<leftarrow> R16TAG tc GPR_EDX;
       dst2_tag \<leftarrow> R16TAG tc GPR_EAX;
       tc \<leftarrow> set_RTAG tc GPR_EDX 0 (tag_combine (dst1_tag ! 0) (tmp_tag ! 0));
       tc \<leftarrow> set_RTAG tc GPR_EDX 1 (tag_combine (dst1_tag ! 1) (tmp_tag ! 1));
       tc \<leftarrow> set_RTAG tc GPR_EAX 0 (tag_combine (dst2_tag ! 0) (tmp_tag ! 0));
       set_RTAG tc GPR_EAX 1 (tag_combine (dst2_tag ! 1) (tmp_tag ! 1))
     }"

definition r2r_ternary_opl ::
  "'u::linorder taint_state \<Rightarrow> nat \<Rightarrow> 'u taint_state option" where
  "r2r_ternary_opl tc src =
     do {
       tmp_tag \<leftarrow> R32TAG tc src;
       dst1_tag \<leftarrow> R32TAG tc GPR_EDX;
       dst2_tag \<leftarrow> R32TAG tc GPR_EAX;
       for_upto 0 4 (\<lambda>i tc. do {
         tc \<leftarrow> set_RTAG tc GPR_EDX i (tag_combine (dst1_tag ! i) (tmp_tag ! i));
         set_RTAG tc GPR_EAX i (tag_combine (dst2_tag ! i) (tmp_tag ! i)) }) tc
     }"

definition r2r_ternary_opq ::
  "'u::linorder taint_state \<Rightarrow> nat \<Rightarrow> 'u taint_state option" where
  "r2r_ternary_opq tc src =
     do {
       tmp_tag \<leftarrow> R64TAG tc src;
       dst1_tag \<leftarrow> R64TAG tc GPR_EDX;
       dst2_tag \<leftarrow> R64TAG tc GPR_EAX;
       for_upto 0 8 (\<lambda>i tc. do {
         tc \<leftarrow> set_RTAG tc GPR_EDX i (tag_combine (dst1_tag ! i) (tmp_tag ! i));
         set_RTAG tc GPR_EAX i (tag_combine (dst2_tag ! i) (tmp_tag ! i)) }) tc
     }"

definition m2r_ternary_opb ::
  "'u::linorder taint_state \<Rightarrow> addr \<Rightarrow> 'u taint_state option" where
  "m2r_ternary_opb tc src =
     do {
       let tmp_tag = M8TAG tc src;
       dst_tag \<leftarrow> R16TAG tc GPR_EAX;
       tc \<leftarrow> set_RTAG tc GPR_EAX 0 (tag_combine (dst_tag ! 0) tmp_tag);
       set_RTAG tc GPR_EAX 1 (tag_combine (dst_tag ! 1) tmp_tag)
     }"

definition m2r_ternary_opw ::
  "'u::linorder taint_state \<Rightarrow> addr \<Rightarrow> 'u taint_state option" where
  "m2r_ternary_opw tc src =
     do {
       let tmp_tag = M16TAG tc src;
       dst1_tag \<leftarrow> R16TAG tc GPR_EDX;
       dst2_tag \<leftarrow> R16TAG tc GPR_EAX;
       for_upto 0 2 (\<lambda>i tc. do {
         tc \<leftarrow> set_RTAG tc GPR_EDX i (tag_combine (dst1_tag ! i) (tmp_tag ! i));
         set_RTAG tc GPR_EAX i (tag_combine (dst2_tag ! i) (tmp_tag ! i)) }) tc
     }"

definition m2r_ternary_opl ::
  "'u::linorder taint_state \<Rightarrow> addr \<Rightarrow> 'u taint_state option" where
  "m2r_ternary_opl tc src =
     do {
       let tmp_tag = M32TAG tc src;
       dst1_tag \<leftarrow> R32TAG tc GPR_EDX;
       dst2_tag \<leftarrow> R32TAG tc GPR_EAX;
       for_upto 0 4 (\<lambda>i tc. do {
         tc \<leftarrow> set_RTAG tc GPR_EDX i (tag_combine (dst1_tag ! i) (tmp_tag ! i));
         set_RTAG tc GPR_EAX i (tag_combine (dst2_tag ! i) (tmp_tag ! i)) }) tc
     }"

definition m2r_ternary_opq ::
  "'u::linorder taint_state \<Rightarrow> addr \<Rightarrow> 'u taint_state option" where
  "m2r_ternary_opq tc src =
     do {
       let tmp_tag = M64TAG tc src;
       dst1_tag \<leftarrow> R64TAG tc GPR_EDX;
       dst2_tag \<leftarrow> R64TAG tc GPR_EAX;
       for_upto 0 8 (\<lambda>i tc. do {
         tc \<leftarrow> set_RTAG tc GPR_EDX i (tag_combine (dst1_tag ! i) (tmp_tag ! i));
         set_RTAG tc GPR_EAX i (tag_combine (dst2_tag ! i) (tmp_tag ! i)) }) tc
     }"

definition r2r_binary_opb_ul ::
  "'u::linorder taint_state \<Rightarrow> nat \<Rightarrow> nat \<Rightarrow> 'u taint_state option" where
  "r2r_binary_opb_ul tc dst src =
     do {
       src_tag \<leftarrow> RTAG tc src 0;
       dst_tag \<leftarrow> RTAG tc dst 1;
       set_RTAG tc dst 1 (tag_combine dst_tag src_tag)
     }"

definition r2r_binary_opb_lu ::
  "'u::linorder taint_state \<Rightarrow> nat \<Rightarrow> nat \<Rightarrow> 'u taint_state option" where
  "r2r_binary_opb_lu tc dst src =
     do {
       src_tag \<leftarrow> RTAG tc src 1;
       dst_tag \<leftarrow> RTAG tc dst 0;
       set_RTAG tc dst 0 (tag_combine dst_tag src_tag)
     }"

definition r2r_binary_opb_u ::
  "'u::linorder taint_state \<Rightarrow> nat \<Rightarrow> nat \<Rightarrow> 'u taint_state option" where
  "r2r_binary_opb_u tc dst src =
     do {
       src_tag \<leftarrow> RTAG tc src 1;
       dst_tag \<leftarrow> RTAG tc dst 1;
       set_RTAG tc dst 1 (tag_combine dst_tag src_tag)
     }"

definition r2r_binary_opb_l ::
  "'u::linorder taint_state \<Rightarrow> nat \<Rightarrow> nat \<Rightarrow> 'u taint_state option" where
  "r2r_binary_opb_l tc dst src =
     do {
       src_tag \<leftarrow> RTAG tc src 0;
       dst_tag \<leftarrow> RTAG tc dst 0;
       set_RTAG tc dst 0 (tag_combine dst_tag src_tag)
     }"

definition r2r_binary_opw ::
  "'u::linorder taint_state \<Rightarrow> nat \<Rightarrow> nat \<Rightarrow> 'u taint_state option" where
  "r2r_binary_opw tc dst src =
     do {
       src_tag \<leftarrow> R16TAG tc src;
       dst_tag \<leftarrow> R16TAG tc dst;
       tc \<leftarrow> set_RTAG tc dst 0 (tag_combine (dst_tag ! 0) (src_tag ! 0));
       set_RTAG tc dst 1 (tag_combine (dst_tag ! 1) (src_tag ! 1))
     }"

definition r2r_binary_opl ::
  "'u::linorder taint_state \<Rightarrow> nat \<Rightarrow> nat \<Rightarrow> 'u taint_state option" where
  "r2r_binary_opl tc dst src =
     do {
       src_tag \<leftarrow> R32TAG tc src;
       dst_tag \<leftarrow> R32TAG tc dst;
       tc \<leftarrow> set_RTAG tc dst 0 (tag_combine (dst_tag ! 0) (src_tag ! 0));
       tc \<leftarrow> set_RTAG tc dst 1 (tag_combine (dst_tag ! 1) (src_tag ! 1));
       tc \<leftarrow> set_RTAG tc dst 2 (tag_combine (dst_tag ! 2) (src_tag ! 2));
       set_RTAG tc dst 3 (tag_combine (dst_tag ! 3) (src_tag ! 3))
     }"

definition r2r_binary_opq ::
  "'u::linorder taint_state \<Rightarrow> nat \<Rightarrow> nat \<Rightarrow> 'u taint_state option" where
  "r2r_binary_opq tc dst src =
     do {
       src_tag \<leftarrow> R64TAG tc src;
       dst_tag \<leftarrow> R64TAG tc dst;
       tc \<leftarrow> set_RTAG tc dst 0 (tag_combine (dst_tag ! 0) (src_tag ! 0));
       tc \<leftarrow> set_RTAG tc dst 1 (tag_combine (dst_tag ! 1) (src_tag ! 1));
       tc \<leftarrow> set_RTAG tc dst 2 (tag_combine (dst_tag ! 2) (src_tag ! 2));
       tc \<leftarrow> set_RTAG tc dst 3 (tag_combine (dst_tag ! 3) (src_tag ! 3));
       tc \<leftarrow> set_RTAG tc dst 4 (tag_combine (dst_tag ! 4) (src_tag ! 4));
       tc \<leftarrow> set_RTAG tc dst 5 (tag_combine (dst_tag ! 5) (src_tag ! 5));
       tc \<leftarrow> set_RTAG tc dst 6 (tag_combine (dst_tag ! 6) (src_tag ! 6));
       set_RTAG tc dst 7 (tag_combine (dst_tag ! 7) (src_tag ! 7))
     }"

definition m2r_binary_opb_u ::
  "'u::linorder taint_state \<Rightarrow> nat \<Rightarrow> addr \<Rightarrow> 'u taint_state option" where
  "m2r_binary_opb_u tc dst src =
     do {
       let src_tag = M8TAG tc src;
       dst_tag \<leftarrow> RTAG tc dst 1;
       set_RTAG tc dst 1 (tag_combine src_tag dst_tag)
     }"

definition m2r_binary_opb_l ::
  "'u::linorder taint_state \<Rightarrow> nat \<Rightarrow> addr \<Rightarrow> 'u taint_state option" where
  "m2r_binary_opb_l tc dst src =
     do {
       let src_tag = M8TAG tc src;
       dst_tag \<leftarrow> RTAG tc dst 0;
       set_RTAG tc dst 0 (tag_combine src_tag dst_tag)
     }"

definition m2r_binary_opw ::
  "'u::linorder taint_state \<Rightarrow> nat \<Rightarrow> addr \<Rightarrow> 'u taint_state option" where
  "m2r_binary_opw tc dst src =
     do {
       let src_tag = M16TAG tc src;
       dst_tag \<leftarrow> R16TAG tc dst;
       tc \<leftarrow> set_RTAG tc dst 0 (tag_combine (src_tag ! 0) (dst_tag ! 0));
       set_RTAG tc dst 1 (tag_combine (src_tag ! 1) (dst_tag ! 1))
     }"

definition m2r_binary_opl ::
  "'u::linorder taint_state \<Rightarrow> nat \<Rightarrow> addr \<Rightarrow> 'u taint_state option" where
  "m2r_binary_opl tc dst src =
     do {
       let src_tag = M32TAG tc src;
       dst_tag \<leftarrow> R32TAG tc dst;
       tc \<leftarrow> set_RTAG tc dst 0 (tag_combine (src_tag ! 0) (dst_tag ! 0));
       tc \<leftarrow> set_RTAG tc dst 1 (tag_combine (src_tag ! 1) (dst_tag ! 1));
       tc \<leftarrow> set_RTAG tc dst 2 (tag_combine (src_tag ! 2) (dst_tag ! 2));
       set_RTAG tc dst 3 (tag_combine (src_tag ! 3) (dst_tag ! 3))
     }"

definition m2r_binary_opq ::
  "'u::linorder taint_state \<Rightarrow> nat \<Rightarrow> addr \<Rightarrow> 'u taint_state option" where
  "m2r_binary_opq tc dst src =
     do {
       let src_tag = M64TAG tc src;
       dst_tag \<leftarrow> R64TAG tc dst;
       tc \<leftarrow> set_RTAG tc dst 0 (tag_combine (src_tag ! 0) (dst_tag ! 0));
       tc \<leftarrow> set_RTAG tc dst 1 (tag_combine (src_tag ! 1) (dst_tag ! 1));
       tc \<leftarrow> set_RTAG tc dst 2 (tag_combine (src_tag ! 2) (dst_tag ! 2));
       tc \<leftarrow> set_RTAG tc dst 3 (tag_combine (src_tag ! 3) (dst_tag ! 3));
       tc \<leftarrow> set_RTAG tc dst 4 (tag_combine (src_tag ! 4) (dst_tag ! 4));
       tc \<leftarrow> set_RTAG tc dst 5 (tag_combine (src_tag ! 5) (dst_tag ! 5));
       tc \<leftarrow> set_RTAG tc dst 6 (tag_combine (src_tag ! 6) (dst_tag ! 6));
       set_RTAG tc dst 7 (tag_combine (src_tag ! 7) (dst_tag ! 7))
     }"

definition r2m_binary_opb_u ::
  "'u::linorder taint_state \<Rightarrow> addr \<Rightarrow> nat \<Rightarrow> 'u taint_state option" where
  "r2m_binary_opb_u tc dst src =
     do {
       src_tag \<leftarrow> RTAG tc src 1;
       let dst_tag = M8TAG tc dst;
       let res_tag = tag_combine dst_tag src_tag;
       set_MTAG tc dst res_tag
     }"

definition r2m_binary_opb_l ::
  "'u::linorder taint_state \<Rightarrow> addr \<Rightarrow> nat \<Rightarrow> 'u taint_state option" where
  "r2m_binary_opb_l tc dst src =
     do {
       src_tag \<leftarrow> RTAG tc src 0;
       let dst_tag = M8TAG tc dst;
       let res_tag = tag_combine dst_tag src_tag;
       set_MTAG tc dst res_tag
     }"

definition r2m_binary_opw ::
  "'u::linorder taint_state \<Rightarrow> addr \<Rightarrow> nat \<Rightarrow> 'u taint_state option" where
  "r2m_binary_opw tc dst src =
     do {
       src_tag \<leftarrow> R16TAG tc src;
       let dst_tag = M16TAG tc dst;
       let res_tag = map2 tag_combine dst_tag src_tag;
       tc \<leftarrow> set_MTAG tc dst (res_tag ! 0);
       set_MTAG tc (dst + 1) (res_tag ! 1)
     }"

definition r2m_binary_opl ::
  "'u::linorder taint_state \<Rightarrow> addr \<Rightarrow> nat \<Rightarrow> 'u taint_state option" where
  "r2m_binary_opl tc dst src =
     do {
       src_tag \<leftarrow> R32TAG tc src;
       let dst_tag = M32TAG tc dst;
       let res_tag = map2 tag_combine dst_tag src_tag;
       tc \<leftarrow> set_MTAG tc dst (res_tag ! 0);
       tc \<leftarrow> set_MTAG tc (dst + 1) (res_tag ! 1);
       tc \<leftarrow> set_MTAG tc (dst + 2) (res_tag ! 2);
       set_MTAG tc (dst + 3) (res_tag ! 3)
     }"

definition r2m_binary_opq ::
  "'u::linorder taint_state \<Rightarrow> addr \<Rightarrow> nat \<Rightarrow> 'u taint_state option" where
  "r2m_binary_opq tc dst src =
     do {
       src_tag \<leftarrow> R64TAG tc src;
       let dst_tag = M64TAG tc dst;
       let res_tag = map2 tag_combine dst_tag src_tag;
       tc \<leftarrow> set_MTAG tc dst (res_tag ! 0);
       tc \<leftarrow> set_MTAG tc (dst + 1) (res_tag ! 1);
       tc \<leftarrow> set_MTAG tc (dst + 2) (res_tag ! 2);
       tc \<leftarrow> set_MTAG tc (dst + 3) (res_tag ! 3);
       tc \<leftarrow> set_MTAG tc (dst + 4) (res_tag ! 4);
       tc \<leftarrow> set_MTAG tc (dst + 5) (res_tag ! 5);
       tc \<leftarrow> set_MTAG tc (dst + 6) (res_tag ! 6);
       set_MTAG tc (dst + 7) (res_tag ! 7)
     }"

lemmas alu_defs [routine_defs] =
  lea_r2r_opw_def lea_r2r_opl_def lea_r2r_opq_def r2r_ternary_opb_u_def r2r_ternary_opb_l_def
  r2r_ternary_opw_def r2r_ternary_opl_def r2r_ternary_opq_def m2r_ternary_opb_def
  m2r_ternary_opw_def m2r_ternary_opl_def m2r_ternary_opq_def r2r_binary_opb_ul_def
  r2r_binary_opb_lu_def r2r_binary_opb_u_def r2r_binary_opb_l_def r2r_binary_opw_def
  r2r_binary_opl_def r2r_binary_opq_def m2r_binary_opb_u_def m2r_binary_opb_l_def
  m2r_binary_opw_def m2r_binary_opl_def m2r_binary_opq_def r2m_binary_opb_u_def
  r2m_binary_opb_l_def r2m_binary_opw_def r2m_binary_opl_def r2m_binary_opq_def

subsection \<open>Calls and the data flow of each\<close>

datatype alu_call =
    Lea_r2r_opw nat nat nat
  | Lea_r2r_opl nat nat nat
  | Lea_r2r_opq nat nat nat
  | R2r_ternary_opb_u nat
  | R2r_ternary_opb_l nat
  | R2r_ternary_opw nat
  | R2r_ternary_opl nat
  | R2r_ternary_opq nat
  | M2r_ternary_opb addr
  | M2r_ternary_opw addr
  | M2r_ternary_opl addr
  | M2r_ternary_opq addr
  | R2r_binary_opb_ul nat nat
  | R2r_binary_opb_lu nat nat
  | R2r_binary_opb_u nat nat
  | R2r_binary_opb_l nat nat
  | R2r_binary_opw nat nat
  | R2r_binary_opl nat nat
  | R2r_binary_opq nat nat
  | M2r_binary_opb_u nat addr
  | M2r_binary_opb_l nat addr
  | M2r_binary_opw nat addr
  | M2r_binary_opl nat addr
  | M2r_binary_opq nat addr
  | R2m_binary_opb_u addr nat
  | R2m_binary_opb_l addr nat
  | R2m_binary_opw addr nat
  | R2m_binary_opl addr nat
  | R2m_binary_opq addr nat

fun exec_alu :: "alu_call \<Rightarrow> 'u::linorder taint_state \<Rightarrow> 'u taint_state option" where
    "exec_alu (Lea_r2r_opw dst base index) tc = lea_r2r_opw tc dst base index"
  | "exec_alu (Lea_r2r_opl dst base index) tc = lea_r2r_opl tc dst base index"
  | "exec_alu (Lea_r2r_opq dst base index) tc = lea_r2r_opq tc dst base index"
  | "exec_alu (R2r_ternary_opb_u src) tc = r2r_ternary_opb_u tc src"
  | "exec_alu (R2r_ternary_opb_l src) tc = r2r_ternary_opb_l tc src"
  | "exec_alu (R2r_ternary_opw src) tc = r2r_ternary_opw tc src"
  | "exec_alu (R2r_ternary_opl src) tc = r2r_ternary_opl tc src"
  | "exec_alu (R2r_ternary_opq src) tc = r2r_ternary_opq tc src"
  | "exec_alu (M2r_ternary_opb src) tc = m2r_ternary_opb tc src"
  | "exec_alu (M2r_ternary_opw src) tc = m2r_ternary_opw tc src"
  | "exec_alu (M2r_ternary_opl src) tc = m2r_ternary_opl tc src"
  | "exec_alu (M2r_ternary_opq src) tc = m2r_ternary_opq tc src"
  | "exec_alu (R2r_binary_opb_ul dst src) tc = r2r_binary_opb_ul tc dst src"
  | "exec_alu (R2r_binary_opb_lu dst src) tc = r2r_binary_opb_lu tc dst src"
  | "exec_alu (R2r_binary_opb_u dst src) tc = r2r_binary_opb_u tc dst src"
  | "exec_alu (R2r_binary_opb_l dst src) tc = r2r_binary_opb_l tc dst src"
  | "exec_alu (R2r_binary_opw dst src) tc = r2r_binary_opw tc dst src"
  | "exec_alu (R2r_binary_opl dst src) tc = r2r_binary_opl tc dst src"
  | "exec_alu (R2r_binary_opq dst src) tc = r2r_binary_opq tc dst src"
  | "exec_alu (M2r_binary_opb_u dst src) tc = m2r_binary_opb_u tc dst src"
  | "exec_alu (M2r_binary_opb_l dst src) tc = m2r_binary_opb_l tc dst src"
  | "exec_alu (M2r_binary_opw dst src) tc = m2r_binary_opw tc dst src"
  | "exec_alu (M2r_binary_opl dst src) tc = m2r_binary_opl tc dst src"
  | "exec_alu (M2r_binary_opq dst src) tc = m2r_binary_opq tc dst src"
  | "exec_alu (R2m_binary_opb_u dst src) tc = r2m_binary_opb_u tc dst src"
  | "exec_alu (R2m_binary_opb_l dst src) tc = r2m_binary_opb_l tc dst src"
  | "exec_alu (R2m_binary_opw dst src) tc = r2m_binary_opw tc dst src"
  | "exec_alu (R2m_binary_opl dst src) tc = r2m_binary_opl tc dst src"
  | "exec_alu (R2m_binary_opq dst src) tc = r2m_binary_opq tc dst src"

fun alu_ok :: "alu_call \<Rightarrow> bool" where
    "alu_ok (Lea_r2r_opw dst base index) \<longleftrightarrow> dst < 17 \<and> base < 17 \<and> index < 17"
  | "alu_ok (Lea_r2r_opl dst base index) \<longleftrightarrow> dst < 17 \<and> base < 17 \<and> index < 17"
  | "alu_ok (Lea_r2r_opq dst base index) \<longleftrightarrow> dst < 17 \<and> base < 17 \<and> index < 17"
  | "alu_ok (R2r_ternary_opb_u src) \<longleftrightarrow> src < 17"
  | "alu_ok (R2r_ternary_opb_l src) \<longleftrightarrow> src < 17"
  | "alu_ok (R2r_ternary_opw src) \<longleftrightarrow> src < 17"
  | "alu_ok (R2r_ternary_opl src) \<longleftrightarrow> src < 17"
  | "alu_ok (R2r_ternary_opq src) \<longleftrightarrow> src < 17"
  | "alu_ok (M2r_ternary_opb src) \<longleftrightarrow> True"
  | "alu_ok (M2r_ternary_opw src) \<longleftrightarrow> True"
  | "alu_ok (M2r_ternary_opl src) \<longleftrightarrow> True"
  | "alu_ok (M2r_ternary_opq src) \<longleftrightarrow> True"
  | "alu_ok (R2r_binary_opb_ul dst src) \<longleftrightarrow> dst < 17 \<and> src < 17"
  | "alu_ok (R2r_binary_opb_lu dst src) \<longleftrightarrow> dst < 17 \<and> src < 17"
  | "alu_ok (R2r_binary_opb_u dst src) \<longleftrightarrow> dst < 17 \<and> src < 17"
  | "alu_ok (R2r_binary_opb_l dst src) \<longleftrightarrow> dst < 17 \<and> src < 17"
  | "alu_ok (R2r_binary_opw dst src) \<longleftrightarrow> dst < 17 \<and> src < 17"
  | "alu_ok (R2r_binary_opl dst src) \<longleftrightarrow> dst < 17 \<and> src < 17"
  | "alu_ok (R2r_binary_opq dst src) \<longleftrightarrow> dst < 17 \<and> src < 17"
  | "alu_ok (M2r_binary_opb_u dst src) \<longleftrightarrow> dst < 17"
  | "alu_ok (M2r_binary_opb_l dst src) \<longleftrightarrow> dst < 17"
  | "alu_ok (M2r_binary_opw dst src) \<longleftrightarrow> dst < 17"
  | "alu_ok (M2r_binary_opl dst src) \<longleftrightarrow> dst < 17"
  | "alu_ok (M2r_binary_opq dst src) \<longleftrightarrow> dst < 17"
  | "alu_ok (R2m_binary_opb_u dst src) \<longleftrightarrow> src < 17"
  | "alu_ok (R2m_binary_opb_l dst src) \<longleftrightarrow> src < 17"
  | "alu_ok (R2m_binary_opw dst src) \<longleftrightarrow> src < 17"
  | "alu_ok (R2m_binary_opl dst src) \<longleftrightarrow> src < 17"
  | "alu_ok (R2m_binary_opq dst src) \<longleftrightarrow> src < 17"

fun alu_flow :: "alu_call \<Rightarrow> flow" where
    "alu_flow (Lea_r2r_opw dst base index) =
     map (\<lambda>i. (Reg dst i, [Reg base i, Reg index i])) [0..<2]"
  | "alu_flow (Lea_r2r_opl dst base index) =
     map (\<lambda>i. (Reg dst i, [Reg base i, Reg index i])) [0..<4]"
  | "alu_flow (Lea_r2r_opq dst base index) =
     map (\<lambda>i. (Reg dst i, [Reg base i, Reg index i])) [0..<8]"
  | "alu_flow (R2r_ternary_opb_u src) =
     map (\<lambda>i. (Reg GPR_EAX i, [Reg GPR_EAX i, Reg src 1])) [0..<2]"
  | "alu_flow (R2r_ternary_opb_l src) =
     map (\<lambda>i. (Reg GPR_EAX i, [Reg GPR_EAX i, Reg src 0])) [0..<2]"
  | "alu_flow (R2r_ternary_opw src) =
     merge_rr GPR_EDX src 2 @ merge_rr GPR_EAX src 2"
  | "alu_flow (R2r_ternary_opl src) =
     concat (map (\<lambda>i. [(Reg GPR_EDX i, [Reg GPR_EDX i, Reg src i]), (Reg GPR_EAX i, [Reg GPR_EAX i, Reg src i])]) [0..<4])"
  | "alu_flow (R2r_ternary_opq src) =
     concat (map (\<lambda>i. [(Reg GPR_EDX i, [Reg GPR_EDX i, Reg src i]), (Reg GPR_EAX i, [Reg GPR_EAX i, Reg src i])]) [0..<8])"
  | "alu_flow (M2r_ternary_opb src) =
     map (\<lambda>i. (Reg GPR_EAX i, [Reg GPR_EAX i, Mem src])) [0..<2]"
  | "alu_flow (M2r_ternary_opw src) =
     concat (map (\<lambda>i. [(Reg GPR_EDX i, [Reg GPR_EDX i, Mem (src + of_nat i)]), (Reg GPR_EAX i, [Reg GPR_EAX i, Mem (src + of_nat i)])]) [0..<2])"
  | "alu_flow (M2r_ternary_opl src) =
     concat (map (\<lambda>i. [(Reg GPR_EDX i, [Reg GPR_EDX i, Mem (src + of_nat i)]), (Reg GPR_EAX i, [Reg GPR_EAX i, Mem (src + of_nat i)])]) [0..<4])"
  | "alu_flow (M2r_ternary_opq src) =
     concat (map (\<lambda>i. [(Reg GPR_EDX i, [Reg GPR_EDX i, Mem (src + of_nat i)]), (Reg GPR_EAX i, [Reg GPR_EAX i, Mem (src + of_nat i)])]) [0..<8])"
  | "alu_flow (R2r_binary_opb_ul dst src) =
     [(Reg dst 1, [Reg dst 1, Reg src 0])]"
  | "alu_flow (R2r_binary_opb_lu dst src) =
     [(Reg dst 0, [Reg dst 0, Reg src 1])]"
  | "alu_flow (R2r_binary_opb_u dst src) =
     [(Reg dst 1, [Reg dst 1, Reg src 1])]"
  | "alu_flow (R2r_binary_opb_l dst src) =
     [(Reg dst 0, [Reg dst 0, Reg src 0])]"
  | "alu_flow (R2r_binary_opw dst src) =
     merge_rr dst src 2"
  | "alu_flow (R2r_binary_opl dst src) =
     merge_rr dst src 4"
  | "alu_flow (R2r_binary_opq dst src) =
     merge_rr dst src 8"
  | "alu_flow (M2r_binary_opb_u dst src) =
     [(Reg dst 1, [Mem src, Reg dst 1])]"
  | "alu_flow (M2r_binary_opb_l dst src) =
     [(Reg dst 0, [Mem src, Reg dst 0])]"
  | "alu_flow (M2r_binary_opw dst src) =
     map (\<lambda>i. (Reg dst i, [Mem (src + of_nat i), Reg dst i])) [0..<2]"
  | "alu_flow (M2r_binary_opl dst src) =
     map (\<lambda>i. (Reg dst i, [Mem (src + of_nat i), Reg dst i])) [0..<4]"
  | "alu_flow (M2r_binary_opq dst src) =
     map (\<lambda>i. (Reg dst i, [Mem (src + of_nat i), Reg dst i])) [0..<8]"
  | "alu_flow (R2m_binary_opb_u dst src) =
     [(Mem dst, [Mem dst, Reg src 1])]"
  | "alu_flow (R2m_binary_opb_l dst src) =
     [(Mem dst, [Mem dst, Reg src 0])]"
  | "alu_flow (R2m_binary_opw dst src) =
     map (\<lambda>i. (Mem (dst + of_nat i), [Mem (dst + of_nat i), Reg src i])) [0..<2]"
  | "alu_flow (R2m_binary_opl dst src) =
     map (\<lambda>i. (Mem (dst + of_nat i), [Mem (dst + of_nat i), Reg src i])) [0..<4]"
  | "alu_flow (R2m_binary_opq dst src) =
     map (\<lambda>i. (Mem (dst + of_nat i), [Mem (dst + of_nat i), Reg src i])) [0..<8]"

text \<open>Each routine is the parallel assignment of its flow; outside its register bounds it fails.\<close>

lemma exec_alu_flow: "alu_ok c \<Longrightarrow> exec_alu c tc = Some (apply_flow (alu_flow c) tc)"
  by (cases c) (simp_all add: alu_defs flow_simps)

lemma exec_alu_oob: "\<not> alu_ok c \<Longrightarrow> exec_alu c tc = None"
  by (cases c) (auto simp: alu_defs flow_simps not_less bind_eq_None_conv)

end
