(* ===== verification/CoreXfer.thy ===== *)
theory CoreXfer
  imports TaintState
begin

text \<open>
  Routines of \<^verbatim>\<open>libdft_core64.cc\<close> that clear registers and transfer tags between
  registers and memory, including the repeated string stores \<^verbatim>\<open>r2m_xfer_op*n\<close>.
\<close>

subsection \<open>Routines\<close>

definition r_clrl4 ::
  "'u::linorder taint_state \<Rightarrow> 'u taint_state option" where
  "r_clrl4 tc = for_upto 0 8 (\<lambda>i tc. do { tc \<leftarrow> set_RTAG tc GPR_EBX i cleared_val; tc \<leftarrow> set_RTAG tc GPR_EDX i cleared_val; tc \<leftarrow> set_RTAG tc GPR_ECX i cleared_val; set_RTAG tc GPR_EAX i cleared_val }) tc"

definition r_clrl2 ::
  "'u::linorder taint_state \<Rightarrow> 'u taint_state option" where
  "r_clrl2 tc = for_upto 0 8 (\<lambda>i tc. do { tc \<leftarrow> set_RTAG tc GPR_EDX i cleared_val; set_RTAG tc GPR_EAX i cleared_val }) tc"

definition r_clrq ::
  "'u::linorder taint_state \<Rightarrow> nat \<Rightarrow> 'u taint_state option" where
  "r_clrq tc reg = for_upto 0 8 (\<lambda>i tc. set_RTAG tc reg i cleared_val) tc"

definition r_clrl ::
  "'u::linorder taint_state \<Rightarrow> nat \<Rightarrow> 'u taint_state option" where
  "r_clrl tc reg = for_upto 0 4 (\<lambda>i tc. set_RTAG tc reg i cleared_val) tc"

definition r_clrw ::
  "'u::linorder taint_state \<Rightarrow> nat \<Rightarrow> 'u taint_state option" where
  "r_clrw tc reg = for_upto 0 2 (\<lambda>i tc. set_RTAG tc reg i cleared_val) tc"

definition r_clrb_u ::
  "'u::linorder taint_state \<Rightarrow> nat \<Rightarrow> 'u taint_state option" where
  "r_clrb_u tc reg = set_RTAG tc reg 1 cleared_val"

definition r_clrb_l ::
  "'u::linorder taint_state \<Rightarrow> nat \<Rightarrow> 'u taint_state option" where
  "r_clrb_l tc reg = set_RTAG tc reg 0 cleared_val"

definition r2r_xfer_opb_ul ::
  "'u::linorder taint_state \<Rightarrow> nat \<Rightarrow> nat \<Rightarrow> 'u taint_state option" where
  "r2r_xfer_opb_ul tc dst src =
     do {
       src_tag \<leftarrow> RTAG tc src 0;
       set_RTAG tc dst 1 src_tag
     }"

definition r2r_xfer_opb_lu ::
  "'u::linorder taint_state \<Rightarrow> nat \<Rightarrow> nat \<Rightarrow> 'u taint_state option" where
  "r2r_xfer_opb_lu tc dst src =
     do {
       src_tag \<leftarrow> RTAG tc src 1;
       set_RTAG tc dst 0 src_tag
     }"

definition r2r_xfer_opb_u ::
  "'u::linorder taint_state \<Rightarrow> nat \<Rightarrow> nat \<Rightarrow> 'u taint_state option" where
  "r2r_xfer_opb_u tc dst src =
     do {
       src_tag \<leftarrow> RTAG tc src 1;
       set_RTAG tc dst 1 src_tag
     }"

definition r2r_xfer_opb_l ::
  "'u::linorder taint_state \<Rightarrow> nat \<Rightarrow> nat \<Rightarrow> 'u taint_state option" where
  "r2r_xfer_opb_l tc dst src =
     do {
       src_tag \<leftarrow> RTAG tc src 0;
       set_RTAG tc dst 0 src_tag
     }"

definition r2r_xfer_opw ::
  "'u::linorder taint_state \<Rightarrow> nat \<Rightarrow> nat \<Rightarrow> 'u taint_state option" where
  "r2r_xfer_opw tc dst src =
     do {
       src_tag \<leftarrow> R16TAG tc src;
       tc \<leftarrow> set_RTAG tc dst 0 (src_tag ! 0);
       set_RTAG tc dst 1 (src_tag ! 1)
     }"

definition r2r_xfer_opl ::
  "'u::linorder taint_state \<Rightarrow> nat \<Rightarrow> nat \<Rightarrow> 'u taint_state option" where
  "r2r_xfer_opl tc dst src =
     do {
       src_tag \<leftarrow> R32TAG tc src;
       tc \<leftarrow> set_RTAG tc dst 0 (src_tag ! 0);
       tc \<leftarrow> set_RTAG tc dst 1 (src_tag ! 1);
       tc \<leftarrow> set_RTAG tc dst 2 (src_tag ! 2);
       set_RTAG tc dst 3 (src_tag ! 3)
     }"

definition r2r_xfer_opq ::
  "'u::linorder taint_state \<Rightarrow> nat \<Rightarrow> nat \<Rightarrow> 'u taint_state option" where
  "r2r_xfer_opq tc dst src =
     do {
       src_tag \<leftarrow> R64TAG tc src;
       tc \<leftarrow> set_RTAG tc dst 0 (src_tag ! 0);
       tc \<leftarrow> set_RTAG tc dst 1 (src_tag ! 1);
       tc \<leftarrow> set_RTAG tc dst 2 (src_tag ! 2);
       tc \<leftarrow> set_RTAG tc dst 3 (src_tag ! 3);
       tc \<leftarrow> set_RTAG tc dst 4 (src_tag ! 4);
       tc \<leftarrow> set_RTAG tc dst 5 (src_tag ! 5);
       tc \<leftarrow> set_RTAG tc dst 6 (src_tag ! 6);
       set_RTAG tc dst 7 (src_tag ! 7)
     }"

definition m2r_xfer_opb_u ::
  "'u::linorder taint_state \<Rightarrow> nat \<Rightarrow> addr \<Rightarrow> 'u taint_state option" where
  "m2r_xfer_opb_u tc dst src =
     do {
       let src_tag = M8TAG tc src;
       set_RTAG tc dst 1 src_tag
     }"

definition m2r_xfer_opb_l ::
  "'u::linorder taint_state \<Rightarrow> nat \<Rightarrow> addr \<Rightarrow> 'u taint_state option" where
  "m2r_xfer_opb_l tc dst src =
     do {
       let src_tag = M8TAG tc src;
       set_RTAG tc dst 0 src_tag
     }"

definition m2r_xfer_opw ::
  "'u::linorder taint_state \<Rightarrow> nat \<Rightarrow> addr \<Rightarrow> 'u taint_state option" where
  "m2r_xfer_opw tc dst src =
     do {
       let src_tag = M16TAG tc src;
       tc \<leftarrow> set_RTAG tc dst 0 (src_tag ! 0);
       set_RTAG tc dst 1 (src_tag ! 1)
     }"

definition m2r_xfer_opl ::
  "'u::linorder taint_state \<Rightarrow> nat \<Rightarrow> addr \<Rightarrow> 'u taint_state option" where
  "m2r_xfer_opl tc dst src =
     do {
       let src_tag = M32TAG tc src;
       set_RTAGs tc dst 0 src_tag
     }"

definition m2r_xfer_opq ::
  "'u::linorder taint_state \<Rightarrow> nat \<Rightarrow> addr \<Rightarrow> 'u taint_state option" where
  "m2r_xfer_opq tc dst src =
     do {
       let src_tag = M64TAG tc src;
       set_RTAGs tc dst 0 src_tag
     }"

definition r2m_xfer_opbn ::
  "'u::linorder taint_state \<Rightarrow> addr \<Rightarrow> 64 word \<Rightarrow> 64 word \<Rightarrow> 'u taint_state option" where
  "r2m_xfer_opbn tc dst count eflags =
     do {
       src_tag \<leftarrow> RTAG tc GPR_EAX 0;
       if EFLAGS_DF eflags = 0
       then for_upto 0 (unat count) (\<lambda>i tc. set_MTAG tc (dst + of_nat i) src_tag) tc
       else for_upto 0 (unat count) (\<lambda>i tc.
              let dst_addr = dst - count + 1 + of_nat i in set_MTAG tc dst_addr src_tag) tc
     }"

definition r2m_xfer_opwn ::
  "'u::linorder taint_state \<Rightarrow> addr \<Rightarrow> 64 word \<Rightarrow> 64 word \<Rightarrow> 'u taint_state option" where
  "r2m_xfer_opwn tc dst count eflags =
     do {
       src_tag \<leftarrow> R16TAG tc GPR_EAX;
       if EFLAGS_DF eflags = 0
       then for_upto 0 (unat (push_bit 1 count)) (\<lambda>i tc. set_MTAG tc (dst + of_nat i) (src_tag ! (i mod 2))) tc
       else for_upto 0 (unat (push_bit 1 count)) (\<lambda>i tc.
              let dst_addr = dst - (push_bit 1 count) + 1 + of_nat i in set_MTAG tc dst_addr (src_tag ! (i mod 2))) tc
     }"

definition r2m_xfer_opln ::
  "'u::linorder taint_state \<Rightarrow> addr \<Rightarrow> 64 word \<Rightarrow> 64 word \<Rightarrow> 'u taint_state option" where
  "r2m_xfer_opln tc dst count eflags =
     do {
       src_tag \<leftarrow> R32TAG tc GPR_EAX;
       if EFLAGS_DF eflags = 0
       then for_upto 0 (unat (push_bit 2 count)) (\<lambda>i tc. set_MTAG tc (dst + of_nat i) (src_tag ! (i mod 4))) tc
       else for_upto 0 (unat (push_bit 2 count)) (\<lambda>i tc.
              let dst_addr = dst - (push_bit 2 count) + 1 + of_nat i in set_MTAG tc dst_addr (src_tag ! (i mod 4))) tc
     }"

definition r2m_xfer_opqn ::
  "'u::linorder taint_state \<Rightarrow> addr \<Rightarrow> 64 word \<Rightarrow> 64 word \<Rightarrow> 'u taint_state option" where
  "r2m_xfer_opqn tc dst count eflags =
     do {
       src_tag \<leftarrow> R64TAG tc GPR_EAX;
       if EFLAGS_DF eflags = 0
       then for_upto 0 (unat (push_bit 3 count)) (\<lambda>i tc. set_MTAG tc (dst + of_nat i) (src_tag ! (i mod 8))) tc
       else for_upto 0 (unat (push_bit 3 count)) (\<lambda>i tc.
              let dst_addr = dst - (push_bit 3 count) + 1 + of_nat i in set_MTAG tc dst_addr (src_tag ! (i mod 8))) tc
     }"

definition r2m_xfer_opb_u ::
  "'u::linorder taint_state \<Rightarrow> addr \<Rightarrow> nat \<Rightarrow> 'u taint_state option" where
  "r2m_xfer_opb_u tc dst src =
     do {
       src_tag \<leftarrow> RTAG tc src 1;
       set_MTAG tc dst src_tag
     }"

definition r2m_xfer_opb_l ::
  "'u::linorder taint_state \<Rightarrow> addr \<Rightarrow> nat \<Rightarrow> 'u taint_state option" where
  "r2m_xfer_opb_l tc dst src =
     do {
       src_tag \<leftarrow> RTAG tc src 0;
       set_MTAG tc dst src_tag
     }"

definition r2m_xfer_opw ::
  "'u::linorder taint_state \<Rightarrow> addr \<Rightarrow> nat \<Rightarrow> 'u taint_state option" where
  "r2m_xfer_opw tc dst src =
     do {
       src_tag \<leftarrow> R16TAG tc src;
       tc \<leftarrow> set_MTAG tc dst (src_tag ! 0);
       set_MTAG tc (dst + 1) (src_tag ! 1)
     }"

definition r2m_xfer_opl ::
  "'u::linorder taint_state \<Rightarrow> addr \<Rightarrow> nat \<Rightarrow> 'u taint_state option" where
  "r2m_xfer_opl tc dst src =
     do {
       src_tag \<leftarrow> R32TAG tc src;
       set_MTAGs tc dst 0 src_tag
     }"

definition r2m_xfer_opq ::
  "'u::linorder taint_state \<Rightarrow> addr \<Rightarrow> nat \<Rightarrow> 'u taint_state option" where
  "r2m_xfer_opq tc dst src =
     do {
       src_tag \<leftarrow> R64TAG tc src;
       set_MTAGs tc dst 0 src_tag
     }"

definition m2m_xfer_opw ::
  "'u::linorder taint_state \<Rightarrow> addr \<Rightarrow> addr \<Rightarrow> 'u taint_state option" where
  "m2m_xfer_opw tc dst src =
     do {
       let src_tag = M16TAG tc src;
       set_MTAGs tc dst 0 src_tag
     }"

definition m2m_xfer_opb ::
  "'u::linorder taint_state \<Rightarrow> addr \<Rightarrow> addr \<Rightarrow> 'u taint_state option" where
  "m2m_xfer_opb tc dst src =
     do {
       let src_tag = M8TAG tc src;
       set_MTAG tc dst src_tag
     }"

definition m2m_xfer_opl ::
  "'u::linorder taint_state \<Rightarrow> addr \<Rightarrow> addr \<Rightarrow> 'u taint_state option" where
  "m2m_xfer_opl tc dst src =
     do {
       let src_tag = M32TAG tc src;
       set_MTAGs tc dst 0 src_tag
     }"

definition m2m_xfer_opq ::
  "'u::linorder taint_state \<Rightarrow> addr \<Rightarrow> addr \<Rightarrow> 'u taint_state option" where
  "m2m_xfer_opq tc dst src =
     do {
       let src_tag = M64TAG tc src;
       set_MTAGs tc dst 0 src_tag
     }"

lemmas xfer_defs [routine_defs] =
  r_clrl4_def r_clrl2_def r_clrq_def r_clrl_def r_clrw_def r_clrb_u_def r_clrb_l_def
  r2r_xfer_opb_ul_def r2r_xfer_opb_lu_def r2r_xfer_opb_u_def r2r_xfer_opb_l_def r2r_xfer_opw_def
  r2r_xfer_opl_def r2r_xfer_opq_def m2r_xfer_opb_u_def m2r_xfer_opb_l_def m2r_xfer_opw_def
  m2r_xfer_opl_def m2r_xfer_opq_def r2m_xfer_opbn_def r2m_xfer_opwn_def r2m_xfer_opln_def
  r2m_xfer_opqn_def r2m_xfer_opb_u_def r2m_xfer_opb_l_def r2m_xfer_opw_def r2m_xfer_opl_def
  r2m_xfer_opq_def m2m_xfer_opw_def m2m_xfer_opb_def m2m_xfer_opl_def m2m_xfer_opq_def

subsection \<open>Calls and the data flow of each\<close>

datatype xfer_call =
    R_clrl4
  | R_clrl2
  | R_clrq nat
  | R_clrl nat
  | R_clrw nat
  | R_clrb_u nat
  | R_clrb_l nat
  | R2r_xfer_opb_ul nat nat
  | R2r_xfer_opb_lu nat nat
  | R2r_xfer_opb_u nat nat
  | R2r_xfer_opb_l nat nat
  | R2r_xfer_opw nat nat
  | R2r_xfer_opl nat nat
  | R2r_xfer_opq nat nat
  | M2r_xfer_opb_u nat addr
  | M2r_xfer_opb_l nat addr
  | M2r_xfer_opw nat addr
  | M2r_xfer_opl nat addr
  | M2r_xfer_opq nat addr
  | R2m_xfer_opbn addr "64 word" "64 word"
  | R2m_xfer_opwn addr "64 word" "64 word"
  | R2m_xfer_opln addr "64 word" "64 word"
  | R2m_xfer_opqn addr "64 word" "64 word"
  | R2m_xfer_opb_u addr nat
  | R2m_xfer_opb_l addr nat
  | R2m_xfer_opw addr nat
  | R2m_xfer_opl addr nat
  | R2m_xfer_opq addr nat
  | M2m_xfer_opw addr addr
  | M2m_xfer_opb addr addr
  | M2m_xfer_opl addr addr
  | M2m_xfer_opq addr addr

fun exec_xfer :: "xfer_call \<Rightarrow> 'u::linorder taint_state \<Rightarrow> 'u taint_state option" where
    "exec_xfer R_clrl4 tc = r_clrl4 tc"
  | "exec_xfer R_clrl2 tc = r_clrl2 tc"
  | "exec_xfer (R_clrq reg) tc = r_clrq tc reg"
  | "exec_xfer (R_clrl reg) tc = r_clrl tc reg"
  | "exec_xfer (R_clrw reg) tc = r_clrw tc reg"
  | "exec_xfer (R_clrb_u reg) tc = r_clrb_u tc reg"
  | "exec_xfer (R_clrb_l reg) tc = r_clrb_l tc reg"
  | "exec_xfer (R2r_xfer_opb_ul dst src) tc = r2r_xfer_opb_ul tc dst src"
  | "exec_xfer (R2r_xfer_opb_lu dst src) tc = r2r_xfer_opb_lu tc dst src"
  | "exec_xfer (R2r_xfer_opb_u dst src) tc = r2r_xfer_opb_u tc dst src"
  | "exec_xfer (R2r_xfer_opb_l dst src) tc = r2r_xfer_opb_l tc dst src"
  | "exec_xfer (R2r_xfer_opw dst src) tc = r2r_xfer_opw tc dst src"
  | "exec_xfer (R2r_xfer_opl dst src) tc = r2r_xfer_opl tc dst src"
  | "exec_xfer (R2r_xfer_opq dst src) tc = r2r_xfer_opq tc dst src"
  | "exec_xfer (M2r_xfer_opb_u dst src) tc = m2r_xfer_opb_u tc dst src"
  | "exec_xfer (M2r_xfer_opb_l dst src) tc = m2r_xfer_opb_l tc dst src"
  | "exec_xfer (M2r_xfer_opw dst src) tc = m2r_xfer_opw tc dst src"
  | "exec_xfer (M2r_xfer_opl dst src) tc = m2r_xfer_opl tc dst src"
  | "exec_xfer (M2r_xfer_opq dst src) tc = m2r_xfer_opq tc dst src"
  | "exec_xfer (R2m_xfer_opbn dst count eflags) tc = r2m_xfer_opbn tc dst count eflags"
  | "exec_xfer (R2m_xfer_opwn dst count eflags) tc = r2m_xfer_opwn tc dst count eflags"
  | "exec_xfer (R2m_xfer_opln dst count eflags) tc = r2m_xfer_opln tc dst count eflags"
  | "exec_xfer (R2m_xfer_opqn dst count eflags) tc = r2m_xfer_opqn tc dst count eflags"
  | "exec_xfer (R2m_xfer_opb_u dst src) tc = r2m_xfer_opb_u tc dst src"
  | "exec_xfer (R2m_xfer_opb_l dst src) tc = r2m_xfer_opb_l tc dst src"
  | "exec_xfer (R2m_xfer_opw dst src) tc = r2m_xfer_opw tc dst src"
  | "exec_xfer (R2m_xfer_opl dst src) tc = r2m_xfer_opl tc dst src"
  | "exec_xfer (R2m_xfer_opq dst src) tc = r2m_xfer_opq tc dst src"
  | "exec_xfer (M2m_xfer_opw dst src) tc = m2m_xfer_opw tc dst src"
  | "exec_xfer (M2m_xfer_opb dst src) tc = m2m_xfer_opb tc dst src"
  | "exec_xfer (M2m_xfer_opl dst src) tc = m2m_xfer_opl tc dst src"
  | "exec_xfer (M2m_xfer_opq dst src) tc = m2m_xfer_opq tc dst src"

fun xfer_ok :: "xfer_call \<Rightarrow> bool" where
    "xfer_ok R_clrl4 \<longleftrightarrow> True"
  | "xfer_ok R_clrl2 \<longleftrightarrow> True"
  | "xfer_ok (R_clrq reg) \<longleftrightarrow> reg < 17"
  | "xfer_ok (R_clrl reg) \<longleftrightarrow> reg < 17"
  | "xfer_ok (R_clrw reg) \<longleftrightarrow> reg < 17"
  | "xfer_ok (R_clrb_u reg) \<longleftrightarrow> reg < 17"
  | "xfer_ok (R_clrb_l reg) \<longleftrightarrow> reg < 17"
  | "xfer_ok (R2r_xfer_opb_ul dst src) \<longleftrightarrow> dst < 17 \<and> src < 17"
  | "xfer_ok (R2r_xfer_opb_lu dst src) \<longleftrightarrow> dst < 17 \<and> src < 17"
  | "xfer_ok (R2r_xfer_opb_u dst src) \<longleftrightarrow> dst < 17 \<and> src < 17"
  | "xfer_ok (R2r_xfer_opb_l dst src) \<longleftrightarrow> dst < 17 \<and> src < 17"
  | "xfer_ok (R2r_xfer_opw dst src) \<longleftrightarrow> dst < 17 \<and> src < 17"
  | "xfer_ok (R2r_xfer_opl dst src) \<longleftrightarrow> dst < 17 \<and> src < 17"
  | "xfer_ok (R2r_xfer_opq dst src) \<longleftrightarrow> dst < 17 \<and> src < 17"
  | "xfer_ok (M2r_xfer_opb_u dst src) \<longleftrightarrow> dst < 17"
  | "xfer_ok (M2r_xfer_opb_l dst src) \<longleftrightarrow> dst < 17"
  | "xfer_ok (M2r_xfer_opw dst src) \<longleftrightarrow> dst < 17"
  | "xfer_ok (M2r_xfer_opl dst src) \<longleftrightarrow> dst < 17"
  | "xfer_ok (M2r_xfer_opq dst src) \<longleftrightarrow> dst < 17"
  | "xfer_ok (R2m_xfer_opbn dst count eflags) \<longleftrightarrow> True"
  | "xfer_ok (R2m_xfer_opwn dst count eflags) \<longleftrightarrow> True"
  | "xfer_ok (R2m_xfer_opln dst count eflags) \<longleftrightarrow> True"
  | "xfer_ok (R2m_xfer_opqn dst count eflags) \<longleftrightarrow> True"
  | "xfer_ok (R2m_xfer_opb_u dst src) \<longleftrightarrow> src < 17"
  | "xfer_ok (R2m_xfer_opb_l dst src) \<longleftrightarrow> src < 17"
  | "xfer_ok (R2m_xfer_opw dst src) \<longleftrightarrow> src < 17"
  | "xfer_ok (R2m_xfer_opl dst src) \<longleftrightarrow> src < 17"
  | "xfer_ok (R2m_xfer_opq dst src) \<longleftrightarrow> src < 17"
  | "xfer_ok (M2m_xfer_opw dst src) \<longleftrightarrow> True"
  | "xfer_ok (M2m_xfer_opb dst src) \<longleftrightarrow> True"
  | "xfer_ok (M2m_xfer_opl dst src) \<longleftrightarrow> True"
  | "xfer_ok (M2m_xfer_opq dst src) \<longleftrightarrow> True"

fun xfer_flow :: "xfer_call \<Rightarrow> flow" where
    "xfer_flow R_clrl4 =
     concat (map (\<lambda>i. [(Reg GPR_EBX i, []), (Reg GPR_EDX i, []), (Reg GPR_ECX i, []), (Reg GPR_EAX i, [])]) [0..<8])"
  | "xfer_flow R_clrl2 =
     concat (map (\<lambda>i. [(Reg GPR_EDX i, []), (Reg GPR_EAX i, [])]) [0..<8])"
  | "xfer_flow (R_clrq reg) =
     clear_r reg 0 8"
  | "xfer_flow (R_clrl reg) =
     clear_r reg 0 4"
  | "xfer_flow (R_clrw reg) =
     clear_r reg 0 2"
  | "xfer_flow (R_clrb_u reg) =
     [(Reg reg 1, [])]"
  | "xfer_flow (R_clrb_l reg) =
     [(Reg reg 0, [])]"
  | "xfer_flow (R2r_xfer_opb_ul dst src) =
     [(Reg dst 1, [Reg src 0])]"
  | "xfer_flow (R2r_xfer_opb_lu dst src) =
     [(Reg dst 0, [Reg src 1])]"
  | "xfer_flow (R2r_xfer_opb_u dst src) =
     [(Reg dst 1, [Reg src 1])]"
  | "xfer_flow (R2r_xfer_opb_l dst src) =
     [(Reg dst 0, [Reg src 0])]"
  | "xfer_flow (R2r_xfer_opw dst src) =
     copy_rr dst src 2"
  | "xfer_flow (R2r_xfer_opl dst src) =
     copy_rr dst src 4"
  | "xfer_flow (R2r_xfer_opq dst src) =
     copy_rr dst src 8"
  | "xfer_flow (M2r_xfer_opb_u dst src) =
     [(Reg dst 1, [Mem src])]"
  | "xfer_flow (M2r_xfer_opb_l dst src) =
     [(Reg dst 0, [Mem src])]"
  | "xfer_flow (M2r_xfer_opw dst src) =
     copy_mr dst src 2"
  | "xfer_flow (M2r_xfer_opl dst src) =
     copy_mr dst src 4"
  | "xfer_flow (M2r_xfer_opq dst src) =
     copy_mr dst src 8"
  | "xfer_flow (R2m_xfer_opbn dst count eflags) =
     map (\<lambda>i. (Mem ((if EFLAGS_DF eflags = 0 then dst else dst - count + 1) + of_nat i), [Reg GPR_EAX (i mod 1)])) [0..<unat count]"
  | "xfer_flow (R2m_xfer_opwn dst count eflags) =
     map (\<lambda>i. (Mem ((if EFLAGS_DF eflags = 0 then dst else dst - (push_bit 1 count) + 1) + of_nat i), [Reg GPR_EAX (i mod 2)])) [0..<unat (push_bit 1 count)]"
  | "xfer_flow (R2m_xfer_opln dst count eflags) =
     map (\<lambda>i. (Mem ((if EFLAGS_DF eflags = 0 then dst else dst - (push_bit 2 count) + 1) + of_nat i), [Reg GPR_EAX (i mod 4)])) [0..<unat (push_bit 2 count)]"
  | "xfer_flow (R2m_xfer_opqn dst count eflags) =
     map (\<lambda>i. (Mem ((if EFLAGS_DF eflags = 0 then dst else dst - (push_bit 3 count) + 1) + of_nat i), [Reg GPR_EAX (i mod 8)])) [0..<unat (push_bit 3 count)]"
  | "xfer_flow (R2m_xfer_opb_u dst src) =
     [(Mem dst, [Reg src 1])]"
  | "xfer_flow (R2m_xfer_opb_l dst src) =
     [(Mem dst, [Reg src 0])]"
  | "xfer_flow (R2m_xfer_opw dst src) =
     copy_rm dst src 2"
  | "xfer_flow (R2m_xfer_opl dst src) =
     copy_rm dst src 4"
  | "xfer_flow (R2m_xfer_opq dst src) =
     copy_rm dst src 8"
  | "xfer_flow (M2m_xfer_opw dst src) =
     copy_mm dst src 2"
  | "xfer_flow (M2m_xfer_opb dst src) =
     [(Mem dst, [Mem src])]"
  | "xfer_flow (M2m_xfer_opl dst src) =
     copy_mm dst src 4"
  | "xfer_flow (M2m_xfer_opq dst src) =
     copy_mm dst src 8"

text \<open>Each routine is the parallel assignment of its flow; outside its register bounds it fails.\<close>

fun is_string_store :: "xfer_call \<Rightarrow> bool" where
  "is_string_store (R2m_xfer_opbn _ _ _) = True"
| "is_string_store (R2m_xfer_opwn _ _ _) = True"
| "is_string_store (R2m_xfer_opln _ _ _) = True"
| "is_string_store (R2m_xfer_opqn _ _ _) = True"
| "is_string_store _ = False"

lemma exec_string_store_flow:
  "is_string_store c \<Longrightarrow> exec_xfer c tc = Some (apply_flow (xfer_flow c) tc)"
  by (cases c) (simp_all add: xfer_defs loop_simps)

lemma exec_plain_xfer_flow:
  "\<not> is_string_store c \<Longrightarrow> xfer_ok c \<Longrightarrow> exec_xfer c tc = Some (apply_flow (xfer_flow c) tc)"
  by (cases c) (simp_all add: xfer_defs flow_simps)

lemma exec_xfer_flow: "xfer_ok c \<Longrightarrow> exec_xfer c tc = Some (apply_flow (xfer_flow c) tc)"
  using exec_string_store_flow exec_plain_xfer_flow by blast

lemma exec_xfer_oob: "\<not> xfer_ok c \<Longrightarrow> exec_xfer c tc = None"
  by (cases c) (auto simp: xfer_defs flow_simps not_less bind_eq_None_conv)

end
