(* ===== verification/CoreMisc.thy ===== *)
theory CoreMisc
  imports TaintState
begin

text \<open>
  The remaining routines of \<^verbatim>\<open>libdft_core64.cc\<close>: bit scans, saving and restoring
  the register file, and clearing a memory range.
\<close>

subsection \<open>Routines\<close>

definition m2r_bitscan_opq ::
  "'u::linorder taint_state \<Rightarrow> nat \<Rightarrow> addr \<Rightarrow> 'u taint_state option" where
  "m2r_bitscan_opq tc dst src =
     do {
       let src_tag = M64TAG tc src;
       set_RTAGs tc (unat src) 0 src_tag
     }"

definition m2r_bitscan_opl ::
  "'u::linorder taint_state \<Rightarrow> nat \<Rightarrow> addr \<Rightarrow> 'u taint_state option" where
  "m2r_bitscan_opl tc dst src =
     do {
       let src_tag = M32TAG tc src;
       set_RTAGs tc (unat src) 0 src_tag
     }"

definition m2r_bitscan_opw ::
  "'u::linorder taint_state \<Rightarrow> nat \<Rightarrow> addr \<Rightarrow> 'u taint_state option" where
  "m2r_bitscan_opw tc dst src =
     do {
       let src_tag = M16TAG tc src;
       set_RTAGs tc (unat src) 0 src_tag
     }"

definition r2r_bitscan_opq ::
  "'u::linorder taint_state \<Rightarrow> nat \<Rightarrow> nat \<Rightarrow> 'u taint_state option" where
  "r2r_bitscan_opq tc dst src =
     do {
       src_tag \<leftarrow> R64TAG tc src;
       set_RTAGs tc src 0 src_tag
     }"

definition r2r_bitscan_opl ::
  "'u::linorder taint_state \<Rightarrow> nat \<Rightarrow> nat \<Rightarrow> 'u taint_state option" where
  "r2r_bitscan_opl tc dst src =
     do {
       src_tag \<leftarrow> R32TAG tc src;
       set_RTAGs tc src 0 src_tag
     }"

definition r2r_bitscan_opw ::
  "'u::linorder taint_state \<Rightarrow> nat \<Rightarrow> nat \<Rightarrow> 'u taint_state option" where
  "r2r_bitscan_opw tc dst src =
     do {
       src_tag \<leftarrow> R16TAG tc src;
       set_RTAGs tc src 0 src_tag
     }"

definition m2r_restore_opw ::
  "'u::linorder taint_state \<Rightarrow> addr \<Rightarrow> 'u taint_state option" where
  "m2r_restore_opw tc src =
     do {
       for_upto 0 8 (\<lambda>i tc.
         if i = GPR_ESP then Some tc
         else
           let offset = (if i < GPR_ESP then push_bit 1 (of_nat i) else push_bit 1 (of_nat i - 1));
               src_tag = M16TAG tc (src + offset)
           in do {
             tc \<leftarrow> set_RTAG tc (GPR_EDI + i) 0 (src_tag ! 0);
             set_RTAG tc (GPR_EDI + i) 1 (src_tag ! 1) }) tc
     }"

definition m2r_restore_opl ::
  "'u::linorder taint_state \<Rightarrow> addr \<Rightarrow> 'u taint_state option" where
  "m2r_restore_opl tc src =
     do {
       for_upto 0 8 (\<lambda>i tc.
         if i = GPR_ESP then Some tc
         else
           let offset = (if i < GPR_ESP then push_bit 2 (of_nat i) else push_bit 2 (of_nat i - 1));
               src_tag = M32TAG tc (src + offset)
           in do {
             tc \<leftarrow> set_RTAG tc (GPR_EDI + i) 0 (src_tag ! 0);
             tc \<leftarrow> set_RTAG tc (GPR_EDI + i) 1 (src_tag ! 1);
             tc \<leftarrow> set_RTAG tc (GPR_EDI + i) 2 (src_tag ! 2);
             set_RTAG tc (GPR_EDI + i) 3 (src_tag ! 3) }) tc
     }"

definition r2m_save_opw ::
  "'u::linorder taint_state \<Rightarrow> addr \<Rightarrow> 'u taint_state option" where
  "r2m_save_opw tc dst =
     do {
       for_upto GPR_EDI GPR_SCRATCH (\<lambda>i tc.
         if i = GPR_ESP then Some tc
         else
           let offset = (if i < GPR_ESP then push_bit 1 (of_nat i) else push_bit 1 (of_nat i - 1))
           in do {
             src_tag \<leftarrow> R16TAG tc i;
             tc \<leftarrow> set_MTAG tc (dst + offset) (src_tag ! 0);
             set_MTAG tc (dst + offset + 1) (src_tag ! 1) }) tc
     }"

definition r2m_save_opl ::
  "'u::linorder taint_state \<Rightarrow> addr \<Rightarrow> 'u taint_state option" where
  "r2m_save_opl tc dst =
     do {
       for_upto GPR_EDI GPR_SCRATCH (\<lambda>i tc.
         if i = GPR_ESP then Some tc
         else
           let offset = (if i < GPR_ESP then push_bit 2 (of_nat i) else push_bit 2 (of_nat i - 1))
           in do {
             src_tag \<leftarrow> R32TAG tc i;
             set_MTAGs tc (dst + offset) 0 src_tag }) tc
     }"

definition m_clrn ::
  "'u::linorder taint_state \<Rightarrow> addr \<Rightarrow> nat \<Rightarrow> 'u taint_state option" where
  "m_clrn tc addr n = for_upto 0 n (\<lambda>i tc. set_MTAG tc (addr + of_nat i) cleared_val) tc"

lemmas misc_defs [routine_defs] =
  m2r_bitscan_opq_def m2r_bitscan_opl_def m2r_bitscan_opw_def r2r_bitscan_opq_def
  r2r_bitscan_opl_def r2r_bitscan_opw_def m2r_restore_opw_def m2r_restore_opl_def
  r2m_save_opw_def r2m_save_opl_def m_clrn_def

subsection \<open>Calls and the data flow of each\<close>

datatype misc_call =
    M2r_bitscan_opq nat addr
  | M2r_bitscan_opl nat addr
  | M2r_bitscan_opw nat addr
  | R2r_bitscan_opq nat nat
  | R2r_bitscan_opl nat nat
  | R2r_bitscan_opw nat nat
  | M2r_restore_opw addr
  | M2r_restore_opl addr
  | R2m_save_opw addr
  | R2m_save_opl addr
  | M_clrn addr nat

fun exec_misc :: "misc_call \<Rightarrow> 'u::linorder taint_state \<Rightarrow> 'u taint_state option" where
    "exec_misc (M2r_bitscan_opq dst src) tc = m2r_bitscan_opq tc dst src"
  | "exec_misc (M2r_bitscan_opl dst src) tc = m2r_bitscan_opl tc dst src"
  | "exec_misc (M2r_bitscan_opw dst src) tc = m2r_bitscan_opw tc dst src"
  | "exec_misc (R2r_bitscan_opq dst src) tc = r2r_bitscan_opq tc dst src"
  | "exec_misc (R2r_bitscan_opl dst src) tc = r2r_bitscan_opl tc dst src"
  | "exec_misc (R2r_bitscan_opw dst src) tc = r2r_bitscan_opw tc dst src"
  | "exec_misc (M2r_restore_opw src) tc = m2r_restore_opw tc src"
  | "exec_misc (M2r_restore_opl src) tc = m2r_restore_opl tc src"
  | "exec_misc (R2m_save_opw dst) tc = r2m_save_opw tc dst"
  | "exec_misc (R2m_save_opl dst) tc = r2m_save_opl tc dst"
  | "exec_misc (M_clrn addr n) tc = m_clrn tc addr n"

fun misc_ok :: "misc_call \<Rightarrow> bool" where
    "misc_ok (M2r_bitscan_opq dst src) \<longleftrightarrow> unat src < 17"
  | "misc_ok (M2r_bitscan_opl dst src) \<longleftrightarrow> unat src < 17"
  | "misc_ok (M2r_bitscan_opw dst src) \<longleftrightarrow> unat src < 17"
  | "misc_ok (R2r_bitscan_opq dst src) \<longleftrightarrow> src < 17"
  | "misc_ok (R2r_bitscan_opl dst src) \<longleftrightarrow> src < 17"
  | "misc_ok (R2r_bitscan_opw dst src) \<longleftrightarrow> src < 17"
  | "misc_ok (M2r_restore_opw src) \<longleftrightarrow> True"
  | "misc_ok (M2r_restore_opl src) \<longleftrightarrow> True"
  | "misc_ok (R2m_save_opw dst) \<longleftrightarrow> True"
  | "misc_ok (R2m_save_opl dst) \<longleftrightarrow> True"
  | "misc_ok (M_clrn addr n) \<longleftrightarrow> True"

fun misc_flow :: "misc_call \<Rightarrow> flow" where
    "misc_flow (M2r_bitscan_opq dst src) =
     copy_mr (unat src) src 8"
  | "misc_flow (M2r_bitscan_opl dst src) =
     copy_mr (unat src) src 4"
  | "misc_flow (M2r_bitscan_opw dst src) =
     copy_mr (unat src) src 2"
  | "misc_flow (R2r_bitscan_opq dst src) =
     copy_rr src src 8"
  | "misc_flow (R2r_bitscan_opl dst src) =
     copy_rr src src 4"
  | "misc_flow (R2r_bitscan_opw dst src) =
     copy_rr src src 2"
  | "misc_flow (M2r_restore_opw src) =
     concat (map (\<lambda>i. if i = GPR_ESP then [] else
       map (\<lambda>j. (Reg i j, [Mem (src + (of_nat (if i < GPR_ESP then 2 * i else 2 * (i - 1))) + of_nat j)])) [0..<2]) [0..<8])"
  | "misc_flow (M2r_restore_opl src) =
     concat (map (\<lambda>i. if i = GPR_ESP then [] else
       map (\<lambda>j. (Reg i j, [Mem (src + (of_nat (if i < GPR_ESP then 4 * i else 4 * (i - 1))) + of_nat j)])) [0..<4]) [0..<8])"
  | "misc_flow (R2m_save_opw dst) =
     concat (map (\<lambda>i. if i = GPR_ESP then [] else
       map (\<lambda>j. (Mem (dst + (of_nat (if i < GPR_ESP then 2 * i else 2 * (i - 1))) + of_nat j), [Reg i j])) [0..<2]) [0..<16])"
  | "misc_flow (R2m_save_opl dst) =
     concat (map (\<lambda>i. if i = GPR_ESP then [] else
       map (\<lambda>j. (Mem (dst + (of_nat (if i < GPR_ESP then 4 * i else 4 * (i - 1))) + of_nat j), [Reg i j])) [0..<4]) [0..<16])"
  | "misc_flow (M_clrn addr n) =
     map (\<lambda>i. (Mem (addr + of_nat i), [])) [0..<n]"

text \<open>Each routine is the parallel assignment of its flow; outside its register bounds it fails.\<close>

lemma m_clrn_flow: "m_clrn tc addr n = Some (apply_flow (misc_flow (M_clrn addr n)) tc)"
  by (simp add: m_clrn_def loop_simps)

lemma exec_misc_flow: "misc_ok c \<Longrightarrow> exec_misc c tc = Some (apply_flow (misc_flow c) tc)"
proof (cases c)
  case (M_clrn a n)
  then show ?thesis by (simp add: m_clrn_flow del: misc_flow.simps)
qed (simp_all add: misc_defs flow_simps)

lemma exec_misc_oob: "\<not> misc_ok c \<Longrightarrow> exec_misc c tc = None"
  by (cases c) (auto simp: misc_defs flow_simps not_less bind_eq_None_conv)

end
