(* ===== verification/Calls.thy ===== *)
theory Calls
  imports CoreMov CoreXchg CoreAlu CoreXfer CoreMisc
begin

text \<open>
  Sequences of analysis calls. Instrumentation attaches analysis routines with arguments to
  instructions; executing the program runs them in order. A call is a routine with its
  arguments; the tag of a location after a run is the combination of the initial tags of
  the locations it depends on, where dependence is the composition of the calls' flows.
\<close>

subsection \<open>Calls\<close>

datatype call =
    MovC mov_call
  | XchgC xchg_call
  | AluC alu_call
  | XferC xfer_call
  | MiscC misc_call
  | Tagmap_clrb addr
  | Tagmap_clrw addr
  | Tagmap_clrl addr
  | Tagmap_clrq addr

fun exec_call :: "call \<Rightarrow> 'u::linorder taint_state \<Rightarrow> 'u taint_state option" where
  "exec_call (MovC c) tc = exec_mov c tc"
| "exec_call (XchgC c) tc = exec_xchg c tc"
| "exec_call (AluC c) tc = exec_alu c tc"
| "exec_call (XferC c) tc = exec_xfer c tc"
| "exec_call (MiscC c) tc = exec_misc c tc"
| "exec_call (Tagmap_clrb a) tc = Some (tc\<lparr>tag_dir := tagmap_clrb (tag_dir tc) a\<rparr>)"
| "exec_call (Tagmap_clrw a) tc = Some (tc\<lparr>tag_dir := tagmap_clrw (tag_dir tc) a\<rparr>)"
| "exec_call (Tagmap_clrl a) tc = Some (tc\<lparr>tag_dir := tagmap_clrl (tag_dir tc) a\<rparr>)"
| "exec_call (Tagmap_clrq a) tc = Some (tc\<lparr>tag_dir := tagmap_clrq (tag_dir tc) a\<rparr>)"

fun call_ok :: "call \<Rightarrow> bool" where
  "call_ok (MovC c) = mov_ok c"
| "call_ok (XchgC c) = xchg_ok c"
| "call_ok (AluC c) = alu_ok c"
| "call_ok (XferC c) = xfer_ok c"
| "call_ok (MiscC c) = misc_ok c"
| "call_ok _ = True"

definition clear_m :: "addr \<Rightarrow> nat \<Rightarrow> flow" where
  "clear_m a n = map (\<lambda>i. (Mem (a + of_nat i), [])) [0..<n]"

fun call_flow :: "call \<Rightarrow> flow" where
  "call_flow (MovC c) = mov_flow c"
| "call_flow (XchgC c) = xchg_flow c"
| "call_flow (AluC c) = alu_flow c"
| "call_flow (XferC c) = xfer_flow c"
| "call_flow (MiscC c) = misc_flow c"
| "call_flow (Tagmap_clrb a) = clear_m a 1"
| "call_flow (Tagmap_clrw a) = clear_m a 2"
| "call_flow (Tagmap_clrl a) = clear_m a 4"
| "call_flow (Tagmap_clrq a) = clear_m a 8"

lemma exec_call_flow: "call_ok c \<Longrightarrow> exec_call c tc = Some (apply_flow (call_flow c) tc)"
proof (cases c)
qed (simp_all add: exec_mov_flow exec_xchg_flow exec_alu_flow exec_xfer_flow exec_misc_flow
    clear_m_def flow_simps put.simps tagmap_clrb_def tagmap_clrw_def tagmap_clrl_def
    tagmap_clrq_def ac_simps)

lemma exec_call_oob: "\<not> call_ok c \<Longrightarrow> exec_call c tc = None"
  by (cases c) (simp_all add: exec_mov_oob exec_xchg_oob exec_alu_oob exec_xfer_oob exec_misc_oob)

subsection \<open>Runs\<close>

definition exec_calls :: "call list \<Rightarrow> 'u::linorder taint_state \<Rightarrow> 'u taint_state option" where
  "exec_calls cs tc = iterM exec_call cs tc"

inductive dep :: "call list \<Rightarrow> loc \<Rightarrow> loc \<Rightarrow> bool" where
  dep_nil: "dep [] l l"
| dep_cons: "l0 \<in> set (flow_at (call_flow c) l1) \<Longrightarrow> dep cs l1 l \<Longrightarrow> dep (c # cs) l0 l"

inductive_simps dep_Nil_iff [simp]: "dep [] l0 l"
inductive_simps dep_Cons_iff: "dep (c # cs) l0 l"

fun prov :: "call list \<Rightarrow> loc \<Rightarrow> loc list" where
  "prov [] l = [l]"
| "prov (c # cs) l = concat (map (flow_at (call_flow c)) (prov cs l))"

lemma dep_iff_prov: "dep cs l0 l \<longleftrightarrow> l0 \<in> set (prov cs l)"
  by (induction cs arbitrary: l0) (auto simp: dep_Cons_iff)

lemma exec_calls_Nil [simp]: "exec_calls [] tc = Some tc"
  by (simp add: exec_calls_def)

lemma exec_calls_Cons:
  "exec_calls (c # cs) tc = do { tc \<leftarrow> exec_call c tc; exec_calls cs tc }"
  by (simp add: exec_calls_def)

lemma exec_calls_append:
  "exec_calls (cs @ ds) tc = do { tc \<leftarrow> exec_calls cs tc; exec_calls ds tc }"
  by (induction cs arbitrary: tc) (auto simp: exec_calls_Cons split: bind_split)

lemma exec_calls_ok: "list_all call_ok cs \<Longrightarrow> \<exists>tc'. exec_calls cs tc = Some tc'"
  by (induction cs arbitrary: tc) (auto simp: exec_calls_Cons exec_call_flow)

lemma exec_calls_oob: "\<not> list_all call_ok cs \<Longrightarrow> exec_calls cs tc = None"
  by (induction cs arbitrary: tc)
    (auto simp: exec_calls_Cons exec_call_oob split: bind_split)

lemma exec_calls_tag:
  "exec_calls cs tc = Some tc' \<Longrightarrow> tag_of tc' l = combine_all (map (tag_of tc) (prov cs l))"
proof (induction cs arbitrary: tc)
  case Nil
  then show ?case by simp
next
  case (Cons c cs)
  have ok: "call_ok c"
  proof (rule ccontr)
    assume "\<not> call_ok c"
    then have "exec_call c tc = None" by (rule exec_call_oob)
    with Cons.prems show False by (simp add: exec_calls_Cons)
  qed
  with Cons.prems have "exec_calls cs (apply_flow (call_flow c) tc) = Some tc'"
    by (simp add: exec_calls_Cons exec_call_flow)
  then have "tag_of tc' l = combine_all (map (tag_of (apply_flow (call_flow c) tc)) (prov cs l))"
    by (rule Cons.IH)
  also have "\<dots> = combine_all
      (map (\<lambda>l'. combine_all (map (tag_of tc) (flow_at (call_flow c) l'))) (prov cs l))"
    by (intro arg_cong [where f = combine_all] map_cong refl tag_of_apply_flow)
  also have "\<dots> = combine_all (map (tag_of tc) (concat (map (flow_at (call_flow c)) (prov cs l))))"
    using combine_all_concat [of "tag_of tc" "map (flow_at (call_flow c)) (prov cs l)"]
    by (simp add: map_concat o_def)
  finally show ?case by simp
qed

lemma exec_calls_members:
  "exec_calls cs tc = Some tc' \<Longrightarrow>
   u \<in> tag_members (tag_of tc' l) \<longleftrightarrow> (\<exists>l0. dep cs l0 l \<and> u \<in> tag_members (tag_of tc l0))"
  by (auto simp: exec_calls_tag members_combine_all dep_iff_prov)

end
