(* ===== verification/Pin.thy ===== *)
theory Pin
  imports PinRegs Calls
begin

text \<open>
  What the instrumentation code sees of Pin. \<open>INS\<close> holds the answers of Pin's inspection
  interface for one decoded instruction, \<open>PIN\<close> the register queries Pin's library answers
  (its code is not part of the repository), and \<open>ENV\<close> the values Pin passes for the
  \<^verbatim>\<open>IARG_\<close> arguments when the instruction is about to execute: the effective addresses, the
  register values, whether the instruction's predicate holds and whether this is the first
  iteration of a repeated string instruction. A call inserted with \<^verbatim>\<open>INS_InsertCall\<close> always
  runs, one inserted with \<^verbatim>\<open>INS_InsertPredicatedCall\<close> only if the predicate holds. The lists
  \<open>INS_RegRs\<close> and \<open>INS_RegWs\<close> are what \<^verbatim>\<open>INS_RegR(ins, i)\<close> and \<^verbatim>\<open>INS_RegW(ins, i)\<close> return for
  \<open>i = 0, 1, \<dots>\<close>; past their end Pin returns the invalid register.
\<close>

subsection \<open>Instructions\<close>

record INS =
  INS_Opcode :: nat
  INS_OperandIsImmediate :: "nat \<Rightarrow> bool"
  INS_OperandIsMemory :: "nat \<Rightarrow> bool"
  INS_OperandIsReg :: "nat \<Rightarrow> bool"
  INS_OperandIsImplicit :: "nat \<Rightarrow> bool"
  INS_OperandReg :: "nat \<Rightarrow> REG"
  INS_OperandWidth :: "nat \<Rightarrow> nat"
  INS_MemoryOperandCount :: nat
  INS_IsMemoryRead :: bool
  INS_IsMemoryWrite :: bool
  INS_MemoryReadSize :: nat
  INS_MemoryWriteSize :: nat
  INS_MemoryBaseReg :: REG
  INS_MemoryIndexReg :: REG
  INS_RepPrefix :: bool
  INS_RepCountRegister :: REG
  INS_RegRs :: "REG list"
  INS_RegWs :: "REG list"

record PIN =
  REG_is_Upper8 :: "REG \<Rightarrow> bool"
  REG_is_Lower8 :: "REG \<Rightarrow> bool"
  REG_FullRegName :: "REG \<Rightarrow> REG"

record ENV =
  IARG_MEMORYREAD_EA :: addr
  IARG_MEMORYWRITE_EA :: addr
  IARG_REG_VALUE :: "REG \<Rightarrow> 64 word"
  IARG_FIRST_REP_ITERATION :: bool
  IARG_EXECUTING :: bool
  mem_value :: "addr \<Rightarrow> 64 word"

abbreviation (input) OP_0 :: nat where "OP_0 \<equiv> 0"
abbreviation (input) OP_1 :: nat where "OP_1 \<equiv> 1"
abbreviation (input) OP_2 :: nat where "OP_2 \<equiv> 2"
abbreviation (input) OP_3 :: nat where "OP_3 \<equiv> 3"
abbreviation (input) OP_4 :: nat where "OP_4 \<equiv> 4"

abbreviation (input) MEM_QUAD_LEN :: nat where "MEM_QUAD_LEN \<equiv> 64"
abbreviation (input) MEM_LONG_LEN :: nat where "MEM_LONG_LEN \<equiv> 32"
abbreviation (input) MEM_WORD_LEN :: nat where "MEM_WORD_LEN \<equiv> 16"
abbreviation (input) MEM_BYTE_LEN :: nat where "MEM_BYTE_LEN \<equiv> 8"

definition BIT2BYTE :: "nat \<Rightarrow> nat" where
  "BIT2BYTE len = drop_bit 3 len"

lemma BIT2BYTE_simps [simp]:
  "BIT2BYTE 64 = 8" "BIT2BYTE 32 = 4" "BIT2BYTE 16 = 2" "BIT2BYTE 8 = 1"
  by (simp_all add: BIT2BYTE_def drop_bit_eq_div)

subsection \<open>Inserted calls\<close>

definition predicated :: "ENV \<Rightarrow> call list \<Rightarrow> call list" where
  "predicated env cs = (if IARG_EXECUTING env then cs else [])"

definition rep_predicate :: "bool \<Rightarrow> bool" where
  "rep_predicate first_iteration = first_iteration"

text \<open>\<^verbatim>\<open>INS_InsertIfPredicatedCall\<close> of \<^verbatim>\<open>rep_predicate\<close> with its \<^verbatim>\<open>INS_InsertThenPredicatedCall\<close>.\<close>

definition if_first_rep :: "ENV \<Rightarrow> call list \<Rightarrow> call list" where
  "if_first_rep env cs =
     predicated env (if rep_predicate (IARG_FIRST_REP_ITERATION env) then cs else [])"

text \<open>How a case of the dispatch leaves the function: \<^verbatim>\<open>break\<close> or \<^verbatim>\<open>return\<close>.\<close>

datatype leave = Break "call list" | Return "call list"

lemma list_all_predicated [simp]:
  "list_all P (predicated env cs) \<longleftrightarrow> (IARG_EXECUTING env \<longrightarrow> list_all P cs)"
  by (simp add: predicated_def)

lemma list_all_if_first_rep [simp]:
  "list_all P (if_first_rep env cs) \<longleftrightarrow>
     (IARG_EXECUTING env \<and> IARG_FIRST_REP_ITERATION env \<longrightarrow> list_all P cs)"
  by (auto simp: if_first_rep_def rep_predicate_def)

end
