(* ===== verification/InspectMov.thy ===== *)
theory InspectMov
  imports Pin
begin

text \<open>
  The data-movement cases of the dispatch in \<^verbatim>\<open>ins_inspect\<close> (\<^verbatim>\<open>libdft_core64.cc\<close>):
  \<^verbatim>\<open>MOV\<close>, the conditional moves, the conversions of the accumulator, \<^verbatim>\<open>MOVSX\<close>,
  \<^verbatim>\<open>MOVSXD\<close>, \<^verbatim>\<open>MOVZX\<close> and the instructions whose result is never tainted. Each
  definition gives the analysis calls Pin runs before the instruction, in order.
\<close>

subsection \<open>MOV\<close>

text \<open>The source is an immediate or a segment register: the destination is cleared.\<close>

definition ins_mov_imm :: "PIN \<Rightarrow> INS \<Rightarrow> ENV \<Rightarrow> leave" where
  "ins_mov_imm pin ins env =
     (if INS_OperandIsMemory ins OP_0 then
        (let width = INS_OperandWidth ins OP_0 in
         if width = MEM_QUAD_LEN then Break [Tagmap_clrq (IARG_MEMORYWRITE_EA env)]
         else if width = MEM_LONG_LEN then Break [Tagmap_clrl (IARG_MEMORYWRITE_EA env)]
         else if width = MEM_WORD_LEN then Break [Tagmap_clrw (IARG_MEMORYWRITE_EA env)]
         else if width = MEM_BYTE_LEN then Break [Tagmap_clrb (IARG_MEMORYWRITE_EA env)]
         else Return [])
      else if INS_OperandIsReg ins OP_0 then
        (let reg_dst = INS_OperandReg ins OP_0 in
         if REG_is_gr64 reg_dst then Break [XferC (R_clrq (REG64_INDX reg_dst))]
         else if REG_is_gr32 reg_dst then Break [XferC (R_clrl (REG32_INDX reg_dst))]
         else if REG_is_gr16 reg_dst then Break [XferC (R_clrw (REG16_INDX reg_dst))]
         else if REG_is_Upper8 pin reg_dst then Break [XferC (R_clrb_u (REG8_INDX reg_dst))]
         else Break [XferC (R_clrb_l (REG8_INDX reg_dst))])
      else Break [])"

definition ins_mov_r2r :: "PIN \<Rightarrow> INS \<Rightarrow> call list" where
  "ins_mov_r2r pin ins =
     (let reg_dst = INS_OperandReg ins OP_0; reg_src = INS_OperandReg ins OP_1 in
      if REG_is_gr64 reg_dst then [XferC (R2r_xfer_opq (REG64_INDX reg_dst) (REG64_INDX reg_src))]
      else if REG_is_gr32 reg_dst
        then [XferC (R2r_xfer_opl (REG32_INDX reg_dst) (REG32_INDX reg_src))]
      else if REG_is_gr16 reg_dst
        then [XferC (R2r_xfer_opw (REG16_INDX reg_dst) (REG16_INDX reg_src))]
      else if REG_is_gr8 reg_dst then
        (if REG_is_Lower8 pin reg_dst \<and> REG_is_Lower8 pin reg_src
         then [XferC (R2r_xfer_opb_l (REG8_INDX reg_dst) (REG8_INDX reg_src))]
         else if REG_is_Upper8 pin reg_dst \<and> REG_is_Upper8 pin reg_src
         then [XferC (R2r_xfer_opb_u (REG8_INDX reg_dst) (REG8_INDX reg_src))]
         else if REG_is_Lower8 pin reg_dst
         then [XferC (R2r_xfer_opb_lu (REG8_INDX reg_dst) (REG8_INDX reg_src))]
         else [XferC (R2r_xfer_opb_ul (REG8_INDX reg_dst) (REG8_INDX reg_src))])
      else [])"

definition ins_mov_m2r :: "PIN \<Rightarrow> INS \<Rightarrow> ENV \<Rightarrow> call list" where
  "ins_mov_m2r pin ins env =
     (let reg_dst = INS_OperandReg ins OP_0 in
      if REG_is_gr64 reg_dst
        then [XferC (M2r_xfer_opq (REG64_INDX reg_dst) (IARG_MEMORYREAD_EA env))]
      else if REG_is_gr32 reg_dst
        then [XferC (M2r_xfer_opl (REG32_INDX reg_dst) (IARG_MEMORYREAD_EA env))]
      else if REG_is_gr16 reg_dst
        then [XferC (M2r_xfer_opw (REG16_INDX reg_dst) (IARG_MEMORYREAD_EA env))]
      else if REG_is_Upper8 pin reg_dst
        then [XferC (M2r_xfer_opb_u (REG8_INDX reg_dst) (IARG_MEMORYREAD_EA env))]
      else [XferC (M2r_xfer_opb_l (REG8_INDX reg_dst) (IARG_MEMORYREAD_EA env))])"

definition ins_mov_r2m :: "PIN \<Rightarrow> INS \<Rightarrow> ENV \<Rightarrow> call list" where
  "ins_mov_r2m pin ins env =
     (let reg_src = INS_OperandReg ins OP_1 in
      if REG_is_gr64 reg_src
        then [XferC (R2m_xfer_opq (IARG_MEMORYWRITE_EA env) (REG64_INDX reg_src))]
      else if REG_is_gr32 reg_src
        then [XferC (R2m_xfer_opl (IARG_MEMORYWRITE_EA env) (REG32_INDX reg_src))]
      else if REG_is_gr16 reg_src
        then [XferC (R2m_xfer_opw (IARG_MEMORYWRITE_EA env) (REG16_INDX reg_src))]
      else if REG_is_Upper8 pin reg_src
        then [XferC (R2m_xfer_opb_u (IARG_MEMORYWRITE_EA env) (REG8_INDX reg_src))]
      else [XferC (R2m_xfer_opb_l (IARG_MEMORYWRITE_EA env) (REG8_INDX reg_src))])"

definition ins_mov :: "PIN \<Rightarrow> INS \<Rightarrow> ENV \<Rightarrow> leave" where
  "ins_mov pin ins env =
     (if INS_OperandIsImmediate ins OP_1 \<or>
         INS_OperandIsReg ins OP_1 \<and> REG_is_seg (INS_OperandReg ins OP_1)
      then ins_mov_imm pin ins env
      else if INS_MemoryOperandCount ins = 0 then Break (ins_mov_r2r pin ins)
      else if INS_OperandIsMemory ins OP_1 then Break (ins_mov_m2r pin ins env)
      else Break (ins_mov_r2m pin ins env))"

subsection \<open>Conditional moves\<close>

definition ins_cmov :: "INS \<Rightarrow> ENV \<Rightarrow> call list" where
  "ins_cmov ins env =
     (let reg_dst = INS_OperandReg ins OP_0; reg_src = INS_OperandReg ins OP_1 in
      if INS_MemoryOperandCount ins = 0 then
        (if REG_is_gr64 reg_dst
         then predicated env [XferC (R2r_xfer_opq (REG64_INDX reg_dst) (REG64_INDX reg_src))]
         else if REG_is_gr32 reg_dst
         then predicated env [XferC (R2r_xfer_opl (REG32_INDX reg_dst) (REG32_INDX reg_src))]
         else predicated env [XferC (R2r_xfer_opw (REG16_INDX reg_dst) (REG16_INDX reg_src))])
      else
        (if REG_is_gr64 reg_dst
          then predicated env [XferC (M2r_xfer_opq (REG64_INDX reg_dst) (IARG_MEMORYREAD_EA env))]
         else if REG_is_gr32 reg_dst
           then predicated env [XferC (M2r_xfer_opl (REG32_INDX reg_dst) (IARG_MEMORYREAD_EA env))]
         else predicated env [XferC (M2r_xfer_opw (REG16_INDX reg_dst) (IARG_MEMORYREAD_EA env))]))"

subsection \<open>Conversions of the accumulator\<close>

definition ins_cbw :: "call list" where
  "ins_cbw = [XferC (R2r_xfer_opb_ul (REG8_INDX REG_AH) (REG8_INDX REG_AL))]"

definition ins_cwd :: "call list" where
  "ins_cwd = [XferC (R2r_xfer_opw (REG16_INDX REG_DX) (REG16_INDX REG_AX))]"

definition ins_cwde :: "call list" where
  "ins_cwde = [MovC Cwde]"

definition ins_cdqe :: "call list" where
  "ins_cdqe = [MovC Cdqe]"

definition ins_cdq :: "call list" where
  "ins_cdq = [XferC (R2r_xfer_opl (REG32_INDX REG_EDX) (REG32_INDX REG_EAX))]"

definition ins_cqo :: "call list" where
  "ins_cqo = [XferC (R2r_xfer_opq (REG64_INDX REG_RDX) (REG64_INDX REG_RAX))]"

subsection \<open>Sign and zero extension\<close>

definition ins_movsx_r2r :: "PIN \<Rightarrow> INS \<Rightarrow> call list" where
  "ins_movsx_r2r pin ins =
     (let reg_dst = INS_OperandReg ins OP_0; reg_src = INS_OperandReg ins OP_1 in
      if REG_is_gr16 reg_dst then
        (if REG_is_Upper8 pin reg_src
         then [MovC (Movsx_r2r_opwb_u (REG16_INDX reg_dst) (REG8_INDX reg_src))]
         else [MovC (Movsx_r2r_opwb_l (REG16_INDX reg_dst) (REG8_INDX reg_src))])
      else if REG_is_gr32 reg_dst then
        (if REG_is_gr16 reg_src
         then [MovC (Movsx_r2r_oplw (REG32_INDX reg_dst) (REG16_INDX reg_src))]
         else if REG_is_Upper8 pin reg_src
         then [MovC (Movsx_r2r_oplb_u (REG32_INDX reg_dst) (REG8_INDX reg_src))]
         else [MovC (Movsx_r2r_oplb_l (REG32_INDX reg_dst) (REG8_INDX reg_src))])
      else
        (if REG_is_gr16 reg_src
         then [MovC (Movsx_r2r_opqw (REG64_INDX reg_dst) (REG16_INDX reg_src))]
         else if REG_is_Upper8 pin reg_src
         then [MovC (Movsx_r2r_opqb_u (REG64_INDX reg_dst) (REG8_INDX reg_src))]
         else [MovC (Movsx_r2r_opqb_l (REG64_INDX reg_dst) (REG8_INDX reg_src))]))"

definition ins_movsx_m2r :: "INS \<Rightarrow> ENV \<Rightarrow> call list" where
  "ins_movsx_m2r ins env =
     (let reg_dst = INS_OperandReg ins OP_0 in
      if REG_is_gr16 reg_dst
        then [MovC (Movsx_m2r_opwb (REG16_INDX reg_dst) (IARG_MEMORYREAD_EA env))]
      else if REG_is_gr32 reg_dst then
        (if INS_MemoryReadSize ins = BIT2BYTE MEM_WORD_LEN
         then [MovC (Movsx_m2r_oplw (REG32_INDX reg_dst) (IARG_MEMORYREAD_EA env))]
         else [MovC (Movsx_m2r_oplb (REG32_INDX reg_dst) (IARG_MEMORYREAD_EA env))])
      else
        (if INS_MemoryReadSize ins = BIT2BYTE MEM_WORD_LEN
         then [MovC (Movsx_m2r_opqw (REG64_INDX reg_dst) (IARG_MEMORYREAD_EA env))]
         else [MovC (Movsx_m2r_opqb (REG64_INDX reg_dst) (IARG_MEMORYREAD_EA env))]))"

definition ins_movsx :: "PIN \<Rightarrow> INS \<Rightarrow> ENV \<Rightarrow> call list" where
  "ins_movsx pin ins env =
     (if INS_MemoryOperandCount ins = 0 then ins_movsx_r2r pin ins else ins_movsx_m2r ins env)"

definition ins_movsxd :: "INS \<Rightarrow> ENV \<Rightarrow> call list" where
  "ins_movsxd ins env =
     (let reg_dst = INS_OperandReg ins OP_0; reg_src = INS_OperandReg ins OP_1 in
      if INS_MemoryOperandCount ins = 0
      then [MovC (Movsxd_r2r_opql (REG64_INDX reg_dst) (REG32_INDX reg_src))]
      else [MovC (Movsxd_m2r_opql (REG64_INDX reg_dst) (IARG_MEMORYREAD_EA env))])"

definition ins_movzx_r2r :: "PIN \<Rightarrow> INS \<Rightarrow> call list" where
  "ins_movzx_r2r pin ins =
     (let reg_dst = INS_OperandReg ins OP_0; reg_src = INS_OperandReg ins OP_1 in
      if REG_is_gr16 reg_dst then
        (if REG_is_Upper8 pin reg_src
         then [MovC (Movzx_r2r_opwb_u (REG16_INDX reg_dst) (REG8_INDX reg_src))]
         else [MovC (Movzx_r2r_opwb_l (REG16_INDX reg_dst) (REG8_INDX reg_src))])
      else if REG_is_gr32 reg_dst then
        (if REG_is_gr16 reg_src
         then [MovC (Movzx_r2r_oplw (REG32_INDX reg_dst) (REG16_INDX reg_src))]
         else if REG_is_Upper8 pin reg_src
         then [MovC (Movzx_r2r_oplb_u (REG32_INDX reg_dst) (REG8_INDX reg_src))]
         else [MovC (Movzx_r2r_oplb_l (REG32_INDX reg_dst) (REG8_INDX reg_src))])
      else
        (if REG_is_gr16 reg_src
         then [MovC (Movzx_r2r_opqw (REG64_INDX reg_dst) (REG16_INDX reg_src))]
         else if REG_is_Upper8 pin reg_src
         then [MovC (Movzx_r2r_opqb_u (REG64_INDX reg_dst) (REG8_INDX reg_src))]
         else [MovC (Movzx_r2r_opqb_l (REG64_INDX reg_dst) (REG8_INDX reg_src))]))"

definition ins_movzx_m2r :: "INS \<Rightarrow> ENV \<Rightarrow> call list" where
  "ins_movzx_m2r ins env =
     (let reg_dst = INS_OperandReg ins OP_0 in
      if REG_is_gr16 reg_dst
        then [MovC (Movzx_m2r_opwb (REG16_INDX reg_dst) (IARG_MEMORYREAD_EA env))]
      else if REG_is_gr32 reg_dst then
        (if INS_MemoryReadSize ins = BIT2BYTE MEM_WORD_LEN
         then [MovC (Movzx_m2r_oplw (REG32_INDX reg_dst) (IARG_MEMORYREAD_EA env))]
         else [MovC (Movzx_m2r_oplb (REG32_INDX reg_dst) (IARG_MEMORYREAD_EA env))])
      else
        (if INS_MemoryReadSize ins = BIT2BYTE MEM_WORD_LEN
         then [MovC (Movzx_m2r_opqw (REG64_INDX reg_dst) (IARG_MEMORYREAD_EA env))]
         else [MovC (Movzx_m2r_opqb (REG64_INDX reg_dst) (IARG_MEMORYREAD_EA env))]))"

definition ins_movzx :: "PIN \<Rightarrow> INS \<Rightarrow> ENV \<Rightarrow> call list" where
  "ins_movzx pin ins env =
     (if INS_MemoryOperandCount ins = 0 then ins_movzx_r2r pin ins else ins_movzx_m2r ins env)"

subsection \<open>Results that are never tainted\<close>

definition ins_setcc :: "PIN \<Rightarrow> INS \<Rightarrow> ENV \<Rightarrow> call list" where
  "ins_setcc pin ins env =
     (if INS_MemoryOperandCount ins = 0 then
        (let reg_dst = INS_OperandReg ins OP_0 in
         if REG_is_Upper8 pin reg_dst then predicated env [XferC (R_clrb_u (REG8_INDX reg_dst))]
         else predicated env [XferC (R_clrb_l (REG8_INDX reg_dst))])
      else predicated env [Tagmap_clrb (IARG_MEMORYWRITE_EA env)])"

definition ins_stmxcsr :: "ENV \<Rightarrow> call list" where
  "ins_stmxcsr env = [Tagmap_clrl (IARG_MEMORYWRITE_EA env)]"

definition ins_smsw :: "INS \<Rightarrow> ENV \<Rightarrow> call list" where
  "ins_smsw ins env =
     (if INS_MemoryOperandCount ins = 0 then
        (let reg_dst = INS_OperandReg ins OP_0 in
         if REG_is_gr16 reg_dst then [XferC (R_clrw (REG16_INDX reg_dst))]
         else if REG_is_gr32 reg_dst then [XferC (R_clrl (REG32_INDX reg_dst))]
         else [XferC (R_clrq (REG64_INDX reg_dst))])
      else [Tagmap_clrw (IARG_MEMORYWRITE_EA env)])"

definition ins_lar :: "INS \<Rightarrow> call list" where
  "ins_lar ins =
     (let reg_dst = INS_OperandReg ins OP_0 in
      if REG_is_gr16 reg_dst then [XferC (R_clrw (REG16_INDX reg_dst))]
      else if REG_is_gr32 reg_dst then [XferC (R_clrl (REG32_INDX reg_dst))]
      else [XferC (R_clrq (REG64_INDX reg_dst))])"

definition ins_rdtsc :: "call list" where
  "ins_rdtsc = [XferC R_clrl2]"

definition ins_cpuid :: "call list" where
  "ins_cpuid = [XferC R_clrl4]"

definition ins_lahf :: "call list" where
  "ins_lahf = [XferC (R_clrb_u (REG8_INDX REG_AH))]"

subsection \<open>Register bounds\<close>

lemmas mov_case_defs [inspect_defs] =
  ins_mov_r2r_def ins_mov_m2r_def ins_mov_r2m_def ins_cmov_def ins_cbw_def ins_cwd_def
  ins_cwde_def ins_cdqe_def ins_cdq_def ins_cqo_def ins_movsx_r2r_def ins_movsx_m2r_def
  ins_movsx_def ins_movsxd_def ins_movzx_r2r_def ins_movzx_m2r_def ins_movzx_def ins_setcc_def
  ins_stmxcsr_def ins_smsw_def ins_lar_def ins_rdtsc_def ins_cpuid_def ins_lahf_def

lemma mov_cases_ok:
  "list_all call_ok (ins_mov_r2r pin ins)"
  "list_all call_ok (ins_mov_m2r pin ins env)"
  "list_all call_ok (ins_mov_r2m pin ins env)"
  "list_all call_ok (ins_cmov ins env)"
  "list_all call_ok ins_cbw" "list_all call_ok ins_cwd" "list_all call_ok ins_cwde"
  "list_all call_ok ins_cdqe" "list_all call_ok ins_cdq" "list_all call_ok ins_cqo"
  "list_all call_ok (ins_movsx pin ins env)"
  "list_all call_ok (ins_movsxd ins env)"
  "list_all call_ok (ins_movzx pin ins env)"
  "list_all call_ok (ins_setcc pin ins env)"
  "list_all call_ok (ins_stmxcsr env)" "list_all call_ok (ins_smsw ins env)"
  "list_all call_ok (ins_lar ins)" "list_all call_ok ins_rdtsc"
  "list_all call_ok ins_cpuid" "list_all call_ok ins_lahf"
  by (simp_all add: mov_case_defs Let_def)

lemma ins_mov_ok:
  "case ins_mov pin ins env of Break cs \<Rightarrow> list_all call_ok cs | Return cs \<Rightarrow> cs = []"
  by (simp add: ins_mov_def ins_mov_imm_def Let_def mov_cases_ok)

end
