(* ===== verification/InspectAlu.thy ===== *)
theory InspectAlu
  imports Pin
begin

text \<open>
  The arithmetic cases of the dispatch in \<^verbatim>\<open>ins_inspect\<close> (\<^verbatim>\<open>libdft_core64.cc\<close>): two-operand
  arithmetic and logic with the idioms that clear a register, bit scans, multiplication and
  division, the exchanges and \<^verbatim>\<open>LEA\<close>.
\<close>

subsection \<open>Opcodes\<close>

abbreviation (input) XED_ICLASS_SBB :: nat where "XED_ICLASS_SBB \<equiv> 587"
abbreviation (input) XED_ICLASS_SUB :: nat where "XED_ICLASS_SUB \<equiv> 638"
abbreviation (input) XED_ICLASS_XOR :: nat where "XED_ICLASS_XOR \<equiv> 1113"

subsection \<open>Arithmetic and logic\<close>

text \<open>The x86 idioms that clear a register: \<^verbatim>\<open>xor\<close>, \<^verbatim>\<open>sub\<close> and \<^verbatim>\<open>sbb\<close> of a register with itself.\<close>

definition clear_idiom :: "INS \<Rightarrow> REG \<Rightarrow> REG \<Rightarrow> bool" where
  "clear_idiom ins reg_dst reg_src \<longleftrightarrow>
     (INS_Opcode ins = XED_ICLASS_XOR \<or> INS_Opcode ins = XED_ICLASS_SUB \<or>
      INS_Opcode ins = XED_ICLASS_SBB) \<and> reg_dst = reg_src"

definition ins_binary_r2r_wide :: "INS \<Rightarrow> REG \<Rightarrow> REG \<Rightarrow> call list" where
  "ins_binary_r2r_wide ins reg_dst reg_src =
     (if REG_is_gr64 reg_dst then
        (if clear_idiom ins reg_dst reg_src then [XferC (R_clrq (REG64_INDX reg_dst))]
         else [AluC (R2r_binary_opq (REG64_INDX reg_dst) (REG64_INDX reg_src))])
      else if REG_is_gr32 reg_dst then
        (if clear_idiom ins reg_dst reg_src then [XferC (R_clrl (REG32_INDX reg_dst))]
         else [AluC (R2r_binary_opl (REG32_INDX reg_dst) (REG32_INDX reg_src))])
      else
        (if clear_idiom ins reg_dst reg_src then [XferC (R_clrw (REG16_INDX reg_dst))]
         else [AluC (R2r_binary_opw (REG16_INDX reg_dst) (REG16_INDX reg_src))]))"

definition ins_binary_r2r_byte :: "PIN \<Rightarrow> INS \<Rightarrow> REG \<Rightarrow> REG \<Rightarrow> call list" where
  "ins_binary_r2r_byte pin ins reg_dst reg_src =
     (if clear_idiom ins reg_dst reg_src then
        (if REG_is_Upper8 pin reg_dst then [XferC (R_clrb_u (REG8_INDX reg_dst))]
         else [XferC (R_clrb_l (REG8_INDX reg_dst))])
      else if REG_is_Lower8 pin reg_dst \<and> REG_is_Lower8 pin reg_src
      then [AluC (R2r_binary_opb_l (REG8_INDX reg_dst) (REG8_INDX reg_src))]
      else if REG_is_Upper8 pin reg_dst \<and> REG_is_Upper8 pin reg_src
      then [AluC (R2r_binary_opb_u (REG8_INDX reg_dst) (REG8_INDX reg_src))]
      else if REG_is_Lower8 pin reg_dst
      then [AluC (R2r_binary_opb_lu (REG8_INDX reg_dst) (REG8_INDX reg_src))]
      else [AluC (R2r_binary_opb_ul (REG8_INDX reg_dst) (REG8_INDX reg_src))])"

definition ins_binary_m2r :: "PIN \<Rightarrow> INS \<Rightarrow> ENV \<Rightarrow> call list" where
  "ins_binary_m2r pin ins env =
     (let reg_dst = INS_OperandReg ins OP_0 in
      if REG_is_gr64 reg_dst
        then [AluC (M2r_binary_opq (REG64_INDX reg_dst) (IARG_MEMORYREAD_EA env))]
      else if REG_is_gr32 reg_dst
        then [AluC (M2r_binary_opl (REG32_INDX reg_dst) (IARG_MEMORYREAD_EA env))]
      else if REG_is_gr16 reg_dst
        then [AluC (M2r_binary_opw (REG16_INDX reg_dst) (IARG_MEMORYREAD_EA env))]
      else if REG_is_Upper8 pin reg_dst
        then [AluC (M2r_binary_opb_u (REG8_INDX reg_dst) (IARG_MEMORYREAD_EA env))]
      else [AluC (M2r_binary_opb_l (REG8_INDX reg_dst) (IARG_MEMORYREAD_EA env))])"

definition ins_binary_r2m :: "PIN \<Rightarrow> INS \<Rightarrow> ENV \<Rightarrow> call list" where
  "ins_binary_r2m pin ins env =
     (let reg_src = INS_OperandReg ins OP_1 in
      if REG_is_gr64 reg_src
        then [AluC (R2m_binary_opq (IARG_MEMORYWRITE_EA env) (REG64_INDX reg_src))]
      else if REG_is_gr32 reg_src
        then [AluC (R2m_binary_opl (IARG_MEMORYWRITE_EA env) (REG32_INDX reg_src))]
      else if REG_is_gr16 reg_src
        then [AluC (R2m_binary_opw (IARG_MEMORYWRITE_EA env) (REG16_INDX reg_src))]
      else if REG_is_Upper8 pin reg_src
        then [AluC (R2m_binary_opb_u (IARG_MEMORYWRITE_EA env) (REG8_INDX reg_src))]
      else [AluC (R2m_binary_opb_l (IARG_MEMORYWRITE_EA env) (REG8_INDX reg_src))])"

definition ins_binary :: "PIN \<Rightarrow> INS \<Rightarrow> ENV \<Rightarrow> call list" where
  "ins_binary pin ins env =
     (if INS_OperandIsImmediate ins OP_1 then []
      else if INS_MemoryOperandCount ins = 0 then
        (let reg_dst = INS_OperandReg ins OP_0; reg_src = INS_OperandReg ins OP_1 in
         if REG_is_gr64 reg_dst \<or> REG_is_gr32 reg_dst \<or> REG_is_gr16 reg_dst
         then ins_binary_r2r_wide ins reg_dst reg_src
         else ins_binary_r2r_byte pin ins reg_dst reg_src)
      else if INS_OperandIsMemory ins OP_1 then ins_binary_m2r pin ins env
      else ins_binary_r2m pin ins env)"

subsection \<open>Bit scans\<close>

definition ins_bitscan :: "INS \<Rightarrow> ENV \<Rightarrow> call list" where
  "ins_bitscan ins env =
     (let reg_dst = INS_OperandReg ins OP_0; reg_src = INS_OperandReg ins OP_1 in
      if INS_IsMemoryRead ins then
        (if REG_is_gr64 reg_dst
          then [MiscC (M2r_bitscan_opq (REG64_INDX reg_dst) (IARG_MEMORYREAD_EA env))]
         else if REG_is_gr32 reg_dst
           then [MiscC (M2r_bitscan_opl (REG32_INDX reg_dst) (IARG_MEMORYREAD_EA env))]
         else [MiscC (M2r_bitscan_opw (REG16_INDX reg_dst) (IARG_MEMORYREAD_EA env))])
      else
        (if REG_is_gr64 reg_dst
         then [MiscC (R2r_bitscan_opq (REG64_INDX reg_dst) (REG64_INDX reg_src))]
         else if REG_is_gr32 reg_dst
         then [MiscC (R2r_bitscan_opl (REG32_INDX reg_dst) (REG32_INDX reg_src))]
         else [MiscC (R2r_bitscan_opw (REG16_INDX reg_dst) (REG16_INDX reg_src))]))"

subsection \<open>Multiplication and division\<close>

text \<open>The one-operand form of \<^verbatim>\<open>DIV\<close>, \<^verbatim>\<open>IDIV\<close> and \<^verbatim>\<open>MUL\<close>.\<close>

definition ins_div_mul :: "PIN \<Rightarrow> INS \<Rightarrow> ENV \<Rightarrow> call list" where
  "ins_div_mul pin ins env =
     (if INS_OperandIsMemory ins OP_0 then
        (let size = INS_MemoryWriteSize ins in
         if size = BIT2BYTE MEM_QUAD_LEN then [AluC (M2r_ternary_opq (IARG_MEMORYREAD_EA env))]
         else if size = BIT2BYTE MEM_LONG_LEN then [AluC (M2r_ternary_opl (IARG_MEMORYREAD_EA env))]
         else if size = BIT2BYTE MEM_WORD_LEN then [AluC (M2r_ternary_opw (IARG_MEMORYREAD_EA env))]
         else [AluC (M2r_ternary_opb (IARG_MEMORYREAD_EA env))])
      else
        (let reg_src = INS_OperandReg ins OP_0 in
         if REG_is_gr64 reg_src then [AluC (R2r_ternary_opq (REG64_INDX reg_src))]
         else if REG_is_gr32 reg_src then [AluC (R2r_ternary_opl (REG32_INDX reg_src))]
         else if REG_is_gr16 reg_src then [AluC (R2r_ternary_opw (REG16_INDX reg_src))]
         else if REG_is_Upper8 pin reg_src then [AluC (R2r_ternary_opb_u (REG8_INDX reg_src))]
         else [AluC (R2r_ternary_opb_l (REG8_INDX reg_src))]))"

definition ins_imul_one :: "PIN \<Rightarrow> INS \<Rightarrow> ENV \<Rightarrow> call list" where
  "ins_imul_one pin ins env =
     (if INS_OperandIsMemory ins OP_0 then
        (let size = INS_MemoryWriteSize ins in
         if size = BIT2BYTE MEM_QUAD_LEN then [AluC (M2r_ternary_opq (IARG_MEMORYREAD_EA env))]
         else if size = BIT2BYTE MEM_LONG_LEN then [AluC (M2r_ternary_opl (IARG_MEMORYREAD_EA env))]
         else if size = BIT2BYTE MEM_WORD_LEN then [AluC (M2r_ternary_opw (IARG_MEMORYREAD_EA env))]
         else [AluC (M2r_ternary_opb (IARG_MEMORYREAD_EA env))])
      else
        (let reg_src = INS_OperandReg ins OP_0 in
         if REG_is_gr64 reg_src then [AluC (R2r_ternary_opq (REG64_INDX reg_src))]
         else if REG_is_gr32 reg_src then [AluC (R2r_ternary_opl (REG32_INDX reg_src))]
         else if REG_is_gr16 reg_src then [AluC (R2r_ternary_opw (REG16_INDX reg_src))]
         else if REG_is_Upper8 pin reg_src then [AluC (R2r_ternary_opb_u (REG8_INDX reg_src))]
         else [AluC (R2r_ternary_opb_l (REG8_INDX reg_src))]))"

definition ins_imul_two :: "INS \<Rightarrow> ENV \<Rightarrow> call list" where
  "ins_imul_two ins env =
     (let reg_dst = INS_OperandReg ins OP_0; reg_src = INS_OperandReg ins OP_1 in
      if INS_OperandIsImmediate ins OP_1 then []
      else if INS_MemoryOperandCount ins = 0 then
        (if REG_is_gr64 reg_dst
         then [AluC (R2r_binary_opq (REG64_INDX reg_dst) (REG64_INDX reg_src))]
         else if REG_is_gr32 reg_dst
         then [AluC (R2r_binary_opl (REG32_INDX reg_dst) (REG32_INDX reg_src))]
         else [AluC (R2r_binary_opw (REG16_INDX reg_dst) (REG16_INDX reg_src))])
      else
        (if REG_is_gr64 reg_dst
          then [AluC (M2r_binary_opq (REG64_INDX reg_dst) (IARG_MEMORYREAD_EA env))]
         else if REG_is_gr32 reg_dst
           then [AluC (M2r_binary_opl (REG32_INDX reg_dst) (IARG_MEMORYREAD_EA env))]
         else [AluC (M2r_binary_opw (REG16_INDX reg_dst) (IARG_MEMORYREAD_EA env))]))"

definition ins_imul :: "PIN \<Rightarrow> INS \<Rightarrow> ENV \<Rightarrow> call list" where
  "ins_imul pin ins env =
     (if INS_OperandIsImplicit ins OP_1 then ins_imul_one pin ins env else ins_imul_two ins env)"

subsection \<open>Exchanges\<close>

text \<open>
  The compare is the \<^verbatim>\<open>If\<close> call (the fast routine), the exchange the \<^verbatim>\<open>Then\<close> call (the slow
  one); the pair is one call here. A byte operand is only logged.
\<close>

definition ins_cmpxchg_r2r :: "INS \<Rightarrow> ENV \<Rightarrow> call list" where
  "ins_cmpxchg_r2r ins env =
     (let reg_dst = INS_OperandReg ins OP_0; reg_src = INS_OperandReg ins OP_1 in
      if REG_is_gr64 reg_dst
      then [XchgC (Cmpxchg_r2r_opq (IARG_REG_VALUE env REG_RAX) (REG64_INDX reg_dst)
          (REG64_INDX reg_src) (IARG_REG_VALUE env reg_dst))]
      else if REG_is_gr32 reg_dst
      then [XchgC (Cmpxchg_r2r_opl (IARG_REG_VALUE env REG_EAX) (REG32_INDX reg_dst)
          (REG32_INDX reg_src) (IARG_REG_VALUE env reg_dst))]
      else if REG_is_gr16 reg_dst
      then [XchgC (Cmpxchg_r2r_opw (IARG_REG_VALUE env REG_AX) (REG16_INDX reg_dst)
          (REG16_INDX reg_src) (IARG_REG_VALUE env reg_dst))]
      else [])"

definition ins_cmpxchg_m2r :: "INS \<Rightarrow> ENV \<Rightarrow> call list" where
  "ins_cmpxchg_m2r ins env =
     (let reg_src = INS_OperandReg ins OP_1 in
      if REG_is_gr64 reg_src
      then [XchgC (Cmpxchg_m2r_opq (IARG_REG_VALUE env REG_RAX) (IARG_MEMORYREAD_EA env)
          (mem_value env (IARG_MEMORYREAD_EA env)) (IARG_MEMORYWRITE_EA env) (REG64_INDX reg_src))]
      else if REG_is_gr32 reg_src
      then [XchgC (Cmpxchg_m2r_opl (IARG_REG_VALUE env REG_EAX) (IARG_MEMORYREAD_EA env)
          (mem_value env (IARG_MEMORYREAD_EA env)) (IARG_MEMORYWRITE_EA env) (REG32_INDX reg_src))]
      else if REG_is_gr16 reg_src
      then [XchgC (Cmpxchg_m2r_opw (IARG_REG_VALUE env REG_AX) (IARG_MEMORYREAD_EA env)
          (mem_value env (IARG_MEMORYREAD_EA env)) (IARG_MEMORYWRITE_EA env) (REG16_INDX reg_src))]
      else [])"

definition ins_cmpxchg :: "INS \<Rightarrow> ENV \<Rightarrow> call list" where
  "ins_cmpxchg ins env =
     (if INS_MemoryOperandCount ins = 0 then ins_cmpxchg_r2r ins env else ins_cmpxchg_m2r ins env)"

definition ins_xchg_r2r :: "PIN \<Rightarrow> INS \<Rightarrow> call list" where
  "ins_xchg_r2r pin ins =
     (let reg_dst = INS_OperandReg ins OP_0; reg_src = INS_OperandReg ins OP_1 in
      if REG_is_gr64 reg_dst then [XchgC (Xchg_r2r_opq (REG64_INDX reg_dst) (REG64_INDX reg_src))]
      else if REG_is_gr32 reg_dst
        then [XchgC (Xchg_r2r_opl (REG32_INDX reg_dst) (REG32_INDX reg_src))]
      else if REG_is_gr16 reg_dst
        then [XchgC (Xchg_r2r_opw (REG16_INDX reg_dst) (REG16_INDX reg_src))]
      else if REG_is_gr8 reg_dst then
        (if REG_is_Lower8 pin reg_dst \<and> REG_is_Lower8 pin reg_src
         then [XchgC (Xchg_r2r_opb_l (REG8_INDX reg_dst) (REG8_INDX reg_src))]
         else if REG_is_Upper8 pin reg_dst \<and> REG_is_Upper8 pin reg_src
         then [XchgC (Xchg_r2r_opb_u (REG8_INDX reg_dst) (REG8_INDX reg_src))]
         else if REG_is_Lower8 pin reg_dst
         then [XchgC (Xchg_r2r_opb_lu (REG8_INDX reg_dst) (REG8_INDX reg_src))]
         else [XchgC (Xchg_r2r_opb_ul (REG8_INDX reg_dst) (REG8_INDX reg_src))])
      else [])"

text \<open>Both memory forms call the same routines, with the address Pin gives for the read or the write.\<close>

definition ins_xchg_m2r :: "PIN \<Rightarrow> REG \<Rightarrow> addr \<Rightarrow> call list" where
  "ins_xchg_m2r pin reg ea =
     (if REG_is_gr64 reg then [XchgC (Xchg_m2r_opq (REG64_INDX reg) ea)]
      else if REG_is_gr32 reg then [XchgC (Xchg_m2r_opl (REG32_INDX reg) ea)]
      else if REG_is_gr16 reg then [XchgC (Xchg_m2r_opw (REG16_INDX reg) ea)]
      else if REG_is_Upper8 pin reg then [XchgC (Xchg_m2r_opb_u (REG8_INDX reg) ea)]
      else [XchgC (Xchg_m2r_opb_l (REG8_INDX reg) ea)])"

definition ins_xchg :: "PIN \<Rightarrow> INS \<Rightarrow> ENV \<Rightarrow> call list" where
  "ins_xchg pin ins env =
     (if INS_MemoryOperandCount ins = 0 then ins_xchg_r2r pin ins
      else if INS_OperandIsMemory ins OP_1
      then ins_xchg_m2r pin (INS_OperandReg ins OP_0) (IARG_MEMORYREAD_EA env)
      else ins_xchg_m2r pin (INS_OperandReg ins OP_1) (IARG_MEMORYWRITE_EA env))"

definition ins_xadd_r2r :: "PIN \<Rightarrow> INS \<Rightarrow> call list" where
  "ins_xadd_r2r pin ins =
     (let reg_dst = INS_OperandReg ins OP_0; reg_src = INS_OperandReg ins OP_1 in
      if REG_is_gr64 reg_dst then [XchgC (Xadd_r2r_opq (REG64_INDX reg_dst) (REG64_INDX reg_src))]
      else if REG_is_gr32 reg_dst
        then [XchgC (Xadd_r2r_opl (REG32_INDX reg_dst) (REG32_INDX reg_src))]
      else if REG_is_gr16 reg_dst
        then [XchgC (Xadd_r2r_opw (REG16_INDX reg_dst) (REG16_INDX reg_src))]
      else if REG_is_gr8 reg_dst then
        (if REG_is_Lower8 pin reg_dst \<and> REG_is_Lower8 pin reg_src
         then [XchgC (Xadd_r2r_opb_l (REG8_INDX reg_dst) (REG8_INDX reg_src))]
         else if REG_is_Upper8 pin reg_dst \<and> REG_is_Upper8 pin reg_src
         then [XchgC (Xadd_r2r_opb_u (REG8_INDX reg_dst) (REG8_INDX reg_src))]
         else if REG_is_Lower8 pin reg_dst
         then [XchgC (Xadd_r2r_opb_lu (REG8_INDX reg_dst) (REG8_INDX reg_src))]
         else [XchgC (Xadd_r2r_opb_ul (REG8_INDX reg_dst) (REG8_INDX reg_src))])
      else [])"

definition ins_xadd_r2m :: "PIN \<Rightarrow> INS \<Rightarrow> ENV \<Rightarrow> call list" where
  "ins_xadd_r2m pin ins env =
     (let reg_src = INS_OperandReg ins OP_1 in
      if REG_is_gr64 reg_src
        then [XchgC (Xadd_r2m_opq (REG64_INDX reg_src) (IARG_MEMORYWRITE_EA env))]
      else if REG_is_gr32 reg_src
        then [XchgC (Xadd_r2m_opl (REG32_INDX reg_src) (IARG_MEMORYWRITE_EA env))]
      else if REG_is_gr16 reg_src
        then [XchgC (Xadd_r2m_opw (REG16_INDX reg_src) (IARG_MEMORYWRITE_EA env))]
      else if REG_is_Upper8 pin reg_src
        then [XchgC (Xadd_r2m_opb_u (REG8_INDX reg_src) (IARG_MEMORYWRITE_EA env))]
      else [XchgC (Xadd_r2m_opb_l (REG8_INDX reg_src) (IARG_MEMORYWRITE_EA env))])"

definition ins_xadd :: "PIN \<Rightarrow> INS \<Rightarrow> ENV \<Rightarrow> call list" where
  "ins_xadd pin ins env =
     (if INS_MemoryOperandCount ins = 0 then ins_xadd_r2r pin ins else ins_xadd_r2m pin ins env)"

subsection \<open>LEA\<close>

definition ins_lea_none :: "REG \<Rightarrow> call list" where
  "ins_lea_none reg_dst =
     (if REG_is_gr64 reg_dst then [XferC (R_clrq (REG64_INDX reg_dst))]
      else if REG_is_gr32 reg_dst then [XferC (R_clrl (REG32_INDX reg_dst))]
      else [XferC (R_clrw (REG16_INDX reg_dst))])"

definition ins_lea_base :: "REG \<Rightarrow> REG \<Rightarrow> call list" where
  "ins_lea_base reg_dst reg_base =
     (if REG_is_gr64 reg_dst then
        (if reg_base = REG_RIP then [XferC (R_clrq (REG64_INDX reg_dst))]
         else [XferC (R2r_xfer_opq (REG64_INDX reg_dst) (REG64_INDX reg_base))])
      else if REG_is_gr32 reg_dst then
        (if reg_base = REG_EIP then [XferC (R_clrl (REG32_INDX reg_dst))]
         else [XferC (R2r_xfer_opl (REG32_INDX reg_dst) (REG32_INDX reg_base))])
      else
        (if reg_base = REG_IP then [XferC (R_clrw (REG16_INDX reg_dst))]
         else [XferC (R2r_xfer_opw (REG16_INDX reg_dst) (REG16_INDX reg_base))]))"

definition ins_lea_indx :: "REG \<Rightarrow> REG \<Rightarrow> call list" where
  "ins_lea_indx reg_dst reg_indx =
     (if REG_is_gr64 reg_dst then [XferC (R2r_xfer_opq (REG64_INDX reg_dst) (REG64_INDX reg_indx))]
      else if REG_is_gr32 reg_dst
        then [XferC (R2r_xfer_opl (REG32_INDX reg_dst) (REG32_INDX reg_indx))]
      else [XferC (R2r_xfer_opw (REG16_INDX reg_dst) (REG16_INDX reg_indx))])"

text \<open>The second test is not an \<^verbatim>\<open>else\<close> branch of the first, so a 64-bit form inserts two calls.\<close>

definition ins_lea_both :: "REG \<Rightarrow> REG \<Rightarrow> REG \<Rightarrow> call list" where
  "ins_lea_both reg_dst reg_base reg_indx =
     (if REG_is_gr64 reg_dst
      then [AluC (Lea_r2r_opq (REG64_INDX reg_dst) (REG64_INDX reg_base)
          (REG64_INDX reg_indx))] else []) @
     (if REG_is_gr32 reg_dst
      then [AluC (Lea_r2r_opl (REG32_INDX reg_dst) (REG32_INDX reg_base) (REG32_INDX reg_indx))]
      else [AluC (Lea_r2r_opw (REG16_INDX reg_dst) (REG16_INDX reg_base) (REG16_INDX reg_indx))])"

definition ins_lea :: "INS \<Rightarrow> call list" where
  "ins_lea ins =
     (let reg_base = INS_MemoryBaseReg ins; reg_indx = INS_MemoryIndexReg ins;
          reg_dst = INS_OperandReg ins OP_0 in
      if reg_base = REG_INVALID \<and> reg_indx = REG_INVALID then ins_lea_none reg_dst
      else if reg_base \<noteq> REG_INVALID \<and> reg_indx = REG_INVALID then ins_lea_base reg_dst reg_base
      else if reg_base = REG_INVALID \<and> reg_indx \<noteq> REG_INVALID then ins_lea_indx reg_dst reg_indx
      else ins_lea_both reg_dst reg_base reg_indx)"

subsection \<open>Register bounds\<close>

lemmas alu_case_defs [inspect_defs] =
  ins_binary_r2r_wide_def ins_binary_r2r_byte_def ins_binary_m2r_def ins_binary_r2m_def
  ins_binary_def ins_div_mul_def ins_imul_one_def ins_imul_two_def ins_imul_def
  ins_cmpxchg_r2r_def ins_cmpxchg_m2r_def ins_cmpxchg_def ins_xchg_r2r_def ins_xchg_m2r_def
  ins_xchg_def ins_xadd_r2r_def ins_xadd_r2m_def ins_xadd_def ins_lea_none_def ins_lea_base_def
  ins_lea_indx_def ins_lea_both_def ins_lea_def

lemma alu_cases_ok:
  "list_all call_ok (ins_binary pin ins env)"
  "list_all call_ok (ins_div_mul pin ins env)"
  "list_all call_ok (ins_imul pin ins env)"
  "list_all call_ok (ins_cmpxchg ins env)"
  "list_all call_ok (ins_xchg pin ins env)"
  "list_all call_ok (ins_xadd pin ins env)"
  "list_all call_ok (ins_lea ins)"
  by (simp_all add: alu_case_defs Let_def)

lemma ins_bitscan_ok:
  "list_all call_ok (ins_bitscan ins env) \<longleftrightarrow>
     (INS_IsMemoryRead ins \<longrightarrow> unat (IARG_MEMORYREAD_EA env) < 17)"
  by (simp add: ins_bitscan_def Let_def)

end
