(* ===== verification/InspectStr.thy ===== *)
theory InspectStr
  imports Pin
begin

text \<open>
  The string, stack and SSE cases of the dispatch in \<^verbatim>\<open>ins_inspect\<close> (\<^verbatim>\<open>libdft_core64.cc\<close>).
\<close>

subsection \<open>String instructions\<close>

definition ins_xlat :: "ENV \<Rightarrow> call list" where
  "ins_xlat env = [XferC (M2r_xfer_opb_l (REG8_INDX REG_AL) (IARG_MEMORYREAD_EA env))]"

definition ins_lodsb :: "ENV \<Rightarrow> call list" where
  "ins_lodsb env = predicated env [XferC (M2r_xfer_opb_l (REG8_INDX REG_AL)
      (IARG_MEMORYREAD_EA env))]"

definition ins_lodsw :: "ENV \<Rightarrow> call list" where
  "ins_lodsw env = predicated env [XferC (M2r_xfer_opw (REG16_INDX REG_AX)
      (IARG_MEMORYREAD_EA env))]"

definition ins_lodsd :: "ENV \<Rightarrow> call list" where
  "ins_lodsd env = predicated env [XferC (M2r_xfer_opl (REG32_INDX REG_EAX)
      (IARG_MEMORYREAD_EA env))]"

definition ins_lodsq :: "ENV \<Rightarrow> call list" where
  "ins_lodsq env = predicated env [XferC (M2r_xfer_opq (REG64_INDX REG_RAX)
      (IARG_MEMORYREAD_EA env))]"

text \<open>
  A repeated store handles the whole block at its first iteration: the count register and the
  flags (operand 4) go to the routine.
\<close>

definition ins_stosb :: "INS \<Rightarrow> ENV \<Rightarrow> call list" where
  "ins_stosb ins env =
     (if INS_RepPrefix ins
      then if_first_rep env [XferC (R2m_xfer_opbn (IARG_MEMORYWRITE_EA env)
        (IARG_REG_VALUE env (INS_RepCountRegister ins))
        (IARG_REG_VALUE env (INS_OperandReg ins OP_4)))]
      else [XferC (R2m_xfer_opb_l (IARG_MEMORYWRITE_EA env) (REG8_INDX REG_AL))])"

definition ins_stosw :: "INS \<Rightarrow> ENV \<Rightarrow> call list" where
  "ins_stosw ins env =
     (if INS_RepPrefix ins
      then if_first_rep env [XferC (R2m_xfer_opwn (IARG_MEMORYWRITE_EA env)
        (IARG_REG_VALUE env (INS_RepCountRegister ins))
        (IARG_REG_VALUE env (INS_OperandReg ins OP_4)))]
      else [XferC (R2m_xfer_opw (IARG_MEMORYWRITE_EA env) (REG16_INDX REG_AX))])"

definition ins_stosd :: "INS \<Rightarrow> ENV \<Rightarrow> call list" where
  "ins_stosd ins env =
     (if INS_RepPrefix ins
      then if_first_rep env [XferC (R2m_xfer_opln (IARG_MEMORYWRITE_EA env)
        (IARG_REG_VALUE env (INS_RepCountRegister ins))
        (IARG_REG_VALUE env (INS_OperandReg ins OP_4)))]
      else [XferC (R2m_xfer_opl (IARG_MEMORYWRITE_EA env) (REG32_INDX REG_EAX))])"

definition ins_stosq :: "INS \<Rightarrow> ENV \<Rightarrow> call list" where
  "ins_stosq ins env =
     (if INS_RepPrefix ins
      then if_first_rep env [XferC (R2m_xfer_opqn (IARG_MEMORYWRITE_EA env)
        (IARG_REG_VALUE env (INS_RepCountRegister ins))
        (IARG_REG_VALUE env (INS_OperandReg ins OP_4)))]
      else [XferC (R2m_xfer_opq (IARG_MEMORYWRITE_EA env) (REG64_INDX REG_RAX))])"

definition ins_movsq :: "ENV \<Rightarrow> call list" where
  "ins_movsq env = predicated env [XferC (M2m_xfer_opq (IARG_MEMORYWRITE_EA env)
      (IARG_MEMORYREAD_EA env))]"

definition ins_movsd :: "ENV \<Rightarrow> call list" where
  "ins_movsd env = predicated env [XferC (M2m_xfer_opl (IARG_MEMORYWRITE_EA env)
      (IARG_MEMORYREAD_EA env))]"

definition ins_movsw :: "ENV \<Rightarrow> call list" where
  "ins_movsw env = predicated env [XferC (M2m_xfer_opw (IARG_MEMORYWRITE_EA env)
      (IARG_MEMORYREAD_EA env))]"

definition ins_movsb :: "ENV \<Rightarrow> call list" where
  "ins_movsb env = predicated env [XferC (M2m_xfer_opb (IARG_MEMORYWRITE_EA env)
      (IARG_MEMORYREAD_EA env))]"

definition ins_salc :: "call list" where
  "ins_salc = [XferC (R_clrb_l (REG8_INDX REG_AL))]"

subsection \<open>Stack instructions\<close>

definition ins_pop :: "INS \<Rightarrow> ENV \<Rightarrow> call list" where
  "ins_pop ins env =
     (if INS_OperandIsReg ins OP_0 then
        (let reg_dst = INS_OperandReg ins OP_0 in
         if REG_is_gr64 reg_dst
           then [XferC (M2r_xfer_opq (REG64_INDX reg_dst) (IARG_MEMORYREAD_EA env))]
         else if REG_is_gr32 reg_dst
           then [XferC (M2r_xfer_opl (REG32_INDX reg_dst) (IARG_MEMORYREAD_EA env))]
         else [XferC (M2r_xfer_opw (REG16_INDX reg_dst) (IARG_MEMORYREAD_EA env))])
      else if INS_OperandIsMemory ins OP_0 then
        (if INS_MemoryWriteSize ins = BIT2BYTE MEM_QUAD_LEN
          then [XferC (M2m_xfer_opq (IARG_MEMORYWRITE_EA env) (IARG_MEMORYREAD_EA env))]
         else if INS_MemoryWriteSize ins = BIT2BYTE MEM_LONG_LEN
           then [XferC (M2m_xfer_opl (IARG_MEMORYWRITE_EA env) (IARG_MEMORYREAD_EA env))]
         else [XferC (M2m_xfer_opw (IARG_MEMORYWRITE_EA env) (IARG_MEMORYREAD_EA env))])
      else [])"

definition ins_push :: "INS \<Rightarrow> ENV \<Rightarrow> call list" where
  "ins_push ins env =
     (if INS_OperandIsReg ins OP_0 then
        (let reg_src = INS_OperandReg ins OP_0 in
         if REG_is_gr64 reg_src
           then [XferC (R2m_xfer_opq (IARG_MEMORYWRITE_EA env) (REG64_INDX reg_src))]
         else if REG_is_gr32 reg_src
           then [XferC (R2m_xfer_opl (IARG_MEMORYWRITE_EA env) (REG32_INDX reg_src))]
         else [XferC (R2m_xfer_opw (IARG_MEMORYWRITE_EA env) (REG16_INDX reg_src))])
      else if INS_OperandIsMemory ins OP_0 then
        (if INS_MemoryWriteSize ins = BIT2BYTE MEM_QUAD_LEN
          then [XferC (M2m_xfer_opq (IARG_MEMORYWRITE_EA env) (IARG_MEMORYREAD_EA env))]
         else if INS_MemoryWriteSize ins = BIT2BYTE MEM_LONG_LEN
           then [XferC (M2m_xfer_opl (IARG_MEMORYWRITE_EA env) (IARG_MEMORYREAD_EA env))]
         else [XferC (M2m_xfer_opw (IARG_MEMORYWRITE_EA env) (IARG_MEMORYREAD_EA env))])
      else
        (let width = INS_OperandWidth ins OP_0 in
         if width = MEM_QUAD_LEN then [Tagmap_clrq (IARG_MEMORYWRITE_EA env)]
         else if width = MEM_LONG_LEN then [Tagmap_clrl (IARG_MEMORYWRITE_EA env)]
         else if width = MEM_WORD_LEN then [Tagmap_clrw (IARG_MEMORYWRITE_EA env)]
         else if width = MEM_BYTE_LEN then [Tagmap_clrb (IARG_MEMORYWRITE_EA env)]
         else []))"

definition ins_popa :: "ENV \<Rightarrow> call list" where
  "ins_popa env = [MiscC (M2r_restore_opw (IARG_MEMORYREAD_EA env))]"

definition ins_popad :: "ENV \<Rightarrow> call list" where
  "ins_popad env = [MiscC (M2r_restore_opl (IARG_MEMORYREAD_EA env))]"

definition ins_pusha :: "ENV \<Rightarrow> call list" where
  "ins_pusha env = [MiscC (R2m_save_opw (IARG_MEMORYWRITE_EA env))]"

definition ins_pushad :: "ENV \<Rightarrow> call list" where
  "ins_pushad env = [MiscC (R2m_save_opl (IARG_MEMORYWRITE_EA env))]"

definition ins_pushf :: "ENV \<Rightarrow> call list" where
  "ins_pushf env = [Tagmap_clrw (IARG_MEMORYWRITE_EA env)]"

definition ins_pushfd :: "ENV \<Rightarrow> call list" where
  "ins_pushfd env = [Tagmap_clrl (IARG_MEMORYWRITE_EA env)]"

definition ins_pushfq :: "ENV \<Rightarrow> call list" where
  "ins_pushfq env = [Tagmap_clrq (IARG_MEMORYWRITE_EA env)]"

definition ins_call_near :: "INS \<Rightarrow> ENV \<Rightarrow> call list" where
  "ins_call_near ins env =
     (if INS_MemoryWriteSize ins = BIT2BYTE MEM_QUAD_LEN
       then [Tagmap_clrq (IARG_MEMORYWRITE_EA env)]
      else if INS_MemoryWriteSize ins = BIT2BYTE MEM_LONG_LEN
        then [Tagmap_clrl (IARG_MEMORYWRITE_EA env)]
      else [Tagmap_clrw (IARG_MEMORYWRITE_EA env)])"

text \<open>The second test is not an \<^verbatim>\<open>else\<close> branch of the first, so a 64-bit form inserts four calls.\<close>

definition ins_leave :: "INS \<Rightarrow> ENV \<Rightarrow> call list" where
  "ins_leave ins env =
     (let reg_dst = INS_OperandReg ins OP_3; reg_src = INS_OperandReg ins OP_2 in
      (if REG_is_gr64 reg_dst
       then [XferC (R2r_xfer_opq (REG64_INDX reg_dst) (REG64_INDX reg_src))] @
         [XferC (M2r_xfer_opq (REG64_INDX reg_src) (IARG_MEMORYREAD_EA env))]
       else []) @
      (if REG_is_gr32 reg_dst
       then [XferC (R2r_xfer_opl (REG32_INDX reg_dst) (REG32_INDX reg_src))] @
         [XferC (M2r_xfer_opl (REG32_INDX reg_src) (IARG_MEMORYREAD_EA env))]
       else [XferC (R2r_xfer_opw (REG16_INDX reg_dst) (REG16_INDX reg_src))] @
         [XferC (M2r_xfer_opw (REG16_INDX reg_src) (IARG_MEMORYREAD_EA env))]))"

subsection \<open>SSE and other instructions\<close>

text \<open>
  The default case: the loop over \<^verbatim>\<open>INS_RegR(ins, i)\<close> stops at the first invalid register or
  at an SSE register; if one was found, the memory operand written and every general purpose
  register written are cleared.
\<close>

fun sse_read :: "REG list \<Rightarrow> bool" where
  "sse_read [] = False"
| "sse_read (r # rs) =
     (r \<noteq> REG_INVALID \<and> (REG_is_xmm r \<or> REG_is_ymm r \<or> REG_is_mm r \<or> sse_read rs))"

fun sse_clear_regs :: "PIN \<Rightarrow> REG list \<Rightarrow> call list" where
  "sse_clear_regs pin [] = []"
| "sse_clear_regs pin (wreg # rs) =
     (if wreg = REG_INVALID then []
      else
        (if REG_is_gr (REG_FullRegName pin wreg) then
           (if REG_is_gr64 wreg then [XferC (R_clrq (REG64_INDX wreg))]
            else if REG_is_gr32 wreg then [XferC (R_clrl (REG32_INDX wreg))]
            else if REG_is_gr16 wreg then [XferC (R_clrw (REG16_INDX wreg))]
            else if REG_is_Upper8 pin wreg then [XferC (R_clrb_u (REG8_INDX wreg))]
            else [XferC (R_clrb_l (REG8_INDX wreg))])
         else []) @ sse_clear_regs pin rs)"

definition ins_default :: "PIN \<Rightarrow> INS \<Rightarrow> ENV \<Rightarrow> call list" where
  "ins_default pin ins env =
     (if sse_read (INS_RegRs ins) then
        (if INS_IsMemoryWrite ins
          then [MiscC (M_clrn (IARG_MEMORYWRITE_EA env) (INS_MemoryWriteSize ins))] else []) @
        sse_clear_regs pin (INS_RegWs ins)
      else [])"

subsection \<open>Register bounds\<close>

lemmas str_case_defs [inspect_defs] =
  ins_xlat_def ins_lodsb_def ins_lodsw_def ins_lodsd_def ins_lodsq_def ins_stosb_def
  ins_stosw_def ins_stosd_def ins_stosq_def ins_movsq_def ins_movsd_def ins_movsw_def
  ins_movsb_def ins_salc_def ins_pop_def ins_push_def ins_popa_def ins_popad_def ins_pusha_def
  ins_pushad_def ins_pushf_def ins_pushfd_def ins_pushfq_def ins_call_near_def ins_leave_def
  ins_default_def

lemma sse_clear_regs_ok [simp]: "list_all call_ok (sse_clear_regs pin rs)"
  by (induction rs) auto

lemma str_cases_ok:
  "list_all call_ok (ins_xlat env)" "list_all call_ok (ins_lodsb env)"
  "list_all call_ok (ins_lodsw env)" "list_all call_ok (ins_lodsd env)"
  "list_all call_ok (ins_lodsq env)" "list_all call_ok (ins_stosb ins env)"
  "list_all call_ok (ins_stosw ins env)" "list_all call_ok (ins_stosd ins env)"
  "list_all call_ok (ins_stosq ins env)" "list_all call_ok (ins_movsq env)"
  "list_all call_ok (ins_movsd env)" "list_all call_ok (ins_movsw env)"
  "list_all call_ok (ins_movsb env)" "list_all call_ok ins_salc"
  "list_all call_ok (ins_pop ins env)" "list_all call_ok (ins_push ins env)"
  "list_all call_ok (ins_popa env)" "list_all call_ok (ins_popad env)"
  "list_all call_ok (ins_pusha env)" "list_all call_ok (ins_pushad env)"
  "list_all call_ok (ins_pushf env)" "list_all call_ok (ins_pushfd env)"
  "list_all call_ok (ins_pushfq env)" "list_all call_ok (ins_call_near ins env)"
  "list_all call_ok (ins_leave ins env)" "list_all call_ok (ins_default pin ins env)"
  by (simp_all add: str_case_defs Let_def)

end
