(* ===== verification/Inspect.thy ===== *)
theory Inspect
  imports InspectMov InspectAlu InspectStr
begin

text \<open>
  The instrumentation function \<^verbatim>\<open>ins_inspect\<close> of \<^verbatim>\<open>libdft_core64.cc\<close>: the dispatch on the XED
  instruction class, and the run of the analysis calls over a trace of executed instructions.
  Every call it inserts names registers within the register-tag array, with one exception, the
  bit scans of a memory operand, whose routine indexes the array with the address.
\<close>

subsection \<open>Instruction classes\<close>

abbreviation (input) XED_ICLASS_ADC :: nat where "XED_ICLASS_ADC \<equiv> 5"
abbreviation (input) XED_ICLASS_ADD :: nat where "XED_ICLASS_ADD \<equiv> 7"
abbreviation (input) XED_ICLASS_AND :: nat where "XED_ICLASS_AND \<equiv> 21"
abbreviation (input) XED_ICLASS_OR :: nat where "XED_ICLASS_OR \<equiv> 383"
abbreviation (input) XED_ICLASS_BSF :: nat where "XED_ICLASS_BSF \<equiv> 45"
abbreviation (input) XED_ICLASS_BSR :: nat where "XED_ICLASS_BSR \<equiv> 46"
abbreviation (input) XED_ICLASS_MOV :: nat where "XED_ICLASS_MOV \<equiv> 322"
abbreviation (input) XED_ICLASS_CMOVB :: nat where "XED_ICLASS_CMOVB \<equiv> 66"
abbreviation (input) XED_ICLASS_CMOVBE :: nat where "XED_ICLASS_CMOVBE \<equiv> 67"
abbreviation (input) XED_ICLASS_CMOVL :: nat where "XED_ICLASS_CMOVL \<equiv> 68"
abbreviation (input) XED_ICLASS_CMOVLE :: nat where "XED_ICLASS_CMOVLE \<equiv> 69"
abbreviation (input) XED_ICLASS_CMOVNB :: nat where "XED_ICLASS_CMOVNB \<equiv> 70"
abbreviation (input) XED_ICLASS_CMOVNBE :: nat where "XED_ICLASS_CMOVNBE \<equiv> 71"
abbreviation (input) XED_ICLASS_CMOVNL :: nat where "XED_ICLASS_CMOVNL \<equiv> 72"
abbreviation (input) XED_ICLASS_CMOVNLE :: nat where "XED_ICLASS_CMOVNLE \<equiv> 73"
abbreviation (input) XED_ICLASS_CMOVNO :: nat where "XED_ICLASS_CMOVNO \<equiv> 74"
abbreviation (input) XED_ICLASS_CMOVNP :: nat where "XED_ICLASS_CMOVNP \<equiv> 75"
abbreviation (input) XED_ICLASS_CMOVNS :: nat where "XED_ICLASS_CMOVNS \<equiv> 76"
abbreviation (input) XED_ICLASS_CMOVNZ :: nat where "XED_ICLASS_CMOVNZ \<equiv> 77"
abbreviation (input) XED_ICLASS_CMOVO :: nat where "XED_ICLASS_CMOVO \<equiv> 78"
abbreviation (input) XED_ICLASS_CMOVP :: nat where "XED_ICLASS_CMOVP \<equiv> 79"
abbreviation (input) XED_ICLASS_CMOVS :: nat where "XED_ICLASS_CMOVS \<equiv> 80"
abbreviation (input) XED_ICLASS_CMOVZ :: nat where "XED_ICLASS_CMOVZ \<equiv> 81"
abbreviation (input) XED_ICLASS_CBW :: nat where "XED_ICLASS_CBW \<equiv> 55"
abbreviation (input) XED_ICLASS_CWD :: nat where "XED_ICLASS_CWD \<equiv> 121"
abbreviation (input) XED_ICLASS_CWDE :: nat where "XED_ICLASS_CWDE \<equiv> 122"
abbreviation (input) XED_ICLASS_CDQE :: nat where "XED_ICLASS_CDQE \<equiv> 57"
abbreviation (input) XED_ICLASS_CDQ :: nat where "XED_ICLASS_CDQ \<equiv> 56"
abbreviation (input) XED_ICLASS_CQO :: nat where "XED_ICLASS_CQO \<equiv> 97"
abbreviation (input) XED_ICLASS_MOVSX :: nat where "XED_ICLASS_MOVSX \<equiv> 357"
abbreviation (input) XED_ICLASS_MOVSXD :: nat where "XED_ICLASS_MOVSXD \<equiv> 358"
abbreviation (input) XED_ICLASS_MOVZX :: nat where "XED_ICLASS_MOVZX \<equiv> 361"
abbreviation (input) XED_ICLASS_DIV :: nat where "XED_ICLASS_DIV \<equiv> 126"
abbreviation (input) XED_ICLASS_IDIV :: nat where "XED_ICLASS_IDIV \<equiv> 240"
abbreviation (input) XED_ICLASS_MUL :: nat where "XED_ICLASS_MUL \<equiv> 365"
abbreviation (input) XED_ICLASS_IMUL :: nat where "XED_ICLASS_IMUL \<equiv> 241"
abbreviation (input) XED_ICLASS_SETB :: nat where "XED_ICLASS_SETB \<equiv> 592"
abbreviation (input) XED_ICLASS_SETBE :: nat where "XED_ICLASS_SETBE \<equiv> 593"
abbreviation (input) XED_ICLASS_SETL :: nat where "XED_ICLASS_SETL \<equiv> 594"
abbreviation (input) XED_ICLASS_SETLE :: nat where "XED_ICLASS_SETLE \<equiv> 595"
abbreviation (input) XED_ICLASS_SETNB :: nat where "XED_ICLASS_SETNB \<equiv> 596"
abbreviation (input) XED_ICLASS_SETNBE :: nat where "XED_ICLASS_SETNBE \<equiv> 597"
abbreviation (input) XED_ICLASS_SETNL :: nat where "XED_ICLASS_SETNL \<equiv> 598"
abbreviation (input) XED_ICLASS_SETNLE :: nat where "XED_ICLASS_SETNLE \<equiv> 599"
abbreviation (input) XED_ICLASS_SETNO :: nat where "XED_ICLASS_SETNO \<equiv> 600"
abbreviation (input) XED_ICLASS_SETNP :: nat where "XED_ICLASS_SETNP \<equiv> 601"
abbreviation (input) XED_ICLASS_SETNS :: nat where "XED_ICLASS_SETNS \<equiv> 602"
abbreviation (input) XED_ICLASS_SETNZ :: nat where "XED_ICLASS_SETNZ \<equiv> 603"
abbreviation (input) XED_ICLASS_SETO :: nat where "XED_ICLASS_SETO \<equiv> 604"
abbreviation (input) XED_ICLASS_SETP :: nat where "XED_ICLASS_SETP \<equiv> 605"
abbreviation (input) XED_ICLASS_SETS :: nat where "XED_ICLASS_SETS \<equiv> 606"
abbreviation (input) XED_ICLASS_SETZ :: nat where "XED_ICLASS_SETZ \<equiv> 607"
abbreviation (input) XED_ICLASS_STMXCSR :: nat where "XED_ICLASS_STMXCSR \<equiv> 632"
abbreviation (input) XED_ICLASS_SMSW :: nat where "XED_ICLASS_SMSW \<equiv> 622"
abbreviation (input) XED_ICLASS_STR :: nat where "XED_ICLASS_STR \<equiv> 637"
abbreviation (input) XED_ICLASS_LAR :: nat where "XED_ICLASS_LAR \<equiv> 282"
abbreviation (input) XED_ICLASS_RDPMC :: nat where "XED_ICLASS_RDPMC \<equiv> 566"
abbreviation (input) XED_ICLASS_RDTSC :: nat where "XED_ICLASS_RDTSC \<equiv> 569"
abbreviation (input) XED_ICLASS_CPUID :: nat where "XED_ICLASS_CPUID \<equiv> 96"
abbreviation (input) XED_ICLASS_LAHF :: nat where "XED_ICLASS_LAHF \<equiv> 281"
abbreviation (input) XED_ICLASS_CMPXCHG :: nat where "XED_ICLASS_CMPXCHG \<equiv> 91"
abbreviation (input) XED_ICLASS_XCHG :: nat where "XED_ICLASS_XCHG \<equiv> 1109"
abbreviation (input) XED_ICLASS_XADD :: nat where "XED_ICLASS_XADD \<equiv> 1107"
abbreviation (input) XED_ICLASS_XLAT :: nat where "XED_ICLASS_XLAT \<equiv> 1112"
abbreviation (input) XED_ICLASS_LODSB :: nat where "XED_ICLASS_LODSB \<equiv> 297"
abbreviation (input) XED_ICLASS_LODSW :: nat where "XED_ICLASS_LODSW \<equiv> 300"
abbreviation (input) XED_ICLASS_LODSD :: nat where "XED_ICLASS_LODSD \<equiv> 298"
abbreviation (input) XED_ICLASS_LODSQ :: nat where "XED_ICLASS_LODSQ \<equiv> 299"
abbreviation (input) XED_ICLASS_STOSB :: nat where "XED_ICLASS_STOSB \<equiv> 633"
abbreviation (input) XED_ICLASS_STOSW :: nat where "XED_ICLASS_STOSW \<equiv> 636"
abbreviation (input) XED_ICLASS_STOSD :: nat where "XED_ICLASS_STOSD \<equiv> 634"
abbreviation (input) XED_ICLASS_STOSQ :: nat where "XED_ICLASS_STOSQ \<equiv> 635"
abbreviation (input) XED_ICLASS_MOVSQ :: nat where "XED_ICLASS_MOVSQ \<equiv> 354"
abbreviation (input) XED_ICLASS_MOVSD :: nat where "XED_ICLASS_MOVSD \<equiv> 350"
abbreviation (input) XED_ICLASS_MOVSW :: nat where "XED_ICLASS_MOVSW \<equiv> 356"
abbreviation (input) XED_ICLASS_MOVSB :: nat where "XED_ICLASS_MOVSB \<equiv> 349"
abbreviation (input) XED_ICLASS_SALC :: nat where "XED_ICLASS_SALC \<equiv> 584"
abbreviation (input) XED_ICLASS_RCL :: nat where "XED_ICLASS_RCL \<equiv> 559"
abbreviation (input) XED_ICLASS_RCR :: nat where "XED_ICLASS_RCR \<equiv> 562"
abbreviation (input) XED_ICLASS_ROL :: nat where "XED_ICLASS_ROL \<equiv> 573"
abbreviation (input) XED_ICLASS_ROR :: nat where "XED_ICLASS_ROR \<equiv> 574"
abbreviation (input) XED_ICLASS_SHL :: nat where "XED_ICLASS_SHL \<equiv> 610"
abbreviation (input) XED_ICLASS_SAR :: nat where "XED_ICLASS_SAR \<equiv> 585"
abbreviation (input) XED_ICLASS_SHR :: nat where "XED_ICLASS_SHR \<equiv> 613"
abbreviation (input) XED_ICLASS_SHLD :: nat where "XED_ICLASS_SHLD \<equiv> 611"
abbreviation (input) XED_ICLASS_SHRD :: nat where "XED_ICLASS_SHRD \<equiv> 614"
abbreviation (input) XED_ICLASS_POP :: nat where "XED_ICLASS_POP \<equiv> 500"
abbreviation (input) XED_ICLASS_PUSH :: nat where "XED_ICLASS_PUSH \<equiv> 552"
abbreviation (input) XED_ICLASS_POPA :: nat where "XED_ICLASS_POPA \<equiv> 501"
abbreviation (input) XED_ICLASS_POPAD :: nat where "XED_ICLASS_POPAD \<equiv> 502"
abbreviation (input) XED_ICLASS_PUSHA :: nat where "XED_ICLASS_PUSHA \<equiv> 553"
abbreviation (input) XED_ICLASS_PUSHAD :: nat where "XED_ICLASS_PUSHAD \<equiv> 554"
abbreviation (input) XED_ICLASS_PUSHF :: nat where "XED_ICLASS_PUSHF \<equiv> 555"
abbreviation (input) XED_ICLASS_PUSHFD :: nat where "XED_ICLASS_PUSHFD \<equiv> 556"
abbreviation (input) XED_ICLASS_PUSHFQ :: nat where "XED_ICLASS_PUSHFQ \<equiv> 557"
abbreviation (input) XED_ICLASS_CALL_NEAR :: nat where "XED_ICLASS_CALL_NEAR \<equiv> 54"
abbreviation (input) XED_ICLASS_LEAVE :: nat where "XED_ICLASS_LEAVE \<equiv> 287"
abbreviation (input) XED_ICLASS_LEA :: nat where "XED_ICLASS_LEA \<equiv> 286"
abbreviation (input) XED_ICLASS_CMPXCHG8B :: nat where "XED_ICLASS_CMPXCHG8B \<equiv> 93"
abbreviation (input) XED_ICLASS_ENTER :: nat where "XED_ICLASS_ENTER \<equiv> 134"
abbreviation (input) XED_ICLASS_TEST :: nat where "XED_ICLASS_TEST \<equiv> 651"
abbreviation (input) XED_ICLASS_JNZ :: nat where "XED_ICLASS_JNZ \<equiv> 275"
abbreviation (input) XED_ICLASS_LAST :: nat where "XED_ICLASS_LAST \<equiv> 1124"
abbreviation (input) XED_ICLASS_INVALID :: nat where "XED_ICLASS_INVALID \<equiv> 0"

subsection \<open>The dispatch\<close>

definition ins_switch :: "PIN \<Rightarrow> INS \<Rightarrow> ENV \<Rightarrow> leave" where
  "ins_switch pin ins env =
     (let ins_indx = INS_Opcode ins in
      if ins_indx \<in> set [XED_ICLASS_ADC, XED_ICLASS_ADD, XED_ICLASS_AND, XED_ICLASS_OR, XED_ICLASS_XOR,
        XED_ICLASS_SBB, XED_ICLASS_SUB]
      then Break (ins_binary pin ins env)
      else if ins_indx \<in> set [XED_ICLASS_BSF, XED_ICLASS_BSR] then Break (ins_bitscan ins env)
      else if ins_indx = XED_ICLASS_MOV then ins_mov pin ins env
      else if ins_indx \<in> set [XED_ICLASS_CMOVB, XED_ICLASS_CMOVBE, XED_ICLASS_CMOVL, XED_ICLASS_CMOVLE,
        XED_ICLASS_CMOVNB, XED_ICLASS_CMOVNBE, XED_ICLASS_CMOVNL, XED_ICLASS_CMOVNLE,
        XED_ICLASS_CMOVNO, XED_ICLASS_CMOVNP, XED_ICLASS_CMOVNS, XED_ICLASS_CMOVNZ,
        XED_ICLASS_CMOVO, XED_ICLASS_CMOVP, XED_ICLASS_CMOVS, XED_ICLASS_CMOVZ]
      then Break (ins_cmov ins env)
      else if ins_indx = XED_ICLASS_CBW then Break ins_cbw
      else if ins_indx = XED_ICLASS_CWD then Break ins_cwd
      else if ins_indx = XED_ICLASS_CWDE then Break ins_cwde
      else if ins_indx = XED_ICLASS_CDQE then Break ins_cdqe
      else if ins_indx = XED_ICLASS_CDQ then Break ins_cdq
      else if ins_indx = XED_ICLASS_CQO then Break ins_cqo
      else if ins_indx = XED_ICLASS_MOVSX then Break (ins_movsx pin ins env)
      else if ins_indx = XED_ICLASS_MOVSXD then Break (ins_movsxd ins env)
      else if ins_indx = XED_ICLASS_MOVZX then Break (ins_movzx pin ins env)
      else if ins_indx \<in> set [XED_ICLASS_DIV, XED_ICLASS_IDIV, XED_ICLASS_MUL]
      then Break (ins_div_mul pin ins env)
      else if ins_indx = XED_ICLASS_IMUL then Break (ins_imul pin ins env)
      else if ins_indx \<in> set [XED_ICLASS_SETB, XED_ICLASS_SETBE, XED_ICLASS_SETL, XED_ICLASS_SETLE,
        XED_ICLASS_SETNB, XED_ICLASS_SETNBE, XED_ICLASS_SETNL, XED_ICLASS_SETNLE,
        XED_ICLASS_SETNO, XED_ICLASS_SETNP, XED_ICLASS_SETNS, XED_ICLASS_SETNZ,
        XED_ICLASS_SETO, XED_ICLASS_SETP, XED_ICLASS_SETS, XED_ICLASS_SETZ]
      then Break (ins_setcc pin ins env)
      else if ins_indx = XED_ICLASS_STMXCSR then Break (ins_stmxcsr env)
      else if ins_indx \<in> set [XED_ICLASS_SMSW, XED_ICLASS_STR] then Break (ins_smsw ins env)
      else if ins_indx = XED_ICLASS_LAR then Break (ins_lar ins)
      else if ins_indx \<in> set [XED_ICLASS_RDPMC, XED_ICLASS_RDTSC] then Break ins_rdtsc
      else if ins_indx = XED_ICLASS_CPUID then Break ins_cpuid
      else if ins_indx = XED_ICLASS_LAHF then Break ins_lahf
      else if ins_indx = XED_ICLASS_CMPXCHG then Break (ins_cmpxchg ins env)
      else if ins_indx = XED_ICLASS_XCHG then Break (ins_xchg pin ins env)
      else if ins_indx = XED_ICLASS_XADD then Break (ins_xadd pin ins env)
      else if ins_indx = XED_ICLASS_XLAT then Break (ins_xlat env)
      else if ins_indx = XED_ICLASS_LODSB then Break (ins_lodsb env)
      else if ins_indx = XED_ICLASS_LODSW then Break (ins_lodsw env)
      else if ins_indx = XED_ICLASS_LODSD then Break (ins_lodsd env)
      else if ins_indx = XED_ICLASS_LODSQ then Break (ins_lodsq env)
      else if ins_indx = XED_ICLASS_STOSB then Break (ins_stosb ins env)
      else if ins_indx = XED_ICLASS_STOSW then Break (ins_stosw ins env)
      else if ins_indx = XED_ICLASS_STOSD then Break (ins_stosd ins env)
      else if ins_indx = XED_ICLASS_STOSQ then Break (ins_stosq ins env)
      else if ins_indx = XED_ICLASS_MOVSQ then Break (ins_movsq env)
      else if ins_indx = XED_ICLASS_MOVSD then Break (ins_movsd env)
      else if ins_indx = XED_ICLASS_MOVSW then Break (ins_movsw env)
      else if ins_indx = XED_ICLASS_MOVSB then Break (ins_movsb env)
      else if ins_indx = XED_ICLASS_SALC then Break ins_salc
      else if ins_indx \<in> set [XED_ICLASS_RCL, XED_ICLASS_RCR, XED_ICLASS_ROL, XED_ICLASS_ROR, XED_ICLASS_SHL,
        XED_ICLASS_SAR, XED_ICLASS_SHR, XED_ICLASS_SHLD, XED_ICLASS_SHRD]
      then Break []
      else if ins_indx = XED_ICLASS_POP then Break (ins_pop ins env)
      else if ins_indx = XED_ICLASS_PUSH then Break (ins_push ins env)
      else if ins_indx = XED_ICLASS_POPA then Break (ins_popa env)
      else if ins_indx = XED_ICLASS_POPAD then Break (ins_popad env)
      else if ins_indx = XED_ICLASS_PUSHA then Break (ins_pusha env)
      else if ins_indx = XED_ICLASS_PUSHAD then Break (ins_pushad env)
      else if ins_indx = XED_ICLASS_PUSHF then Break (ins_pushf env)
      else if ins_indx = XED_ICLASS_PUSHFD then Break (ins_pushfd env)
      else if ins_indx = XED_ICLASS_PUSHFQ then Break (ins_pushfq env)
      else if ins_indx = XED_ICLASS_CALL_NEAR then Break (ins_call_near ins env)
      else if ins_indx = XED_ICLASS_LEAVE then Break (ins_leave ins env)
      else if ins_indx = XED_ICLASS_LEA then Break (ins_lea ins)
      else if ins_indx \<in> set [XED_ICLASS_CMPXCHG8B, XED_ICLASS_ENTER] then Break []
      else Break (ins_default pin ins env))"

text \<open>
  The calls, and whether control reaches the end of the function, where the sequence patterns
  are handled.
\<close>

definition ins_inspect :: "PIN \<Rightarrow> INS \<Rightarrow> ENV \<Rightarrow> call list \<times> bool" where
  "ins_inspect pin ins env =
     (if INS_Opcode ins \<le> XED_ICLASS_INVALID \<or> INS_Opcode ins \<ge> XED_ICLASS_LAST then ([], False)
      else case ins_switch pin ins env of Break cs \<Rightarrow> (cs, True) | Return cs \<Rightarrow> (cs, False))"

definition ins_calls :: "PIN \<Rightarrow> INS \<Rightarrow> ENV \<Rightarrow> call list" where
  "ins_calls pin ins env = fst (ins_inspect pin ins env)"

text \<open>The instructions whose instrumentation indexes the register tags with an address.\<close>

definition bitscan_mem :: "INS \<Rightarrow> bool" where
  "bitscan_mem ins \<longleftrightarrow>
     (INS_Opcode ins = XED_ICLASS_BSF \<or> INS_Opcode ins = XED_ICLASS_BSR) \<and> INS_IsMemoryRead ins"

lemma ins_switch_ok:
  "(case ins_switch pin ins env of Break cs \<Rightarrow> list_all call_ok cs | Return cs \<Rightarrow> list_all call_ok cs)
     \<longleftrightarrow> (bitscan_mem ins \<longrightarrow> unat (IARG_MEMORYREAD_EA env) < 17)"
proof (cases "INS_Opcode ins = XED_ICLASS_BSF \<or> INS_Opcode ins = XED_ICLASS_BSR")
  case True
  then have "ins_switch pin ins env = Break (ins_bitscan ins env)"
    by (auto simp: ins_switch_def)
  with True show ?thesis
    by (simp add: bitscan_mem_def ins_bitscan_ok)
next
  case False
  have mov: "case ins_mov pin ins env of Break cs \<Rightarrow> list_all call_ok cs
      | Return cs \<Rightarrow> list_all call_ok cs"
    using ins_mov_ok [of pin ins env] by (auto split: leave.split)
  from False show ?thesis
    unfolding ins_switch_def Let_def bitscan_mem_def
    by (simp add: mov mov_cases_ok alu_cases_ok str_cases_ok)
qed

lemma ins_calls_ok:
  "list_all call_ok (ins_calls pin ins env) \<longleftrightarrow>
     (bitscan_mem ins \<longrightarrow> unat (IARG_MEMORYREAD_EA env) < 17)"
proof (cases "INS_Opcode ins \<le> XED_ICLASS_INVALID \<or> INS_Opcode ins \<ge> XED_ICLASS_LAST")
  case True
  then show ?thesis
    by (auto simp: ins_calls_def ins_inspect_def bitscan_mem_def)
next
  case False
  then show ?thesis
    using ins_switch_ok [of pin ins env]
    by (auto simp: ins_calls_def ins_inspect_def split: leave.splits)
qed

subsection \<open>Traces\<close>

type_synonym event = "INS \<times> ENV"

definition exec_ins :: "PIN \<Rightarrow> event \<Rightarrow> 'u::linorder taint_state \<Rightarrow> 'u taint_state option" where
  "exec_ins pin ev tc = exec_calls (ins_calls pin (fst ev) (snd ev)) tc"

definition exec_trace ::
  "PIN \<Rightarrow> event list \<Rightarrow> 'u::linorder taint_state \<Rightarrow> 'u taint_state option" where
  "exec_trace pin evs tc = iterM (exec_ins pin) evs tc"

definition trace_calls :: "PIN \<Rightarrow> event list \<Rightarrow> call list" where
  "trace_calls pin evs = concat (map (\<lambda>(ins, env). ins_calls pin ins env) evs)"

definition event_safe :: "event \<Rightarrow> bool" where
  "event_safe ev \<longleftrightarrow> (bitscan_mem (fst ev) \<longrightarrow> unat (IARG_MEMORYREAD_EA (snd ev)) < 17)"

lemma exec_trace_calls: "exec_trace pin evs tc = exec_calls (trace_calls pin evs) tc"
  unfolding exec_trace_def trace_calls_def
  by (induction evs arbitrary: tc)
    (auto simp: exec_ins_def exec_calls_append split: bind_split)

lemma trace_calls_ok: "list_all call_ok (trace_calls pin evs) \<longleftrightarrow> list_all event_safe evs"
  unfolding trace_calls_def
  by (induction evs) (auto simp: event_safe_def ins_calls_ok split: prod.splits)

end
