(* ===== verification/Policy.thy ===== *)
theory Policy
  imports Inspect
begin

text \<open>
  The taint policy of the tool at the level of operands, as the comments of \<^verbatim>\<open>ins_inspect\<close>
  state it (\<^verbatim>\<open>t[dst] = t[src]\<close>, \<^verbatim>\<open>t[dst] |= t[src]\<close>), and lemmas that the dispatch and the
  analysis routines together implement it. An operand is a list of byte locations: the bytes
  of a register that its name denotes, or consecutive bytes of memory. A policy says which
  locations are assigned, simultaneously, which tags; everything else keeps its tag.
\<close>

subsection \<open>Assignments\<close>

definition assigns ::
  "'u::linorder taint_state \<Rightarrow> loc list \<Rightarrow> 'u tag_t list \<Rightarrow> 'u taint_state \<Rightarrow> bool" where
  "assigns tc ds ts tc' \<longleftrightarrow>
     map (tag_of tc') ds = ts \<and>
     (\<forall>l. norm_loc l \<notin> norm_loc ` set ds \<longrightarrow> tag_of tc' l = tag_of tc l)"

lemma flow_at_cases:
  "(\<exists>l' srcs. (l', srcs) \<in> set F \<and> norm_loc l' = norm_loc l \<and> flow_at F l = srcs) \<or>
   norm_loc l \<notin> norm_loc ` fst ` set F \<and> flow_at F l = [l]"
proof (cases "find (\<lambda>(l', _). norm_loc l' = norm_loc l) (rev F)")
  case None
  then have "norm_loc l \<notin> norm_loc ` fst ` set F"
    by (auto simp: find_None_iff)
  with None show ?thesis by (simp add: flow_at_def)
next
  case (Some x)
  then have "x \<in> set F \<and> norm_loc (fst x) = norm_loc l"
    by (metis (mono_tags, lifting) case_prod_unfold find_Some_iff nth_mem set_rev)
  with Some show ?thesis
    by (cases x) (auto simp: flow_at_def)
qed

lemma apply_flow_assigns:
  assumes len: "length ds = length ts"
    and dom: "fst ` set F = set ds"
    and val: "\<And>l srcs i. (l, srcs) \<in> set F \<Longrightarrow> i < length ds \<Longrightarrow> norm_loc (ds ! i) = norm_loc l \<Longrightarrow>
      combine_all (map (tag_of tc) srcs) = ts ! i"
  shows "assigns tc ds ts (apply_flow F tc)"
  unfolding assigns_def
proof (intro conjI allI impI nth_equalityI)
  show "length (map (tag_of (apply_flow F tc)) ds) = length ts" by (simp add: len)
  fix i
  assume "i < length (map (tag_of (apply_flow F tc)) ds)"
  then have i: "i < length ds" by simp
  then have "norm_loc (ds ! i) \<in> norm_loc ` fst ` set F"
    by (simp add: dom)
  then obtain l srcs where "(l, srcs) \<in> set F" "norm_loc l = norm_loc (ds ! i)"
    "flow_at F (ds ! i) = srcs"
    using flow_at_cases [of F "ds ! i"] by auto
  then show "map (tag_of (apply_flow F tc)) ds ! i = ts ! i"
    using val [of l srcs i] i by (simp add: tag_of_apply_flow)
next
  fix l
  assume "norm_loc l \<notin> norm_loc ` set ds"
  then have "flow_at F l = [l]"
    using flow_at_cases [of F l] unfolding dom [symmetric] by (auto simp: image_iff)
  then show "tag_of (apply_flow F tc) l = tag_of tc l"
    by (simp add: tag_of_apply_flow)
qed

lemma assigns_map:
  assumes "\<And>i. i < n \<Longrightarrow> combine_all (map (tag_of tc) (S i)) = T i"
    and "\<And>i j. i < n \<Longrightarrow> j < n \<Longrightarrow> norm_loc (D i) = norm_loc (D j) \<Longrightarrow> T i = T j"
  shows "assigns tc (map D [0..<n]) (map T [0..<n])
      (apply_flow (map (\<lambda>i. (D i, S i)) [0..<n]) tc)"
proof (rule apply_flow_assigns)
  fix l srcs i
  assume "(l, srcs) \<in> set (map (\<lambda>i. (D i, S i)) [0..<n])"
    and "i < length (map D [0..<n])" "norm_loc (map D [0..<n] ! i) = norm_loc l"
  then obtain j where "j < n" "l = D j" "srcs = S j" "i < n" "norm_loc (D i) = norm_loc (D j)"
    by auto
  with assms(1) [of j] assms(2) [of i j] show "combine_all (map (tag_of tc) srcs) = map T [0..<n] ! i"
    by simp
qed (simp_all add: image_image)

lemma assigns_map2:
  assumes "\<And>i. i < n \<Longrightarrow> combine_all (map (tag_of tc) (S i)) = T i"
    and "\<And>i. i < m \<Longrightarrow> combine_all (map (tag_of tc) (S' i)) = T' i"
    and "\<And>i j. i < n \<Longrightarrow> j < n \<Longrightarrow> norm_loc (D i) = norm_loc (D j) \<Longrightarrow> T i = T j"
    and "\<And>i j. i < m \<Longrightarrow> j < m \<Longrightarrow> norm_loc (D' i) = norm_loc (D' j) \<Longrightarrow> T' i = T' j"
    and "\<And>i j. i < n \<Longrightarrow> j < m \<Longrightarrow> norm_loc (D i) = norm_loc (D' j) \<Longrightarrow> T i = T' j"
    and F: "set F = set (map (\<lambda>i. (D i, S i)) [0..<n]) \<union> set (map (\<lambda>i. (D' i, S' i)) [0..<m])"
  shows "assigns tc (map D [0..<n] @ map D' [0..<m]) (map T [0..<n] @ map T' [0..<m])
      (apply_flow F tc)"
proof (rule apply_flow_assigns)
  fix l srcs i
  assume "(l, srcs) \<in> set F"
    and i: "i < length (map D [0..<n] @ map D' [0..<m])"
      "norm_loc ((map D [0..<n] @ map D' [0..<m]) ! i) = norm_loc l"
  then consider j where "j < n" "l = D j" "srcs = S j" | j where "j < m" "l = D' j" "srcs = S' j"
    by (auto simp: F)
  then show "combine_all (map (tag_of tc) srcs) = (map T [0..<n] @ map T' [0..<m]) ! i"
  proof cases
    case (1 j)
    with i assms(1) [of j] assms(3) [of i j] assms(5) [of j "i - n"] show ?thesis
      by (auto simp: nth_append split: if_splits)
  next
    case (2 j)
    with i assms(2) [of j] assms(4) [of "i - n" j] assms(5) [of i j] show ?thesis
      by (auto simp: nth_append split: if_splits)
  qed
qed (simp_all add: F image_Un image_image)

subsection \<open>Operands\<close>

definition upper8 :: "REG \<Rightarrow> bool" where
  "upper8 r \<longleftrightarrow> r \<in> set [REG_AH, REG_BH, REG_CH, REG_DH]"

text \<open>What Pin's manual says of the two predicates: they tell the two kinds of 8-bit registers.\<close>

definition pin_ok :: "PIN \<Rightarrow> bool" where
  "pin_ok pin \<longleftrightarrow>
     (\<forall>r. REG_is_Upper8 pin r = upper8 r) \<and>
     (\<forall>r. REG_is_Lower8 pin r = (REG_is_gr8 r \<and> \<not> upper8 r))"

definition reg_width :: "REG \<Rightarrow> nat" where
  "reg_width r =
     (if REG_is_gr64 r then 8 else if REG_is_gr32 r then 4 else if REG_is_gr16 r then 2
      else if REG_is_gr8 r then 1 else 0)"

definition reg_index :: "REG \<Rightarrow> nat" where
  "reg_index r =
     (if REG_is_gr64 r then REG64_INDX r else if REG_is_gr32 r then REG32_INDX r
      else if REG_is_gr16 r then REG16_INDX r else REG8_INDX r)"

definition reg_loc :: "REG \<Rightarrow> nat \<Rightarrow> loc" where
  "reg_loc r i = Reg (reg_index r) (if upper8 r then 1 + i else i)"

definition mem_loc :: "addr \<Rightarrow> nat \<Rightarrow> loc" where
  "mem_loc a i = Mem (a + of_nat i)"

definition reg_locs :: "REG \<Rightarrow> loc list" where
  "reg_locs r = map (reg_loc r) [0..<reg_width r]"

definition mem_locs :: "addr \<Rightarrow> nat \<Rightarrow> loc list" where
  "mem_locs a n = map (mem_loc a) [0..<n]"

lemma length_locs [simp]: "length (reg_locs r) = reg_width r" "length (mem_locs a n) = n"
  by (simp_all add: reg_locs_def mem_locs_def)

lemma upper8_gr8: "upper8 r \<Longrightarrow> REG_is_gr8 r"
  by (auto simp: upper8_def REG_is_gr8_def)

lemma gr_exclusive:
  "REG_is_gr64 r \<Longrightarrow> \<not> REG_is_gr32 r" "REG_is_gr64 r \<Longrightarrow> \<not> REG_is_gr16 r"
  "REG_is_gr64 r \<Longrightarrow> \<not> REG_is_gr8 r" "REG_is_gr64 r \<Longrightarrow> \<not> upper8 r"
  "REG_is_gr32 r \<Longrightarrow> \<not> REG_is_gr16 r" "REG_is_gr32 r \<Longrightarrow> \<not> REG_is_gr8 r"
  "REG_is_gr32 r \<Longrightarrow> \<not> upper8 r"
  "REG_is_gr16 r \<Longrightarrow> \<not> REG_is_gr8 r" "REG_is_gr16 r \<Longrightarrow> \<not> upper8 r"
  using gr_disjoint upper8_gr8 by blast+

lemma gpr_width_cases:
  assumes "reg_width r > 0"
  obtains
    "REG_is_gr64 r" "\<not> REG_is_gr32 r" "\<not> REG_is_gr16 r" "\<not> REG_is_gr8 r" "\<not> upper8 r"
    "reg_width r = 8" "reg_loc r = Reg (REG64_INDX r)"
  | "\<not> REG_is_gr64 r" "REG_is_gr32 r" "\<not> REG_is_gr16 r" "\<not> REG_is_gr8 r" "\<not> upper8 r"
    "reg_width r = 4" "reg_loc r = Reg (REG32_INDX r)"
  | "\<not> REG_is_gr64 r" "\<not> REG_is_gr32 r" "REG_is_gr16 r" "\<not> REG_is_gr8 r" "\<not> upper8 r"
    "reg_width r = 2" "reg_loc r = Reg (REG16_INDX r)"
  | "\<not> REG_is_gr64 r" "\<not> REG_is_gr32 r" "\<not> REG_is_gr16 r" "REG_is_gr8 r" "upper8 r"
    "reg_width r = 1" "reg_loc r = (\<lambda>i. Reg (REG8_INDX r) (Suc i))"
  | "\<not> REG_is_gr64 r" "\<not> REG_is_gr32 r" "\<not> REG_is_gr16 r" "REG_is_gr8 r" "\<not> upper8 r"
    "reg_width r = 1" "reg_loc r = Reg (REG8_INDX r)"
proof -
  have loc: "reg_loc r = (\<lambda>i. Reg (reg_index r) (if upper8 r then 1 + i else i))"
    by (simp add: reg_loc_def fun_eq_iff)
  from assms consider "REG_is_gr64 r" | "REG_is_gr32 r" | "REG_is_gr16 r"
    | "REG_is_gr8 r" "upper8 r" | "REG_is_gr8 r" "\<not> upper8 r"
    by (auto simp: reg_width_def split: if_splits)
  then show thesis
  proof cases
    case 1
    with gr_exclusive [of r] loc show thesis
      by (intro that(1)) (simp_all add: reg_index_def reg_width_def)
  next
    case 2
    with gr_exclusive [of r] gr_disjoint [of r] loc show thesis
      by (intro that(2)) (simp_all add: reg_index_def reg_width_def)
  next
    case 3
    with gr_exclusive [of r] gr_disjoint [of r] loc show thesis
      by (intro that(3)) (simp_all add: reg_index_def reg_width_def)
  next
    case 4
    with gr_disjoint [of r] loc show thesis
      by (intro that(4)) (simp_all add: reg_index_def reg_width_def)
  next
    case 5
    with gr_disjoint [of r] loc show thesis
      by (intro that(5)) (simp_all add: reg_index_def reg_width_def)
  qed
qed

lemma reg_loc_inject: "norm_loc (reg_loc r i) = norm_loc (reg_loc r j) \<longleftrightarrow> i = j"
  by (auto simp: reg_loc_def)

lemma mem_loc_inject:
  "i < 8 \<Longrightarrow> j < 8 \<Longrightarrow> norm_loc (mem_loc a i) = norm_loc (mem_loc a j) \<longleftrightarrow> i = j"
  by (simp add: mem_loc_def norm_Mem_eq of_nat_32_inject [of i 8 j] del: norm_loc.simps)

lemma reg_mem_differ:
  "norm_loc (reg_loc r i) \<noteq> norm_loc (mem_loc a j)" "norm_loc (mem_loc a j) \<noteq> norm_loc (reg_loc r i)"
  by (simp_all add: reg_loc_def mem_loc_def)

subsection \<open>Calls that implement a policy\<close>

definition copy_flow :: "(nat \<Rightarrow> loc) \<Rightarrow> (nat \<Rightarrow> loc) \<Rightarrow> nat \<Rightarrow> flow" where
  "copy_flow D S n = map (\<lambda>i. (D i, [S i])) [0..<n]"

definition merge_flow :: "(nat \<Rightarrow> loc) \<Rightarrow> (nat \<Rightarrow> loc) \<Rightarrow> nat \<Rightarrow> flow" where
  "merge_flow D S n = map (\<lambda>i. (D i, [D i, S i])) [0..<n]"

definition clear_flow :: "(nat \<Rightarrow> loc) \<Rightarrow> nat \<Rightarrow> flow" where
  "clear_flow D n = map (\<lambda>i. (D i, [])) [0..<n]"

lemmas policy_flow_defs = copy_flow_def merge_flow_def clear_flow_def

definition flow_eq :: "flow \<Rightarrow> flow \<Rightarrow> bool" where
  "flow_eq F G \<longleftrightarrow> list_all2 (\<lambda>(l, s) (l', s'). l = l' \<and> set s = set s') F G"

lemma combine_all_set:
  "set s = set s' \<Longrightarrow> combine_all (map f s) = combine_all (map f s')"
  by (rule tag_eqI) (simp add: members_combine_all)

lemma apply_flow_eq: "flow_eq F G \<Longrightarrow> apply_flow F tc = apply_flow G tc"
proof -
  assume "flow_eq F G"
  then have "list_all2 (\<lambda>(l, s) (l', s'). l = l' \<and> set s = set s') F G"
    by (simp add: flow_eq_def)
  then have "fold (\<lambda>(l, srcs). put l (combine_all (map (tag_of tc) srcs))) F s =
      fold (\<lambda>(l, srcs). put l (combine_all (map (tag_of tc) srcs))) G s" for s
    by (induction F G arbitrary: s rule: list_all2_induct)
      (auto dest: combine_all_set [where f = "tag_of tc"])
  then show ?thesis by (simp add: apply_flow_def)
qed

definition implements :: "call list \<Rightarrow> flow \<Rightarrow> bool" where
  "implements cs F \<longleftrightarrow> (\<exists>c. cs = [c] \<and> call_ok c \<and> flow_eq (call_flow c) F)"

definition performs ::
  "call list \<Rightarrow> 'u::linorder taint_state \<Rightarrow> loc list \<Rightarrow> 'u tag_t list \<Rightarrow> bool" where
  "performs cs tc ds ts \<longleftrightarrow> (\<exists>tc'. exec_calls cs tc = Some tc' \<and> assigns tc ds ts tc')"

lemma implements_run: "implements cs F \<Longrightarrow> exec_calls cs tc = Some (apply_flow F tc)"
  by (auto simp: implements_def exec_calls_Cons exec_call_flow apply_flow_eq)

definition distinct_locs :: "(nat \<Rightarrow> loc) \<Rightarrow> nat \<Rightarrow> bool" where
  "distinct_locs D n \<longleftrightarrow> (\<forall>i<n. \<forall>j<n. norm_loc (D i) = norm_loc (D j) \<longrightarrow> i = j)"

lemma distinct_reg [simp]: "distinct_locs (reg_loc r) n"
  by (auto simp: distinct_locs_def reg_loc_inject)

lemma distinct_mem [simp]: "n \<le> 8 \<Longrightarrow> distinct_locs (mem_loc a) n"
  by (auto simp: distinct_locs_def mem_loc_inject)

lemma performs_map:
  assumes "implements cs (map (\<lambda>i. (D i, S i)) [0..<n])"
    and "\<And>i. i < n \<Longrightarrow> combine_all (map (tag_of tc) (S i)) = T i"
    and "\<And>i j. i < n \<Longrightarrow> j < n \<Longrightarrow> norm_loc (D i) = norm_loc (D j) \<Longrightarrow> T i = T j"
  shows "performs cs tc (map D [0..<n]) (map T [0..<n])"
  using implements_run [OF assms(1)] assigns_map [of n tc S T D, OF assms(2,3)]
  unfolding performs_def by blast

lemma performs_copy:
  assumes "implements cs (copy_flow D S n)" "distinct_locs D n"
  shows "performs cs tc (map D [0..<n]) (map (\<lambda>i. tag_of tc (S i)) [0..<n])"
proof (rule performs_map [where S = "\<lambda>i. [S i]"])
  fix i j
  assume "i < n" "j < n" "norm_loc (D i) = norm_loc (D j)"
  with assms(2) have "i = j" unfolding distinct_locs_def by blast
  then show "tag_of tc (S i) = tag_of tc (S j)" by simp
qed (use assms(1) in \<open>simp_all add: copy_flow_def\<close>)

lemma performs_merge:
  assumes "implements cs (merge_flow D S n)" "distinct_locs D n"
  shows "performs cs tc (map D [0..<n])
      (map (\<lambda>i. tag_combine (tag_of tc (D i)) (tag_of tc (S i))) [0..<n])"
proof (rule performs_map [where S = "\<lambda>i. [D i, S i]"])
  fix i j
  assume "i < n" "j < n" "norm_loc (D i) = norm_loc (D j)"
  with assms(2) have "i = j" unfolding distinct_locs_def by blast
  then show "tag_combine (tag_of tc (D i)) (tag_of tc (S i)) =
      tag_combine (tag_of tc (D j)) (tag_of tc (S j))" by simp
qed (use assms(1) in \<open>simp_all add: merge_flow_def\<close>)

lemma performs_clear:
  assumes "implements cs (clear_flow D n)"
  shows "performs cs tc (map D [0..<n]) (map (\<lambda>i. cleared_val) [0..<n])"
  by (rule performs_map [where S = "\<lambda>i. []"]) (use assms in \<open>simp_all add: clear_flow_def\<close>)

lemma flow_eq_refl [simp]: "flow_eq F F"
  by (auto simp: flow_eq_def intro: list_all2_refl)

lemma flow_eq_swap [simp]:
  "flow_eq (map (\<lambda>i. (D i, [S i, S' i])) is) (map (\<lambda>i. (D i, [S' i, S i])) is)"
  by (auto simp: flow_eq_def list_all2_conv_all_nth)

lemma flow_eq_swap1 [simp]: "flow_eq [(l, [a, b])] [(l, [b, a])]"
  by (auto simp: flow_eq_def)

lemmas impl_simps =
  implements_def policy_flow_defs mem_loc_def
  copy_rr_def copy_mr_def copy_rm_def copy_mm_def merge_rr_def clear_r_def clear_m_def

end
