(* ===== verification/PolicyCases.thy ===== *)
theory PolicyCases
  imports Policy
begin

text \<open>
  The cases of \<^verbatim>\<open>ins_inspect\<close> against the operand-level policy: for each family of
  instructions and each width and form of its operands, the calls inserted implement the
  policy's data flow.
\<close>

subsection \<open>Moves\<close>

lemma mov_r2r_policy:
  assumes pin: "pin_ok pin"
    and d: "INS_OperandReg ins OP_0 = d" and s: "INS_OperandReg ins OP_1 = s"
    and w: "reg_width d > 0" "reg_width s = reg_width d"
  shows "implements (ins_mov_r2r pin ins) (copy_flow (reg_loc d) (reg_loc s) (reg_width d))"
  using w(1) w(1) [folded w(2)]
  by (elim gpr_width_cases)
    (use pin d s w(2) in
      \<open>simp_all add: ins_mov_r2r_def impl_simps pin_ok_def\<close>)

lemma mov_m2r_policy:
  assumes "pin_ok pin" "INS_OperandReg ins OP_0 = d" "reg_width d > 0"
  shows "implements (ins_mov_m2r pin ins env)
      (copy_flow (reg_loc d) (mem_loc (IARG_MEMORYREAD_EA env)) (reg_width d))"
  using assms(3)
  by (cases rule: gpr_width_cases)
    (use assms(1,2) in \<open>simp_all add: ins_mov_m2r_def impl_simps pin_ok_def\<close>)

lemma mov_r2m_policy:
  assumes "pin_ok pin" "INS_OperandReg ins OP_1 = s" "reg_width s > 0"
  shows "implements (ins_mov_r2m pin ins env)
      (copy_flow (mem_loc (IARG_MEMORYWRITE_EA env)) (reg_loc s) (reg_width s))"
  using assms(3)
  by (cases rule: gpr_width_cases)
    (use assms(1,2) in \<open>simp_all add: ins_mov_r2m_def impl_simps pin_ok_def\<close>)

lemma mov_imm_policy:
  assumes "pin_ok pin" "INS_OperandReg ins OP_0 = d" "reg_width d > 0"
    and "\<not> INS_OperandIsMemory ins OP_0" "INS_OperandIsReg ins OP_0"
  shows "\<exists>cs. ins_mov_imm pin ins env = Break cs \<and> implements cs (clear_flow (reg_loc d) (reg_width d))"
  using assms(3)
  by (cases rule: gpr_width_cases)
    (use assms in \<open>simp_all add: ins_mov_imm_def impl_simps pin_ok_def\<close>)

lemma mov_imm_mem_policy:
  assumes "INS_OperandIsMemory ins OP_0" "INS_OperandWidth ins OP_0 \<in> {8, 16, 32, 64}"
  shows "\<exists>cs. ins_mov_imm pin ins env = Break cs \<and>
     implements cs (clear_flow (mem_loc (IARG_MEMORYWRITE_EA env)) (INS_OperandWidth ins OP_0 div 8))"
  using assms by (auto simp: ins_mov_imm_def impl_simps)

subsection \<open>Arithmetic\<close>

lemma binary_r2r_policy:
  assumes pin: "pin_ok pin" and idiom: "\<not> clear_idiom ins d s"
    and w: "reg_width d > 0" "reg_width s = reg_width d"
  shows "implements
      (if REG_is_gr64 d \<or> REG_is_gr32 d \<or> REG_is_gr16 d then ins_binary_r2r_wide ins d s
       else ins_binary_r2r_byte pin ins d s)
      (merge_flow (reg_loc d) (reg_loc s) (reg_width d))"
  using w(1) w(1) [folded w(2)]
  by (elim gpr_width_cases)
    (use pin idiom w(2) in
      \<open>simp_all add: ins_binary_r2r_wide_def ins_binary_r2r_byte_def impl_simps pin_ok_def\<close>)

lemma binary_clear_policy:
  assumes "pin_ok pin" "clear_idiom ins d d" "reg_width d > 0"
  shows "implements
      (if REG_is_gr64 d \<or> REG_is_gr32 d \<or> REG_is_gr16 d then ins_binary_r2r_wide ins d d
       else ins_binary_r2r_byte pin ins d d)
      (clear_flow (reg_loc d) (reg_width d))"
  using assms(3)
  by (cases rule: gpr_width_cases)
    (use assms(1,2) in
      \<open>simp_all add: ins_binary_r2r_wide_def ins_binary_r2r_byte_def impl_simps pin_ok_def\<close>)

lemma binary_m2r_policy:
  assumes "pin_ok pin" "INS_OperandReg ins OP_0 = d" "reg_width d > 0"
  shows "implements (ins_binary_m2r pin ins env)
      (merge_flow (reg_loc d) (mem_loc (IARG_MEMORYREAD_EA env)) (reg_width d))"
  using assms(3)
  by (cases rule: gpr_width_cases)
    (use assms(1,2) in
      \<open>simp_all add: ins_binary_m2r_def impl_simps pin_ok_def\<close>)

lemma binary_r2m_policy:
  assumes "pin_ok pin" "INS_OperandReg ins OP_1 = s" "reg_width s > 0"
  shows "implements (ins_binary_r2m pin ins env)
      (merge_flow (mem_loc (IARG_MEMORYWRITE_EA env)) (reg_loc s) (reg_width s))"
  using assms(3)
  by (cases rule: gpr_width_cases)
    (use assms(1,2) in \<open>simp_all add: ins_binary_r2m_def impl_simps pin_ok_def\<close>)

lemma wide_pos: "1 < n \<Longrightarrow> 0 < (n :: nat)"
  by simp

lemma imul_r2r_policy:
  assumes w: "1 < reg_width d" "reg_width s = reg_width d"
    and "INS_OperandReg ins OP_0 = d" "INS_OperandReg ins OP_1 = s"
    and "\<not> INS_OperandIsImmediate ins OP_1" "INS_MemoryOperandCount ins = 0"
  shows "implements (ins_imul_two ins env) (merge_flow (reg_loc d) (reg_loc s) (reg_width d))"
  using wide_pos [OF w(1)] wide_pos [OF w(1), folded w(2)]
  by (elim gpr_width_cases) (use assms in \<open>simp_all add: ins_imul_two_def impl_simps\<close>)

lemma imul_m2r_policy:
  assumes "1 < reg_width d" "INS_OperandReg ins OP_0 = d"
    and "\<not> INS_OperandIsImmediate ins OP_1" "INS_MemoryOperandCount ins \<noteq> 0"
  shows "implements (ins_imul_two ins env)
      (merge_flow (reg_loc d) (mem_loc (IARG_MEMORYREAD_EA env)) (reg_width d))"
  using wide_pos [OF assms(1)]
  by (elim gpr_width_cases) (use assms in \<open>simp_all add: ins_imul_two_def impl_simps\<close>)

subsection \<open>Conditional moves and extensions\<close>

lemma cmov_r2r_policy:
  assumes w: "1 < reg_width d" "reg_width s = reg_width d"
    and "INS_OperandReg ins OP_0 = d" "INS_OperandReg ins OP_1 = s"
    and "IARG_EXECUTING env" "INS_MemoryOperandCount ins = 0"
  shows "implements (ins_cmov ins env) (copy_flow (reg_loc d) (reg_loc s) (reg_width d))"
  using wide_pos [OF w(1)] wide_pos [OF w(1), folded w(2)]
  by (elim gpr_width_cases) (use assms in \<open>simp_all add: ins_cmov_def predicated_def impl_simps\<close>)

lemma cmov_m2r_policy:
  assumes "1 < reg_width d" "INS_OperandReg ins OP_0 = d"
    and "IARG_EXECUTING env" "INS_MemoryOperandCount ins \<noteq> 0"
  shows "implements (ins_cmov ins env)
      (copy_flow (reg_loc d) (mem_loc (IARG_MEMORYREAD_EA env)) (reg_width d))"
  using wide_pos [OF assms(1)]
  by (elim gpr_width_cases) (use assms in \<open>simp_all add: ins_cmov_def predicated_def impl_simps\<close>)

lemma cmov_not_executing: "\<not> IARG_EXECUTING env \<Longrightarrow> ins_cmov ins env = []"
  by (simp add: ins_cmov_def predicated_def Let_def)

text \<open>An extension copies the low bytes and clears the others.\<close>

definition extend_flow :: "(nat \<Rightarrow> loc) \<Rightarrow> (nat \<Rightarrow> loc) \<Rightarrow> nat \<Rightarrow> nat \<Rightarrow> flow" where
  "extend_flow D S n m = map (\<lambda>i. (D i, if i < m then [S i] else [])) [0..<n]"

lemmas extend_simps = extend_flow_def upts

lemma movzx_r2r_policy:
  assumes pin: "pin_ok pin" and "INS_OperandReg ins OP_0 = d" "INS_OperandReg ins OP_1 = s"
    and w: "0 < reg_width s" "reg_width s < reg_width d" "reg_width s \<noteq> 4"
  shows "implements (ins_movzx_r2r pin ins)
      (extend_flow (reg_loc d) (reg_loc s) (reg_width d) (reg_width s))"
    and "implements (ins_movsx_r2r pin ins)
      (extend_flow (reg_loc d) (reg_loc s) (reg_width d) (reg_width s))"
proof -
  have pos: "reg_width d > 0" using w by simp
  show "implements (ins_movzx_r2r pin ins)
      (extend_flow (reg_loc d) (reg_loc s) (reg_width d) (reg_width s))"
    using pos w(1) by (elim gpr_width_cases)
      (use assms in \<open>simp_all add: ins_movzx_r2r_def impl_simps pin_ok_def extend_simps\<close>)
  show "implements (ins_movsx_r2r pin ins)
      (extend_flow (reg_loc d) (reg_loc s) (reg_width d) (reg_width s))"
    using pos w(1) by (elim gpr_width_cases)
      (use assms in \<open>simp_all add: ins_movsx_r2r_def impl_simps pin_ok_def extend_simps\<close>)
qed

lemma movzx_m2r_policy:
  assumes "INS_OperandReg ins OP_0 = d" "INS_MemoryReadSize ins = n"
    and "n \<in> {1, 2}" "n < reg_width d"
  shows "implements (ins_movzx_m2r ins env)
      (extend_flow (reg_loc d) (mem_loc (IARG_MEMORYREAD_EA env)) (reg_width d) n)"
    and "implements (ins_movsx_m2r ins env)
      (extend_flow (reg_loc d) (mem_loc (IARG_MEMORYREAD_EA env)) (reg_width d) n)"
proof -
  have pos: "reg_width d > 0" using assms(4) by simp
  show "implements (ins_movzx_m2r ins env)
      (extend_flow (reg_loc d) (mem_loc (IARG_MEMORYREAD_EA env)) (reg_width d) n)"
    using pos by (elim gpr_width_cases)
      (use assms in \<open>auto simp: ins_movzx_m2r_def impl_simps extend_simps\<close>)
  show "implements (ins_movsx_m2r ins env)
      (extend_flow (reg_loc d) (mem_loc (IARG_MEMORYREAD_EA env)) (reg_width d) n)"
    using pos by (elim gpr_width_cases)
      (use assms in \<open>auto simp: ins_movsx_m2r_def impl_simps extend_simps\<close>)
qed

lemma movsxd_policy:
  assumes "INS_OperandReg ins OP_0 = d" "INS_OperandReg ins OP_1 = s" "reg_width d = 8"
  shows "INS_MemoryOperandCount ins = 0 \<Longrightarrow> reg_width s = 4 \<Longrightarrow>
      implements (ins_movsxd ins env) (extend_flow (reg_loc d) (reg_loc s) 8 4)"
    and "INS_MemoryOperandCount ins \<noteq> 0 \<Longrightarrow>
      implements (ins_movsxd ins env)
        (extend_flow (reg_loc d) (mem_loc (IARG_MEMORYREAD_EA env)) 8 4)"
proof -
  have pos: "reg_width d > 0" using assms(3) by simp
  show "implements (ins_movsxd ins env) (extend_flow (reg_loc d) (reg_loc s) 8 4)"
    if "INS_MemoryOperandCount ins = 0" "reg_width s = 4"
  proof -
    have "reg_width s > 0" using that by simp
    with pos show ?thesis
      by (elim gpr_width_cases) (use assms that in \<open>simp_all add: ins_movsxd_def impl_simps extend_simps\<close>)
  qed
  show "implements (ins_movsxd ins env)
      (extend_flow (reg_loc d) (mem_loc (IARG_MEMORYREAD_EA env)) 8 4)"
    if "INS_MemoryOperandCount ins \<noteq> 0"
    using pos by (elim gpr_width_cases)
      (use assms that in \<open>simp_all add: ins_movsxd_def impl_simps extend_simps\<close>)
qed

lemma performs_extend:
  assumes "implements cs (extend_flow D S n m)" "distinct_locs D n"
  shows "performs cs tc (map D [0..<n])
      (map (\<lambda>i. if i < m then tag_of tc (S i) else cleared_val) [0..<n])"
proof (rule performs_map [where S = "\<lambda>i. if i < m then [S i] else []"])
  fix i j
  assume "i < n" "j < n" "norm_loc (D i) = norm_loc (D j)"
  with assms(2) have "i = j" unfolding distinct_locs_def by blast
  then show "(if i < m then tag_of tc (S i) else cleared_val) =
      (if j < m then tag_of tc (S j) else cleared_val)" by simp
qed (use assms(1) in \<open>simp_all add: extend_flow_def\<close>)

subsection \<open>Stack\<close>

lemma push_reg_policy:
  assumes "INS_OperandIsReg ins OP_0" "INS_OperandReg ins OP_0 = s" "reg_width s > 1"
  shows "implements (ins_push ins env)
      (copy_flow (mem_loc (IARG_MEMORYWRITE_EA env)) (reg_loc s) (reg_width s))"
proof -
  have "reg_width s > 0" using assms(3) by simp
  then show ?thesis
    by (elim gpr_width_cases) (use assms in \<open>simp_all add: ins_push_def impl_simps\<close>)
qed

lemma pop_reg_policy:
  assumes "INS_OperandIsReg ins OP_0" "INS_OperandReg ins OP_0 = d" "reg_width d > 1"
  shows "implements (ins_pop ins env)
      (copy_flow (reg_loc d) (mem_loc (IARG_MEMORYREAD_EA env)) (reg_width d))"
proof -
  have "reg_width d > 0" using assms(3) by simp
  then show ?thesis
    by (elim gpr_width_cases) (use assms in \<open>simp_all add: ins_pop_def impl_simps\<close>)
qed

lemma push_pop_mem_policy:
  assumes "\<not> INS_OperandIsReg ins OP_0" "INS_OperandIsMemory ins OP_0"
    and "INS_MemoryWriteSize ins \<in> {2, 4, 8}"
  shows "implements (ins_push ins env)
      (copy_flow (mem_loc (IARG_MEMORYWRITE_EA env)) (mem_loc (IARG_MEMORYREAD_EA env))
        (INS_MemoryWriteSize ins))"
    and "implements (ins_pop ins env)
      (copy_flow (mem_loc (IARG_MEMORYWRITE_EA env)) (mem_loc (IARG_MEMORYREAD_EA env))
        (INS_MemoryWriteSize ins))"
  using assms by (auto simp: ins_push_def ins_pop_def impl_simps)

subsection \<open>Exchanges\<close>

text \<open>
  Both operands of an exchange are written: the first with the tags of \<open>S\<close>, the second with
  the first one's.
\<close>

definition exchanges ::
  "call list \<Rightarrow> (nat \<Rightarrow> loc) \<Rightarrow> (nat \<Rightarrow> loc list) \<Rightarrow> (nat \<Rightarrow> loc) \<Rightarrow> nat \<Rightarrow> bool" where
  "exchanges cs D S E n \<longleftrightarrow>
     (\<exists>c. cs = [c] \<and> call_ok c \<and> fst ` set (call_flow c) = D ` {..<n} \<union> E ` {..<n} \<and>
        (\<forall>(l, srcs)\<in>set (call_flow c).
           \<exists>i<n. l = D i \<and> set srcs = set (S i) \<or> l = E i \<and> set srcs = {D i}))"

lemma performs_exchange:
  assumes ex: "exchanges cs D S E n"
    and dist: "distinct_locs D n" "distinct_locs E n"
    and cross: "\<And>i j. i < n \<Longrightarrow> j < n \<Longrightarrow> norm_loc (D i) = norm_loc (E j) \<Longrightarrow>
      combine_all (map (tag_of tc) (S i)) = tag_of tc (D j)"
  shows "performs cs tc (map D [0..<n] @ map E [0..<n])
      (map (\<lambda>i. combine_all (map (tag_of tc) (S i))) [0..<n] @ map (\<lambda>i. tag_of tc (D i)) [0..<n])"
proof -
  obtain c where c: "cs = [c]" "call_ok c" "fst ` set (call_flow c) = D ` {..<n} \<union> E ` {..<n}"
    and srcs: "\<forall>(l, srcs)\<in>set (call_flow c).
      \<exists>i<n. l = D i \<and> set srcs = set (S i) \<or> l = E i \<and> set srcs = {D i}"
    using ex unfolding exchanges_def by (elim exE conjE)
  have src: "\<exists>i<n. l = D i \<and> set srcs = set (S i) \<or> l = E i \<and> set srcs = {D i}"
    if "(l, srcs) \<in> set (call_flow c)" for l srcs
    using bspec [OF srcs that] by simp
  have inj: "i = j" if "i < n" "j < n"
      "norm_loc (D i) = norm_loc (D j) \<or> norm_loc (E i) = norm_loc (E j)" for i j
    using that dist(1) [unfolded distinct_locs_def, rule_format, OF that(1,2)]
      dist(2) [unfolded distinct_locs_def, rule_format, OF that(1,2)] by (elim disjE)
  have "assigns tc (map D [0..<n] @ map E [0..<n])
      (map (\<lambda>i. combine_all (map (tag_of tc) (S i))) [0..<n] @ map (\<lambda>i. tag_of tc (D i)) [0..<n])
      (apply_flow (call_flow c) tc)"
  proof (rule apply_flow_assigns)
    fix l srcs k
    assume lk: "(l, srcs) \<in> set (call_flow c)" "k < length (map D [0..<n] @ map E [0..<n])"
      "norm_loc ((map D [0..<n] @ map E [0..<n]) ! k) = norm_loc l"
    from src [OF lk(1)] obtain i where i: "i < n"
      "l = D i \<and> set srcs = set (S i) \<or> l = E i \<and> set srcs = {D i}" by blast
    have S: "l = D i \<and> combine_all (map (tag_of tc) srcs) = combine_all (map (tag_of tc) (S i)) \<or>
        l = E i \<and> combine_all (map (tag_of tc) srcs) = tag_of tc (D i)"
      using i(2) combine_all_set [of srcs "S i" "tag_of tc"]
        combine_all_set [of srcs "[D i]" "tag_of tc"] by (elim disjE) simp_all
    show "combine_all (map (tag_of tc) srcs) =
        (map (\<lambda>i. combine_all (map (tag_of tc) (S i))) [0..<n] @ map (\<lambda>i. tag_of tc (D i)) [0..<n]) ! k"
    proof (cases "k < n")
      case True
      then have l: "norm_loc (D k) = norm_loc l" using lk(3) by (simp add: nth_append)
      have "combine_all (map (tag_of tc) srcs) = combine_all (map (tag_of tc) (S k))"
        using S l inj [OF True i(1)] cross [OF True i(1)] by metis
      with True show ?thesis by (simp add: nth_append)
    next
      case False
      then have k: "k - n < n" using lk(2) by simp
      with False have l: "norm_loc (E (k - n)) = norm_loc l" using lk(3) by (simp add: nth_append)
      have "combine_all (map (tag_of tc) srcs) = tag_of tc (D (k - n))"
        using S l inj [OF k i(1)] cross [OF i(1) k] by metis
      with False k show ?thesis by (simp add: nth_append)
    qed
  qed (use c(3) in \<open>simp_all add: atLeast0LessThan\<close>)
  with c show ?thesis
    by (simp add: performs_def exec_calls_Cons exec_call_flow)
qed

lemma exchanges_flow:
  assumes "\<exists>c. cs = [c] \<and> call_ok c \<and>
      (call_flow c = map (\<lambda>i. (E i, [D i])) [0..<n] @ map (\<lambda>i. (D i, S i)) [0..<n] \<or>
       call_flow c = map (\<lambda>i. (D i, S i)) [0..<n] @ map (\<lambda>i. (E i, [D i])) [0..<n] \<or>
       call_flow c = map (\<lambda>i. (E i, [D i])) [0..<n] @ map (\<lambda>i. (D i, rev (S i))) [0..<n])"
  shows "exchanges cs D S E n"
proof -
  from assms obtain c where c: "cs = [c]" "call_ok c"
    and F: "call_flow c = map (\<lambda>i. (E i, [D i])) [0..<n] @ map (\<lambda>i. (D i, S i)) [0..<n] \<or>
       call_flow c = map (\<lambda>i. (D i, S i)) [0..<n] @ map (\<lambda>i. (E i, [D i])) [0..<n] \<or>
       call_flow c = map (\<lambda>i. (E i, [D i])) [0..<n] @ map (\<lambda>i. (D i, rev (S i))) [0..<n]"
    by blast
  from F have "fst ` set (call_flow c) = D ` {..<n} \<union> E ` {..<n}"
    by (elim disjE) (simp_all add: image_Un image_image atLeast0LessThan Un_commute)
  moreover from F have "\<forall>(l, srcs)\<in>set (call_flow c).
      \<exists>i<n. l = D i \<and> set srcs = set (S i) \<or> l = E i \<and> set srcs = {D i}"
    by (elim disjE) auto
  ultimately show ?thesis
    unfolding exchanges_def using c by blast
qed

lemmas exch_simps = mem_loc_def copy_rr_def copy_mr_def copy_rm_def merge_rr_def

lemma xchg_r2r_policy:
  assumes pin: "pin_ok pin"
    and d: "INS_OperandReg ins OP_0 = d" and s: "INS_OperandReg ins OP_1 = s"
    and w: "reg_width d > 0" "reg_width s = reg_width d"
  shows "exchanges (ins_xchg_r2r pin ins) (reg_loc d) (\<lambda>i. [reg_loc s i]) (reg_loc s) (reg_width d)"
  using w(1) w(1) [folded w(2)]
  by (intro exchanges_flow, elim gpr_width_cases)
    (use pin d s w(2) in \<open>simp_all add: ins_xchg_r2r_def exch_simps pin_ok_def\<close>)

lemma xchg_m2r_policy:
  assumes "pin_ok pin" "reg_width r > 0"
  shows "exchanges (ins_xchg_m2r pin r ea) (reg_loc r) (\<lambda>i. [mem_loc ea i]) (mem_loc ea) (reg_width r)"
  using assms(2)
  by (intro exchanges_flow, elim gpr_width_cases)
    (use assms(1) in \<open>simp_all add: ins_xchg_m2r_def exch_simps pin_ok_def\<close>)

lemma xadd_r2r_policy:
  assumes pin: "pin_ok pin"
    and d: "INS_OperandReg ins OP_0 = d" and s: "INS_OperandReg ins OP_1 = s"
    and w: "reg_width d > 0" "reg_width s = reg_width d"
  shows "exchanges (ins_xadd_r2r pin ins)
      (reg_loc d) (\<lambda>i. [reg_loc d i, reg_loc s i]) (reg_loc s) (reg_width d)"
  using w(1) w(1) [folded w(2)]
  by (intro exchanges_flow, elim gpr_width_cases)
    (use pin d s w(2) in \<open>simp_all add: ins_xadd_r2r_def exch_simps pin_ok_def\<close>)

lemma xadd_r2m_policy:
  assumes "pin_ok pin" "INS_OperandReg ins OP_1 = s" "reg_width s > 0"
  shows "exchanges (ins_xadd_r2m pin ins env) (mem_loc (IARG_MEMORYWRITE_EA env))
      (\<lambda>i. [mem_loc (IARG_MEMORYWRITE_EA env) i, reg_loc s i]) (reg_loc s) (reg_width s)"
  using assms(3)
  by (intro exchanges_flow, elim gpr_width_cases)
    (use assms(1,2) in \<open>simp_all add: ins_xadd_r2m_def exch_simps pin_ok_def\<close>)

text \<open>Two registers of one width are the same bytes or have none in common.\<close>

lemma reg_overlap:
  assumes "reg_width s = reg_width d" "i < reg_width d" "j < reg_width d"
    and "norm_loc (reg_loc d i) = norm_loc (reg_loc s j)"
  shows "i = j" "reg_loc d i = reg_loc s i"
proof -
  have pos: "0 < reg_width d" using assms(2) by simp
  show "i = j"
    using pos pos [folded assms(1)] by (elim gpr_width_cases) (use assms in simp_all)
  with assms(4) show "reg_loc d i = reg_loc s i"
    by (simp add: reg_loc_def)
qed

subsection \<open>Effective addresses\<close>

lemma lea_none_policy:
  assumes "reg_width d > 1"
  shows "implements (ins_lea_none d) (clear_flow (reg_loc d) (reg_width d))"
proof -
  have "reg_width d > 0" using assms by simp
  then show ?thesis
    by (elim gpr_width_cases) (use assms in \<open>simp_all add: ins_lea_none_def impl_simps\<close>)
qed

lemma lea_copy_policy:
  assumes "reg_width d > 1" "reg_width b = reg_width d"
  shows "implements (ins_lea_base d b) (copy_flow (reg_loc d) (reg_loc b) (reg_width d))"
    and "implements (ins_lea_indx d b) (copy_flow (reg_loc d) (reg_loc b) (reg_width d))"
proof -
  have pos: "reg_width d > 0" using assms by simp
  have ip: "b \<noteq> REG_RIP" "b \<noteq> REG_EIP" "b \<noteq> REG_IP"
    using pos unfolding assms(2) [symmetric]
    by (auto simp: reg_width_def REG_is_gr64_def REG_is_gr_def REG_is_gr32_def REG_is_gr16_def
        REG_is_gr8_def)
  show "implements (ins_lea_base d b) (copy_flow (reg_loc d) (reg_loc b) (reg_width d))"
    using pos pos [folded assms(2)] by (elim gpr_width_cases)
      (use assms ip in \<open>simp_all add: ins_lea_base_def impl_simps\<close>)
  show "implements (ins_lea_indx d b) (copy_flow (reg_loc d) (reg_loc b) (reg_width d))"
    using pos pos [folded assms(2)] by (elim gpr_width_cases)
      (use assms in \<open>simp_all add: ins_lea_indx_def impl_simps\<close>)
qed

text \<open>
  With base and index the 64-bit form inserts a second, 16-bit call. The 64-bit names have no
  16-bit index, so that call combines the scratch register with itself.
\<close>

lemma REG16_INDX_gr64: "REG_is_gr64 r \<Longrightarrow> REG16_INDX r = SCRATCH_REG"
  by (auto simp: REG_is_gr64_def REG_is_gr_def REG16_INDX_def)

lemma lea_scratch: "tag_of (apply_flow (call_flow (AluC (Lea_r2r_opw 16 16 16))) tc) l = tag_of tc l"
  by (cases l) (simp_all add: tag_of_apply_flow flow_at_regs set_tag.idem)

lemma assigns_cong:
  "assigns tc ds ts tc' \<Longrightarrow> (\<And>l. tag_of tc'' l = tag_of tc' l) \<Longrightarrow> assigns tc ds ts tc''"
  by (auto simp: assigns_def intro: map_cong)

lemma lea_first_flow:
  "assigns tc (map (Reg d) [0..<n])
     (map (\<lambda>i. tag_combine (tag_of tc (Reg b i)) (tag_of tc (Reg x i))) [0..<n])
     (apply_flow (map (\<lambda>i. (Reg d i, [Reg b i, Reg x i])) [0..<n]) tc)"
  by (rule assigns_map) simp_all

lemma lea_both_policy:
  assumes w: "reg_width d > 1" "reg_width b = reg_width d" "reg_width x = reg_width d"
  shows "performs (ins_lea_both d b x) tc (reg_locs d)
     (map (\<lambda>i. tag_combine (tag_of tc (reg_loc b i)) (tag_of tc (reg_loc x i))) [0..<reg_width d])"
proof -
  have pos: "reg_width d > 0" using w by simp
  have two: "performs [AluC (Lea_r2r_opq r s t), AluC (Lea_r2r_opw 16 16 16)] tc (map (Reg r) [0..<8])
      (map (\<lambda>i. tag_combine (tag_of tc (Reg s i)) (tag_of tc (Reg t i))) [0..<8])"
    if "r < 17" "s < 17" "t < 17" for r s t
    unfolding performs_def
    using assigns_cong [OF lea_first_flow [where n = 8] lea_scratch] that
    by (simp add: exec_calls_Cons exec_call_flow del: upt_rec_numeral exec_call.simps)
  have one: "performs [AluC (Lea_r2r_opl r s t)] tc (map (Reg r) [0..<4])
      (map (\<lambda>i. tag_combine (tag_of tc (Reg s i)) (tag_of tc (Reg t i))) [0..<4])"
      "performs [AluC (Lea_r2r_opw r s t)] tc (map (Reg r) [0..<2])
      (map (\<lambda>i. tag_combine (tag_of tc (Reg s i)) (tag_of tc (Reg t i))) [0..<2])"
    if "r < 17" "s < 17" "t < 17" for r s t
    unfolding performs_def using lea_first_flow [where n = 4] lea_first_flow [where n = 2] that
    by (simp_all add: exec_calls_Cons exec_call_flow del: upt_rec_numeral exec_call.simps)
  show ?thesis
    using pos pos [folded w(2)] pos [folded w(3)]
    by (elim gpr_width_cases)
      (use w two one in \<open>simp_all add: ins_lea_both_def reg_locs_def REG16_INDX_gr64
        del: upt_rec_numeral\<close>)
qed

end
