(* ===== verification/PolicyIns.thy ===== *)
theory PolicyIns
  imports PolicyCases
begin

text \<open>
  The policy per instruction: the operands Pin reports for a two-operand instruction as byte
  locations, which case of the dispatch an opcode selects, and what executing the instruction's
  instrumentation assigns.
\<close>

subsection \<open>The selected case\<close>

lemma ins_calls_eq:
  assumes "0 < INS_Opcode ins" "INS_Opcode ins < XED_ICLASS_LAST"
  shows "ins_calls pin ins env = (case ins_switch pin ins env of Break cs \<Rightarrow> cs | Return cs \<Rightarrow> cs)"
  using assms by (auto simp: ins_calls_def ins_inspect_def split: leave.split)

abbreviation (input) binary_ops :: "nat list" where
  "binary_ops \<equiv> [XED_ICLASS_ADC, XED_ICLASS_ADD, XED_ICLASS_AND, XED_ICLASS_OR, XED_ICLASS_XOR,
     XED_ICLASS_SBB, XED_ICLASS_SUB]"

abbreviation (input) cmov_ops :: "nat list" where
  "cmov_ops \<equiv> [XED_ICLASS_CMOVB, XED_ICLASS_CMOVBE, XED_ICLASS_CMOVL, XED_ICLASS_CMOVLE,
     XED_ICLASS_CMOVNB, XED_ICLASS_CMOVNBE, XED_ICLASS_CMOVNL, XED_ICLASS_CMOVNLE,
     XED_ICLASS_CMOVNO, XED_ICLASS_CMOVNP, XED_ICLASS_CMOVNS, XED_ICLASS_CMOVNZ,
     XED_ICLASS_CMOVO, XED_ICLASS_CMOVP, XED_ICLASS_CMOVS, XED_ICLASS_CMOVZ]"

lemma calls_binary: "INS_Opcode ins \<in> set binary_ops \<Longrightarrow> ins_calls pin ins env = ins_binary pin ins env"
  by (subst ins_calls_eq) (auto simp: ins_switch_def)

lemma calls_cmov: "INS_Opcode ins \<in> set cmov_ops \<Longrightarrow> ins_calls pin ins env = ins_cmov ins env"
  by (subst ins_calls_eq) (auto simp: ins_switch_def)

lemma calls_mov:
  "INS_Opcode ins = XED_ICLASS_MOV \<Longrightarrow>
   ins_calls pin ins env = (case ins_mov pin ins env of Break cs \<Rightarrow> cs | Return cs \<Rightarrow> cs)"
  by (subst ins_calls_eq) (auto simp: ins_switch_def)

lemma calls_cases:
  "INS_Opcode ins = XED_ICLASS_MOVZX \<Longrightarrow> ins_calls pin ins env = ins_movzx pin ins env"
  "INS_Opcode ins = XED_ICLASS_MOVSX \<Longrightarrow> ins_calls pin ins env = ins_movsx pin ins env"
  "INS_Opcode ins = XED_ICLASS_MOVSXD \<Longrightarrow> ins_calls pin ins env = ins_movsxd ins env"
  "INS_Opcode ins = XED_ICLASS_XCHG \<Longrightarrow> ins_calls pin ins env = ins_xchg pin ins env"
  "INS_Opcode ins = XED_ICLASS_XADD \<Longrightarrow> ins_calls pin ins env = ins_xadd pin ins env"
  "INS_Opcode ins = XED_ICLASS_PUSH \<Longrightarrow> ins_calls pin ins env = ins_push ins env"
  "INS_Opcode ins = XED_ICLASS_POP \<Longrightarrow> ins_calls pin ins env = ins_pop ins env"
  "INS_Opcode ins = XED_ICLASS_LEA \<Longrightarrow> ins_calls pin ins env = ins_lea ins"
  "INS_Opcode ins = XED_ICLASS_LEAVE \<Longrightarrow> ins_calls pin ins env = ins_leave ins env"
  "INS_Opcode ins = XED_ICLASS_BSF \<Longrightarrow> ins_calls pin ins env = ins_bitscan ins env"
  "INS_Opcode ins = XED_ICLASS_BSR \<Longrightarrow> ins_calls pin ins env = ins_bitscan ins env"
  "INS_Opcode ins = XED_ICLASS_STOSB \<Longrightarrow> ins_calls pin ins env = ins_stosb ins env"
  "INS_Opcode ins = XED_ICLASS_DIV \<Longrightarrow> ins_calls pin ins env = ins_div_mul pin ins env"
  "INS_Opcode ins = XED_ICLASS_IDIV \<Longrightarrow> ins_calls pin ins env = ins_div_mul pin ins env"
  "INS_Opcode ins = XED_ICLASS_MUL \<Longrightarrow> ins_calls pin ins env = ins_div_mul pin ins env"
  "INS_Opcode ins = XED_ICLASS_IMUL \<Longrightarrow> ins_calls pin ins env = ins_imul pin ins env"
  "INS_Opcode ins = XED_ICLASS_CMPXCHG \<Longrightarrow> ins_calls pin ins env = ins_cmpxchg ins env"
  by (subst ins_calls_eq; simp add: ins_switch_def)+

subsection \<open>Operands\<close>

text \<open>
  The destination and source bytes of a two-operand instruction without an immediate, when
  the register operands are general purpose registers and two registers have one width.
\<close>

definition operands :: "INS \<Rightarrow> ENV \<Rightarrow> (loc list \<times> loc list) option" where
  "operands ins env =
     (let d = INS_OperandReg ins OP_0; s = INS_OperandReg ins OP_1 in
      if INS_OperandIsImmediate ins OP_1 then None
      else if INS_MemoryOperandCount ins = 0 then
        (if 0 < reg_width d \<and> reg_width s = reg_width d
         then Some (reg_locs d, reg_locs s) else None)
      else if INS_OperandIsMemory ins OP_1 then
        (if 0 < reg_width d \<and> \<not> INS_OperandIsReg ins OP_1
         then Some (reg_locs d, mem_locs (IARG_MEMORYREAD_EA env) (reg_width d)) else None)
      else
        (if 0 < reg_width s
         then Some (mem_locs (IARG_MEMORYWRITE_EA env) (reg_width s), reg_locs s) else None))"

lemma operands_cases:
  assumes "operands ins env = Some (ds, ss)"
  obtains
    d s where "INS_OperandReg ins OP_0 = d" "INS_OperandReg ins OP_1 = s"
      "\<not> INS_OperandIsImmediate ins OP_1" "INS_MemoryOperandCount ins = 0"
      "0 < reg_width d" "reg_width s = reg_width d" "ds = reg_locs d" "ss = reg_locs s"
  | d where "INS_OperandReg ins OP_0 = d" "\<not> INS_OperandIsImmediate ins OP_1"
      "INS_MemoryOperandCount ins \<noteq> 0" "INS_OperandIsMemory ins OP_1"
      "\<not> INS_OperandIsReg ins OP_1" "0 < reg_width d"
      "ds = reg_locs d" "ss = mem_locs (IARG_MEMORYREAD_EA env) (reg_width d)"
  | s where "INS_OperandReg ins OP_1 = s" "\<not> INS_OperandIsImmediate ins OP_1"
      "INS_MemoryOperandCount ins \<noteq> 0" "\<not> INS_OperandIsMemory ins OP_1" "0 < reg_width s"
      "ds = mem_locs (IARG_MEMORYWRITE_EA env) (reg_width s)" "ss = reg_locs s"
  using assms unfolding operands_def Let_def by (auto split: if_splits)

lemma seg_width: "0 < reg_width r \<Longrightarrow> \<not> REG_is_seg r"
  by (erule gpr_width_cases)
    (auto simp: REG_is_seg_def REG_is_gr64_def REG_is_gr_def REG_is_gr32_def REG_is_gr16_def
      REG_is_gr8_def)

lemma reg_width_le: "reg_width r \<le> 8"
  by (simp add: reg_width_def)

lemma operands_length: "operands ins env = Some (ds, ss) \<Longrightarrow> length ds = length ss"
  by (erule operands_cases) auto

lemma performs_locs:
  "performs cs tc (map D [0..<n]) (map (\<lambda>i. tag_of tc (S i)) [0..<n]) \<Longrightarrow>
   performs cs tc (map D [0..<n]) (map (tag_of tc) (map S [0..<n]))"
  by (simp add: comp_def)

lemma mov_performs:
  assumes "pin_ok pin" "operands ins env = Some (ds, ss)"
  shows "\<exists>cs. ins_mov pin ins env = Break cs \<and> performs cs tc ds (map (tag_of tc) ss)"
  using assms(2)
proof (cases rule: operands_cases)
  case (1 d s)
  then show ?thesis
    using performs_copy [OF mov_r2r_policy [OF assms(1)], of ins d s tc] seg_width [of s]
    by (simp add: ins_mov_def reg_locs_def comp_def)
next
  case (2 d)
  then show ?thesis
    using performs_copy [OF mov_m2r_policy [OF assms(1)], of ins d env tc]
    by (simp add: ins_mov_def reg_locs_def mem_locs_def comp_def)
next
  case (3 s)
  then show ?thesis
    using performs_copy [OF mov_r2m_policy [OF assms(1)], of ins s env tc] seg_width [of s]
      reg_width_le [of s]
    by (simp add: ins_mov_def reg_locs_def mem_locs_def comp_def)
qed

definition merged :: "'u::linorder taint_state \<Rightarrow> loc list \<Rightarrow> loc list \<Rightarrow> 'u tag_t list" where
  "merged tc ds ss = map2 (\<lambda>d s. tag_combine (tag_of tc d) (tag_of tc s)) ds ss"

lemma merged_map:
  "merged tc (map D [0..<n]) (map S [0..<n]) =
     map (\<lambda>i. tag_combine (tag_of tc (D i)) (tag_of tc (S i))) [0..<n]"
  by (simp add: merged_def zip_map1 zip_map2 zip_same_conv_map comp_def)

lemma binary_performs:
  assumes "pin_ok pin" "operands ins env = Some (ds, ss)"
    and "INS_MemoryOperandCount ins = 0 \<Longrightarrow>
      \<not> clear_idiom ins (INS_OperandReg ins OP_0) (INS_OperandReg ins OP_1)"
  shows "performs (ins_binary pin ins env) tc ds (merged tc ds ss)"
  using assms(2)
proof (cases rule: operands_cases)
  case (1 d s)
  with assms(3) have "\<not> clear_idiom ins d s" by simp
  with 1 show ?thesis
    using performs_merge [OF binary_r2r_policy [OF assms(1)], of ins d s tc]
    by (simp add: ins_binary_def reg_locs_def merged_map)
next
  case (2 d)
  then show ?thesis
    using performs_merge [OF binary_m2r_policy [OF assms(1)], of ins d env tc]
    by (simp add: ins_binary_def reg_locs_def mem_locs_def merged_map)
next
  case (3 s)
  then show ?thesis
    using performs_merge [OF binary_r2m_policy [OF assms(1)], of ins s env tc] reg_width_le [of s]
    by (simp add: ins_binary_def reg_locs_def mem_locs_def merged_map)
qed

lemma clear_performs:
  assumes "pin_ok pin" "clear_idiom ins (INS_OperandReg ins OP_0) (INS_OperandReg ins OP_1)"
    and "\<not> INS_OperandIsImmediate ins OP_1" "INS_MemoryOperandCount ins = 0"
    and "0 < reg_width (INS_OperandReg ins OP_0)"
  shows "performs (ins_binary pin ins env) tc (reg_locs (INS_OperandReg ins OP_0))
      (replicate (reg_width (INS_OperandReg ins OP_0)) cleared_val)"
proof -
  have same: "INS_OperandReg ins OP_1 = INS_OperandReg ins OP_0"
    using assms(2) by (simp add: clear_idiom_def)
  show ?thesis
    using performs_clear [OF binary_clear_policy [OF assms(1)],
        of ins "INS_OperandReg ins OP_0" tc] assms(2-5)
    unfolding ins_binary_def Let_def same
    by (simp add: reg_locs_def map_replicate_const)
qed

subsection \<open>Exchanges\<close>

lemma reg_exchange:
  assumes "exchanges cs (reg_loc d) S (reg_loc s) (reg_width d)" "reg_width s = reg_width d"
    and "\<And>i. i < reg_width d \<Longrightarrow> reg_loc d i = reg_loc s i \<Longrightarrow>
      combine_all (map (tag_of tc) (S i)) = tag_of tc (reg_loc d i)"
  shows "performs cs tc (reg_locs d @ reg_locs s)
      (map (\<lambda>i. combine_all (map (tag_of tc) (S i))) [0..<reg_width d] @
       map (tag_of tc) (reg_locs d))"
proof -
  have "performs cs tc (map (reg_loc d) [0..<reg_width d] @ map (reg_loc s) [0..<reg_width d])
      (map (\<lambda>i. combine_all (map (tag_of tc) (S i))) [0..<reg_width d] @
       map (\<lambda>i. tag_of tc (reg_loc d i)) [0..<reg_width d])"
  proof (rule performs_exchange [OF assms(1)])
    fix i j
    assume ij: "i < reg_width d" "j < reg_width d" "norm_loc (reg_loc d i) = norm_loc (reg_loc s j)"
    with reg_overlap [OF assms(2) ij] assms(3) [of i]
    show "combine_all (map (tag_of tc) (S i)) = tag_of tc (reg_loc d j)" by simp
  qed simp_all
  then show ?thesis by (simp add: reg_locs_def assms(2) comp_def)
qed

lemma performs_swap:
  "performs cs tc (ds @ ss) (ts @ us) \<Longrightarrow> length ds = length ts \<Longrightarrow>
   performs cs tc (ss @ ds) (us @ ts)"
  by (auto simp: performs_def assigns_def Un_commute)

lemma xchg_performs:
  assumes "pin_ok pin" "operands ins env = Some (ds, ss)"
    and "IARG_MEMORYREAD_EA env = IARG_MEMORYWRITE_EA env"
  shows "performs (ins_xchg pin ins env) tc (ds @ ss) (map (tag_of tc) (ss @ ds))"
  using assms(2)
proof (cases rule: operands_cases)
  case (1 d s)
  then have "performs (ins_xchg pin ins env) tc (reg_locs d @ reg_locs s)
      (map (\<lambda>i. combine_all (map (tag_of tc) [reg_loc s i])) [0..<reg_width d] @
       map (tag_of tc) (reg_locs d))"
    by (intro reg_exchange) (simp_all add: ins_xchg_def xchg_r2r_policy [OF assms(1)])
  with 1 show ?thesis by (simp add: reg_locs_def comp_def)
next
  case (2 d)
  then show ?thesis
    using performs_exchange [OF xchg_m2r_policy [OF assms(1)], of d "IARG_MEMORYREAD_EA env" tc]
      reg_mem_differ reg_width_le [of d]
    by (simp add: ins_xchg_def reg_locs_def mem_locs_def comp_def)
next
  case (3 s)
  then show ?thesis
    using performs_swap [OF performs_exchange [OF xchg_m2r_policy [OF assms(1)],
        of s "IARG_MEMORYWRITE_EA env" tc]] reg_mem_differ reg_width_le [of s]
    by (simp add: ins_xchg_def reg_locs_def mem_locs_def comp_def)
qed

lemma xadd_performs:
  assumes "pin_ok pin" "operands ins env = Some (ds, ss)" "\<not> INS_OperandIsMemory ins OP_1"
  shows "performs (ins_xadd pin ins env) tc (ds @ ss) (merged tc ds ss @ map (tag_of tc) ds)"
  using assms(2)
proof (cases rule: operands_cases)
  case (1 d s)
  then have "performs (ins_xadd pin ins env) tc (reg_locs d @ reg_locs s)
      (map (\<lambda>i. combine_all (map (tag_of tc) [reg_loc d i, reg_loc s i])) [0..<reg_width d] @
       map (tag_of tc) (reg_locs d))"
    by (intro reg_exchange) (simp_all add: ins_xadd_def xadd_r2r_policy [OF assms(1)] set_tag.idem)
  with 1 show ?thesis by (simp add: reg_locs_def merged_map)
next
  case (2 d)
  with assms(3) show ?thesis by simp
next
  case (3 s)
  then show ?thesis
    using performs_exchange [OF xadd_r2m_policy [OF assms(1)], of ins s env tc]
      reg_mem_differ reg_width_le [of s]
    by (simp add: ins_xadd_def reg_locs_def mem_locs_def comp_def merged_map)
qed

subsection \<open>Other instructions\<close>

lemma cmov_performs:
  assumes "operands ins env = Some (ds, ss)" "1 < length ds"
    and "INS_MemoryOperandCount ins = 0 \<or> INS_OperandIsMemory ins OP_1"
  shows "performs (ins_cmov ins env) tc ds
      (map (tag_of tc) (if IARG_EXECUTING env then ss else ds))"
proof (cases "IARG_EXECUTING env")
  case False
  then show ?thesis
    by (simp add: cmov_not_executing performs_def assigns_def)
next
  case True
  from assms(1) show ?thesis
  proof (cases rule: operands_cases)
    case (1 d s)
    with True assms(2) show ?thesis
      using performs_copy [OF cmov_r2r_policy, of d s ins env tc]
      by (simp add: reg_locs_def comp_def)
  next
    case (2 d)
    with True assms(2) show ?thesis
      using performs_copy [OF cmov_m2r_policy, of d ins env tc]
      by (simp add: reg_locs_def mem_locs_def comp_def)
  next
    case (3 s)
    with assms(3) show ?thesis by simp
  qed
qed

lemma performs_nil: "performs [] tc ds (map (tag_of tc) ds)"
  by (simp add: performs_def assigns_def)

lemma assigns_compose:
  assumes "assigns tc ds ts tc1" "assigns tc1 es us tc2"
    and "norm_loc ` set ds \<inter> norm_loc ` set es = {}"
  shows "assigns tc (ds @ es) (ts @ us) tc2"
proof -
  have keep: "tag_of tc2 l = tag_of tc1 l" if "l \<in> set ds" for l
  proof -
    have "norm_loc l \<notin> norm_loc ` set es" using assms(3) that by blast
    with assms(2) show ?thesis unfolding assigns_def by blast
  qed
  then have "map (tag_of tc2) ds = map (tag_of tc1) ds" by (rule map_cong [OF refl])
  with assms(1,2) show ?thesis
    by (simp add: assigns_def image_Un)
qed

lemma reg_mem_disjoint:
  "norm_loc ` set (mem_locs a n) \<inter> norm_loc ` set (reg_locs r) = {}"
  "norm_loc ` set (reg_locs r) \<inter> norm_loc ` set (mem_locs a n) = {}"
  by (auto simp: mem_locs_def reg_locs_def reg_loc_def mem_loc_def)

lemma push_performs:
  assumes "INS_OperandIsReg ins OP_0" "INS_OperandReg ins OP_0 = s" "1 < reg_width s"
  shows "performs (ins_push ins env) tc (mem_locs (IARG_MEMORYWRITE_EA env) (reg_width s))
      (map (tag_of tc) (reg_locs s))"
  using performs_copy [OF push_reg_policy [OF assms], of env tc] reg_width_le [of s]
  by (simp add: mem_locs_def reg_locs_def comp_def)

lemma pop_performs:
  assumes "INS_OperandIsReg ins OP_0" "INS_OperandReg ins OP_0 = d" "1 < reg_width d"
  shows "performs (ins_pop ins env) tc (reg_locs d)
      (map (tag_of tc) (mem_locs (IARG_MEMORYREAD_EA env) (reg_width d)))"
  using performs_copy [OF pop_reg_policy [OF assms], of env tc]
  by (simp add: mem_locs_def reg_locs_def comp_def)

lemma lea_performs:
  assumes "INS_OperandReg ins OP_0 = d" "1 < reg_width d"
    and "INS_MemoryBaseReg ins = REG_INVALID \<or> reg_width (INS_MemoryBaseReg ins) = reg_width d"
    and "INS_MemoryIndexReg ins = REG_INVALID \<or> reg_width (INS_MemoryIndexReg ins) = reg_width d"
  shows "performs (ins_lea ins) tc (reg_locs d)
      (map (\<lambda>i. combine_all (map (\<lambda>r. tag_of tc (reg_loc r i))
        (filter (\<lambda>r. r \<noteq> REG_INVALID) [INS_MemoryBaseReg ins, INS_MemoryIndexReg ins])))
        [0..<reg_width d])"
proof -
  let ?b = "INS_MemoryBaseReg ins" and ?x = "INS_MemoryIndexReg ins"
  consider "?b = 0" "?x = 0" | "?b \<noteq> 0" "?x = 0" | "?b = 0" "?x \<noteq> 0" | "?b \<noteq> 0" "?x \<noteq> 0" by blast
  then show ?thesis
  proof cases
    case 1
    then show ?thesis
      using performs_clear [OF lea_none_policy [OF assms(2)], of tc] assms(1)
      by (simp add: ins_lea_def reg_locs_def)
  next
    case 2
    then show ?thesis
      using performs_copy [OF lea_copy_policy(1), of d ?b tc] assms
      by (simp add: ins_lea_def reg_locs_def)
  next
    case 3
    then show ?thesis
      using performs_copy [OF lea_copy_policy(2), of d ?x tc] assms
      by (simp add: ins_lea_def reg_locs_def)
  next
    case 4
    then show ?thesis
      using lea_both_policy [of d ?b ?x tc] assms
      by (simp add: ins_lea_def reg_locs_def)
  qed
qed

lemma extend_performs:
  assumes "pin_ok pin" "d = INS_OperandReg ins OP_0" "s = INS_OperandReg ins OP_1"
    and "INS_MemoryOperandCount ins = 0" "0 < reg_width s" "reg_width s < reg_width d" "reg_width s \<noteq> 4"
  shows "performs (ins_movzx pin ins env) tc (reg_locs d)
      (map (tag_of tc) (reg_locs s) @ replicate (reg_width d - reg_width s) cleared_val)"
    and "performs (ins_movsx pin ins env) tc (reg_locs d)
      (map (tag_of tc) (reg_locs s) @ replicate (reg_width d - reg_width s) cleared_val)"
proof -
  have split: "map (\<lambda>i. if i < reg_width s then tag_of tc (reg_loc s i) else cleared_val)
      [0..<reg_width d] =
      map (tag_of tc) (reg_locs s) @ replicate (reg_width d - reg_width s) cleared_val"
    using assms(6) by (intro nth_equalityI) (auto simp: reg_locs_def nth_append)
  show "performs (ins_movzx pin ins env) tc (reg_locs d)
      (map (tag_of tc) (reg_locs s) @ replicate (reg_width d - reg_width s) cleared_val)"
    using performs_extend [OF movzx_r2r_policy(1), of pin ins d s tc] assms
    unfolding split by (simp add: ins_movzx_def reg_locs_def)
  show "performs (ins_movsx pin ins env) tc (reg_locs d)
      (map (tag_of tc) (reg_locs s) @ replicate (reg_width d - reg_width s) cleared_val)"
    using performs_extend [OF movzx_r2r_policy(2), of pin ins d s tc] assms
    unfolding split by (simp add: ins_movsx_def reg_locs_def)
qed

lemma imul_performs:
  assumes "\<not> INS_OperandIsImplicit ins OP_1" "operands ins env = Some (ds, ss)" "1 < length ds"
    and "INS_MemoryOperandCount ins = 0 \<or> INS_OperandIsMemory ins OP_1"
  shows "performs (ins_imul pin ins env) tc ds (merged tc ds ss)"
  using assms(2)
proof (cases rule: operands_cases)
  case (1 d s)
  with assms(1,3) show ?thesis
    using performs_merge [OF imul_r2r_policy, of d s ins env tc]
    by (simp add: ins_imul_def reg_locs_def merged_map)
next
  case (2 d)
  with assms(1,3) show ?thesis
    using performs_merge [OF imul_m2r_policy, of d ins env tc]
    by (simp add: ins_imul_def reg_locs_def mem_locs_def merged_map)
next
  case (3 s)
  with assms(4) show ?thesis by simp
qed

lemma div_mem_performs:
  assumes "INS_OperandIsMemory ins OP_0" "INS_MemoryWriteSize ins = 0"
  shows "performs (ins_div_mul pin ins env) tc [Reg GPR_EAX 0, Reg GPR_EAX 1]
      (map (\<lambda>i. tag_combine (tag_of tc (Reg GPR_EAX i)) (tag_of tc (Mem (IARG_MEMORYREAD_EA env)))) [0, 1])"
proof -
  let ?S = "\<lambda>i. [Reg GPR_EAX i, Mem (IARG_MEMORYREAD_EA env)]"
  have "implements (ins_div_mul pin ins env) (map (\<lambda>i. (Reg GPR_EAX i, ?S i)) [0..<2])"
    using assms by (simp add: ins_div_mul_def implements_def)
  then have "performs (ins_div_mul pin ins env) tc (map (Reg GPR_EAX) [0..<2])
      (map (\<lambda>i. combine_all (map (tag_of tc) (?S i))) [0..<2])"
    by (rule performs_map) simp_all
  then show ?thesis by (simp add: upts)
qed

lemma bitscan_performs:
  assumes "\<not> INS_IsMemoryRead ins"
  shows "\<exists>tc'. exec_calls (ins_bitscan ins env) tc = Some tc' \<and> tag_of tc' = tag_of tc"
proof -
  have self: "tag_of (apply_flow (copy_rr r r n) tc) = tag_of tc" for r n
  proof
    fix l
    show "tag_of (apply_flow (copy_rr r r n) tc) l = tag_of tc l"
      by (cases l) (simp_all add: tag_of_apply_flow copy_rr_def flow_at_regs)
  qed
  from assms show ?thesis
    by (simp add: ins_bitscan_def Let_def exec_calls_Cons exec_call_flow self del: exec_call.simps)
qed

lemma range_block:
  "(\<exists>i<n. (c + of_nat i :: 32 word) = b) \<longleftrightarrow> b \<in> (\<lambda>k. c + of_nat k) ` {..<n}"
  by auto

lemma down_block:
  "(\<lambda>k. c - of_nat n + 1 + of_nat k) ` {..<n} = (\<lambda>k. c + - of_nat k :: 32 word) ` {..<n}"
proof (intro equalityI subsetI)
  fix x :: "32 word"
  assume "x \<in> (\<lambda>k. c - of_nat n + 1 + of_nat k) ` {..<n}"
  then obtain k where "k < n" "x = c - of_nat n + 1 + of_nat k" by auto
  then show "x \<in> (\<lambda>k. c + - of_nat k) ` {..<n}"
    by (intro image_eqI [of _ _ "n - 1 - k"]) (auto simp: of_nat_diff algebra_simps)
next
  fix x :: "32 word"
  assume "x \<in> (\<lambda>k. c + - of_nat k) ` {..<n}"
  then obtain k where "k < n" "x = c + - of_nat k" by auto
  then show "x \<in> (\<lambda>k. c - of_nat n + 1 + of_nat k) ` {..<n}"
    by (intro image_eqI [of _ _ "n - 1 - k"]) (auto simp: of_nat_diff algebra_simps)
qed

text \<open>A block of bytes that all get one tag, of any length.\<close>

lemma flow_at_block:
  assumes "F = map (\<lambda>i. (D i, [l])) [0..<n]"
  shows "flow_at F x = (if norm_loc x \<in> (\<lambda>i. norm_loc (D i)) ` {..<n} then [l] else [x])"
proof -
  have dom: "norm_loc ` fst ` set F = (\<lambda>i. norm_loc (D i)) ` {..<n}"
    by (simp add: assms image_image atLeast0LessThan)
  from flow_at_cases [of F x] show ?thesis
  proof (elim disjE exE conjE)
    fix l' srcs
    assume *: "(l', srcs) \<in> set F" "norm_loc l' = norm_loc x" "flow_at F x = srcs"
    then have "srcs = [l]" by (auto simp: assms)
    moreover have "norm_loc x \<in> norm_loc ` fst ` set F"
      using *(1) unfolding *(2) [symmetric] by (metis fst_conv image_eqI)
    ultimately show ?thesis using * dom by simp
  next
    assume "norm_loc x \<notin> norm_loc ` fst ` set F" "flow_at F x = [x]"
    then show ?thesis by (simp only: dom if_False)
  qed
qed

lemma block_tags:
  "tag_of (apply_flow (map (\<lambda>i. (Mem (a + of_nat i), [l])) [0..<n]) tc) (Mem b) =
     (if (ucast b :: 32 word) \<in> (\<lambda>k. ucast a + of_nat k) ` {..<n} then tag_of tc l else tag_of tc (Mem b))"
  "tag_of (apply_flow (map (\<lambda>i. (Mem (a + of_nat i), [l])) [0..<n]) tc) (Reg r i) = tag_of tc (Reg r i)"
proof -
  have "norm_loc (Mem b) \<in> (\<lambda>i. norm_loc (Mem (a + of_nat i))) ` {..<n} \<longleftrightarrow>
      (ucast b :: 32 word) \<in> (\<lambda>k. ucast a + of_nat k) ` {..<n}"
    unfolding image_iff norm_Mem_eq by simp
  then show "tag_of (apply_flow (map (\<lambda>i. (Mem (a + of_nat i), [l])) [0..<n]) tc) (Mem b) =
     (if (ucast b :: 32 word) \<in> (\<lambda>k. ucast a + of_nat k) ` {..<n} then tag_of tc l else tag_of tc (Mem b))"
    unfolding tag_of_apply_flow flow_at_block [OF refl] by simp
  have "norm_loc (Reg r i) \<notin> (\<lambda>i. norm_loc (Mem (a + of_nat i))) ` {..<n}"
    by auto
  then show "tag_of (apply_flow (map (\<lambda>i. (Mem (a + of_nat i), [l])) [0..<n]) tc) (Reg r i) =
     tag_of tc (Reg r i)"
    unfolding tag_of_apply_flow flow_at_block [OF refl] by simp
qed

lemma stosb_tags:
  assumes "INS_RepPrefix ins" "IARG_EXECUTING env"
    and "IARG_REG_VALUE env (INS_RepCountRegister ins) = count"
    and "IARG_REG_VALUE env (INS_OperandReg ins OP_4) = flags"
  shows "\<exists>tc'. exec_calls (ins_stosb ins env) tc = Some tc' \<and>
    (\<forall>a. tag_of tc' (Mem a) =
       (if IARG_FIRST_REP_ITERATION env \<and> (ucast a :: 32 word) \<in>
          (\<lambda>k. ucast (IARG_MEMORYWRITE_EA env) + (if EFLAGS_DF flags = 0 then of_nat k else - of_nat k)) `
            {..<unat count}
        then tag_of tc (Reg GPR_EAX 0) else tag_of tc (Mem a))) \<and>
    (\<forall>r i. tag_of tc' (Reg r i) = tag_of tc (Reg r i))"
proof (cases "IARG_FIRST_REP_ITERATION env")
  case False
  with assms show ?thesis
    by (simp add: ins_stosb_def if_first_rep_def predicated_def rep_predicate_def)
next
  case True
  let ?d = "IARG_MEMORYWRITE_EA env"
  have "exec_calls (ins_stosb ins env) tc =
      Some (apply_flow (call_flow (XferC (R2m_xfer_opbn ?d count flags))) tc)"
    using assms True
    by (simp add: ins_stosb_def if_first_rep_def predicated_def rep_predicate_def exec_calls_Cons
        exec_call_flow del: exec_call.simps)
  moreover have "(ucast (?d - count + 1) :: 32 word) = ucast ?d - of_nat (unat count) + 1"
    using ucast_add_32 [of "?d - count + 1" "count - 1"]
      ucast_add_32 [of "count - 1" 1] by (simp add: algebra_simps)
  ultimately show ?thesis
    using True down_block [of "ucast ?d" "unat count"]
    by (auto simp: block_tags)
qed

lemma exec_ins_performs:
  "performs (ins_calls pin ins env) tc ds ts \<Longrightarrow>
   \<exists>tc'. exec_ins pin (ins, env) tc = Some tc' \<and> assigns tc ds ts tc'"
  by (simp add: performs_def exec_ins_def)

subsection \<open>Sample values\<close>

text \<open>A Pin that answers as documented, a register-register instruction, and a small state.\<close>

definition pin_doc :: PIN where
  "pin_doc = \<lparr>REG_is_Upper8 = upper8, REG_is_Lower8 = (\<lambda>r. REG_is_gr8 r \<and> \<not> upper8 r),
     REG_FullRegName = (\<lambda>r. r)\<rparr>"

definition sample_ins :: "nat \<Rightarrow> REG \<Rightarrow> REG \<Rightarrow> INS" where
  "sample_ins opcode d s =
     \<lparr>INS_Opcode = opcode, INS_OperandIsImmediate = (\<lambda>_. False), INS_OperandIsMemory = (\<lambda>_. False),
      INS_OperandIsReg = (\<lambda>i. i < 2), INS_OperandIsImplicit = (\<lambda>_. False),
      INS_OperandReg = (\<lambda>i. if i = 0 then d else if i = 1 then s else REG_INVALID),
      INS_OperandWidth = (\<lambda>_. 8 * reg_width d), INS_MemoryOperandCount = 0,
      INS_IsMemoryRead = False, INS_IsMemoryWrite = False, INS_MemoryReadSize = 0,
      INS_MemoryWriteSize = 0, INS_MemoryBaseReg = REG_INVALID, INS_MemoryIndexReg = REG_INVALID,
      INS_RepPrefix = False, INS_RepCountRegister = REG_INVALID, INS_RegRs = [s], INS_RegWs = [d]\<rparr>"

definition sample_env :: ENV where
  "sample_env = \<lparr>IARG_MEMORYREAD_EA = 4096, IARG_MEMORYWRITE_EA = 4096, IARG_REG_VALUE = (\<lambda>_. 0),
     IARG_FIRST_REP_ITERATION = False, IARG_EXECUTING = True, mem_value = (\<lambda>_. 0)\<rparr>"

text \<open>Every register byte is tagged with one unit, memory with none.\<close>

definition sample_state :: "nat taint_state" where
  "sample_state = \<lparr>gpr = (\<lambda>_ _. Std_set [3]), tag_dir = tag_dir_init\<rparr>"

lemma pin_doc_ok: "pin_ok pin_doc"
  by (simp add: pin_ok_def pin_doc_def)

lemmas sample_simps =
  pin_doc_ok sample_ins_def sample_env_def operands_def reg_locs_def reg_width_def reg_loc_def
  reg_index_def upper8_def REG_is_gr64_def REG_is_gr_def REG_is_gr32_def REG_is_gr16_def
  REG_is_gr8_def REG64_INDX_def REG32_INDX_def REG16_INDX_def REG8_INDX_def clear_idiom_def upts

end
