(* ===== verification/CxxString.thy ===== *)
theory CxxString
  imports Prelude
begin

text \<open>
  The parts of the C++ standard library that the tool interface uses on strings: searching and
  splitting, and the conversions between numbers and text (\<^verbatim>\<open>std::to_string\<close>, \<^verbatim>\<open>strtoul\<close>,
  \<^verbatim>\<open>stoi\<close>, \<^verbatim>\<open>stoul\<close>, \<^verbatim>\<open>stoll\<close>). An exception is a value of the error type, and so is the
  undefined behaviour of reading past the end of a vector. The lemmas show that reading a
  printed number returns it.
\<close>

datatype cxx_error = Invalid_argument | Out_of_range | Undefined_behaviour | Divergence

type_synonym 'a result = "cxx_error + 'a"
type_synonym byte = "8 word"

definition and_then :: "'a result \<Rightarrow> ('a \<Rightarrow> 'b result) \<Rightarrow> 'b result" where
  "and_then r f = (case r of Inl e \<Rightarrow> Inl e | Inr x \<Rightarrow> f x)"

lemma and_then_simps [simp]:
  "and_then (Inl e) f = Inl e" "and_then (Inr x) f = f x"
  by (simp_all add: and_then_def)

definition uncaught :: "'a result \<times> 's \<Rightarrow> ('a \<times> 's) result" where
  "uncaught rs = (case rs of (Inl e, _) \<Rightarrow> Inl e | (Inr x, s) \<Rightarrow> Inr (x, s))"

lemma uncaught_simps [simp]: "uncaught (Inl e, s) = Inl e" "uncaught (Inr x, s) = Inr (x, s)"
  by (simp_all add: uncaught_def)

lemma uncaught_Inr: "uncaught rs = Inr (x, s) \<longleftrightarrow> rs = (Inr x, s)"
  by (auto simp: uncaught_def split: prod.splits sum.splits)

lemma and_then_Inr:
  "and_then r f = Inr y \<longleftrightarrow> (\<exists>x. r = Inr x \<and> f x = Inr y)"
  by (cases r) simp_all

subsection \<open>Searching and splitting\<close>

definition find_char :: "char \<Rightarrow> string \<Rightarrow> nat option" where
  "find_char c s = (if c \<in> set s then Some (length (takeWhile (\<lambda>d. d \<noteq> c) s)) else None)"

primrec contains :: "string \<Rightarrow> string \<Rightarrow> bool" where
    "contains p [] \<longleftrightarrow> p = []"
  | "contains p (c # s) \<longleftrightarrow> take (length p) (c # s) = p \<or> contains p s"

definition isspace :: "char \<Rightarrow> bool" where
  "isspace c \<longleftrightarrow> of_char c \<in> {9, 10, 11, 12, 13, 32 :: nat}"

function tokens :: "string \<Rightarrow> string list" where
  "tokens s =
     (let s' = dropWhile isspace s in
      if s' = [] then []
      else takeWhile (\<lambda>c. \<not> isspace c) s' # tokens (dropWhile (\<lambda>c. \<not> isspace c) s'))"
  by pat_completeness auto
termination
proof (relation "measure length")
  fix s s' :: string
  assume s': "s' = dropWhile isspace s" "s' \<noteq> []"
  then have "\<not> isspace (hd s')" by (simp add: hd_dropWhile)
  with s'(2) have "length (dropWhile (\<lambda>c. \<not> isspace c) s') < length s'"
    by (cases s') (simp_all add: length_dropWhile_le less_Suc_eq_le)
  also have "\<dots> \<le> length s" using s'(1) by (simp add: length_dropWhile_le)
  finally show "(dropWhile (\<lambda>c. \<not> isspace c) s', s) \<in> measure length" by simp
qed simp

declare tokens.simps [simp del]

lemma find_char_append [simp]:
  "c \<notin> set s \<Longrightarrow> find_char c (s @ c # t) = Some (length s)"
  by (induction s) (auto simp: find_char_def)

lemma find_char_absent [simp]: "c \<notin> set s \<Longrightarrow> find_char c s = None"
  by (simp add: find_char_def)

lemma find_char_None [simp]: "find_char c s = None \<longleftrightarrow> c \<notin> set s"
  by (simp add: find_char_def)

lemma find_char_Some:
  assumes "find_char c s = Some n"
  shows "s = take n s @ c # drop (Suc n) s" "c \<notin> set (take n s)" "n < length s"
proof -
  have c: "c \<in> set s" and n: "n = length (takeWhile (\<lambda>d. d \<noteq> c) s)"
    using assms by (auto simp: find_char_def split: if_splits)
  obtain t where t: "dropWhile (\<lambda>d. d \<noteq> c) s = c # t"
    using c by (cases "dropWhile (\<lambda>d. d \<noteq> c) s") (auto simp: dropWhile_eq_Nil_conv dropWhile_eq_Cons_conv)
  have s: "s = takeWhile (\<lambda>d. d \<noteq> c) s @ c # t"
    using takeWhile_dropWhile_id [of "\<lambda>d. d \<noteq> c" s] t by simp
  have tk: "take n s = takeWhile (\<lambda>d. d \<noteq> c) s"
    by (subst s) (simp add: n)
  have "drop (Suc n) s = t"
    by (subst s) (simp add: n)
  with tk s show "s = take n s @ c # drop (Suc n) s" by simp
  from tk show "c \<notin> set (take n s)" by (auto dest: set_takeWhileD)
  from s n show "n < length s" by (metis add_less_same_cancel1 length_append less_add_same_cancel1 list.size(4) zero_less_Suc add_Suc_right)
qed

lemma tokens_Nil [simp]: "tokens [] = []"
  by (simp add: tokens.simps)

lemma tokens_word:
  assumes "w \<noteq> []" "list_all (\<lambda>c. \<not> isspace c) w"
  shows "tokens w = [w]" "tokens (w @ CHR '' '' # s) = w # tokens s"
proof -
  have sp: "isspace (CHR '' '')" by (simp add: isspace_def)
  have w: "dropWhile isspace (w @ r) = w @ r" for r
    using assms by (cases w) simp_all
  have tk: "takeWhile (\<lambda>c. \<not> isspace c) w = w" "dropWhile (\<lambda>c. \<not> isspace c) w = []"
    using assms(2) by (simp_all add: list_all_iff)
  show "tokens w = [w]"
    using w [of "[]"] assms(1) by (simp add: tokens.simps [of w] tk)
  have "takeWhile (\<lambda>c. \<not> isspace c) (w @ CHR '' '' # s) = w"
    "dropWhile (\<lambda>c. \<not> isspace c) (w @ CHR '' '' # s) = CHR '' '' # s"
    using assms(2) sp by (simp_all add: list_all_iff takeWhile_append dropWhile_append)
  moreover have "tokens (CHR '' '' # s) = tokens s"
    by (simp add: tokens.simps [of s] tokens.simps [of "_ # _"] sp)
  ultimately show "tokens (w @ CHR '' '' # s) = w # tokens s"
    using w [of "CHR '' '' # s"] by (simp add: tokens.simps [of "w @ _"])
qed

subsection \<open>Numbers as text\<close>

definition digit_char :: "nat \<Rightarrow> char" where
  "digit_char d = (if d < 10 then char_of (48 + d) else char_of (87 + d))"

definition digit_value :: "char \<Rightarrow> nat option" where
  "digit_value c =
     (let n = of_char c in
      if 48 \<le> n \<and> n \<le> 57 then Some (n - 48)
      else if 97 \<le> n \<and> n \<le> 122 then Some (n - 87)
      else if 65 \<le> n \<and> n \<le> 90 then Some (n - 55)
      else None)"

definition is_digit :: "nat \<Rightarrow> char \<Rightarrow> bool" where
  "is_digit b c = (case digit_value c of None \<Rightarrow> False | Some d \<Rightarrow> d < b)"

definition digits_value :: "nat \<Rightarrow> string \<Rightarrow> nat" where
  "digits_value b ds =
     foldl (\<lambda>n c. n * b + (case digit_value c of None \<Rightarrow> 0 | Some d \<Rightarrow> d)) 0 ds"

fun show_nat :: "nat \<Rightarrow> nat \<Rightarrow> string" where
  "show_nat b n =
     (if n < b \<or> b < 2 then [digit_char n] else show_nat b (n div b) @ [digit_char (n mod b)])"

declare show_nat.simps [simp del]

definition has_hex_prefix :: "string \<Rightarrow> bool" where
  "has_hex_prefix s =
     (case s of c0 # c1 # c2 # _ \<Rightarrow>
        c0 = CHR ''0'' \<and> (c1 = CHR ''x'' \<or> c1 = CHR ''X'') \<and> is_digit 16 c2
      | _ \<Rightarrow> False)"

definition number_base :: "nat \<Rightarrow> string \<Rightarrow> nat \<times> string" where
  "number_base base s =
     (if (base = 0 \<or> base = 16) \<and> has_hex_prefix s then (16, drop 2 s)
      else if base = 0 then (if take 1 s = ''0'' then 8 else 10, s)
      else (base, s))"

definition strto_any :: "nat \<Rightarrow> string \<Rightarrow> (bool \<times> nat) option" where
  "strto_any base s =
     (let s1 = dropWhile isspace s;
          neg = (take 1 s1 = ''-'');
          s2 = (if take 1 s1 = ''-'' \<or> take 1 s1 = ''+'' then drop 1 s1 else s1);
          (b, s3) = number_base base s2;
          ds = takeWhile (is_digit b) s3
      in if ds = [] then None else Some (neg, digits_value b ds))"

definition ulong :: "bool \<Rightarrow> nat \<Rightarrow> 64 word" where
  "ulong neg n = (if neg then - of_nat n else of_nat n)"

definition strtoul :: "nat \<Rightarrow> string \<Rightarrow> 64 word" where
  "strtoul base s =
     (case strto_any base s of None \<Rightarrow> 0
      | Some (neg, n) \<Rightarrow> if n < 2 ^ 64 then ulong neg n else - 1)"

definition stoul :: "nat \<Rightarrow> string \<Rightarrow> 64 word result" where
  "stoul base s =
     (case strto_any base s of None \<Rightarrow> Inl Invalid_argument
      | Some (neg, n) \<Rightarrow> if n < 2 ^ 64 then Inr (ulong neg n) else Inl Out_of_range)"

definition sto_signed :: "nat \<Rightarrow> nat \<Rightarrow> string \<Rightarrow> int result" where
  "sto_signed bits base s =
     (case strto_any base s of None \<Rightarrow> Inl Invalid_argument
      | Some (neg, n) \<Rightarrow>
          let i = (if neg then - int n else int n) in
          if - (2 ^ (bits - 1)) \<le> i \<and> i < 2 ^ (bits - 1) then Inr i else Inl Out_of_range)"

definition stoi :: "nat \<Rightarrow> string \<Rightarrow> int result" where
  "stoi = sto_signed 32"

definition stoll :: "nat \<Rightarrow> string \<Rightarrow> int result" where
  "stoll = sto_signed 64"

definition to_string :: "byte \<Rightarrow> string" where
  "to_string b = show_nat 10 (unat b)"

subsection \<open>Reading a printed number\<close>

lemma digit_value_char [simp]: "d < 16 \<Longrightarrow> digit_value (digit_char d) = Some d"
  by (simp add: digit_char_def digit_value_def Let_def of_char_of)

lemma is_digit_char [simp]: "d < b \<Longrightarrow> b \<le> 16 \<Longrightarrow> is_digit b (digit_char d)"
  by (simp add: is_digit_def)

lemma digit_char_0 [simp]: "d < 16 \<Longrightarrow> digit_char d = CHR ''0'' \<longleftrightarrow> d = 0"
proof
  assume "d < 16" "digit_char d = CHR ''0''"
  then have "digit_value (CHR ''0'') = Some d" by (metis digit_value_char)
  then show "d = 0" by (simp add: digit_value_def Let_def)
next
  assume "d = 0"
  moreover have "char_of (48 :: nat) = CHR ''0''" by code_simp
  ultimately show "digit_char d = CHR ''0''" by (simp add: digit_char_def)
qed

lemma show_nat_digits:
  "2 \<le> b \<Longrightarrow> b \<le> 16 \<Longrightarrow> list_all (is_digit b) (show_nat b n)"
  by (induction b n rule: show_nat.induct) (subst show_nat.simps, simp)

lemma show_nat_value:
  "2 \<le> b \<Longrightarrow> b \<le> 16 \<Longrightarrow> digits_value b (show_nat b n) = n"
proof (induction b n rule: show_nat.induct)
  case (1 b n)
  show ?case
  proof (cases "n < b")
    case True
    with 1 show ?thesis by (subst show_nat.simps) (simp add: digits_value_def)
  next
    case False
    with 1 have "digits_value b (show_nat b (n div b)) = n div b" by simp
    moreover have "n mod b < 16" using 1 by (intro less_le_trans [OF mod_less_divisor]) simp_all
    ultimately show ?thesis
      using False 1(2) by (subst show_nat.simps) (simp add: digits_value_def)
  qed
qed

lemma show_nat_ne [simp]: "show_nat b n \<noteq> []"
  by (subst show_nat.simps) simp

lemma show_nat_hd:
  "2 \<le> b \<Longrightarrow> b \<le> 16 \<Longrightarrow> hd (show_nat b n) = CHR ''0'' \<Longrightarrow> show_nat b n = ''0''"
proof (induction b n rule: show_nat.induct)
  case (1 b n)
  show ?case
  proof (cases "n < b")
    case True
    then have "show_nat b n = [digit_char n]" by (simp add: show_nat.simps [of b n])
    with 1(4) show ?thesis by simp
  next
    case False
    then have "hd (show_nat b (n div b)) = CHR ''0''"
      using 1(2,4) by (simp add: show_nat.simps [of b n])
    then have "show_nat b (n div b) = ''0''" using 1 False by simp
    then have "n div b = 0"
      using show_nat_value [of b "n div b"] 1(2,3) by (simp add: digits_value_def digit_value_def)
    with False 1(2) show ?thesis by (simp add: div_eq_0_iff)
  qed
qed

lemma is_digit_plain:
  assumes "is_digit b c"
  shows "\<not> isspace c" "c \<noteq> CHR ''-''" "c \<noteq> CHR ''+''" "c \<noteq> CHR ''.''" "c \<noteq> CHR ''|''" "c \<noteq> CHR '' ''"
  using assms by (auto simp: is_digit_def digit_value_def isspace_def Let_def split: if_splits)

lemma show_nat_plain:
  assumes "2 \<le> b" "b \<le> 16"
  shows "list_all (\<lambda>c. \<not> isspace c) (show_nat b n)"
    "CHR ''|'' \<notin> set (show_nat b n)" "CHR ''.'' \<notin> set (show_nat b n)" "CHR '' '' \<notin> set (show_nat b n)"
proof -
  have d: "is_digit b c" if "c \<in> set (show_nat b n)" for c
    using show_nat_digits [OF assms, of n] that by (simp add: list_all_iff)
  show "list_all (\<lambda>c. \<not> isspace c) (show_nat b n)"
    using is_digit_plain(1) [OF d] by (simp add: list_all_iff)
  show "CHR ''|'' \<notin> set (show_nat b n)" using d is_digit_plain(5) by metis
  show "CHR ''.'' \<notin> set (show_nat b n)" using d is_digit_plain(4) by metis
  show "CHR '' '' \<notin> set (show_nat b n)" using d is_digit_plain(6) by metis
qed

lemma strto_show:
  assumes "(base, b) \<in> {(0, 10), (10, 10), (16, 16)}"
  shows "strto_any base (show_nat b n) = Some (False, n)"
proof -
  let ?s = "show_nat b n"
  have b: "2 \<le> b" "b \<le> 16" using assms by auto
  obtain c cs where s: "?s = c # cs" by (cases ?s) simp_all
  have dig: "is_digit b c" "list_all (is_digit b) ?s" using show_nat_digits [OF b, of n] s by auto
  have zero: "c = CHR ''0'' \<Longrightarrow> cs = []" using show_nat_hd [OF b, of n] s by simp
  then have "\<not> has_hex_prefix ?s" by (auto simp: s has_hex_prefix_def split: list.splits)
  then have nb: "number_base base ?s = (if base = 0 \<and> c = CHR ''0'' then 8 else b, ?s)"
    using assms by (auto simp: number_base_def s)
  have "strto_any base ?s = Some (False, digits_value (if base = 0 \<and> c = CHR ''0'' then 8 else b) ?s)"
  proof (cases "base = 0 \<and> c = CHR ''0''")
    case True
    with zero have "?s = ''0''" by (simp add: s)
    with nb True show ?thesis
      by (simp add: strto_any_def isspace_def is_digit_def digit_value_def)
  next
    case False
    have tk: "takeWhile (is_digit b) ?s = ?s" using dig(2) by (simp add: list_all_iff)
    have nb: "number_base base ?s = (b, ?s)" using nb False by simp
    have "dropWhile isspace ?s = ?s" "take 1 ?s \<noteq> ''-''" "take 1 ?s \<noteq> ''+''"
      using is_digit_plain [OF dig(1)] by (simp_all add: s)
    then show ?thesis
      by (simp add: strto_any_def Let_def nb tk if_not_P [OF False])
  qed
  moreover have "digits_value 8 ?s = n" if "c = CHR ''0''"
  proof -
    have "?s = ''0''" using zero that by (simp add: s)
    then show ?thesis
      using show_nat_value [OF b, of n] by (simp add: digits_value_def digit_value_def)
  qed
  ultimately show ?thesis using show_nat_value [OF b, of n] by (cases "base = 0 \<and> c = CHR ''0''") simp_all
qed

lemma read_show:
  assumes "(base, b) \<in> {(0, 10), (10, 10), (16, 16)}"
  shows "n < 2 ^ 64 \<Longrightarrow> strtoul base (show_nat b n) = of_nat n"
    "n < 2 ^ 64 \<Longrightarrow> stoul base (show_nat b n) = Inr (of_nat n)"
    "n < 2 ^ 31 \<Longrightarrow> stoi base (show_nat b n) = Inr (int n)"
    "n < 2 ^ 63 \<Longrightarrow> stoll base (show_nat b n) = Inr (int n)"
  by (simp_all add: strtoul_def stoul_def stoi_def stoll_def sto_signed_def strto_show [OF assms] ulong_def)

lemma to_string_read [simp]:
  "strtoul 0 (to_string b) = ucast b" "stoi 10 (to_string b) = Inr (uint b)"
proof -
  have "unat b < 256" using unsigned_less [of b, where 'a = nat] by simp
  then show "strtoul 0 (to_string b) = ucast b" "stoi 10 (to_string b) = Inr (uint b)"
    using read_show(1) [of 0 10 "unat b"] read_show(3) [of 10 10 "unat b"]
    by (simp_all add: to_string_def)
qed

lemma to_string_plain [simp]:
  "to_string b \<noteq> []" "list_all (\<lambda>c. \<not> isspace c) (to_string b)" "CHR ''.'' \<notin> set (to_string b)"
  "CHR ''|'' \<notin> set (to_string b)" "CHR '' '' \<notin> set (to_string b)"
  using show_nat_plain [of 10 "unat b"] by (simp_all add: to_string_def)

end
