(* ===== verification/Uuid.thy ===== *)
theory Uuid
  imports CxxString
begin

text \<open>
  The 128-bit identifiers of files, network flows and events: \<^verbatim>\<open>CDM_UUID_Type\<close> and the
  functions of \<^verbatim>\<open>libdft_api64.cc\<close>, \<^verbatim>\<open>dta_api64.cc\<close> and \<^verbatim>\<open>TheiaDB.cpp\<close> that build, print
  and read them, and the parsing of the description of the current descriptor that the kernel
  module returns. The static buffer of \<^verbatim>\<open>get_ip_array\<close> is passed along.
\<close>

type_synonym CDM_UUID_Type = "byte list"

definition zero_uuid :: CDM_UUID_Type where
  "zero_uuid = replicate 16 0"

definition uuid_eq :: "CDM_UUID_Type \<Rightarrow> CDM_UUID_Type \<Rightarrow> bool" where
  "uuid_eq lhs rhs = list_all (\<lambda>i. lhs ! i = rhs ! i) [0..<16]"

subsection \<open>Text\<close>

function parse_inode :: "string \<Rightarrow> string list" where
  "parse_inode substring =
     (case find_char (CHR ''|'') substring of
        None \<Rightarrow> [substring]
      | Some pos \<Rightarrow>
          (let item = take pos substring; rest = drop (pos + 1) substring in
           case find_char (CHR ''|'') rest of
             None \<Rightarrow> item # rest # parse_inode rest
           | Some pos' \<Rightarrow> item # take pos' rest # parse_inode (drop (pos' + 1) rest)))"
  by pat_completeness auto
termination
  by (relation "measure length") (auto dest!: find_char_Some(3))

declare parse_inode.simps [simp del]

definition uuid_to_string :: "CDM_UUID_Type \<Rightarrow> string" where
  "uuid_to_string uuid =
     concat (map (\<lambda>i. to_string (uuid ! i) @ '' '') [0..<15]) @ to_string (uuid ! 15)"

definition get_uuid_array_from_value :: "64 word \<Rightarrow> CDM_UUID_Type" where
  "get_uuid_array_from_value v =
     fold (\<lambda>i uuid_array. uuid_array[i := ucast (drop_bit (i * 8) v AND 0xff)]) [0..<8] zero_uuid"

definition string_to_uuid :: "string \<Rightarrow> CDM_UUID_Type" where
  "string_to_uuid uuid_string =
     fold (\<lambda>(index, s) uuid_array. uuid_array[index := ucast (strtoul 0 s)])
       (enumerate 0 (take 16 (tokens uuid_string))) zero_uuid"

function get_cdm_uuid_loop :: "CDM_UUID_Type \<Rightarrow> nat \<Rightarrow> string \<Rightarrow> CDM_UUID_Type result" where
  "get_cdm_uuid_loop uuid index substring =
     (case stoi 10 (case find_char (CHR '' '') substring of
                      None \<Rightarrow> substring | Some pos \<Rightarrow> take pos substring) of
        Inl e \<Rightarrow> Inl e
      | Inr v \<Rightarrow>
          if 16 \<le> index then Inl Undefined_behaviour
          else
            (case find_char (CHR '' '') substring of
               None \<Rightarrow> Inr (uuid[index := word_of_int v])
             | Some pos \<Rightarrow>
                 get_cdm_uuid_loop (uuid[index := word_of_int v]) (index + 1)
                   (drop (pos + 1) substring)))"
  by pat_completeness auto
termination
  by (relation "measure (\<lambda>(u, i, s). length s)") (auto dest!: find_char_Some(3))

declare get_cdm_uuid_loop.simps [simp del]

definition get_cdm_uuid :: "CDM_UUID_Type \<Rightarrow> string \<Rightarrow> CDM_UUID_Type result" where
  "get_cdm_uuid uninitialised uuid_str = get_cdm_uuid_loop uninitialised 0 uuid_str"

subsection \<open>Building identifiers\<close>

definition set_uuid_type :: "byte \<Rightarrow> byte \<Rightarrow> byte" where
  "set_uuid_type elem type = (elem AND 0x0f) + type"

definition put_bytes :: "nat \<Rightarrow> nat \<Rightarrow> (nat \<Rightarrow> byte) \<Rightarrow> CDM_UUID_Type \<Rightarrow> CDM_UUID_Type" where
  "put_bytes pos n f uuid = fold (\<lambda>i u. u[pos + i := f i]) [0..<n] uuid"

function get_ip_loop :: "byte list \<Rightarrow> nat \<Rightarrow> string \<Rightarrow> unit result \<times> byte list" where
  "get_ip_loop ips ctr substr_ip =
     (case find_char (CHR ''.'') substr_ip of
        None \<Rightarrow> (Inr (), ips)
      | Some pos \<Rightarrow>
          if ctr < 3 then
            (case stoi 10 (take pos substr_ip) of
               Inl e \<Rightarrow> (Inl e, ips)
             | Inr v \<Rightarrow>
                 (let ips = ips[ctr := word_of_int v]; substr_ip = drop (pos + 1) substr_ip;
                      ctr = ctr + 1
                  in if ctr = 3 then
                       (case stoi 10 substr_ip of
                          Inl e \<Rightarrow> (Inl e, ips)
                        | Inr v \<Rightarrow> get_ip_loop (ips[3 := word_of_int v]) ctr substr_ip)
                     else get_ip_loop ips ctr substr_ip))
          else (Inr (), ips))"
  by pat_completeness auto
termination
  by (relation "measure (\<lambda>(u, i, s). length s)") (auto dest!: find_char_Some(3))

declare get_ip_loop.simps [simp del]

definition get_ip_array :: "byte list \<Rightarrow> string \<Rightarrow> unit result \<times> byte list" where
  "get_ip_array ips ip = get_ip_loop ips 0 ip"

text \<open>
  In \<^verbatim>\<open>get_event_uuid\<close> the 32-bit sequence number is shifted by up to 56 bits. A shift by the
  width or more is undefined in C++: its value is the parameter \<^verbatim>\<open>ub\<close>.
\<close>

definition shr32 :: "(32 word \<Rightarrow> nat \<Rightarrow> 32 word) \<Rightarrow> 32 word \<Rightarrow> nat \<Rightarrow> 32 word" where
  "shr32 ub w n = (if n < 32 then drop_bit n w else ub w n)"

definition get_event_uuid ::
  "(32 word \<Rightarrow> nat \<Rightarrow> 32 word) \<Rightarrow> 64 word \<Rightarrow> 32 word \<Rightarrow> CDM_UUID_Type" where
  "get_event_uuid ub timestamp seq =
     (let uuid = put_bytes 0 8 (\<lambda>i. ucast (signed_drop_bit (i * 8) timestamp AND 0xff)) zero_uuid;
          uuid = put_bytes 8 8 (\<lambda>i. ucast (shr32 ub seq (i * 8) AND 0xff)) uuid
      in uuid[15 := set_uuid_type (uuid ! 15) 0x10])"

definition get_file_uuid :: "32 word \<Rightarrow> 64 word \<Rightarrow> 32 word \<Rightarrow> CDM_UUID_Type" where
  "get_file_uuid dev ino crtime =
     (let uuid = put_bytes 0 4 (\<lambda>i. ucast (drop_bit (i * 8) dev AND 0xff)) zero_uuid;
          uuid = put_bytes 4 8 (\<lambda>i. ucast (drop_bit (i * 8) ino AND 0xff)) uuid
      in put_bytes 12 4 (\<lambda>i. ucast (drop_bit (i * 8) crtime AND 0xff)) uuid)"

definition put_ip ::
  "byte list \<Rightarrow> string \<Rightarrow> nat \<Rightarrow> CDM_UUID_Type \<Rightarrow> CDM_UUID_Type result \<times> byte list" where
  "put_ip ips ip pos uuid =
     (case get_ip_array ips ip of
        (Inl e, ips) \<Rightarrow> (Inl e, ips)
      | (Inr _, ips) \<Rightarrow> (Inr (put_bytes pos 4 (\<lambda>i. ips ! i) uuid), ips))"

definition get_netflow_uuid ::
  "byte list \<Rightarrow> string \<Rightarrow> 16 word \<Rightarrow> string \<Rightarrow> 16 word \<Rightarrow> CDM_UUID_Type result \<times> byte list"
  where
  "get_netflow_uuid ips lip lport rip rport =
     (case
        (if lip = ''NA'' then (Inr (put_bytes 0 4 (\<lambda>i. [0xff, 0xff, 0xff, 0xff] ! i) zero_uuid), ips)
         else if lip = ''LOCAL''
         then (Inr (put_bytes 0 4 (\<lambda>i. [0xfe, 0xff, 0xff, 0xff] ! i) zero_uuid), ips)
         else if contains ''X11'' lip
         then (Inr (put_bytes 0 4 (\<lambda>i. [0xfd, 0xff, 0xff, 0xff] ! i) zero_uuid), ips)
         else put_ip ips lip 0 zero_uuid) of
        (Inl e, ips) \<Rightarrow> (Inl e, ips)
      | (Inr uuid, ips) \<Rightarrow>
          (case
             (let uuid = put_bytes 4 2 (\<lambda>i. ucast (drop_bit (i * 8) lport AND 0xff)) uuid in
              if rip = ''NA'' then (Inr (put_bytes 6 4 (\<lambda>i. [0xff, 0xff, 0xff, 0xff] ! i) uuid), ips)
              else if rip = ''LOCAL''
              then (Inr (put_bytes 6 4 (\<lambda>i. [0xfe, 0xff, 0xff, 0xff] ! i) uuid), ips)
              else put_ip ips rip 6 uuid) of
             (Inl e, ips) \<Rightarrow> (Inl e, ips)
           | (Inr uuid, ips) \<Rightarrow>
               (Inr (put_bytes 10 2 (\<lambda>i. ucast (drop_bit (i * 8) rport AND 0xff)) uuid), ips)))"

subsection \<open>The current descriptor\<close>

abbreviation (input) INODE_TYPE :: byte where "INODE_TYPE \<equiv> 0x00"
abbreviation (input) SOCKET_TYPE :: byte where "SOCKET_TYPE \<equiv> 0x01"
abbreviation (input) ANON_PAGE_TYPE :: byte where "ANON_PAGE_TYPE \<equiv> 0x03"

definition get_ino_type :: "string \<Rightarrow> byte" where
  "get_ino_type type =
     (if type = ''I'' then INODE_TYPE
      else if type = ''S'' then SOCKET_TYPE
      else if type = ''anon_page'' then ANON_PAGE_TYPE
      else 0xff)"

definition iter_next :: "string list \<Rightarrow> (string \<times> string list) result" where
  "iter_next it = (case it of [] \<Rightarrow> Inl Undefined_behaviour | s # it' \<Rightarrow> Inr (s, it'))"

text \<open>
  The pointer arguments \<^verbatim>\<open>prip\<close>, \<^verbatim>\<open>prport\<close>, \<^verbatim>\<open>plip\<close> and \<^verbatim>\<open>plport\<close> of
  \<^verbatim>\<open>get_current_uuid\<close> are either all null or all point to variables of the caller: the
  endpoints are the values of these variables, or \<^const>\<open>None\<close>.
\<close>

record endpoints =
  rip :: string
  rport :: "16 word"
  lip :: string
  lport :: "16 word"

definition get_current_uuid ::
  "byte list \<Rightarrow> string \<Rightarrow> endpoints option \<Rightarrow>
   (CDM_UUID_Type \<times> byte \<times> endpoints option \<times> byte list) result" where
  "get_current_uuid ips inode ep =
     and_then (iter_next (parse_inode inode)) (\<lambda>(s, it).
     let type = get_ino_type s in
     if type = INODE_TYPE then
       and_then (iter_next it) (\<lambda>(s, it).
       and_then (stoul 16 s) (\<lambda>dev.
       and_then (iter_next it) (\<lambda>(s, it).
       and_then (stoul 16 s) (\<lambda>ino.
       and_then (iter_next it) (\<lambda>(s, it).
       and_then (stoul 16 s) (\<lambda>crtime.
       Inr (get_file_uuid (ucast dev) ino (ucast crtime), type, ep, ips)))))))
     else if type = SOCKET_TYPE then
       and_then (iter_next it) (\<lambda>(rip, it).
       and_then (iter_next it) (\<lambda>(s, it).
       and_then (stoi 0 s) (\<lambda>rport.
       and_then (iter_next it) (\<lambda>(lip, it).
       and_then (iter_next it) (\<lambda>(s, it).
       and_then (stoi 0 s) (\<lambda>lport.
       and_then (uncaught (get_netflow_uuid ips lip (word_of_int lport) rip (word_of_int rport)))
         (\<lambda>(uuid, ips). Inr (uuid, type,
         map_option (\<lambda>_. \<lparr>rip = rip, rport = word_of_int rport, lip = lip, lport = word_of_int lport\<rparr>) ep,
         ips))))))))
     else Inr (zero_uuid, type, ep, ips))"

definition int64_ok :: "int \<Rightarrow> bool" where
  "int64_ok i \<longleftrightarrow> - (2 ^ 63) \<le> i \<and> i < 2 ^ 63"

definition event_timestamp :: "int \<Rightarrow> int \<Rightarrow> 64 word result" where
  "event_timestamp sec nsec =
     (if int64_ok (sec * 1000000000) \<and> int64_ok (sec * 1000000000 + nsec)
      then Inr (word_of_int (sec * 1000000000 + nsec)) else Inl Undefined_behaviour)"

definition read_event_uuid ::
  "(32 word \<Rightarrow> nat \<Rightarrow> 32 word) \<Rightarrow> string list \<Rightarrow> CDM_UUID_Type result" where
  "read_event_uuid ub it =
     and_then (iter_next it) (\<lambda>(cred, it).
     and_then (iter_next it) (\<lambda>(s, it).
     and_then (stoll 0 s) (\<lambda>sec.
     and_then (iter_next it) (\<lambda>(s, it).
     and_then (stoll 0 s) (\<lambda>nsec.
     and_then (event_timestamp sec nsec) (\<lambda>timestamp.
     and_then (iter_next it) (\<lambda>(s, it).
     and_then (stoi 0 s) (\<lambda>seq.
     Inr (get_event_uuid ub timestamp (word_of_int seq))))))))))"

definition get_current_uuid_event ::
  "(32 word \<Rightarrow> nat \<Rightarrow> 32 word) \<Rightarrow> byte list \<Rightarrow> string \<Rightarrow> CDM_UUID_Type \<Rightarrow> endpoints option \<Rightarrow>
   (CDM_UUID_Type \<times> CDM_UUID_Type \<times> endpoints option \<times> byte list) result" where
  "get_current_uuid_event ub ips inode event_uuid ep =
     and_then (iter_next (parse_inode inode)) (\<lambda>(s, it).
     let type = get_ino_type s in
     if type = INODE_TYPE then
       and_then (iter_next it) (\<lambda>(s, it).
       and_then (stoi 16 s) (\<lambda>dev.
       and_then (iter_next it) (\<lambda>(s, it).
       and_then (stoul 16 s) (\<lambda>ino.
       and_then (iter_next it) (\<lambda>(s, it).
       and_then (stoi 0 s) (\<lambda>crtime.
       and_then (read_event_uuid ub it) (\<lambda>event_uuid.
       Inr (get_file_uuid (word_of_int dev) ino (word_of_int crtime), event_uuid, ep, ips))))))))
     else if type = SOCKET_TYPE then
       and_then (iter_next it) (\<lambda>(rip, it).
       and_then (iter_next it) (\<lambda>(s, it).
       and_then (stoi 0 s) (\<lambda>rport.
       and_then (iter_next it) (\<lambda>(lip, it).
       and_then (iter_next it) (\<lambda>(s, it).
       and_then (stoi 0 s) (\<lambda>lport.
       and_then (read_event_uuid ub it) (\<lambda>event_uuid.
       and_then (uncaught (get_netflow_uuid ips lip (word_of_int lport) rip (word_of_int rport)))
         (\<lambda>(uuid, ips). Inr (uuid, event_uuid,
         map_option (\<lambda>_. \<lparr>rip = rip, rport = word_of_int rport, lip = lip, lport = word_of_int lport\<rparr>) ep,
         ips)))))))))
     else Inr (zero_uuid, event_uuid, ep, ips))"

subsection \<open>Bytes of identifiers\<close>

lemma length_put_bytes [simp]: "length (put_bytes pos n f u) = length u"
  unfolding put_bytes_def by (induction n) simp_all

lemma nth_put_bytes:
  "k < length u \<Longrightarrow>
   put_bytes pos n f u ! k = (if pos \<le> k \<and> k < pos + n then f (k - pos) else u ! k)"
  unfolding put_bytes_def
proof (induction n)
  case 0
  then show ?case by auto
next
  case (Suc n)
  have "length (fold (\<lambda>i u. u[pos + i := f i]) [0..<n] u) = length u"
    using length_put_bytes [of pos n f u] by (simp add: put_bytes_def)
  with Suc show ?case by (cases "k = pos + n") (auto simp: nth_list_update)
qed

lemma length_zero_uuid [simp]: "length zero_uuid = 16"
  by (simp add: zero_uuid_def)

lemma bit_ff: "bit (0xff :: 'a::len word) j \<longleftrightarrow> j < 8 \<and> j < LENGTH('a)"
proof -
  have ff: "(0xff :: 'a word) = mask 8" by (simp add: mask_eq_exp_minus_1)
  show ?thesis unfolding ff bit_mask_iff by auto
qed

lemma bit_byte:
  fixes w :: "'a::len word"
  shows "bit (ucast (drop_bit k w AND 0xff) :: byte) j \<longleftrightarrow> j < 8 \<and> bit w (k + j)"
  unfolding bit_unsigned_iff bit_and_iff bit_drop_bit_eq bit_ff o_apply possible_bit_word
  by (auto dest: bit_imp_le_length)

lemma ucast_byte [simp]: "(ucast (ucast (b :: byte) :: 64 word) :: byte) = b"
  by (rule bit_word_eqI) (simp add: bit_simps)

lemma bytes_inject:
  fixes v w :: "'a::len word"
  assumes "LENGTH('a) = 8 * n"
    and "\<And>i. i < n \<Longrightarrow> (ucast (drop_bit (i * 8) v AND 0xff) :: byte) = ucast (drop_bit (i * 8) w AND 0xff)"
  shows "v = w"
proof (rule bit_word_eqI)
  fix k
  assume "k < LENGTH('a)"
  then have "k div 8 < n" using assms(1) by simp
  from assms(2) [OF this]
  have "bit (ucast (drop_bit (k div 8 * 8) v AND 0xff) :: byte) (k mod 8) =
      bit (ucast (drop_bit (k div 8 * 8) w AND 0xff) :: byte) (k mod 8)" by simp
  then show "bit v k = bit w k" by (simp add: bit_byte)
qed

lemma length_get_file_uuid [simp]: "length (get_file_uuid dev ino crtime) = 16"
  by (simp add: get_file_uuid_def)

lemma nth_get_file_uuid:
  "i < 4 \<Longrightarrow> get_file_uuid dev ino crtime ! i = ucast (drop_bit (i * 8) dev AND 0xff)"
  "i < 8 \<Longrightarrow> get_file_uuid dev ino crtime ! (4 + i) = ucast (drop_bit (i * 8) ino AND 0xff)"
  "i < 4 \<Longrightarrow> get_file_uuid dev ino crtime ! (12 + i) = ucast (drop_bit (i * 8) crtime AND 0xff)"
  by (simp_all add: get_file_uuid_def Let_def nth_put_bytes)

lemma get_file_uuid_inject [simp]:
  "get_file_uuid dev ino crtime = get_file_uuid dev' ino' crtime' \<longleftrightarrow>
   dev = dev' \<and> ino = ino' \<and> crtime = crtime'"
proof (intro iffI conjI)
  assume eq: "get_file_uuid dev ino crtime = get_file_uuid dev' ino' crtime'"
  show "dev = dev'"
    by (rule bytes_inject [where n = 4]) (simp, metis eq nth_get_file_uuid(1))
  show "ino = ino'"
    by (rule bytes_inject [where n = 8]) (simp, metis eq nth_get_file_uuid(2))
  show "crtime = crtime'"
    by (rule bytes_inject [where n = 4]) (simp, metis eq nth_get_file_uuid(3))
qed simp

lemma get_event_uuid_bytes:
  "length (get_event_uuid ub t seq) = 16"
  "i < 8 \<Longrightarrow> get_event_uuid ub t seq ! i = ucast (drop_bit (i * 8) t AND 0xff)"
  "i < 4 \<Longrightarrow> get_event_uuid ub t seq ! (8 + i) = ucast (drop_bit (i * 8) seq AND 0xff)"
  "get_event_uuid ub t seq ! 15 AND 0xf0 = 0x10"
proof -
  show "length (get_event_uuid ub t seq) = 16" by (simp add: get_event_uuid_def Let_def)
  show "get_event_uuid ub t seq ! i = ucast (drop_bit (i * 8) t AND 0xff)" if "i < 8"
  proof -
    have "(ucast (signed_drop_bit (i * 8) t AND 0xff) :: byte) = ucast (drop_bit (i * 8) t AND 0xff)"
      by (rule bit_word_eqI) (use that in \<open>auto simp: bit_simps bit_ff\<close>)
    with that show ?thesis by (simp add: get_event_uuid_def Let_def nth_put_bytes)
  qed
  show "get_event_uuid ub t seq ! (8 + i) = ucast (drop_bit (i * 8) seq AND 0xff)" if "i < 4"
    using that by (simp add: get_event_uuid_def Let_def nth_put_bytes shr32_def)
  have "((x AND 0x0f) + 0x10) AND 0xf0 = (0x10 :: byte)" for x :: byte
  proof -
    have "(x AND 0x0f) + 0x10 = (x AND 0x0f) OR 0x10"
      by (rule disjunctive_add_eq_or) (simp add: and.assoc)
    then show ?thesis by (simp add: bit.conj_disj_distrib2 and.assoc)
  qed
  then show "get_event_uuid ub t seq ! 15 AND 0xf0 = 0x10"
    by (simp add: get_event_uuid_def Let_def set_uuid_type_def)
qed

subsection \<open>Round trips of text\<close>

lemma uuid_to_string_eq:
  "uuid_to_string u = concat (map (\<lambda>b. to_string b @ '' '') (map ((!) u) [0..<15])) @ to_string (u ! 15)"
  by (simp add: uuid_to_string_def comp_def)

lemma uuid_split:
  assumes "length u = 16"
  shows "u = map ((!) u) [0..<15] @ [u ! 15]"
proof -
  have "u = map ((!) u) [0..<16]" using map_nth [of u] assms by simp
  also have "\<dots> = map ((!) u) [0..<15] @ [u ! 15]"
    using upt_Suc_append [of 0 15] by (simp add: numeral_eq_Suc)
  finally show ?thesis .
qed

lemma tokens_uuid:
  "tokens (concat (map (\<lambda>b. to_string b @ '' '') bs) @ to_string c) = map to_string (bs @ [c])"
  by (induction bs) (simp_all add: tokens_word)

lemma fold_enumerate_update:
  "n + length ys \<le> length xs \<Longrightarrow>
   fold (\<lambda>(i, y) xs. xs[i := f y]) (enumerate n ys) xs = take n xs @ map f ys @ drop (n + length ys) xs"
proof (induction ys arbitrary: n xs)
  case Nil
  then show ?case by simp
next
  case (Cons y ys)
  have "fold (\<lambda>(i, y) xs. xs[i := f y]) (enumerate (Suc n) ys) (xs[n := f y]) =
      take (Suc n) (xs[n := f y]) @ map f ys @ drop (Suc n + length ys) (xs[n := f y])"
    by (rule Cons.IH) (use Cons.prems in simp)
  with Cons.prems show ?case by (simp add: take_Suc_conv_app_nth)
qed

lemma string_to_uuid_to_string:
  assumes "length u = 16"
  shows "string_to_uuid (uuid_to_string u) = u"
proof -
  have "tokens (uuid_to_string u) = map to_string u"
    unfolding uuid_to_string_eq tokens_uuid uuid_split [OF assms, symmetric] ..
  then show ?thesis
    using assms by (simp add: string_to_uuid_def fold_enumerate_update comp_def)
qed

lemma cdm_loop_uuid:
  "i + length bs < 16 \<Longrightarrow> length u = 16 \<Longrightarrow>
   get_cdm_uuid_loop u i (concat (map (\<lambda>b. to_string b @ '' '') bs) @ to_string c) =
     Inr (take i u @ bs @ c # drop (i + length bs + 1) u)"
proof (induction bs arbitrary: i u)
  case Nil
  then show ?case by (simp add: get_cdm_uuid_loop.simps upd_conv_take_nth_drop)
next
  case (Cons b bs)
  have "get_cdm_uuid_loop (u[i := b]) (Suc i) (concat (map (\<lambda>b. to_string b @ '' '') bs) @ to_string c) =
      Inr (take (Suc i) (u[i := b]) @ bs @ c # drop (Suc i + length bs + 1) (u[i := b]))"
    by (rule Cons.IH) (use Cons.prems in simp_all)
  with Cons.prems show ?case
    by (simp add: get_cdm_uuid_loop.simps [of u] take_Suc_conv_app_nth)
qed

lemma get_cdm_uuid_to_string:
  assumes "length u = 16" "length junk = 16"
  shows "get_cdm_uuid junk (uuid_to_string u) = Inr u"
proof -
  have "map ((!) u) [0..<15] @ [u ! 15] = u" using uuid_split [OF assms(1)] by simp
  then show ?thesis
    using cdm_loop_uuid [of 0 "map ((!) u) [0..<15]" junk "u ! 15"] assms(2)
    by (simp add: get_cdm_uuid_def uuid_to_string_eq)
qed

text \<open>
  Both readers, the one of the handlers and the one of the database client, invert the
  printer: they are instances of one contract, from which comparing printed identifiers is
  comparing identifiers.
\<close>

locale uuid_codec =
  fixes enc :: "CDM_UUID_Type \<Rightarrow> string" and dec :: "string \<Rightarrow> CDM_UUID_Type result"
  assumes dec_enc: "length u = 16 \<Longrightarrow> dec (enc u) = Inr u"
begin

lemma enc_inject: "length u = 16 \<Longrightarrow> length v = 16 \<Longrightarrow> enc u = enc v \<longleftrightarrow> u = v"
  by (metis dec_enc sum.inject(2))

lemma enc_mem:
  "length u = 16 \<Longrightarrow> list_all (\<lambda>v. length v = 16) us \<Longrightarrow> enc u \<in> enc ` set us \<longleftrightarrow> u \<in> set us"
  by (auto simp: list_all_iff enc_inject)

lemma dec_map:
  "list_all (\<lambda>v. length v = 16) us \<Longrightarrow> map dec (map enc us) = map Inr us"
  by (simp add: list_all_iff dec_enc)

end

interpretation handler_codec: uuid_codec uuid_to_string "\<lambda>s. Inr (string_to_uuid s)"
  by unfold_locales (simp add: string_to_uuid_to_string)

interpretation db_codec: uuid_codec uuid_to_string "get_cdm_uuid zero_uuid"
  by unfold_locales (simp add: get_cdm_uuid_to_string)

lemma uuid_eq_iff: "length u = 16 \<Longrightarrow> length v = 16 \<Longrightarrow> uuid_eq u v \<longleftrightarrow> u = v"
  by (simp add: uuid_eq_def list_all_iff list_eq_iff_nth_eq atLeast0LessThan lessThan_iff Ball_def)

subsection \<open>Splitting the description\<close>

definition join :: "char \<Rightarrow> string list \<Rightarrow> string" where
  "join c fs = concat (map (\<lambda>f. f @ [c]) (butlast fs)) @ last fs"

lemma join_simps [simp]:
  "join c [f] = f" "join c (f # g # fs) = f @ c # join c (g # fs)"
  by (simp_all add: join_def)

lemma parse_inode_last: "CHR ''|'' \<notin> set f \<Longrightarrow> parse_inode f = [f]"
  by (simp add: parse_inode.simps)

lemma parse_inode_join:
  "fs \<noteq> [] \<Longrightarrow> list_all (\<lambda>f. CHR ''|'' \<notin> set f) fs \<Longrightarrow>
   parse_inode (join (CHR ''|'') fs) = (if odd (length fs) then fs else fs @ [last fs])"
proof (induction fs rule: induct_list012)
  case (3 f g fs)
  then show ?case
  proof (cases fs)
    case Nil
    with 3 show ?thesis by (simp add: parse_inode.simps [of "f @ _"] parse_inode_last)
  next
    case (Cons h hs)
    with 3 show ?thesis by (simp add: parse_inode.simps [of "f @ _"])
  qed
qed (simp_all add: parse_inode_last)

subsection \<open>Addresses\<close>

lemma get_ip_array_dotted:
  assumes "length ips = 4"
  shows "get_ip_array ips (join (CHR ''.'') (map to_string [a, b, c, d])) = (Inr (), [a, b, c, d])"
proof -
  obtain w x y z where "ips = [w, x, y, z]"
    using assms by (auto simp: numeral_eq_Suc length_Suc_conv)
  then show ?thesis
    by (simp add: get_ip_array_def get_ip_loop.simps numeral_2_eq_2 numeral_3_eq_3)
qed

lemma get_ip_array_stale: "CHR ''.'' \<notin> set ip \<Longrightarrow> get_ip_array ips ip = (Inr (), ips)"
  by (simp add: get_ip_array_def get_ip_loop.simps)

lemma contains_set: "contains p s \<Longrightarrow> set p \<subseteq> set s"
proof (induction s)
  case (Cons c s)
  then show ?case
    using set_take_subset [of "length p" "c # s"] by (cases "contains p s") auto
qed simp

lemma to_string_no_X: "CHR ''X'' \<notin> set (to_string b)"
  using show_nat_digits [of 10 "unat b"]
  by (auto simp: to_string_def list_all_iff is_digit_def digit_value_def)

abbreviation dotted :: "byte list \<Rightarrow> string" where
  "dotted bs \<equiv> join (CHR ''.'') (map to_string bs)"

lemma dotted_plain:
  "dotted [a, b, c, d] \<noteq> ''NA''" "dotted [a, b, c, d] \<noteq> ''LOCAL''"
  "\<not> contains ''X11'' (dotted [a, b, c, d])" "CHR ''|'' \<notin> set (dotted [a, b, c, d])"
proof -
  have "CHR ''.'' \<in> set (dotted [a, b, c, d])" by simp
  moreover have "CHR ''.'' \<notin> set ''NA''" "CHR ''.'' \<notin> set ''LOCAL''" by simp_all
  ultimately show "dotted [a, b, c, d] \<noteq> ''NA''" "dotted [a, b, c, d] \<noteq> ''LOCAL''" by metis+
  have "CHR ''X'' \<notin> set (dotted [a, b, c, d])" using to_string_no_X by simp
  then show "\<not> contains ''X11'' (dotted [a, b, c, d])" using contains_set by fastforce
qed simp

lemma put_bytes_list:
  "pos + n \<le> length u \<Longrightarrow> put_bytes pos n f u = take pos u @ map f [0..<n] @ drop (pos + n) u"
  by (rule nth_equalityI) (auto simp: nth_put_bytes nth_append not_less)

lemma get_netflow_uuid_dotted:
  assumes "length ips = 4"
  shows "get_netflow_uuid ips (dotted [a, b, c, d]) lp (dotted [e, f, g, h]) rp =
    (Inr [a, b, c, d, ucast (lp AND 0xff), ucast (drop_bit 8 lp AND 0xff),
          e, f, g, h, ucast (rp AND 0xff), ucast (drop_bit 8 rp AND 0xff), 0, 0, 0, 0],
         [e, f, g, h])"
proof -
  have "get_ip_array ips (dotted [a, b, c, d]) = (Inr (), [a, b, c, d])"
    by (rule get_ip_array_dotted) (rule assms)
  moreover have "get_ip_array [a, b, c, d] (dotted [e, f, g, h]) = (Inr (), [e, f, g, h])"
    by (rule get_ip_array_dotted) simp
  ultimately show ?thesis
    unfolding get_netflow_uuid_def Let_def put_ip_def
    by (simp only: dotted_plain if_False prod.case sum.case)
      (simp add: put_bytes_list zero_uuid_def upts numeral_eq_Suc)
qed

lemma length_get_ip_loop:
  "length (snd (get_ip_loop ips ctr s)) = length ips"
proof (induction ips ctr s rule: get_ip_loop.induct)
  case (1 ips ctr s)
  then show ?case
    by (subst get_ip_loop.simps) (simp add: Let_def split: option.splits if_splits sum.splits)
qed

lemma put_ip_length:
  assumes "put_ip ips ip pos uuid = (r, ips')"
  shows "length ips' = length ips" "r = Inr u \<Longrightarrow> length u = length uuid"
  using assms length_get_ip_loop [of ips 0 ip]
  by (auto simp: put_ip_def get_ip_array_def split: sum.splits prod.splits)

lemma get_netflow_uuid_length:
  assumes "get_netflow_uuid ips l lp r rp = (u, ips')"
  shows "length ips' = length ips" "u = Inr v \<Longrightarrow> length v = 16"
  using assms put_ip_length
  by (auto simp: get_netflow_uuid_def Let_def split: if_splits sum.splits prod.splits)

lemma get_current_uuid_length:
  assumes "get_current_uuid ips inode ep = Inr (u, type, ep', ips')"
  shows "length u = 16 \<and> length ips' = length ips"
  using assms
  by (auto simp: get_current_uuid_def Let_def and_then_Inr iter_next_def
      uncaught_Inr dest: get_netflow_uuid_length split: if_splits list.splits)

lemma get_current_uuid_file:
  "get_current_uuid ips (join (CHR ''|'') [''I'', show_nat 16 (unat dev), show_nat 16 (unat ino),
      show_nat 16 (unat crtime)]) ep = Inr (get_file_uuid dev ino crtime, INODE_TYPE, ep, ips)"
proof -
  have "unat dev < 2 ^ 64" "unat ino < 2 ^ 64" "unat crtime < 2 ^ 64"
    using unsigned_less [of dev, where 'a = nat] unsigned_less [of ino, where 'a = nat]
      unsigned_less [of crtime, where 'a = nat] by simp_all
  then show ?thesis
    by (simp add: get_current_uuid_def parse_inode_join show_nat_plain iter_next_def get_ino_type_def
        read_show(2) del: join_simps)
qed

lemma get_current_uuid_socket:
  assumes "CHR ''|'' \<notin> set r" "CHR ''|'' \<notin> set l"
  shows "get_current_uuid ips (join (CHR ''|'') [''S'', r, show_nat 10 (unat rp), l, show_nat 10 (unat lp)]) ep =
    and_then (uncaught (get_netflow_uuid ips l lp r rp)) (\<lambda>(u, ips'). Inr (u, SOCKET_TYPE,
         map_option (\<lambda>_. \<lparr>rip = r, rport = rp, lip = l, lport = lp\<rparr>) ep, ips'))"
proof -
  have "unat rp < 2 ^ 31" "unat lp < 2 ^ 31"
    using unsigned_less [of rp, where 'a = nat] unsigned_less [of lp, where 'a = nat] by simp_all
  then show ?thesis
    using assms by (simp add: get_current_uuid_def parse_inode_join show_nat_plain iter_next_def
        get_ino_type_def read_show(3) del: join_simps)
qed

lemma get_current_uuid_other:
  assumes "get_ino_type (hd (parse_inode inode)) \<notin> {INODE_TYPE, SOCKET_TYPE}"
  shows "get_current_uuid ips inode ep =
    Inr (zero_uuid, get_ino_type (hd (parse_inode inode)), ep, ips)"
proof -
  have "parse_inode inode \<noteq> []"
    by (simp add: parse_inode.simps [of inode] Let_def split: option.splits)
  with assms show ?thesis
    by (cases "parse_inode inode") (simp_all add: get_current_uuid_def iter_next_def Let_def)
qed

end
