(* ===== verification/Db.thy ===== *)
theory Db
  imports Uuid TagTraits "HOL-Library.Char_ord" "HOL-Library.List_Lexorder"
begin

text \<open>
  The client of the provenance database (\<^verbatim>\<open>TheiaDB.cpp\<close>): the operations that the taint
  sources and sinks and the tool's start use. PostgreSQL and the client library are the
  parameter \<^verbatim>\<open>DBMS\<close>: whether there is an open connection (\<^verbatim>\<open>C != NULL\<close> and
  \<^verbatim>\<open>C->is_open()\<close>), opening and closing one, the rows a query returns and the effect of a
  committed statement; opening, queries and statements may raise an exception (\<^const>\<open>None\<close>).
  The state of the database and of the connection is passed through every operation, and the
  text of every statement is built as in the source. The lifetime of the two global pointers
  is not part of the state: the transaction \<^verbatim>\<open>N\<close> is taken to belong to the current connection.
\<close>

record 'db DBMS =
  is_open :: "'db \<Rightarrow> bool"
  connect :: "'db \<Rightarrow> 'db option"
  disconnect :: "'db \<Rightarrow> 'db"
  exec_query :: "'db \<Rightarrow> string \<Rightarrow> string list list option"
  exec_commit :: "'db \<Rightarrow> string \<Rightarrow> 'db option"
  as_uint32 :: "string \<Rightarrow> 32 word option"

lift_definition std_insert :: "'a::linorder \<Rightarrow> 'a std_set \<Rightarrow> 'a std_set" is set_insert
  by simp

lift_definition std_empty :: "'a::linorder std_set" is "[]"
  by simp

definition sq :: string where
  "sq = [CHR 0x27]"

definition quoted :: "string \<Rightarrow> string" where
  "quoted s = sq @ s @ sq"

text \<open>
  Every operation starts by opening a connection unless there is one, and gives up with the
  same result when that raises an exception or the connection is still not open.
\<close>

definition open_connection :: "'db DBMS \<Rightarrow> 'db \<Rightarrow> bool \<times> 'db" where
  "open_connection dbms db =
     (case (if is_open dbms db then Some db else connect dbms db) of
        None \<Rightarrow> (False, db)
      | Some db \<Rightarrow> (is_open dbms db, db))"

subsection \<open>Mapping of local tags\<close>

definition global_tags_query :: "string \<Rightarrow> string \<Rightarrow> string \<Rightarrow> string" where
  "global_tags_query query_id subject_uuid local_tag =
     ''SELECT global_tag FROM tag_mapping WHERE'' @ '' query_id = '' @ quoted query_id @
     '' AND local_tag = '' @ quoted local_tag @ '' AND subject_uuid = '' @ quoted subject_uuid @ '';''"

definition get_global_tags_from_rdb ::
  "'db DBMS \<Rightarrow> 'db \<Rightarrow> string \<Rightarrow> string \<Rightarrow> string \<Rightarrow> string \<Rightarrow> int \<times> string \<times> 'db" where
  "get_global_tags_from_rdb dbms db query_id subject_uuid local_tag glb_tag =
     (let (ok, db) = open_connection dbms db in
      if \<not> ok then (-1, glb_tag, db)
      else
        (case exec_query dbms db (global_tags_query query_id subject_uuid local_tag) of
           None \<Rightarrow> (-1, glb_tag, db)
         | Some [] \<Rightarrow> (0, glb_tag, db)
         | Some ([] # _) \<Rightarrow> (-1, glb_tag, db)
         | Some ((c # cs) # R) \<Rightarrow> (int (length R) + 1, c, db)))"

definition store_local_tags_statement ::
  "int \<Rightarrow> string \<Rightarrow> string \<Rightarrow> string \<Rightarrow> string \<Rightarrow> string" where
  "store_local_tags_statement ret_size query_id subject_uuid local_tag global_tag =
     (if ret_size \<le> 0
      then ''INSERT INTO tag_mapping (query_id, subject_uuid, global_tag, local_tag) '' @
        ''VALUES ('' @ quoted query_id @ '','' @ quoted subject_uuid @ '','' @ quoted global_tag @
        '','' @ quoted global_tag @ '');''
      else ''UPDATE tag_mapping SET global_tag = '' @ sq @ global_tag @ '' WHERE query_id = '' @
        quoted query_id @ '' AND subject_uuid = '' @ quoted subject_uuid @ '' AND local_tag = '' @
        quoted local_tag @ '';'')"

definition store_local_tags_to_rdb ::
  "'db DBMS \<Rightarrow> 'db \<Rightarrow> string \<Rightarrow> string \<Rightarrow> string \<Rightarrow> string \<Rightarrow> int \<times> 'db" where
  "store_local_tags_to_rdb dbms db query_id subject_uuid local_tag global_tag =
     (let (ok, db) = open_connection dbms db in
      if \<not> ok then (-1, db)
      else
        (let (ret_size, _, db) = get_global_tags_from_rdb dbms db query_id subject_uuid local_tag [] in
         case exec_commit dbms db
             (store_local_tags_statement ret_size query_id subject_uuid local_tag global_tag) of
           None \<Rightarrow> (-1, db)
         | Some db' \<Rightarrow> (0, db')))"

subsection \<open>Objects of a query\<close>

definition inbound_query :: "string \<Rightarrow> string \<Rightarrow> string" where
  "inbound_query query_id subject_uuid =
     ''SELECT file_uuid, netflow_uuid from subgraph             WHERE query_id = '' @ quoted query_id @
     '' AND subject_uuid = '' @ quoted subject_uuid @ '' AND (event_type = '' @ quoted ''EVENT_READ'' @
     '' OR event_type =             '' @ quoted ''EVENT_RECV'' @ '');''"

definition outbound_query :: "string \<Rightarrow> string \<Rightarrow> string" where
  "outbound_query query_id subject_uuid =
     ''SELECT file_uuid, netflow_uuid from subgraph             WHERE query_id = '' @ quoted query_id @
     '' AND subject_uuid = '' @ quoted subject_uuid @ '' AND (event_type = '' @ quoted ''EVENT_WRITE'' @
     '' OR event_type =             '' @ quoted ''EVENT_SEND'' @ '');''"

fun read_uuid_rows :: "CDM_UUID_Type \<Rightarrow> string list list \<Rightarrow> CDM_UUID_Type list result" where
    "read_uuid_rows junk [] = Inr []"
  | "read_uuid_rows junk ((file_uuid # netflow_uuid # _) # R) =
       and_then (get_cdm_uuid junk (if file_uuid = [] then netflow_uuid else file_uuid)) (\<lambda>u.
       and_then (read_uuid_rows junk R) (\<lambda>us. Inr (u # us)))"
  | "read_uuid_rows junk (_ # R) = Inl Out_of_range"

definition uuids_for_taint ::
  "'db DBMS \<Rightarrow> 'db \<Rightarrow> CDM_UUID_Type \<Rightarrow> string \<Rightarrow> (int \<times> CDM_UUID_Type list \<times> 'db) result" where
  "uuids_for_taint dbms db junk sql =
     (let (ok, db) = open_connection dbms db in
      if \<not> ok then Inr (-1, [], db)
      else
        (case exec_query dbms db sql of
           None \<Rightarrow> Inr (-1, [], db)
         | Some R \<Rightarrow>
             (case read_uuid_rows junk R of
                Inl Undefined_behaviour \<Rightarrow> Inl Undefined_behaviour
              | Inl _ \<Rightarrow> Inr (-1, [], db)
              | Inr us \<Rightarrow> Inr (int (length R), us, db))))"

definition get_inbound_for_taint ::
  "'db DBMS \<Rightarrow> 'db \<Rightarrow> CDM_UUID_Type \<Rightarrow> string \<Rightarrow> string \<Rightarrow> (int \<times> CDM_UUID_Type list \<times> 'db) result" where
  "get_inbound_for_taint dbms db junk query_id subject_uuid =
     uuids_for_taint dbms db junk (inbound_query query_id subject_uuid)"

definition get_outbound_for_taint ::
  "'db DBMS \<Rightarrow> 'db \<Rightarrow> CDM_UUID_Type \<Rightarrow> string \<Rightarrow> string \<Rightarrow> (int \<times> CDM_UUID_Type list \<times> 'db) result" where
  "get_outbound_for_taint dbms db junk query_id subject_uuid =
     uuids_for_taint dbms db junk (outbound_query query_id subject_uuid)"

subsection \<open>Network flows\<close>

definition is_netflowuuid_same ::
  "string \<Rightarrow> 16 word \<Rightarrow> string \<Rightarrow> 16 word \<Rightarrow> string \<Rightarrow> 16 word \<Rightarrow> string \<Rightarrow> 16 word \<Rightarrow> bool" where
  "is_netflowuuid_same local_ip_1 local_port_1 remote_ip_1 remote_port_1
     local_ip_2 local_port_2 remote_ip_2 remote_port_2 =
     (if local_ip_1 = ''NA'' \<or> local_ip_2 = ''NA'' \<or> remote_ip_1 = ''NA'' \<or> remote_ip_2 = ''NA'' \<or>
         local_ip_1 = ''LOCAL'' \<or> local_ip_2 = ''LOCAL'' \<or> remote_ip_1 = ''LOCAL'' \<or> remote_ip_2 = ''LOCAL''
      then False
      else if local_ip_1 = remote_ip_2 \<and> local_ip_2 = remote_ip_1 \<and>
         local_port_1 = remote_port_2 \<and> local_port_2 = remote_port_1
      then True
      else False)"

definition cross_tag_query :: "endpoints \<Rightarrow> string" where
  "cross_tag_query ep =
     ''SELECT tag FROM rtags WHERE'' @ ''lip = '' @ quoted (rip ep) @ '' AND rip = '' @ quoted (lip ep) @
     '' AND lport = '' @ show_nat 10 (unat (rport ep)) @ ''AND rport = '' @
     show_nat 10 (unat (lport ep)) @ '';''"

fun read_tag_rows :: "(string \<Rightarrow> 32 word option) \<Rightarrow> string list list \<Rightarrow> 32 word std_set option" where
    "read_tag_rows conv [] = Some std_empty"
  | "read_tag_rows conv ((c # _) # R) =
       Option.bind (conv c) (\<lambda>t. map_option (std_insert t) (read_tag_rows conv R))"
  | "read_tag_rows conv ([] # R) = None"

definition common_tags ::
  "32 word std_set \<Rightarrow> 32 word std_set \<Rightarrow> 32 word std_set \<Rightarrow> 32 word std_set" where
  "common_tags tags1 tags2 tags =
     fold (\<lambda>it1 tags. fold (\<lambda>it2 tags. if it1 = it2 then std_insert it1 tags else tags)
       (elems tags2) tags) (elems tags1) tags"

text \<open>
  \<^verbatim>\<open>search_cross_tag\<close> returns the text, the set of tags and the static address buffer. The
  identifier is not initialised when the first query has no row (\<^verbatim>\<open>junk\<close>). The second query
  executes the text of the first.
\<close>

definition search_cross_tag ::
  "'db DBMS \<Rightarrow> 'db \<Rightarrow> CDM_UUID_Type \<Rightarrow> byte list \<Rightarrow> endpoints \<Rightarrow> 32 word std_set \<Rightarrow>
   string \<times> 32 word std_set \<times> byte list \<times> 'db" where
  "search_cross_tag dbms db junk ips ep tags =
     (let (ok, db) = open_connection dbms db in
      if \<not> ok then ([], tags, ips, db)
      else
        (let buff1 = cross_tag_query ep in
         case exec_query dbms db buff1 of
           None \<Rightarrow> ([], tags, ips, db)
         | Some R1 \<Rightarrow>
             (case (if R1 = [] then (Inr junk, ips)
                    else get_netflow_uuid ips (rip ep) (rport ep) (lip ep) (lport ep)) of
                (Inl e, ips) \<Rightarrow> ([], tags, ips, db)
              | (Inr uuid1, ips) \<Rightarrow>
                  (case read_tag_rows (as_uint32 dbms) R1 of
                     None \<Rightarrow> ([], tags, ips, db)
                   | Some tags1 \<Rightarrow>
                       (case exec_query dbms db buff1 of
                          None \<Rightarrow> ([], tags, ips, db)
                        | Some R2 \<Rightarrow>
                            (case read_tag_rows (as_uint32 dbms) R2 of
                               None \<Rightarrow> ([], tags, ips, db)
                             | Some tags2 \<Rightarrow>
                                 (uuid_to_string uuid1, common_tags tags1 tags2 tags, ips, db)))))))"

subsection \<open>The overlay of tags\<close>

function parse_uuids :: "string \<Rightarrow> string std_set \<Rightarrow> string std_set" where
  "parse_uuids sub_str result_tag_uuid_set =
     (case find_char (CHR ''|'') sub_str of
        None \<Rightarrow> std_insert sub_str result_tag_uuid_set
      | Some i \<Rightarrow>
          parse_uuids (drop (i + 1) sub_str)
            (std_insert (if i = 0 then sub_str else take (i - 1) sub_str) result_tag_uuid_set))"
  by pat_completeness auto
termination
  by (relation "measure (\<lambda>(s, acc). length s)") (auto dest!: find_char_Some(3))

declare parse_uuids.simps [simp del]

definition pack_uuids :: "string std_set \<Rightarrow> string result" where
  "pack_uuids result_tag_uuid_set =
     (let result = concat (map (\<lambda>s. s @ ''|'') (elems result_tag_uuid_set)) in
      if result = [] then Inl Undefined_behaviour else Inr (butlast result))"

fun overlay_rows :: "string list list \<Rightarrow> string std_set \<Rightarrow> bool \<times> string std_set" where
    "overlay_rows [] acc = (True, acc)"
  | "overlay_rows ((c # _) # R) acc = overlay_rows R (parse_uuids c acc)"
  | "overlay_rows ([] # R) acc = (False, acc)"

definition theia_tag_overlay_query ::
  "'db DBMS \<Rightarrow> 'db \<Rightarrow> string \<Rightarrow> string std_set \<Rightarrow> string \<Rightarrow> string std_set \<times> 'db" where
  "theia_tag_overlay_query dbms db uuid result_tag_uuid_set qid =
     (let (ok, db) = open_connection dbms db in
      if \<not> ok then (result_tag_uuid_set, db)
      else
        (case exec_query dbms db
            (''SELECT origin_uuids FROM tag_overlay WHERE'' @ '' uuid = '' @ quoted uuid @
             '' AND qid = '' @ quoted qid @ '';'') of
           None \<Rightarrow> (result_tag_uuid_set, db)
         | Some R \<Rightarrow>
             (let (done, result_tag_uuid_set) = overlay_rows R result_tag_uuid_set in
              (result_tag_uuid_set, if done then disconnect dbms db else db))))"

definition overlay_statement ::
  "bool \<Rightarrow> string \<Rightarrow> string \<Rightarrow> string \<Rightarrow> string \<Rightarrow> string \<Rightarrow> string \<Rightarrow> string" where
  "overlay_statement fresh uuid type str_origin_uuids qid tag_uuid_str subject_uuid_str =
     (if fresh
      then ''INSERT INTO tag_overlay (uuid, type, origin_uuids, qid, tag_uuid, subject_uuid) '' @
        ''VALUES ('' @ quoted uuid @ '','' @ quoted type @ '','' @ quoted str_origin_uuids @ '', '' @
        quoted qid @ '', '' @ quoted tag_uuid_str @ '', '' @ quoted subject_uuid_str @ '');''
      else ''UPDATE tag_overlay SET origin_uuids = '' @ quoted str_origin_uuids @ '' WHERE uuid = '' @
        quoted uuid @ '' AND type = '' @ quoted type @ '' AND qid = '' @ quoted qid @ '';'')"

definition theia_tag_overlay_insert ::
  "'db DBMS \<Rightarrow> 'db \<Rightarrow> string \<Rightarrow> string \<Rightarrow> string std_set \<Rightarrow> string \<Rightarrow> string \<Rightarrow> string \<Rightarrow> 'db result" where
  "theia_tag_overlay_insert dbms db uuid type origin_uuids qid tag_uuid_str subject_uuid_str =
     (let (ok, db) = open_connection dbms db in
      if \<not> ok then Inr db
      else
        (let (prev_origin_uuids, db) = theia_tag_overlay_query dbms db uuid std_empty qid in
         and_then (pack_uuids origin_uuids) (\<lambda>str_origin_uuids.
         case exec_commit dbms db (overlay_statement (elems prev_origin_uuids = []) uuid type
             str_origin_uuids qid tag_uuid_str subject_uuid_str) of
           None \<Rightarrow> Inr db
         | Some db' \<Rightarrow> Inr db')))"

subsection \<open>Facts\<close>

lemma elems_std_insert [simp]: "elems (std_insert x s) = set_insert x (elems s)"
  by (rule std_insert.rep_eq)

lemma elems_std_empty [simp]: "elems std_empty = []"
  by (rule std_empty.rep_eq)

lemma members_std_insert [simp]: "tag_members (std_insert x s) = insert x (tag_members s)"
  by (simp add: tag_members_def)

lemma members_std_empty [simp]: "tag_members std_empty = {}"
  by (simp add: tag_members_def)

lemma members_common_tags:
  "tag_members (common_tags t1 t2 acc) = tag_members acc \<union> (tag_members t1 \<inter> tag_members t2)"
proof -
  have inner: "tag_members (fold (\<lambda>y tags. if x = y then std_insert x tags else tags) ys acc) =
      tag_members acc \<union> ({x} \<inter> set ys)" for x ys and acc :: "32 word std_set"
    by (induction ys arbitrary: acc) auto
  have "tag_members (fold (\<lambda>x tags. fold (\<lambda>y tags. if x = y then std_insert x tags else tags) ys tags) xs acc) =
      tag_members acc \<union> (set xs \<inter> set ys)" for xs ys and acc :: "32 word std_set"
    by (induction xs arbitrary: acc) (auto simp: inner)
  then show ?thesis by (simp add: common_tags_def tag_members_def)
qed

lemma is_netflowuuid_same_sym:
  "is_netflowuuid_same l1 p1 r1 q1 l2 p2 r2 q2 = is_netflowuuid_same l2 p2 r2 q2 l1 p1 r1 q1"
  by (auto simp: is_netflowuuid_same_def)

lemma read_uuid_rows_strings:
  assumes "length junk = 16"
  shows "list_all (\<lambda>u. length u = 16) us \<Longrightarrow>
    read_uuid_rows junk (map (\<lambda>u. [uuid_to_string u, nf u]) us) = Inr us"
proof (induction us)
  case (Cons u us)
  have "uuid_to_string u \<noteq> []" by (simp add: uuid_to_string_def)
  with Cons show ?case by (simp add: get_cdm_uuid_to_string assms)
qed simp

lemma pack_uuids_join:
  assumes "tag_members S \<noteq> {}"
  shows "pack_uuids S = Inr (join (CHR ''|'') (elems S))"
proof -
  have ne: "elems S \<noteq> []" using assms by (simp add: tag_members_def)
  then have "concat (map (\<lambda>s. s @ ''|'') (elems S)) =
      concat (map (\<lambda>s. s @ ''|'') (butlast (elems S))) @ last (elems S) @ ''|''"
    by (subst append_butlast_last_id [symmetric, OF ne]) (simp del: append_butlast_last_id)
  then show ?thesis by (simp add: pack_uuids_def join_def butlast_append)
qed

lemma pack_uuids_empty: "pack_uuids std_empty = Inl Undefined_behaviour"
  by (simp add: pack_uuids_def)

lemma members_parse_uuids:
  "fs \<noteq> [] \<Longrightarrow> list_all (\<lambda>f. f \<noteq> [] \<and> CHR ''|'' \<notin> set f) fs \<Longrightarrow>
   tag_members (parse_uuids (join (CHR ''|'') fs) acc) =
     tag_members acc \<union> butlast ` set (butlast fs) \<union> {last fs}"
proof (induction fs arbitrary: acc rule: induct_list012)
  case (3 f g fs)
  have "parse_uuids (join (CHR ''|'') (f # g # fs)) acc =
      parse_uuids (join (CHR ''|'') (g # fs)) (std_insert (butlast f) acc)"
    using 3(4) by (simp add: parse_uuids.simps [of "f @ _"] butlast_conv_take)
  with 3(2) [of "std_insert (butlast f) acc"] 3(4) show ?case by auto
qed (auto simp: parse_uuids.simps)

end
