(* ===== verification/Hooks.thy ===== *)
theory Hooks
  imports Db TagMap
begin

text \<open>
  The taint sources and sinks (\<^verbatim>\<open>dta_api64.cc\<close>, build with \<^verbatim>\<open>THEIA_REPLAY_COMPENSATION\<close>):
  the handlers that run after \<^verbatim>\<open>read\<close>, \<^verbatim>\<open>recvfrom\<close>, \<^verbatim>\<open>write\<close> and \<^verbatim>\<open>sendto\<close>. The state
  holds the global maps and counters of the file, the tag directory, the static address buffer
  of \<^verbatim>\<open>get_ip_array\<close>, the records handed to Kafka and to the Avro file, and the database. The
  width of a tag unit (\<^verbatim>\<open>unit_tag_t\<close>) is the type parameter. The description of the
  descriptor that the kernel module returns is the argument \<^verbatim>\<open>inode\<close>.
\<close>

record syscall_ctx_t =
  ctx_nr :: "32 word"
  ctx_arg :: "nat \<Rightarrow> 64 word"
  ctx_ret :: "64 word"

abbreviation (input) SYSCALL_ARG0 :: nat where "SYSCALL_ARG0 \<equiv> 0"
abbreviation (input) SYSCALL_ARG1 :: nat where "SYSCALL_ARG1 \<equiv> 1"
abbreviation (input) SYSCALL_ARG2 :: nat where "SYSCALL_ARG2 \<equiv> 2"
abbreviation (input) SYSCALL_ARG3 :: nat where "SYSCALL_ARG3 \<equiv> 3"
abbreviation (input) SYSCALL_ARG4 :: nat where "SYSCALL_ARG4 \<equiv> 4"
abbreviation (input) SYSCALL_ARG5 :: nat where "SYSCALL_ARG5 \<equiv> 5"

record ProvenanceTagNode =
  tagId :: CDM_UUID_Type
  flowObject :: CDM_UUID_Type
  node_subject :: CDM_UUID_Type
  systemCall :: string
  node_opcode :: string
  tagIds :: "CDM_UUID_Type list"

record hooks_config =
  inbound_uuid_array_global :: "CDM_UUID_Type list"
  outbound_uuid_array_global :: "CDM_UUID_Type list"
  query_id_global :: string
  subject_uuid_global :: string
  default_key_global :: string
  publish_to_kafka_global :: bool
  create_avro_file_global :: bool

record (overloaded) ('w::len, 'db) hooks_state =
  dir :: "'w word tag_dir_t"
  tag_counter :: "'w word"
  uuid_to_tag :: "string \<rightharpoonup> 'w word"
  tag_to_tag_uuid :: "'w word \<rightharpoonup> string"
  generated_tag_uuid_set :: "string set"
  tag_counter_global :: "64 word"
  ip_buffer :: "byte list"
  kafka :: "(string \<times> ProvenanceTagNode) list"
  avro :: "ProvenanceTagNode list"
  db :: 'db

subsection \<open>Provenance nodes\<close>

definition publish_data_to_kafka ::
  "hooks_config \<Rightarrow> string \<Rightarrow> ProvenanceTagNode \<Rightarrow> ('w::len, 'db) hooks_state \<Rightarrow> ('w, 'db) hooks_state" where
  "publish_data_to_kafka cfg key node st =
     (let st = (if publish_to_kafka_global cfg then st\<lparr>kafka := kafka st @ [(key, node)]\<rparr> else st) in
      if create_avro_file_global cfg then st\<lparr>avro := avro st @ [node]\<rparr> else st)"

definition create_cdm_provenance_tag_node ::
  "hooks_config \<Rightarrow> string \<Rightarrow> string \<Rightarrow> string std_set \<Rightarrow> string \<Rightarrow> ProvenanceTagNode" where
  "create_cdm_provenance_tag_node cfg tag_uuid object_uuid source_tag_uuid_set system_call =
     \<lparr>tagId = string_to_uuid tag_uuid,
      flowObject = string_to_uuid object_uuid,
      node_subject = string_to_uuid (subject_uuid_global cfg),
      systemCall = system_call,
      node_opcode = ''TAG_OP_UNION'',
      tagIds = map string_to_uuid (elems source_tag_uuid_set)\<rparr>"

definition theia_store_cdm_provenance_tag_node ::
  "hooks_config \<Rightarrow> string \<Rightarrow> string \<Rightarrow> string std_set \<Rightarrow> string \<Rightarrow>
   ('w::len, 'db) hooks_state \<Rightarrow> ('w, 'db) hooks_state" where
  "theia_store_cdm_provenance_tag_node cfg tag_uuid object_uuid source_tag_uuid_set system_call st =
     publish_data_to_kafka cfg (default_key_global cfg)
       (create_cdm_provenance_tag_node cfg tag_uuid object_uuid source_tag_uuid_set system_call) st"

subsection \<open>Sources\<close>

fun uuid_index :: "int \<Rightarrow> CDM_UUID_Type list \<Rightarrow> string \<Rightarrow> int" where
    "uuid_index i [] s = -1"
  | "uuid_index i (u # us) s = (if uuid_to_string u = s then i else uuid_index (i + 1) us s)"

definition new_source_tag ::
  "hooks_config \<Rightarrow> string \<Rightarrow> string \<Rightarrow> string \<Rightarrow> 32 word std_set \<Rightarrow>
   ('w::len, 'db) hooks_state \<Rightarrow> 'w word \<times> ('w, 'db) hooks_state" where
  "new_source_tag cfg event uuid_string remote_netflow_uuid cross_tags st =
     (let tag = tag_counter st;
          tag_uuid_string = uuid_to_string (get_uuid_array_from_value (tag_counter_global st));
          source_tag_uuid_set =
            (if elems cross_tags \<noteq> [] then std_insert remote_netflow_uuid std_empty else std_empty);
          st = st\<lparr>uuid_to_tag := (uuid_to_tag st)(uuid_string \<mapsto> tag),
                 tag_counter := tag_counter st + 1,
                 tag_to_tag_uuid := (tag_to_tag_uuid st)(tag \<mapsto> uuid_string),
                 generated_tag_uuid_set := insert tag_uuid_string (generated_tag_uuid_set st),
                 tag_counter_global := tag_counter_global st + 1\<rparr>
      in (tag, theia_store_cdm_provenance_tag_node cfg tag_uuid_string uuid_string
                 source_tag_uuid_set event st))"

definition taint_source ::
  "hooks_config \<Rightarrow> string \<Rightarrow> string \<Rightarrow> string \<Rightarrow> 32 word std_set \<Rightarrow> 64 word \<Rightarrow> 64 word \<Rightarrow>
   ('w::len, 'db) hooks_state \<Rightarrow> ('w, 'db) hooks_state" where
  "taint_source cfg event uuid_string remote_netflow_uuid cross_tags addr num st =
     (if uuid_index 0 (inbound_uuid_array_global cfg) uuid_string > -1 then
        (let (tag, st) =
           (case uuid_to_tag st uuid_string of
              Some tag \<Rightarrow> (tag, st)
            | None \<Rightarrow> new_source_tag cfg event uuid_string remote_netflow_uuid cross_tags st)
         in st\<lparr>dir := for_addr (\<lambda>i dir. tagmap_setb_with_tags dir i (std_insert tag std_empty))
                        addr (addr + num) (dir st)\<rparr>)
      else st)"

definition deref :: "'a option \<Rightarrow> 'a result" where
  "deref p = (case p of None \<Rightarrow> Inl Undefined_behaviour | Some x \<Rightarrow> Inr x)"

definition no_endpoints :: endpoints where
  "no_endpoints = \<lparr>rip = [], rport = 0, lip = [], lport = 0\<rparr>"

definition post_read_hook ::
  "'db DBMS \<Rightarrow> hooks_config \<Rightarrow> CDM_UUID_Type \<Rightarrow> string \<Rightarrow> syscall_ctx_t \<Rightarrow>
   ('w::len, 'db) hooks_state \<Rightarrow> ('w, 'db) hooks_state result" where
  "post_read_hook dbms cfg junk inode ctx st =
     (if sint (ctx_ret ctx) \<le> 0 then Inr st
      else
        and_then (get_current_uuid (ip_buffer st) inode (Some no_endpoints)) (\<lambda>(uuid, type, pep, ips).
        and_then (deref pep) (\<lambda>ep.
        let (remote_netflow_uuid, cross_tags, ips, d) =
          (if type = SOCKET_TYPE then
             (if rip ep \<noteq> [] \<and> lip ep \<noteq> [] \<and> rport ep \<noteq> 0 \<and> lport ep \<noteq> 0
              then search_cross_tag dbms (db st) junk ips ep std_empty else ([], std_empty, ips, db st))
           else ([], std_empty, ips, db st))
        in Inr (taint_source cfg ''EVENT_READ'' (uuid_to_string uuid) remote_netflow_uuid cross_tags
             (ctx_arg ctx SYSCALL_ARG1) (ctx_ret ctx) (st\<lparr>ip_buffer := ips, db := d\<rparr>)))))"

definition post_recvfrom_hook ::
  "'db DBMS \<Rightarrow> hooks_config \<Rightarrow> CDM_UUID_Type \<Rightarrow> string \<Rightarrow> syscall_ctx_t \<Rightarrow>
   ('w::len, 'db) hooks_state \<Rightarrow> ('w, 'db) hooks_state result" where
  "post_recvfrom_hook dbms cfg junk inode ctx st =
     (if sint (ctx_ret ctx) \<le> 0 then Inr st
      else
        and_then (get_current_uuid (ip_buffer st) inode (Some no_endpoints)) (\<lambda>(uuid, type, pep, ips).
        and_then (deref pep) (\<lambda>ep.
        let (remote_netflow_uuid, cross_tags, ips, d) =
          (if rip ep \<noteq> [] \<and> lip ep \<noteq> [] \<and> rport ep \<noteq> 0 \<and> lport ep \<noteq> 0
           then search_cross_tag dbms (db st) junk ips ep std_empty else ([], std_empty, ips, db st))
        in Inr (taint_source cfg ''EVENT_RECVFROM'' (uuid_to_string uuid) remote_netflow_uuid cross_tags
             (ctx_arg ctx SYSCALL_ARG1) (ctx_ret ctx) (st\<lparr>ip_buffer := ips, db := d\<rparr>)))))"

subsection \<open>Sinks\<close>

text \<open>The subscript operator of \<^verbatim>\<open>std::map\<close> inserts an empty string for a missing key.\<close>

definition map_index :: "('k \<rightharpoonup> string) \<Rightarrow> 'k \<Rightarrow> string \<times> ('k \<rightharpoonup> string)" where
  "map_index m k = (case m k of Some v \<Rightarrow> (v, m) | None \<Rightarrow> ([], m(k \<mapsto> [])))"

definition sink_tag ::
  "'w::len word \<Rightarrow> ('w word \<rightharpoonup> string) \<times> string std_set \<Rightarrow> ('w word \<rightharpoonup> string) \<times> string std_set" where
  "sink_tag t = (\<lambda>(m, rs).
     let tag = (ucast t :: 32 word); (v, m) = map_index m (ucast tag) in (m, std_insert v rs))"

definition sink_byte ::
  "'db DBMS \<Rightarrow> hooks_config \<Rightarrow> string \<Rightarrow> string \<Rightarrow> addr \<Rightarrow>
   ('w::len, 'db) hooks_state \<times> string std_set \<Rightarrow> (('w, 'db) hooks_state \<times> string std_set) result" where
  "sink_byte dbms cfg event uuid_string i = (\<lambda>(st, result_tag_uuid_set).
     let (m, result_tag_uuid_set) =
           fold sink_tag (elems (tagmap_getb (dir st) i)) (tag_to_tag_uuid st, result_tag_uuid_set);
         tag_uuid_string = uuid_to_string (get_uuid_array_from_value (tag_counter_global st));
         st = st\<lparr>tag_to_tag_uuid := m,
                 generated_tag_uuid_set := insert tag_uuid_string (generated_tag_uuid_set st),
                 tag_counter_global := tag_counter_global st + 1\<rparr>
     in and_then (theia_tag_overlay_insert dbms (db st) uuid_string event result_tag_uuid_set
            (query_id_global cfg) tag_uuid_string (subject_uuid_global cfg)) (\<lambda>db'.
        Inr (st\<lparr>db := db'\<rparr>, result_tag_uuid_set)))"

definition sink_loop ::
  "'db DBMS \<Rightarrow> hooks_config \<Rightarrow> string \<Rightarrow> string \<Rightarrow> 64 word \<Rightarrow> 64 word \<Rightarrow>
   ('w::len, 'db) hooks_state \<Rightarrow> (('w, 'db) hooks_state \<times> string std_set) result" where
  "sink_loop dbms cfg event uuid_string addr num st =
     for_addr (\<lambda>i acc. and_then acc (sink_byte dbms cfg event uuid_string i)) addr (addr + num)
       (Inr (st, std_empty))"

definition taint_sink ::
  "'db DBMS \<Rightarrow> hooks_config \<Rightarrow> string \<Rightarrow> string \<Rightarrow> 64 word \<Rightarrow> 64 word \<Rightarrow>
   ('w::len, 'db) hooks_state \<Rightarrow> ('w, 'db) hooks_state result" where
  "taint_sink dbms cfg event uuid_string addr num st =
     (if uuid_index 0 (outbound_uuid_array_global cfg) uuid_string > -1
      then and_then (sink_loop dbms cfg event uuid_string addr num st) (\<lambda>(st, _). Inr st)
      else Inr st)"

definition post_write_hook ::
  "'db DBMS \<Rightarrow> hooks_config \<Rightarrow> string \<Rightarrow> syscall_ctx_t \<Rightarrow>
   ('w::len, 'db) hooks_state \<Rightarrow> ('w, 'db) hooks_state result" where
  "post_write_hook dbms cfg inode ctx st =
     (if sint (ctx_ret ctx) \<le> 0 then Inr st
      else
        and_then (get_current_uuid (ip_buffer st) inode None) (\<lambda>(uuid, type, _, ips).
        taint_sink dbms cfg ''EVENT_WRITE'' (uuid_to_string uuid)
          (ctx_arg ctx SYSCALL_ARG1) (ctx_ret ctx) (st\<lparr>ip_buffer := ips\<rparr>)))"

definition post_sendto_hook ::
  "'db DBMS \<Rightarrow> hooks_config \<Rightarrow> string \<Rightarrow> syscall_ctx_t \<Rightarrow>
   ('w::len, 'db) hooks_state \<Rightarrow> ('w, 'db) hooks_state result" where
  "post_sendto_hook dbms cfg inode ctx st =
     (if sint (ctx_ret ctx) \<le> 0 then Inr st
      else
        and_then (get_current_uuid (ip_buffer st) inode None) (\<lambda>(uuid, type, _, ips).
        taint_sink dbms cfg ''EVENT_SEND'' (uuid_to_string uuid)
          (ctx_arg ctx SYSCALL_ARG1) (ctx_ret ctx) (st\<lparr>ip_buffer := ips\<rparr>)))"

definition post_open_hook :: "syscall_ctx_t \<Rightarrow> ('w::len, 'db) hooks_state \<Rightarrow> ('w, 'db) hooks_state" where
  "post_open_hook ctx st = st"

definition post_close_hook :: "syscall_ctx_t \<Rightarrow> ('w::len, 'db) hooks_state \<Rightarrow> ('w, 'db) hooks_state" where
  "post_close_hook ctx st = st"

end
