(* ===== verification/SyscallHooks.thy ===== *)
theory SyscallHooks
  imports Hooks
begin

text \<open>
  The post-system-call handlers of \<^verbatim>\<open>syscall_desc64.cc\<close>: each clears the tags of the memory
  that the kernel wrote. The layout of the structures and the constants of the system headers
  are the parameter \<^verbatim>\<open>ABI\<close>; the sizes of the language's own types are those of the 64-bit
  Linux ABI. The memory of the traced program is the parameter \<^verbatim>\<open>guest\<close>. A handler returns
  the context, which some of them change, and the tag directory.
\<close>

datatype ctype =
    Aio_context_t | Cpu_set_t | Fd_set | Gid_t | Loff_t | Off_t | Siginfo_t | Sigset_t | Stack_t
  | File_handle_libdft | Getcpu_cache | Io_event | Itimerspec | Itimerval | Mq_attr | New_utsname
  | Perf_event_attr | Rlimit | Rusage | Sched_param | Sigaction | Stat | Statfs | Sysinfo | Timespec
  | Timeval | Timex | Timezone | Tms | User_desc | Ustat | Time_t | Timer_t | Uid_t
  | Epoll_event | Pollfd | Iovec | Shmid_ds | Shminfo | If_dqinfo | If_dqblk | Fs_quota_stat
  | Fs_disk_quota | Semid_ds | Seminfo | Msqid_ds | Msginfo | Flock | Flock64 | F_owner_ex
  | Mmsghdr | Msghdr

datatype cfield =
    Iov_base | Iov_len | Revents | Msg_name | Msg_namelen | Msg_control | Msg_controllen | Msg_flags
  | Msg_iov | Msg_iovlen | Msg_hdr | Msg_len | Semun_buf | Sa_newval | Sa_newlen | Sa_oldval | Sa_oldlenp

datatype cname =
    IPC_STAT | SHM_STAT | IPC_INFO | SHM_INFO | SEM_STAT | SEM_INFO | MSG_STAT | MSG_INFO
  | F_GETLK | F_GETLK64 | F_GETOWN_EX | MAP_GROWSDOWN | MPOL_F_MEMS_ALLOWED | MPOL_F_ADDR | MPOL_F_NODE
  | ARCH_SET_FS | ARCH_SET_GS

record ABI =
  sizeof :: "ctype \<Rightarrow> 64 word"
  offsetof :: "cfield \<Rightarrow> 64 word"
  const_of :: "cname \<Rightarrow> 64 word"

record guest =
  rd64 :: "addr \<Rightarrow> 64 word"
  rd32 :: "addr \<Rightarrow> 32 word"

abbreviation (input) sizeof_int :: "64 word" where "sizeof_int \<equiv> 4"
abbreviation (input) sizeof_unsigned :: "64 word" where "sizeof_unsigned \<equiv> 4"
abbreviation (input) sizeof_u32 :: "64 word" where "sizeof_u32 \<equiv> 4"
abbreviation (input) sizeof_short :: "64 word" where "sizeof_short \<equiv> 2"
abbreviation (input) sizeof_long :: "64 word" where "sizeof_long \<equiv> 8"
abbreviation (input) sizeof_size_t :: "64 word" where "sizeof_size_t \<equiv> 8"
abbreviation (input) sizeof_pointer :: "64 word" where "sizeof_pointer \<equiv> 8"
abbreviation (input) sizeof_socklen_t :: "64 word" where "sizeof_socklen_t \<equiv> 4"
abbreviation (input) PAGE_SZ :: "64 word" where "PAGE_SZ \<equiv> 4096"
abbreviation (input) IPC_FIX :: "64 word" where "IPC_FIX \<equiv> 256"
abbreviation (input) MAP_FAILED :: "64 word" where "MAP_FAILED \<equiv> - 1"

type_synonym 'u tag_hook = "syscall_ctx_t \<Rightarrow> 'u tag_dir_t \<Rightarrow> syscall_ctx_t \<times> 'u tag_dir_t"

definition as_int :: "64 word \<Rightarrow> 32 word" where
  "as_int w = ucast w"

definition failed :: "syscall_ctx_t \<Rightarrow> bool" where
  "failed ctx \<longleftrightarrow> sint (ctx_ret ctx) < 0"

definition failed_or_empty :: "syscall_ctx_t \<Rightarrow> bool" where
  "failed_or_empty ctx \<longleftrightarrow> sint (ctx_ret ctx) \<le> 0"

subsection \<open>Buffers of the returned length\<close>

definition post_read_clear :: "'u::linorder tag_hook" where
  "post_read_clear ctx d =
     (if failed_or_empty ctx then (ctx, d)
      else (ctx, tagmap_clrn d (ctx_arg ctx SYSCALL_ARG1) (ctx_ret ctx)))"

definition post_getgroups_hook :: "ABI \<Rightarrow> 'u::linorder tag_hook" where
  "post_getgroups_hook abi ctx d =
     (if failed_or_empty ctx \<or> ctx_arg ctx SYSCALL_ARG1 = 0 then (ctx, d)
      else (ctx, tagmap_clrn d (ctx_arg ctx SYSCALL_ARG1) (sizeof abi Gid_t * ctx_ret ctx)))"

definition post_readlinkat_hook :: "'u::linorder tag_hook" where
  "post_readlinkat_hook ctx d =
     (if failed_or_empty ctx then (ctx, d)
      else (ctx, tagmap_clrn d (ctx_arg ctx SYSCALL_ARG2) (ctx_ret ctx)))"

definition mmap_length :: "64 word \<Rightarrow> 64 word" where
  "mmap_length offset =
     (if offset < PAGE_SZ then PAGE_SZ else offset + PAGE_SZ - (offset mod PAGE_SZ))"

definition post_mmap_hook :: "ABI \<Rightarrow> 'u::linorder tag_hook" where
  "post_mmap_hook abi ctx d =
     (if ctx_ret ctx = MAP_FAILED then (ctx, d)
      else
        (let offset = mmap_length (ctx_arg ctx SYSCALL_ARG1);
             ctx = (if as_int (ctx_arg ctx SYSCALL_ARG3) AND as_int (const_of abi MAP_GROWSDOWN) \<noteq> 0
                    then ctx\<lparr>ctx_ret := ctx_ret ctx - offset\<rparr> else ctx)
         in (ctx, tagmap_clrn d (ctx_ret ctx) offset)))"

primrec readv_loop ::
  "ABI \<Rightarrow> guest \<Rightarrow> nat \<Rightarrow> addr \<Rightarrow> 64 word \<Rightarrow> 'u::linorder tag_dir_t \<Rightarrow> 'u tag_dir_t" where
    "readv_loop abi g 0 iov tot d = d"
  | "readv_loop abi g (Suc n) iov tot d =
       (if tot > 0 then
          (let len = rd64 g (iov + offsetof abi Iov_len);
               iov_tot = (if tot \<ge> len then len else tot)
           in readv_loop abi g n (iov + sizeof abi Iovec) (tot - iov_tot)
                (tagmap_clrn d (rd64 g (iov + offsetof abi Iov_base)) iov_tot))
        else d)"

definition post_readv_hook :: "ABI \<Rightarrow> guest \<Rightarrow> 'u::linorder tag_hook" where
  "post_readv_hook abi g ctx d =
     (if failed_or_empty ctx then (ctx, d)
      else (ctx, readv_loop abi g (nat (sint (as_int (ctx_arg ctx SYSCALL_ARG2))))
                   (ctx_arg ctx SYSCALL_ARG1) (ctx_ret ctx) d))"

definition post_epoll_wait_hook :: "ABI \<Rightarrow> 'u::linorder tag_hook" where
  "post_epoll_wait_hook abi ctx d =
     (if failed_or_empty ctx then (ctx, d)
      else (ctx, tagmap_clrn d (ctx_arg ctx SYSCALL_ARG1) (sizeof abi Epoll_event * ctx_ret ctx)))"

primrec poll_loop :: "ABI \<Rightarrow> nat \<Rightarrow> addr \<Rightarrow> 'u::linorder tag_dir_t \<Rightarrow> 'u tag_dir_t" where
    "poll_loop abi 0 pfd d = d"
  | "poll_loop abi (Suc n) pfd d =
       poll_loop abi n (pfd + sizeof abi Pollfd) (tagmap_clrn d (pfd + offsetof abi Revents) sizeof_short)"

definition post_poll_hook :: "ABI \<Rightarrow> 'u::linorder tag_hook" where
  "post_poll_hook abi ctx d =
     (if failed_or_empty ctx then (ctx, d)
      else (ctx, poll_loop abi (unat (ctx_arg ctx SYSCALL_ARG1)) (ctx_arg ctx SYSCALL_ARG0) d))"

definition post_mq_timedreceive_hook :: "'u::linorder tag_hook" where
  "post_mq_timedreceive_hook ctx d =
     (if failed_or_empty ctx then (ctx, d)
      else
        (let d = tagmap_clrn d (ctx_arg ctx SYSCALL_ARG1) (ctx_ret ctx) in
         (ctx, if ctx_arg ctx SYSCALL_ARG3 \<noteq> 0 then tagmap_clrn d (ctx_arg ctx SYSCALL_ARG3) sizeof_size_t
               else d)))"

definition post_get_mempolicy_hook :: "ABI \<Rightarrow> 'u::linorder tag_hook" where
  "post_get_mempolicy_hook abi ctx d =
     (let flags = ctx_arg ctx SYSCALL_ARG4; mode = ctx_arg ctx SYSCALL_ARG0;
          nodemask = ctx_arg ctx SYSCALL_ARG1
      in
      if failed ctx then (ctx, d)
      else if flags = 0
      then (ctx, tagmap_clrn (tagmap_clrn d mode sizeof_int) nodemask sizeof_long)
      else if flags AND const_of abi MPOL_F_MEMS_ALLOWED \<noteq> 0
      then (ctx, tagmap_clrn d nodemask sizeof_long)
      else if flags AND const_of abi MPOL_F_ADDR \<noteq> 0 \<and> flags AND const_of abi MPOL_F_NODE = 0
      then
        (let d = (if mode \<noteq> 0 then tagmap_clrn d mode sizeof_int else d) in
         (ctx, if nodemask \<noteq> 0 then tagmap_clrn d nodemask sizeof_long else d))
      else if flags AND const_of abi MPOL_F_ADDR \<noteq> 0 \<and> flags AND const_of abi MPOL_F_NODE \<noteq> 0
      then (ctx, tagmap_clrn d mode sizeof_int)
      else if flags AND const_of abi MPOL_F_NODE \<noteq> 0
      then (ctx, tagmap_clrn d mode sizeof_int)
      else (ctx, d))"

definition post_lookup_dcookie_hook :: "'u::linorder tag_hook" where
  "post_lookup_dcookie_hook ctx d =
     (if failed_or_empty ctx then (ctx, d)
      else (ctx, tagmap_clrn d (ctx_arg ctx SYSCALL_ARG1) (ctx_ret ctx)))"

definition post_io_getevents_hook :: "ABI \<Rightarrow> 'u::linorder tag_hook" where
  "post_io_getevents_hook abi ctx d =
     (if failed_or_empty ctx then (ctx, d)
      else
        (let d = tagmap_clrn d (ctx_arg ctx SYSCALL_ARG3) (sizeof abi Io_event * ctx_ret ctx) in
         (ctx, if ctx_arg ctx SYSCALL_ARG4 \<noteq> 0
               then tagmap_clrn d (ctx_arg ctx SYSCALL_ARG4) (sizeof abi Timespec) else d)))"

definition post_listxattr_hook :: "'u::linorder tag_hook" where
  "post_listxattr_hook ctx d =
     (if failed_or_empty ctx \<or> ctx_arg ctx SYSCALL_ARG1 = 0 then (ctx, d)
      else (ctx, tagmap_clrn d (ctx_arg ctx SYSCALL_ARG1) (ctx_ret ctx)))"

definition post_getxattr_hook :: "'u::linorder tag_hook" where
  "post_getxattr_hook ctx d =
     (if failed_or_empty ctx \<or> ctx_arg ctx SYSCALL_ARG2 = 0 then (ctx, d)
      else (ctx, tagmap_clrn d (ctx_arg ctx SYSCALL_ARG2) (ctx_ret ctx)))"

definition post_getdents_hook :: "'u::linorder tag_hook" where
  "post_getdents_hook ctx d =
     (if failed_or_empty ctx then (ctx, d)
      else (ctx, tagmap_clrn d (ctx_arg ctx SYSCALL_ARG1) (ctx_ret ctx)))"

definition post_mincore_hook :: "'u::linorder tag_hook" where
  "post_mincore_hook ctx d =
     (if failed ctx then (ctx, d)
      else (ctx, tagmap_clrn d (ctx_arg ctx SYSCALL_ARG2)
                   ((ctx_arg ctx SYSCALL_ARG1 + PAGE_SZ - 1) div PAGE_SZ)))"

subsection \<open>Commands\<close>

definition fix_cmd :: "nat \<Rightarrow> syscall_ctx_t \<Rightarrow> syscall_ctx_t" where
  "fix_cmd i ctx =
     (if ctx_arg ctx i > IPC_FIX
      then ctx\<lparr>ctx_arg := (ctx_arg ctx)(i := ctx_arg ctx i - IPC_FIX)\<rparr> else ctx)"

definition cmd_is :: "ABI \<Rightarrow> 64 word \<Rightarrow> cname list \<Rightarrow> bool" where
  "cmd_is abi w ns \<longleftrightarrow> list_ex (\<lambda>n. as_int w = as_int (const_of abi n)) ns"

definition post_shmctl_hook :: "ABI \<Rightarrow> 'u::linorder tag_hook" where
  "post_shmctl_hook abi ctx d =
     (if failed ctx then (ctx, d)
      else
        (let ctx = fix_cmd SYSCALL_ARG1 ctx; cmd = ctx_arg ctx SYSCALL_ARG1 in
         if cmd_is abi cmd [IPC_STAT, SHM_STAT]
         then (ctx, tagmap_clrn d (ctx_arg ctx SYSCALL_ARG2) (sizeof abi Shmid_ds))
         else if cmd_is abi cmd [IPC_INFO, SHM_INFO]
         then (ctx, tagmap_clrn d (ctx_arg ctx SYSCALL_ARG2) (sizeof abi Shminfo))
         else (ctx, d)))"

definition post_getcwd_hook :: "'u::linorder tag_hook" where
  "post_getcwd_hook ctx d =
     (if failed_or_empty ctx then (ctx, d)
      else (ctx, tagmap_clrn d (ctx_arg ctx SYSCALL_ARG0) (ctx_ret ctx)))"

definition post_rt_sigpending_hook :: "'u::linorder tag_hook" where
  "post_rt_sigpending_hook ctx d =
     (if failed ctx then (ctx, d)
      else (ctx, tagmap_clrn d (ctx_arg ctx SYSCALL_ARG0) (ctx_arg ctx SYSCALL_ARG1)))"

definition quota_size :: "ABI \<Rightarrow> 32 word \<Rightarrow> 64 word option" where
  "quota_size abi cmd =
     (if cmd = 0x800004 then Some sizeof_u32
      else if cmd = 0x800005 then Some (sizeof abi If_dqinfo)
      else if cmd = 0x800007 then Some (sizeof abi If_dqblk)
      else if cmd = 0x5805 then Some (sizeof abi Fs_quota_stat)
      else if cmd = 0x5803 then Some (sizeof abi Fs_disk_quota)
      else None)"

definition post_quotactl_hook :: "ABI \<Rightarrow> 'u::linorder tag_hook" where
  "post_quotactl_hook abi ctx d =
     (if failed ctx then (ctx, d)
      else
        (case quota_size abi (as_int (ctx_arg ctx SYSCALL_ARG0)) of
           None \<Rightarrow> (ctx, d)
         | Some off \<Rightarrow> (ctx, tagmap_clrn d (ctx_arg ctx SYSCALL_ARG3) off)))"

definition post_modify_ldt_hook :: "'u::linorder tag_hook" where
  "post_modify_ldt_hook ctx d =
     (if failed_or_empty ctx then (ctx, d)
      else (ctx, tagmap_clrn d (ctx_arg ctx SYSCALL_ARG1) (ctx_ret ctx)))"

subsection \<open>Sockets\<close>

definition post_accept_accept4_getsockname_getpeername_hook :: "guest \<Rightarrow> 'u::linorder tag_hook" where
  "post_accept_accept4_getsockname_getpeername_hook g ctx d =
     (if failed ctx then (ctx, d)
      else if ctx_arg ctx SYSCALL_ARG1 \<noteq> 0
      then
        (let d = tagmap_clrn d (ctx_arg ctx SYSCALL_ARG1) (ucast (rd32 g (ctx_arg ctx SYSCALL_ARG2))) in
         (ctx, tagmap_clrn d (ctx_arg ctx SYSCALL_ARG2) sizeof_socklen_t))
      else (ctx, d))"

definition clear_msghdr ::
  "ABI \<Rightarrow> guest \<Rightarrow> 64 word \<Rightarrow> addr \<Rightarrow> 'u::linorder tag_dir_t \<Rightarrow> 'u tag_dir_t" where
  "clear_msghdr abi g len_size msg d =
     (let name = rd64 g (msg + offsetof abi Msg_name); control = rd64 g (msg + offsetof abi Msg_control);
          d = (if name \<noteq> 0
               then tagmap_clrn (tagmap_clrn d name (ucast (rd32 g (msg + offsetof abi Msg_namelen))))
                 (msg + offsetof abi Msg_namelen) sizeof_socklen_t
               else d);
          d = (if control \<noteq> 0
               then tagmap_clrn (tagmap_clrn d control (rd64 g (msg + offsetof abi Msg_controllen)))
                 (msg + offsetof abi Msg_controllen) len_size
               else d)
      in tagmap_clrn d (msg + offsetof abi Msg_flags) sizeof_int)"

definition post_recvmsg_hook :: "ABI \<Rightarrow> guest \<Rightarrow> 'u::linorder tag_hook" where
  "post_recvmsg_hook abi g ctx d =
     (if failed_or_empty ctx then (ctx, d)
      else
        (let msg = ctx_arg ctx SYSCALL_ARG1; d = clear_msghdr abi g sizeof_size_t msg d in
         (ctx, readv_loop abi g (unat (rd64 g (msg + offsetof abi Msg_iovlen)))
                 (rd64 g (msg + offsetof abi Msg_iov)) (ctx_ret ctx) d)))"

definition post_semctl_hook :: "ABI \<Rightarrow> guest \<Rightarrow> 'u::linorder tag_hook" where
  "post_semctl_hook abi g ctx d =
     (if failed ctx then (ctx, d)
      else
        (let buf = rd64 g (ctx_arg ctx SYSCALL_ARG3 + offsetof abi Semun_buf);
             ctx = fix_cmd SYSCALL_ARG2 ctx; cmd = ctx_arg ctx SYSCALL_ARG2
         in
         if cmd_is abi cmd [IPC_STAT, SEM_STAT] then (ctx, tagmap_clrn d buf (sizeof abi Semid_ds))
         else if cmd_is abi cmd [IPC_INFO, SEM_INFO] then (ctx, tagmap_clrn d buf (sizeof abi Seminfo))
         else (ctx, d)))"

definition post_msgrcv_hook :: "'u::linorder tag_hook" where
  "post_msgrcv_hook ctx d =
     (if failed_or_empty ctx then (ctx, d)
      else (ctx, tagmap_clrn d (ctx_arg ctx SYSCALL_ARG1) (ctx_ret ctx + sizeof_long)))"

definition post_msgctl_hook :: "ABI \<Rightarrow> 'u::linorder tag_hook" where
  "post_msgctl_hook abi ctx d =
     (if failed ctx then (ctx, d)
      else
        (let ctx = fix_cmd SYSCALL_ARG1 ctx; cmd = ctx_arg ctx SYSCALL_ARG1 in
         if cmd_is abi cmd [IPC_STAT, MSG_STAT]
         then (ctx, tagmap_clrn d (ctx_arg ctx SYSCALL_ARG2) (sizeof abi Msqid_ds))
         else if cmd_is abi cmd [IPC_INFO, MSG_INFO]
         then (ctx, tagmap_clrn d (ctx_arg ctx SYSCALL_ARG2) (sizeof abi Msginfo))
         else (ctx, d)))"

definition post_fcntl_hook :: "ABI \<Rightarrow> 'u::linorder tag_hook" where
  "post_fcntl_hook abi ctx d =
     (let cmd = ctx_arg ctx SYSCALL_ARG1; p = ctx_arg ctx SYSCALL_ARG2 in
      if failed ctx then (ctx, d)
      else if cmd_is abi cmd [F_GETLK] then (ctx, tagmap_clrn d p (sizeof abi Flock))
      else if cmd_is abi cmd [F_GETLK64] then (ctx, tagmap_clrn d p (sizeof abi Flock64))
      else if cmd_is abi cmd [F_GETOWN_EX] then (ctx, tagmap_clrn d p (sizeof abi F_owner_ex))
      else (ctx, d))"

definition post_recvfrom_clear :: "guest \<Rightarrow> 'u::linorder tag_hook" where
  "post_recvfrom_clear g ctx d =
     (if failed_or_empty ctx then (ctx, d)
      else
        (let d = tagmap_clrn d (ctx_arg ctx SYSCALL_ARG1) (ctx_ret ctx) in
         if ctx_arg ctx SYSCALL_ARG4 \<noteq> 0
         then
           (let d = tagmap_clrn d (ctx_arg ctx SYSCALL_ARG4) (ucast (rd32 g (ctx_arg ctx SYSCALL_ARG5))) in
            (ctx, tagmap_clrn d (ctx_arg ctx SYSCALL_ARG5) sizeof_socklen_t))
         else (ctx, d)))"

definition post_getsockopt_hook :: "guest \<Rightarrow> 'u::linorder tag_hook" where
  "post_getsockopt_hook g ctx d =
     (if failed ctx then (ctx, d)
      else
        (let d = tagmap_clrn d (ctx_arg ctx SYSCALL_ARG3) (ucast (rd32 g (ctx_arg ctx SYSCALL_ARG4))) in
         (ctx, tagmap_clrn d (ctx_arg ctx SYSCALL_ARG4) sizeof_socklen_t)))"

definition post_syslog_hook :: "'u::linorder tag_hook" where
  "post_syslog_hook ctx d =
     (if failed_or_empty ctx then (ctx, d)
      else if as_int (ctx_arg ctx SYSCALL_ARG0) = 2 \<or> as_int (ctx_arg ctx SYSCALL_ARG0) = 3 \<or>
          as_int (ctx_arg ctx SYSCALL_ARG0) = 4
      then (ctx, tagmap_clrn d (ctx_arg ctx SYSCALL_ARG1) (ctx_ret ctx))
      else (ctx, d))"

definition post__sysctl_hook :: "ABI \<Rightarrow> guest \<Rightarrow> 'u::linorder tag_hook" where
  "post__sysctl_hook abi g ctx d =
     (if failed ctx then (ctx, d)
      else
        (let sa = ctx_arg ctx SYSCALL_ARG0;
             oldval = rd64 g (sa + offsetof abi Sa_oldval); oldlenp = rd64 g (sa + offsetof abi Sa_oldlenp);
             d = tagmap_clrn d (rd64 g (sa + offsetof abi Sa_newval)) (rd64 g (sa + offsetof abi Sa_newlen))
         in (ctx, if oldval \<noteq> 0
                  then tagmap_clrn (tagmap_clrn d oldval (rd64 g oldlenp)) oldlenp sizeof_size_t
                  else d)))"

subsection \<open>Vectors of messages\<close>

text \<open>
  In \<^verbatim>\<open>post_recvmmsg_hook\<close> the test of the last argument ends in a stray semicolon, so the
  time-out structure is cleared whether the argument is null or not. The tests
  \<^verbatim>\<open>ctx->ret < 0\<close> of the last three handlers compare an unsigned value.
\<close>

primrec recvmmsg_loop ::
  "ABI \<Rightarrow> guest \<Rightarrow> nat \<Rightarrow> addr \<Rightarrow> 'u::linorder tag_dir_t \<Rightarrow> 'u tag_dir_t" where
    "recvmmsg_loop abi g 0 msg d = d"
  | "recvmmsg_loop abi g (Suc n) msg d =
       (let m = msg + offsetof abi Msg_hdr;
            d = clear_msghdr abi g sizeof_int m d;
            tot = ucast (rd32 g (msg + offsetof abi Msg_len));
            d = tagmap_clrn d (msg + offsetof abi Msg_len) sizeof_unsigned
        in recvmmsg_loop abi g n (msg + sizeof abi Mmsghdr)
             (readv_loop abi g (unat (rd64 g (m + offsetof abi Msg_iovlen)))
               (rd64 g (m + offsetof abi Msg_iov)) tot d))"

definition post_recvmmsg_hook :: "ABI \<Rightarrow> guest \<Rightarrow> 'u::linorder tag_hook" where
  "post_recvmmsg_hook abi g ctx d =
     (if failed ctx then (ctx, d)
      else
        (let d = recvmmsg_loop abi g (unat (ctx_ret ctx)) (ctx_arg ctx SYSCALL_ARG1) d in
         (ctx, tagmap_clrn d (ctx_arg ctx SYSCALL_ARG4) (sizeof abi Timespec))))"

definition post_arch_prctl_hook :: "ABI \<Rightarrow> 'u::linorder tag_hook" where
  "post_arch_prctl_hook abi ctx d =
     (if ctx_ret ctx < 0 then (ctx, d)
      else if ctx_arg ctx SYSCALL_ARG0 = const_of abi ARCH_SET_FS \<or>
          ctx_arg ctx SYSCALL_ARG0 = const_of abi ARCH_SET_GS
      then (ctx, tagmap_clrn d (ctx_arg ctx SYSCALL_ARG1) sizeof_long)
      else (ctx, d))"

primrec sendmmsg_loop :: "ABI \<Rightarrow> nat \<Rightarrow> addr \<Rightarrow> 'u::linorder tag_dir_t \<Rightarrow> 'u tag_dir_t" where
    "sendmmsg_loop abi 0 msgvec d = d"
  | "sendmmsg_loop abi (Suc i) msgvec d =
       sendmmsg_loop abi i (msgvec + sizeof abi Mmsghdr)
         (tagmap_clrn d (msgvec + sizeof abi Msghdr) sizeof_unsigned)"

definition post_sendmmsg_hook :: "ABI \<Rightarrow> 'u::linorder tag_hook" where
  "post_sendmmsg_hook abi ctx d =
     (if ctx_ret ctx < 0 then (ctx, d)
      else (ctx, sendmmsg_loop abi (unat (ctx_ret ctx)) (ctx_arg ctx SYSCALL_ARG1) d))"

partial_function (option) vm_readv_loop ::
  "ABI \<Rightarrow> guest \<Rightarrow> addr \<Rightarrow> 64 word \<Rightarrow> 'u::linorder tag_dir_t \<Rightarrow> 'u tag_dir_t option" where
  "vm_readv_loop abi g iov tot d =
     (if tot > 0 then
        (if tot > rd64 g (iov + offsetof abi Iov_len) then
           vm_readv_loop abi g (iov + sizeof abi Iovec) (tot - rd64 g (iov + offsetof abi Iov_len))
             (tagmap_clrn d (rd64 g (iov + offsetof abi Iov_base)) (rd64 g (iov + offsetof abi Iov_len)))
         else
           vm_readv_loop abi g (iov + sizeof abi Iovec) 0
             (tagmap_clrn d (rd64 g (iov + offsetof abi Iov_base)) tot))
      else Some d)"

definition post_process_vm_readv_hook ::
  "ABI \<Rightarrow> guest \<Rightarrow> syscall_ctx_t \<Rightarrow> 'u::linorder tag_dir_t \<Rightarrow> (syscall_ctx_t \<times> 'u tag_dir_t) option" where
  "post_process_vm_readv_hook abi g ctx d =
     (if ctx_ret ctx < 0 then Some (ctx, d)
      else map_option (\<lambda>d. (ctx, d)) (vm_readv_loop abi g (ctx_arg ctx SYSCALL_ARG1) (ctx_ret ctx) d))"

subsection \<open>What the handlers clear\<close>

definition span :: "addr \<Rightarrow> 64 word \<Rightarrow> 32 word set" where
  "span a n = ucast ` {a..<a + n}"

definition clears :: "'u::linorder tag_dir_t \<Rightarrow> 'u tag_dir_t \<Rightarrow> 32 word set \<Rightarrow> bool" where
  "clears d d' S \<longleftrightarrow>
     (\<forall>b. tag_dir_getb d' b = (if ucast b \<in> S then cleared_val else tag_dir_getb d b))"

definition only_clears :: "'u::linorder tag_dir_t \<Rightarrow> 'u tag_dir_t \<Rightarrow> bool" where
  "only_clears d d' \<longleftrightarrow> (\<exists>S. clears d d' S)"

lemma clears_refl: "clears d d {}"
  by (simp add: clears_def)

lemma clears_trans: "clears d d' S \<Longrightarrow> clears d' d'' T \<Longrightarrow> clears d d'' (S \<union> T)"
  by (simp add: clears_def)

lemma clears_clrn: "clears d (tagmap_clrn d a n) (span a n)"
proof -
  have "ucast b \<in> span a n \<longleftrightarrow> (\<exists>i. a \<le> i \<and> i < a + n \<and> (ucast i :: 32 word) = ucast b)" for b :: addr
    unfolding span_def image_iff by (metis atLeastLessThan_iff)
  then show ?thesis by (simp add: clears_def tagmap_clrn_def tagmap_clrb_def get_for_addr_setb)
qed

lemma clears_clrn_trans: "clears d d' S \<Longrightarrow> clears d (tagmap_clrn d' a n) (S \<union> span a n)"
  by (rule clears_trans [OF _ clears_clrn])

lemma only_clears_refl [simp]: "only_clears d d"
  using clears_refl by (auto simp: only_clears_def)

lemma only_clears_trans: "only_clears d d' \<Longrightarrow> only_clears d' d'' \<Longrightarrow> only_clears d d''"
  by (auto simp: only_clears_def dest: clears_trans)

lemma only_clears_clrn [simp]: "only_clears d (tagmap_clrn d a n)"
  using clears_clrn by (auto simp: only_clears_def)

lemma only_clears_clrn_trans: "only_clears d d' \<Longrightarrow> only_clears d (tagmap_clrn d' a n)"
  by (erule only_clears_trans) simp

lemmas only_clears_intros = only_clears_refl only_clears_clrn only_clears_clrn_trans

text \<open>The vectors of buffers: the buffers are filled in order, up to the total.\<close>

fun iov_list :: "ABI \<Rightarrow> guest \<Rightarrow> nat \<Rightarrow> addr \<Rightarrow> (addr \<times> 64 word) list" where
    "iov_list abi g 0 iov = []"
  | "iov_list abi g (Suc n) iov =
       (rd64 g (iov + offsetof abi Iov_base), rd64 g (iov + offsetof abi Iov_len)) #
         iov_list abi g n (iov + sizeof abi Iovec)"

fun filled :: "(addr \<times> 64 word) list \<Rightarrow> nat \<Rightarrow> (addr \<times> 64 word) list" where
    "filled [] tot = []"
  | "filled ((a, n) # vs) tot =
       (if tot \<le> unat n then (if tot = 0 then [] else [(a, of_nat tot)])
        else (a, n) # filled vs (tot - unat n))"

definition spans :: "(addr \<times> 64 word) list \<Rightarrow> 32 word set" where
  "spans vs = (\<Union>(a, n) \<in> set vs. span a n)"

lemma spans_simps [simp]: "spans [] = {}" "spans ((a, n) # vs) = span a n \<union> spans vs"
  by (auto simp: spans_def)

lemma span_0 [simp]: "span a 0 = {}"
  by (simp add: span_def)

lemma filled_0 [simp]: "filled vs 0 = []"
  by (cases vs) auto

lemma filled_total:
  "sum_list (map (unat \<circ> snd) (filled vs tot)) = min tot (sum_list (map (unat \<circ> snd) vs))"
proof (induction vs tot rule: filled.induct)
  case (2 a n vs tot)
  show ?case
  proof (cases "tot \<le> unat n")
    case True
    then have "unat (of_nat tot :: 64 word) = tot"
      using unat_less_64 [of n] by (simp add: unat_of_nat)
    with True show ?thesis by simp
  next
    case False
    with 2 show ?thesis by simp
  qed
qed simp

lemma readv_loop_clears:
  "clears d (readv_loop abi g n iov tot d) (spans (filled (iov_list abi g n iov) (unat tot)))"
proof (induction n arbitrary: iov tot d)
  case 0
  then show ?case by (simp add: clears_refl)
next
  case (Suc n)
  let ?a = "rd64 g (iov + offsetof abi Iov_base)" and ?len = "rd64 g (iov + offsetof abi Iov_len)"
  consider "tot = 0" | "0 < tot" "tot \<le> ?len" | "?len < tot" by (metis not_le word_gt_0)
  then show ?case
  proof cases
    case 1
    then show ?thesis by (simp add: clears_refl)
  next
    case 2
    have "readv_loop abi g n v 0 e = e" for v and e :: "'a tag_dir_t" by (cases n) simp_all
    moreover have "(if ?len \<le> tot then ?len else tot) = tot" using 2(2) by auto
    ultimately have "readv_loop abi g (Suc n) iov tot d = tagmap_clrn d ?a tot"
      using 2(1) by (simp add: Let_def)
    moreover have "filled (iov_list abi g (Suc n) iov) (unat tot) = [(?a, tot)]"
      using 2 by (simp add: word_le_nat_alt unat_gt_0)
    ultimately show ?thesis using clears_clrn by simp
  next
    case 3
    then have "unat (tot - ?len) = unat tot - unat ?len" "0 < tot"
      by (simp_all add: unat_sub order_le_less_trans [OF word_zero_le])
    then have fl: "filled (iov_list abi g (Suc n) iov) (unat tot) =
        (?a, ?len) # filled (iov_list abi g n (iov + sizeof abi Iovec)) (unat (tot - ?len))"
      using 3 by (simp add: word_less_nat_alt)
    show ?thesis
      unfolding fl using 3 \<open>0 < tot\<close> less_imp_le [OF 3]
      by (simp add: Let_def clears_trans [OF clears_clrn Suc.IH])
  qed
qed

lemma only_clears_readv: "only_clears d d' \<Longrightarrow> only_clears d (readv_loop abi g n iov tot d')"
  by (erule only_clears_trans) (unfold only_clears_def, rule exI, rule readv_loop_clears)

lemma only_clears_poll: "only_clears d (poll_loop abi n pfd d)"
  by (induction n arbitrary: pfd d) (auto intro: only_clears_trans [OF only_clears_clrn])

lemma only_clears_sendmmsg: "only_clears d (sendmmsg_loop abi n v d)"
  by (induction n arbitrary: v d) (auto intro: only_clears_trans [OF only_clears_clrn])

lemma only_clears_msghdr: "only_clears d (clear_msghdr abi g k m d)"
  by (simp add: clear_msghdr_def Let_def only_clears_intros)

lemma only_clears_recvmmsg: "only_clears d (recvmmsg_loop abi g n msg d)"
proof (induction n arbitrary: msg d)
  case (Suc n)
  show ?case
    by (auto simp: Let_def intro!: only_clears_trans [OF _ Suc.IH] only_clears_readv
        only_clears_clrn_trans only_clears_msghdr)
qed simp

lemma vm_readv_0 [simp]: "vm_readv_loop abi g iov 0 d = Some d"
  by (simp add: vm_readv_loop.simps)

lemma vm_readv_clears:
  "unat tot \<le> sum_list (map (unat \<circ> snd) (iov_list abi g n iov)) \<Longrightarrow>
   \<exists>d'. vm_readv_loop abi g iov tot d = Some d' \<and>
     clears d d' (spans (filled (iov_list abi g n iov) (unat tot)))"
proof (induction n arbitrary: iov tot d)
  case 0
  then have "tot = 0" by (simp add: unat_eq_0)
  then show ?case by (simp add: clears_refl)
next
  case (Suc n)
  let ?a = "rd64 g (iov + offsetof abi Iov_base)" and ?len = "rd64 g (iov + offsetof abi Iov_len)"
  consider "tot = 0" | "0 < tot" "tot \<le> ?len" | "?len < tot" by (metis not_le word_gt_0)
  then show ?case
  proof cases
    case 1
    then show ?thesis by (simp add: clears_refl)
  next
    case 2
    then have "\<not> ?len < tot" by simp
    with 2(1) have "vm_readv_loop abi g iov tot d = Some (tagmap_clrn d ?a tot)"
      by (simp add: vm_readv_loop.simps [of abi g iov tot])
    moreover have "filled (iov_list abi g (Suc n) iov) (unat tot) = [(?a, tot)]"
      using 2 by (simp add: word_le_nat_alt unat_gt_0)
    ultimately show ?thesis using clears_clrn by simp
  next
    case 3
    have sub: "unat (tot - ?len) = unat tot - unat ?len" and "0 < tot"
      using 3 by (simp_all add: unat_sub order_le_less_trans [OF word_zero_le])
    have "unat (tot - ?len) \<le> sum_list (map (unat \<circ> snd) (iov_list abi g n (iov + sizeof abi Iovec)))"
      using Suc.prems by (simp add: sub comp_def)
    from Suc.IH [OF this, of "tagmap_clrn d ?a ?len"] obtain d' where
      d': "vm_readv_loop abi g (iov + sizeof abi Iovec) (tot - ?len) (tagmap_clrn d ?a ?len) = Some d'"
      "clears (tagmap_clrn d ?a ?len) d'
        (spans (filled (iov_list abi g n (iov + sizeof abi Iovec)) (unat (tot - ?len))))" by blast
    have "vm_readv_loop abi g iov tot d = Some d'"
      using 3 \<open>0 < tot\<close> d'(1) by (simp add: vm_readv_loop.simps [of abi g iov tot])
    moreover have "filled (iov_list abi g (Suc n) iov) (unat tot) =
        (?a, ?len) # filled (iov_list abi g n (iov + sizeof abi Iovec)) (unat (tot - ?len))"
      using 3 by (simp add: word_less_nat_alt sub)
    ultimately show ?thesis using clears_trans [OF clears_clrn d'(2)] by simp
  qed
qed

lemma vm_readv_only_nonzero:
  assumes "vm_readv_loop abi g iov tot d = Some d'"
  shows "only_clears d d' \<and> \<not> (0 < tot \<and> (\<forall>a. rd64 g a = 0))"
proof (rule vm_readv_loop.raw_induct
    [of "\<lambda>abi g iov tot d d'. only_clears d d' \<and> \<not> (0 < tot \<and> (\<forall>a. rd64 g a = 0))", OF _ assms])
  fix loop abi g iov and tot :: "64 word" and d d' :: "'a tag_dir_t"
  assume IH: "\<And>abi g iov tot d d'. loop abi g iov tot d = Some d' \<Longrightarrow>
      only_clears d d' \<and> \<not> (0 < tot \<and> (\<forall>a. rd64 g a = 0))"
    and step: "(if 0 < tot then
        (if rd64 g (iov + offsetof abi Iov_len) < tot then
           loop abi g (iov + sizeof abi Iovec) (tot - rd64 g (iov + offsetof abi Iov_len))
             (tagmap_clrn d (rd64 g (iov + offsetof abi Iov_base)) (rd64 g (iov + offsetof abi Iov_len)))
         else loop abi g (iov + sizeof abi Iovec) 0
             (tagmap_clrn d (rd64 g (iov + offsetof abi Iov_base)) tot))
      else Some d) = Some d'"
  show "only_clears d d' \<and> \<not> (0 < tot \<and> (\<forall>a. rd64 g a = 0))"
  proof (cases "tot = 0")
    case True
    with step show ?thesis by simp
  next
    case pos: False
    let ?len = "rd64 g (iov + offsetof abi Iov_len)" and ?a = "rd64 g (iov + offsetof abi Iov_base)"
    show ?thesis
    proof (cases "?len < tot")
      case True
      with pos step have "loop abi g (iov + sizeof abi Iovec) (tot - ?len) (tagmap_clrn d ?a ?len) = Some d'"
        by (simp add: word_gt_0)
      from IH [OF this] show ?thesis
        using only_clears_trans [OF only_clears_clrn] by (metis word_gt_0 diff_zero)
    next
      case False
      with pos step have "loop abi g (iov + sizeof abi Iovec) 0 (tagmap_clrn d ?a tot) = Some d'"
        by (simp add: word_gt_0)
      from IH [OF this] have "only_clears d d'"
        using only_clears_trans [OF only_clears_clrn] by blast
      moreover have "?len \<noteq> 0" using False pos by (metis word_gt_0)
      ultimately show ?thesis by blast
    qed
  qed
qed

lemma vm_readv_diverges:
  assumes "\<And>a. rd64 g a = 0" "0 < tot"
  shows "vm_readv_loop abi g iov tot d = None"
  using assms vm_readv_only_nonzero [of abi g iov tot d]
  by (cases "vm_readv_loop abi g iov tot d") auto

text \<open>The length that \<^verbatim>\<open>mmap\<close> clears: rounded up to the next larger multiple of the page.\<close>

lemma mmap_length_pages:
  assumes "unat n + 4096 < 2 ^ 64"
  shows "unat (mmap_length n) = (unat n div 4096 + 1) * 4096"
proof (cases "n < PAGE_SZ")
  case True
  then have "unat n div 4096 = 0" by (simp add: word_less_nat_alt)
  with True show ?thesis by (simp add: mmap_length_def)
next
  case False
  have m: "unat (n mod 4096) = unat n mod 4096" by (simp add: unat_mod)
  have "unat (n + 4096) = unat n + 4096" using assms by (simp add: unat_word_ariths)
  moreover have "n mod 4096 \<le> n + 4096"
    using calculation m by (simp add: word_le_nat_alt le_trans [OF mod_less_eq_dividend])
  ultimately have "unat (n + 4096 - n mod 4096) = unat n + 4096 - unat n mod 4096"
    by (simp add: unat_sub m)
  also have "\<dots> = (unat n div 4096 + 1) * 4096"
  proof -
    have "unat n + 4096 = (unat n div 4096 + 1) * 4096 + unat n mod 4096"
      using div_mult_mod_eq [of "unat n" 4096] by (simp add: algebra_simps)
    then show ?thesis by (metis add_diff_cancel_right')
  qed
  finally show ?thesis using False by (simp add: mmap_length_def)
qed

end
