(* ===== verification/HooksFacts.thy ===== *)
theory HooksFacts
  imports Hooks
begin

text \<open>
  Correctness of the taint sources and sinks: the invariant that ties the two tag maps
  together and that every handler keeps it, what a source writes, what a sink reports and
  when a sink reaches the undefined removal of the last character of an empty string.
\<close>

lemma uuid_index_iff: "-1 < i \<Longrightarrow> -1 < uuid_index i us s \<longleftrightarrow> s \<in> uuid_to_string ` set us"
  by (induction us arbitrary: i) auto

subsection \<open>The maps\<close>

definition hooks_inv :: "('w::len, 'db) hooks_state \<Rightarrow> bool" where
  "hooks_inv st \<longleftrightarrow>
     finite (dom (uuid_to_tag st)) \<and>
     tag_counter st = of_nat (card (dom (uuid_to_tag st))) \<and>
     (card (dom (uuid_to_tag st)) \<le> 2 ^ LENGTH('w) \<longrightarrow>
       (\<forall>s t. uuid_to_tag st s = Some t \<longrightarrow>
          tag_to_tag_uuid st t = Some s \<and> unat t < card (dom (uuid_to_tag st))))"

lemma hooks_invD:
  assumes "hooks_inv (st :: ('w::len, 'db) hooks_state)" "card (dom (uuid_to_tag st)) \<le> 2 ^ LENGTH('w)"
    "uuid_to_tag st s = Some t"
  shows "tag_to_tag_uuid st t = Some s" "unat t < card (dom (uuid_to_tag st))"
  using assms by (simp_all add: hooks_inv_def)

lemma publish_fields [simp]:
  "dir (publish_data_to_kafka cfg key node st) = dir st"
  "uuid_to_tag (publish_data_to_kafka cfg key node st) = uuid_to_tag st"
  "tag_to_tag_uuid (publish_data_to_kafka cfg key node st) = tag_to_tag_uuid st"
  "tag_counter (publish_data_to_kafka cfg key node st) = tag_counter st"
  "tag_counter_global (publish_data_to_kafka cfg key node st) = tag_counter_global st"
  "db (publish_data_to_kafka cfg key node st) = db st"
  by (simp_all add: publish_data_to_kafka_def Let_def)

lemma new_source_tag_fields:
  assumes "new_source_tag cfg ev s remote cross st = (t, st')"
  shows "t = tag_counter st" "dir st' = dir st" "uuid_to_tag st' = (uuid_to_tag st)(s \<mapsto> t)"
    "tag_to_tag_uuid st' = (tag_to_tag_uuid st)(t \<mapsto> s)" "tag_counter st' = tag_counter st + 1"
    "db st' = db st"
  using assms
  by (auto simp: new_source_tag_def theia_store_cdm_provenance_tag_node_def Let_def)

lemma new_source_tag_inv:
  assumes inv: "hooks_inv (st :: ('w::len, 'db) hooks_state)" and fresh: "uuid_to_tag st s = None"
    and new: "new_source_tag cfg ev s remote cross st = (t, st')"
  shows "hooks_inv st'"
proof -
  note f = new_source_tag_fields [OF new]
  let ?n = "card (dom (uuid_to_tag st))"
  have fin: "finite (dom (uuid_to_tag st))" and cnt: "tag_counter st = of_nat ?n"
    using inv by (simp_all add: hooks_inv_def)
  have "s \<notin> dom (uuid_to_tag st)" using fresh by auto
  then have card: "card (dom (uuid_to_tag st')) = Suc ?n" using fin by (simp add: f(3))
  have "tag_to_tag_uuid st' u = Some r \<and> unat u < Suc ?n"
    if bound: "Suc ?n \<le> 2 ^ LENGTH('w)" and map: "uuid_to_tag st' r = Some u" for r u
  proof -
    have n: "unat t = ?n" using bound by (simp add: f(1) cnt unat_of_nat)
    show ?thesis
    proof (cases "r = s")
      case True
      with map n show ?thesis by (simp add: f(3,4))
    next
      case False
      then have "uuid_to_tag st r = Some u" using map by (simp add: f(3))
      then have "tag_to_tag_uuid st u = Some r" "unat u < ?n"
        using hooks_invD [OF inv] bound by simp_all
      with n show ?thesis by (auto simp: f(4))
    qed
  qed
  moreover have "finite (dom (uuid_to_tag st'))" using fin by (simp add: f(3))
  moreover have "tag_counter st' = of_nat (Suc ?n)" by (simp add: f(5) cnt)
  ultimately show ?thesis
    unfolding hooks_inv_def card by blast
qed

definition assign_tag ::
  "hooks_config \<Rightarrow> string \<Rightarrow> string \<Rightarrow> string \<Rightarrow> 32 word std_set \<Rightarrow>
   ('w::len, 'db) hooks_state \<Rightarrow> 'w word \<times> ('w, 'db) hooks_state" where
  "assign_tag cfg ev s remote cross st =
     (case uuid_to_tag st s of Some t \<Rightarrow> (t, st) | None \<Rightarrow> new_source_tag cfg ev s remote cross st)"

lemma taint_source_eq:
  "taint_source cfg ev s remote cross addr num st =
     (if s \<in> uuid_to_string ` set (inbound_uuid_array_global cfg) then
        (case assign_tag cfg ev s remote cross st of (t, st') \<Rightarrow>
           st'\<lparr>dir := for_addr (\<lambda>i d. setb d i (std_insert t std_empty)) addr (addr + num) (dir st')\<rparr>)
      else st)"
  by (simp add: taint_source_def uuid_index_iff assign_tag_def tagmap_setb_with_tags_def
      split: prod.split)

lemma hooks_inv_dir [simp]: "hooks_inv (st\<lparr>dir := d\<rparr>) = hooks_inv st"
  and hooks_inv_buffer [simp]: "hooks_inv (st\<lparr>ip_buffer := b\<rparr>) = hooks_inv st"
  and hooks_inv_db [simp]: "hooks_inv (st\<lparr>db := c\<rparr>) = hooks_inv st"
  by (simp_all add: hooks_inv_def)

lemma assign_tag_inv:
  "hooks_inv st \<Longrightarrow> assign_tag cfg ev s remote cross st = (t, st') \<Longrightarrow> hooks_inv st'"
  by (auto simp: assign_tag_def new_source_tag_inv split: option.splits)

lemma assign_tag_dir: "assign_tag cfg ev s remote cross st = (t, st') \<Longrightarrow> dir st' = dir st"
  by (auto simp: assign_tag_def new_source_tag_fields split: option.splits)

lemma assign_tag_map: "assign_tag cfg ev s remote cross st = (t, st') \<Longrightarrow> uuid_to_tag st' s = Some t"
  by (auto simp: assign_tag_def new_source_tag_fields split: option.splits)

lemma taint_source_inv:
  "hooks_inv st \<Longrightarrow> hooks_inv (taint_source cfg ev s remote cross addr num st)"
  by (auto simp: taint_source_eq assign_tag_inv split: prod.split)

subsection \<open>Sinks\<close>

definition tag_name :: "('w::len word \<rightharpoonup> string) \<Rightarrow> 'w word \<Rightarrow> string" where
  "tag_name m t = (case m (ucast (ucast t :: 32 word)) of Some v \<Rightarrow> v | None \<Rightarrow> [])"

definition map_upto :: "('w::len word \<rightharpoonup> string) \<Rightarrow> ('w word \<rightharpoonup> string) \<Rightarrow> bool" where
  "map_upto m m' \<longleftrightarrow> (\<forall>k v. m k = Some v \<longrightarrow> m' k = Some v) \<and> tag_name m' = tag_name m"

lemma map_upto_refl [simp]: "map_upto m m"
  by (simp add: map_upto_def)

lemma map_upto_trans: "map_upto m m' \<Longrightarrow> map_upto m' m'' \<Longrightarrow> map_upto m m''"
  by (simp add: map_upto_def)

lemma map_upto_index: "map_index m k = (v, m') \<Longrightarrow> map_upto m m'"
proof (cases "m k")
  case None
  assume "map_index m k = (v, m')"
  with None have "m' = m(k \<mapsto> [])" by (simp add: map_index_def)
  with None show ?thesis by (auto simp: map_upto_def tag_name_def split: option.splits)
qed (simp add: map_index_def)

lemma sink_tag_step:
  assumes "sink_tag t (m, rs) = (m', rs')"
  shows "map_upto m m' \<and> tag_members rs' = insert (tag_name m t) (tag_members rs)"
proof -
  obtain v where "map_index m (ucast (ucast t :: 32 word)) = (v, m')" "rs' = std_insert v rs"
    using assms by (auto simp: sink_tag_def Let_def split: prod.splits)
  moreover from this(1) have "v = tag_name m t"
    by (auto simp: map_index_def tag_name_def split: option.splits)
  ultimately show ?thesis using map_upto_index by auto
qed

lemma fold_sink_tag:
  "fold sink_tag ts (m, rs) = (m', rs') \<Longrightarrow>
   map_upto m m' \<and> tag_members rs' = tag_members rs \<union> tag_name m ` set ts"
proof (induction ts arbitrary: m rs)
  case (Cons t ts)
  obtain m1 rs1 where 1: "sink_tag t (m, rs) = (m1, rs1)" by fastforce
  with Cons.prems have "fold sink_tag ts (m1, rs1) = (m', rs')" by simp
  note 2 = Cons.IH [OF this] sink_tag_step [OF 1]
  then have "tag_name m1 = tag_name m" by (simp add: map_upto_def)
  with 2 show ?case by (auto intro: map_upto_trans)
qed simp

definition origins :: "('w::len, 'db) hooks_state \<Rightarrow> addr \<Rightarrow> string set" where
  "origins st i = tag_name (tag_to_tag_uuid st) ` tag_members (tagmap_getb (dir st) i)"

lemma overlay_insert_outcome:
  "theia_tag_overlay_insert dbms d u ev rs q t sub = Inl e \<longleftrightarrow>
     e = Undefined_behaviour \<and> fst (open_connection dbms d) \<and> tag_members rs = {}"
proof -
  have "pack_uuids rs = Inl Undefined_behaviour" if "tag_members rs = {}"
    using that by (simp add: pack_uuids_def tag_members_def)
  then show ?thesis
    by (cases "tag_members rs = {}")
      (auto simp: theia_tag_overlay_insert_def Let_def pack_uuids_join split: option.splits prod.splits)
qed

definition same_taint :: "('w::len, 'db) hooks_state \<Rightarrow> ('w, 'db) hooks_state \<Rightarrow> bool" where
  "same_taint st st' \<longleftrightarrow> dir st' = dir st \<and> uuid_to_tag st' = uuid_to_tag st \<and>
     tag_counter st' = tag_counter st \<and> map_upto (tag_to_tag_uuid st) (tag_to_tag_uuid st')"

lemma same_taint_refl [simp]: "same_taint st st"
  by (simp add: same_taint_def)

lemma same_taint_trans: "same_taint st st' \<Longrightarrow> same_taint st' st'' \<Longrightarrow> same_taint st st''"
  by (auto simp: same_taint_def intro: map_upto_trans)

lemma same_taint_origins: "same_taint st st' \<Longrightarrow> origins st' = origins st"
  by (rule ext) (simp add: same_taint_def origins_def map_upto_def)

lemma same_taint_inv: "same_taint st st' \<Longrightarrow> hooks_inv st \<Longrightarrow> hooks_inv st'"
  by (auto simp: same_taint_def hooks_inv_def map_upto_def)

lemma sink_byte_outcome:
  "case sink_byte dbms cfg ev s i (st, rs) of
     Inl e \<Rightarrow> e = Undefined_behaviour \<and> tag_members rs \<union> origins st i = {}
   | Inr (st', rs') \<Rightarrow> \<not> (fst (open_connection dbms (db st)) \<and> tag_members rs \<union> origins st i = {}) \<and>
       same_taint st st' \<and> tag_members rs' = tag_members rs \<union> origins st i \<and>
       tag_counter_global st' = tag_counter_global st + 1"
proof -
  obtain m rs' where f: "fold sink_tag (elems (tagmap_getb (dir st) i)) (tag_to_tag_uuid st, rs) = (m, rs')"
    by fastforce
  then have m: "map_upto (tag_to_tag_uuid st) m" "tag_members rs' = tag_members rs \<union> origins st i"
    using fold_sink_tag [OF f] by (simp_all add: origins_def tag_members_def)
  let ?t = "uuid_to_string (get_uuid_array_from_value (tag_counter_global st))"
  let ?ins = "theia_tag_overlay_insert dbms (db st) s ev rs' (query_id_global cfg) ?t (subject_uuid_global cfg)"
  note out = overlay_insert_outcome [of dbms "db st" s ev rs' "query_id_global cfg" ?t "subject_uuid_global cfg"]
  show ?thesis
  proof (cases ?ins)
    case (Inl e)
    with out [of e] m(2) show ?thesis by (simp add: sink_byte_def Let_def f)
  next
    case (Inr d)
    have "?ins \<noteq> Inl Undefined_behaviour" using Inr by simp
    with out m(2) have "\<not> (fst (open_connection dbms (db st)) \<and> tag_members rs \<union> origins st i = {})" by simp
    then show ?thesis
      using Inr m by (simp add: sink_byte_def Let_def f same_taint_def)
  qed
qed

lemma fold_and_then_Inl: "fold (\<lambda>i acc. and_then acc (f i)) xs (Inl e) = Inl e"
  by (induction xs) simp_all

lemma sink_fold_outcome:
  "case fold (\<lambda>i acc. and_then acc (sink_byte dbms cfg ev s i)) xs (Inr (st, rs)) of
     Inl e \<Rightarrow> e = Undefined_behaviour \<and> tag_members rs = {} \<and>
       xs \<noteq> [] \<and> origins st (hd xs) = {}
   | Inr (st', rs') \<Rightarrow>
       \<not> (fst (open_connection dbms (db st)) \<and> tag_members rs = {} \<and> xs \<noteq> [] \<and> origins st (hd xs) = {}) \<and>
       same_taint st st' \<and> tag_members rs' = tag_members rs \<union> \<Union> (origins st ` set xs)"
proof (induction xs arbitrary: st rs)
  case Nil
  then show ?case by simp
next
  case (Cons i xs)
  note step = sink_byte_outcome [where dbms = dbms and cfg = cfg and ev = ev and s = s and i = i and st = st and rs = rs]
  show ?case
  proof (cases "sink_byte dbms cfg ev s i (st, rs)")
    case (Inl e)
    with step show ?thesis by (simp add: fold_and_then_Inl)
  next
    case (Inr p)
    obtain st1 rs1 where p: "p = (st1, rs1)" by fastforce
    have 1: "\<not> (fst (open_connection dbms (db st)) \<and> tag_members rs \<union> origins st i = {})" "same_taint st st1"
      "tag_members rs1 = tag_members rs \<union> origins st i"
      using step Inr p by simp_all
    note org = same_taint_origins [OF 1(2)]
    show ?thesis
      using Cons.IH [where st = st1 and rs = rs1] Inr p 1(1) same_taint_trans [OF 1(2)]
      by (auto simp: org 1(3) split: sum.splits)
  qed
qed

lemma set_addr_range: "set (map of_nat [unat a..<unat e]) = {a..<e :: addr}"
proof (intro equalityI subsetI)
  fix x
  assume "x \<in> set (map of_nat [unat a..<unat e] :: addr list)"
  then obtain k where k: "unat a \<le> k" "k < unat e" "x = of_nat k" by auto
  then show "x \<in> {a..<e}"
    using unat_of_nat_below [OF k(2)] by (simp add: word_le_nat_alt word_less_nat_alt)
next
  fix x
  assume "x \<in> {a..<e}"
  then have "unat x \<in> {unat a..<unat e}" by (simp add: word_le_nat_alt word_less_nat_alt)
  then show "x \<in> set (map of_nat [unat a..<unat e])" by (auto intro!: image_eqI [of _ _ "unat x"])
qed

lemma hd_addr_range: "a < e \<Longrightarrow> hd (map of_nat [unat a..<unat e]) = (a :: addr)"
  by (simp add: hd_map word_less_nat_alt upt_conv_Cons)

lemma sink_loop_outcome:
  "case sink_loop dbms cfg ev s a n st of
     Inl e \<Rightarrow> e = Undefined_behaviour \<and> a < a + n \<and> \<not> tainted (tagmap_getb (dir st) a)
   | Inr (st', rs) \<Rightarrow>
       \<not> (a < a + n \<and> fst (open_connection dbms (db st)) \<and> \<not> tainted (tagmap_getb (dir st) a)) \<and>
       same_taint st st' \<and> tag_members rs = \<Union> (origins st ` {a..<a + n})"
proof (cases "a < a + n")
  case True
  then have ne: "[unat a..<unat (a + n)] \<noteq> []" by (simp add: word_less_nat_alt)
  have "origins st a = {} \<longleftrightarrow> \<not> tainted (tagmap_getb (dir st) a)"
    by (simp add: origins_def tainted_iff_members)
  then show ?thesis
    using sink_fold_outcome [where dbms = dbms and cfg = cfg and ev = ev and s = s and st = st
        and xs = "map of_nat [unat a..<unat (a + n)]" and rs = std_empty] True ne
    by (simp only: sink_loop_def for_addr_fold set_addr_range hd_addr_range [OF True])
      (auto simp: split: sum.splits prod.splits)
next
  case False
  then show ?thesis
    by (auto simp: sink_loop_def for_addr.simps [of _ a])
qed

lemma taint_sink_inv:
  assumes "hooks_inv st" "taint_sink dbms cfg ev s a n st = Inr st'"
  shows "hooks_inv st'"
  using assms sink_loop_outcome [where dbms = dbms and cfg = cfg and ev = ev and s = s and a = a and n = n and st = st]
  by (auto simp: taint_sink_def and_then_Inr intro: same_taint_inv split: if_splits sum.splits)

subsection \<open>The handlers\<close>

lemma read_hook_cases:
  assumes "post_read_hook dbms cfg junk inode ctx st = Inr st'"
  obtains "sint (ctx_ret ctx) \<le> 0" "st' = st"
  | u type ep ips remote cross ips' d where "0 < sint (ctx_ret ctx)"
    "get_current_uuid (ip_buffer st) inode (Some no_endpoints) = Inr (u, type, ep, ips)"
    "st' = taint_source cfg ''EVENT_READ'' (uuid_to_string u) remote cross
       (ctx_arg ctx SYSCALL_ARG1) (ctx_ret ctx) (st\<lparr>ip_buffer := ips', db := d\<rparr>)"
  using assms
  by (cases "sint (ctx_ret ctx) \<le> 0")
    (auto simp: post_read_hook_def and_then_Inr Let_def not_le case_prod_beta)

lemma recvfrom_hook_cases:
  assumes "post_recvfrom_hook dbms cfg junk inode ctx st = Inr st'"
  obtains "sint (ctx_ret ctx) \<le> 0" "st' = st"
  | u type ep ips remote cross ips' d where "0 < sint (ctx_ret ctx)"
    "get_current_uuid (ip_buffer st) inode (Some no_endpoints) = Inr (u, type, ep, ips)"
    "st' = taint_source cfg ''EVENT_RECVFROM'' (uuid_to_string u) remote cross
       (ctx_arg ctx SYSCALL_ARG1) (ctx_ret ctx) (st\<lparr>ip_buffer := ips', db := d\<rparr>)"
  using assms
  by (cases "sint (ctx_ret ctx) \<le> 0")
    (auto simp: post_recvfrom_hook_def and_then_Inr Let_def not_le case_prod_beta)

lemma source_endpoints:
  assumes "get_current_uuid ips inode (Some e) = Inr (u, type, pep, ips')"
  shows "\<exists>e'. pep = Some e'"
  using assms
  by (auto simp: get_current_uuid_def Let_def and_then_Inr iter_next_def split: if_splits list.splits)

lemma source_hooks_return:
  assumes "get_current_uuid (ip_buffer st) inode (Some no_endpoints) = Inr (u, type, pep, ips)"
  shows "\<exists>st'. post_read_hook dbms cfg junk inode ctx st = Inr st'"
    "\<exists>st'. post_recvfrom_hook dbms cfg junk inode ctx st = Inr st'"
  using source_endpoints [OF assms]
  by (auto simp: post_read_hook_def post_recvfrom_hook_def assms deref_def Let_def case_prod_beta)

lemma source_hooks_inv:
  assumes "hooks_inv st"
    and "post_read_hook dbms cfg junk inode ctx st = Inr st' \<or>
      post_recvfrom_hook dbms cfg junk inode ctx st = Inr st'"
  shows "hooks_inv st'"
  using assms(2)
proof
  assume "post_read_hook dbms cfg junk inode ctx st = Inr st'"
  then show ?thesis
    by (rule read_hook_cases) (simp_all add: assms(1) taint_source_inv)
next
  assume "post_recvfrom_hook dbms cfg junk inode ctx st = Inr st'"
  then show ?thesis
    by (rule recvfrom_hook_cases) (simp_all add: assms(1) taint_source_inv)
qed

lemma sink_hooks_inv:
  assumes "hooks_inv st"
    and "post_write_hook dbms cfg inode ctx st = Inr st' \<or> post_sendto_hook dbms cfg inode ctx st = Inr st'"
  shows "hooks_inv st'"
  using assms
  by (auto simp: post_write_hook_def post_sendto_hook_def and_then_Inr dest!: taint_sink_inv [rotated]
      split: if_splits)

end
