(* ===== verification/Syscalls.thy ===== *)
theory Syscalls
  imports SyscallHooks HooksFacts
begin

text \<open>
  The system call descriptors (\<^verbatim>\<open>syscall_desc64.cc\<close>, for kernels from 3.2 on), their
  registration functions, and the notifications before and after a system call
  (\<^verbatim>\<open>sysenter_save\<close>, \<^verbatim>\<open>sysexit_save\<close> and the replay counters of \<^verbatim>\<open>libdft_api64.cc\<close>). A
  function pointer is a name of the type \<open>post_hook\<close>, and \<open>run_post\<close> is the call through it:
  the handlers of the table and the four that the tool registers.
\<close>

datatype post_hook =
    P_read
  | P_poll
  | P_mmap
  | P_readv
  | P_mincore
  | P_shmctl
  | P_accept_accept4_getsockname_getpeername
  | P_recvfrom
  | P_recvmsg
  | P_getsockopt
  | P_semctl
  | P_msgrcv
  | P_msgctl
  | P_fcntl
  | P_getdents
  | P_getcwd
  | P_syslog
  | P_getgroups
  | P_rt_sigpending
  | P_modify_ldt
  | P_sysctl
  | P_arch_prctl
  | P_quotactl
  | P_getxattr
  | P_listxattr
  | P_io_getevents
  | P_lookup_dcookie
  | P_epoll_wait
  | P_get_mempolicy
  | P_mq_timedreceive
  | P_readlinkat
  | P_recvmmsg
  | P_sendmmsg
  | P_process_vm_readv
  | Dta_read | Dta_recvfrom | Dta_write | Dta_sendto

record 'h syscall_desc_t =
  nargs :: nat
  save_args :: nat
  retval_args :: nat
  map_args :: "64 word list"
  pre :: "'h option"
  post :: "'h option"

definition desc :: "nat \<Rightarrow> nat \<Rightarrow> nat \<Rightarrow> 64 word list \<Rightarrow> 'h option \<Rightarrow> 'h syscall_desc_t" where
  "desc n s r m p = \<lparr>nargs = n, save_args = s, retval_args = r, map_args = m, pre = None, post = p\<rparr>"

definition no_map :: "64 word list" where
  "no_map = [0, 0, 0, 0, 0, 0]"

subsection \<open>The table\<close>

definition syscall_table_0 :: "ABI \<Rightarrow> post_hook syscall_desc_t list" where
  "syscall_table_0 abi =
     [ desc 3 1 0 no_map (Some P_read)
     , desc 3 0 0 no_map None
     , desc 3 0 0 no_map None
     , desc 1 0 0 no_map None
     , desc 2 0 1 [0, sizeof abi Stat, 0, 0, 0, 0] None
     , desc 2 0 1 [0, sizeof abi Stat, 0, 0, 0, 0] None
     , desc 2 0 1 [0, sizeof abi Stat, 0, 0, 0, 0] None
     , desc 3 1 0 no_map (Some P_poll)
     , desc 3 0 0 no_map None
     , desc 6 1 0 no_map (Some P_mmap)
     , desc 3 0 0 no_map None
     , desc 2 0 0 no_map None
     , desc 1 0 0 no_map None
     , desc 4 0 1 [0, 0, sizeof abi Sigaction, 0, 0, 0] None
     , desc 4 0 1 [0, 0, sizeof abi Sigset_t, 0, 0, 0] None
     , desc 1 0 0 no_map None
     , desc 3 1 0 no_map None
     , desc 4 1 0 no_map (Some P_read)
     , desc 4 0 0 no_map None
     , desc 3 1 0 no_map (Some P_readv)
     , desc 3 0 0 no_map None
     , desc 2 0 0 no_map None
     , desc 1 0 1 [sizeof_int * 2, 0, 0, 0, 0, 0] None
     , desc 5 0 1 [0, sizeof abi Fd_set, sizeof abi Fd_set, sizeof abi Fd_set, sizeof abi Timeval, 0] None
     , desc 0 0 0 no_map None
     , desc 5 0 0 no_map None
     , desc 3 0 0 no_map None
     , desc 3 1 0 no_map (Some P_mincore)
     , desc 3 0 0 no_map None
     , desc 3 0 0 no_map None
     , desc 3 0 0 no_map None
     , desc 3 1 0 no_map (Some P_shmctl)
     , desc 1 0 0 no_map None
     , desc 2 0 0 no_map None
     , desc 0 0 0 no_map None
     , desc 2 0 1 [0, sizeof abi Timespec, 0, 0, 0, 0] None
     , desc 2 0 1 [0, sizeof abi Itimerval, 0, 0, 0, 0] None
     , desc 1 0 0 no_map None
     , desc 3 0 1 [0, 0, sizeof abi Itimerval, 0, 0, 0] None
     , desc 0 0 0 no_map None
     , desc 4 0 1 [0, 0, sizeof abi Off_t, 0, 0, 0] None
     , desc 3 0 0 no_map None
     , desc 3 0 0 no_map None
     , desc 3 1 0 no_map (Some P_accept_accept4_getsockname_getpeername)
     , desc 6 0 0 no_map None
     , desc 6 1 0 no_map (Some P_recvfrom)
     , desc 3 0 0 no_map None
     , desc 3 1 0 no_map (Some P_recvmsg)
     , desc 3 0 0 no_map None
     , desc 3 0 0 no_map None
     , desc 2 0 0 no_map None
     , desc 3 1 0 no_map (Some P_accept_accept4_getsockname_getpeername)
     , desc 3 1 0 no_map (Some P_accept_accept4_getsockname_getpeername)
     , desc 4 0 1 [0, 0, 0, sizeof_int * 2, 0, 0] None
     , desc 5 0 0 no_map None
     , desc 5 1 0 no_map (Some P_getsockopt)
     , desc 5 0 1 [0, 0, sizeof_int, 0, 0, 0] None
     , desc 0 0 0 no_map None
     , desc 0 0 0 no_map None
     , desc 1 0 0 no_map None
     , desc 1 0 0 no_map None
     , desc 4 0 1 [0, sizeof_int, 0, sizeof abi Rusage, 0, 0] None
     , desc 2 0 0 no_map None
     , desc 1 0 1 [sizeof abi New_utsname, 0, 0, 0, 0, 0] None
     , desc 3 0 0 no_map None
     , desc 3 0 0 no_map None
     , desc 4 1 0 no_map (Some P_semctl)
     , desc 1 0 0 no_map None]"

definition syscall_table_68 :: "ABI \<Rightarrow> post_hook syscall_desc_t list" where
  "syscall_table_68 abi =
     [ desc 2 0 0 no_map None
     , desc 4 0 0 no_map None
     , desc 5 1 0 no_map (Some P_msgrcv)
     , desc 3 1 0 no_map (Some P_msgctl)
     , desc 3 1 0 no_map (Some P_fcntl)
     , desc 2 0 0 no_map None
     , desc 1 0 0 no_map None
     , desc 1 0 0 no_map None
     , desc 2 0 0 no_map None
     , desc 2 0 0 no_map None
     , desc 3 1 0 no_map (Some P_getdents)
     , desc 2 1 0 no_map (Some P_getcwd)
     , desc 1 0 0 no_map None
     , desc 1 0 0 no_map None
     , desc 2 0 0 no_map None
     , desc 2 0 0 no_map None
     , desc 1 0 0 no_map None
     , desc 2 0 0 no_map None
     , desc 2 0 0 no_map None
     , desc 1 0 0 no_map None
     , desc 2 0 0 no_map None
     , desc 3 1 0 no_map (Some P_read)
     , desc 2 0 0 no_map None
     , desc 2 0 0 no_map None
     , desc 3 0 0 no_map None
     , desc 3 0 0 no_map None
     , desc 3 0 0 no_map None
     , desc 1 0 0 no_map None
     , desc 2 0 1 [sizeof abi Timeval, sizeof abi Timezone, 0, 0, 0, 0] None
     , desc 2 0 1 [0, sizeof abi Rlimit, 0, 0, 0, 0] None
     , desc 2 0 1 [0, sizeof abi Rusage, 0, 0, 0, 0] None
     , desc 1 0 1 [sizeof abi Sysinfo, 0, 0, 0, 0, 0] None
     , desc 1 0 1 [sizeof abi Tms, 0, 0, 0, 0, 0] None
     , desc 4 0 0 no_map None
     , desc 0 0 0 no_map None
     , desc 3 1 0 no_map (Some P_syslog)
     , desc 0 0 0 no_map None
     , desc 1 0 0 no_map None
     , desc 1 0 0 no_map None
     , desc 0 0 0 no_map None
     , desc 0 0 0 no_map None
     , desc 2 0 0 no_map None
     , desc 0 0 0 no_map None
     , desc 0 0 0 no_map None
     , desc 0 0 0 no_map None
     , desc 2 0 0 no_map None
     , desc 2 0 0 no_map None
     , desc 2 1 0 no_map (Some P_getgroups)
     , desc 2 0 0 no_map None
     , desc 3 0 0 no_map None
     , desc 3 0 1 [sizeof abi Uid_t, sizeof abi Uid_t, sizeof abi Uid_t, 0, 0, 0] None
     , desc 3 0 0 no_map None
     , desc 3 0 1 [sizeof abi Gid_t, sizeof abi Gid_t, sizeof abi Gid_t, 0, 0, 0] None
     , desc 1 0 0 no_map None
     , desc 1 0 0 no_map None
     , desc 1 0 0 no_map None
     , desc 1 0 0 no_map None
     , desc 2 0 1 [sizeof_pointer, sizeof_pointer, 0, 0, 0, 0] None
     , desc 2 0 0 no_map None
     , desc 2 1 0 no_map (Some P_rt_sigpending)
     , desc 4 0 1 [0, sizeof abi Siginfo_t, 0, 0, 0, 0] None
     , desc 3 0 1 [0, 0, sizeof abi Siginfo_t, 0, 0, 0] None
     , desc 1 0 0 no_map None
     , desc 2 0 1 [0, sizeof abi Stack_t, 0, 0, 0, 0] None
     , desc 2 0 0 no_map None
     , desc 3 0 0 no_map None
     , desc 1 0 0 no_map None
     , desc 1 0 0 no_map None]"

definition syscall_table_136 :: "ABI \<Rightarrow> post_hook syscall_desc_t list" where
  "syscall_table_136 abi =
     [ desc 2 0 1 [0, sizeof abi Ustat, 0, 0, 0, 0] None
     , desc 2 0 1 [0, sizeof abi Statfs, 0, 0, 0, 0] None
     , desc 2 0 1 [0, sizeof abi Statfs, 0, 0, 0, 0] None
     , desc 3 0 0 no_map None
     , desc 2 0 0 no_map None
     , desc 3 0 0 no_map None
     , desc 2 0 0 no_map None
     , desc 2 0 1 [0, sizeof abi Sched_param, 0, 0, 0, 0] None
     , desc 3 0 0 no_map None
     , desc 1 0 0 no_map None
     , desc 1 0 0 no_map None
     , desc 1 0 0 no_map None
     , desc 2 0 1 [0, sizeof abi Timespec, 0, 0, 0, 0] None
     , desc 2 0 0 no_map None
     , desc 2 0 0 no_map None
     , desc 1 0 0 no_map None
     , desc 0 0 0 no_map None
     , desc 0 0 0 no_map None
     , desc 3 1 0 no_map (Some P_modify_ldt)
     , desc 2 0 0 no_map None
     , desc 1 1 0 no_map (Some P_sysctl)
     , desc 5 0 0 no_map None
     , desc 2 1 0 no_map (Some P_arch_prctl)
     , desc 1 0 1 [sizeof abi Timex, 0, 0, 0, 0, 0] None
     , desc 2 0 0 no_map None
     , desc 1 0 0 no_map None
     , desc 0 0 0 no_map None
     , desc 1 0 0 no_map None
     , desc 2 0 0 no_map None
     , desc 5 0 0 no_map None
     , desc 2 0 0 no_map None
     , desc 2 0 0 no_map None
     , desc 1 0 0 no_map None
     , desc 4 0 0 no_map None
     , desc 2 0 0 no_map None
     , desc 2 0 0 no_map None
     , desc 1 0 0 no_map None
     , desc 3 0 0 no_map None
     , desc 0 0 0 no_map None
     , desc 3 0 0 no_map None
     , desc 2 0 0 no_map None
     , desc 0 0 0 no_map None
     , desc 0 0 0 no_map None
     , desc 4 1 0 no_map (Some P_quotactl)
     , desc 3 1 0 no_map None
     , desc 5 0 0 no_map None
     , desc 5 0 0 no_map None
     , desc 0 0 0 no_map None
     , desc 0 0 0 no_map None
     , desc 0 0 0 no_map None
     , desc 0 0 0 no_map None
     , desc 3 0 0 no_map None
     , desc 5 0 0 no_map None
     , desc 5 0 0 no_map None
     , desc 5 0 0 no_map None
     , desc 4 1 0 no_map (Some P_getxattr)
     , desc 4 1 0 no_map (Some P_getxattr)
     , desc 4 1 0 no_map (Some P_getxattr)
     , desc 3 1 0 no_map (Some P_listxattr)
     , desc 3 1 0 no_map (Some P_listxattr)
     , desc 3 1 0 no_map (Some P_listxattr)
     , desc 2 0 0 no_map None
     , desc 2 0 0 no_map None
     , desc 2 0 0 no_map None
     , desc 2 0 0 no_map None
     , desc 1 0 1 [sizeof abi Time_t, 0, 0, 0, 0, 0] None
     , desc 6 0 0 no_map None
     , desc 3 0 0 no_map None
     , desc 3 0 1 [0, 0, sizeof abi Cpu_set_t, 0, 0, 0] None
     , desc 1 0 0 no_map None]"

definition syscall_table_206 :: "ABI \<Rightarrow> post_hook syscall_desc_t list" where
  "syscall_table_206 abi =
     [ desc 2 0 1 [0, sizeof abi Aio_context_t, 0, 0, 0, 0] None
     , desc 1 0 0 no_map None
     , desc 5 1 0 no_map (Some P_io_getevents)
     , desc 3 0 0 no_map None
     , desc 3 0 1 [0, 0, sizeof abi Io_event, 0, 0, 0] None
     , desc 1 0 1 [sizeof abi User_desc, 0, 0, 0, 0, 0] None
     , desc 3 1 0 no_map (Some P_lookup_dcookie)
     , desc 1 0 0 no_map None
     , desc 4 0 0 no_map None
     , desc 4 1 0 no_map (Some P_epoll_wait)
     , desc 5 0 0 no_map None
     , desc 3 1 0 no_map (Some P_getdents)
     , desc 1 0 0 no_map None
     , desc 0 0 0 no_map None
     , desc 3 0 0 no_map None
     , desc 4 0 0 no_map None
     , desc 3 0 1 [0, 0, sizeof abi Timer_t, 0, 0, 0] None
     , desc 4 0 1 [0, 0, 0, sizeof abi Itimerspec, 0, 0] None
     , desc 2 0 1 [0, sizeof abi Itimerspec, 0, 0, 0, 0] None
     , desc 1 0 0 no_map None
     , desc 1 0 0 no_map None
     , desc 2 0 0 no_map None
     , desc 2 0 1 [0, sizeof abi Timespec, 0, 0, 0, 0] None
     , desc 2 0 1 [0, sizeof abi Timespec, 0, 0, 0, 0] None
     , desc 4 0 1 [0, 0, 0, sizeof abi Timespec, 0, 0] None
     , desc 1 0 0 no_map None
     , desc 4 1 0 no_map (Some P_epoll_wait)
     , desc 4 0 0 no_map None
     , desc 3 0 0 no_map None
     , desc 2 0 0 no_map None
     , desc 0 0 0 no_map None
     , desc 6 0 0 no_map None
     , desc 3 0 0 no_map None
     , desc 5 1 0 no_map (Some P_get_mempolicy)
     , desc 4 0 0 no_map None
     , desc 1 0 0 no_map None
     , desc 5 0 0 no_map None
     , desc 5 1 0 no_map (Some P_mq_timedreceive)
     , desc 2 0 0 no_map None
     , desc 3 0 1 [0, 0, sizeof abi Mq_attr, 0, 0, 0] None
     , desc 4 0 0 no_map None
     , desc 4 0 1 [0, 0, sizeof abi Siginfo_t, 0, sizeof abi Rusage, 0] None
     , desc 5 0 0 no_map None
     , desc 4 0 0 no_map None
     , desc 5 0 0 no_map None
     , desc 3 0 0 no_map None
     , desc 2 0 0 no_map None
     , desc 0 0 0 no_map None
     , desc 3 0 0 no_map None
     , desc 2 0 0 no_map None
     , desc 4 0 0 no_map None
     , desc 4 0 0 no_map None
     , desc 3 0 0 no_map None
     , desc 4 0 0 no_map None
     , desc 5 0 0 no_map None
     , desc 3 0 0 no_map None
     , desc 4 1 0 [0, 0, sizeof abi Stat, 0, 0, 0] None
     , desc 3 0 0 no_map None
     , desc 4 0 0 no_map None
     , desc 5 0 0 no_map None
     , desc 3 0 0 no_map None
     , desc 4 1 0 no_map (Some P_readlinkat)
     , desc 3 0 0 no_map None
     , desc 3 0 0 no_map None
     , desc 6 0 1 [0, sizeof abi Fd_set, sizeof abi Fd_set, sizeof abi Fd_set, 0, 0] None
     , desc 5 1 0 no_map (Some P_poll)
     , desc 1 0 0 no_map None
     , desc 2 0 0 no_map None
     , desc 3 0 1 [0, sizeof_pointer, sizeof_size_t, 0, 0, 0] None]"

definition syscall_table_275 :: "ABI \<Rightarrow> post_hook syscall_desc_t list" where
  "syscall_table_275 abi =
     [ desc 6 0 1 [0, sizeof abi Loff_t, 0, sizeof abi Loff_t, 0, 0] None
     , desc 4 0 0 no_map None
     , desc 4 0 0 no_map None
     , desc 4 0 0 no_map None
     , desc 6 0 1 [0, 0, 0, 0, sizeof_int, 0] None
     , desc 4 0 0 no_map None
     , desc 6 1 0 no_map (Some P_epoll_wait)
     , desc 3 0 0 no_map None
     , desc 2 0 0 no_map None
     , desc 1 0 0 no_map None
     , desc 4 0 0 no_map None
     , desc 4 0 1 [0, 0, 0, sizeof abi Itimerspec, 0, 0] None
     , desc 2 0 1 [0, sizeof abi Itimerspec, 0, 0, 0, 0] None
     , desc 4 1 0 no_map (Some P_accept_accept4_getsockname_getpeername)
     , desc 4 0 0 no_map None
     , desc 2 0 0 no_map None
     , desc 1 0 0 no_map None
     , desc 3 0 0 no_map None
     , desc 2 0 1 [sizeof_int * 2, 0, 0, 0, 0, 0] None
     , desc 1 0 0 no_map None
     , desc 5 1 0 no_map (Some P_readv)
     , desc 5 0 0 no_map None
     , desc 4 0 1 [0, 0, 0, sizeof abi Siginfo_t, 0, 0] None
     , desc 5 0 1 [sizeof abi Perf_event_attr, 0, 0, 0, 0, 0] None
     , desc 5 1 0 no_map (Some P_recvmmsg)
     , desc 2 0 0 no_map None
     , desc 5 0 0 no_map None
     , desc 4 0 1 [0, 0, 0, sizeof abi Rlimit, 0, 0] None
     , desc 5 0 1 [0, 0, sizeof abi File_handle_libdft, sizeof_int, 0, 0] None
     , desc 3 0 1 [0, sizeof abi File_handle_libdft, 0, 0, 0, 0] None
     , desc 2 0 1 [0, sizeof abi Timex, 0, 0, 0, 0] None
     , desc 1 0 0 no_map None
     , desc 4 1 0 no_map (Some P_sendmmsg)
     , desc 2 0 0 no_map None
     , desc 3 0 1 [sizeof_unsigned, sizeof_unsigned, sizeof abi Getcpu_cache, 0, 0, 0] None
     , desc 6 1 0 no_map (Some P_process_vm_readv)
     , desc 6 0 0 no_map None]"

definition syscall_desc :: "ABI \<Rightarrow> post_hook syscall_desc_t list" where
  "syscall_desc abi = syscall_table_0 abi @ syscall_table_68 abi @ syscall_table_136 abi @ syscall_table_206 abi @ syscall_table_275 abi"

lemmas syscall_table_defs = syscall_table_0_def syscall_table_68_def syscall_table_136_def syscall_table_206_def syscall_table_275_def

subsection \<open>Registration\<close>

definition syscall_set_pre ::
  "'h syscall_desc_t option \<Rightarrow> 'h option \<Rightarrow> nat \<times> 'h syscall_desc_t option" where
  "syscall_set_pre d h =
     (case (d, h) of
        (Some d, Some h) \<Rightarrow> (0, Some (d\<lparr>pre := Some h, save_args := 1\<rparr>))
      | _ \<Rightarrow> (1, d))"

definition syscall_set_post ::
  "'h syscall_desc_t option \<Rightarrow> 'h option \<Rightarrow> nat \<times> 'h syscall_desc_t option" where
  "syscall_set_post d h =
     (case (d, h) of
        (Some d, Some h) \<Rightarrow> (0, Some (d\<lparr>post := Some h, save_args := 1\<rparr>))
      | _ \<Rightarrow> (1, d))"

definition syscall_clr_pre :: "'h syscall_desc_t option \<Rightarrow> nat \<times> 'h syscall_desc_t option" where
  "syscall_clr_pre d =
     (case d of
        None \<Rightarrow> (1, None)
      | Some d \<Rightarrow>
          (let d = d\<lparr>pre := None\<rparr> in (0, Some (if post d = None then d\<lparr>save_args := 0\<rparr> else d))))"

definition syscall_clr_post :: "'h syscall_desc_t option \<Rightarrow> nat \<times> 'h syscall_desc_t option" where
  "syscall_clr_post d =
     (case d of
        None \<Rightarrow> (1, None)
      | Some d \<Rightarrow>
          (let d = d\<lparr>post := None\<rparr> in (0, Some (if pre d = None then d\<lparr>save_args := 0\<rparr> else d))))"

definition set_post_at :: "nat \<Rightarrow> 'h \<Rightarrow> 'h syscall_desc_t list \<Rightarrow> 'h syscall_desc_t list" where
  "set_post_at nr h t =
     (case syscall_set_post (Some (t ! nr)) (Some h) of (_, Some d) \<Rightarrow> t[nr := d] | _ \<Rightarrow> t)"

text \<open>
  The registrations of the tool's \<^verbatim>\<open>main\<close>: \<^verbatim>\<open>read\<close>, \<^verbatim>\<open>recvfrom\<close>, \<^verbatim>\<open>write\<close> and \<^verbatim>\<open>sendto\<close>
  have the numbers 0, 45, 1 and 44.
\<close>

definition tool_syscall_desc :: "ABI \<Rightarrow> post_hook syscall_desc_t list" where
  "tool_syscall_desc abi =
     set_post_at 44 Dta_sendto (set_post_at 1 Dta_write
       (set_post_at 45 Dta_recvfrom (set_post_at 0 Dta_read (syscall_desc abi))))"

subsection \<open>Calling a handler\<close>

record 'db hook_env =
  env_abi :: ABI
  env_guest :: guest
  env_dbms :: "'db DBMS"
  env_cfg :: hooks_config
  env_junk :: CDM_UUID_Type
  env_inode :: string

type_synonym ('w, 'db) hook_result = "(syscall_ctx_t \<times> ('w, 'db) hooks_state) result"

definition on_dir ::
  "'w::len word tag_hook \<Rightarrow> syscall_ctx_t \<Rightarrow> ('w, 'db) hooks_state \<Rightarrow> ('w, 'db) hook_result" where
  "on_dir h ctx st = (let (ctx', d) = h ctx (dir st) in Inr (ctx', st\<lparr>dir := d\<rparr>))"

fun run_post ::
  "'db hook_env \<Rightarrow> post_hook \<Rightarrow> syscall_ctx_t \<Rightarrow> ('w::len, 'db) hooks_state \<Rightarrow> ('w, 'db) hook_result" where
    "run_post e P_read = on_dir post_read_clear"
  | "run_post e P_poll = on_dir (post_poll_hook (env_abi e))"
  | "run_post e P_mmap = on_dir (post_mmap_hook (env_abi e))"
  | "run_post e P_readv = on_dir (post_readv_hook (env_abi e) (env_guest e))"
  | "run_post e P_mincore = on_dir post_mincore_hook"
  | "run_post e P_shmctl = on_dir (post_shmctl_hook (env_abi e))"
  | "run_post e P_accept_accept4_getsockname_getpeername =
       on_dir (post_accept_accept4_getsockname_getpeername_hook (env_guest e))"
  | "run_post e P_recvfrom = on_dir (post_recvfrom_clear (env_guest e))"
  | "run_post e P_recvmsg = on_dir (post_recvmsg_hook (env_abi e) (env_guest e))"
  | "run_post e P_getsockopt = on_dir (post_getsockopt_hook (env_guest e))"
  | "run_post e P_semctl = on_dir (post_semctl_hook (env_abi e) (env_guest e))"
  | "run_post e P_msgrcv = on_dir post_msgrcv_hook"
  | "run_post e P_msgctl = on_dir (post_msgctl_hook (env_abi e))"
  | "run_post e P_fcntl = on_dir (post_fcntl_hook (env_abi e))"
  | "run_post e P_getdents = on_dir post_getdents_hook"
  | "run_post e P_getcwd = on_dir post_getcwd_hook"
  | "run_post e P_syslog = on_dir post_syslog_hook"
  | "run_post e P_getgroups = on_dir (post_getgroups_hook (env_abi e))"
  | "run_post e P_rt_sigpending = on_dir post_rt_sigpending_hook"
  | "run_post e P_modify_ldt = on_dir post_modify_ldt_hook"
  | "run_post e P_sysctl = on_dir (post__sysctl_hook (env_abi e) (env_guest e))"
  | "run_post e P_arch_prctl = on_dir (post_arch_prctl_hook (env_abi e))"
  | "run_post e P_quotactl = on_dir (post_quotactl_hook (env_abi e))"
  | "run_post e P_getxattr = on_dir post_getxattr_hook"
  | "run_post e P_listxattr = on_dir post_listxattr_hook"
  | "run_post e P_io_getevents = on_dir (post_io_getevents_hook (env_abi e))"
  | "run_post e P_lookup_dcookie = on_dir post_lookup_dcookie_hook"
  | "run_post e P_epoll_wait = on_dir (post_epoll_wait_hook (env_abi e))"
  | "run_post e P_get_mempolicy = on_dir (post_get_mempolicy_hook (env_abi e))"
  | "run_post e P_mq_timedreceive = on_dir post_mq_timedreceive_hook"
  | "run_post e P_readlinkat = on_dir post_readlinkat_hook"
  | "run_post e P_recvmmsg = on_dir (post_recvmmsg_hook (env_abi e) (env_guest e))"
  | "run_post e P_sendmmsg = on_dir (post_sendmmsg_hook (env_abi e))"
  | "run_post e P_process_vm_readv = (\<lambda>ctx st.
       case post_process_vm_readv_hook (env_abi e) (env_guest e) ctx (dir st) of
         None \<Rightarrow> Inl Divergence
       | Some (ctx', d) \<Rightarrow> Inr (ctx', st\<lparr>dir := d\<rparr>))"
  | "run_post e Dta_read = (\<lambda>ctx st.
       and_then (post_read_hook (env_dbms e) (env_cfg e) (env_junk e) (env_inode e) ctx st) (\<lambda>st. Inr (ctx, st)))"
  | "run_post e Dta_recvfrom = (\<lambda>ctx st.
       and_then (post_recvfrom_hook (env_dbms e) (env_cfg e) (env_junk e) (env_inode e) ctx st)
         (\<lambda>st. Inr (ctx, st)))"
  | "run_post e Dta_write = (\<lambda>ctx st.
       and_then (post_write_hook (env_dbms e) (env_cfg e) (env_inode e) ctx st) (\<lambda>st. Inr (ctx, st)))"
  | "run_post e Dta_sendto = (\<lambda>ctx st.
       and_then (post_sendto_hook (env_dbms e) (env_cfg e) (env_inode e) ctx st) (\<lambda>st. Inr (ctx, st)))"

subsection \<open>Notifications\<close>

record thread_data =
  app_syscall :: "64 word"
  record_pid :: "32 word"
  syscall_cnt :: "32 word"
  sysnum :: "32 word"
  ignore_flag :: "64 word"

record (overloaded) ('w::len, 'db) tool_state =
  hooks :: "('w, 'db) hooks_state"
  tdata :: "thread_data option"
  syscall_ctx :: syscall_ctx_t
  global_syscall_cnt :: "64 word"

definition thread_start :: "thread_data \<Rightarrow> 32 word \<Rightarrow> thread_data" where
  "thread_start uninitialised pid =
     uninitialised\<lparr>app_syscall := 997, record_pid := pid, syscall_cnt := 0\<rparr>"

definition ignored_syscall :: "32 word \<Rightarrow> bool" where
  "ignored_syscall n \<longleftrightarrow> n \<in> {400, 401, 402, 403, 404, 405, 406, 407, 154, 525, 205, 211}"

definition increment_syscall_cnt ::
  "guest \<Rightarrow> 32 word \<Rightarrow> thread_data \<times> 64 word \<Rightarrow> thread_data \<times> 64 word" where
  "increment_syscall_cnt g n = (\<lambda>(td, cnt).
     if \<not> ignored_syscall n then
       (if ignore_flag td \<noteq> 0 then
          (if rd32 g (ignore_flag td) = 0 then (td\<lparr>syscall_cnt := syscall_cnt td + 1\<rparr>, cnt + 1)
           else (td, cnt))
        else (td\<lparr>syscall_cnt := syscall_cnt td + 1\<rparr>, cnt + 1))
     else (td, cnt))"

definition inst_syscall_end ::
  "guest \<Rightarrow> ('w::len, 'db) tool_state \<Rightarrow> ('w, 'db) tool_state result" where
  "inst_syscall_end g st =
     (case tdata st of
        None \<Rightarrow> Inl Undefined_behaviour
      | Some td \<Rightarrow>
          (let td = (if app_syscall td \<noteq> 999 then td\<lparr>app_syscall := 997\<rparr> else td);
               (td, cnt) = increment_syscall_cnt g (sysnum td) (td, global_syscall_cnt st);
               td = td\<lparr>sysnum := 997\<rparr>;
               (td, cnt) = increment_syscall_cnt g (sysnum td) (td, cnt)
           in Inr (st\<lparr>tdata := Some td, global_syscall_cnt := cnt\<rparr>)))"

definition SYSCALL_MAX :: "64 word" where
  "SYSCALL_MAX = 312"

definition save_syscall_args :: "nat \<Rightarrow> (nat \<Rightarrow> 64 word) \<Rightarrow> (nat \<Rightarrow> 64 word) \<Rightarrow> nat \<Rightarrow> 64 word" where
  "save_syscall_args n pin_arg arg =
     (if n \<le> 6 then (\<lambda>i. if i < n then pin_arg i else arg i) else arg)"

definition sysenter_save ::
  "'db hook_env \<Rightarrow> post_hook syscall_desc_t list \<Rightarrow> 64 word \<Rightarrow> (nat \<Rightarrow> 64 word) \<Rightarrow>
   ('w::len, 'db) tool_state \<Rightarrow> ('w, 'db) tool_state result" where
  "sysenter_save e t syscall_nr pin_arg st =
     (if SYSCALL_MAX \<le> syscall_nr
      then Inr (st\<lparr>syscall_ctx := (syscall_ctx st)\<lparr>ctx_nr := - 1\<rparr>\<rparr>)
      else
        (let d = t ! unat syscall_nr; ctx = (syscall_ctx st)\<lparr>ctx_nr := ucast syscall_nr\<rparr> in
         if save_args d \<noteq> 0 \<or> retval_args d \<noteq> 0 then
           (let ctx = ctx\<lparr>ctx_arg := save_syscall_args (nargs d) pin_arg (ctx_arg ctx)\<rparr> in
            case pre d of
              None \<Rightarrow> Inr (st\<lparr>syscall_ctx := ctx\<rparr>)
            | Some h \<Rightarrow> and_then (run_post e h ctx (hooks st)) (\<lambda>(ctx, hs).
                Inr (st\<lparr>syscall_ctx := ctx, hooks := hs\<rparr>)))
         else Inr (st\<lparr>syscall_ctx := ctx\<rparr>)))"

definition default_post ::
  "'h syscall_desc_t \<Rightarrow> syscall_ctx_t \<Rightarrow> 'u::linorder tag_dir_t \<Rightarrow> 'u tag_dir_t" where
  "default_post d ctx m =
     (if ctx_ret ctx < 0 then m
      else fold (\<lambda>i m. if map_args d ! i > 0 \<and> ctx_arg ctx i \<noteq> 0
                       then tagmap_clrn m (ctx_arg ctx i) (map_args d ! i) else m)
        [0..<nargs d] m)"

definition sysexit_save ::
  "'db hook_env \<Rightarrow> post_hook syscall_desc_t list \<Rightarrow> 64 word \<Rightarrow>
   ('w::len, 'db) tool_state \<Rightarrow> ('w, 'db) tool_state result" where
  "sysexit_save e t pin_ret st =
     and_then (inst_syscall_end (env_guest e) st) (\<lambda>st.
     let syscall_nr = sint (ctx_nr (syscall_ctx st)) in
     if syscall_nr < 0 then Inr st
     else
       (let d = t ! nat syscall_nr in
        if save_args d \<noteq> 0 \<or> retval_args d \<noteq> 0 then
          (let ctx = (syscall_ctx st)\<lparr>ctx_ret := pin_ret\<rparr> in
           case post d of
             Some h \<Rightarrow> and_then (run_post e h ctx (hooks st)) (\<lambda>(ctx, hs).
               Inr (st\<lparr>syscall_ctx := ctx, hooks := hs\<rparr>))
           | None \<Rightarrow> Inr (st\<lparr>syscall_ctx := ctx,
               hooks := (hooks st)\<lparr>dir := default_post d ctx (dir (hooks st))\<rparr>\<rparr>))
        else Inr st))"

subsection \<open>Facts on the handlers\<close>

definition is_source :: "post_hook \<Rightarrow> bool" where
  "is_source h \<longleftrightarrow> h = Dta_read \<or> h = Dta_recvfrom"

definition hook_clears ::
  "('w::len, 'db) hook_result \<Rightarrow> ('w, 'db) hooks_state \<Rightarrow> bool" where
  "hook_clears r st = (case r of Inl e \<Rightarrow> True | Inr (ctx', st') \<Rightarrow> only_clears (dir st) (dir st'))"

lemma on_dir_clears:
  "only_clears (dir st) (snd (h ctx (dir st))) \<Longrightarrow> hook_clears (on_dir h ctx st) st"
  by (auto simp: on_dir_def hook_clears_def split: prod.splits)

lemmas buffer_hook_defs =
  post_read_clear_def post_getgroups_hook_def post_readlinkat_hook_def post_mmap_hook_def
  post_readv_hook_def post_epoll_wait_hook_def post_poll_hook_def post_mq_timedreceive_hook_def
  post_get_mempolicy_hook_def post_lookup_dcookie_hook_def post_io_getevents_hook_def
  post_listxattr_hook_def post_getxattr_hook_def post_getdents_hook_def post_mincore_hook_def

lemmas command_hook_defs =
  post_shmctl_hook_def post_getcwd_hook_def post_rt_sigpending_hook_def post_quotactl_hook_def
  post_modify_ldt_hook_def post_semctl_hook_def post_msgrcv_hook_def post_msgctl_hook_def
  post_fcntl_hook_def post_syslog_hook_def post__sysctl_hook_def post_arch_prctl_hook_def

lemmas socket_hook_defs =
  post_accept_accept4_getsockname_getpeername_hook_def post_recvmsg_hook_def
  post_recvfrom_clear_def post_getsockopt_hook_def post_recvmmsg_hook_def post_sendmmsg_hook_def

lemmas loop_clears = only_clears_poll only_clears_sendmmsg only_clears_msghdr only_clears_recvmmsg
  only_clears_readv

lemma buffer_hooks_clear:
  assumes "h \<in> {P_read, P_getgroups, P_readlinkat, P_mmap, P_readv, P_epoll_wait, P_poll, P_mq_timedreceive,
    P_get_mempolicy, P_lookup_dcookie, P_io_getevents, P_listxattr, P_getxattr, P_getdents, P_mincore}"
  shows "hook_clears (run_post e h ctx st) st"
  using assms
  by (auto intro!: on_dir_clears simp: buffer_hook_defs Let_def loop_clears only_clears_clrn_trans)

lemma command_hooks_clear:
  assumes "h \<in> {P_shmctl, P_getcwd, P_rt_sigpending, P_quotactl, P_modify_ldt, P_semctl, P_msgrcv, P_msgctl,
    P_fcntl, P_syslog, P_sysctl, P_arch_prctl}"
  shows "hook_clears (run_post e h ctx st) st"
  using assms
  by (auto intro!: on_dir_clears simp: command_hook_defs Let_def only_clears_clrn_trans split: option.splits)

lemma socket_hooks_clear:
  assumes "h \<in> {P_accept_accept4_getsockname_getpeername, P_recvmsg, P_recvfrom, P_getsockopt, P_recvmmsg,
    P_sendmmsg}"
  shows "hook_clears (run_post e h ctx st) st"
  using assms
  by (auto intro!: on_dir_clears simp: socket_hook_defs Let_def loop_clears only_clears_clrn_trans)

lemma vm_readv_hook_clears:
  "hook_clears (run_post e P_process_vm_readv ctx st) st"
  by (auto simp: hook_clears_def post_process_vm_readv_hook_def split: option.splits
      dest: vm_readv_only_nonzero [THEN conjunct1])

lemma taint_sink_dir:
  assumes "taint_sink dbms cfg ev s a n st = Inr st'"
  shows "dir st' = dir st"
  using assms sink_loop_outcome [where dbms = dbms and cfg = cfg and ev = ev and s = s and a = a and n = n and st = st]
  by (auto simp: taint_sink_def and_then_Inr same_taint_def split: if_splits sum.splits)

lemma sink_hook_dir:
  "post_write_hook dbms cfg inode ctx st = Inr st' \<Longrightarrow> dir st' = dir st"
  "post_sendto_hook dbms cfg inode ctx st = Inr st' \<Longrightarrow> dir st' = dir st"
  by (auto simp: post_write_hook_def post_sendto_hook_def and_then_Inr dest!: taint_sink_dir split: if_splits)

lemma sink_hooks_clear:
  "h \<in> {Dta_write, Dta_sendto} \<Longrightarrow> hook_clears (run_post e h ctx st) st"
  by (auto simp: hook_clears_def and_then_Inr split: sum.splits dest!: sink_hook_dir)

lemma non_source_clears: "\<not> is_source h \<Longrightarrow> hook_clears (run_post e h ctx st) st"
  by (cases h)
    (simp_all only: buffer_hooks_clear command_hooks_clear socket_hooks_clear sink_hooks_clear
      vm_readv_hook_clears is_source_def insert_iff simp_thms)

lemma default_post_clears: "only_clears m (default_post d ctx m)"
proof -
  have "only_clears m (fold (\<lambda>i m. if map_args d ! i > 0 \<and> ctx_arg ctx i \<noteq> 0
      then tagmap_clrn m (ctx_arg ctx i) (map_args d ! i) else m) xs m)" for xs
    by (induction xs arbitrary: m) (auto intro: only_clears_trans [OF only_clears_clrn])
  then show ?thesis by (simp add: default_post_def)
qed

end
