(* ===== verification/SyscallFacts.thy ===== *)
theory SyscallFacts
  imports Syscalls
begin

text \<open>
  Facts on the system call table and its notifications: which entries are consistent, which
  handlers the tool runs for which number, what entering and leaving a system call does to
  the tags, and the invariant of the registration functions.
\<close>

subsection \<open>The table\<close>

definition entry_ok :: "'h syscall_desc_t \<Rightarrow> bool" where
  "entry_ok d \<longleftrightarrow> nargs d \<le> 6 \<and> length (map_args d) = 6 \<and>
     (post d = None \<or> save_args d = 1) \<and> pre d = None \<and>
     list_all (\<lambda>s. s = 0) (drop (nargs d) (map_args d)) \<and>
     (retval_args d = 1 \<or> list_all (\<lambda>s. s = 0) (map_args d))"

fun bad_from :: "nat \<Rightarrow> 'h syscall_desc_t list \<Rightarrow> nat list" where
    "bad_from i [] = []"
  | "bad_from i (d # ds) = (if entry_ok d then bad_from (i + 1) ds else i # bad_from (i + 1) ds)"

lemma bad_from_append: "bad_from i (xs @ ys) = bad_from i xs @ bad_from (i + length xs) ys"
  by (induction xs arbitrary: i) simp_all

lemma bad_from_ok: "list_all entry_ok xs \<Longrightarrow> bad_from i xs = []"
  by (induction xs arbitrary: i) simp_all

lemma entry_ok_desc:
  "entry_ok (desc n s r no_map p) \<longleftrightarrow> n \<le> 6 \<and> (p = None \<or> s = 1)"
  "entry_ok (desc n s r [a0, a1, a2, a3, a4, a5] p) \<longleftrightarrow> n \<le> 6 \<and> (p = None \<or> s = 1) \<and>
     list_all (\<lambda>s. s = 0) (drop n [a0, a1, a2, a3, a4, a5]) \<and>
     (r = 1 \<or> list_all (\<lambda>s. s = 0) [a0, a1, a2, a3, a4, a5])"
  by (auto simp: entry_ok_def desc_def no_map_def list_all_iff dest: in_set_dropD)

lemma length_tables [simp]:
  "length (syscall_table_0 abi) = 68" "length (syscall_table_68 abi) = 68"
  "length (syscall_table_136 abi) = 70" "length (syscall_table_206 abi) = 69"
  "length (syscall_table_275 abi) = 37"
  by (simp_all add: syscall_table_defs)

lemma length_syscall_desc [simp]: "length (syscall_desc abi) = 312"
  by (simp add: syscall_desc_def)

lemma tables_ok:
  "list_all entry_ok (syscall_table_0 abi)" "list_all entry_ok (syscall_table_68 abi)"
  "list_all entry_ok (syscall_table_136 abi)" "list_all entry_ok (syscall_table_275 abi)"
  by (simp_all add: syscall_table_defs entry_ok_desc)

lemma table_206_bad:
  assumes "sizeof abi Rusage \<noteq> 0" "sizeof abi Stat \<noteq> 0"
  shows "bad_from 206 (syscall_table_206 abi) = [247, 262]"
  using assms by (simp add: syscall_table_defs entry_ok_desc)

subsection \<open>The table of the tool\<close>

lemma set_post_at_simp:
  "set_post_at nr h t = t[nr := (t ! nr)\<lparr>post := Some h, save_args := 1\<rparr>]"
  by (simp add: set_post_at_def syscall_set_post_def)

lemma length_tool_table [simp]: "length (tool_syscall_desc abi) = 312"
  by (simp add: tool_syscall_desc_def set_post_at_simp)

definition static_entry :: "post_hook syscall_desc_t \<Rightarrow> bool" where
  "static_entry d \<longleftrightarrow> pre d = None \<and> (case post d of None \<Rightarrow> True | Some h \<Rightarrow> \<not> is_source h)"

lemma static_entry_desc:
  "static_entry (desc n s r m p) \<longleftrightarrow> (case p of None \<Rightarrow> True | Some h \<Rightarrow> \<not> is_source h)"
  by (simp add: static_entry_def desc_def)

lemma syscall_desc_static: "list_all static_entry (syscall_desc abi)"
proof -
  have "list_all static_entry (syscall_table_0 abi)" "list_all static_entry (syscall_table_68 abi)"
    "list_all static_entry (syscall_table_136 abi)" "list_all static_entry (syscall_table_206 abi)"
    "list_all static_entry (syscall_table_275 abi)"
    by (simp_all add: syscall_table_defs static_entry_desc is_source_def)
  then show ?thesis by (simp add: syscall_desc_def)
qed

lemma tool_desc_nth:
  assumes "nr < 312"
  shows "tool_syscall_desc abi ! nr =
    (if nr = 0 then (syscall_desc abi ! nr)\<lparr>post := Some Dta_read, save_args := 1\<rparr>
     else if nr = 45 then (syscall_desc abi ! nr)\<lparr>post := Some Dta_recvfrom, save_args := 1\<rparr>
     else if nr = 1 then (syscall_desc abi ! nr)\<lparr>post := Some Dta_write, save_args := 1\<rparr>
     else if nr = 44 then (syscall_desc abi ! nr)\<lparr>post := Some Dta_sendto, save_args := 1\<rparr>
     else syscall_desc abi ! nr)"
  using assms by (simp add: tool_syscall_desc_def set_post_at_simp nth_list_update)

lemma tool_static:
  assumes "nr < 312" "nr \<noteq> 0" "nr \<noteq> 45"
  shows "static_entry (tool_syscall_desc abi ! nr)"
proof -
  have "static_entry (syscall_desc abi ! nr)"
    using syscall_desc_static [of abi] assms(1) by (simp add: list_all_length)
  with assms show ?thesis by (auto simp: tool_desc_nth static_entry_def is_source_def)
qed

lemma tool_nargs:
  "nargs (tool_syscall_desc abi ! 0) = 3" "nargs (tool_syscall_desc abi ! 1) = 3"
  "nargs (tool_syscall_desc abi ! 44) = 6" "nargs (tool_syscall_desc abi ! 45) = 6"
  "pre (tool_syscall_desc abi ! 0) = None" "pre (tool_syscall_desc abi ! 1) = None"
  "pre (tool_syscall_desc abi ! 44) = None" "pre (tool_syscall_desc abi ! 45) = None"
proof -
  have t: "syscall_desc abi ! k = syscall_table_0 abi ! k" if "k < 68" for k
    using that by (simp add: syscall_desc_def nth_append)
  show "nargs (tool_syscall_desc abi ! 0) = 3" "nargs (tool_syscall_desc abi ! 1) = 3"
    "nargs (tool_syscall_desc abi ! 44) = 6" "nargs (tool_syscall_desc abi ! 45) = 6"
    "pre (tool_syscall_desc abi ! 0) = None" "pre (tool_syscall_desc abi ! 1) = None"
    "pre (tool_syscall_desc abi ! 44) = None" "pre (tool_syscall_desc abi ! 45) = None"
    by (simp_all add: tool_desc_nth t syscall_table_0_def desc_def)
qed

subsection \<open>Notifications\<close>

lemma inst_syscall_end_fields:
  assumes "inst_syscall_end g st = Inr st'"
  shows "hooks st' = hooks st" "syscall_ctx st' = syscall_ctx st" "tdata st \<noteq> None"
  using assms by (auto simp: inst_syscall_end_def Let_def split: option.splits prod.splits)

lemma inst_syscall_end_ok: "tdata st = Some td \<Longrightarrow> \<exists>st'. inst_syscall_end g st = Inr st'"
  by (simp add: inst_syscall_end_def Let_def case_prod_beta')

lemma inst_syscall_end_counts:
  assumes "tdata st = Some td" "ignore_flag td = 0"
  shows "\<exists>td' st'. inst_syscall_end g st = Inr st' \<and> tdata st' = Some td' \<and> sysnum td' = 997 \<and>
    syscall_cnt td' = syscall_cnt td + (if ignored_syscall (sysnum td) then 1 else 2) \<and>
    global_syscall_cnt st' = global_syscall_cnt st + (if ignored_syscall (sysnum td) then 1 else 2)"
proof -
  have "\<not> ignored_syscall 997" by (simp add: ignored_syscall_def)
  with assms show ?thesis
    by (simp add: inst_syscall_end_def increment_syscall_cnt_def Let_def)
qed

lemma sysexit_clears:
  assumes run: "sysexit_save e (tool_syscall_desc abi) ret st = Inr st'"
    and nr: "sint (ctx_nr (syscall_ctx st)) < 312" "sint (ctx_nr (syscall_ctx st)) \<notin> {0, 45}"
  shows "only_clears (dir (hooks st)) (dir (hooks st'))"
proof -
  obtain st1 where end1: "inst_syscall_end (env_guest e) st = Inr st1"
    using run by (auto simp: sysexit_save_def and_then_Inr)
  note f = inst_syscall_end_fields [OF end1]
  let ?nr = "sint (ctx_nr (syscall_ctx st))"
  let ?d = "tool_syscall_desc abi ! nat ?nr"
  show ?thesis
  proof (cases "?nr < 0 \<or> \<not> (save_args ?d \<noteq> 0 \<or> retval_args ?d \<noteq> 0)")
    case True
    then have "st' = st1" using run by (auto simp: sysexit_save_def end1 f Let_def split: if_splits)
    then show ?thesis by (simp add: f)
  next
    case False
    then have "static_entry ?d" using nr by (intro tool_static) auto
    show ?thesis
    proof (cases "post ?d")
      case None
      with run False show ?thesis
        by (auto simp: sysexit_save_def end1 f Let_def default_post_clears split: if_splits)
    next
      case (Some h)
      then have "\<not> is_source h" using \<open>static_entry ?d\<close> by (simp add: static_entry_def)
      from non_source_clears [OF this] have
        "hook_clears (run_post e h ((syscall_ctx st)\<lparr>ctx_ret := ret\<rparr>) (hooks st)) (hooks st)" .
      with run False Some show ?thesis
        by (auto simp: sysexit_save_def end1 f Let_def and_then_Inr hook_clears_def split: if_splits)
    qed
  qed
qed

lemma sysenter_keeps_tags:
  assumes "sysenter_save e (tool_syscall_desc abi) nr args st = Inr st'"
  shows "hooks st' = hooks st"
proof (cases "SYSCALL_MAX \<le> nr")
  case True
  with assms show ?thesis by (auto simp: sysenter_save_def)
next
  case False
  then have n: "unat nr < 312" by (simp add: SYSCALL_MAX_def word_le_nat_alt)
  have "pre (tool_syscall_desc abi ! unat nr) = None"
    using tool_static [OF n, of abi] tool_nargs [of abi]
    by (cases "unat nr = 0 \<or> unat nr = 45") (auto simp: static_entry_def)
  with assms False show ?thesis by (auto simp: sysenter_save_def Let_def split: if_splits)
qed

definition source_or_sink :: "64 word \<Rightarrow> post_hook option" where
  "source_or_sink nr =
     (if nr = 0 then Some Dta_read else if nr = 45 then Some Dta_recvfrom
      else if nr = 1 then Some Dta_write else if nr = 44 then Some Dta_sendto else None)"

text \<open>
  Entering and leaving one of the four registered system calls runs its handler once, on the
  arguments and the return value of that call.
\<close>

lemma syscall_runs_handler:
  assumes "source_or_sink nr = Some h" "tdata st = Some td"
  shows "and_then (sysenter_save e (tool_syscall_desc abi) nr args st)
      (\<lambda>st1. map_sum id hooks (sysexit_save e (tool_syscall_desc abi) ret st1)) =
    map_sum id snd (run_post e h
      \<lparr>ctx_nr = ucast nr, ctx_arg = save_syscall_args (if nr \<in> {0, 1} then 3 else 6) args (ctx_arg (syscall_ctx st)),
       ctx_ret = ret\<rparr> (hooks st))"
proof -
  have nr: "nr \<in> {0, 1, 44, 45}" using assms(1) by (auto simp: source_or_sink_def split: if_splits)
  let ?d = "tool_syscall_desc abi ! unat nr"
  have d: "pre ?d = None" "save_args ?d = 1" "post ?d = Some h" "nargs ?d = (if nr \<in> {0, 1} then 3 else 6)"
    using nr assms(1) tool_nargs [of abi] by (auto simp: tool_desc_nth source_or_sink_def)
  have nr2: "nat (sint (ucast nr :: 32 word)) = unat nr" "\<not> sint (ucast nr :: 32 word) < 0"
    "\<not> SYSCALL_MAX \<le> nr"
    using nr by (auto simp: SYSCALL_MAX_def word_le_nat_alt)
  define ctx where "ctx = \<lparr>ctx_nr = ucast nr, ctx_arg = save_syscall_args (if nr \<in> {0, 1} then 3 else 6) args
      (ctx_arg (syscall_ctx st)), ctx_ret = ctx_ret (syscall_ctx st)\<rparr>"
  have enter: "sysenter_save e (tool_syscall_desc abi) nr args st = Inr (st\<lparr>syscall_ctx := ctx\<rparr>)"
    by (simp add: sysenter_save_def Let_def d nr2 ctx_def)
  have "tdata (st\<lparr>syscall_ctx := ctx\<rparr>) = Some td" using assms(2) by simp
  then obtain st1 where end1: "inst_syscall_end (env_guest e) (st\<lparr>syscall_ctx := ctx\<rparr>) = Inr st1"
    using inst_syscall_end_ok by blast
  note f = inst_syscall_end_fields [OF end1]
  have nr3: "ctx_nr ctx = ucast nr" by (simp add: ctx_def)
  have "map_sum id hooks (sysexit_save e (tool_syscall_desc abi) ret (st\<lparr>syscall_ctx := ctx\<rparr>)) =
      map_sum id snd (run_post e h (ctx\<lparr>ctx_ret := ret\<rparr>) (hooks st))"
    by (cases "run_post e h (ctx\<lparr>ctx_ret := ret\<rparr>) (hooks st)")
      (auto simp: sysexit_save_def end1 f Let_def nr2 nr3 d)
  then show ?thesis by (simp add: enter ctx_def)
qed

subsection \<open>Registration\<close>

definition hook_saved :: "'h syscall_desc_t \<Rightarrow> bool" where
  "hook_saved d \<longleftrightarrow> (pre d = None \<and> post d = None) \<or> save_args d = 1"

lemma register_keeps_saved:
  assumes "hook_saved d"
  shows "case syscall_set_pre (Some d) h of (r, Some d') \<Rightarrow> hook_saved d' \<and> (r = 0 \<longleftrightarrow> h \<noteq> None) | _ \<Rightarrow> False"
    "case syscall_set_post (Some d) h of (r, Some d') \<Rightarrow> hook_saved d' \<and> (r = 0 \<longleftrightarrow> h \<noteq> None) | _ \<Rightarrow> False"
    "case syscall_clr_pre (Some d) of (r, Some d') \<Rightarrow> hook_saved d' \<and> r = 0 \<and> pre d' = None | _ \<Rightarrow> False"
    "case syscall_clr_post (Some d) of (r, Some d') \<Rightarrow> hook_saved d' \<and> r = 0 \<and> post d' = None | _ \<Rightarrow> False"
  using assms
  by (auto simp: hook_saved_def syscall_set_pre_def syscall_set_post_def syscall_clr_pre_def
      syscall_clr_post_def Let_def split: option.splits)

lemma default_post_ignores_ret: "default_post d (ctx\<lparr>ctx_ret := r\<rparr>) m = default_post d ctx m"
  by (simp add: default_post_def cong: if_cong)

subsection \<open>The invariant of the tag maps\<close>

lemma on_dir_inv: "hooks_inv st \<Longrightarrow> on_dir f ctx st = Inr (ctx', st') \<Longrightarrow> hooks_inv st'"
  by (auto simp: on_dir_def split: prod.splits)

lemma run_post_inv:
  assumes "hooks_inv st" "run_post e h ctx st = Inr (ctx', st')"
  shows "hooks_inv st'"
proof (cases "h \<in> {Dta_read, Dta_recvfrom, Dta_write, Dta_sendto, P_process_vm_readv}")
  case True
  with assms show ?thesis
    by (auto simp: and_then_Inr split: option.splits intro: source_hooks_inv sink_hooks_inv)
next
  case False
  then obtain f where "run_post e h ctx st = on_dir f ctx st" by (cases h) auto
  with assms on_dir_inv show ?thesis by metis
qed

text \<open>
  A failed \<^verbatim>\<open>process_vm_readv\<close> (the handler's test of the return value is unsigned) never
  returns from its handler when the vectors it then reads are empty.
\<close>

lemma failed_vm_readv_diverges:
  assumes "\<And>a. rd64 (env_guest e) a = 0"
  shows "run_post e P_process_vm_readv (ctx\<lparr>ctx_ret := - 1\<rparr>) st = Inl Divergence"
  by (simp add: post_process_vm_readv_hook_def vm_readv_diverges [OF assms] word_gt_0)

end
