(* ===== verification/SeqPatterns.thy ===== *)
theory SeqPatterns
  imports Inspect
begin

unbundle bit_operations_syntax

text \<open>
  Recognition of the instruction sequence \<^verbatim>\<open>test r, r; jnz L; ... L: bsf r, r\<close>
  (\<^verbatim>\<open>ins_seq_patterns.cc\<close>). Each thread keeps one record, which the inserted calls update; the
  two calls at the bit scan run before and after all other calls of the instruction
  (\<^verbatim>\<open>CALL_ORDER_FIRST\<close>, \<^verbatim>\<open>CALL_ORDER_LAST\<close>). The register tags of this module are those of
  the build with one bit per byte (\<^verbatim>\<open>uint32_t gpr[17]\<close>); in the build with custom tags the two
  calls at the bit scan do nothing.
\<close>

record test_jnz_bsf_info_t =
  test_nextinstp :: addr
  jnz_target :: addr
  reg_id :: "32 word"
  update_value :: "32 word"
  test_reg :: REG

text \<open>The answers of Pin for one instruction that the record does not hold.\<close>

record seq_env =
  INS_NextAddress :: addr
  IARG_INST_PTR :: addr
  IARG_BRANCH_TARGET_ADDR :: addr

datatype seq_call =
    Test_callback addr REG
  | Jnz_callback addr addr
  | Bsf_callback1 addr REG
  | Bsf_callback2

abbreviation (input) VCPU_MASK64 :: "32 word" where "VCPU_MASK64 \<equiv> 0xFF"
abbreviation (input) VCPU_MASK32 :: "32 word" where "VCPU_MASK32 \<equiv> 0x0F"
abbreviation (input) VCPU_MASK16 :: "32 word" where "VCPU_MASK16 \<equiv> 0x03"

subsection \<open>The calls\<close>

definition test_jnz_bsf_pattern_thread_init :: test_jnz_bsf_info_t where
  "test_jnz_bsf_pattern_thread_init =
     \<lparr>test_nextinstp = 0, jnz_target = 0, reg_id = 0, update_value = 0, test_reg = 0\<rparr>"

definition test_jnz_bsf_test_callback :: "addr \<Rightarrow> REG \<Rightarrow> test_jnz_bsf_info_t \<Rightarrow> test_jnz_bsf_info_t" where
  "test_jnz_bsf_test_callback nextinstp reg p = p\<lparr>test_nextinstp := nextinstp, test_reg := reg\<rparr>"

definition test_jnz_bsf_jnz_callback :: "addr \<Rightarrow> addr \<Rightarrow> test_jnz_bsf_info_t \<Rightarrow> test_jnz_bsf_info_t" where
  "test_jnz_bsf_jnz_callback instp targetp p =
     (if test_nextinstp p \<noteq> instp then p\<lparr>jnz_target := 0\<rparr> else p\<lparr>jnz_target := targetp\<rparr>)"

text \<open>The masks of the scanned and of the tested register; a failed assertion gives \<^const>\<open>None\<close>.\<close>

definition bsf_index_mask :: "REG \<Rightarrow> (32 word \<times> 32 word) option" where
  "bsf_index_mask reg1 =
     (if REG_is_gr64 reg1 then Some (of_nat (REG64_INDX reg1), VCPU_MASK64)
      else if REG_is_gr32 reg1 then Some (of_nat (REG32_INDX reg1), VCPU_MASK64)
      else if REG_is_gr16 reg1 then Some (of_nat (REG16_INDX reg1), VCPU_MASK16)
      else None)"

definition test_mask :: "REG \<Rightarrow> 32 word option" where
  "test_mask reg =
     (if REG_is_gr64 reg then Some VCPU_MASK64
      else if REG_is_gr32 reg then Some VCPU_MASK32
      else if REG_is_gr16 reg then Some VCPU_MASK16
      else None)"

definition test_jnz_bsf_bsf_callback1 ::
  "PIN \<Rightarrow> addr \<Rightarrow> REG \<Rightarrow> (nat \<Rightarrow> 32 word) \<Rightarrow> test_jnz_bsf_info_t \<Rightarrow> test_jnz_bsf_info_t option" where
  "test_jnz_bsf_bsf_callback1 pin instp reg1 vcpu p =
     (if jnz_target p = instp then
        (if REG_FullRegName pin (test_reg p) \<noteq> REG_FullRegName pin reg1 then Some (p\<lparr>reg_id := - 1\<rparr>)
         else
           Option.bind (bsf_index_mask reg1) (\<lambda>(i, mask1).
           Option.bind (test_mask (test_reg p)) (\<lambda>mask2.
           let v = vcpu (unat i) in
           Some (p\<lparr>reg_id := i,
             update_value := (if v AND mask2 \<noteq> 0 then (v AND NOT mask1) OR 1 else v AND NOT mask1)\<rparr>))))
      else Some (p\<lparr>reg_id := - 1\<rparr>))"

definition test_jnz_bsf_bsf_callback2 ::
  "(nat \<Rightarrow> 32 word) \<Rightarrow> test_jnz_bsf_info_t \<Rightarrow> nat \<Rightarrow> 32 word" where
  "test_jnz_bsf_bsf_callback2 vcpu p =
     (if reg_id p \<noteq> - 1 then vcpu(unat (reg_id p) := update_value p) else vcpu)"

subsection \<open>Instrumentation\<close>

definition test_jnz_bsf_pattern :: "INS \<Rightarrow> seq_env \<Rightarrow> seq_call list" where
  "test_jnz_bsf_pattern ins env =
     (let ins_opcode = INS_Opcode ins in
      if ins_opcode = XED_ICLASS_TEST then
        (if \<not> INS_OperandIsReg ins OP_0 \<or> \<not> INS_OperandIsReg ins OP_1 then []
         else let reg_op0 = INS_OperandReg ins OP_0; reg_op1 = INS_OperandReg ins OP_1 in
           if reg_op0 \<noteq> reg_op1 then [] else [Test_callback (INS_NextAddress env) reg_op0])
      else if ins_opcode = XED_ICLASS_JNZ then
        [Jnz_callback (IARG_INST_PTR env) (IARG_BRANCH_TARGET_ADDR env)]
      else if ins_opcode = XED_ICLASS_BSF then
        (if \<not> INS_OperandIsReg ins OP_0 \<or> \<not> INS_OperandIsReg ins OP_1 then []
         else let reg_op0 = INS_OperandReg ins OP_0; reg_op1 = INS_OperandReg ins OP_1 in
           if reg_op0 \<noteq> reg_op1 then []
           else [Bsf_callback1 (IARG_INST_PTR env) reg_op0, Bsf_callback2])
      else [])"

text \<open>
  Execution of an inserted call on the register tags and the record of the thread. Between the
  two calls of a bit scan the other calls of the instruction run.
\<close>

type_synonym seq_state = "(nat \<Rightarrow> 32 word) \<times> test_jnz_bsf_info_t"

fun exec_seq_call :: "PIN \<Rightarrow> seq_call \<Rightarrow> seq_state \<Rightarrow> seq_state option" where
    "exec_seq_call pin (Test_callback n r) (vcpu, p) = Some (vcpu, test_jnz_bsf_test_callback n r p)"
  | "exec_seq_call pin (Jnz_callback i t) (vcpu, p) = Some (vcpu, test_jnz_bsf_jnz_callback i t p)"
  | "exec_seq_call pin (Bsf_callback1 i r) (vcpu, p) =
       map_option (Pair vcpu) (test_jnz_bsf_bsf_callback1 pin i r vcpu p)"
  | "exec_seq_call pin Bsf_callback2 (vcpu, p) = Some (test_jnz_bsf_bsf_callback2 vcpu p, p)"

definition exec_bsf ::
  "PIN \<Rightarrow> ((nat \<Rightarrow> 32 word) \<Rightarrow> nat \<Rightarrow> 32 word) \<Rightarrow> INS \<Rightarrow> seq_env \<Rightarrow> seq_state \<Rightarrow> seq_state option" where
  "exec_bsf pin body ins env st =
     (case test_jnz_bsf_pattern ins env of
        [c1, c2] \<Rightarrow>
          Option.bind (exec_seq_call pin c1 st) (\<lambda>(vcpu, p). exec_seq_call pin c2 (body vcpu, p))
      | _ \<Rightarrow> Some (body (fst st), snd st))"

subsection \<open>Facts\<close>

text \<open>
  The register of a matching sequence: everything but the scanned part is kept, and the scanned
  part is tainted in its lowest byte exactly when the tested part was.
\<close>

definition matched_value :: "REG \<Rightarrow> REG \<Rightarrow> 32 word \<Rightarrow> 32 word" where
  "matched_value tested scanned v =
     (v AND NOT (if REG_is_gr64 scanned \<or> REG_is_gr32 scanned then VCPU_MASK64 else VCPU_MASK16)) OR
     (if v AND (if REG_is_gr64 tested then VCPU_MASK64 else if REG_is_gr32 tested then VCPU_MASK32
                else VCPU_MASK16) \<noteq> 0 then 1 else 0)"

definition scan_reg :: "REG \<Rightarrow> bool" where
  "scan_reg r \<longleftrightarrow> REG_is_gr64 r \<or> REG_is_gr32 r \<or> REG_is_gr16 r"

definition scan_index :: "REG \<Rightarrow> nat" where
  "scan_index r = (if REG_is_gr64 r then REG64_INDX r else if REG_is_gr32 r then REG32_INDX r else REG16_INDX r)"

lemma scan_index_less: "scan_index r < 17"
  by (simp add: scan_index_def)

lemma bsf_index_mask_scan:
  "scan_reg r \<Longrightarrow> bsf_index_mask r =
     Some (of_nat (scan_index r), if REG_is_gr64 r \<or> REG_is_gr32 r then VCPU_MASK64 else VCPU_MASK16)"
  by (auto simp: bsf_index_mask_def scan_index_def scan_reg_def)

lemma test_mask_scan:
  "scan_reg r \<Longrightarrow> test_mask r =
     Some (if REG_is_gr64 r then VCPU_MASK64 else if REG_is_gr32 r then VCPU_MASK32 else VCPU_MASK16)"
  by (auto simp: test_mask_def scan_reg_def)

lemma index_word: "i < 17 \<Longrightarrow> unat (of_nat i :: 32 word) = i \<and> of_nat i \<noteq> (- 1 :: 32 word)"
proof
  assume "i < 17"
  then show i: "unat (of_nat i :: 32 word) = i" by (simp add: unat_of_nat)
  have "unat (- 1 :: 32 word) = 4294967295"
    by (simp add: unsigned_minus_1_eq_mask mask_eq_exp_minus_1)
  with i \<open>i < 17\<close> show "of_nat i \<noteq> (- 1 :: 32 word)" by fastforce
qed

lemma callback1_match:
  assumes "jnz_target p = i" "REG_FullRegName pin (test_reg p) = REG_FullRegName pin r"
    and "scan_reg r" "scan_reg (test_reg p)"
  shows "test_jnz_bsf_bsf_callback1 pin i r vcpu p =
    Some (p\<lparr>reg_id := of_nat (scan_index r),
      update_value := matched_value (test_reg p) r (vcpu (scan_index r))\<rparr>)"
  using assms index_word [OF scan_index_less, of r]
  by (simp add: test_jnz_bsf_bsf_callback1_def bsf_index_mask_scan test_mask_scan matched_value_def Let_def)

lemma callback1_mismatch:
  assumes "jnz_target p \<noteq> i \<or> REG_FullRegName pin (test_reg p) \<noteq> REG_FullRegName pin r"
  shows "test_jnz_bsf_bsf_callback1 pin i r vcpu p = Some (p\<lparr>reg_id := - 1\<rparr>)"
  using assms by (auto simp: test_jnz_bsf_bsf_callback1_def)

lemma bsf_pattern_calls:
  assumes "INS_Opcode ins = XED_ICLASS_BSF" "INS_OperandIsReg ins 0" "INS_OperandIsReg ins 1"
    and "INS_OperandReg ins 1 = INS_OperandReg ins 0"
  shows "test_jnz_bsf_pattern ins env = [Bsf_callback1 (IARG_INST_PTR env) (INS_OperandReg ins 0), Bsf_callback2]"
  using assms by (simp add: test_jnz_bsf_pattern_def)

lemma exec_bsf_match:
  assumes "INS_Opcode ins = XED_ICLASS_BSF" "INS_OperandIsReg ins 0" "INS_OperandIsReg ins 1"
    and "INS_OperandReg ins 1 = r" "INS_OperandReg ins 0 = r"
    and "jnz_target p = IARG_INST_PTR env" "REG_FullRegName pin (test_reg p) = REG_FullRegName pin r"
    and "scan_reg r" "scan_reg (test_reg p)"
  shows "\<exists>p'. exec_bsf pin body ins env (vcpu, p) =
    Some ((body vcpu)(scan_index r := matched_value (test_reg p) r (vcpu (scan_index r))), p')"
  using assms index_word [OF scan_index_less, of r]
  by (simp add: exec_bsf_def bsf_pattern_calls callback1_match test_jnz_bsf_bsf_callback2_def)

lemma exec_bsf_mismatch:
  assumes "jnz_target p \<noteq> IARG_INST_PTR env \<or>
    REG_FullRegName pin (test_reg p) \<noteq> REG_FullRegName pin (INS_OperandReg ins 0)"
  shows "INS_Opcode ins = XED_ICLASS_BSF \<Longrightarrow> \<exists>p'. exec_bsf pin body ins env (vcpu, p) = Some (body vcpu, p')"
  using assms
  by (auto simp: exec_bsf_def test_jnz_bsf_pattern_def Let_def callback1_mismatch
      test_jnz_bsf_bsf_callback2_def)

end
