(* ===== verification/InsDesc.thy ===== *)
theory InsDesc
  imports SeqPatterns
begin

unbundle bit_operations_syntax

text \<open>
  Start of the engine, the descriptors of the instructions and the inspection of a trace
  (\<^verbatim>\<open>libdft_init\<close>, the \<^verbatim>\<open>ins_\<close> interface, \<^verbatim>\<open>trace_inspect\<close> and \<^verbatim>\<open>fix_eflags\<close> of
  \<^verbatim>\<open>libdft_api64.cc\<close>). A callback of a tool inserts calls before an instruction, so it is a
  function from the instruction and its run-time values to calls. A trace is the list of its
  basic blocks; inspecting it gives every instruction its calls, and running instrumented code
  executes the calls of the instructions along a path.
\<close>

subsection \<open>Descriptors\<close>

type_synonym ins_callback = "INS \<Rightarrow> ENV \<Rightarrow> call list"

record ins_desc_t =
  ins_pre :: "ins_callback option"
  ins_post :: "ins_callback option"
  dflact :: "64 word"

abbreviation (input) INSDFL_ENABLE :: "64 word" where "INSDFL_ENABLE \<equiv> 0"
abbreviation (input) INSDFL_DISABLE :: "64 word" where "INSDFL_DISABLE \<equiv> 1"

definition ins_set_pre :: "ins_desc_t option \<Rightarrow> ins_callback option \<Rightarrow> nat \<times> ins_desc_t option" where
  "ins_set_pre d h =
     (case (d, h) of (Some d, Some h) \<Rightarrow> (0, Some (d\<lparr>ins_pre := Some h\<rparr>)) | _ \<Rightarrow> (1, d))"

definition ins_set_post :: "ins_desc_t option \<Rightarrow> ins_callback option \<Rightarrow> nat \<times> ins_desc_t option" where
  "ins_set_post d h =
     (case (d, h) of (Some d, Some h) \<Rightarrow> (0, Some (d\<lparr>ins_post := Some h\<rparr>)) | _ \<Rightarrow> (1, d))"

definition ins_clr_pre :: "ins_desc_t option \<Rightarrow> nat \<times> ins_desc_t option" where
  "ins_clr_pre d = (case d of None \<Rightarrow> (1, None) | Some d \<Rightarrow> (0, Some (d\<lparr>ins_pre := None\<rparr>)))"

definition ins_clr_post :: "ins_desc_t option \<Rightarrow> nat \<times> ins_desc_t option" where
  "ins_clr_post d = (case d of None \<Rightarrow> (1, None) | Some d \<Rightarrow> (0, Some (d\<lparr>ins_post := None\<rparr>)))"

definition ins_set_dflact :: "ins_desc_t option \<Rightarrow> 64 word \<Rightarrow> nat \<times> ins_desc_t option" where
  "ins_set_dflact d action =
     (case d of
        None \<Rightarrow> (1, None)
      | Some d \<Rightarrow>
          if action = INSDFL_ENABLE \<or> action = INSDFL_DISABLE then (0, Some (d\<lparr>dflact := action\<rparr>))
          else (1, Some d))"

subsection \<open>Traces\<close>

type_synonym instrumented = "(INS \<times> (ENV \<Rightarrow> call list)) list"

definition inspect_ins :: "ins_desc_t list \<Rightarrow> PIN \<Rightarrow> INS \<Rightarrow> ENV \<Rightarrow> call list" where
  "inspect_ins ins_desc pin ins env =
     (let d = ins_desc ! INS_Opcode ins in
      (case ins_pre d of None \<Rightarrow> [] | Some h \<Rightarrow> h ins env) @
      (if dflact d = INSDFL_ENABLE then fst (ins_inspect pin ins env) else []) @
      (case ins_post d of None \<Rightarrow> [] | Some h \<Rightarrow> h ins env))"

definition trace_inspect ::
  "ins_desc_t list \<Rightarrow> PIN \<Rightarrow> 64 word \<Rightarrow> 64 word \<Rightarrow> INS list list \<Rightarrow> instrumented" where
  "trace_inspect ins_desc pin version_mask version bbls =
     (if version_mask \<noteq> 0 \<and> version AND version_mask \<noteq> 0
      then map (\<lambda>ins. (ins, \<lambda>_. [])) (concat bbls)
      else concat (map (map (\<lambda>ins. (ins, inspect_ins ins_desc pin ins))) bbls))"

subsection \<open>Start\<close>

datatype pin_callback =
    Thread_start_function | Thread_fini_function | Syscall_entry_function | Syscall_exit_function
  | Trace_instrument_function "64 word" | Fini_function | Internal_exception_handler

record libdft_state =
  thread_ctx_ptr :: REG
  registered :: "pin_callback list"
  ins_desc :: "ins_desc_t list"

definition thread_ctx_init :: "REG \<Rightarrow> libdft_state \<Rightarrow> nat \<times> libdft_state" where
  "thread_ctx_init claimed st =
     (let st = st\<lparr>thread_ctx_ptr := claimed\<rparr> in
      if claimed = REG_INVALID then (1, st)
      else (0, st\<lparr>registered := registered st @ [Thread_start_function, Thread_fini_function]\<rparr>))"

definition ins_desc_zero :: "ins_desc_t list" where
  "ins_desc_zero = replicate XED_ICLASS_LAST \<lparr>ins_pre = None, ins_post = None, dflact = 0\<rparr>"

definition libdft_init :: "REG \<Rightarrow> 64 word \<Rightarrow> libdft_state \<Rightarrow> nat \<times> libdft_state" where
  "libdft_init claimed version_mask st =
     (case thread_ctx_init claimed st of (r, st) \<Rightarrow>
      if r \<noteq> 0 then (1, st)
      else if tagmap_alloc \<noteq> 0 then (1, st)
      else (0, st\<lparr>ins_desc := ins_desc_zero,
        registered := registered st @ [Syscall_entry_function, Syscall_exit_function,
          Trace_instrument_function version_mask, Fini_function, Internal_exception_handler]\<rparr>))"

definition CLEAR_EFLAGS_AC :: "64 word \<Rightarrow> 64 word" where
  "CLEAR_EFLAGS_AC eflags = eflags AND 0xfffbffff"

text \<open>The handler returns whether the exception is handled, and the flags.\<close>

definition fix_eflags :: "bool \<Rightarrow> 64 word \<Rightarrow> bool \<times> 64 word" where
  "fix_eflags misaligned eflags =
     (if misaligned then (True, CLEAR_EFLAGS_AC eflags) else (False, eflags))"

subsection \<open>Running instrumented code\<close>

text \<open>A path is the sequence of the executed instructions, by position, with their run-time values.\<close>

definition run_path ::
  "instrumented \<Rightarrow> (nat \<times> ENV) list \<Rightarrow> 'u::linorder taint_state \<Rightarrow> 'u taint_state option" where
  "run_path code path tc = iterM (\<lambda>(i, env). exec_calls (snd (code ! i) env)) path tc"

lemma length_trace_inspect [simp]:
  "length (trace_inspect ds pin vm v bbls) = length (concat bbls)"
  by (simp add: trace_inspect_def flip: map_concat)

lemma fst_trace_inspect: "map fst (trace_inspect ds pin vm v bbls) = concat bbls"
  by (simp add: trace_inspect_def comp_def flip: map_concat)

lemma trace_inspect_nth:
  assumes "i < length (concat bbls)"
  shows "snd (trace_inspect ds pin vm v bbls ! i) =
    (if vm \<noteq> 0 \<and> v AND vm \<noteq> 0 then (\<lambda>_. []) else inspect_ins ds pin (concat bbls ! i))"
  using assms by (simp add: trace_inspect_def flip: map_concat)

lemma inspect_ins_zero:
  assumes "INS_Opcode ins < XED_ICLASS_LAST"
  shows "inspect_ins ins_desc_zero pin ins = ins_calls pin ins"
  using assms by (intro ext) (simp add: inspect_ins_def ins_desc_zero_def ins_calls_def)

definition path_events :: "INS list list \<Rightarrow> (nat \<times> ENV) list \<Rightarrow> event list" where
  "path_events bbls path = map (\<lambda>(i, env). (concat bbls ! i, env)) path"

definition on_path :: "INS list list \<Rightarrow> (nat \<times> ENV) list \<Rightarrow> bool" where
  "on_path bbls path \<longleftrightarrow> list_all (\<lambda>(i, _). i < length (concat bbls)) path \<and>
     list_all (\<lambda>ins. INS_Opcode ins < XED_ICLASS_LAST) (concat bbls)"

lemma on_pathD: "on_path bbls ((i, env) # path) \<Longrightarrow>
    i < length (concat bbls) \<and> INS_Opcode (concat bbls ! i) < XED_ICLASS_LAST \<and> on_path bbls path"
  by (auto simp: on_path_def list_all_length)

lemma run_path_masked:
  assumes "vm \<noteq> 0" "v AND vm \<noteq> 0"
  shows "on_path bbls path \<Longrightarrow> run_path (trace_inspect ds pin vm v bbls) path tc = Some tc"
  using assms
  by (induction path) (auto simp: run_path_def trace_inspect_nth exec_calls_def dest!: on_pathD)

lemma run_path_select:
  assumes "vm = 0 \<or> v AND vm = 0"
    and "\<And>ins. INS_Opcode ins < XED_ICLASS_LAST \<Longrightarrow>
      inspect_ins ds pin ins = (if P ins then ins_calls pin ins else (\<lambda>_. []))"
  shows "on_path bbls path \<Longrightarrow>
    run_path (trace_inspect ds pin vm v bbls) path tc = exec_trace pin (filter (P \<circ> fst) (path_events bbls path)) tc"
proof (induction path arbitrary: tc)
  case (Cons x path)
  obtain i env where x: "x = (i, env)" by fastforce
  note d = on_pathD [OF Cons.prems [unfolded x]]
  have "snd (trace_inspect ds pin vm v bbls ! i) =
      (if P (concat bbls ! i) then ins_calls pin (concat bbls ! i) else (\<lambda>_. []))"
    using d assms by (auto simp: trace_inspect_nth)
  with Cons.IH d show ?case
    by (auto simp: x run_path_def path_events_def exec_trace_def exec_ins_def exec_calls_def
        intro!: Option.bind_cong)
qed (simp add: run_path_def path_events_def exec_trace_def)

lemma inspect_ins_disabled:
  assumes "ins_set_dflact (Some (ins_desc_zero ! opc)) INSDFL_DISABLE = (r, Some d)" "INS_Opcode ins < XED_ICLASS_LAST"
  shows "inspect_ins (ins_desc_zero[opc := d]) pin ins =
    (if INS_Opcode ins \<noteq> opc then ins_calls pin ins else (\<lambda>_. []))"
  using assms
  by (intro ext) (auto simp: inspect_ins_def ins_desc_zero_def ins_calls_def ins_set_dflact_def)

lemma libdft_init_ok:
  "libdft_init claimed vm st = (0, st') \<Longrightarrow> claimed \<noteq> REG_INVALID \<and> ins_desc st' = ins_desc_zero \<and>
     Trace_instrument_function vm \<in> set (registered st')"
  by (auto simp: libdft_init_def thread_ctx_init_def tagmap_alloc_def Let_def split: if_splits)

lemma fix_eflags_bits:
  assumes "fix_eflags m fl = (h, fl')"
  shows "h = m" "bit fl' n \<longleftrightarrow> bit fl n \<and> (m \<longrightarrow> n < 32 \<and> n \<noteq> 18)"
proof -
  have mask: "(0xfffbffff :: 64 word) = unset_bit 18 (mask 32)"
    by (simp add: unset_bit_eq_and_not mask_eq_exp_minus_1 push_bit_eq_mult)
  show "h = m" "bit fl' n \<longleftrightarrow> bit fl n \<and> (m \<longrightarrow> n < 32 \<and> n \<noteq> 18)"
    using assms
    by (auto simp: fix_eflags_def CLEAR_EFLAGS_AC_def mask bit_simps split: if_splits)
qed

end
