(* ===== verification/Start.thy ===== *)
theory Start
  imports HooksFacts Syscalls InsDesc
begin

text \<open>
  Start of the tool (\<^verbatim>\<open>main\<close> of \<^verbatim>\<open>tools/libdft-dta64.cc\<close>): the replay device and Pin are
  initialised, the engine is started, the four handlers are registered, the options are read
  and the inbound and outbound objects of the query are fetched from the database. The test
  \<^verbatim>\<open>engagement_config_string == "true" || true\<close> always holds. Whether the device and Pin start
  and which register Pin hands out are arguments.
\<close>

record knobs =
  PublishToKafka :: string
  KafkaTopic :: string
  CreateAvroFile :: string
  QueryId :: string
  SubjectUUID :: string
  TagCounter :: string

record (overloaded) ('w::len, 'db) started =
  started_libdft :: libdft_state
  started_desc :: "post_hook syscall_desc_t list"
  started_cfg :: hooks_config
  started_hooks :: "('w, 'db) hooks_state"
  avro_file_name :: string

definition query_objects :: "int \<Rightarrow> CDM_UUID_Type list \<Rightarrow> CDM_UUID_Type list" where
  "query_objects n us = take (nat n) us"

definition initial_hooks :: "64 word \<Rightarrow> 'db \<Rightarrow> ('w::len, 'db) hooks_state" where
  "initial_hooks counter d =
     \<lparr>dir = tag_dir_init, tag_counter = 0, uuid_to_tag = Map.empty, tag_to_tag_uuid = Map.empty,
      generated_tag_uuid_set = {}, tag_counter_global = counter, ip_buffer = [0xff, 0xff, 0xff, 0xff],
      kafka = [], avro = [], db = d\<rparr>"

definition avro_name :: "knobs \<Rightarrow> string" where
  "avro_name k =
     map (\<lambda>c. if c = CHR '' '' then CHR ''_'' else c)
       (QueryId k @ ''-'' @ SubjectUUID k @ ''-'' @ TagCounter k @ ''.bin'')"

definition tool_config :: "knobs \<Rightarrow> CDM_UUID_Type list \<Rightarrow> CDM_UUID_Type list \<Rightarrow> hooks_config" where
  "tool_config k inb outb =
     \<lparr>inbound_uuid_array_global = inb, outbound_uuid_array_global = outb,
      query_id_global = QueryId k, subject_uuid_global = SubjectUUID k,
      default_key_global = KafkaTopic k @ ''r'',
      publish_to_kafka_global = (PublishToKafka k = ''true''),
      create_avro_file_global = (CreateAvroFile k = ''true'')\<rparr>"

definition tool_main ::
  "int \<Rightarrow> bool \<Rightarrow> REG \<Rightarrow> ABI \<Rightarrow> 'db DBMS \<Rightarrow> CDM_UUID_Type \<Rightarrow> knobs \<Rightarrow> libdft_state \<Rightarrow> 'db \<Rightarrow>
   (int + ('w::len, 'db) started) result" where
  "tool_main rc pin_failed claimed abi dbms junk k lib db0 =
     (if rc < 0 then Inr (Inl rc)
      else if pin_failed then Inr (Inl 1)
      else case libdft_init claimed 0 lib of (r, lib) \<Rightarrow>
        if r \<noteq> 0 then Inr (Inl 1)
        else
          and_then (get_inbound_for_taint dbms db0 junk (QueryId k) (SubjectUUID k)) (\<lambda>(n_in, inb, db1).
          and_then (get_outbound_for_taint dbms db1 junk (QueryId k) (SubjectUUID k)) (\<lambda>(n_out, outb, db2).
          Inr (Inr
            \<lparr>started_libdft = lib, started_desc = tool_syscall_desc abi,
             started_cfg = tool_config k (query_objects n_in inb) (query_objects n_out outb),
             started_hooks = initial_hooks (strtoul 0 (TagCounter k)) db2,
             avro_file_name = avro_name k\<rparr>))))"

subsection \<open>Facts\<close>

lemma initial_hooks_inv: "hooks_inv (initial_hooks c d)"
  by (simp add: hooks_inv_def initial_hooks_def)

lemma initial_hooks_clear: "tagmap_getb (dir (initial_hooks c d)) a = cleared_val"
  by (simp add: initial_hooks_def tagmap_getb_def)

lemma read_uuid_rows_length:
  "read_uuid_rows junk R = Inr us \<Longrightarrow> length us = length R"
  by (induction junk R arbitrary: us rule: read_uuid_rows.induct) (auto simp: and_then_Inr)

lemma uuids_for_taint_count:
  assumes "uuids_for_taint dbms d junk q = Inr (n, us, d')"
  shows "query_objects n us = us"
  using assms
  by (auto simp: uuids_for_taint_def query_objects_def Let_def dest!: read_uuid_rows_length
      split: prod.splits if_splits option.splits sum.splits cxx_error.splits)

lemma tool_main_started:
  assumes "tool_main rc pf claimed abi dbms junk k lib d0 = Inr (Inr (t :: ('w::len, 'db) started))"
  obtains n_in inb d1 n_out outb d2 where
    "get_inbound_for_taint dbms d0 junk (QueryId k) (SubjectUUID k) = Inr (n_in, inb, d1)"
    "get_outbound_for_taint dbms d1 junk (QueryId k) (SubjectUUID k) = Inr (n_out, outb, d2)"
    "started_cfg t = tool_config k inb outb" "started_desc t = tool_syscall_desc abi"
    "started_hooks t = initial_hooks (strtoul 0 (TagCounter k)) d2"
    "ins_desc (started_libdft t) = ins_desc_zero"
proof -
  obtain lib' where init: "libdft_init claimed 0 lib = (0, lib')"
    using assms by (auto simp: tool_main_def split: if_splits prod.splits)
  obtain n_in inb d1 n_out outb d2 where
    q: "get_inbound_for_taint dbms d0 junk (QueryId k) (SubjectUUID k) = Inr (n_in, inb, d1)"
      "get_outbound_for_taint dbms d1 junk (QueryId k) (SubjectUUID k) = Inr (n_out, outb, d2)"
    and t: "t = \<lparr>started_libdft = lib', started_desc = tool_syscall_desc abi,
      started_cfg = tool_config k (query_objects n_in inb) (query_objects n_out outb),
      started_hooks = initial_hooks (strtoul 0 (TagCounter k)) d2, avro_file_name = avro_name k\<rparr>"
    using assms by (auto simp: tool_main_def init and_then_Inr split: if_splits)
  have "query_objects n_in inb = inb" "query_objects n_out outb = outb"
    using q uuids_for_taint_count
    by (auto simp: get_inbound_for_taint_def get_outbound_for_taint_def)
  with q t libdft_init_ok [OF init] show ?thesis by (intro that) simp_all
qed

lemma uuids_for_taint_rows:
  assumes "is_open dbms d" "length junk = 16" "list_all (\<lambda>u. length u = 16) us"
    and "exec_query dbms d q = Some (map (\<lambda>u. [uuid_to_string u, nf u]) us)"
  shows "uuids_for_taint dbms d junk q = Inr (int (length us), us, d)"
  using assms by (simp add: open_connection_def uuids_for_taint_def read_uuid_rows_strings)

lemma tool_main_objects:
  assumes "is_open dbms d0" "length junk = 16" "list_all (\<lambda>u. length u = 16) (inb @ outb)"
    and "exec_query dbms d0 (inbound_query (QueryId k) (SubjectUUID k)) =
      Some (map (\<lambda>u. [uuid_to_string u, nf u]) inb)"
    and "exec_query dbms d0 (outbound_query (QueryId k) (SubjectUUID k)) =
      Some (map (\<lambda>u. [uuid_to_string u, nf u]) outb)"
    and "0 \<le> rc" "claimed \<noteq> REG_INVALID"
  shows "\<exists>t :: ('w::len, 'db) started. tool_main rc False claimed abi dbms junk k lib d0 = Inr (Inr t) \<and>
    inbound_uuid_array_global (started_cfg t) = inb \<and> outbound_uuid_array_global (started_cfg t) = outb \<and>
    started_hooks t = initial_hooks (strtoul 0 (TagCounter k)) d0"
proof -
  have "list_all (\<lambda>u. length u = 16) inb" "list_all (\<lambda>u. length u = 16) outb" using assms(3) by simp_all
  note rows = uuids_for_taint_rows [OF assms(1,2) this(1) assms(4)] uuids_for_taint_rows [OF assms(1,2) this(2) assms(5)]
  show ?thesis
    using assms(6,7)
    by (simp add: tool_main_def get_inbound_for_taint_def get_outbound_for_taint_def rows query_objects_def
        tool_config_def libdft_init_def thread_ctx_init_def tagmap_alloc_def Let_def)
qed

end
