(* ===== verification/EndToEnd.thy ===== *)
theory EndToEnd
  imports PolicyIns SyscallFacts Start
begin

text \<open>
  From a source through the instrumented instructions to a sink: the tags that a source
  writes, followed along the data flow of the trace, are the ones a sink translates back into
  the names of the sources.
\<close>

lemma tag_key_id:
  assumes "LENGTH('w::len) \<le> 32"
  shows "ucast (ucast (t :: 'w word) :: 32 word) = t"
  by (rule bit_word_eqI) (use assms in \<open>simp add: bit_simps\<close>)

lemma tag_name_assigned:
  assumes "hooks_inv (st :: ('w::len, 'db) hooks_state)" "card (dom (uuid_to_tag st)) \<le> 2 ^ LENGTH('w)"
    and "LENGTH('w) \<le> 32" "uuid_to_tag st s = Some t"
  shows "tag_name (tag_to_tag_uuid st) t = s"
  using hooks_invD(1) [OF assms(1,2,4)] by (simp add: tag_name_def tag_key_id [OF assms(3)])

lemma card_assign:
  assumes "hooks_inv st" "assign_tag cfg ev s remote cross st = (t, st')"
  shows "card (dom (uuid_to_tag st')) \<le> Suc (card (dom (uuid_to_tag st)))"
proof (cases "uuid_to_tag st s")
  case None
  then have "uuid_to_tag st' = (uuid_to_tag st)(s \<mapsto> t)"
    using assms(2) by (auto simp: assign_tag_def new_source_tag_fields)
  then show ?thesis using assms(1) by (simp add: hooks_inv_def card_insert_le_m1 card_insert_if)
next
  case (Some u)
  with assms(2) show ?thesis by (simp add: assign_tag_def)
qed

lemma taint_source_effect:
  assumes inv: "hooks_inv (st :: ('w::len, 'db) hooks_state)" "card (dom (uuid_to_tag st)) < 2 ^ LENGTH('w)"
    and w: "LENGTH('w) \<le> 32" and s: "s \<in> uuid_to_string ` set (inbound_uuid_array_global cfg)"
  shows "\<exists>t. tag_name (tag_to_tag_uuid (taint_source cfg ev s remote cross a n st)) t = s \<and>
    uuid_to_tag (taint_source cfg ev s remote cross a n st) s = Some t \<and>
    (\<forall>b. tagmap_getb (dir (taint_source cfg ev s remote cross a n st)) b =
      (if ucast b \<in> span a n then std_insert t std_empty else tagmap_getb (dir st) b))"
proof -
  obtain t st' where as: "assign_tag cfg ev s remote cross st = (t, st')" by fastforce
  have src: "taint_source cfg ev s remote cross a n st =
      st'\<lparr>dir := for_addr (\<lambda>i d. setb d i (std_insert t std_empty)) a (a + n) (dir st)\<rparr>"
    by (simp add: taint_source_eq s as assign_tag_dir [OF as])
  have "tag_name (tag_to_tag_uuid st') t = s"
    using assign_tag_inv [OF inv(1) as] assign_tag_map [OF as] card_assign [OF inv(1) as] inv(2) w
    by (intro tag_name_assigned) simp_all
  moreover have "ucast b \<in> span a n \<longleftrightarrow> (\<exists>i. a \<le> i \<and> i < a + n \<and> (ucast i :: 32 word) = ucast b)" for b :: addr
    unfolding span_def image_iff by (metis atLeastLessThan_iff)
  ultimately show ?thesis
    by (intro exI [of _ t]) (auto simp: src tagmap_getb_def get_for_addr_setb assign_tag_map [OF as])
qed

lemma sink_after_trace:
  assumes run: "exec_trace pin evs \<lparr>gpr = g, tag_dir = dir st\<rparr> = Some tc"
    and sink: "sink_loop dbms cfg ev s b m (st\<lparr>dir := tag_dir tc\<rparr>) = Inr (st', rs)"
  shows "tag_members rs = {tag_name (tag_to_tag_uuid st) u | u y l0. y \<in> {b..<b + m} \<and>
    dep (trace_calls pin evs) l0 (Mem y) \<and> u \<in> tag_members (tag_of \<lparr>gpr = g, tag_dir = dir st\<rparr> l0)}"
proof -
  have mem: "tag_members (tagmap_getb (tag_dir tc) y) =
      {u. \<exists>l0. dep (trace_calls pin evs) l0 (Mem y) \<and>
        u \<in> tag_members (tag_of \<lparr>gpr = g, tag_dir = dir st\<rparr> l0)}" for y
    using exec_calls_members [OF run [unfolded exec_trace_calls], of _ "Mem y"]
    by (auto simp: tagmap_getb_def M8TAG_def simp flip: M8TAG_tag_of)
  have "tag_members rs = \<Union> (origins (st\<lparr>dir := tag_dir tc\<rparr>) ` {b..<b + m})"
    using sink_loop_outcome [where dbms = dbms and cfg = cfg and ev = ev and s = s and a = b and n = m
        and st = "st\<lparr>dir := tag_dir tc\<rparr>"] sink by simp
  also have "\<dots> = (\<Union>y \<in> {b..<b + m}. tag_name (tag_to_tag_uuid st) `
      {u. \<exists>l0. dep (trace_calls pin evs) l0 (Mem y) \<and>
        u \<in> tag_members (tag_of \<lparr>gpr = g, tag_dir = dir st\<rparr> l0)})" (is "_ = ?U")
    by (rule SUP_cong [OF refl]) (simp add: origins_def mem)
  also have "?U = {tag_name (tag_to_tag_uuid st) u | u y l0. y \<in> {b..<b + m} \<and>
      dep (trace_calls pin evs) l0 (Mem y) \<and> u \<in> tag_members (tag_of \<lparr>gpr = g, tag_dir = dir st\<rparr> l0)}"
    by blast
  finally show ?thesis .
qed

subsection \<open>A concrete configuration\<close>

definition sample_dbms :: "bool DBMS" where
  "sample_dbms = \<lparr>is_open = (\<lambda>d. d), connect = (\<lambda>_. Some True), disconnect = (\<lambda>_. False), exec_query = (\<lambda>_ _. Some []),
     exec_commit = (\<lambda>d _. Some d), as_uint32 = (\<lambda>_. None)\<rparr>"

definition sample_uuid :: CDM_UUID_Type where
  "sample_uuid = get_file_uuid 1 2 3"

definition sample_inode :: string where
  "sample_inode = join (CHR ''|'') [''I'', show_nat 16 (unat (1 :: 32 word)), show_nat 16 (unat (2 :: 64 word)),
     show_nat 16 (unat (3 :: 32 word))]"

definition sample_cfg :: hooks_config where
  "sample_cfg = \<lparr>inbound_uuid_array_global = [sample_uuid], outbound_uuid_array_global = [sample_uuid],
     query_id_global = ''1'', subject_uuid_global = ''2'', default_key_global = ''3'',
     publish_to_kafka_global = True, create_avro_file_global = False\<rparr>"

definition sample_hooks :: "(8, bool) hooks_state" where
  "sample_hooks = \<lparr>dir = tag_dir_init, tag_counter = 0, uuid_to_tag = Map.empty, tag_to_tag_uuid = Map.empty,
     generated_tag_uuid_set = {}, tag_counter_global = 0, ip_buffer = [255, 255, 255, 255],
     kafka = [], avro = [], db = False\<rparr>"

definition sample_abi :: ABI where
  "sample_abi = \<lparr>sizeof = (\<lambda>t. if t = Iovec then 16 else 144),
     offsetof = (\<lambda>f. if f = Iov_len then 8 else 0), const_of = (\<lambda>_. 0)\<rparr>"

definition sample_guest :: guest where
  "sample_guest = \<lparr>rd64 = (\<lambda>_. 64), rd32 = (\<lambda>_. 0)\<rparr>"

definition sample_hook_env :: "bool hook_env" where
  "sample_hook_env = \<lparr>env_abi = sample_abi, env_guest = sample_guest, env_dbms = sample_dbms,
     env_cfg = sample_cfg, env_junk = zero_uuid, env_inode = sample_inode\<rparr>"

definition sample_tool :: "32 word \<Rightarrow> (8, bool) tool_state" where
  "sample_tool nr = \<lparr>hooks = sample_hooks,
     tdata = Some (thread_start \<lparr>app_syscall = 0, record_pid = 0, syscall_cnt = 0, sysnum = 3, ignore_flag = 0\<rparr> 7),
     syscall_ctx = \<lparr>ctx_nr = nr, ctx_arg = (\<lambda>_. 0), ctx_ret = 0\<rparr>, global_syscall_cnt = 0\<rparr>"

definition sample_ctx :: syscall_ctx_t where
  "sample_ctx = \<lparr>ctx_nr = 0, ctx_arg = (\<lambda>i. 4096), ctx_ret = 4\<rparr>"

lemma sample_hooks_inv: "hooks_inv sample_hooks"
  by (simp add: hooks_inv_def sample_hooks_def)

lemma sample_current:
  "get_current_uuid ips sample_inode ep = Inr (sample_uuid, INODE_TYPE, ep, ips)"
  unfolding sample_inode_def sample_uuid_def by (rule get_current_uuid_file)

lemma sample_read:
  "\<exists>st. post_read_hook sample_dbms sample_cfg zero_uuid sample_inode sample_ctx sample_hooks = Inr st"
  "\<exists>st. post_recvfrom_hook sample_dbms sample_cfg zero_uuid sample_inode sample_ctx sample_hooks = Inr st"
  by (simp_all add: post_read_hook_def post_recvfrom_hook_def sample_current deref_def no_endpoints_def
      Let_def sample_ctx_def)

lemma sample_read_tainted:
  assumes "post_read_hook sample_dbms sample_cfg zero_uuid sample_inode sample_ctx sample_hooks = Inr st"
  shows "tainted (tagmap_getb (dir st) 4096)"
proof -
  obtain remote cross ips' d where st: "st = taint_source sample_cfg ''EVENT_READ'' (uuid_to_string sample_uuid)
      remote cross 4096 4 (sample_hooks\<lparr>ip_buffer := ips', db := d\<rparr>)"
    using assms by (rule read_hook_cases) (auto simp: sample_ctx_def sample_current)
  have "hooks_inv (sample_hooks\<lparr>ip_buffer := ips', db := d\<rparr>)"
    "card (dom (uuid_to_tag (sample_hooks\<lparr>ip_buffer := ips', db := d\<rparr>))) < 2 ^ LENGTH(8)"
    "uuid_to_string sample_uuid \<in> uuid_to_string ` set (inbound_uuid_array_global sample_cfg)"
    by (simp_all add: sample_hooks_inv) (simp_all add: sample_hooks_def sample_cfg_def)
  note eff = taint_source_effect [OF this(1,2) _ this(3), of "''EVENT_READ''" remote cross 4096 4, folded st]
  have "ucast (4096 :: addr) \<in> span 4096 4"
    unfolding span_def by (rule imageI) (simp add: word_less_nat_alt)
  with eff have "\<exists>t. tagmap_getb (dir st) 4096 = std_insert t std_empty" by auto
  then show ?thesis by (auto simp: tainted_iff_members)
qed

definition sample_knobs :: knobs where
  "sample_knobs = \<lparr>PublishToKafka = ''false'', KafkaTopic = ''q'', CreateAvroFile = ''false'',
     QueryId = ''1'', SubjectUUID = ''2'', TagCounter = ''0''\<rparr>"

definition sample_rows_dbms :: "bool DBMS" where
  "sample_rows_dbms = sample_dbms\<lparr>exec_query := \<lambda>_ _. Some [[uuid_to_string sample_uuid, []]]\<rparr>"

lemma sample_uuid_length: "length sample_uuid = 16"
  by (simp add: sample_uuid_def)

end
