(* ===== verification/ToolRun.thy ===== *)
theory ToolRun
  imports EndToEnd
begin

text \<open>
  Whole runs of the tool as a transition system: entering and leaving system calls, with a
  description of the descriptor, guest memory and database of its own for each, and executing
  instrumented instructions in between. The invariant: every tag in a register or in memory
  was given to a source, and only inbound objects are sources. So no sink ever reports
  anything but inbound objects.
\<close>

subsection \<open>Invariants of transition systems\<close>

locale invariant_system =
  fixes step :: "'s \<Rightarrow> 's \<Rightarrow> bool" and inv :: "'s \<Rightarrow> bool"
  assumes step_inv: "inv s \<Longrightarrow> step s s' \<Longrightarrow> inv s'"
begin

lemma steps_inv: "step\<^sup>*\<^sup>* s s' \<Longrightarrow> inv s \<Longrightarrow> inv s'"
  by (induction rule: rtranclp_induct) (auto dest: step_inv)

end

subsection \<open>Runs\<close>

type_synonym ('w, 'db) run_state = "(nat \<Rightarrow> nat \<Rightarrow> 'w word std_set) \<times> ('w, 'db) tool_state"

inductive tool_step ::
  "hooks_config \<Rightarrow> ABI \<Rightarrow> PIN \<Rightarrow> ('w::len, 'db) run_state \<Rightarrow> ('w, 'db) run_state \<Rightarrow> bool"
  for cfg :: hooks_config and abi :: ABI and pin :: PIN where
    enter: "env_cfg e = cfg \<Longrightarrow> sysenter_save e (tool_syscall_desc abi) nr args st = Inr st' \<Longrightarrow>
      tool_step cfg abi pin (g, st) (g, st')"
  | leave: "env_cfg e = cfg \<Longrightarrow> sysexit_save e (tool_syscall_desc abi) ret st = Inr st' \<Longrightarrow>
      tool_step cfg abi pin (g, st) (g, st')"
  | exec: "exec_trace pin evs \<lparr>gpr = g, tag_dir = dir (hooks st)\<rparr> = Some tc \<Longrightarrow>
      tool_step cfg abi pin (g, st) (gpr tc, st\<lparr>hooks := (hooks st)\<lparr>dir := tag_dir tc\<rparr>\<rparr>)"

inductive_cases tool_stepE: "tool_step cfg abi pin s s'"

definition tags_known ::
  "hooks_config \<Rightarrow> (nat \<Rightarrow> nat \<Rightarrow> 'w::len word std_set) \<Rightarrow> ('w, 'db) hooks_state \<Rightarrow> bool" where
  "tags_known cfg g hs \<longleftrightarrow> hooks_inv hs \<and>
     dom (uuid_to_tag hs) \<subseteq> uuid_to_string ` set (inbound_uuid_array_global cfg) \<and>
     (\<forall>l. tag_members (tag_of \<lparr>gpr = g, tag_dir = dir hs\<rparr> l) \<subseteq> ran (uuid_to_tag hs))"

definition run_inv :: "hooks_config \<Rightarrow> ('w::len, 'db) run_state \<Rightarrow> bool" where
  "run_inv cfg = (\<lambda>(g, st). sint (ctx_nr (syscall_ctx st)) < 312 \<and> tags_known cfg g (hooks st))"

subsection \<open>The handlers keep the invariant\<close>

lemma tags_known_sub:
  assumes "tags_known cfg g hs" "hooks_inv hs'" "uuid_to_tag hs' = uuid_to_tag hs"
    and "\<And>a. tag_members (tag_dir_getb (dir hs') a) \<subseteq> tag_members (tag_dir_getb (dir hs) a)"
  shows "tags_known cfg g hs'"
proof -
  have "tag_members (tag_of \<lparr>gpr = g, tag_dir = dir hs'\<rparr> l) \<subseteq> tag_members (tag_of \<lparr>gpr = g, tag_dir = dir hs\<rparr> l)" for l
    using assms(4) by (cases l) (simp_all add: tag_of.simps)
  with assms(1-3) show ?thesis by (fastforce simp: tags_known_def)
qed

lemma only_clears_members:
  "only_clears d d' \<Longrightarrow> tag_members (tag_dir_getb d' a) \<subseteq> tag_members (tag_dir_getb d a)"
proof -
  assume "only_clears d d'"
  then obtain S where "tag_dir_getb d' a = (if ucast a \<in> (S :: 32 word set) then cleared_val else tag_dir_getb d a)"
    unfolding only_clears_def clears_def by blast
  then show ?thesis by simp
qed

lemma assign_tag_grows:
  assumes "assign_tag cfg ev s remote cross st = (t, st')"
  shows "dom (uuid_to_tag st') = insert s (dom (uuid_to_tag st))" "ran (uuid_to_tag st) \<subseteq> ran (uuid_to_tag st')"
    "t \<in> ran (uuid_to_tag st')"
proof -
  have "uuid_to_tag st' = (uuid_to_tag st)(s \<mapsto> t) \<and> (uuid_to_tag st s = None \<or> uuid_to_tag st s = Some t)"
    (is "?eq \<and> ?old")
  proof (cases "uuid_to_tag st s")
    case None
    with assms show ?thesis by (simp add: assign_tag_def new_source_tag_fields)
  next
    case (Some u)
    with assms show ?thesis by (auto simp: assign_tag_def fun_upd_idem)
  qed
  then have eq: ?eq and old: ?old by simp_all
  show "dom (uuid_to_tag st') = insert s (dom (uuid_to_tag st))" "t \<in> ran (uuid_to_tag st')"
    by (auto simp: eq ran_def)
  show "ran (uuid_to_tag st) \<subseteq> ran (uuid_to_tag st')"
  proof
    fix x
    assume "x \<in> ran (uuid_to_tag st)"
    then obtain a where "uuid_to_tag st a = Some x" by (auto simp: ran_def)
    with old have "uuid_to_tag st' a = Some x" by (auto simp: eq)
    then show "x \<in> ran (uuid_to_tag st')" by (rule ranI)
  qed
qed

lemma taint_source_known:
  assumes "tags_known cfg g hs"
  shows "tags_known cfg g (taint_source cfg ev s remote cross a n hs)"
proof (cases "s \<in> uuid_to_string ` set (inbound_uuid_array_global cfg)")
  case True
  obtain t st' where as: "assign_tag cfg ev s remote cross hs = (t, st')" by fastforce
  note grow = assign_tag_grows [OF as]
  let ?d = "for_addr (\<lambda>i d. setb d i (std_insert t std_empty)) a (a + n) (dir hs)"
  have src: "taint_source cfg ev s remote cross a n hs = st'\<lparr>dir := ?d\<rparr>"
    using True by (simp add: taint_source_eq as assign_tag_dir [OF as])
  have "tag_members (tag_of \<lparr>gpr = g, tag_dir = ?d\<rparr> l) \<subseteq> ran (uuid_to_tag st')" for l
  proof -
    have "tag_members (tag_of \<lparr>gpr = g, tag_dir = ?d\<rparr> l) \<subseteq>
        insert t (tag_members (tag_of \<lparr>gpr = g, tag_dir = dir hs\<rparr> l))"
      by (cases l) (auto simp: tag_of.simps get_for_addr_setb)
    with assms grow(2,3) show ?thesis by (fastforce simp: tags_known_def)
  qed
  with assms True grow(1) assign_tag_inv [OF _ as] show ?thesis
    by (auto simp: tags_known_def src)
next
  case False
  with assms show ?thesis by (simp add: taint_source_eq)
qed

lemma tags_known_buffer [simp]:
  "tags_known cfg g (hs\<lparr>ip_buffer := b, db := d\<rparr>) = tags_known cfg g hs"
  by (simp add: tags_known_def)

lemma source_known:
  assumes "tags_known cfg g hs"
    and "post_read_hook dbms cfg junk inode ctx hs = Inr hs' \<or> post_recvfrom_hook dbms cfg junk inode ctx hs = Inr hs'"
  shows "tags_known cfg g hs'"
  using assms(2)
proof
  assume "post_read_hook dbms cfg junk inode ctx hs = Inr hs'"
  then show ?thesis by (rule read_hook_cases) (simp_all add: assms(1) taint_source_known)
next
  assume "post_recvfrom_hook dbms cfg junk inode ctx hs = Inr hs'"
  then show ?thesis by (rule recvfrom_hook_cases) (simp_all add: assms(1) taint_source_known)
qed

lemma taint_sink_same:
  assumes "taint_sink dbms cfg ev s a n st = Inr st'"
  shows "same_taint st st'"
  using assms sink_loop_outcome [where dbms = dbms and cfg = cfg and ev = ev and s = s and a = a and n = n and st = st]
  by (auto simp: taint_sink_def and_then_Inr split: if_splits sum.splits)

lemma sink_same:
  "post_write_hook dbms cfg inode ctx st = Inr st' \<Longrightarrow> uuid_to_tag st' = uuid_to_tag st"
  "post_sendto_hook dbms cfg inode ctx st = Inr st' \<Longrightarrow> uuid_to_tag st' = uuid_to_tag st"
  by (auto simp: post_write_hook_def post_sendto_hook_def and_then_Inr same_taint_def
      dest!: taint_sink_same split: if_splits)

lemma run_post_map:
  assumes "run_post e h ctx hs = Inr (ctx', hs')" "\<not> is_source h"
  shows "uuid_to_tag hs' = uuid_to_tag hs"
proof (cases "h \<in> {Dta_write, Dta_sendto, P_process_vm_readv}")
  case True
  with assms show ?thesis
    by (auto simp: and_then_Inr split: option.splits dest: sink_same)
next
  case False
  then obtain f where "run_post e h ctx hs = on_dir f ctx hs" using assms(2) by (cases h) (auto simp: is_source_def)
  with assms(1) show ?thesis by (auto simp: on_dir_def split: prod.splits)
qed

lemma run_post_known:
  assumes "tags_known (env_cfg e) g hs" "run_post e h ctx hs = Inr (ctx', hs')"
  shows "tags_known (env_cfg e) g hs'"
proof (cases "is_source h")
  case True
  with assms show ?thesis by (auto simp: is_source_def and_then_Inr intro: source_known)
next
  case False
  have "only_clears (dir hs) (dir hs')"
    using non_source_clears [OF False, of e ctx hs] assms(2) by (simp add: hook_clears_def)
  with assms run_post_inv [OF _ assms(2)] run_post_map [OF assms(2) False] show ?thesis
    by (intro tags_known_sub [OF assms(1)] only_clears_members) (auto simp: tags_known_def)
qed

subsection \<open>The steps keep the invariant\<close>

lemma sint_small:
  assumes "unat (nr :: 64 word) < 312"
  shows "sint (ucast nr :: 32 word) < 312"
proof -
  have "uint nr = int (unat nr)" by simp
  then have n: "0 \<le> uint nr" "uint nr < 312" using assms by linarith+
  have "sint (ucast nr :: 32 word) = signed_take_bit 31 (uint nr)"
    by (simp add: signed_ucast_eq)
  also have "\<dots> = uint nr" using n by (intro signed_take_bit_int_eq_self) (auto intro: order_trans [of _ 0])
  finally show ?thesis using n by simp
qed

lemma sysenter_nr:
  assumes "sysenter_save e (tool_syscall_desc abi) nr args st = Inr st'"
  shows "sint (ctx_nr (syscall_ctx st')) < 312"
proof (cases "SYSCALL_MAX \<le> nr")
  case True
  with assms show ?thesis by (auto simp: sysenter_save_def)
next
  case False
  then have n: "unat nr < 312" by (simp add: SYSCALL_MAX_def word_le_nat_alt)
  have "pre (tool_syscall_desc abi ! unat nr) = None"
    using tool_static [OF n, of abi] tool_nargs [of abi]
    by (cases "unat nr = 0 \<or> unat nr = 45") (auto simp: static_entry_def)
  with assms False sint_small [OF n] show ?thesis
    by (auto simp: sysenter_save_def Let_def split: if_splits)
qed

text \<open>The handlers change the call's arguments and return value at most, never its number.\<close>

lemma on_dir_nr:
  assumes "on_dir f ctx hs = Inr (ctx', hs')" "ctx_nr (fst (f ctx (dir hs))) = ctx_nr ctx"
  shows "ctx_nr ctx' = ctx_nr ctx"
  using assms by (auto simp: on_dir_def split: prod.splits)

lemma fix_cmd_nr [simp]: "ctx_nr (fix_cmd i ctx) = ctx_nr ctx"
  by (simp add: fix_cmd_def)

lemma run_post_nr:
  assumes "run_post e h ctx hs = Inr (ctx', hs')"
  shows "ctx_nr ctx' = ctx_nr ctx"
proof (cases "h \<in> {Dta_read, Dta_recvfrom, Dta_write, Dta_sendto, P_process_vm_readv}")
  case True
  with assms show ?thesis
    by (auto simp: and_then_Inr post_process_vm_readv_hook_def split: option.splits if_splits)
next
  case False
  then show ?thesis
    using assms
    by (cases h) (simp_all, (erule on_dir_nr, simp add: buffer_hook_defs command_hook_defs socket_hook_defs
        Let_def split: option.split)+)
qed

lemma sysexit_known:
  assumes inv: "run_inv (env_cfg e) (g, st)"
    and run: "sysexit_save e (tool_syscall_desc abi) ret st = Inr st'"
  shows "run_inv (env_cfg e) (g, st')"
proof -
  obtain st1 where end1: "inst_syscall_end (env_guest e) st = Inr st1"
    using run by (auto simp: sysexit_save_def and_then_Inr)
  note f = inst_syscall_end_fields [OF end1]
  let ?d = "tool_syscall_desc abi ! nat (sint (ctx_nr (syscall_ctx st)))"
  let ?ctx = "(syscall_ctx st)\<lparr>ctx_ret := ret\<rparr>"
  consider "st' = st1"
    | h ctx' hs where "run_post e h ?ctx (hooks st) = Inr (ctx', hs)" "st' = st1\<lparr>syscall_ctx := ctx', hooks := hs\<rparr>"
    | "st' = st1\<lparr>syscall_ctx := ?ctx,
        hooks := (hooks st)\<lparr>dir := default_post ?d ?ctx (dir (hooks st))\<rparr>\<rparr>"
    using run
    by (auto simp: sysexit_save_def end1 f Let_def and_then_Inr split: if_splits option.splits)
  then show ?thesis
  proof cases
    case 1
    with inv show ?thesis by (simp add: run_inv_def f)
  next
    case 2
    with inv run_post_known [OF _ 2(1)] run_post_nr [OF 2(1)] show ?thesis by (simp add: run_inv_def)
  next
    case 3
    let ?hs = "(hooks st)\<lparr>dir := default_post ?d ?ctx (dir (hooks st))\<rparr>"
    have known: "tags_known (env_cfg e) g (hooks st)" using inv by (simp add: run_inv_def)
    then have "tags_known (env_cfg e) g ?hs"
      by (rule tags_known_sub) (use known in \<open>simp_all add: tags_known_def only_clears_members [OF default_post_clears]\<close>)
    with inv 3 show ?thesis by (simp add: run_inv_def)
  qed
qed

lemma exec_known:
  assumes "tags_known cfg g hs" "exec_trace pin evs \<lparr>gpr = g, tag_dir = dir hs\<rparr> = Some tc"
  shows "tags_known cfg (gpr tc) (hs\<lparr>dir := tag_dir tc\<rparr>)"
proof -
  have "tag_members (tag_of tc l) \<subseteq> ran (uuid_to_tag hs)" for l
    using exec_calls_members [OF assms(2) [unfolded exec_trace_calls]] assms(1)
    by (fastforce simp: tags_known_def)
  moreover have eq: "\<lparr>gpr = gpr tc, tag_dir = tag_dir tc\<rparr> = tc" by (cases tc) simp
  ultimately show ?thesis using assms(1) by (simp add: tags_known_def eq del: taint_state.surjective)
qed

lemma tool_step_inv: "run_inv cfg s \<Longrightarrow> tool_step cfg abi pin s s' \<Longrightarrow> run_inv cfg s'"
proof (erule tool_stepE, goal_cases)
  case (1 e nr args st st' g)
  then show ?case using sysenter_nr sysenter_keeps_tags by (fastforce simp: run_inv_def)
next
  case (2 e ret st st' g)
  then show ?case using sysexit_known by auto
next
  case (3 evs g st tc)
  then show ?case using exec_known by (auto simp: run_inv_def)
qed

interpretation tool_run: invariant_system "tool_step cfg abi pin" "run_inv cfg"
  for cfg abi pin
  by unfold_locales (rule tool_step_inv)

subsection \<open>What runs can report\<close>

definition fresh_run :: "('w::len, 'db) run_state \<Rightarrow> bool" where
  "fresh_run = (\<lambda>(g, st). g = (\<lambda>_ _. cleared_val) \<and> ctx_nr (syscall_ctx st) = 0 \<and>
     (\<exists>c d. hooks st = initial_hooks c d))"

lemma tag_of_fresh: "tag_of \<lparr>gpr = \<lambda>_ _. cleared_val, tag_dir = tag_dir_init\<rparr> l = cleared_val"
  by (cases l) (simp_all add: tag_of.simps)

lemma fresh_run_inv: "fresh_run s \<Longrightarrow> run_inv cfg s"
  by (auto simp: fresh_run_def run_inv_def tags_known_def initial_hooks_inv)
    (simp_all add: initial_hooks_def tag_of_fresh)

lemma known_origins:
  assumes known: "tags_known cfg g (hs :: ('w::len, 'db) hooks_state)" and w: "LENGTH('w) \<le> 32"
    and card: "card (uuid_to_string ` set (inbound_uuid_array_global cfg)) \<le> 2 ^ LENGTH('w)"
  shows "origins hs b \<subseteq> uuid_to_string ` set (inbound_uuid_array_global cfg)"
proof
  fix s
  assume "s \<in> origins hs b"
  then obtain t where t: "t \<in> tag_members (tagmap_getb (dir hs) b)" "s = tag_name (tag_to_tag_uuid hs) t"
    by (auto simp: origins_def)
  have sub: "dom (uuid_to_tag hs) \<subseteq> uuid_to_string ` set (inbound_uuid_array_global cfg)" and inv: "hooks_inv hs"
    using known by (simp_all add: tags_known_def)
  have "tag_members (tag_of \<lparr>gpr = g, tag_dir = dir hs\<rparr> (Mem b)) \<subseteq> ran (uuid_to_tag hs)"
    using known by (simp add: tags_known_def)
  with t(1) obtain r where r: "uuid_to_tag hs r = Some t"
    by (auto simp: tag_of.simps tagmap_getb_def ran_def)
  have "card (dom (uuid_to_tag hs)) \<le> 2 ^ LENGTH('w)"
    using card_mono [OF _ sub] card by simp
  with tag_name_assigned [OF inv _ w r] have "s = r" by (simp add: t(2))
  with r sub show "s \<in> uuid_to_string ` set (inbound_uuid_array_global cfg)" by blast
qed

subsection \<open>A concrete run\<close>

lemma sample_fresh: "fresh_run (\<lambda>_ _. cleared_val, sample_tool 0)"
proof -
  have "sample_hooks = initial_hooks 0 False" by (simp add: sample_hooks_def initial_hooks_def)
  then show ?thesis by (auto simp: fresh_run_def sample_tool_def)
qed

lemma sample_exit:
  "\<exists>st'. sysexit_save sample_hook_env (tool_syscall_desc sample_abi) ret (sample_tool 0) = Inr st'"
proof -
  obtain td where "tdata (sample_tool 0) = Some td" by (simp add: sample_tool_def)
  then obtain st1 where end1: "inst_syscall_end (env_guest sample_hook_env) (sample_tool 0) = Inr st1"
    using inst_syscall_end_ok by blast
  note f = inst_syscall_end_fields [OF end1]
  obtain hs where "post_read_hook sample_dbms sample_cfg zero_uuid sample_inode
      ((syscall_ctx (sample_tool 0))\<lparr>ctx_ret := ret\<rparr>) sample_hooks = Inr hs"
    using source_hooks_return(1) [OF sample_current] by blast
  moreover have "post (tool_syscall_desc sample_abi ! 0) = Some Dta_read" "save_args (tool_syscall_desc sample_abi ! 0) = 1"
    by (simp_all add: tool_desc_nth)
  moreover have "ctx_nr (syscall_ctx (sample_tool 0)) = 0" "hooks (sample_tool 0) = sample_hooks"
    by (simp_all add: sample_tool_def)
  ultimately show ?thesis
    by (simp add: sysexit_save_def end1 f Let_def) (simp add: sample_hook_env_def)
qed

end
