(* ===== verification/Replay.thy ===== *)
theory Replay
  imports Syscalls
begin

text \<open>
  The replay compensation callbacks of \<^verbatim>\<open>tools/libdft-dta64.cc\<close>. The kernel module that replays
  the process has its own clock, and it knows the address of the thread's \<^verbatim>\<open>app_syscall\<close>: the
  tool announces each system call of the application there, the kernel answers 999, and the next
  trace of the thread waits for the clock. Calls on the device are recorded in a list.
  What the callbacks only print is left out.
\<close>

subsection \<open>The clock of the replay\<close>

datatype clock_request = Check_before "32 word" | Check_after

definition get_record_pid :: "32 word \<Rightarrow> 32 word \<Rightarrow> 32 word" where
  "get_record_pid record_log_id pid = (if record_log_id = - 1 then pid else record_log_id)"

definition set_address_one ::
  "64 word \<Rightarrow> 64 word \<Rightarrow> thread_data option \<times> clock_request list \<Rightarrow> thread_data option \<times> clock_request list" where
  "set_address_one syscall_num syscallarg1 = (\<lambda>(t, log).
     case t of
       None \<Rightarrow> (None, log)
     | Some td \<Rightarrow>
         (let n = ucast syscall_num :: 32 word;
              td = (if n = 401 then td\<lparr>ignore_flag := syscallarg1\<rparr> else td);
              log = (if n \<in> {12, 11, 56, 10, 13, 14, 58, 9} then log @ [Check_before n] else log)
          in (Some (td\<lparr>app_syscall := syscall_num, sysnum := n\<rparr>), log)))"

definition syscall_after ::
  "thread_data option \<times> clock_request list \<Rightarrow> thread_data option \<times> clock_request list" where
  "syscall_after = (\<lambda>(t, log).
     case t of
       None \<Rightarrow> (None, log)
     | Some td \<Rightarrow>
         (if app_syscall td = 999 then (Some (td\<lparr>app_syscall := 997\<rparr>), log @ [Check_after])
          else (Some td, log)))"

text \<open>The child's thread record is used without a test; without one the result is undefined.\<close>

definition AfterForkInChild :: "32 word \<Rightarrow> 32 word \<Rightarrow> thread_data option \<Rightarrow> thread_data option" where
  "AfterForkInChild record_log_id pid t =
     map_option (\<lambda>td. td\<lparr>record_pid := get_record_pid record_log_id pid, syscall_cnt := 0\<rparr>) t"

definition pending :: "thread_data option \<Rightarrow> bool" where
  "pending t \<longleftrightarrow> (\<exists>td. t = Some td \<and> app_syscall td = 999)"

lemma syscall_after_eq:
  "syscall_after (t, log) =
     (if pending t then (map_option (\<lambda>td. td\<lparr>app_syscall := 997\<rparr>) t, log @ [Check_after]) else (t, log))"
  by (auto simp: syscall_after_def pending_def split: option.splits)

lemma pending_after [simp]: "\<not> pending (fst (syscall_after (t, log)))"
  by (auto simp: syscall_after_eq pending_def)

lemma pending_syscall: "pending (fst (set_address_one n a (t, log))) \<longleftrightarrow> t \<noteq> None \<and> n = 999"
  by (auto simp: set_address_one_def pending_def Let_def split: option.splits)

lemma pending_fork [simp]: "pending (AfterForkInChild i pid t) \<longleftrightarrow> pending t"
  by (auto simp: AfterForkInChild_def pending_def)

subsection \<open>Inserted calls\<close>

datatype replay_call = Set_address_one | Shm_read_feeback addr | Syscall_after

definition track_inst :: "bool \<Rightarrow> nat \<Rightarrow> addr \<Rightarrow> replay_call list" where
  "track_inst is_syscall memOperands ea =
     (if is_syscall then [Set_address_one] else []) @ (if memOperands > 0 then [Shm_read_feeback ea] else [])"

definition track_trace :: "replay_call list" where
  "track_trace = [Syscall_after]"

definition shm_read_feeback :: "addr \<Rightarrow> (addr \<Rightarrow> 8 word) \<Rightarrow> addr \<Rightarrow> 8 word" where
  "shm_read_feeback address mem = (if address = 0xb6b11004 then mem(address := 97) else mem)"

fun run_replay ::
  "64 word \<Rightarrow> 64 word \<Rightarrow> replay_call \<Rightarrow>
   (thread_data option \<times> clock_request list) \<times> (addr \<Rightarrow> 8 word) \<Rightarrow>
   (thread_data option \<times> clock_request list) \<times> (addr \<Rightarrow> 8 word)" where
  "run_replay n a Set_address_one (t, mem) = (set_address_one n a t, mem)"
| "run_replay n a (Shm_read_feeback ea) (t, mem) = (t, shm_read_feeback ea mem)"
| "run_replay n a Syscall_after (t, mem) = (syscall_after t, mem)"

text \<open>The memory of the application is kept, but for one byte at a fixed address.\<close>

lemma track_inst_memory:
  "snd (fold (run_replay n a) (track_inst b k ea) (t, mem)) x =
     (if 0 < k \<and> ea = 0xb6b11004 \<and> x = ea then 97 else mem x)"
  by (cases t) (auto simp: track_inst_def shm_read_feeback_def)

subsection \<open>The command line of a child\<close>

text \<open>
  \<open>arg\<close> is \<^verbatim>\<open>argv[i]\<close> with the terminating null pointer as \<open>Some None\<close>; reading past it is
  undefined.
\<close>

definition arg :: "string list \<Rightarrow> nat \<Rightarrow> string option option" where
  "arg argv i = (if i < length argv then Some (Some (argv ! i)) else if i = length argv then Some None else None)"

function find_tool :: "string list \<Rightarrow> nat \<Rightarrow> nat option" where
  "find_tool argv i =
     (case arg argv i of
        Some (Some s) \<Rightarrow> if s = ''-t'' then Some i else find_tool argv (i + 1)
      | _ \<Rightarrow> None)"
  by auto
termination by (relation "measure (\<lambda>(argv, i). length argv - i)") (auto simp: arg_def split: if_splits)

declare find_tool.simps [simp del]

definition follow_child :: "string list \<Rightarrow> string option list option" where
  "follow_child prev_argv =
     do {
       a0 \<leftarrow> arg prev_argv 0;
       i \<leftarrow> find_tool prev_argv 1;
       a2 \<leftarrow> arg prev_argv i;
       a3 \<leftarrow> arg prev_argv (i + 1);
       Some [a0, Some ''-follow_execv'', a2, a3, Some ''--'']
     }"

lemma find_tool_skip:
  "''-t'' \<notin> set xs \<Longrightarrow> find_tool (ys @ xs @ zs) (length ys) = find_tool (ys @ xs @ zs) (length ys + length xs)"
proof (induction xs arbitrary: ys)
  case (Cons x xs)
  then show ?case
    using Cons.IH [of "ys @ [x]"] by (subst find_tool.simps) (auto simp: arg_def nth_append)
qed simp

lemma find_tool_here: "find_tool (ys @ ''-t'' # zs) (length ys) = Some (length ys)"
  by (subst find_tool.simps) (simp add: arg_def)

lemma find_tool_end: "find_tool ys (length ys) = None"
  by (subst find_tool.simps) (simp add: arg_def)

lemma follow_child_tool:
  assumes "''-t'' \<notin> set opts"
  shows "follow_child (pin # opts @ ''-t'' # tool # rest) =
    Some [Some pin, Some ''-follow_execv'', Some ''-t'', Some tool, Some ''--'']"
proof -
  have "find_tool (pin # opts @ ''-t'' # tool # rest) 1 = Some (1 + length opts)"
    using find_tool_skip [OF assms, of "[pin]" "''-t'' # tool # rest"]
      find_tool_here [of "pin # opts" "tool # rest"] by simp
  then show ?thesis
    by (simp add: follow_child_def arg_def nth_append)
qed

lemma follow_child_no_tool:
  assumes "''-t'' \<notin> set opts"
  shows "follow_child (pin # opts) = None"
proof -
  have "find_tool (pin # opts) 1 = None"
    using find_tool_skip [OF assms, of "[pin]" "[]"] find_tool_end [of "pin # opts"] by simp
  then show ?thesis
    by (simp add: follow_child_def)
qed

end
