(* ===== verification/Threads.thy ===== *)
theory Threads
  imports ToolRun Replay SeqPatterns
begin

text \<open>
  The tool with all threads of the process: creation and end of thread contexts
  (\<^verbatim>\<open>thread_alloc\<close>, \<^verbatim>\<open>thread_free\<close> of \<^verbatim>\<open>libdft_api64.cc\<close>), the tool's steps of theory \<^verbatim>\<open>ToolRun\<close> on the
  context of one thread, and the replay callbacks, in any interleaving. Contexts are blocks on
  the heap; a thread finds its own through the register \<^verbatim>\<open>thread_ctx_ptr\<close>. The tag map, the tag
  names and the database are shared. The field \<^verbatim>\<open>uval\<close> of a context, which nothing uses, is left out.
\<close>

subsection \<open>State\<close>

record (overloaded) 'u thread_ctx_t =
  vcpu :: "nat \<Rightarrow> nat \<Rightarrow> 'u tag_t"
  sys_ctx :: syscall_ctx_t

record (overloaded) ('w::len, 'db) process =
  shared :: "('w, 'db) hooks_state"
  ctxs :: "nat \<Rightarrow> 'w word thread_ctx_t option"
  thread_ctx_map :: "nat \<Rightarrow> nat option"
  ctx_reg :: "nat \<Rightarrow> nat"
  tls :: "nat \<Rightarrow> thread_data option"
  bsf_info :: "nat \<Rightarrow> test_jnz_bsf_info_t"
  total_cnt :: "64 word"
  clock_log :: "clock_request list"
  detached :: bool

text \<open>What the kernel and the C library give to a new thread.\<close>

record (overloaded) 'u thread_env =
  calloc_block :: "nat option"
  zeroed :: "'u thread_ctx_t"
  malloc_data :: "thread_data option"
  record_log_id :: "32 word"
  os_pid :: "32 word"

subsection \<open>Operations\<close>

definition libdft_die :: "('w::len, 'db) process \<Rightarrow> ('w, 'db) process" where
  "libdft_die p = p\<lparr>shared := (shared p)\<lparr>dir := tagmap_free (dir (shared p))\<rparr>, detached := True\<rparr>"

lemma tagmap_free_shared [simp]: "(h :: ('w::len, 'db) hooks_state)\<lparr>dir := tagmap_free (dir h)\<rparr> = h"
  by (simp add: tagmap_free_def)

definition thread_alloc ::
  "'w::len word thread_env \<Rightarrow> nat \<Rightarrow> ('w, 'db) process \<Rightarrow> ('w, 'db) process option" where
  "thread_alloc e tid p =
     (let (tctx, p) = (case calloc_block e of
                         None \<Rightarrow> (0, libdft_die p)
                       | Some q \<Rightarrow> (q, p\<lparr>ctxs := (ctxs p)(q \<mapsto> zeroed e)\<rparr>));
          p = p\<lparr>thread_ctx_map := (thread_ctx_map p)(tid \<mapsto> tctx),
                bsf_info := (bsf_info p)(tid := test_jnz_bsf_pattern_thread_init),
                ctx_reg := (ctx_reg p)(tid := tctx)\<rparr>
      in case malloc_data e of
           None \<Rightarrow> None
         | Some td \<Rightarrow> Some (p\<lparr>tls := (tls p)(tid \<mapsto>
             thread_start td (get_record_pid (record_log_id e) (os_pid e)))\<rparr>))"

definition thread_free :: "nat \<Rightarrow> ('w::len, 'db) process \<Rightarrow> ('w, 'db) process option" where
  "thread_free tid p =
     (let tctx = ctx_reg p tid; p = p\<lparr>thread_ctx_map := (thread_ctx_map p)(tid := None)\<rparr>
      in if tctx = 0 then Some p
         else if ctxs p tctx = None then None
         else Some (p\<lparr>ctxs := (ctxs p)(tctx := None)\<rparr>))"

text \<open>A thread's part of the process, as the tool's steps see and change it.\<close>

definition view :: "nat \<Rightarrow> ('w::len, 'db) process \<Rightarrow> ('w, 'db) run_state option" where
  "view tid p =
     map_option (\<lambda>c. (vcpu c, \<lparr>hooks = shared p, tdata = tls p tid, syscall_ctx = sys_ctx c,
       global_syscall_cnt = total_cnt p\<rparr>)) (ctxs p (ctx_reg p tid))"

definition update :: "nat \<Rightarrow> ('w::len, 'db) run_state \<Rightarrow> ('w, 'db) process \<Rightarrow> ('w, 'db) process" where
  "update tid s p =
     p\<lparr>shared := hooks (snd s), tls := (tls p)(tid := tdata (snd s)),
       ctxs := (ctxs p)(ctx_reg p tid \<mapsto> \<lparr>vcpu = fst s, sys_ctx = syscall_ctx (snd s)\<rparr>),
       total_cnt := global_syscall_cnt (snd s)\<rparr>"

definition on_tls ::
  "nat \<Rightarrow> (thread_data option \<times> clock_request list \<Rightarrow> thread_data option \<times> clock_request list) \<Rightarrow>
   ('w::len, 'db) process \<Rightarrow> ('w, 'db) process" where
  "on_tls tid f p =
     (let (t, log) = f (tls p tid, clock_log p) in p\<lparr>tls := (tls p)(tid := t), clock_log := log\<rparr>)"

subsection \<open>Steps\<close>

datatype label =
    Start nat | Finish nat | Tool nat | Syscall_ins nat "64 word" | Trace nat | Fork nat | Kernel nat

inductive proc_step ::
  "hooks_config \<Rightarrow> ABI \<Rightarrow> PIN \<Rightarrow> label \<Rightarrow> ('w::len, 'db) process \<Rightarrow> ('w, 'db) process \<Rightarrow> bool"
  for cfg :: hooks_config and abi :: ABI and pin :: PIN where
    start: "thread_ctx_map p tid = None \<Longrightarrow>
      (\<And>q. calloc_block e = Some q \<Longrightarrow> q \<noteq> 0 \<and> ctxs p q = None) \<Longrightarrow>
      vcpu (zeroed e) = (\<lambda>_ _. cleared_val) \<Longrightarrow> ctx_nr (sys_ctx (zeroed e)) = 0 \<Longrightarrow>
      thread_alloc e tid p = Some p' \<Longrightarrow> proc_step cfg abi pin (Start tid) p p'"
  | finish: "thread_ctx_map p tid \<noteq> None \<Longrightarrow> thread_free tid p = Some p' \<Longrightarrow>
      proc_step cfg abi pin (Finish tid) p p'"
  | tool: "thread_ctx_map p tid \<noteq> None \<Longrightarrow> view tid p = Some s \<Longrightarrow> tool_step cfg abi pin s s' \<Longrightarrow>
      proc_step cfg abi pin (Tool tid) p (update tid s' p)"
  | syscall: "thread_ctx_map p tid \<noteq> None \<Longrightarrow>
      proc_step cfg abi pin (Syscall_ins tid n) p (on_tls tid (set_address_one n a) p)"
  | trace: "thread_ctx_map p tid \<noteq> None \<Longrightarrow> proc_step cfg abi pin (Trace tid) p (on_tls tid syscall_after p)"
  | fork: "thread_ctx_map p tid \<noteq> None \<Longrightarrow> tls p tid \<noteq> None \<Longrightarrow>
      proc_step cfg abi pin (Fork tid) p (on_tls tid (\<lambda>(t, log). (AfterForkInChild i pid t, log)) p)"
  | kernel: "thread_ctx_map p tid \<noteq> None \<Longrightarrow>
      proc_step cfg abi pin (Kernel tid) p
        (on_tls tid (\<lambda>(t, log). (map_option (\<lambda>td. td\<lparr>app_syscall := 999\<rparr>) t, log)) p)"

inductive_cases proc_stepE: "proc_step cfg abi pin l p p'"

subsection \<open>Threads have contexts of their own\<close>

definition own_ctxs :: "('w::len, 'db) process \<Rightarrow> bool" where
  "own_ctxs p \<longleftrightarrow> ctxs p 0 = None \<and>
     (\<forall>tid q. thread_ctx_map p tid = Some q \<longrightarrow> ctx_reg p tid = q \<and> (q \<noteq> 0 \<longrightarrow> ctxs p q \<noteq> None)) \<and>
     (\<forall>t u q. thread_ctx_map p t = Some q \<longrightarrow> thread_ctx_map p u = Some q \<longrightarrow> q \<noteq> 0 \<longrightarrow> t = u)"

definition regs :: "nat \<Rightarrow> ('w::len, 'db) process \<Rightarrow> 'w word thread_ctx_t option" where
  "regs tid p = ctxs p (ctx_reg p tid)"

fun thread_of :: "label \<Rightarrow> nat" where
  "thread_of (Start t) = t"
| "thread_of (Finish t) = t"
| "thread_of (Tool t) = t"
| "thread_of (Syscall_ins t n) = t"
| "thread_of (Trace t) = t"
| "thread_of (Fork t) = t"
| "thread_of (Kernel t) = t"

lemma on_tls_fields [simp]:
  "shared (on_tls tid f p) = shared p" "ctxs (on_tls tid f p) = ctxs p"
  "thread_ctx_map (on_tls tid f p) = thread_ctx_map p" "ctx_reg (on_tls tid f p) = ctx_reg p"
  "t \<noteq> tid \<Longrightarrow> tls (on_tls tid f p) t = tls p t"
  "tls (on_tls tid f p) tid = fst (f (tls p tid, clock_log p))"
  "clock_log (on_tls tid f p) = snd (f (tls p tid, clock_log p))"
  by (simp_all add: on_tls_def split: prod.split)

lemma update_fields [simp]:
  "shared (update tid s p) = hooks (snd s)" "thread_ctx_map (update tid s p) = thread_ctx_map p"
  "ctx_reg (update tid s p) = ctx_reg p" "clock_log (update tid s p) = clock_log p"
  "tls (update tid s p) = (tls p)(tid := tdata (snd s))"
  "ctxs (update tid s p) = (ctxs p)(ctx_reg p tid \<mapsto> \<lparr>vcpu = fst s, sys_ctx = syscall_ctx (snd s)\<rparr>)"
  by (simp_all add: update_def)

lemma own_ctxs_on_tls [simp]: "own_ctxs (on_tls tid f p) \<longleftrightarrow> own_ctxs p"
  by (simp add: own_ctxs_def)

lemma thread_alloc_fields:
  assumes "thread_alloc e tid p = Some p'"
  shows "shared p' = shared p"
    "thread_ctx_map p' = (thread_ctx_map p)(tid \<mapsto> (case calloc_block e of None \<Rightarrow> 0 | Some q \<Rightarrow> q))"
    "ctx_reg p' = (ctx_reg p)(tid := (case calloc_block e of None \<Rightarrow> 0 | Some q \<Rightarrow> q))"
    "ctxs p' = (case calloc_block e of None \<Rightarrow> ctxs p | Some q \<Rightarrow> (ctxs p)(q \<mapsto> zeroed e))"
    "u \<noteq> tid \<Longrightarrow> tls p' u = tls p u" "\<not> pending (tls p' tid)"
  using assms
  by (auto simp: thread_alloc_def libdft_die_def Let_def pending_def thread_start_def split: option.splits)

lemma fresh_block:
  assumes "own_ctxs p" "\<And>q. calloc_block e = Some q \<Longrightarrow> q \<noteq> 0 \<and> ctxs p q = None"
  shows "calloc_block e = Some q \<Longrightarrow> thread_ctx_map p t \<noteq> Some q"
  using assms(1) assms(2) [of q] unfolding own_ctxs_def by metis

lemma own_ctxs_start:
  assumes "own_ctxs p" "thread_ctx_map p tid = None" "thread_alloc e tid p = Some p'"
    and "\<And>q. calloc_block e = Some q \<Longrightarrow> q \<noteq> 0 \<and> ctxs p q = None"
  shows "own_ctxs p'"
  using assms(1,2,4) fresh_block [OF assms(1,4)]
  by (auto simp: own_ctxs_def thread_alloc_fields [OF assms(3)] split: option.splits)

lemma own_ctxs_finish:
  assumes "own_ctxs p" "thread_free tid p = Some p'" "thread_ctx_map p tid \<noteq> None"
  shows "own_ctxs p'"
  using assms by (auto simp: own_ctxs_def thread_free_def Let_def split: if_splits)

lemma own_ctxs_update:
  assumes "own_ctxs p" "view tid p = Some s"
  shows "own_ctxs (update tid s' p)"
  using assms by (cases "ctx_reg p tid = 0") (auto simp: own_ctxs_def view_def)

lemma own_ctxs_step: "own_ctxs p \<Longrightarrow> proc_step cfg abi pin l p p' \<Longrightarrow> own_ctxs p'"
  by (erule proc_stepE) (auto intro: own_ctxs_start own_ctxs_finish own_ctxs_update)

text \<open>No step of one thread changes the registers, tags or data of another.\<close>

lemma step_isolated:
  assumes "own_ctxs p" "proc_step cfg abi pin l p p'" "thread_ctx_map p u = Some q" "u \<noteq> thread_of l"
  shows "regs u p' = regs u p \<and> tls p' u = tls p u \<and> thread_ctx_map p' u = Some q"
  using assms(2)
proof (cases rule: proc_step.cases)
  case (start tid e)
  then show ?thesis
    using assms(1,3,4) fresh_block [OF assms(1) start(3)]
    by (auto simp: own_ctxs_def regs_def thread_alloc_fields [OF start(6)] split: option.splits)
next
  case (finish tid)
  then show ?thesis
    using assms(1,3,4) by (auto simp: own_ctxs_def thread_free_def regs_def Let_def split: if_splits)
next
  case (tool tid s s')
  obtain y where y: "thread_ctx_map p tid = Some y" using tool by auto
  with tool(4) assms(1) have "y \<noteq> 0" "ctx_reg p tid = y" "ctx_reg p u = q"
    using assms(3) by (auto simp: own_ctxs_def view_def intro!: gr0I)
  moreover have "y \<noteq> q" using calculation y tool(1) assms(1,3,4) by (auto simp: own_ctxs_def)
  ultimately show ?thesis
    using tool(1,2) assms(3,4) by (simp add: regs_def)
qed (use assms in \<open>auto simp: regs_def\<close>)

subsection \<open>All threads report inbound objects only\<close>

definition proc_inv :: "hooks_config \<Rightarrow> ('w::len, 'db) process \<Rightarrow> bool" where
  "proc_inv cfg p \<longleftrightarrow> own_ctxs p \<and> tags_known cfg (\<lambda>_ _. cleared_val) (shared p) \<and>
     (\<forall>q c. ctxs p q = Some c \<longrightarrow> sint (ctx_nr (sys_ctx c)) < 312 \<and> tags_known cfg (vcpu c) (shared p))"

text \<open>The invariant of one thread's registers does not depend on those of the others.\<close>

lemma tags_known_split:
  "tags_known cfg g hs \<longleftrightarrow> tags_known cfg (\<lambda>_ _. cleared_val) hs \<and>
     (\<forall>r i. tag_members (g r i) \<subseteq> ran (uuid_to_tag hs))"
proof -
  have "(\<forall>l. P l) \<longleftrightarrow> (\<forall>r i. P (Reg r i)) \<and> (\<forall>a. P (Mem a))" for P
    by (metis loc.exhaust)
  then show ?thesis
    by (simp add: tags_known_def tag_of.simps) blast
qed

lemma tool_step_others:
  assumes "tool_step cfg abi pin (g, st) (g', st')" "run_inv cfg (g, st)" "tags_known cfg g2 (hooks st)"
  shows "tags_known cfg g2 (hooks st')"
  using assms(1)
proof (cases rule: tool_step.cases)
  case (enter e nr args)
  then have "tool_step cfg abi pin (g2, st) (g2, st')" by (auto intro: tool_step.enter)
  from tool_step_inv [OF _ this] assms(2,3) show ?thesis by (simp add: run_inv_def)
next
  case (leave e ret)
  then have "tool_step cfg abi pin (g2, st) (g2, st')" by (auto intro: tool_step.leave)
  from tool_step_inv [OF _ this] assms(2,3) show ?thesis by (simp add: run_inv_def)
next
  case (exec evs tc)
  then have "tags_known cfg (gpr tc) (hooks st')" "uuid_to_tag (hooks st') = uuid_to_tag (hooks st)"
    using exec_known assms(2) by (auto simp: run_inv_def)
  then show ?thesis
    using assms(3) by (subst tags_known_split) (simp add: tags_known_split [of cfg g2] tags_known_split [of cfg "gpr tc"])
qed

lemma proc_inv_update:
  assumes "proc_inv cfg p" "view tid p = Some s" "tool_step cfg abi pin s s'"
  shows "proc_inv cfg (update tid s' p)"
proof -
  obtain g st where s: "s = (g, st)" by fastforce
  obtain g' st' where s': "s' = (g', st')" by fastforce
  obtain c where c: "ctxs p (ctx_reg p tid) = Some c" "g = vcpu c" "hooks st = shared p" "syscall_ctx st = sys_ctx c"
    using assms(2) by (auto simp: view_def s)
  have run: "run_inv cfg (g, st)"
    using assms(1) c by (simp add: proc_inv_def run_inv_def)
  note others = tool_step_others [OF assms(3) [unfolded s s'] run]
  have "run_inv cfg (g', st')"
    using tool_step_inv [OF run] assms(3) s s' by simp
  then show ?thesis
    using assms(1) own_ctxs_update [OF _ assms(2), of s'] others
    by (auto simp: proc_inv_def run_inv_def s' c)
qed

lemma proc_inv_step:
  assumes "proc_inv cfg p" "proc_step cfg abi pin l p p'"
  shows "proc_inv cfg p'"
  using assms(2)
proof (cases rule: proc_step.cases)
  case (start tid e)
  then show ?thesis
    using assms(1) own_ctxs_step [OF _ assms(2)] thread_alloc_fields [OF start(6)]
    by (auto simp: proc_inv_def split: option.splits if_splits)
next
  case (finish tid)
  then show ?thesis
    using assms(1) own_ctxs_step [OF _ assms(2)]
    by (auto simp: proc_inv_def thread_free_def Let_def split: if_splits)
next
  case (tool tid s s')
  then show ?thesis
    using proc_inv_update [OF assms(1)] by simp
qed (use assms in \<open>auto simp: proc_inv_def\<close>)

interpretation process: invariant_system "\<lambda>p p'. \<exists>l. proc_step cfg abi pin l p p'" "proc_inv cfg"
  for cfg abi pin
  by unfold_locales (auto intro: proc_inv_step)

definition fresh_process :: "('w::len, 'db) process \<Rightarrow> bool" where
  "fresh_process p \<longleftrightarrow> ctxs p = (\<lambda>_. None) \<and> thread_ctx_map p = (\<lambda>_. None) \<and>
     (\<exists>c d. shared p = initial_hooks c d)"

lemma fresh_process_inv:
  assumes "fresh_process p"
  shows "proc_inv cfg p"
proof -
  obtain c d where "shared p = initial_hooks c d" using assms by (auto simp: fresh_process_def)
  then have "tags_known cfg (\<lambda>_ _. cleared_val) (shared p)"
    by (simp add: tags_known_def initial_hooks_inv) (simp add: initial_hooks_def tag_of_fresh)
  with assms show ?thesis
    by (simp add: proc_inv_def fresh_process_def own_ctxs_def)
qed

subsection \<open>The clock of the replay\<close>

lemma inst_syscall_end_pending:
  assumes "inst_syscall_end g st = Inr st'"
  shows "pending (tdata st') \<longleftrightarrow> pending (tdata st)"
  using assms
  by (auto simp: inst_syscall_end_def increment_syscall_cnt_def pending_def Let_def
      split: option.splits prod.splits if_splits)

lemma sysenter_pending:
  assumes "sysenter_save e (tool_syscall_desc abi) nr args st = Inr st'"
  shows "tdata st' = tdata st"
  using assms
  by (auto simp: sysenter_save_def Let_def and_then_Inr split: if_splits option.splits)

lemma sysexit_pending:
  assumes "sysexit_save e t ret st = Inr st'"
  shows "pending (tdata st') \<longleftrightarrow> pending (tdata st)"
proof -
  obtain st1 where st1: "inst_syscall_end (env_guest e) st = Inr st1"
    using assms by (auto simp: sysexit_save_def and_then_Inr)
  have "tdata st' = tdata st1"
    using assms by (auto simp: sysexit_save_def st1 Let_def and_then_Inr split: if_splits option.splits)
  with inst_syscall_end_pending [OF st1] show ?thesis by simp
qed

lemma tool_step_pending:
  "tool_step cfg abi pin (g, st) (g', st') \<Longrightarrow> pending (tdata st') \<longleftrightarrow> pending (tdata st)"
  by (erule tool_stepE) (auto simp: sysenter_pending sysexit_pending)

lemma step_pending:
  assumes "proc_step cfg abi pin l p p'" "pending (tls p t)"
    and "l \<noteq> Start t" "l \<noteq> Trace t" "\<And>n. l \<noteq> Syscall_ins t n"
  shows "pending (tls p' t)"
  using assms(1)
proof (cases rule: proc_step.cases)
  case (start tid e)
  then show ?thesis using assms(2,3) thread_alloc_fields(5) [OF start(6), of t] by auto
next
  case (finish tid)
  then show ?thesis using assms(2) by (auto simp: thread_free_def Let_def split: if_splits)
next
  case (tool tid s s')
  obtain g st g' st' where s: "s = (g, st)" "s' = (g', st')" by fastforce
  then have "tdata st = tls p tid" using tool(4) by (auto simp: view_def)
  with tool tool_step_pending [of cfg abi pin g st g' st'] assms(2) s show ?thesis by auto
next
  case (syscall tid n a)
  then show ?thesis using assms(2,5) by (cases "tid = t") auto
next
  case (trace tid)
  then show ?thesis using assms(2,4) by (cases "tid = t") auto
next
  case (fork tid i pid)
  then show ?thesis using assms(2) by (cases "tid = t") auto
next
  case (kernel tid)
  then show ?thesis using assms(2) by (cases "tid = t") (auto simp: pending_def)
qed

text \<open>
  A mark of the kernel is answered by the next trace of the thread. The instruction of a system
  call ends a trace, so that between two of them a thread enters a trace.
\<close>

lemma mark_answered:
  assumes run: "\<And>n. proc_step cfg abi pin (lab n) (run n) (run (Suc n))"
    and fair: "\<And>n. \<exists>m>n. lab m = Trace t"
    and live: "\<And>n. lab n \<noteq> Start t"
    and ends: "\<And>k m n. k < m \<Longrightarrow> lab k = Kernel t \<Longrightarrow> lab m = Syscall_ins t n \<Longrightarrow> \<exists>j. k < j \<and> j < m \<and> lab j = Trace t"
    and mark: "lab k = Kernel t" "tls (run k) t \<noteq> None"
  shows "\<exists>m>k. lab m = Trace t \<and> (\<forall>j. k < j \<and> j < m \<longrightarrow> lab j \<noteq> Trace t) \<and>
    pending (tls (run m) t) \<and> clock_log (run (Suc m)) = clock_log (run m) @ [Check_after] \<and>
    \<not> pending (tls (run (Suc m)) t)"
proof -
  define m where "m = (LEAST m. k < m \<and> lab m = Trace t)"
  have m: "k < m" "lab m = Trace t"
    using LeastI_ex [of "\<lambda>m. k < m \<and> lab m = Trace t"] fair [of k] by (auto simp: m_def)
  have first: "lab j \<noteq> Trace t" if "k < j" "j < m" for j
    using not_less_Least [of j "\<lambda>m. k < m \<and> lab m = Trace t"] that by (auto simp: m_def)
  have "pending (tls (run (Suc k + i)) t)" if "Suc k + i \<le> m" for i
    using that
  proof (induction i)
    case 0
    from run [of k] show ?case
      by (rule proc_step.cases) (use mark in \<open>auto simp: pending_def\<close>)
  next
    case (Suc i)
    have "lab (Suc k + i) \<noteq> Syscall_ins t n" for n
      using ends [of k "Suc k + i" n] first mark(1) Suc.prems by force
    with Suc first [of "Suc k + i"] live show ?case
      by (intro step_pending [OF run [of "Suc k + i", unfolded add_Suc_right [symmetric]]]) auto
  qed
  from this [of "m - Suc k"] m(1) have "pending (tls (run m) t)" by simp
  moreover have "run (Suc m) = on_tls t syscall_after (run m)"
    using run [of m] m(2) by (auto elim: proc_step.cases)
  ultimately show ?thesis
    using m first pending_after [of "tls (run m) t" "clock_log (run m)"]
    by (intro exI [of _ m]) (simp add: syscall_after_eq)
qed

subsection \<open>A sample process\<close>

definition sample_process :: "(8, bool) process" where
  "sample_process =
     \<lparr>shared = sample_hooks, ctxs = (\<lambda>_. None), thread_ctx_map = (\<lambda>_. None), ctx_reg = (\<lambda>_. 0), tls = (\<lambda>_. None),
      bsf_info = (\<lambda>_. test_jnz_bsf_pattern_thread_init), total_cnt = 0, clock_log = [], detached = False\<rparr>"

definition sample_thread :: "8 word thread_env" where
  "sample_thread =
     \<lparr>calloc_block = Some 16, zeroed = \<lparr>vcpu = \<lambda>_ _. cleared_val, sys_ctx = syscall_ctx (sample_tool 0)\<rparr>,
      malloc_data = Some \<lparr>app_syscall = 0, record_pid = 0, syscall_cnt = 0, sysnum = 3, ignore_flag = 0\<rparr>,
      record_log_id = 7, os_pid = 1\<rparr>"

fun sample_label :: "nat \<Rightarrow> label" where
  "sample_label n = (if even n then Kernel 0 else Trace 0)"

primrec sample_run :: "nat \<Rightarrow> (8, bool) process" where
  "sample_run 0 = the (thread_alloc sample_thread 0 sample_process)"
| "sample_run (Suc n) =
     (if even n then on_tls 0 (\<lambda>(t, log). (map_option (\<lambda>td. td\<lparr>app_syscall := 999\<rparr>) t, log)) (sample_run n)
      else on_tls 0 syscall_after (sample_run n))"

lemma sample_alloc: "thread_alloc sample_thread 0 sample_process = Some (sample_run 0)"
  by (simp add: thread_alloc_def sample_thread_def)

lemma sample_start: "proc_step cfg abi pin (Start 0) sample_process (sample_run 0)"
  by (rule proc_step.start [OF _ _ _ _ sample_alloc])
    (simp_all add: sample_process_def sample_thread_def sample_tool_def)

lemma sample_view: "view 0 (sample_run 0) = Some (\<lambda>_ _. cleared_val, sample_tool 0)"
  by (simp add: view_def thread_alloc_def sample_thread_def sample_process_def sample_tool_def get_record_pid_def)

lemma sample_mapped: "thread_ctx_map (sample_run n) 0 = Some 16"
  by (induction n) (simp_all add: thread_alloc_def sample_thread_def Let_def)

lemma sample_fresh_process: "fresh_process sample_process"
proof -
  have "sample_hooks = initial_hooks 0 False" by (simp add: sample_hooks_def initial_hooks_def)
  then show ?thesis by (auto simp: fresh_process_def sample_process_def)
qed

lemma sample_steps: "proc_step cfg abi pin (sample_label n) (sample_run n) (sample_run (Suc n))"
  by (cases "even n") (auto intro!: proc_step.kernel proc_step.trace simp: sample_mapped)

end
