(* ===== verification/TagNames.thy ===== *)
theory TagNames
  imports Db
begin

text \<open>
  Translation between the objects of a query and short local tags (\<^verbatim>\<open>global2local\<close> and
  \<^verbatim>\<open>local2global\<close> of \<^verbatim>\<open>libdft_api64.cc\<close>). The width of a local tag is computed from
  \<^verbatim>\<open>log10(n)/log10(2)\<close> in floating point and truncated: the argument \<^verbatim>\<open>log2i\<close>. The array of
  local tags is a list of words of its width; reading behind it or with another width is
  undefined, and so is the conversion of the logarithm of zero, minus infinity, to an integer.
\<close>

datatype local_tags =
    Tags8 "8 word list"
  | Tags16 "16 word list"
  | Tags32 "32 word list"
  | Tags64 "64 word list"

primrec store_mapping ::
  "'db DBMS \<Rightarrow> string \<Rightarrow> string \<Rightarrow> nat \<Rightarrow> CDM_UUID_Type list \<Rightarrow> 'db \<Rightarrow> 'db" where
    "store_mapping dbms query_id subject_uuid i [] db = db"
  | "store_mapping dbms query_id subject_uuid i (u # us) db =
       store_mapping dbms query_id subject_uuid (i + 1) us
         (snd (store_local_tags_to_rdb dbms db query_id subject_uuid (show_nat 10 i) (uuid_to_string u)))"

definition minimal_tags :: "int \<Rightarrow> nat \<Rightarrow> (int \<times> local_tags \<times> nat) option" where
  "minimal_tags type_len n =
     (if type_len \<le> 8 then Some (8, Tags8 (map of_nat [0..<n]), n * 1)
      else if type_len \<le> 16 then Some (16, Tags16 (map of_nat [0..<n]), n * 2)
      else if type_len \<le> 32 then Some (32, Tags32 (map of_nat [0..<n]), n * 4)
      else if type_len \<le> 64 then Some (64, Tags64 (map of_nat [0..<n]), n * 8)
      else None)"

definition global2local ::
  "(nat \<Rightarrow> int) \<Rightarrow> 'db DBMS \<Rightarrow> 'db \<Rightarrow> string \<Rightarrow> string \<Rightarrow> CDM_UUID_Type list \<Rightarrow>
   (int \<times> int \<times> (local_tags \<times> nat) option \<times> 'db) result" where
  "global2local log2i dbms db query_id subject_uuid glb_uuids =
     (if glb_uuids = [] then Inl Undefined_behaviour else
      let type_len = log2i (length glb_uuids) in
      case minimal_tags type_len (length glb_uuids) of
        None \<Rightarrow> Inr (-1, type_len, None, db)
      | Some (type_len, t) \<Rightarrow>
          Inr (0, type_len, Some t, store_mapping dbms query_id subject_uuid 0 glb_uuids db))"

definition local_tag :: "int \<Rightarrow> local_tags \<Rightarrow> nat \<Rightarrow> nat result" where
  "local_tag type_len tags i =
     (case tags of
        Tags8 ts \<Rightarrow> if type_len = 8 \<and> i < length ts then Inr (unat (ts ! i)) else Inl Undefined_behaviour
      | Tags16 ts \<Rightarrow> if type_len = 16 \<and> i < length ts then Inr (unat (ts ! i)) else Inl Undefined_behaviour
      | Tags32 ts \<Rightarrow> if type_len = 32 \<and> i < length ts then Inr (unat (ts ! i)) else Inl Undefined_behaviour
      | Tags64 ts \<Rightarrow> if type_len = 64 \<and> i < length ts then Inr (unat (ts ! i)) else Inl Undefined_behaviour)"

text \<open>
  The loop reads \<^verbatim>\<open>k\<close> tags from position \<^verbatim>\<open>i\<close> on; identifiers read before a failure stay in the
  caller's vector. An identifier that cannot be parsed raises an exception.
\<close>

primrec local2global_loop ::
  "'db DBMS \<Rightarrow> CDM_UUID_Type \<Rightarrow> string \<Rightarrow> string \<Rightarrow> int \<Rightarrow> local_tags \<Rightarrow> nat \<Rightarrow> nat \<Rightarrow>
   CDM_UUID_Type list \<Rightarrow> 'db \<Rightarrow> (int \<times> CDM_UUID_Type list \<times> 'db) result" where
    "local2global_loop dbms junk query_id subject_uuid type_len tags 0 i glb_uuids db = Inr (0, glb_uuids, db)"
  | "local2global_loop dbms junk query_id subject_uuid type_len tags (Suc k) i glb_uuids db =
       and_then (local_tag type_len tags i) (\<lambda>t.
       case get_global_tags_from_rdb dbms db query_id subject_uuid (show_nat 10 t) [] of
         (ret, uuid_str, db) \<Rightarrow>
           if ret \<le> 0 then Inr (-1, glb_uuids, db)
           else and_then (get_cdm_uuid junk uuid_str) (\<lambda>u.
             local2global_loop dbms junk query_id subject_uuid type_len tags k (i + 1) (glb_uuids @ [u]) db))"

definition local2global ::
  "'db DBMS \<Rightarrow> CDM_UUID_Type \<Rightarrow> 'db \<Rightarrow> string \<Rightarrow> string \<Rightarrow> int \<Rightarrow> local_tags \<Rightarrow> nat \<Rightarrow>
   CDM_UUID_Type list \<Rightarrow> (int \<times> CDM_UUID_Type list \<times> 'db) result" where
  "local2global dbms junk db query_id subject_uuid type_len tags sz glb_uuids =
     (if type_len = 0 then Inl Undefined_behaviour
      else if type_len \<in> {8, 16, 32, 64}
      then local2global_loop dbms junk query_id subject_uuid type_len tags (sz div nat type_len) 0 glb_uuids db
      else Inr (-1, glb_uuids, db))"

subsection \<open>Facts\<close>

lemma local2global_loop_length:
  "local2global_loop dbms junk q s type_len tags k i us db = Inr (ret, us', db') \<Longrightarrow>
   (if ret = 0 then length us' = length us + k else ret = -1 \<and> length us' < length us + k)"
proof (induction k arbitrary: i us db)
  case (Suc k)
  obtain t where t: "local_tag type_len tags i = Inr t" using Suc.prems by (auto simp: and_then_Inr)
  obtain r str d where g: "get_global_tags_from_rdb dbms db q s (show_nat 10 t) [] = (r, str, d)"
    by (rule prod_cases3)
  show ?case
  proof (cases "r \<le> 0")
    case True
    with Suc.prems t g show ?thesis by auto
  next
    case False
    then obtain u where "local2global_loop dbms junk q s type_len tags k (i + 1) (us @ [u]) d = Inr (ret, us', db')"
      using Suc.prems t g by (auto simp: and_then_Inr)
    from Suc.IH [OF this] show ?thesis by (auto split: if_splits)
  qed
qed simp

lemma minimal_tags_width:
  assumes "minimal_tags type_len n = Some (w, tags, sz)"
  shows "w \<in> {8, 16, 32, 64} \<and> type_len \<le> w \<and> 8 * sz = n * nat w \<and>
    (\<forall>i < n. local_tag w tags i = Inr (i mod 2 ^ nat w))"
  using assms by (auto simp: minimal_tags_def local_tag_def unat_of_nat split: if_splits)

end
