(* ===== verification/TagPrint.thy ===== *)
theory TagPrint
  imports TagTraits CxxString "HOL-Library.Product_Lexorder"
begin

text \<open>
  Printing of tags (\<^verbatim>\<open>tag_sprint\<close> of \<^verbatim>\<open>tag_traits.cc\<close>), and the remaining constants of the tag types.
  The locale \<open>item_format\<close> is what the text of an element promises: it can be recognised before a
  comma or a closing brace. Printed sets then determine the tag, for every tag type.
\<close>

subsection \<open>Constants\<close>

type_synonym fdoff_t = "32 word \<times> 32 word"

definition cleared_val_fdoff :: "fdoff_t std_set" where
  "cleared_val_fdoff = Std_set []"

definition set_val_fdoff :: "fdoff_t std_set" where
  "set_val_fdoff = Std_set [(0, 0)]"

lemma elems_fdoff [simp]: "elems cleared_val_fdoff = []" "elems set_val_fdoff = [(0, 0)]"
  by (simp_all add: cleared_val_fdoff_def set_val_fdoff_def Std_set_inverse)

definition set_val_bitset :: "'n::len word" where
  "set_val_bitset = - 1"

subsection \<open>Printing\<close>

fun sprint_loop :: "('a \<Rightarrow> string) \<Rightarrow> 'a list \<Rightarrow> string" where
  "sprint_loop put [] = []"
| "sprint_loop put [t] = put t"
| "sprint_loop put (t # ts) = put t @ '', '' @ sprint_loop put ts"

definition set_sprint :: "('a::linorder \<Rightarrow> string) \<Rightarrow> 'a std_set \<Rightarrow> string" where
  "set_sprint put tag = ''{'' @ (if elems tag = [] then [] else sprint_loop put (elems tag)) @ ''}''"

text \<open>A \<^verbatim>\<open>uint8_t\<close> goes to the stream as a character, the wider units as decimal numbers.\<close>

definition put_uint8 :: "8 word \<Rightarrow> string" where
  "put_uint8 t = [char_of (unat t)]"

definition put_uint :: "'w::len word \<Rightarrow> string" where
  "put_uint t = show_nat 10 (unat t)"

definition put_fdoff :: "fdoff_t \<Rightarrow> string" where
  "put_fdoff t = put_uint (fst t) @ '':'' @ put_uint (snd t)"

definition tag_sprint_uint8 :: "8 word std_set \<Rightarrow> string" where
  "tag_sprint_uint8 = set_sprint put_uint8"

definition tag_sprint_uint16 :: "16 word std_set \<Rightarrow> string" where
  "tag_sprint_uint16 = set_sprint put_uint"

definition tag_sprint_uint32 :: "32 word std_set \<Rightarrow> string" where
  "tag_sprint_uint32 = set_sprint put_uint"

definition tag_sprint_uint64 :: "64 word std_set \<Rightarrow> string" where
  "tag_sprint_uint64 = set_sprint put_uint"

definition tag_sprint_fdoff :: "fdoff_t std_set \<Rightarrow> string" where
  "tag_sprint_fdoff = set_sprint put_fdoff"

definition tag_sprint_bitset :: "'n::len word \<Rightarrow> string" where
  "tag_sprint_bitset tag = map (\<lambda>i. if bit tag i then CHR ''1'' else CHR ''0'') (rev [0..<LENGTH('n)])"

definition tag_sprint_uchar :: "8 word \<Rightarrow> string" where
  "tag_sprint_uchar tag = tag_sprint_bitset tag"

subsection \<open>Formats of elements\<close>

definition delimited :: "string \<Rightarrow> bool" where
  "delimited s \<longleftrightarrow> (case s of [] \<Rightarrow> False | c # _ \<Rightarrow> c = CHR '','' \<or> c = CHR ''}'')"

lemma delimited_simps [simp]:
  "\<not> delimited []" "delimited (c # s) \<longleftrightarrow> c = CHR '','' \<or> c = CHR ''}''"
  by (simp_all add: delimited_def)

lemma sprint_loop_tail:
  "sprint_loop put (t # ts) = put t @ (if ts = [] then [] else '', '' @ sprint_loop put ts)"
  by (cases ts) simp_all

locale item_format =
  fixes put :: "'a::linorder \<Rightarrow> string"
  assumes put_ne: "put x \<noteq> []"
    and put_determines: "put x @ r = put y @ s \<Longrightarrow> delimited r \<Longrightarrow> delimited s \<Longrightarrow> x = y"
begin

lemma sprint_loop_determines:
  "xs \<noteq> [] \<Longrightarrow> ys \<noteq> [] \<Longrightarrow> sprint_loop put xs @ ''}'' = sprint_loop put ys @ ''}'' \<Longrightarrow> xs = ys"
proof (induction xs arbitrary: ys)
  case (Cons x xs)
  obtain y zs where ys: "ys = y # zs" using Cons.prems(2) by (cases ys) auto
  note eq = Cons.prems(3) [unfolded ys sprint_loop_tail append_assoc]
  from put_determines [OF eq] have x: "x = y" by simp
  with eq have "(xs = [] \<longleftrightarrow> zs = []) \<and>
      (xs \<noteq> [] \<longrightarrow> sprint_loop put xs @ ''}'' = sprint_loop put zs @ ''}'')"
    by (simp split: if_splits)
  with x ys Cons.IH [of zs] show ?case by (cases "xs = []") simp_all
qed simp

lemma set_sprint_inject [simp]: "set_sprint put s = set_sprint put t \<longleftrightarrow> s = t"
proof
  assume eq: "set_sprint put s = set_sprint put t"
  have ne: "sprint_loop put xs \<noteq> []" if "xs \<noteq> []" for xs
    using that put_ne by (cases xs) (auto simp: sprint_loop_tail)
  have "elems s = elems t"
    using eq ne [of "elems s"] ne [of "elems t"] sprint_loop_determines [of "elems s" "elems t"]
    by (auto simp: set_sprint_def split: if_splits)
  then show "s = t" by (simp add: elems_inject)
qed simp

end

subsection \<open>The formats of the code\<close>

abbreviation ends_number :: "string \<Rightarrow> bool" where
  "ends_number s \<equiv> (case s of [] \<Rightarrow> True | c # _ \<Rightarrow> \<not> is_digit 10 c)"

lemma takeWhile_number:
  assumes "ends_number s"
  shows "takeWhile (is_digit 10) (show_nat 10 n @ s) = show_nat 10 n"
proof -
  have "takeWhile (is_digit 10) s = []" using assms by (cases s) simp_all
  moreover have "\<forall>c \<in> set (show_nat 10 n). is_digit 10 c"
    using show_nat_digits [of 10 n] by (simp add: list_all_iff)
  ultimately show ?thesis by simp
qed

lemma put_uint_determines:
  assumes "put_uint (x :: 'w::len word) @ r = put_uint (y :: 'w word) @ s" "ends_number r" "ends_number s"
  shows "x = y \<and> r = s"
proof -
  have "show_nat 10 (unat x) = takeWhile (is_digit 10) (put_uint x @ r)"
    using takeWhile_number [OF assms(2)] by (simp only: put_uint_def)
  also have "\<dots> = show_nat 10 (unat y)"
    unfolding assms(1) using takeWhile_number [OF assms(3)] by (simp only: put_uint_def)
  finally have "digits_value 10 (show_nat 10 (unat x)) = digits_value 10 (show_nat 10 (unat y))" by (rule arg_cong)
  then have "x = y" by (simp add: show_nat_value word_unat_eq_iff)
  with assms(1) show ?thesis by simp
qed

lemma not_digit [simp]:
  "\<not> is_digit 10 (CHR '','')" "\<not> is_digit 10 (CHR ''}'')" "\<not> is_digit 10 (CHR '':'')"
  by (simp_all add: is_digit_def digit_value_def)

lemma delimited_not_digit: "delimited s \<Longrightarrow> ends_number s"
  by (cases s) auto

interpretation uint8_item: item_format put_uint8
proof
  show "x = y" if "put_uint8 x @ r = put_uint8 y @ s" for x y :: "8 word" and r s
  proof -
    have "unat x mod 256 = unat y mod 256"
      using that by (simp add: put_uint8_def char_of_eq_iff take_bit_eq_mod)
    moreover have "unat x < 256" "unat y < 256" using unsigned_less [of x] unsigned_less [of y] by simp_all
    ultimately show ?thesis by (simp add: word_unat_eq_iff)
  qed
qed (simp add: put_uint8_def)

interpretation uint_item: item_format "put_uint :: 'w::len word \<Rightarrow> string"
proof
  show "x = y" if "put_uint x @ r = put_uint y @ s" "delimited r" "delimited s" for x y :: "'w word" and r s
    using put_uint_determines [OF that(1) that(2,3) [THEN delimited_not_digit]] by simp
qed (simp add: put_uint_def)

interpretation fdoff_item: item_format put_fdoff
proof
  fix x y r s
  assume eq: "put_fdoff x @ r = put_fdoff y @ s" and ends: "delimited r" "delimited s"
  then have "fst x = fst y" "put_uint (snd x) @ r = put_uint (snd y) @ s"
    using put_uint_determines [of "fst x" "'':'' @ put_uint (snd x) @ r" "fst y" "'':'' @ put_uint (snd y) @ s"]
    by (simp_all add: put_fdoff_def)
  with put_uint_determines [OF this(2)] ends show "x = y"
    by (simp add: delimited_not_digit prod_eq_iff)
qed (simp add: put_fdoff_def)

lemma tag_sprint_bitset_inject: "tag_sprint_bitset s = tag_sprint_bitset t \<longleftrightarrow> s = t"
proof
  assume "tag_sprint_bitset s = tag_sprint_bitset t"
  then have "bit s i = bit t i" if "i < LENGTH('a)" for i
    using that by (auto simp: tag_sprint_bitset_def split: if_splits)
  then show "s = t" by (intro bit_word_eqI) simp
qed simp

lemma tag_sprint_set_bitset:
  "tag_sprint_bitset (set_val_bitset :: 'n::len word) = replicate LENGTH('n) (CHR ''1'')"
  by (auto simp: tag_sprint_bitset_def set_val_bitset_def map_replicate_const [symmetric] intro!: replicate_eqI)

text \<open>Whatever the tag type, the printed text determines the tag.\<close>

theorem tag_sprint_inject:
  "tag_sprint_uint8 a = tag_sprint_uint8 b \<longleftrightarrow> a = b" "tag_sprint_uint16 c = tag_sprint_uint16 d \<longleftrightarrow> c = d"
  "tag_sprint_uint32 e = tag_sprint_uint32 f \<longleftrightarrow> e = f" "tag_sprint_uint64 g = tag_sprint_uint64 h \<longleftrightarrow> g = h"
  "tag_sprint_fdoff i = tag_sprint_fdoff j \<longleftrightarrow> i = j" "tag_sprint_uchar k = tag_sprint_uchar l \<longleftrightarrow> k = l"
  by (simp_all add: tag_sprint_uint8_def tag_sprint_uint16_def tag_sprint_uint32_def tag_sprint_uint64_def
      tag_sprint_fdoff_def tag_sprint_uchar_def tag_sprint_bitset_inject)

end
