(* ===== verification/DbTables.thy ===== *)
theory DbTables
  imports Db
begin

text \<open>
  The remaining tables of the provenance database (\<^verbatim>\<open>TheiaDB.cpp\<close>): the subjects of a query,
  replay directories, file tagging, paths and system calls. The conversions of libpqxx from a
  field to a number (\<^verbatim>\<open>as<int>\<close> and so on), which raise an exception when they fail, are the
  parameter \<^verbatim>\<open>conversions\<close>. Every exception is caught by the operation itself.
\<close>

record conversions =
  as_int :: "string \<Rightarrow> 32 word option"
  as_ulong :: "string \<Rightarrow> 64 word option"
  as_ssize :: "string \<Rightarrow> 64 word option"
  as_int64 :: "string \<Rightarrow> 64 word option"

datatype SyscallType = READ_SYSCALL | WRITE_SYSCALL | MMAP_SYSCALL | SEND_SYSCALL | RECEIVE_SYSCALL

record SyscallStruct =
  sys_syscall :: SyscallType
  sys_clock :: "64 word"
  sys_timestamp :: "64 word"
  sys_file_name :: string
  sys_uuid :: "64 word"
  sys_version :: "32 word"

text \<open>Numbers as the stream operator prints them; an enumeration prints its number.\<close>

definition show_int :: "int \<Rightarrow> string" where
  "show_int i = (if i < 0 then ''-'' @ show_nat 10 (nat (- i)) else show_nat 10 (nat i))"

definition show_u :: "'w::len word \<Rightarrow> string" where
  "show_u w = show_nat 10 (unat w)"

definition show_s :: "'w::len word \<Rightarrow> string" where
  "show_s w = show_int (sint w)"

primrec syscall_number :: "SyscallType \<Rightarrow> nat" where
    "syscall_number READ_SYSCALL = 0"
  | "syscall_number WRITE_SYSCALL = 1"
  | "syscall_number MMAP_SYSCALL = 2"
  | "syscall_number SEND_SYSCALL = 3"
  | "syscall_number RECEIVE_SYSCALL = 4"

text \<open>A query on an open connection; the result does not tell why it failed.\<close>

definition run_query :: "'db DBMS \<Rightarrow> 'db \<Rightarrow> string \<Rightarrow> string list list option \<times> 'db" where
  "run_query dbms db sql =
     (let (ok, db) = open_connection dbms db in if ok then (exec_query dbms db sql, db) else (None, db))"

definition run_statement :: "'db DBMS \<Rightarrow> 'db \<Rightarrow> string \<Rightarrow> 'db" where
  "run_statement dbms db sql =
     (let (ok, db) = open_connection dbms db in
      if ok then (case exec_commit dbms db sql of None \<Rightarrow> db | Some db' \<Rightarrow> db') else db)"

definition field :: "string list \<Rightarrow> nat \<Rightarrow> string option" where
  "field row i = (if i < length row then Some (row ! i) else None)"

subsection \<open>Subjects\<close>

text \<open>The text fields are arrays of fixed size, cleared first and then filled by \<^verbatim>\<open>strncpy\<close>.\<close>

record subjects_for_taint =
  sub_pid :: "32 word"
  sub_path :: string
  sub_subject_uuid :: string
  sub_local_principal :: string

definition strncpy :: "nat \<Rightarrow> string \<Rightarrow> string result" where
  "strncpy n s =
     (if length s \<le> n then Inr (s @ replicate (n - length s) (CHR 0x00)) else Inl Undefined_behaviour)"

definition read_subject :: "conversions \<Rightarrow> string list \<Rightarrow> subjects_for_taint option result" where
  "read_subject conv row =
     (case (Option.bind (field row 0) (as_int conv), field row 1, field row 2, field row 3) of
        (Some pid, Some path, Some subject_uuid, Some local_principal) \<Rightarrow>
          and_then (strncpy 4096 path) (\<lambda>p.
          and_then (strncpy 64 subject_uuid) (\<lambda>u.
          and_then (strncpy 64 local_principal) (\<lambda>l.
          Inr (Some \<lparr>sub_pid = pid, sub_path = p, sub_subject_uuid = u, sub_local_principal = l\<rparr>))))
      | _ \<Rightarrow> Inr None)"

fun read_subjects :: "conversions \<Rightarrow> string list list \<Rightarrow> subjects_for_taint list option result" where
    "read_subjects conv [] = Inr (Some [])"
  | "read_subjects conv (row # R) =
       and_then (read_subject conv row) (\<lambda>s.
       case s of
         None \<Rightarrow> Inr None
       | Some s \<Rightarrow> and_then (read_subjects conv R) (\<lambda>ss. Inr (map_option ((#) s) ss)))"

definition subjects_query :: "string \<Rightarrow> string" where
  "subjects_query query_id =
     ''SELECT DISTINCT subject.pid, subject.path, subject.uuid, subject.local_principal from subject INNER JOIN subgraph             ON subject.uuid = subgraph.subject_uuid WHERE subgraph.query_id = '' @
     quoted query_id @ '';''"

text \<open>The caller's pointer is left alone when there is no subject and on an error.\<close>

definition get_subjects_for_taint ::
  "conversions \<Rightarrow> 'db DBMS \<Rightarrow> 'db \<Rightarrow> string \<Rightarrow> (int \<times> subjects_for_taint list option \<times> 'db) result" where
  "get_subjects_for_taint conv dbms db query_id =
     (case run_query dbms db (subjects_query query_id) of
        (None, db) \<Rightarrow> Inr (-1, None, db)
      | (Some R, db) \<Rightarrow>
          if R = [] then Inr (0, None, db)
          else and_then (read_subjects conv R) (\<lambda>ss.
            case ss of None \<Rightarrow> Inr (-1, None, db) | Some ss \<Rightarrow> Inr (int (length R), Some ss, db)))"

definition get_replay_path :: "'db DBMS \<Rightarrow> 'db \<Rightarrow> 32 word \<Rightarrow> string \<Rightarrow> string \<times> 'db" where
  "get_replay_path dbms db pid cmdline =
     (case run_query dbms db (''SELECT dir FROM rec_index WHERE procname LIKE '' @
         quoted (show_s pid @ ''%'' @ cmdline) @ '';'') of
        (Some (row # R), db) \<Rightarrow>
          (case field row 0 of None \<Rightarrow> (''ERROR'', db) | Some path \<Rightarrow> (path, db))
      | (_, db) \<Rightarrow> (''ERROR'', db))"

subsection \<open>File tagging\<close>

fun read_ances :: "conversions \<Rightarrow> string list list \<Rightarrow> 64 word list" where
    "read_ances conv [] = []"
  | "read_ances conv (row # R) =
       (case Option.bind (field row 4) (as_ulong conv) of
          None \<Rightarrow> []
        | Some tag_uuid \<Rightarrow> tag_uuid # read_ances conv R)"

definition query_ances_fuuid ::
  "conversions \<Rightarrow> 'db DBMS \<Rightarrow> 'db \<Rightarrow> 64 word \<Rightarrow> 64 word \<Rightarrow> 64 word \<Rightarrow> 64 word list \<times> 'db" where
  "query_ances_fuuid conv dbms db f_uuid offset timestamp =
     (case run_query dbms db (''SELECT * FROM file_tagging WHERE'' @ '' f_uuid = '' @ show_u f_uuid @ '' AND '' @
         ''off_t = '' @ show_s offset @ '' AND '' @ ''timestamp <= '' @ show_u timestamp @ '';'') of
        (None, db) \<Rightarrow> ([], db)
      | (Some R, db) \<Rightarrow> (read_ances conv R, db))"

text \<open>The entry of a block and its size, or -1 with the caller's size unchanged.\<close>

definition query_file_tagging_postgres ::
  "conversions \<Rightarrow> 'db DBMS \<Rightarrow> 'db \<Rightarrow> 64 word \<Rightarrow> 64 word \<Rightarrow> 64 word \<Rightarrow> 64 word \<times> 64 word \<times> 'db" where
  "query_file_tagging_postgres conv dbms db f_uuid offset p_size =
     (case run_query dbms db (''SELECT * FROM file_tagging WHERE'' @ '' f_uuid = '' @ show_u f_uuid @ '' AND '' @
         ''off_t = '' @ show_s offset @ '';'') of
        (Some (row # R), db) \<Rightarrow>
          (case (Option.bind (field row 0) (as_int conv), Option.bind (field row 3) (as_ssize conv)) of
             (Some entry_id, Some sz) \<Rightarrow> (scast entry_id, sz, db)
           | _ \<Rightarrow> (- 1, p_size, db))
      | (_, db) \<Rightarrow> (- 1, p_size, db))"

definition file_tagging_statement ::
  "64 word \<Rightarrow> 64 word \<Rightarrow> 64 word \<Rightarrow> 64 word \<Rightarrow> 64 word \<Rightarrow> 64 word \<Rightarrow> string" where
  "file_tagging_statement entry_id prev_size f_uuid offset sz tag_uuid =
     (if entry_id = - 1
      then ''INSERT INTO file_tagging (f_uuid, off_t, size, tag_uuid) '' @ ''VALUES ('' @ show_u f_uuid @ '','' @
        show_s offset @ '','' @ show_s sz @ '','' @ show_u tag_uuid @ '');''
      else if prev_size = sz
      then ''UPDATE file_tagging SET tag_uuid = '' @ show_u tag_uuid @ '' WHERE entry_id = '' @ show_s entry_id @ '';''
      else [])"

definition insert_file_tagging_postgres ::
  "conversions \<Rightarrow> 'db DBMS \<Rightarrow> 'db \<Rightarrow> 64 word \<Rightarrow> 64 word \<Rightarrow> 64 word \<Rightarrow> 64 word \<Rightarrow> 'db" where
  "insert_file_tagging_postgres conv dbms db f_uuid offset sz tag_uuid =
     (let (ok, db) = open_connection dbms db in
      if \<not> ok then db
      else case query_file_tagging_postgres conv dbms db f_uuid offset 0 of (entry_id, prev_size, db) \<Rightarrow>
        (case exec_commit dbms db (file_tagging_statement entry_id prev_size f_uuid offset sz tag_uuid) of
           None \<Rightarrow> db
         | Some db' \<Rightarrow> db'))"

subsection \<open>System calls\<close>

definition get_event_timestamp :: "conversions \<Rightarrow> 'db DBMS \<Rightarrow> 'db \<Rightarrow> 64 word \<Rightarrow> 64 word \<times> 'db" where
  "get_event_timestamp conv dbms db f_uuid =
     (case run_query dbms db (''SELECT * FROM SYSCALLS WHERE'' @ '' fuuid = '' @ show_u f_uuid @ '';'') of
        (Some (row # R), db) \<Rightarrow>
          (case Option.bind (field row 3) (as_int64 conv) of None \<Rightarrow> (- 1, db) | Some t \<Rightarrow> (t, db))
      | (_, db) \<Rightarrow> (- 1, db))"

definition get_pid_cmdline ::
  "conversions \<Rightarrow> 'db DBMS \<Rightarrow> 'db \<Rightarrow> string \<Rightarrow> 32 word \<times> string \<Rightarrow> (32 word \<times> string) \<times> 'db" where
  "get_pid_cmdline conv dbms db sink_uuid out =
     (case run_query dbms db (''SELECT * FROM SYSCALLS WHERE'' @ '' fuuid = '' @ sink_uuid @ '';'') of
        (Some (row # R), db) \<Rightarrow>
          (case Option.bind (field row 0) (as_int conv) of
             None \<Rightarrow> (out, db)
           | Some pid \<Rightarrow>
               (case field row 1 of None \<Rightarrow> ((pid, snd out), db) | Some cmdline \<Rightarrow> ((pid, cmdline), db)))
      | (_, db) \<Rightarrow> (out, db))"

definition insert_syscall_entry ::
  "'db DBMS \<Rightarrow> 'db \<Rightarrow> 32 word \<Rightarrow> string \<Rightarrow> SyscallStruct \<Rightarrow> 'db" where
  "insert_syscall_entry dbms db pid cmdline sys =
     run_statement dbms db (''INSERT INTO SYSCALLS (pid,cmdline,syscall,timestamp,filename,fuuid,version) '' @
       ''VALUES ('' @ show_s pid @ '','' @ quoted cmdline @ '','' @ show_nat 10 (syscall_number (sys_syscall sys)) @
       '','' @ show_s (sys_timestamp sys) @ '','' @ quoted (sys_file_name sys) @ '','' @ show_u (sys_uuid sys) @
       '','' @ show_u (sys_version sys) @ '');'')"

definition insert_entry_postgres ::
  "'db DBMS \<Rightarrow> 'db \<Rightarrow> 32 word \<Rightarrow> string \<Rightarrow> SyscallType \<Rightarrow> 64 word \<Rightarrow> string \<Rightarrow> 64 word \<Rightarrow> SyscallStruct \<Rightarrow> 'db" where
  "insert_entry_postgres dbms db pid cmdline syscall timestamp file_name out_uuid src =
     run_statement dbms db (''INSERT INTO CLST (pid,cmdline,syscall_src,syscall_sink,      syscall_src_T,syscall_sink_T,obj_in,obj_out,in_uuid,out_uuid) '' @
       ''VALUES ('' @ show_s pid @ '','' @ quoted cmdline @ '','' @ show_nat 10 (syscall_number (sys_syscall src)) @
       '','' @ show_nat 10 (syscall_number syscall) @ '','' @ show_s (sys_timestamp src) @ '','' @ show_s timestamp @
       '','' @ quoted (sys_file_name src) @ '','' @ quoted file_name @ '','' @ show_u (sys_uuid src) @ '','' @
       show_u out_uuid @ '');'')"

subsection \<open>Paths\<close>

definition insert_path_uuid_postgres :: "'db DBMS \<Rightarrow> 'db \<Rightarrow> string \<Rightarrow> 32 word \<Rightarrow> 64 word \<Rightarrow> 'db" where
  "insert_path_uuid_postgres dbms db path version uuid =
     run_statement dbms db (''INSERT INTO path_uuid (path_name, version, uuid) '' @ ''SELECT '' @ quoted path @
       '','' @ show_u version @ '','' @ show_u uuid @ '' WHERE NOT EXISTS '' @
       ''(SELECT 0 FROM path_uuid where uuid = '' @ show_u uuid @ '' and version = '' @ show_u version @ '');'')"

definition query_uuid_postgres ::
  "conversions \<Rightarrow> 'db DBMS \<Rightarrow> 'db \<Rightarrow> string \<Rightarrow> 32 word \<Rightarrow> 64 word \<times> 'db" where
  "query_uuid_postgres conv dbms db path version =
     (case run_query dbms db (''SELECT uuid FROM path_uuid WHERE'' @ '' path_name LIKE '' @ quoted (''%'' @ path) @
         '' AND version = '' @ show_u version @ '';'') of
        (Some (row # R), db) \<Rightarrow>
          (case Option.bind (field row 0) (as_ulong conv) of None \<Rightarrow> (0, db) | Some uuid \<Rightarrow> (uuid, db))
      | (_, db) \<Rightarrow> (0, db))"

fun read_uuid_set :: "conversions \<Rightarrow> string list list \<Rightarrow> 64 word std_set \<Rightarrow> 64 word std_set" where
    "read_uuid_set conv [] acc = acc"
  | "read_uuid_set conv (row # R) acc =
       (case Option.bind (field row 0) (as_ulong conv) of
          None \<Rightarrow> acc
        | Some uuid \<Rightarrow> read_uuid_set conv R (std_insert uuid acc))"

definition query_uuid_set_postgres ::
  "conversions \<Rightarrow> 'db DBMS \<Rightarrow> 'db \<Rightarrow> string \<Rightarrow> 32 word \<Rightarrow> 64 word std_set \<times> 'db" where
  "query_uuid_set_postgres conv dbms db path version =
     (case run_query dbms db (''SELECT uuid FROM path_uuid WHERE'' @ '' path_name = '' @ quoted path @
         '' AND version = '' @ show_u version @ '';'') of
        (None, db) \<Rightarrow> (std_empty, db)
      | (Some R, db) \<Rightarrow> (read_uuid_set conv R std_empty, db))"

subsection \<open>Facts\<close>

lemma length_to_string: "length (to_string b) \<le> 3"
proof -
  have "unat b < 256" using unsigned_less [of b, where 'a = nat] by simp
  then have "unat b div 10 < 26" "unat b div 100 < 3" by simp_all
  moreover have "unat b div 10 div 10 = unat b div 100" by (simp add: div_mult2_eq [symmetric])
  ultimately show ?thesis
    by (simp add: to_string_def show_nat.simps [of _ "unat b"] show_nat.simps [of _ "unat b div 10"]
        show_nat.simps [of _ "unat b div 100"])
qed

lemma length_uuid_to_string: "length (uuid_to_string u) \<le> 63"
proof -
  have "sum_list (map (\<lambda>i. length (to_string (u ! i)) + 1) [0..<15]) \<le> sum_list (map (\<lambda>i. 4) [0..<15])"
    by (rule sum_list_mono) (use length_to_string in \<open>auto simp: add.commute\<close>)
  moreover have "length (to_string (u ! 15)) \<le> 3" by (rule length_to_string)
  ultimately show ?thesis
    by (simp add: uuid_to_string_def length_concat comp_def sum_list_triv)
qed

lemma strncpy_uuid: "strncpy 64 (uuid_to_string u) = Inr (uuid_to_string u @ replicate (64 - length (uuid_to_string u)) (CHR 0x00))"
  using length_uuid_to_string [of u] by (simp add: strncpy_def)

definition subject_row :: "string \<times> string \<times> CDM_UUID_Type \<times> CDM_UUID_Type \<Rightarrow> string list" where
  "subject_row = (\<lambda>(pid, path, u, l). [pid, path, uuid_to_string u, uuid_to_string l])"

lemma read_subjects_rows:
  assumes "list_all (\<lambda>(pid, _). as_int conv pid \<noteq> None) rows"
  shows "if list_all (\<lambda>(_, path, _). length path \<le> 4096) rows
    then \<exists>ss. read_subjects conv (map subject_row rows) = Inr (Some ss) \<and> length ss = length rows
    else read_subjects conv (map subject_row rows) = Inl Undefined_behaviour"
  using assms
proof (induction rows)
  case (Cons r rows)
  obtain pid path u l where r: "r = (pid, path, u, l)" by (rule prod_cases4)
  obtain p where p: "as_int conv pid = Some p" using Cons.prems r by auto
  have rd: "read_subject conv (subject_row (pid, path, u, l)) =
      and_then (strncpy 4096 path) (\<lambda>q. Inr (Some \<lparr>sub_pid = p, sub_path = q,
        sub_subject_uuid = uuid_to_string u @ replicate (64 - length (uuid_to_string u)) (CHR 0x00),
        sub_local_principal = uuid_to_string l @ replicate (64 - length (uuid_to_string l)) (CHR 0x00)\<rparr>))"
    by (simp add: read_subject_def subject_row_def field_def p strncpy_uuid)
  show ?case
    using Cons by (auto simp: rd strncpy_def r split: if_splits)
qed simp

end
