(* ===== verification/BitMap.thy ===== *)
theory BitMap
  imports Prelude
begin

text \<open>
  The tag map of the build without \<^verbatim>\<open>USE_CUSTOM_TAG\<close> (\<^verbatim>\<open>tagmap64.h\<close>, \<^verbatim>\<open>tagmap64.cc\<close>): one bit for
  every byte of a 48-bit address space, in segments of 8 MB (for 64 MB of addresses each) that
  the first access allocates. \<open>STAB\<close>, the segment table, is an optional map of segments. A
  segment is a block of \<open>SEGMAP_SZ\<close> bytes, read and written through pointers to 16 and 32 bits,
  least significant byte first. The value is \<open>None\<close> where the code dereferences a null table,
  where an assertion fails (\<^verbatim>\<open>malloc\<close> without success; the argument \<open>mal\<close> tells the
  outcome), and where an access leaves the block.

  The abstraction is \<open>bit_at\<close>, the tag of each of the \<open>2 ^ 48\<close> positions. The range
  operations work in an aligning step, 32-bit chunks and a rest; they are compared with the
  plain set of positions.
\<close>

subsection \<open>Constants and the segment table\<close>

abbreviation (input) SEG_SHIFT :: nat where "SEG_SHIFT \<equiv> 26"
abbreviation (input) SEGMAP_SZ :: nat where "SEGMAP_SZ \<equiv> 8388608"
abbreviation (input) STAB_SZ :: nat where "STAB_SZ \<equiv> 4194304"
abbreviation (input) ADDR_MASK :: "64 word" where "ADDR_MASK \<equiv> 0x0000FFFFFFFFFFFF"
abbreviation (input) SEG_MASK :: "64 word" where "SEG_MASK \<equiv> 0x03FFFFFF"
definition BYTE_MASK :: "32 word" where "BYTE_MASK = 0x01"
definition WORD_MASK :: "32 word" where "WORD_MASK = 0x03"
definition LONG_MASK :: "32 word" where "LONG_MASK = 0x0F"
definition QUAD_MASK :: "32 word" where "QUAD_MASK = 0xFF"
definition MASK_3BYTE :: "32 word" where "MASK_3BYTE = 0x07"
definition MASK_5BYTE :: "32 word" where "MASK_5BYTE = 0x1F"
definition MASK_6BYTE :: "32 word" where "MASK_6BYTE = 0x3F"
definition MASK_7BYTE :: "32 word" where "MASK_7BYTE = 0x7F"
abbreviation (input) ALIGN_OFF_MAX :: "64 word" where "ALIGN_OFF_MAX \<equiv> 8"
abbreviation (input) ASSERT_FAST :: "64 word" where "ASSERT_FAST \<equiv> 32"

type_synonym segment = "nat \<Rightarrow> 8 word"
type_synonym seg_table = "nat \<Rightarrow> segment option"
type_synonym stab = "seg_table option"
type_synonym malloc_outcome = "seg_table \<Rightarrow> nat \<Rightarrow> bool"

definition bit_tagmap_alloc :: "seg_table option \<Rightarrow> stab \<times> int" where
  "bit_tagmap_alloc block =
     (case block of
        None \<Rightarrow> (None, 1)
      | Some tab \<Rightarrow> (Some (\<lambda>i. if i < STAB_SZ then None else tab i), 0))"

definition bit_tagmap_free :: "stab \<Rightarrow> stab" where
  "bit_tagmap_free st = (case st of None \<Rightarrow> st | Some tab \<Rightarrow> None)"

definition bit_tagmap_clean :: "stab \<Rightarrow> stab" where
  "bit_tagmap_clean st =
     (case st of
        None \<Rightarrow> st
      | Some tab \<Rightarrow> Some (\<lambda>i. if i < STAB_SZ then if tab i \<noteq> None then None else tab i else tab i))"

definition tagmap_alloc_seg :: "malloc_outcome \<Rightarrow> nat \<Rightarrow> seg_table \<Rightarrow> seg_table option" where
  "tagmap_alloc_seg mal idx tab =
     (if tab idx \<noteq> None then None
      else if \<not> mal tab idx then None
      else Some (tab(idx \<mapsto> (\<lambda>i. 0))))"

subsection \<open>Entries\<close>

definition seg_idx :: "addr \<Rightarrow> nat" where
  "seg_idx a = unat (drop_bit SEG_SHIFT (a AND ADDR_MASK))"

definition seg_off :: "addr \<Rightarrow> nat" where
  "seg_off a = unat (drop_bit 3 (a AND SEG_MASK))"

definition VIRT2ENTRY :: "malloc_outcome \<Rightarrow> addr \<Rightarrow> stab \<Rightarrow> ((nat \<times> nat) \<times> stab) option" where
  "VIRT2ENTRY mal a st =
     (case st of
        None \<Rightarrow> None
      | Some tab \<Rightarrow>
          if tab (seg_idx a) = None
          then do { tab \<leftarrow> tagmap_alloc_seg mal (seg_idx a) tab; Some ((seg_idx a, seg_off a), Some tab) }
          else Some ((seg_idx a, seg_off a), Some tab))"

definition VIRT2BIT :: "addr \<Rightarrow> nat" where
  "VIRT2BIT a = unat (a AND 7)"

definition load16 :: "nat \<times> nat \<Rightarrow> stab \<Rightarrow> 16 word option" where
  "load16 e st =
     do {
       tab \<leftarrow> st; s \<leftarrow> tab (fst e);
       if snd e + 1 < SEGMAP_SZ
       then Some (ucast (s (snd e)) OR push_bit 8 (ucast (s (snd e + 1))))
       else None
     }"

definition store16 :: "nat \<times> nat \<Rightarrow> 16 word \<Rightarrow> stab \<Rightarrow> stab option" where
  "store16 e v st =
     do {
       tab \<leftarrow> st; s \<leftarrow> tab (fst e);
       if snd e + 1 < SEGMAP_SZ
       then Some (Some (tab(fst e \<mapsto> s(snd e := ucast v, snd e + 1 := ucast (drop_bit 8 v)))))
       else None
     }"

definition load32 :: "nat \<times> nat \<Rightarrow> stab \<Rightarrow> 32 word option" where
  "load32 e st =
     do {
       tab \<leftarrow> st; s \<leftarrow> tab (fst e);
       if snd e + 3 < SEGMAP_SZ
       then Some (ucast (s (snd e)) OR push_bit 8 (ucast (s (snd e + 1))) OR
                  push_bit 16 (ucast (s (snd e + 2))) OR push_bit 24 (ucast (s (snd e + 3))))
       else None
     }"

definition store32 :: "nat \<times> nat \<Rightarrow> 32 word \<Rightarrow> stab \<Rightarrow> stab option" where
  "store32 e v st =
     do {
       tab \<leftarrow> st; s \<leftarrow> tab (fst e);
       if snd e + 3 < SEGMAP_SZ
       then Some (Some (tab(fst e \<mapsto>
              s(snd e := ucast v, snd e + 1 := ucast (drop_bit 8 v),
                snd e + 2 := ucast (drop_bit 16 v), snd e + 3 := ucast (drop_bit 24 v)))))
       else None
     }"

text \<open>
  The three statements on an entry that the operations consist of:
  \<^verbatim>\<open>*mapp |= (M << VIRT2BIT(addr))\<close>, \<^verbatim>\<open>*mapp &= ~(M << VIRT2BIT(addr))\<close> and
  \<^verbatim>\<open>(*mapp) & (M << VIRT2BIT(addr))\<close>, each after \<^verbatim>\<open>VIRT2ENTRY(addr, mapp)\<close>. The masks are
  32-bit, the result of an assignment is cut to 16.
\<close>

definition entry_or :: "malloc_outcome \<Rightarrow> 32 word \<Rightarrow> addr \<Rightarrow> stab \<Rightarrow> stab option" where
  "entry_or mal m a st =
     do {
       (mapp, st) \<leftarrow> VIRT2ENTRY mal a st;
       v \<leftarrow> load16 mapp st;
       store16 mapp (ucast (ucast v OR push_bit (VIRT2BIT a) m)) st
     }"

definition entry_andn :: "malloc_outcome \<Rightarrow> 32 word \<Rightarrow> addr \<Rightarrow> stab \<Rightarrow> stab option" where
  "entry_andn mal m a st =
     do {
       (mapp, st) \<leftarrow> VIRT2ENTRY mal a st;
       v \<leftarrow> load16 mapp st;
       store16 mapp (ucast (ucast v AND NOT (push_bit (VIRT2BIT a) m))) st
     }"

definition entry_and ::
  "malloc_outcome \<Rightarrow> 32 word \<Rightarrow> addr \<Rightarrow> stab \<Rightarrow> (64 word \<times> stab) option" where
  "entry_and mal m a st =
     do {
       (mapp, st) \<leftarrow> VIRT2ENTRY mal a st;
       v \<leftarrow> load16 mapp st;
       Some (ucast (ucast v AND push_bit (VIRT2BIT a) m), st)
     }"

subsection \<open>Bytes, words, long words and quad words\<close>

definition bit_tagmap_setb :: "malloc_outcome \<Rightarrow> addr \<Rightarrow> stab \<Rightarrow> stab option" where
  "bit_tagmap_setb mal a st = entry_or mal BYTE_MASK a st"

definition bit_tagmap_clrb :: "malloc_outcome \<Rightarrow> addr \<Rightarrow> stab \<Rightarrow> stab option" where
  "bit_tagmap_clrb mal a st = entry_andn mal BYTE_MASK a st"

definition bit_tagmap_getb :: "malloc_outcome \<Rightarrow> addr \<Rightarrow> stab \<Rightarrow> (64 word \<times> stab) option" where
  "bit_tagmap_getb mal a st = entry_and mal BYTE_MASK a st"

definition bit_tagmap_setw :: "malloc_outcome \<Rightarrow> addr \<Rightarrow> stab \<Rightarrow> stab option" where
  "bit_tagmap_setw mal a st = entry_or mal WORD_MASK a st"

definition bit_tagmap_clrw :: "malloc_outcome \<Rightarrow> addr \<Rightarrow> stab \<Rightarrow> stab option" where
  "bit_tagmap_clrw mal a st = entry_andn mal WORD_MASK a st"

definition bit_tagmap_getw :: "malloc_outcome \<Rightarrow> addr \<Rightarrow> stab \<Rightarrow> (64 word \<times> stab) option" where
  "bit_tagmap_getw mal a st = entry_and mal WORD_MASK a st"

definition bit_tagmap_setl :: "malloc_outcome \<Rightarrow> addr \<Rightarrow> stab \<Rightarrow> stab option" where
  "bit_tagmap_setl mal a st = entry_or mal LONG_MASK a st"

definition bit_tagmap_clrl :: "malloc_outcome \<Rightarrow> addr \<Rightarrow> stab \<Rightarrow> stab option" where
  "bit_tagmap_clrl mal a st = entry_andn mal LONG_MASK a st"

definition bit_tagmap_getl :: "malloc_outcome \<Rightarrow> addr \<Rightarrow> stab \<Rightarrow> (64 word \<times> stab) option" where
  "bit_tagmap_getl mal a st = entry_and mal LONG_MASK a st"

definition bit_tagmap_setq :: "malloc_outcome \<Rightarrow> addr \<Rightarrow> stab \<Rightarrow> stab option" where
  "bit_tagmap_setq mal a st = entry_or mal QUAD_MASK a st"

definition bit_tagmap_clrq :: "malloc_outcome \<Rightarrow> addr \<Rightarrow> stab \<Rightarrow> stab option" where
  "bit_tagmap_clrq mal a st = entry_andn mal QUAD_MASK a st"

definition bit_tagmap_getq :: "malloc_outcome \<Rightarrow> addr \<Rightarrow> stab \<Rightarrow> (64 word \<times> stab) option" where
  "bit_tagmap_getq mal a st = entry_and mal QUAD_MASK a st"

lemmas bit_tagmap_defs =
  bit_tagmap_setb_def bit_tagmap_setw_def bit_tagmap_setl_def bit_tagmap_setq_def
  bit_tagmap_clrb_def bit_tagmap_clrw_def bit_tagmap_clrl_def bit_tagmap_clrq_def
  bit_tagmap_getb_def bit_tagmap_getw_def bit_tagmap_getl_def bit_tagmap_getq_def

subsection \<open>Positions\<close>

definition pos :: "addr \<Rightarrow> nat" where
  "pos a = unat a mod 2 ^ 48"

definition bit_at :: "stab \<Rightarrow> nat \<Rightarrow> bool" where
  "bit_at st n =
     (case st of
        None \<Rightarrow> False
      | Some tab \<Rightarrow>
          (case tab (n div 2 ^ 26) of
             None \<Rightarrow> False
           | Some s \<Rightarrow> bit (s (n mod 2 ^ 26 div 8)) (n mod 8)))"

lemma bit_masks:
  "ADDR_MASK = mask 48" "SEG_MASK = mask 26" "(7 :: 64 word) = mask 3"
  by (simp_all add: mask_eq_exp_minus_1)

lemma unat_and_mask: "unat (a AND mask n :: 64 word) = unat a mod 2 ^ n"
  unfolding take_bit_eq_mask [symmetric] unsigned_take_bit_eq by (rule take_bit_eq_mod)

lemma unat_drop_bit: "unat (drop_bit n a :: 64 word) = unat a div 2 ^ n"
proof -
  have "take_bit 64 (unat a) = unat a"
    by (rule take_bit_nat_eq_self) (rule order.strict_trans2 [OF unsigned_less], simp)
  then have "unat (drop_bit n a) = drop_bit n (unat a)"
    by (simp only: unsigned_drop_bit_eq) simp
  then show ?thesis
    by (simp only: drop_bit_eq_div)
qed

lemma seg_idx_pos: "seg_idx a = pos a div 2 ^ 26"
  unfolding seg_idx_def pos_def bit_masks(1) unat_drop_bit unat_and_mask by (rule refl)

lemma mod_pow_48: "(n :: nat) mod 2 ^ 48 mod 2 ^ 26 = n mod 2 ^ 26" "n mod 2 ^ 48 mod 8 = n mod 8"
  using mod_mod_cancel [of "2 ^ 26 :: nat" "2 ^ 48" n] mod_mod_cancel [of "8 :: nat" "2 ^ 48" n]
  by simp_all

lemma seg_off_pos: "seg_off a = pos a mod 2 ^ 26 div 8"
  unfolding seg_off_def bit_masks(2) unat_drop_bit unat_and_mask pos_def mod_pow_48 by simp

lemma VIRT2BIT_pos: "VIRT2BIT a = pos a mod 8"
  unfolding VIRT2BIT_def bit_masks(3) unat_and_mask pos_def mod_pow_48 by simp

lemma pos_less: "pos a < 2 ^ 48"
  by (simp add: pos_def)

lemma pos_plus: "pos (a + of_nat k) = (pos a + k) mod 2 ^ 48"
proof -
  have "unat (a + of_nat k) mod 2 ^ 48 = (unat a + k) mod 2 ^ 64 mod 2 ^ 48"
    by (simp add: unat_word_ariths unat_of_nat mod_simps)
  also have "\<dots> = (unat a + k) mod 2 ^ 48"
    by (rule mod_mod_cancel) simp
  finally show ?thesis
    by (simp add: pos_def mod_simps)
qed

text \<open>A position is a segment, a byte of its block and a bit.\<close>

lemma position_cases:
  obtains i off r where "n = 2 ^ 26 * i + 8 * off + r" "off < SEGMAP_SZ" "r < 8"
    "n div 2 ^ 26 = i" "n mod 2 ^ 26 div 8 = off" "n mod 8 = (r :: nat)"
proof (rule that)
  have "n mod 2 ^ 26 mod 8 = n mod 8"
    by (rule mod_mod_cancel) simp
  then show "n = 2 ^ 26 * (n div 2 ^ 26) + 8 * (n mod 2 ^ 26 div 8) + n mod 8"
    using mult_div_mod_eq [of "2 ^ 26" n] mult_div_mod_eq [of 8 "n mod 2 ^ 26"] by linarith
  have "n mod 2 ^ 26 < 8 * SEGMAP_SZ"
    by simp
  then show "n mod 2 ^ 26 div 8 < SEGMAP_SZ"
    by linarith
qed simp_all

lemma position_parts:
  fixes i off r :: nat
  assumes "off < SEGMAP_SZ" "r < 8"
  shows "(2 ^ 26 * i + 8 * off + r) div 2 ^ 26 = i"
    "(2 ^ 26 * i + 8 * off + r) mod 2 ^ 26 div 8 = off" "(2 ^ 26 * i + 8 * off + r) mod 8 = r"
    "(2 ^ 26 * i + 8 * off + r) div 8 = 2 ^ 23 * i + off"
proof -
  have low: "8 * off + r < 2 ^ 26"
    using assms by simp
  then show "(2 ^ 26 * i + 8 * off + r) div 2 ^ 26 = i"
    by (simp add: add.assoc)
  have "(2 ^ 26 * i + 8 * off + r) mod 2 ^ 26 = 8 * off + r"
    using low by (simp add: add.assoc)
  then show "(2 ^ 26 * i + 8 * off + r) mod 2 ^ 26 div 8 = off"
    using assms by simp
  have split: "2 ^ 26 * i + 8 * off + r = 8 * (2 ^ 23 * i + off) + r"
    by simp
  show "(2 ^ 26 * i + 8 * off + r) mod 8 = r" "(2 ^ 26 * i + 8 * off + r) div 8 = 2 ^ 23 * i + off"
    unfolding split using assms(2) by (simp_all only: mod_mult_self4 mod_less div_mult_self4)
qed

lemma bit_at_parts:
  "off < SEGMAP_SZ \<Longrightarrow> r < 8 \<Longrightarrow>
   bit_at (Some tab) (2 ^ 26 * i + 8 * off + r) =
     (case tab i of None \<Rightarrow> False | Some s \<Rightarrow> bit (s off) r)"
  by (simp only: bit_at_def position_parts option.case)

lemma in_window16:
  fixes i idx off off2 r :: nat
  assumes "off2 < SEGMAP_SZ" "r < 8" "off + 1 < SEGMAP_SZ"
  shows "2 ^ 26 * idx + 8 * off \<le> 2 ^ 26 * i + 8 * off2 + r \<and>
     2 ^ 26 * i + 8 * off2 + r < 2 ^ 26 * idx + 8 * off + 16 \<longleftrightarrow>
     i = idx \<and> (off2 = off \<or> off2 = off + 1)"
proof (cases "i = idx")
  case False
  then consider "i + 1 \<le> idx" | "idx + 1 \<le> i"
    by linarith
  then show ?thesis
    using assms False by cases simp_all
qed (use assms in auto)

subsection \<open>Access to entries\<close>

lemma byte_of_16:
  assumes "k < (16 :: nat)"
  obtains "k < 8" "k div 8 = 0" "k mod 8 = k" | "8 \<le> k" "k div 8 = 1" "k mod 8 = k - 8"
  using assms by (cases "k < 8") (simp_all add: div_if mod_if)

lemma bit_bytes16:
  fixes s :: segment
  assumes "k < 16"
  shows "bit (ucast (s n) OR push_bit 8 (ucast (s (n + 1))) :: 16 word) k =
    bit (s (n + k div 8)) (k mod 8)"
  using assms by (rule byte_of_16) (auto simp: bit_simps dest: bit_imp_le_length)

definition entry_ready :: "malloc_outcome \<Rightarrow> addr \<Rightarrow> stab \<Rightarrow> bool" where
  "entry_ready mal a st \<longleftrightarrow>
     (case st of None \<Rightarrow> False | Some tab \<Rightarrow> tab (seg_idx a) \<noteq> None \<or> mal tab (seg_idx a)) \<and>
     seg_off a \<noteq> 0x7FFFFF"

definition ent_base :: "addr \<Rightarrow> nat" where
  "ent_base a = 8 * (pos a div 8)"

definition window16 :: "stab \<Rightarrow> nat \<Rightarrow> 16 word" where
  "window16 st n = horner_sum of_bool 2 (map (\<lambda>k. bit_at st (n + k)) [0..<16])"

lemma bit_window16: "bit (window16 st n) k \<longleftrightarrow> k < 16 \<and> bit_at st (n + k)"
  by (auto simp: window16_def bit_horner_sum_bit_word_iff)

lemma base_conv: "ent_base a = 2 ^ 26 * seg_idx a + 8 * seg_off a"
proof -
  obtain i off r where "pos a = 2 ^ 26 * i + 8 * off + r" "off < SEGMAP_SZ" "r < 8"
    by (rule position_cases)
  then show ?thesis
    by (simp only: ent_base_def seg_idx_pos seg_off_pos position_parts) simp
qed

lemma seg_off_less: "seg_off a < SEGMAP_SZ"
  using position_cases [of "pos a"] by (metis seg_off_pos)

lemma seg_off_bound: "seg_off a + 1 < SEGMAP_SZ \<longleftrightarrow> seg_off a \<noteq> 0x7FFFFF"
  using seg_off_less [of a] by auto

lemma VIRT2ENTRY_None: "VIRT2ENTRY mal a st = None \<longleftrightarrow>
   (case st of None \<Rightarrow> True | Some tab \<Rightarrow> tab (seg_idx a) = None \<and> \<not> mal tab (seg_idx a))"
  by (auto simp: VIRT2ENTRY_def tagmap_alloc_seg_def split: option.splits)

lemma bit_at_alloc:
  "tab i = None \<Longrightarrow> bit_at (Some (tab(i \<mapsto> (\<lambda>i. 0)))) = bit_at (Some tab)"
  by (rule ext) (simp add: bit_at_def)

lemma VIRT2ENTRY_Some:
  assumes "VIRT2ENTRY mal a st = Some (e, st')"
  shows "\<exists>tab s. st' = Some tab \<and> e = (seg_idx a, seg_off a) \<and> tab (seg_idx a) = Some s"
    and "bit_at st' = bit_at st"
  using assms
  by (auto simp: VIRT2ENTRY_def tagmap_alloc_seg_def bit_at_alloc split: option.splits if_splits)

lemma load16_window:
  assumes "VIRT2ENTRY mal a st = Some (e, st')"
  shows "load16 e st' = (if seg_off a = 0x7FFFFF then None else Some (window16 st (ent_base a)))"
proof -
  obtain tab s where st': "st' = Some tab" "e = (seg_idx a, seg_off a)" "tab (seg_idx a) = Some s"
    and eq: "bit_at st' = bit_at st"
    using VIRT2ENTRY_Some [OF assms] by blast
  have "bit_at st (ent_base a + k) = bit (s (seg_off a + k div 8)) (k mod 8)"
    if "seg_off a + 1 < SEGMAP_SZ" "k < 16" for k
  proof -
    have k: "k = 8 * (k div 8) + k mod 8" "k div 8 \<le> 1"
      using that(2) by simp_all
    have "ent_base a + k = 2 ^ 26 * seg_idx a + 8 * (seg_off a + k div 8) + k mod 8"
      using k(1) by (simp add: base_conv)
    then show ?thesis
      using that k(2) by (simp only: eq [symmetric] st' bit_at_parts option.case)
  qed
  then show ?thesis
    using st' seg_off_bound [of a]
    by (simp add: load16_def) (auto intro!: bit_word_eqI simp: bit_window16 bit_bytes16 [simplified])
qed

lemma bit_at_store16:
  assumes "tab idx = Some s" "off + 1 < SEGMAP_SZ"
  shows "\<exists>st'. store16 (idx, off) v (Some tab) = Some st' \<and>
    (\<forall>n. bit_at st' n =
      (if 2 ^ 26 * idx + 8 * off \<le> n \<and> n < 2 ^ 26 * idx + 8 * off + 16
       then bit v (n - (2 ^ 26 * idx + 8 * off)) else bit_at (Some tab) n))"
proof -
  let ?tab = "tab(idx \<mapsto> s(off := ucast v, off + 1 := ucast (drop_bit 8 v)))"
  have "bit_at (Some ?tab) n =
      (if 2 ^ 26 * idx + 8 * off \<le> n \<and> n < 2 ^ 26 * idx + 8 * off + 16
       then bit v (n - (2 ^ 26 * idx + 8 * off)) else bit_at (Some tab) n)" for n
  proof (rule position_cases [of n])
    fix i o' r
    assume n: "n = 2 ^ 26 * i + 8 * o' + r" and o': "o' < SEGMAP_SZ" and r: "r < 8"
    show ?thesis
      unfolding n in_window16 [OF o' r assms(2)] bit_at_parts [OF o' r]
      using assms(1) r by (auto simp: bit_simps)
  qed
  with assms show ?thesis
    by (intro exI [of _ "Some ?tab"]) (simp add: store16_def)
qed

lemma entry_update:
  "(case do { (e, st) \<leftarrow> VIRT2ENTRY mal a st; v \<leftarrow> load16 e st; store16 e (f v) st } of
      None \<Rightarrow> \<not> entry_ready mal a st
    | Some st' \<Rightarrow> entry_ready mal a st \<and> (\<forall>n. bit_at st' n =
        (if ent_base a \<le> n \<and> n < ent_base a + 16 then bit (f (window16 st (ent_base a))) (n - ent_base a)
         else bit_at st n)))"
proof (cases "VIRT2ENTRY mal a st")
  case None
  then have "\<not> entry_ready mal a st"
    using VIRT2ENTRY_None [of mal a st] by (auto simp: entry_ready_def split: option.splits)
  with None show ?thesis
    by simp
next
  case (Some p)
  then obtain e st1 where e: "VIRT2ENTRY mal a st = Some (e, st1)"
    by (cases p) auto
  obtain tab s where st1: "st1 = Some tab" "e = (seg_idx a, seg_off a)" "tab (seg_idx a) = Some s"
    and eq: "bit_at st1 = bit_at st"
    using VIRT2ENTRY_Some [OF e] by blast
  have ok: "entry_ready mal a st \<longleftrightarrow> seg_off a \<noteq> 0x7FFFFF"
    using VIRT2ENTRY_None [of mal a st] e by (auto simp: entry_ready_def split: option.splits)
  show ?thesis
  proof (cases "seg_off a = 0x7FFFFF")
    case False
    then obtain st' where "store16 (seg_idx a, seg_off a) (f (window16 st (ent_base a))) (Some tab) = Some st'"
      and "\<forall>n. bit_at st' n = (if ent_base a \<le> n \<and> n < ent_base a + 16
        then bit (f (window16 st (ent_base a))) (n - ent_base a) else bit_at st n)"
      using bit_at_store16 [of tab, OF st1(3)] seg_off_bound [of a] eq st1(1) unfolding base_conv by metis
    with False e st1(1,2) ok load16_window [OF e] show ?thesis
      by simp
  qed (use e ok load16_window [OF e] in simp)
qed

text \<open>A mask of \<open>w \<le> 8\<close> bits, moved to the bit of the address, lies in the entry.\<close>

lemma bit_entry_mask:
  assumes "w \<le> 8" "k < 16"
  shows "bit (ucast (push_bit (VIRT2BIT a) (mask w) :: 32 word) :: 16 word) k \<longleftrightarrow>
    pos a \<le> ent_base a + k \<and> ent_base a + k < pos a + w"
proof -
  have "pos a = ent_base a + VIRT2BIT a" "VIRT2BIT a < 8"
    by (simp_all add: ent_base_def VIRT2BIT_pos)
  then show ?thesis
    using assms by (auto simp: bit_simps)
qed

lemma bit_entry_mask_at:
  assumes "w \<le> 8" "ent_base a \<le> n" "n < ent_base a + 16"
  shows "bit (push_bit (VIRT2BIT a) (mask w) :: 32 word) (n - ent_base a) \<longleftrightarrow> pos a \<le> n \<and> n < pos a + w"
    "n - ent_base a < 16" "n - ent_base a < 32"
  using bit_entry_mask [of w "n - ent_base a" a] assms by (simp_all add: bit_ucast_iff less_diff_conv2)

lemma masks:
  "BYTE_MASK = mask 1" "WORD_MASK = mask 2" "MASK_3BYTE = mask 3" "LONG_MASK = mask 4"
  "MASK_5BYTE = mask 5" "MASK_6BYTE = mask 6" "MASK_7BYTE = mask 7" "QUAD_MASK = mask 8"
  by (simp_all add: mask_eq_exp_minus_1 BYTE_MASK_def WORD_MASK_def LONG_MASK_def QUAD_MASK_def
      MASK_3BYTE_def MASK_5BYTE_def MASK_6BYTE_def MASK_7BYTE_def)

lemma mask_in_window: "w \<le> 8 \<Longrightarrow> pos a \<le> n \<Longrightarrow> n < pos a + w \<Longrightarrow> ent_base a \<le> n \<and> n < ent_base a + 16"
  unfolding ent_base_def by linarith

lemma word_nonzero: "(x :: 'a::len word) \<noteq> 0 \<longleftrightarrow> (\<exists>k. bit x k)"
  using bit_word_eqI [of x 0] by auto

lemma entry_or_spec:
  assumes "w \<le> 8"
  shows "case entry_or mal (mask w) a st of
      None \<Rightarrow> \<not> entry_ready mal a st
    | Some st' \<Rightarrow> entry_ready mal a st \<and>
        (\<forall>n. bit_at st' n \<longleftrightarrow> bit_at st n \<or> pos a \<le> n \<and> n < pos a + w)"
proof -
  have "(if ent_base a \<le> n \<and> n < ent_base a + 16
      then bit (ucast (ucast (window16 st (ent_base a)) OR push_bit (VIRT2BIT a) (mask w) :: 32 word) :: 16 word) (n - ent_base a)
      else bit_at st n) \<longleftrightarrow> bit_at st n \<or> pos a \<le> n \<and> n < pos a + w" for n
    using bit_entry_mask_at [OF assms, of a n] mask_in_window [OF assms, of a n]
    by (auto simp: bit_or_iff bit_ucast_iff bit_window16)
  then show ?thesis
    using entry_update [of mal a st "\<lambda>v. ucast (ucast v OR push_bit (VIRT2BIT a) (mask w) :: 32 word)"]
    unfolding entry_or_def by (simp split: option.splits)
qed

lemma entry_andn_spec:
  assumes "w \<le> 8"
  shows "case entry_andn mal (mask w) a st of
      None \<Rightarrow> \<not> entry_ready mal a st
    | Some st' \<Rightarrow> entry_ready mal a st \<and>
        (\<forall>n. bit_at st' n \<longleftrightarrow> bit_at st n \<and> \<not> (pos a \<le> n \<and> n < pos a + w))"
proof -
  have "(if ent_base a \<le> n \<and> n < ent_base a + 16
      then bit (ucast (ucast (window16 st (ent_base a)) AND NOT (push_bit (VIRT2BIT a) (mask w)) :: 32 word) :: 16 word) (n - ent_base a)
      else bit_at st n) \<longleftrightarrow> bit_at st n \<and> \<not> (pos a \<le> n \<and> n < pos a + w)" for n
    using bit_entry_mask_at [OF assms, of a n] mask_in_window [OF assms, of a n]
    by (auto simp: bit_and_iff bit_not_iff bit_ucast_iff bit_window16)
  then show ?thesis
    using entry_update [of mal a st "\<lambda>v. ucast (ucast v AND NOT (push_bit (VIRT2BIT a) (mask w)) :: 32 word)"]
    unfolding entry_andn_def by (simp split: option.splits)
qed

lemma entry_and_spec:
  assumes "w \<le> 8"
  shows "case entry_and mal (mask w) a st of
      None \<Rightarrow> \<not> entry_ready mal a st
    | Some (tag, st') \<Rightarrow> entry_ready mal a st \<and> bit_at st' = bit_at st \<and>
        (tag \<noteq> 0 \<longleftrightarrow> (\<exists>n. pos a \<le> n \<and> n < pos a + w \<and> bit_at st n))"
proof (cases "VIRT2ENTRY mal a st")
  case None
  then have "\<not> entry_ready mal a st"
    using VIRT2ENTRY_None [of mal a st] by (auto simp: entry_ready_def split: option.splits)
  with None show ?thesis
    by (simp add: entry_and_def)
next
  case (Some p)
  then obtain e st1 where e: "VIRT2ENTRY mal a st = Some (e, st1)"
    by (cases p) auto
  let ?v = "ucast (window16 st (ent_base a)) AND push_bit (VIRT2BIT a) (mask w) :: 32 word"
  have v: "bit ?v k \<longleftrightarrow>
      k < 16 \<and> pos a \<le> ent_base a + k \<and> ent_base a + k < pos a + w \<and> bit_at st (ent_base a + k)" for k
    using bit_entry_mask_at(1) [OF assms, of a "ent_base a + k"]
    by (auto simp: bit_and_iff bit_ucast_iff bit_window16)
  have "ucast ?v \<noteq> (0 :: 64 word) \<longleftrightarrow> (\<exists>k. bit (ucast ?v :: 64 word) k)"
    by (rule word_nonzero)
  also have "\<dots> \<longleftrightarrow> (\<exists>k. bit ?v k)"
    unfolding bit_ucast_iff v by (rule ex_cong1) auto
  also have "\<dots> \<longleftrightarrow> (\<exists>n. pos a \<le> n \<and> n < pos a + w \<and> bit_at st n)"
    unfolding v using mask_in_window [OF assms, of a]
    by (metis le_add_diff_inverse nat_add_left_cancel_less)
  finally show ?thesis
    using e load16_window [OF e] VIRT2ENTRY_Some(2) [OF e] VIRT2ENTRY_None [of mal a st]
    by (auto simp: entry_and_def entry_ready_def split: option.splits)
qed

end
