(* ===== verification/BitRange.thy ===== *)
theory BitRange
  imports BitMap
begin

text \<open>
  The range operations of the bit map, \<^verbatim>\<open>tagmap_setn\<close>, \<^verbatim>\<open>tagmap_issetn\<close> and \<^verbatim>\<open>tagmap_clrn\<close>: up to
  eight bytes by one access to an entry, longer ranges by an aligning access, 32-bit chunks
  and a loop for the rest. Setting and testing agree with the plain set of positions.
  Clearing does not: its last loop never advances the address, and its seventh case
  multiplies where it should mask.
\<close>

subsection \<open>Definitions\<close>

text \<open>The cases 1 to 7 of the switches; the default does nothing.\<close>

definition bit_setn_case :: "malloc_outcome \<Rightarrow> 64 word \<Rightarrow> addr \<Rightarrow> stab \<Rightarrow> stab option" where
  "bit_setn_case mal num a st =
     (if num = 1 then bit_tagmap_setb mal a st
      else if num = 2 then bit_tagmap_setw mal a st
      else if num = 3 then entry_or mal MASK_3BYTE a st
      else if num = 4 then bit_tagmap_setl mal a st
      else if num = 5 then entry_or mal MASK_5BYTE a st
      else if num = 6 then entry_or mal MASK_6BYTE a st
      else if num = 7 then entry_or mal MASK_7BYTE a st
      else Some st)"

function bit_setn_fast ::
  "malloc_outcome \<Rightarrow> addr \<Rightarrow> 64 word \<Rightarrow> stab \<Rightarrow> (addr \<times> 64 word \<times> stab) option" where
  "bit_setn_fast mal a num st =
     (if num \<ge> ASSERT_FAST
      then do {
        (mapp, st) \<leftarrow> VIRT2ENTRY mal a st;
        st \<leftarrow> store32 mapp (NOT 0) st;
        bit_setn_fast mal (a + ASSERT_FAST) (num - ASSERT_FAST) st
      }
      else Some (a, num, st))"
  by auto
termination by (relation "measure (\<lambda>(mal, a, num, st). unat num)")
    (auto simp: unat_sub word_le_nat_alt)

function bit_setn_slow :: "malloc_outcome \<Rightarrow> addr \<Rightarrow> 64 word \<Rightarrow> stab \<Rightarrow> stab option" where
  "bit_setn_slow mal a num st =
     (if num = 0 then Some st
      else if num < 8
      then do {
        st \<leftarrow> bit_setn_case mal num a st;
        bit_setn_slow mal (a + num) (num - num) st
      }
      else do {
        st \<leftarrow> bit_tagmap_setq mal a st;
        bit_setn_slow mal (a + 8) (num - 8) st
      })"
  by auto
termination by (relation "measure (\<lambda>(mal, a, num, st). unat num)")
    (auto simp: unat_sub word_le_nat_alt not_less unat_gt_0)

definition bit_tagmap_setn :: "malloc_outcome \<Rightarrow> addr \<Rightarrow> 64 word \<Rightarrow> stab \<Rightarrow> stab option" where
  "bit_tagmap_setn mal a num st =
     (if num \<le> ALIGN_OFF_MAX
      then if num = 8 then bit_tagmap_setq mal a st else bit_setn_case mal num a st
      else do {
        let alg_off = ALIGN_OFF_MAX - of_nat (VIRT2BIT a);
        st \<leftarrow> bit_setn_case mal alg_off a st;
        let alg_off = (if alg_off = 8 then 0 else alg_off);
        (a, num, st) \<leftarrow> bit_setn_fast mal (a + alg_off) (num - alg_off) st;
        bit_setn_slow mal a num st
      })"

definition bit_issetn_case ::
  "malloc_outcome \<Rightarrow> 64 word \<Rightarrow> addr \<Rightarrow> stab \<Rightarrow> (64 word \<times> stab) option" where
  "bit_issetn_case mal num a st =
     (if num = 1 then bit_tagmap_getb mal a st
      else if num = 2 then bit_tagmap_getw mal a st
      else if num = 3 then entry_and mal MASK_3BYTE a st
      else if num = 4 then bit_tagmap_getl mal a st
      else if num = 5 then entry_and mal MASK_5BYTE a st
      else if num = 6 then entry_and mal MASK_6BYTE a st
      else if num = 7 then entry_and mal MASK_7BYTE a st
      else Some (0, st))"

function bit_issetn_fast ::
  "malloc_outcome \<Rightarrow> addr \<Rightarrow> 64 word \<Rightarrow> 64 word \<Rightarrow> stab \<Rightarrow>
   (addr \<times> 64 word \<times> 64 word \<times> stab) option" where
  "bit_issetn_fast mal a num tag st =
     (if num \<ge> ASSERT_FAST
      then do {
        (mapp, st) \<leftarrow> VIRT2ENTRY mal a st;
        v \<leftarrow> load32 mapp st;
        bit_issetn_fast mal (a + ASSERT_FAST) (num - ASSERT_FAST) (tag OR ucast v) st
      }
      else Some (a, num, tag, st))"
  by auto
termination by (relation "measure (\<lambda>(mal, a, num, tag, st). unat num)")
    (auto simp: unat_sub word_le_nat_alt)

function bit_issetn_slow ::
  "malloc_outcome \<Rightarrow> addr \<Rightarrow> 64 word \<Rightarrow> 64 word \<Rightarrow> stab \<Rightarrow> (64 word \<times> stab) option" where
  "bit_issetn_slow mal a num tag st =
     (if num = 0 then Some (tag, st)
      else if num < 8
      then do {
        (v, st) \<leftarrow> bit_issetn_case mal num a st;
        bit_issetn_slow mal (a + num) (num - num) (tag OR v) st
      }
      else do {
        (v, st) \<leftarrow> bit_tagmap_getq mal a st;
        bit_issetn_slow mal (a + 8) (num - 8) (tag OR v) st
      })"
  by auto
termination by (relation "measure (\<lambda>(mal, a, num, tag, st). unat num)")
    (auto simp: unat_sub word_le_nat_alt not_less unat_gt_0)

definition bit_tagmap_issetn ::
  "malloc_outcome \<Rightarrow> addr \<Rightarrow> 64 word \<Rightarrow> stab \<Rightarrow> (64 word \<times> stab) option" where
  "bit_tagmap_issetn mal a num st =
     (if num \<le> ALIGN_OFF_MAX
      then if num = 8 then bit_tagmap_getq mal a st else bit_issetn_case mal num a st
      else do {
        let alg_off = ALIGN_OFF_MAX - of_nat (VIRT2BIT a);
        (tag, st) \<leftarrow> bit_issetn_case mal alg_off a st;
        let alg_off = (if alg_off = 8 then 0 else alg_off);
        if tag \<noteq> 0 then Some (tag, st)
        else do {
          (a, num, tag, st) \<leftarrow> bit_issetn_fast mal (a + alg_off) (num - alg_off) 0 st;
          if tag \<noteq> 0 then Some (tag, st) else bit_issetn_slow mal a num tag st
        }
      })"

definition bit_clrn_case :: "malloc_outcome \<Rightarrow> 64 word \<Rightarrow> addr \<Rightarrow> stab \<Rightarrow> stab option" where
  "bit_clrn_case mal num a st =
     (if num = 1 then bit_tagmap_clrb mal a st
      else if num = 2 then bit_tagmap_clrw mal a st
      else if num = 3 then entry_andn mal MASK_3BYTE a st
      else if num = 4 then bit_tagmap_clrl mal a st
      else if num = 5 then entry_andn mal MASK_5BYTE a st
      else if num = 6 then entry_andn mal MASK_6BYTE a st
      else if num = 7 then entry_andn mal MASK_7BYTE a st
      else Some st)"

function bit_clrn_fast ::
  "malloc_outcome \<Rightarrow> addr \<Rightarrow> 64 word \<Rightarrow> stab \<Rightarrow> (addr \<times> 64 word \<times> stab) option" where
  "bit_clrn_fast mal a num st =
     (if num \<ge> ASSERT_FAST
      then do {
        (mapp, st) \<leftarrow> VIRT2ENTRY mal a st;
        st \<leftarrow> store32 mapp 0 st;
        bit_clrn_fast mal (a + ASSERT_FAST) (num - ASSERT_FAST) st
      }
      else Some (a, num, st))"
  by auto
termination by (relation "measure (\<lambda>(mal, a, num, st). unat num)")
    (auto simp: unat_sub word_le_nat_alt)

text \<open>The seventh case of the last loop: \<^verbatim>\<open>*(mapp) *= ~(_7BYTE_MASK << VIRT2BIT(addr))\<close>.\<close>

definition entry_muln :: "malloc_outcome \<Rightarrow> 32 word \<Rightarrow> addr \<Rightarrow> stab \<Rightarrow> stab option" where
  "entry_muln mal m a st =
     do {
       (mapp, st) \<leftarrow> VIRT2ENTRY mal a st;
       v \<leftarrow> load16 mapp st;
       store16 mapp (ucast (ucast v * NOT (push_bit (VIRT2BIT a) m))) st
     }"

function bit_clrn_slow :: "malloc_outcome \<Rightarrow> addr \<Rightarrow> 64 word \<Rightarrow> stab \<Rightarrow> stab option" where
  "bit_clrn_slow mal a num st =
     (if num = 0 then Some st
      else if num < 8
      then do {
        st \<leftarrow> (if num = 7 then entry_muln mal MASK_7BYTE a st else bit_clrn_case mal num a st);
        bit_clrn_slow mal a (num - num) st
      }
      else do {
        st \<leftarrow> bit_tagmap_clrq mal a st;
        bit_clrn_slow mal a (num - 8) st
      })"
  by auto
termination by (relation "measure (\<lambda>(mal, a, num, st). unat num)")
    (auto simp: unat_sub word_le_nat_alt not_less unat_gt_0)

definition bit_tagmap_clrn :: "malloc_outcome \<Rightarrow> addr \<Rightarrow> 64 word \<Rightarrow> stab \<Rightarrow> stab option" where
  "bit_tagmap_clrn mal a num st =
     (if num \<le> ALIGN_OFF_MAX
      then if num = 8 then bit_tagmap_clrq mal a st else bit_clrn_case mal num a st
      else do {
        let alg_off = ALIGN_OFF_MAX - of_nat (VIRT2BIT a);
        st \<leftarrow> bit_clrn_case mal alg_off a st;
        let alg_off = (if alg_off = 8 then 0 else alg_off);
        (a, num, st) \<leftarrow> bit_clrn_fast mal (a + alg_off) (num - alg_off) st;
        bit_clrn_slow mal a num st
      })"

declare bit_setn_fast.simps [simp del] bit_setn_slow.simps [simp del]
  bit_issetn_fast.simps [simp del] bit_issetn_slow.simps [simp del]
  bit_clrn_fast.simps [simp del] bit_clrn_slow.simps [simp del]

subsection \<open>Ranges of positions\<close>

definition rng :: "addr \<Rightarrow> nat \<Rightarrow> nat set" where
  "rng a k = (\<lambda>i. (pos a + i) mod 2 ^ 48) ` {..<k}"

definition in_segment :: "addr \<Rightarrow> nat \<Rightarrow> bool" where
  "in_segment a k \<longleftrightarrow> pos a mod 2 ^ 26 + k \<le> 2 ^ 26 - 8"

lemma rng_0 [simp]: "rng a 0 = {}"
  by (simp add: rng_def)

lemma rng_add: "rng a (i + j) = rng a i \<union> rng (a + of_nat i) j"
proof -
  have "{..<i + j} = {..<i} \<union> (+) i ` {..<j}"
    by (auto simp: lessThan_atLeast0 image_add_atLeastLessThan)
  then show ?thesis
    by (simp only: rng_def image_Un image_image pos_plus mod_add_left_eq add.assoc)
qed

lemma rng_low: "pos a + k \<le> 2 ^ 48 \<Longrightarrow> n \<in> rng a k \<longleftrightarrow> pos a \<le> n \<and> n < pos a + k"
  by (auto simp: rng_def image_iff intro!: bexI [of _ "n - pos a"])

lemma pos_in_segment: "pos a + (2 ^ 26 - pos a mod 2 ^ 26) \<le> 2 ^ 48"
proof (rule position_cases [of "pos a"])
  fix i off r
  assume p: "pos a = 2 ^ 26 * i + 8 * off + r" and "off < SEGMAP_SZ" "r < 8"
  moreover from this have "i < 2 ^ 22"
    using pos_less [of a] by simp
  ultimately show ?thesis
    by (simp add: add.assoc)
qed

lemma seg_off_last: "seg_off a = 0x7FFFFF \<longleftrightarrow> 2 ^ 26 - 8 \<le> pos a mod 2 ^ 26"
  unfolding seg_off_pos by (auto simp: div_nat_eqI)

lemma rng_entry: "seg_off a \<noteq> 0x7FFFFF \<Longrightarrow> w \<le> 8 \<Longrightarrow> n \<in> rng a w \<longleftrightarrow> pos a \<le> n \<and> n < pos a + w"
  using pos_in_segment [of a] by (intro rng_low) (simp add: seg_off_last)

lemma in_segment_plus:
  assumes "in_segment a (i + j)" "0 < j"
  shows "in_segment (a + of_nat i) j"
proof -
  have "(pos a + i) mod 2 ^ 48 mod 2 ^ 26 = (pos a mod 2 ^ 26 + i) mod 2 ^ 26"
    by (simp only: mod_pow_48 mod_simps)
  also have "\<dots> = pos a mod 2 ^ 26 + i"
    using assms by (simp add: in_segment_def)
  finally show ?thesis
    using assms unfolding in_segment_def pos_plus by simp
qed

subsection \<open>The contract of a write to a range\<close>

definition writes ::
  "bool \<Rightarrow> malloc_outcome \<Rightarrow> addr \<Rightarrow> nat \<Rightarrow> stab \<Rightarrow> stab option \<Rightarrow> bool" where
  "writes v mal a k st r \<longleftrightarrow>
     (case r of
        None \<Rightarrow> \<not> (st \<noteq> None \<and> (\<forall>tab i. mal tab i) \<and> in_segment a k)
      | Some st' \<Rightarrow> (st \<noteq> None \<longrightarrow> st' \<noteq> None) \<and>
          bit_at st' = (\<lambda>n. if n \<in> rng a k then v else bit_at st n))"

lemma writes_0 [simp]: "writes v mal a 0 st (Some st)"
  by (simp add: writes_def)

lemma writes_seq:
  assumes "writes v mal a i st r" "\<And>st'. r = Some st' \<Longrightarrow> writes v mal (a + of_nat i) j st' (f st')"
    "0 < j \<or> (\<forall>st'. f st' = Some st')"
  shows "writes v mal a (i + j) st (r \<bind> f)"
proof (cases r)
  case None
  then show ?thesis
    using assms(1) by (auto simp: writes_def in_segment_def)
next
  case (Some st')
  have "in_segment (a + of_nat i) j" if "in_segment a (i + j)" "f st' = None"
    using in_segment_plus [OF that(1)] that(2) assms(3) by auto
  then show ?thesis
    using assms(1) assms(2) [OF Some] Some
    by (auto simp: writes_def rng_add fun_eq_iff split: option.splits)
qed

lemma entry_ready_in_segment:
  "st \<noteq> None \<Longrightarrow> \<forall>tab i. mal tab i \<Longrightarrow> in_segment a k \<Longrightarrow> 0 < k \<Longrightarrow> entry_ready mal a st"
  by (auto simp: entry_ready_def in_segment_def seg_off_last)

lemma store16_not_None: "store16 e v st = Some st' \<Longrightarrow> st' \<noteq> None"
  by (auto simp: store16_def split: Option.bind_splits if_splits)

lemma entry_or_writes:
  assumes "0 < w" "w \<le> 8"
  shows "writes True mal a w st (entry_or mal (mask w) a st)"
  using entry_or_spec [OF assms(2), of mal a st] entry_ready_in_segment [OF _ _ _ assms(1), of st mal a]
    rng_entry [OF _ assms(2), of a]
  by (auto simp: writes_def fun_eq_iff entry_ready_def entry_or_def dest!: store16_not_None
      split: option.splits Option.bind_splits)

lemma entry_andn_writes:
  assumes "0 < w" "w \<le> 8"
  shows "writes False mal a w st (entry_andn mal (mask w) a st)"
  using entry_andn_spec [OF assms(2), of mal a st] entry_ready_in_segment [OF _ _ _ assms(1), of st mal a]
    rng_entry [OF _ assms(2), of a]
  by (auto simp: writes_def fun_eq_iff entry_ready_def entry_andn_def dest!: store16_not_None
      split: option.splits Option.bind_splits)

lemma small_count:
  assumes "num < (8 :: 64 word)"
  obtains "num = 0" | "num = 1" | "num = 2" | "num = 3" | "num = 4" | "num = 5" | "num = 6" | "num = 7"
proof -
  have "unat num < 8"
    using assms by (simp add: word_less_nat_alt)
  then have "unat num \<in> {0, 1, 2, 3, 4, 5, 6, 7}"
    by auto
  then have "of_nat (unat num) \<in> (of_nat ` {0, 1, 2, 3, 4, 5, 6, 7} :: 64 word set)"
    by (rule imageI)
  then show thesis
    using that by auto
qed

lemma setn_case_or:
  "num < 8 \<Longrightarrow> bit_setn_case mal num a st =
     (if num = 0 then Some st else entry_or mal (mask (unat num)) a st)"
  by (erule small_count) (simp_all add: bit_setn_case_def bit_tagmap_defs masks)

lemma clrn_case_andn:
  "num < 8 \<Longrightarrow> bit_clrn_case mal num a st =
     (if num = 0 then Some st else entry_andn mal (mask (unat num)) a st)"
  by (erule small_count) (simp_all add: bit_clrn_case_def bit_tagmap_defs masks)

lemma issetn_case_and:
  "num < 8 \<Longrightarrow> bit_issetn_case mal num a st =
     (if num = 0 then Some (0, st) else entry_and mal (mask (unat num)) a st)"
  by (erule small_count) (simp_all add: bit_issetn_case_def bit_tagmap_defs masks)

lemma small_unat: "num < (8 :: 64 word) \<Longrightarrow> num \<noteq> 0 \<Longrightarrow> 0 < unat num \<and> unat num \<le> 8"
  by (simp add: word_less_nat_alt unat_gt_0)

lemma setn_case_writes: "num < 8 \<Longrightarrow> writes True mal a (unat num) st (bit_setn_case mal num a st)"
  using small_unat [of num] by (auto simp: setn_case_or intro: entry_or_writes)

lemma clrn_case_writes: "num < 8 \<Longrightarrow> writes False mal a (unat num) st (bit_clrn_case mal num a st)"
  using small_unat [of num] by (auto simp: clrn_case_andn intro: entry_andn_writes)

lemma setq_writes: "writes True mal a 8 st (bit_tagmap_setq mal a st)"
  using entry_or_writes [of 8 mal a st] by (simp add: bit_tagmap_setq_def masks)

lemma clrq_writes: "writes False mal a 8 st (bit_tagmap_clrq mal a st)"
  using entry_andn_writes [of 8 mal a st] by (simp add: bit_tagmap_clrq_def masks)

subsection \<open>Chunks of 32 bits\<close>

lemma in_window32:
  fixes i idx off off2 r :: nat
  assumes "off2 < SEGMAP_SZ" "r < 8" "off + 3 < SEGMAP_SZ"
  shows "2 ^ 26 * idx + 8 * off \<le> 2 ^ 26 * i + 8 * off2 + r \<and>
     2 ^ 26 * i + 8 * off2 + r < 2 ^ 26 * idx + 8 * off + 32 \<longleftrightarrow>
     i = idx \<and> off \<le> off2 \<and> off2 \<le> off + 3"
proof (cases "i = idx")
  case False
  then consider "i + 1 \<le> idx" | "idx + 1 \<le> i"
    by linarith
  then show ?thesis
    using assms False by cases simp_all
qed (use assms in auto)

lemma next_four: "(off :: nat) \<le> n \<and> n \<le> off + 3 \<longleftrightarrow> n = off \<or> n = off + 1 \<or> n = off + 2 \<or> n = off + 3"
  by auto

lemma rng_chunk:
  assumes "seg_off a + 3 < SEGMAP_SZ" "pos a mod 8 = 0"
  shows "n \<in> rng a 32 \<longleftrightarrow> ent_base a \<le> n \<and> n < ent_base a + 32"
proof -
  have "pos a = ent_base a"
    using assms(2) mult_div_mod_eq [of 8 "pos a"] by (simp add: ent_base_def)
  moreover have "pos a mod 2 ^ 26 + 32 \<le> 2 ^ 26"
    using assms mod_mod_cancel [of 8 "2 ^ 26" "pos a"] mult_div_mod_eq [of 8 "pos a mod 2 ^ 26"]
    unfolding seg_off_pos by simp
  ultimately show ?thesis
    using pos_in_segment [of a] rng_low [of a 32 n] by simp
qed

lemma in_segment_chunk: "in_segment a 32 \<Longrightarrow> seg_off a + 3 < SEGMAP_SZ"
  unfolding in_segment_def seg_off_pos by simp

lemma store32_writes:
  assumes "pos a mod 8 = 0"
  shows "writes b mal a 32 st
    (do { (mapp, st) \<leftarrow> VIRT2ENTRY mal a st; store32 mapp (if b then NOT 0 else 0) st })"
proof (cases "VIRT2ENTRY mal a st")
  case None
  then show ?thesis
    using VIRT2ENTRY_None [of mal a st] by (auto simp: writes_def split: option.splits)
next
  case (Some p)
  then obtain e st1 where e: "VIRT2ENTRY mal a st = Some (e, st1)"
    by (cases p) auto
  obtain tab s where st1: "st1 = Some tab" "e = (seg_idx a, seg_off a)" "tab (seg_idx a) = Some s"
    and eq: "bit_at st1 = bit_at st"
    using VIRT2ENTRY_Some [OF e] by blast
  let ?v = "if b then NOT 0 else 0 :: 32 word"
  show ?thesis
  proof (cases "seg_off a + 3 < SEGMAP_SZ")
    case True
    let ?tab = "tab(seg_idx a \<mapsto> s(seg_off a := ucast ?v, seg_off a + 1 := ucast (drop_bit 8 ?v),
      seg_off a + 2 := ucast (drop_bit 16 ?v), seg_off a + 3 := ucast (drop_bit 24 ?v)))"
    have "bit_at (Some ?tab) n = (if n \<in> rng a 32 then b else bit_at st n)" for n
    proof (rule position_cases [of n])
      fix i o' r
      assume n: "n = 2 ^ 26 * i + 8 * o' + r" and o': "o' < SEGMAP_SZ" and r: "r < 8"
      show ?thesis
        unfolding rng_chunk [OF True assms] base_conv eq [symmetric] st1(1)
        unfolding n in_window32 [OF o' r True] bit_at_parts [OF o' r] next_four
        using st1(3) r by (auto simp: bit_simps)
    qed
    then have "bit_at (Some ?tab) = (\<lambda>n. if n \<in> rng a 32 then b else bit_at st n)"
      by (rule ext)
    with True e st1 show ?thesis
      by (simp add: writes_def store32_def)
  next
    case False
    with e st1 show ?thesis
      using in_segment_chunk [of a] by (auto simp: writes_def store32_def)
  qed
qed

lemma aligned_plus_32: "pos a mod 8 = 0 \<Longrightarrow> pos (a + 32) mod 8 = 0"
  using pos_plus [of a 32] mod_pow_48(2) [of "pos a + 32"] mod_add_eq [of "pos a" 8 32] by simp

text \<open>The chunk loops of setting and clearing, as one interface.\<close>

locale chunk_loop =
  fixes b :: bool
    and body :: "malloc_outcome \<Rightarrow> addr \<Rightarrow> stab \<Rightarrow> stab option"
    and loop :: "malloc_outcome \<Rightarrow> addr \<Rightarrow> 64 word \<Rightarrow> stab \<Rightarrow> (addr \<times> 64 word \<times> stab) option"
  assumes body_writes: "pos a mod 8 = 0 \<Longrightarrow> writes b mal a 32 st (body mal a st)"
    and loop_unfold: "loop mal a num st =
      (if num \<ge> 32 then body mal a st \<bind> loop mal (a + 32) (num - 32) else Some (a, num, st))"
begin

lemma loop_writes:
  assumes "pos a mod 8 = 0"
  shows "writes b mal a (32 * (unat num div 32)) st (map_option (snd \<circ> snd) (loop mal a num st)) \<and>
    (\<forall>a' num' st'. loop mal a num st = Some (a', num', st') \<longrightarrow>
       a' = a + of_nat (32 * (unat num div 32)) \<and> unat num' = unat num mod 32)"
  using assms
proof (induction "unat num" arbitrary: a num st rule: less_induct)
  case less
  show ?case
  proof (cases "num \<ge> 32")
    case False
    then have "unat num < 32"
      by (simp add: word_le_nat_alt)
    with False show ?thesis
      by (simp add: loop_unfold [of mal a num st])
  next
    case True
    have u: "unat (num - 32) = unat num - 32" "32 \<le> unat num"
      using True by (simp_all add: unat_sub word_le_nat_alt)
    have d: "32 * (unat num div 32) = 32 + 32 * (unat (num - 32) div 32)" "unat num mod 32 = unat (num - 32) mod 32"
      using u by (simp_all add: le_div_geq le_mod_geq)
    have al: "pos (a + 32) mod 8 = 0"
      using less.prems by (rule aligned_plus_32)
    note IH = less.hyps [of "num - 32" "a + 32", OF _ al]
    have "writes b mal a (32 + 32 * (unat (num - 32) div 32)) st
        (body mal a st \<bind> (\<lambda>st. map_option (snd \<circ> snd) (loop mal (a + 32) (num - 32) st)))"
    proof (rule writes_seq [OF body_writes [OF less.prems]])
      show "writes b mal (a + of_nat 32) (32 * (unat (num - 32) div 32)) st'
          (map_option (snd \<circ> snd) (loop mal (a + 32) (num - 32) st'))" for st'
        using IH u by simp
      show "0 < 32 * (unat (num - 32) div 32) \<or>
          (\<forall>st'. map_option (snd \<circ> snd) (loop mal (a + 32) (num - 32) st') = Some st')"
        using u by (cases "num - 32 \<ge> 32")
          (auto simp: word_le_nat_alt div_greater_zero_iff loop_unfold [of _ "a + 32" "num - 32"])
    qed
    moreover have "a' = a + of_nat (32 * (unat num div 32)) \<and> unat num' = unat num mod 32"
      if "body mal a st = Some st1" "loop mal (a + 32) (num - 32) st1 = Some (a', num', st')"
      for st1 a' num' st'
      using IH [of st1] that(2) u unfolding d by (simp add: add.assoc)
    ultimately show ?thesis
      using True by (auto simp: loop_unfold [of mal a num st] d(1) map_option_bind comp_def
          split: Option.bind_splits)
  qed
qed

lemma loop_then:
  assumes "pos a mod 8 = 0"
    and "\<And>a num' st. unat num' = unat num mod 32 \<Longrightarrow> writes b mal a (g (unat num')) st (k a num' st)"
    and "\<And>a st. k a 0 st = Some st" "\<And>n. g n = 0 \<Longrightarrow> n = 0"
  shows "writes b mal a (32 * (unat num div 32) + g (unat num mod 32)) st
    (loop mal a num st \<bind> (\<lambda>(a, num, st). k a num st))"
proof -
  let ?a = "a + of_nat (32 * (unat num div 32))" and ?n = "of_nat (unat num mod 32) :: 64 word"
  have n: "unat ?n = unat num mod 32"
    by (simp add: unat_of_nat)
  have n': "num' = ?n" if "unat num' = unat num mod 32" for num' :: "64 word"
    using that n by (simp only: word_unat_eq_iff)
  have "loop mal a num st \<bind> (\<lambda>(a, num, st). k a num st) =
      map_option (snd \<circ> snd) (loop mal a num st) \<bind> k ?a ?n"
    using loop_writes [OF assms(1), of mal num st]
    by (cases "loop mal a num st") (auto dest!: n' simp del: of_nat_mult)
  moreover have "writes b mal a (32 * (unat num div 32) + g (unat num mod 32)) st
      (map_option (snd \<circ> snd) (loop mal a num st) \<bind> k ?a ?n)"
  proof (rule writes_seq)
    show "writes b mal a (32 * (unat num div 32)) st (map_option (snd \<circ> snd) (loop mal a num st))"
      using loop_writes [OF assms(1)] by blast
    show "writes b mal ?a (g (unat num mod 32)) st' (k ?a ?n st')" for st'
      using assms(2) [OF n] n by simp
    show "0 < g (unat num mod 32) \<or> (\<forall>st'. k ?a ?n st' = Some st')"
      using assms(3) assms(4) [of "unat num mod 32"] by (cases "unat num mod 32 = 0") auto
  qed
  ultimately show ?thesis
    by simp
qed

end

interpretation set_chunks: chunk_loop True
  "\<lambda>mal a st. do { (mapp, st) \<leftarrow> VIRT2ENTRY mal a st; store32 mapp (NOT 0) st }" bit_setn_fast
proof
  show "writes True mal a 32 st (do { (mapp, st) \<leftarrow> VIRT2ENTRY mal a st; store32 mapp (NOT 0) st })"
    if "pos a mod 8 = 0" for mal a st
    using store32_writes [OF that, of True mal st] by simp
qed (subst bit_setn_fast.simps, simp add: case_prod_unfold bind_assoc)

interpretation clr_chunks: chunk_loop False
  "\<lambda>mal a st. do { (mapp, st) \<leftarrow> VIRT2ENTRY mal a st; store32 mapp 0 st }" bit_clrn_fast
proof
  show "writes False mal a 32 st (do { (mapp, st) \<leftarrow> VIRT2ENTRY mal a st; store32 mapp 0 st })"
    if "pos a mod 8 = 0" for mal a st
    using store32_writes [OF that, of False mal st] by simp
qed (subst bit_clrn_fast.simps, simp add: case_prod_unfold bind_assoc)

subsection \<open>Setting a range\<close>

lemma setn_slow_0 [simp]: "bit_setn_slow mal a 0 = Some"
  by (rule ext) (simp add: bit_setn_slow.simps)

lemma setn_slow_writes: "writes True mal a (unat num) st (bit_setn_slow mal a num st)"
proof (induction mal a num st rule: bit_setn_slow.induct)
  case (1 mal a num st)
  consider "num = 0" | "num \<noteq> 0" "num < 8" | "\<not> num < 8"
    by blast
  then show ?case
  proof cases
    case 2
    then show ?thesis
      using writes_seq [OF setn_case_writes [of num mal a st], of 0 Some]
      by (subst bit_setn_slow.simps) simp
  next
    case 3
    then have num: "num \<noteq> 0" and "unat num = 8 + unat (num - 8)"
      by (auto simp: unat_sub word_le_nat_alt not_less)
    moreover have "writes True mal a (8 + unat (num - 8)) st
        (bit_tagmap_setq mal a st \<bind> bit_setn_slow mal (a + 8) (num - 8))"
      using 3 num 1(2) by (intro writes_seq setq_writes) (auto simp: unat_gt_0)
    ultimately show ?thesis
      using 3 by (subst bit_setn_slow.simps) auto
  qed simp
qed

lemma setn_rest_writes:
  assumes "pos a mod 8 = 0"
  shows "writes True mal a (unat num) st
    (bit_setn_fast mal a num st \<bind> (\<lambda>(a, num, st). bit_setn_slow mal a num st))"
proof -
  have "writes True mal a (unat num') st (bit_setn_slow mal a num' st)"
    if "unat num' = unat num mod 32" for a num' st
    by (rule setn_slow_writes)
  from set_chunks.loop_then [where g = "\<lambda>n. n", OF assms this] show ?thesis
    by simp
qed

text \<open>The aligning step covers \<open>- pos a mod 8\<close> positions.\<close>

lemma align_count:
  "unat (if ALIGN_OFF_MAX - of_nat (VIRT2BIT a) = 8 then 0 else ALIGN_OFF_MAX - of_nat (VIRT2BIT a)) =
     (8 - pos a mod 8) mod 8"
proof -
  have v: "VIRT2BIT a < 8" "VIRT2BIT a = pos a mod 8"
    by (simp_all add: VIRT2BIT_pos)
  have u: "unat (8 - of_nat (VIRT2BIT a) :: 64 word) = 8 - VIRT2BIT a"
    using v(1) by (simp add: unat_sub unat_of_nat word_le_nat_alt)
  then have "(8 - of_nat (VIRT2BIT a) :: 64 word) = 8 \<longleftrightarrow> VIRT2BIT a = 0"
    using v(1) by (simp add: word_unat_eq_iff) arith
  then show ?thesis
    using u v by auto
qed

lemma align_off:
  fixes a :: addr
  defines "off \<equiv> ALIGN_OFF_MAX - of_nat (VIRT2BIT a)"
  defines "i \<equiv> (if off = 8 then 0 else off)"
  shows "off < 8 \<and> i = off \<or> off = 8 \<and> i = 0" "unat i < 8" "pos (a + i) mod 8 = 0"
proof -
  have i: "unat i = (8 - pos a mod 8) mod 8"
    unfolding i_def off_def by (rule align_count)
  then show "unat i < 8"
    by simp
  then show "off < 8 \<and> i = off \<or> off = 8 \<and> i = 0"
    by (cases "off = 8") (simp_all add: i_def word_less_nat_alt)
  have "(pos a + unat i) mod 8 = (pos a mod 8 + (8 - pos a mod 8)) mod 8"
    unfolding i by (simp only: mod_simps)
  then have "(pos a + unat i) mod 8 = 0"
    by simp
  then show "pos (a + i) mod 8 = 0"
    using pos_plus [of a "unat i"] mod_pow_48(2) [of "pos a + unat i"] by simp
qed

theorem setn_writes: "writes True mal a (unat num) st (bit_tagmap_setn mal a num st)"
proof (cases "num \<le> 8")
  case True
  then have "num = 8 \<or> num < 8"
    by auto
  then show ?thesis
    using True setn_case_writes [of num mal a st] setq_writes [of mal a st]
    by (auto simp: bit_tagmap_setn_def)
next
  case False
  let ?off = "8 - of_nat (VIRT2BIT a) :: 64 word"
  let ?i = "if ?off = 8 then 0 else ?off"
  have n: "unat num = unat ?i + unat (num - ?i)" "0 < unat (num - ?i)"
    using False align_off(2) [of a] by (auto simp: unat_sub word_le_nat_alt)
  have first: "writes True mal a (unat ?i) st (bit_setn_case mal ?off a st)"
    using align_off(1) [of a] setn_case_writes [of ?off mal a st]
    by (auto simp: bit_setn_case_def)
  have "writes True mal a (unat ?i + unat (num - ?i)) st (bit_setn_case mal ?off a st \<bind>
      (\<lambda>st. bit_setn_fast mal (a + ?i) (num - ?i) st \<bind> (\<lambda>(a, num, st). bit_setn_slow mal a num st)))"
    using n(2) first setn_rest_writes [OF align_off(3) [of a]] by (intro writes_seq) auto
  with n(1) False show ?thesis
    by (simp add: bit_tagmap_setn_def Let_def)
qed

subsection \<open>Testing a range\<close>

definition reads ::
  "malloc_outcome \<Rightarrow> addr \<Rightarrow> nat \<Rightarrow> 64 word \<Rightarrow> stab \<Rightarrow> (64 word \<times> stab) option \<Rightarrow> bool" where
  "reads mal a k tag st r \<longleftrightarrow>
     (case r of
        None \<Rightarrow> \<not> (st \<noteq> None \<and> (\<forall>tab i. mal tab i) \<and> in_segment a k)
      | Some (tag', st') \<Rightarrow> (st \<noteq> None \<longrightarrow> st' \<noteq> None) \<and> bit_at st' = bit_at st \<and>
          (tag' \<noteq> 0 \<longleftrightarrow> tag \<noteq> 0 \<or> (\<exists>n\<in>rng a k. bit_at st n)))"

lemma reads_0 [simp]: "reads mal a 0 tag st (Some (tag, st))"
  by (simp add: reads_def)

lemma reads_seq:
  assumes "reads mal a i tag st r"
    and "\<And>tag' st'. r = Some (tag', st') \<Longrightarrow> reads mal (a + of_nat i) j tag' st' (f tag' st')"
    and "0 < j \<or> (\<forall>tag st. f tag st = Some (tag, st))"
  shows "reads mal a (i + j) tag st (r \<bind> (\<lambda>(tag, st). f tag st))"
proof (cases r)
  case None
  then show ?thesis
    using assms(1) by (auto simp: reads_def in_segment_def)
next
  case (Some p)
  then obtain tag' st' where r: "r = Some (tag', st')"
    by (cases p) auto
  have "in_segment (a + of_nat i) j" if "in_segment a (i + j)" "f tag' st' = None"
    using in_segment_plus [OF that(1)] that(2) assms(3) by auto
  then show ?thesis
    using assms(1) assms(2) [OF r] r
    by (auto simp: reads_def rng_add split: option.splits)
qed

lemma reads_stop:
  "reads mal a i tag st (Some (tag', st')) \<Longrightarrow> tag' \<noteq> 0 \<Longrightarrow> i \<le> k \<Longrightarrow>
   reads mal a k tag st (Some (tag', st'))"
  using rng_add [of a i "k - i"] by (auto simp: reads_def)

lemma or_nonzero: "(x OR y :: 64 word) \<noteq> 0 \<longleftrightarrow> x \<noteq> 0 \<or> y \<noteq> 0"
  by (auto simp: word_nonzero bit_or_iff)

lemma reads_or:
  "reads mal a k 0 st r \<Longrightarrow> reads mal a k tag st (r \<bind> (\<lambda>(v, st). Some (tag OR v, st)))"
  using or_nonzero [of tag] by (auto simp: reads_def split: option.splits Option.bind_splits)

lemma entry_and_reads:
  assumes "0 < w" "w \<le> 8"
  shows "reads mal a w 0 st (entry_and mal (mask w) a st)"
proof -
  have "st' \<noteq> None" if "entry_and mal (mask w) a st = Some (tag, st')" for tag st'
    using that VIRT2ENTRY_Some(1) [of mal a st] by (fastforce simp: entry_and_def split: Option.bind_splits)
  then show ?thesis
    using entry_and_spec [OF assms(2), of mal a st] entry_ready_in_segment [OF _ _ _ assms(1), of st mal a]
      rng_entry [OF _ assms(2), of a]
    by (auto simp: reads_def entry_ready_def split: option.splits)
qed

lemma issetn_case_reads: "num < 8 \<Longrightarrow> reads mal a (unat num) 0 st (bit_issetn_case mal num a st)"
  using small_unat [of num] by (auto simp: issetn_case_and intro: entry_and_reads)

lemma getq_reads: "reads mal a 8 0 st (bit_tagmap_getq mal a st)"
  using entry_and_reads [of 8 mal a st] by (simp add: bit_tagmap_getq_def masks)

lemma bit_bytes32:
  fixes s :: segment
  assumes "k < 32"
  shows "bit (ucast (s n) OR push_bit 8 (ucast (s (n + 1))) OR
    push_bit 16 (ucast (s (n + 2))) OR push_bit 24 (ucast (s (n + 3))) :: 32 word) k =
    bit (s (n + k div 8)) (k mod 8)"
proof -
  define q where "q = k div 8"
  have k: "k mod 8 = k - 8 * q" "8 * q \<le> k" "k < 8 * q + 8"
    by (simp_all add: q_def minus_mult_div_eq_mod)
  have above: "\<not> bit (x :: 8 word) j" if "8 \<le> j" for x j
    using that bit_imp_le_length [of x j] by auto
  consider "q = 0" | "q = 1" | "q = 2" | "q = 3"
    using assms k(2) by linarith
  then show ?thesis
    unfolding q_def [symmetric] k(1) bit_or_iff bit_push_bit_iff bit_ucast_iff
    using assms k(2,3) above by cases auto
qed

lemma load32_reads:
  assumes "pos a mod 8 = 0"
  shows "reads mal a 32 tag st
    (do { (mapp, st) \<leftarrow> VIRT2ENTRY mal a st; v \<leftarrow> load32 mapp st; Some (tag OR ucast v, st) })"
proof (cases "VIRT2ENTRY mal a st")
  case None
  then show ?thesis
    using VIRT2ENTRY_None [of mal a st] by (auto simp: reads_def split: option.splits)
next
  case (Some p)
  then obtain e st1 where e: "VIRT2ENTRY mal a st = Some (e, st1)"
    by (cases p) auto
  obtain tab s where st1: "st1 = Some tab" "e = (seg_idx a, seg_off a)" "tab (seg_idx a) = Some s"
    and eq: "bit_at st1 = bit_at st"
    using VIRT2ENTRY_Some [OF e] by blast
  show ?thesis
  proof (cases "seg_off a + 3 < SEGMAP_SZ")
    case True
    then obtain v where v: "load32 e st1 = Some v"
      and bits: "\<And>k. k < 32 \<Longrightarrow> bit v k = bit (s (seg_off a + k div 8)) (k mod 8)"
      using st1 bit_bytes32 [of _ s "seg_off a"] by (auto simp: load32_def)
    have at: "bit v k = bit_at st (ent_base a + k)" if "k < 32" for k
    proof -
      have "ent_base a + k = 2 ^ 26 * seg_idx a + 8 * (seg_off a + k div 8) + k mod 8"
        by (simp add: base_conv)
      moreover have "seg_off a + k div 8 < SEGMAP_SZ" "k mod 8 < 8"
        using True that by simp_all
      ultimately show ?thesis
        using bits [OF that] st1(3) by (simp only: eq [symmetric] st1(1) bit_at_parts option.case)
    qed
    have "k < 32" if "bit v k" for k
      using bit_imp_le_length [OF that] by simp
    then have "ucast v \<noteq> (0 :: 64 word) \<longleftrightarrow> (\<exists>k<32. bit v k)"
      unfolding word_nonzero bit_ucast_iff by (intro ex_cong1) force
    also have "\<dots> \<longleftrightarrow> (\<exists>n\<in>rng a 32. bit_at st n)"
      unfolding Bex_def rng_chunk [OF True assms] using at
      by (metis le_add1 le_add_diff_inverse nat_add_left_cancel_less)
    finally show ?thesis
      using e v st1(1) eq or_nonzero [of tag "ucast v"] by (auto simp: reads_def)
  next
    case False
    with e st1 show ?thesis
      using in_segment_chunk [of a] by (auto simp: reads_def load32_def)
  qed
qed

lemma issetn_fast_reads:
  assumes "pos a mod 8 = 0"
  shows "reads mal a (32 * (unat num div 32)) tag st
      (map_option (\<lambda>(a, num, r). r) (bit_issetn_fast mal a num tag st)) \<and>
    (\<forall>a' num' tag' st'. bit_issetn_fast mal a num tag st = Some (a', num', tag', st') \<longrightarrow>
       a' = a + of_nat (32 * (unat num div 32)) \<and> unat num' = unat num mod 32)"
  using assms
proof (induction "unat num" arbitrary: a num tag st rule: less_induct)
  case less
  show ?case
  proof (cases "num \<ge> 32")
    case False
    then have "unat num < 32"
      by (simp add: word_le_nat_alt)
    with False show ?thesis
      by (simp add: bit_issetn_fast.simps [of mal a num tag st])
  next
    case True
    have u: "unat (num - 32) = unat num - 32" "32 \<le> unat num"
      using True by (simp_all add: unat_sub word_le_nat_alt)
    have d: "32 * (unat num div 32) = 32 + 32 * (unat (num - 32) div 32)" "unat num mod 32 = unat (num - 32) mod 32"
      using u by (simp_all add: le_div_geq le_mod_geq)
    note IH = less.hyps [of "num - 32" "a + 32", OF _ aligned_plus_32 [OF less.prems]]
    let ?body = "do { (mapp, st) \<leftarrow> VIRT2ENTRY mal a st; v \<leftarrow> load32 mapp st; Some (tag OR ucast v, st) }"
    let ?rest = "bit_issetn_fast mal (a + 32) (num - 32)"
    have unfold: "bit_issetn_fast mal a num tag st = ?body \<bind> (\<lambda>(tag, st). ?rest tag st)"
      using True by (simp add: bit_issetn_fast.simps [of mal a num tag st] case_prod_unfold bind_assoc)
    have "reads mal a (32 + 32 * (unat (num - 32) div 32)) tag st
        (?body \<bind> (\<lambda>(tag, st). map_option (\<lambda>(a, num, r). r) (?rest tag st)))"
    proof (rule reads_seq [OF load32_reads [OF less.prems]])
      show "reads mal (a + of_nat 32) (32 * (unat (num - 32) div 32)) tag' st'
          (map_option (\<lambda>(a, num, r). r) (?rest tag' st'))" for tag' st'
        using IH u by simp
      show "0 < 32 * (unat (num - 32) div 32) \<or>
          (\<forall>tag st. map_option (\<lambda>(a, num, r). r) (?rest tag st) = Some (tag, st))"
        using u by (cases "num - 32 \<ge> 32")
          (auto simp: word_le_nat_alt div_greater_zero_iff bit_issetn_fast.simps [of _ "a + 32" "num - 32"])
    qed
    moreover have "a' = a + of_nat (32 * (unat num div 32)) \<and> unat num' = unat num mod 32"
      if "?rest tag1 st1 = Some (a', num', tag', st')" for tag1 st1 a' num' tag' st'
      using IH [of tag1 st1] that u unfolding d by (simp add: add.assoc)
    ultimately show ?thesis
      unfolding unfold d(1) by (auto simp: map_option_bind comp_def case_prod_unfold split: Option.bind_splits)
  qed
qed

lemma issetn_slow_0 [simp]: "bit_issetn_slow mal a 0 tag st = Some (tag, st)"
  by (simp add: bit_issetn_slow.simps)

lemma issetn_slow_reads: "reads mal a (unat num) tag st (bit_issetn_slow mal a num tag st)"
proof (induction mal a num tag st rule: bit_issetn_slow.induct)
  case (1 mal a num tag st)
  have unfold: "bit_issetn_slow mal a num tag st = (r \<bind> (\<lambda>(v, st). Some (tag OR v, st))) \<bind>
      (\<lambda>(tag, st). bit_issetn_slow mal (a + i) (num - i) tag st)"
    if "num \<noteq> 0" "num < 8 \<Longrightarrow> r = bit_issetn_case mal num a st \<and> i = num"
      "\<not> num < 8 \<Longrightarrow> r = bit_tagmap_getq mal a st \<and> i = 8" for r i
    using that by (subst bit_issetn_slow.simps) (auto simp: case_prod_unfold bind_assoc)
  consider "num = 0" | "num \<noteq> 0" "num < 8" | "num \<noteq> 0" "\<not> num < 8"
    by blast
  then show ?case
  proof cases
    case 2
    have "reads mal a (unat num + 0) tag st
        ((bit_issetn_case mal num a st \<bind> (\<lambda>(v, st). Some (tag OR v, st))) \<bind>
         (\<lambda>(tag, st). bit_issetn_slow mal (a + num) (num - num) tag st))"
      by (rule reads_seq [OF reads_or [OF issetn_case_reads [OF 2(2)]]]) simp_all
    with 2 unfold [of "bit_issetn_case mal num a st" num] show ?thesis
      by simp
  next
    case 3
    then have num: "unat num = 8 + unat (num - 8)"
      by (auto simp: unat_sub word_le_nat_alt not_less)
    have "reads mal a (8 + unat (num - 8)) tag st
        ((bit_tagmap_getq mal a st \<bind> (\<lambda>(v, st). Some (tag OR v, st))) \<bind>
         (\<lambda>(tag, st). bit_issetn_slow mal (a + 8) (num - 8) tag st))"
      by (rule reads_seq [OF reads_or [OF getq_reads]])
        (use 3 1(2) in \<open>auto simp: unat_gt_0 split: Option.bind_splits\<close>)
    with 3 num unfold [of "bit_tagmap_getq mal a st" 8] show ?thesis
      by simp
  qed simp
qed

lemma issetn_rest_reads:
  assumes "pos a mod 8 = 0"
  shows "reads mal a (unat num) 0 st
    (bit_issetn_fast mal a num 0 st \<bind> (\<lambda>(a, num, tag, st).
       if tag \<noteq> 0 then Some (tag, st) else bit_issetn_slow mal a num tag st))"
proof -
  let ?a = "a + of_nat (32 * (unat num div 32))" and ?n = "of_nat (unat num mod 32) :: 64 word"
  have n: "unat ?n = unat num mod 32"
    by (simp add: unat_of_nat)
  have n': "num' = ?n" if "unat num' = unat num mod 32" for num' :: "64 word"
    using that n by (simp only: word_unat_eq_iff)
  note fast = issetn_fast_reads [OF assms, of mal num 0 st]
  let ?r = "map_option (\<lambda>(a, num, r). r) (bit_issetn_fast mal a num 0 st)"
  let ?f = "\<lambda>tag st. if tag \<noteq> 0 then Some (tag, st) else bit_issetn_slow mal ?a ?n tag st"
  have "bit_issetn_fast mal a num 0 st \<bind> (\<lambda>(a, num, tag, st).
       if tag \<noteq> 0 then Some (tag, st) else bit_issetn_slow mal a num tag st) = ?r \<bind> (\<lambda>(tag, st). ?f tag st)"
    using fast by (cases "bit_issetn_fast mal a num 0 st") (auto dest!: n' simp del: of_nat_mult)
  moreover have "reads mal a (32 * (unat num div 32) + unat num mod 32) 0 st (?r \<bind> (\<lambda>(tag, st). ?f tag st))"
  proof (rule reads_seq)
    show "reads mal a (32 * (unat num div 32)) 0 st ?r"
      using fast by blast
    show "reads mal ?a (unat num mod 32) tag' st' (?f tag' st')" for tag' st'
      using issetn_slow_reads [of mal ?a ?n tag' st'] n by (auto simp: reads_def)
    show "0 < unat num mod 32 \<or> (\<forall>tag st. ?f tag st = Some (tag, st))"
      by (cases "unat num mod 32 = 0") simp_all
  qed
  ultimately show ?thesis
    by simp
qed

theorem issetn_reads: "reads mal a (unat num) 0 st (bit_tagmap_issetn mal a num st)"
proof (cases "num \<le> 8")
  case True
  then have "num = 8 \<or> num < 8"
    by auto
  then show ?thesis
    using True issetn_case_reads [of num mal a st] getq_reads [of mal a st]
    by (auto simp: bit_tagmap_issetn_def)
next
  case False
  let ?off = "8 - of_nat (VIRT2BIT a) :: 64 word"
  define i where "i = (if ?off = 8 then 0 else ?off)"
  have n: "unat num = unat i + unat (num - i)" "0 < unat (num - i)"
    using False align_off(2) [of a, folded i_def] by (auto simp: unat_sub word_le_nat_alt)
  have first: "reads mal a (unat i) 0 st (bit_issetn_case mal ?off a st)"
    using align_off(1) [of a, folded i_def] issetn_case_reads [of ?off mal a st]
    by (auto simp: bit_issetn_case_def)
  let ?rest = "\<lambda>st. bit_issetn_fast mal (a + i) (num - i) 0 st \<bind> (\<lambda>(a, num, tag, st).
       if tag \<noteq> 0 then Some (tag, st) else bit_issetn_slow mal a num tag st)"
  have "reads mal a (unat i + unat (num - i)) 0 st (bit_issetn_case mal ?off a st \<bind>
      (\<lambda>(tag, st). if tag \<noteq> 0 then Some (tag, st) else ?rest st))"
  proof (rule reads_seq [OF first])
    show "reads mal (a + of_nat (unat i)) (unat (num - i)) tag' st' (if tag' \<noteq> 0 then Some (tag', st') else ?rest st')"
      for tag' st'
      using issetn_rest_reads [OF align_off(3) [of a, folded i_def], of mal "num - i" st']
      by (cases "tag' = 0") (simp_all add: reads_def)
  qed (use n(2) in blast)
  then show ?thesis
    unfolding n(1) [symmetric] bit_tagmap_issetn_def Let_def i_def [symmetric] using False
    by (simp only: if_False)
qed

subsection \<open>Clearing a range\<close>

lemma writes_overlap:
  assumes "writes v mal a i st r" "\<And>st'. r = Some st' \<Longrightarrow> writes v mal a j st' (f st')" "j \<le> i"
  shows "writes v mal a i st (r \<bind> f)"
proof (cases r)
  case (Some st')
  have "in_segment a i \<Longrightarrow> in_segment a j" "rng a j \<subseteq> rng a i"
    using assms(3) by (auto simp: in_segment_def rng_def)
  then show ?thesis
    using assms(1) assms(2) [OF Some] Some by (auto simp: writes_def fun_eq_iff split: option.splits)
qed (use assms(1) in \<open>simp add: writes_def\<close>)

text \<open>The last loop clears the first eight positions only.\<close>

lemma clrn_slow_0 [simp]: "bit_clrn_slow mal a 0 = Some"
  by (rule ext) (simp add: bit_clrn_slow.simps)

lemma clrn_slow_writes:
  "unat num mod 8 \<noteq> 7 \<Longrightarrow> writes False mal a (min 8 (unat num)) st (bit_clrn_slow mal a num st)"
proof (induction mal a num st rule: bit_clrn_slow.induct)
  case (1 mal a num st)
  consider "num = 0" | "num \<noteq> 0" "num < 8" | "\<not> num < 8"
    by blast
  then show ?case
  proof cases
    case 2
    then have "unat num < 8" "num \<noteq> 7"
      using 1(3) by (auto simp: word_less_nat_alt)
    with 2 show ?thesis
      using clrn_case_writes [of num mal a st] by (subst bit_clrn_slow.simps) simp
  next
    case 3
    then have num: "num \<noteq> 0" "unat num = 8 + unat (num - 8)"
      by (auto simp: unat_sub word_le_nat_alt not_less)
    have "writes False mal a 8 st (bit_tagmap_clrq mal a st \<bind> bit_clrn_slow mal a (num - 8))"
      using 3 num 1(2,3) by (intro writes_overlap [OF clrq_writes, where j = "min 8 (unat (num - 8))"]) auto
    then show ?thesis
      using 3 num by (subst bit_clrn_slow.simps) simp
  qed simp
qed

definition tail_of :: "addr \<Rightarrow> nat \<Rightarrow> nat" where
  "tail_of a n = (if n \<le> 8 then 0 else (n - (8 - pos a mod 8) mod 8) mod 32)"

theorem clrn_writes:
  assumes "tail_of a (unat num) mod 8 \<noteq> 7"
  shows "writes False mal a (unat num - (tail_of a (unat num) - 8)) st (bit_tagmap_clrn mal a num st)"
proof (cases "num \<le> 8")
  case True
  then have "num = 8 \<or> num < 8"
    by auto
  moreover have "tail_of a (unat num) = 0"
    using True by (simp add: tail_of_def word_le_nat_alt)
  ultimately show ?thesis
    using True clrn_case_writes [of num mal a st] clrq_writes [of mal a st]
    by (auto simp: bit_tagmap_clrn_def)
next
  case False
  let ?off = "8 - of_nat (VIRT2BIT a) :: 64 word"
  define i where "i = (if ?off = 8 then 0 else ?off)"
  define m where "m = unat (num - i)"
  note al = align_off [of a, folded i_def]
  have n: "unat num = unat i + m" "0 < m"
    using False al(2) by (auto simp: m_def unat_sub word_le_nat_alt)
  have "unat i = (8 - pos a mod 8) mod 8"
    using align_count [of a] by (simp add: i_def)
  with False n have t: "tail_of a (unat num) = m mod 32"
    by (simp add: tail_of_def word_le_nat_alt)
  have first: "writes False mal a (unat i) st (bit_clrn_case mal ?off a st)"
    using al(1) clrn_case_writes [of ?off mal a st] by (auto simp: bit_clrn_case_def)
  have slow: "writes False mal a' (min 8 (unat num')) st' (bit_clrn_slow mal a' num' st')"
    if "unat num' = unat (num - i) mod 32" for a' num' st'
    using that assms t by (intro clrn_slow_writes) (simp add: m_def)
  have rest: "writes False mal (a + i) (32 * (m div 32) + min 8 (m mod 32)) st'
      (bit_clrn_fast mal (a + i) (num - i) st' \<bind> (\<lambda>(a, num, st). bit_clrn_slow mal a num st))" for st'
    unfolding m_def by (rule clr_chunks.loop_then [where g = "min 8", OF al(3) slow]) simp_all
  have "0 < 32 * (m div 32) + min 8 (m mod 32)"
    using n(2) by (cases "m div 32 = 0") auto
  then have "writes False mal a (unat i + (32 * (m div 32) + min 8 (m mod 32))) st
      (bit_clrn_case mal ?off a st \<bind> (\<lambda>st. bit_clrn_fast mal (a + i) (num - i) st \<bind>
         (\<lambda>(a, num, st). bit_clrn_slow mal a num st)))"
    using rest by (intro writes_seq [OF first]) auto
  moreover have "unat num - (tail_of a (unat num) - 8) = unat i + (32 * (m div 32) + min 8 (m mod 32))"
    unfolding t unfolding n(1) using mult_div_mod_eq [of 32 m] by linarith
  ultimately show ?thesis
    unfolding bit_tagmap_clrn_def Let_def i_def [symmetric] using False by (simp only: if_False)
qed

end
