(* ===== verification/BitState.thy ===== *)
theory BitState
  imports BitRange TaintState
begin

text \<open>
  The state of the analysis routines in the build without \<^verbatim>\<open>USE_CUSTOM_TAG\<close>: \<^verbatim>\<open>uint32_t gpr[17]\<close>, one
  bit for each byte of a register (\<^verbatim>\<open>libdft_api64.h\<close>), and the bit map of memory. Accesses
  outside the register array, the helper tables or a segment are \<open>None\<close>.

  A routine is specified by the locations whose bits the bit of a location becomes the
  disjunction of, \<open>loc \<Rightarrow> loc list\<close>: \<open>on_reg\<close> and \<open>on_mem\<close> give new sources to some bytes of a
  register or of memory. The lemmas on \<open>touch\<close> and \<open>put16\<close> execute accesses to entries.
\<close>

subsection \<open>State and accesses\<close>

definition VCPU_MASK64 :: "32 word" where "VCPU_MASK64 = 0xFF"
definition VCPU_MASK32 :: "32 word" where "VCPU_MASK32 = 0x0F"
definition VCPU_MASK16 :: "32 word" where "VCPU_MASK16 = 0x03"
definition VCPU_MASK8 :: "32 word" where "VCPU_MASK8 = 0x01"

definition SE_HELPER_32 :: "32 word list" where "SE_HELPER_32 = [0, 0x0c]"
definition SE_HELPER_64 :: "32 word list" where "SE_HELPER_64 = [0, 0xf0]"
definition MAP_8L_16 :: "32 word list" where "MAP_8L_16 = [0, VCPU_MASK16]"
definition MAP_8H_16 :: "32 word list" where "MAP_8H_16 = [0, 0, VCPU_MASK16]"
definition MAP_8L_32 :: "32 word list" where "MAP_8L_32 = [0, VCPU_MASK32]"
definition MAP_8H_32 :: "32 word list" where "MAP_8H_32 = [0, 0, VCPU_MASK32]"
definition MAP_8L_64 :: "32 word list" where "MAP_8L_64 = [0, VCPU_MASK64]"
definition MAP_8H_64 :: "32 word list" where "MAP_8H_64 = [0, 0, VCPU_MASK64]"

record bit_state =
  bgpr :: "nat \<Rightarrow> 32 word"
  bstab :: stab

definition GPR :: "bit_state \<Rightarrow> nat \<Rightarrow> 32 word option" where
  "GPR tc r = (if r < GPR_NUM + 1 then Some (bgpr tc r) else None)"

definition set_GPR :: "bit_state \<Rightarrow> nat \<Rightarrow> 32 word \<Rightarrow> bit_state option" where
  "set_GPR tc r v = (if r < GPR_NUM + 1 then Some (tc\<lparr>bgpr := (bgpr tc)(r := v)\<rparr>) else None)"

definition TAB :: "32 word list \<Rightarrow> 64 word \<Rightarrow> 32 word option" where
  "TAB xs n = (if unat n < length xs then Some (xs ! unat n) else None)"

definition ENTRY ::
  "malloc_outcome \<Rightarrow> bit_state \<Rightarrow> addr \<Rightarrow> ((nat \<times> nat) \<times> bit_state) option" where
  "ENTRY mal tc a = do { (e, st) \<leftarrow> VIRT2ENTRY mal a (bstab tc); Some (e, tc\<lparr>bstab := st\<rparr>) }"

definition LOAD :: "bit_state \<Rightarrow> nat \<times> nat \<Rightarrow> 32 word option" where
  "LOAD tc e = map_option ucast (load16 e (bstab tc))"

definition STORE :: "bit_state \<Rightarrow> nat \<times> nat \<Rightarrow> 32 word \<Rightarrow> bit_state option" where
  "STORE tc e v = do { st \<leftarrow> store16 e (ucast v) (bstab tc); Some (tc\<lparr>bstab := st\<rparr>) }"

subsection \<open>Specification\<close>

fun bit_of :: "bit_state \<Rightarrow> loc \<Rightarrow> bool" where
  "bit_of tc (Reg r i) = bit (bgpr tc r) i"
| "bit_of tc (Mem a) = bit_at (bstab tc) (pos a)"

type_synonym bit_flow = "loc \<Rightarrow> loc list"

definition on_reg :: "nat \<Rightarrow> nat \<Rightarrow> nat \<Rightarrow> (nat \<Rightarrow> loc list) \<Rightarrow> bit_flow \<Rightarrow> bit_flow" where
  "on_reg d m n S f l =
     (case l of Reg r i \<Rightarrow> if r = d \<and> m \<le> i \<and> i < n then S i else f l | Mem b \<Rightarrow> f l)"

definition on_mem :: "addr \<Rightarrow> nat \<Rightarrow> (nat \<Rightarrow> loc list) \<Rightarrow> bit_flow \<Rightarrow> bit_flow" where
  "on_mem a n S f l =
     (case l of
        Reg r i \<Rightarrow> f l
      | Mem b \<Rightarrow> if pos a \<le> pos b \<and> pos b < pos a + n then S (pos b - pos a) else f l)"

definition keep :: bit_flow where
  "keep l = [l]"

definition bit_wf :: "bit_state \<Rightarrow> bool" where
  "bit_wf tc \<longleftrightarrow> (\<forall>r<17. \<forall>i. bit (bgpr tc r) i \<longrightarrow> i < 8) \<and> bstab tc \<noteq> None"

definition mem_ok :: "addr \<Rightarrow> bool" where
  "mem_ok a \<longleftrightarrow> seg_off a \<noteq> 0x7FFFFF"

definition bit_runs :: "bit_flow \<Rightarrow> bit_state \<Rightarrow> bit_state option \<Rightarrow> bool" where
  "bit_runs F tc r \<longleftrightarrow>
     (\<exists>tc'. r = Some tc' \<and> bit_wf tc' \<and>
        (\<forall>l. loc_ok l \<longrightarrow> (bit_of tc' l \<longleftrightarrow> (\<exists>s\<in>set (F l). bit_of tc s))))"

lemma vcpu_masks:
  "VCPU_MASK64 = mask 8" "VCPU_MASK32 = mask 4" "VCPU_MASK16 = mask 2" "VCPU_MASK8 = mask 1"
  by (simp_all add: VCPU_MASK64_def VCPU_MASK32_def VCPU_MASK16_def VCPU_MASK8_def mask_eq_exp_minus_1)

subsection \<open>Executing accesses\<close>

definition touch :: "addr \<Rightarrow> stab \<Rightarrow> stab" where
  "touch a st =
     map_option (\<lambda>tab. if tab (seg_idx a) = None then tab(seg_idx a \<mapsto> (\<lambda>i. 0)) else tab) st"

definition has_seg :: "addr \<Rightarrow> stab \<Rightarrow> bool" where
  "has_seg a st \<longleftrightarrow> (\<exists>tab s. st = Some tab \<and> tab (seg_idx a) = Some s)"

definition put16 :: "addr \<Rightarrow> 16 word \<Rightarrow> stab \<Rightarrow> stab" where
  "put16 a v st =
     map_option (\<lambda>tab. tab(seg_idx a \<mapsto> (the (tab (seg_idx a)))
       (seg_off a := ucast v, seg_off a + 1 := ucast (drop_bit 8 v)))) st"

lemma has_seg_touch [simp]:
  "st \<noteq> None \<Longrightarrow> has_seg a (touch a st)" "has_seg a st \<Longrightarrow> has_seg a (touch b st)"
  by (cases st; auto simp: has_seg_def touch_def)+

lemma has_seg_put16 [simp]: "has_seg a st \<Longrightarrow> has_seg a (put16 b v st)"
  by (auto simp: has_seg_def put16_def)

lemma touch_None [simp]: "touch a st = None \<longleftrightarrow> st = None" "put16 a v st = None \<longleftrightarrow> st = None"
  by (simp_all add: touch_def put16_def)

lemma bit_at_touch [simp]: "bit_at (touch a st) = bit_at st"
  by (cases st) (simp_all add: touch_def bit_at_alloc)

lemma window16_touch [simp]: "window16 (touch a st) = window16 st"
  by (simp add: window16_def fun_eq_iff)

lemma ENTRY_ok [simp]:
  "\<forall>tab i. mal tab i \<Longrightarrow> bstab tc \<noteq> None \<Longrightarrow>
   ENTRY mal tc a = Some ((seg_idx a, seg_off a), tc\<lparr>bstab := touch a (bstab tc)\<rparr>)"
  by (auto simp: ENTRY_def VIRT2ENTRY_def tagmap_alloc_seg_def touch_def)

lemma LOAD_ok [simp]:
  assumes "has_seg a (bstab tc)" "mem_ok a"
  shows "LOAD tc (seg_idx a, seg_off a) = Some (ucast (window16 (bstab tc) (ent_base a)))"
proof -
  have "VIRT2ENTRY (\<lambda>_ _. True) a (bstab tc) = Some ((seg_idx a, seg_off a), bstab tc)"
    using assms(1) by (auto simp: VIRT2ENTRY_def has_seg_def)
  from load16_window [OF this] assms(2) show ?thesis
    by (simp add: LOAD_def mem_ok_def)
qed

lemma STORE_ok [simp]:
  "has_seg a (bstab tc) \<Longrightarrow> mem_ok a \<Longrightarrow>
   STORE tc (seg_idx a, seg_off a) v = Some (tc\<lparr>bstab := put16 a (ucast v) (bstab tc)\<rparr>)"
  using seg_off_bound [of a]
  by (auto simp: STORE_def store16_def has_seg_def put16_def mem_ok_def)

lemma bit_at_put16:
  assumes "has_seg a st" "mem_ok a"
  shows "bit_at (put16 a v st) n =
    (if ent_base a \<le> n \<and> n < ent_base a + 16 then bit v (n - ent_base a) else bit_at st n)"
proof -
  obtain tab s where st: "st = Some tab" "tab (seg_idx a) = Some s"
    using assms(1) by (auto simp: has_seg_def)
  moreover have "seg_off a + 1 < SEGMAP_SZ"
    using assms(2) seg_off_bound by (simp add: mem_ok_def)
  ultimately have "store16 (seg_idx a, seg_off a) v st = Some (put16 a v st)"
    by (simp add: store16_def put16_def)
  then show ?thesis
    using bit_at_store16 [of tab, OF st(2) \<open>seg_off a + 1 < SEGMAP_SZ\<close>, of v] st(1)
    unfolding base_conv by auto
qed

text \<open>Reading \<open>(*entry >> VIRT2BIT(a))\<close> and writing \<open>x << VIRT2BIT(a)\<close> under a mask.\<close>

lemma pos_base: "pos a = ent_base a + VIRT2BIT a" "VIRT2BIT a < 8"
  by (simp_all add: ent_base_def VIRT2BIT_pos)

lemma bit_read:
  "bit (drop_bit (VIRT2BIT a) (ucast (window16 st (ent_base a)) :: 32 word)) k \<longleftrightarrow>
   VIRT2BIT a + k < 16 \<and> bit_at st (pos a + k)"
  by (auto simp: bit_drop_bit_eq bit_ucast_iff bit_window16 pos_base add.assoc)

lemma bit_read_masked:
  assumes "n \<le> 8"
  shows "bit (drop_bit (VIRT2BIT a) (ucast (window16 st (ent_base a)) :: 32 word) AND mask n) k \<longleftrightarrow>
    k < n \<and> bit_at st (pos a + k)"
  using assms pos_base(2) [of a] by (auto simp: bit_and_iff bit_mask_iff bit_read)

lemma pos_plus_ok: "mem_ok a \<Longrightarrow> k < 8 \<Longrightarrow> pos (a + of_nat k) = pos a + k"
  using pos_in_segment [of a] by (simp add: mem_ok_def seg_off_last pos_plus)

lemma bit_at_masked_put:
  assumes "has_seg a st" "mem_ok a" "n \<le> 8"
  shows "bit_at (put16 a (ucast ((ucast (window16 st (ent_base a)) AND NOT (push_bit (VIRT2BIT a) (mask n))) OR
      push_bit (VIRT2BIT a) x :: 32 word)) st) p \<longleftrightarrow>
    (if pos a \<le> p \<and> p < pos a + n then bit x (p - pos a) else bit_at st p) \<or>
    pos a + n \<le> p \<and> p < ent_base a + 16 \<and> bit x (p - pos a)"
proof (cases "ent_base a \<le> p \<and> p < ent_base a + 16")
  case True
  then have k: "bit (push_bit (VIRT2BIT a) (mask n) :: 32 word) (p - ent_base a) \<longleftrightarrow> pos a \<le> p \<and> p < pos a + n"
    "p - ent_base a < 16"
    using bit_entry_mask_at [OF assms(3), of a p] by auto
  moreover have "bit (push_bit (VIRT2BIT a) x) (p - ent_base a) \<longleftrightarrow> pos a \<le> p \<and> bit x (p - pos a)"
    using True k(2) by (auto simp: bit_push_bit_iff pos_base(1))
  ultimately show ?thesis
    using True assms
    by (auto simp: bit_at_put16 bit_ucast_iff bit_or_iff bit_and_iff bit_not_iff bit_window16)
next
  case False
  then show ?thesis
    using assms mask_in_window [OF assms(3), of a p] pos_base(1) [of a] by (auto simp: bit_at_put16)
qed

lemma bit_at_or_put:
  assumes "has_seg a st" "mem_ok a"
  shows "bit_at (put16 a (ucast (ucast (window16 st (ent_base a)) OR push_bit (VIRT2BIT a) x :: 32 word)) st) p \<longleftrightarrow>
    bit_at st p \<or> pos a \<le> p \<and> p < ent_base a + 16 \<and> bit x (p - pos a)"
proof (cases "ent_base a \<le> p \<and> p < ent_base a + 16")
  case True
  then have "bit (push_bit (VIRT2BIT a) x) (p - ent_base a) \<longleftrightarrow> pos a \<le> p \<and> bit x (p - pos a)"
    by (auto simp: bit_push_bit_iff pos_base(1))
  then show ?thesis
    using True assms by (auto simp: bit_at_put16 bit_ucast_iff bit_or_iff bit_window16)
qed (use assms pos_base(1) [of a] in \<open>auto simp: bit_at_put16\<close>)

subsection \<open>Proving a routine from its flow\<close>

named_theorems bit_exec \<open>executing an analysis routine of the bit build\<close>
named_theorems bit_defs \<open>definitions of the analysis routines of the bit build\<close>

lemma bit_runs_Some:
  "bit_runs F tc (Some tc') \<longleftrightarrow>
     bstab tc' \<noteq> None \<and> (\<forall>r<17. \<forall>i. bit (bgpr tc' r) i \<longrightarrow> i < 8) \<and>
     (\<forall>r<17. \<forall>i<8. bit (bgpr tc' r) i \<longleftrightarrow> (\<exists>s\<in>set (F (Reg r i)). bit_of tc s)) \<and>
     (\<forall>a. bit_at (bstab tc') (pos a) \<longleftrightarrow> (\<exists>s\<in>set (F (Mem a)). bit_of tc s))"
proof -
  have "(\<forall>l. loc_ok l \<longrightarrow> P l) \<longleftrightarrow> (\<forall>r<17. \<forall>i<8. P (Reg r i)) \<and> (\<forall>a. P (Mem a))" for P
  proof
    assume *: "(\<forall>r<17. \<forall>i<8. P (Reg r i)) \<and> (\<forall>a. P (Mem a))"
    show "\<forall>l. loc_ok l \<longrightarrow> P l"
    proof (intro allI impI)
      show "P l" if "loc_ok l" for l
        using * that by (cases l) (auto simp: loc_ok_def)
    qed
  qed (auto simp: loc_ok_def)
  note all = this [of "\<lambda>l. bit_of tc' l \<longleftrightarrow> (\<exists>s\<in>set (F l). bit_of tc s)", unfolded bit_of.simps(1,2)]
  show ?thesis
    unfolding bit_runs_def bit_wf_def by (simp only: option.inject ex_simps simp_thms all) (simp only: conj_ac)
qed

lemma GPR_ok [bit_exec]: "r < 17 \<Longrightarrow> GPR tc r = Some (bgpr tc r)"
  by (simp add: GPR_def)

lemma set_GPR_ok [bit_exec]: "r < 17 \<Longrightarrow> set_GPR tc r v = Some (tc\<lparr>bgpr := (bgpr tc)(r := v)\<rparr>)"
  by (simp add: set_GPR_def)

text \<open>A table is read at a value with at most one bit.\<close>

lemma TAB_low:
  assumes "\<And>k. bit x k \<Longrightarrow> k = 0"
  shows "TAB [a, b] x = Some (if bit x 0 then b else a)"
proof -
  have "x = 1" if "bit x 0"
    by (rule bit_word_eqI) (use that in \<open>auto simp: bit_1_iff dest: assms\<close>)
  moreover have "x = 0" if "\<not> bit x 0"
    by (rule bit_word_eqI) (use that assms in \<open>metis bit_0_eq bot_apply bot_bool_def\<close>)
  ultimately show ?thesis
    by (cases "bit x 0") (simp_all add: TAB_def)
qed

lemma TAB_high:
  assumes "\<And>k. bit x k \<Longrightarrow> k = 1"
  shows "TAB [a, a', b] x = Some (if bit x 1 then b else a)"
proof -
  have "x = 2" if "bit x 1"
    by (rule bit_word_eqI) (use that in \<open>auto simp: bit_2_iff dest: assms\<close>)
  moreover have "x = 0" if "\<not> bit x 1"
    by (rule bit_word_eqI) (use that assms in \<open>metis bit_0_eq bot_apply bot_bool_def\<close>)
  ultimately show ?thesis
    by (cases "bit x 1") (simp_all add: TAB_def)
qed

lemma se_helpers: "SE_HELPER_32 = [0, push_bit 2 (mask 2)]" "SE_HELPER_64 = [0, push_bit 4 (mask 4)]"
  by (simp_all add: SE_HELPER_32_def SE_HELPER_64_def mask_eq_exp_minus_1)

lemma tab_reads [bit_exec]:
  fixes y :: "32 word"
  shows "TAB MAP_8L_16 (ucast (y AND VCPU_MASK8)) = Some (if bit y 0 then VCPU_MASK16 else 0)"
    "TAB MAP_8L_32 (ucast (y AND VCPU_MASK8)) = Some (if bit y 0 then VCPU_MASK32 else 0)"
    "TAB MAP_8L_64 (ucast (y AND VCPU_MASK8)) = Some (if bit y 0 then VCPU_MASK64 else 0)"
    "TAB MAP_8H_16 (ucast (y AND push_bit (Suc 0) VCPU_MASK8)) = Some (if bit y 1 then VCPU_MASK16 else 0)"
    "TAB MAP_8H_32 (ucast (y AND push_bit (Suc 0) VCPU_MASK8)) = Some (if bit y 1 then VCPU_MASK32 else 0)"
    "TAB MAP_8H_64 (ucast (y AND push_bit (Suc 0) VCPU_MASK8)) = Some (if bit y 1 then VCPU_MASK64 else 0)"
    "TAB SE_HELPER_32 (drop_bit (Suc 0) (ucast (y AND VCPU_MASK16))) =
       Some (if bit y 1 then push_bit 2 (mask 2) else 0)"
    "TAB SE_HELPER_64 (drop_bit (Suc 0) (ucast (y AND VCPU_MASK16))) =
       Some (if bit y 1 then push_bit 4 (mask 4) else 0)"
    "TAB SE_HELPER_64 (drop_bit 3 (ucast (y AND VCPU_MASK32))) =
       Some (if bit y 3 then push_bit 4 (mask 4) else 0)"
  unfolding MAP_8L_16_def MAP_8L_32_def MAP_8L_64_def MAP_8H_16_def MAP_8H_32_def MAP_8H_64_def
    se_helpers vcpu_masks
  by ((subst TAB_low, auto simp: bit_simps) | (subst TAB_high, auto simp: bit_simps))+

lemma window_pos [bit_exec]:
  "ent_base a + (VIRT2BIT a + k) = pos a + k" "ent_base a + VIRT2BIT a = pos a"
  "pos a + k - VIRT2BIT a = ent_base a + k"
  by (simp_all add: pos_base add.assoc)

lemma bgpr_bstab_comm [bit_exec]: "X\<lparr>bstab := s, bgpr := G\<rparr> = X\<lparr>bgpr := G, bstab := s\<rparr>"
  by simp

lemma pos_numeral_ok [bit_exec]:
  "mem_ok a \<Longrightarrow> pos (a + 1) = pos a + 1" "mem_ok a \<Longrightarrow> pos (a + 3) = pos a + 3"
  using pos_plus_ok [of a 1] pos_plus_ok [of a 3] by simp_all

text \<open>A routine that writes an entry is judged on the sixteen bits of the entry.\<close>

lemma bit_runs_put:
  assumes "has_seg a st" "mem_ok a" "n \<le> 8" "bit_at st = bit_at (bstab tc)"
    and "\<forall>r<17. \<forall>i. bit (bgpr X r) i \<longrightarrow> i < 8"
    and "\<forall>r<17. \<forall>i<8. bit (bgpr X r) i \<longleftrightarrow> (\<exists>s\<in>set (F (Reg r i)). bit_of tc s)"
    and "\<And>b. F (Mem b) = [Mem b]"
    and "\<forall>k<16. bit v k \<longleftrightarrow>
      (if VIRT2BIT a \<le> k \<and> k < VIRT2BIT a + n then (\<exists>s\<in>set (S (k - VIRT2BIT a)). bit_of tc s)
       else bit_at (bstab tc) (ent_base a + k))"
  shows "bit_runs (on_mem a n S F) tc (Some (X\<lparr>bstab := put16 a v st\<rparr>))"
proof -
  have "bit_at (put16 a v st) (pos b) \<longleftrightarrow> (\<exists>s\<in>set (on_mem a n S F (Mem b)). bit_of tc s)" for b
  proof (cases "ent_base a \<le> pos b \<and> pos b < ent_base a + 16")
    case True
    define k where "k = pos b - ent_base a"
    then have k: "k < 16" "pos b = ent_base a + k"
      using True by auto
    have "pos b - pos a = k - VIRT2BIT a" "pos a \<le> pos b \<longleftrightarrow> VIRT2BIT a \<le> k"
      "pos b < pos a + n \<longleftrightarrow> k < VIRT2BIT a + n"
      by (simp_all add: k(2) pos_base(1) [of a])
    moreover have "bit_at (put16 a v st) (pos b) \<longleftrightarrow> bit v k"
      using True assms(1,2) by (simp add: bit_at_put16 k_def)
    ultimately show ?thesis
      using assms(8) k by (simp add: assms(7) on_mem_def)
  next
    case False
    then show ?thesis
      using assms(1-4) mask_in_window [OF assms(3), of a "pos b"]
      by (auto simp: bit_at_put16 assms(7) on_mem_def)
  qed
  then show ?thesis
    using assms(1,5,6) by (auto simp: bit_runs_Some on_mem_def has_seg_def)
qed

lemma bit_runs_reg:
  assumes "bstab tc \<noteq> None" "\<And>b. F (Mem b) = [Mem b]" "\<forall>r<17. \<forall>i. bit (G r) i \<longrightarrow> i < 8"
    and "\<forall>r<17. \<forall>i<8. bit (G r) i \<longleftrightarrow> (\<exists>s\<in>set (F (Reg r i)). bit_of tc s)"
  shows "bit_runs F tc (Some (tc\<lparr>bgpr := G\<rparr>))"
  using assms by (simp add: bit_runs_Some)

lemma bit_runs_touch:
  assumes "st \<noteq> None" "bit_at st = bit_at (bstab tc)" "\<And>b. F (Mem b) = [Mem b]"
    and "\<forall>r<17. \<forall>i. bit (bgpr X r) i \<longrightarrow> i < 8"
    and "\<forall>r<17. \<forall>i<8. bit (bgpr X r) i \<longleftrightarrow> (\<exists>s\<in>set (F (Reg r i)). bit_of tc s)"
  shows "bit_runs F tc (Some (X\<lparr>bstab := touch a st\<rparr>))"
  using assms by (simp add: bit_runs_Some)

lemma bit_runs_same:
  assumes "bstab tc \<noteq> None" "\<And>b. F (Mem b) = [Mem b]" "\<forall>r<17. \<forall>i. bit (bgpr tc r) i \<longrightarrow> i < 8"
    and "\<forall>r<17. \<forall>i<8. bit (bgpr tc r) i \<longleftrightarrow> (\<exists>s\<in>set (F (Reg r i)). bit_of tc s)"
  shows "bit_runs F tc (Some tc)"
  using assms by (simp add: bit_runs_Some)

lemmas bit_runs_intros = bit_runs_reg bit_runs_touch bit_runs_same bit_runs_put

lemma low_bits [bit_exec]:
  "8 \<le> n \<Longrightarrow> VIRT2BIT a < n" "k < 8 \<Longrightarrow> VIRT2BIT a + k < 16" "k < 8 \<Longrightarrow> VIRT2BIT a + k < 32"
  "VIRT2BIT a \<le> k \<Longrightarrow> k < VIRT2BIT a + 8 \<Longrightarrow> VIRT2BIT b + k - VIRT2BIT a < 16"
  "VIRT2BIT a \<le> k \<Longrightarrow> k < VIRT2BIT a + 8 \<Longrightarrow> VIRT2BIT b + k - VIRT2BIT a < 32"
  "k < VIRT2BIT a + 8 \<Longrightarrow> VIRT2BIT b + k < 16 + VIRT2BIT a"
  "k < VIRT2BIT a + 8 \<Longrightarrow> VIRT2BIT b + k < 32 + VIRT2BIT a"
  using pos_base(2) [of a] pos_base(2) [of b] by simp_all

definition bit_ready :: "malloc_outcome \<Rightarrow> bit_state \<Rightarrow> bool" where
  "bit_ready mal tc \<longleftrightarrow> bit_wf tc \<and> (\<forall>tab i. mal tab i)"

text \<open>Bounds for the registers that routines name.\<close>

lemma low_named:
  "\<forall>r<17. \<forall>i. bit (bgpr tc r) i \<longrightarrow> i < 8 \<Longrightarrow> bit (bgpr tc 5) i \<Longrightarrow> i < 8"
  "\<forall>r<17. \<forall>i. bit (bgpr tc r) i \<longrightarrow> i < 8 \<Longrightarrow> bit (bgpr tc 7) i \<Longrightarrow> i < 8"
  using allE [of "\<lambda>r. r < 17 \<longrightarrow> (\<forall>i. bit (bgpr tc r) i \<longrightarrow> i < 8)" 5 "i < 8"]
    allE [of "\<lambda>r. r < 17 \<longrightarrow> (\<forall>i. bit (bgpr tc r) i \<longrightarrow> i < 8)" 7 "i < 8"] by simp_all

lemma second_bit: "i < 2 \<Longrightarrow> Suc 0 \<le> i \<longleftrightarrow> i = Suc 0"
  by auto

lemma one_bit: "k < Suc (VIRT2BIT a) \<Longrightarrow> VIRT2BIT a \<le> k \<longleftrightarrow> k = VIRT2BIT a"
  by auto

lemma low_at:
  "\<forall>r<17. \<forall>i. bit (bgpr tc r) i \<longrightarrow> i < 8 \<Longrightarrow> r < 17 \<Longrightarrow> bit (bgpr tc r) (k - b) \<Longrightarrow> k < b + 8"
  using less_diff_conv2 [of b k 8] by (cases "b \<le> k") auto

lemma masked_zero:
  fixes x :: "'a::len word"
  shows "x AND mask n = 0 \<longleftrightarrow> (\<forall>k<n. \<not> bit x k)"
  by (auto simp: bit_eq_iff bit_and_iff bit_mask_iff dest: bit_imp_le_length)

lemma ex_below: "(\<exists>x\<in>{0..<n}. P x) \<longleftrightarrow> (\<exists>x<n::nat. P x)"
  by auto

lemma ex_two: "(\<exists>x. (x = a \<or> x = b) \<and> P x) \<longleftrightarrow> P a \<or> P b"
  by blast

lemmas bit_low = low_named low_at

lemmas bit_eval =
  bit_exec masks vcpu_masks bit_simps bit_window16 pos_plus_ok on_reg_def keep_def less_diff_conv2
  second_bit one_bit masked_zero ex_two ex_below

end
