(* ===== verification/BitMov.thy ===== *)
theory BitMov
  imports BitState CoreMov
begin

text \<open>
  Sign and zero extension in the build without \<^verbatim>\<open>USE_CUSTOM_TAG\<close>: the
    other branches of the routines of
  theory \<^verbatim>\<open>CoreMov\<close>, and their data flows. Sign extension copies the tag
    of the most significant source byte to the bytes
  above it, where the other build clears them; 32-bit destinations clear the upper half of the
  register, with one exception (\<^verbatim>\<open>_movsx_r2r_oplb_u\<close>).
\<close>

declare push_bit_Suc [simp del] drop_bit_Suc [simp del] of_nat_diff [simp del]

subsection \<open>Routines\<close>

definition bit_cwde ::
  "bit_state \<Rightarrow> bit_state option" where
  "bit_cwde tc =
     do {
       g_7 \<leftarrow> GPR tc 7;
       let src_tag = (ucast (g_7 AND VCPU_MASK16) :: 64 word);
       helper \<leftarrow> TAB SE_HELPER_32 (drop_bit 1 src_tag);
       let src_tag = (src_tag OR (ucast helper :: 64 word));
       g_7 \<leftarrow> GPR tc 7;
       set_GPR tc 7 (ucast ((ucast (g_7 AND (NOT VCPU_MASK32)) :: 64 word) OR src_tag))
     }"

definition bit_cdqe ::
  "bit_state \<Rightarrow> bit_state option" where
  "bit_cdqe tc =
     do {
       g_7 \<leftarrow> GPR tc 7;
       let src_tag = (ucast (g_7 AND VCPU_MASK32) :: 64 word);
       helper \<leftarrow> TAB SE_HELPER_64 (drop_bit 3 src_tag);
       let src_tag = (src_tag OR (ucast helper :: 64 word));
       set_GPR tc 7 (ucast src_tag)
     }"

definition bit_movsx_r2r_opwb_u ::
  "bit_state \<Rightarrow> nat \<Rightarrow> nat \<Rightarrow> bit_state option" where
  "bit_movsx_r2r_opwb_u tc dst src =
     do {
       g_src \<leftarrow> GPR tc src;
       let src_tag = (ucast (g_src AND (push_bit 1 VCPU_MASK8)) :: 64 word);
       g_dst \<leftarrow> GPR tc dst;
       helper \<leftarrow> TAB MAP_8H_16 src_tag;
       set_GPR tc dst ((g_dst AND (NOT VCPU_MASK16)) OR helper)
     }"

definition bit_movsx_r2r_opwb_l ::
  "bit_state \<Rightarrow> nat \<Rightarrow> nat \<Rightarrow> bit_state option" where
  "bit_movsx_r2r_opwb_l tc dst src =
     do {
       g_src \<leftarrow> GPR tc src;
       let src_tag = (ucast (g_src AND VCPU_MASK8) :: 64 word);
       g_dst \<leftarrow> GPR tc dst;
       helper \<leftarrow> TAB MAP_8L_16 src_tag;
       set_GPR tc dst ((g_dst AND (NOT VCPU_MASK16)) OR helper)
     }"

definition bit_movsx_r2r_oplb_u ::
  "bit_state \<Rightarrow> nat \<Rightarrow> nat \<Rightarrow> bit_state option" where
  "bit_movsx_r2r_oplb_u tc dst src =
     do {
       g_src \<leftarrow> GPR tc src;
       let src_tag = (ucast (g_src AND (push_bit 1 VCPU_MASK8)) :: 64 word);
       g_dst \<leftarrow> GPR tc dst;
       helper \<leftarrow> TAB MAP_8H_32 src_tag;
       set_GPR tc dst ((g_dst AND (NOT VCPU_MASK32)) OR helper)
     }"

definition bit_movsx_r2r_oplb_l ::
  "bit_state \<Rightarrow> nat \<Rightarrow> nat \<Rightarrow> bit_state option" where
  "bit_movsx_r2r_oplb_l tc dst src =
     do {
       g_src \<leftarrow> GPR tc src;
       let src_tag = (ucast (g_src AND VCPU_MASK8) :: 64 word);
       helper \<leftarrow> TAB MAP_8L_32 src_tag;
       set_GPR tc dst helper
     }"

definition bit_movsx_r2r_oplw ::
  "bit_state \<Rightarrow> nat \<Rightarrow> nat \<Rightarrow> bit_state option" where
  "bit_movsx_r2r_oplw tc dst src =
     do {
       g_src \<leftarrow> GPR tc src;
       let src_tag = (ucast (g_src AND VCPU_MASK16) :: 64 word);
       helper \<leftarrow> TAB SE_HELPER_32 (drop_bit 1 src_tag);
       let src_tag = (src_tag OR (ucast helper :: 64 word));
       set_GPR tc dst (ucast src_tag)
     }"

definition bit_movsx_r2r_opqb_u ::
  "bit_state \<Rightarrow> nat \<Rightarrow> nat \<Rightarrow> bit_state option" where
  "bit_movsx_r2r_opqb_u tc dst src =
     do {
       g_src \<leftarrow> GPR tc src;
       let src_tag = (ucast (g_src AND (push_bit 1 VCPU_MASK8)) :: 64 word);
       helper \<leftarrow> TAB MAP_8H_64 src_tag;
       set_GPR tc dst helper
     }"

definition bit_movsx_r2r_opqb_l ::
  "bit_state \<Rightarrow> nat \<Rightarrow> nat \<Rightarrow> bit_state option" where
  "bit_movsx_r2r_opqb_l tc dst src =
     do {
       g_src \<leftarrow> GPR tc src;
       let src_tag = (ucast (g_src AND VCPU_MASK8) :: 64 word);
       helper \<leftarrow> TAB MAP_8L_64 src_tag;
       set_GPR tc dst helper
     }"

definition bit_movsx_r2r_opqw ::
  "bit_state \<Rightarrow> nat \<Rightarrow> nat \<Rightarrow> bit_state option" where
  "bit_movsx_r2r_opqw tc dst src =
     do {
       g_src \<leftarrow> GPR tc src;
       let src_tag = (ucast (g_src AND VCPU_MASK16) :: 64 word);
       helper \<leftarrow> TAB SE_HELPER_32 (drop_bit 1 src_tag);
       helper_64 \<leftarrow> TAB SE_HELPER_64 (drop_bit 1 src_tag);
       let src_tag = (src_tag OR (ucast (helper OR helper_64) :: 64 word));
       set_GPR tc dst (ucast src_tag)
     }"

definition bit_movsxd_r2r_opql ::
  "bit_state \<Rightarrow> nat \<Rightarrow> nat \<Rightarrow> bit_state option" where
  "bit_movsxd_r2r_opql tc dst src =
     do {
       g_src \<leftarrow> GPR tc src;
       let src_tag = (ucast (g_src AND VCPU_MASK32) :: 64 word);
       helper \<leftarrow> TAB SE_HELPER_64 (drop_bit 3 src_tag);
       let src_tag = (src_tag OR (ucast helper :: 64 word));
       set_GPR tc dst (ucast src_tag)
     }"

definition bit_movsx_m2r_opwb ::
  "malloc_outcome \<Rightarrow> bit_state \<Rightarrow> nat \<Rightarrow> addr \<Rightarrow>
    bit_state option" where
  "bit_movsx_m2r_opwb mal tc dst src =
     do {
       (entry, tc) \<leftarrow> ENTRY mal tc src;
       entry_v \<leftarrow> LOAD tc entry;
       let src_tag = (ucast ((drop_bit (VIRT2BIT src) entry_v) AND VCPU_MASK8) :: 64 word);
       g_dst \<leftarrow> GPR tc dst;
       helper \<leftarrow> TAB MAP_8L_16 src_tag;
       set_GPR tc dst ((g_dst AND (NOT VCPU_MASK16)) OR helper)
     }"

definition bit_movsx_m2r_oplb ::
  "malloc_outcome \<Rightarrow> bit_state \<Rightarrow> nat \<Rightarrow> addr \<Rightarrow>
    bit_state option" where
  "bit_movsx_m2r_oplb mal tc dst src =
     do {
       (entry, tc) \<leftarrow> ENTRY mal tc src;
       entry_v \<leftarrow> LOAD tc entry;
       let src_tag = (ucast ((drop_bit (VIRT2BIT src) entry_v) AND VCPU_MASK8) :: 64 word);
       helper \<leftarrow> TAB MAP_8L_32 src_tag;
       set_GPR tc dst helper
     }"

definition bit_movsx_m2r_oplw ::
  "malloc_outcome \<Rightarrow> bit_state \<Rightarrow> nat \<Rightarrow> addr \<Rightarrow>
    bit_state option" where
  "bit_movsx_m2r_oplw mal tc dst src =
     do {
       (entry, tc) \<leftarrow> ENTRY mal tc src;
       entry_v \<leftarrow> LOAD tc entry;
       let src_tag = (ucast ((drop_bit (VIRT2BIT src) entry_v) AND VCPU_MASK16) :: 64 word);
       helper \<leftarrow> TAB SE_HELPER_32 (drop_bit 1 src_tag);
       let src_tag = (src_tag OR (ucast helper :: 64 word));
       set_GPR tc dst (ucast src_tag)
     }"

definition bit_movsx_m2r_opqb ::
  "malloc_outcome \<Rightarrow> bit_state \<Rightarrow> nat \<Rightarrow> addr \<Rightarrow>
    bit_state option" where
  "bit_movsx_m2r_opqb mal tc dst src =
     do {
       (entry, tc) \<leftarrow> ENTRY mal tc src;
       entry_v \<leftarrow> LOAD tc entry;
       let src_tag = (ucast ((drop_bit (VIRT2BIT src) entry_v) AND VCPU_MASK8) :: 64 word);
       helper \<leftarrow> TAB MAP_8L_64 src_tag;
       set_GPR tc dst helper
     }"

definition bit_movsx_m2r_opqw ::
  "malloc_outcome \<Rightarrow> bit_state \<Rightarrow> nat \<Rightarrow> addr \<Rightarrow>
    bit_state option" where
  "bit_movsx_m2r_opqw mal tc dst src =
     do {
       (entry, tc) \<leftarrow> ENTRY mal tc src;
       entry_v \<leftarrow> LOAD tc entry;
       let src_tag = (ucast ((drop_bit (VIRT2BIT src) entry_v) AND VCPU_MASK16) :: 64 word);
       helper \<leftarrow> TAB SE_HELPER_64 (drop_bit 1 src_tag);
       helper_64 \<leftarrow> TAB SE_HELPER_32 (drop_bit 1 src_tag);
       let src_tag = (src_tag OR (ucast (helper OR helper_64) :: 64 word));
       set_GPR tc dst (ucast src_tag)
     }"

definition bit_movsxd_m2r_opql ::
  "malloc_outcome \<Rightarrow> bit_state \<Rightarrow> nat \<Rightarrow> addr \<Rightarrow>
    bit_state option" where
  "bit_movsxd_m2r_opql mal tc dst src =
     do {
       (entry, tc) \<leftarrow> ENTRY mal tc src;
       entry_v \<leftarrow> LOAD tc entry;
       let src_tag = (ucast ((drop_bit (VIRT2BIT src) entry_v) AND VCPU_MASK32) :: 64 word);
       helper \<leftarrow> TAB SE_HELPER_64 (drop_bit 3 src_tag);
       let src_tag = (src_tag OR (ucast helper :: 64 word));
       set_GPR tc dst (ucast src_tag)
     }"

definition bit_movzx_r2r_opwb_u ::
  "bit_state \<Rightarrow> nat \<Rightarrow> nat \<Rightarrow> bit_state option" where
  "bit_movzx_r2r_opwb_u tc dst src =
     do {
       g_src \<leftarrow> GPR tc src;
       let src_tag = (ucast (drop_bit 1 (g_src AND (push_bit 1 VCPU_MASK8))) :: 64 word);
       g_dst \<leftarrow> GPR tc dst;
       set_GPR tc dst (ucast ((ucast (g_dst AND (NOT VCPU_MASK16)) :: 64 word) OR src_tag))
     }"

definition bit_movzx_r2r_opwb_l ::
  "bit_state \<Rightarrow> nat \<Rightarrow> nat \<Rightarrow> bit_state option" where
  "bit_movzx_r2r_opwb_l tc dst src =
     do {
       g_src \<leftarrow> GPR tc src;
       let src_tag = (ucast (g_src AND VCPU_MASK8) :: 64 word);
       g_dst \<leftarrow> GPR tc dst;
       set_GPR tc dst (ucast ((ucast (g_dst AND (NOT VCPU_MASK16)) :: 64 word) OR src_tag))
     }"

definition bit_movzx_r2r_oplb_u ::
  "bit_state \<Rightarrow> nat \<Rightarrow> nat \<Rightarrow> bit_state option" where
  "bit_movzx_r2r_oplb_u tc dst src =
     do {
       g_src \<leftarrow> GPR tc src;
       let src_tag = (ucast (drop_bit 1 (g_src AND (push_bit 1 VCPU_MASK8))) :: 64 word);
       set_GPR tc dst (ucast src_tag)
     }"

definition bit_movzx_r2r_oplb_l ::
  "bit_state \<Rightarrow> nat \<Rightarrow> nat \<Rightarrow> bit_state option" where
  "bit_movzx_r2r_oplb_l tc dst src =
     do {
       g_src \<leftarrow> GPR tc src;
       let src_tag = (ucast (g_src AND VCPU_MASK8) :: 64 word);
       set_GPR tc dst (ucast src_tag)
     }"

definition bit_movzx_r2r_oplw ::
  "bit_state \<Rightarrow> nat \<Rightarrow> nat \<Rightarrow> bit_state option" where
  "bit_movzx_r2r_oplw tc dst src =
     do {
       g_src \<leftarrow> GPR tc src;
       let src_tag = (ucast (g_src AND VCPU_MASK16) :: 64 word);
       set_GPR tc dst (ucast src_tag)
     }"

definition bit_movzx_r2r_opqb_u ::
  "bit_state \<Rightarrow> nat \<Rightarrow> nat \<Rightarrow> bit_state option" where
  "bit_movzx_r2r_opqb_u tc dst src =
     do {
       g_src \<leftarrow> GPR tc src;
       let src_tag = (ucast (drop_bit 1 (g_src AND (push_bit 1 VCPU_MASK8))) :: 64 word);
       set_GPR tc dst (ucast src_tag)
     }"

definition bit_movzx_r2r_opqb_l ::
  "bit_state \<Rightarrow> nat \<Rightarrow> nat \<Rightarrow> bit_state option" where
  "bit_movzx_r2r_opqb_l tc dst src =
     do {
       g_src \<leftarrow> GPR tc src;
       let src_tag = (ucast (g_src AND VCPU_MASK8) :: 64 word);
       set_GPR tc dst (ucast src_tag)
     }"

definition bit_movzx_r2r_opqw ::
  "bit_state \<Rightarrow> nat \<Rightarrow> nat \<Rightarrow> bit_state option" where
  "bit_movzx_r2r_opqw tc dst src =
     do {
       g_src \<leftarrow> GPR tc src;
       let src_tag = (ucast (g_src AND VCPU_MASK16) :: 64 word);
       set_GPR tc dst (ucast src_tag)
     }"

definition bit_movzx_m2r_opwb ::
  "malloc_outcome \<Rightarrow> bit_state \<Rightarrow> nat \<Rightarrow> addr \<Rightarrow>
    bit_state option" where
  "bit_movzx_m2r_opwb mal tc dst src =
     do {
       (entry, tc) \<leftarrow> ENTRY mal tc src;
       entry_v \<leftarrow> LOAD tc entry;
       let src_tag = (ucast ((drop_bit (VIRT2BIT src) entry_v) AND VCPU_MASK8) :: 64 word);
       g_dst \<leftarrow> GPR tc dst;
       set_GPR tc dst (ucast ((ucast (g_dst AND (NOT VCPU_MASK16)) :: 64 word) OR src_tag))
     }"

definition bit_movzx_m2r_oplb ::
  "malloc_outcome \<Rightarrow> bit_state \<Rightarrow> nat \<Rightarrow> addr \<Rightarrow>
    bit_state option" where
  "bit_movzx_m2r_oplb mal tc dst src =
     do {
       (entry, tc) \<leftarrow> ENTRY mal tc src;
       entry_v \<leftarrow> LOAD tc entry;
       let src_tag = (ucast ((drop_bit (VIRT2BIT src) entry_v) AND VCPU_MASK8) :: 64 word);
       set_GPR tc dst (ucast src_tag)
     }"

definition bit_movzx_m2r_oplw ::
  "malloc_outcome \<Rightarrow> bit_state \<Rightarrow> nat \<Rightarrow> addr \<Rightarrow>
    bit_state option" where
  "bit_movzx_m2r_oplw mal tc dst src =
     do {
       (entry, tc) \<leftarrow> ENTRY mal tc src;
       entry_v \<leftarrow> LOAD tc entry;
       let src_tag = (ucast ((drop_bit (VIRT2BIT src) entry_v) AND VCPU_MASK16) :: 64 word);
       set_GPR tc dst (ucast src_tag)
     }"

definition bit_movzx_m2r_opqb ::
  "malloc_outcome \<Rightarrow> bit_state \<Rightarrow> nat \<Rightarrow> addr \<Rightarrow>
    bit_state option" where
  "bit_movzx_m2r_opqb mal tc dst src =
     do {
       (entry, tc) \<leftarrow> ENTRY mal tc src;
       entry_v \<leftarrow> LOAD tc entry;
       let src_tag = (ucast ((drop_bit (VIRT2BIT src) entry_v) AND VCPU_MASK8) :: 64 word);
       set_GPR tc dst (ucast src_tag)
     }"

definition bit_movzx_m2r_opqw ::
  "malloc_outcome \<Rightarrow> bit_state \<Rightarrow> nat \<Rightarrow> addr \<Rightarrow>
    bit_state option" where
  "bit_movzx_m2r_opqw mal tc dst src =
     do {
       (entry, tc) \<leftarrow> ENTRY mal tc src;
       entry_v \<leftarrow> LOAD tc entry;
       let src_tag = (ucast ((drop_bit (VIRT2BIT src) entry_v) AND VCPU_MASK16) :: 64 word);
       set_GPR tc dst (ucast src_tag)
     }"

subsection \<open>Calls and their flows\<close>

fun exec_bit_mov ::
  "malloc_outcome \<Rightarrow> mov_call \<Rightarrow> bit_state \<Rightarrow> bit_state option"
    where
    "exec_bit_mov mal Cwde tc = bit_cwde tc"
  | "exec_bit_mov mal Cdqe tc = bit_cdqe tc"
  | "exec_bit_mov mal (Movsx_r2r_opwb_u dst src) tc = bit_movsx_r2r_opwb_u tc dst src"
  | "exec_bit_mov mal (Movsx_r2r_opwb_l dst src) tc = bit_movsx_r2r_opwb_l tc dst src"
  | "exec_bit_mov mal (Movsx_r2r_oplb_u dst src) tc = bit_movsx_r2r_oplb_u tc dst src"
  | "exec_bit_mov mal (Movsx_r2r_oplb_l dst src) tc = bit_movsx_r2r_oplb_l tc dst src"
  | "exec_bit_mov mal (Movsx_r2r_oplw dst src) tc = bit_movsx_r2r_oplw tc dst src"
  | "exec_bit_mov mal (Movsx_r2r_opqb_u dst src) tc = bit_movsx_r2r_opqb_u tc dst src"
  | "exec_bit_mov mal (Movsx_r2r_opqb_l dst src) tc = bit_movsx_r2r_opqb_l tc dst src"
  | "exec_bit_mov mal (Movsx_r2r_opqw dst src) tc = bit_movsx_r2r_opqw tc dst src"
  | "exec_bit_mov mal (Movsxd_r2r_opql dst src) tc = bit_movsxd_r2r_opql tc dst src"
  | "exec_bit_mov mal (Movsx_m2r_opwb dst src) tc = bit_movsx_m2r_opwb mal tc dst src"
  | "exec_bit_mov mal (Movsx_m2r_oplb dst src) tc = bit_movsx_m2r_oplb mal tc dst src"
  | "exec_bit_mov mal (Movsx_m2r_oplw dst src) tc = bit_movsx_m2r_oplw mal tc dst src"
  | "exec_bit_mov mal (Movsx_m2r_opqb dst src) tc = bit_movsx_m2r_opqb mal tc dst src"
  | "exec_bit_mov mal (Movsx_m2r_opqw dst src) tc = bit_movsx_m2r_opqw mal tc dst src"
  | "exec_bit_mov mal (Movsxd_m2r_opql dst src) tc = bit_movsxd_m2r_opql mal tc dst src"
  | "exec_bit_mov mal (Movzx_r2r_opwb_u dst src) tc = bit_movzx_r2r_opwb_u tc dst src"
  | "exec_bit_mov mal (Movzx_r2r_opwb_l dst src) tc = bit_movzx_r2r_opwb_l tc dst src"
  | "exec_bit_mov mal (Movzx_r2r_oplb_u dst src) tc = bit_movzx_r2r_oplb_u tc dst src"
  | "exec_bit_mov mal (Movzx_r2r_oplb_l dst src) tc = bit_movzx_r2r_oplb_l tc dst src"
  | "exec_bit_mov mal (Movzx_r2r_oplw dst src) tc = bit_movzx_r2r_oplw tc dst src"
  | "exec_bit_mov mal (Movzx_r2r_opqb_u dst src) tc = bit_movzx_r2r_opqb_u tc dst src"
  | "exec_bit_mov mal (Movzx_r2r_opqb_l dst src) tc = bit_movzx_r2r_opqb_l tc dst src"
  | "exec_bit_mov mal (Movzx_r2r_opqw dst src) tc = bit_movzx_r2r_opqw tc dst src"
  | "exec_bit_mov mal (Movzx_m2r_opwb dst src) tc = bit_movzx_m2r_opwb mal tc dst src"
  | "exec_bit_mov mal (Movzx_m2r_oplb dst src) tc = bit_movzx_m2r_oplb mal tc dst src"
  | "exec_bit_mov mal (Movzx_m2r_oplw dst src) tc = bit_movzx_m2r_oplw mal tc dst src"
  | "exec_bit_mov mal (Movzx_m2r_opqb dst src) tc = bit_movzx_m2r_opqb mal tc dst src"
  | "exec_bit_mov mal (Movzx_m2r_opqw dst src) tc = bit_movzx_m2r_opqw mal tc dst src"

fun bit_mov_flow ::
  "mov_call \<Rightarrow> bit_flow" where
    "bit_mov_flow Cwde =
     (on_reg 7 2 4 (\<lambda>i. [Reg 7 1]) keep)"
  | "bit_mov_flow Cdqe =
     (on_reg 7 4 8 (\<lambda>i. [Reg 7 3]) keep)"
  | "bit_mov_flow (Movsx_r2r_opwb_u dst src) =
     (on_reg dst 0 2 (\<lambda>i. [Reg src 1]) keep)"
  | "bit_mov_flow (Movsx_r2r_opwb_l dst src) =
     (on_reg dst 0 2 (\<lambda>i. [Reg src 0]) keep)"
  | "bit_mov_flow (Movsx_r2r_oplb_u dst src) =
     (on_reg dst 0 4 (\<lambda>i. [Reg src 1]) keep)"
  | "bit_mov_flow (Movsx_r2r_oplb_l dst src) =
     (on_reg dst 0 8 (\<lambda>i. if i < 4 then [Reg src 0] else []) keep)"
  | "bit_mov_flow (Movsx_r2r_oplw dst src) =
     (on_reg dst 0 8 (\<lambda>i. if i < 2 then [Reg src i] else if i < 4 then [Reg src 1] else
       []) keep)"
  | "bit_mov_flow (Movsx_r2r_opqb_u dst src) =
     (on_reg dst 0 8 (\<lambda>i. [Reg src 1]) keep)"
  | "bit_mov_flow (Movsx_r2r_opqb_l dst src) =
     (on_reg dst 0 8 (\<lambda>i. [Reg src 0]) keep)"
  | "bit_mov_flow (Movsx_r2r_opqw dst src) =
     (on_reg dst 0 8 (\<lambda>i. if i < 2 then [Reg src i] else [Reg src 1]) keep)"
  | "bit_mov_flow (Movsxd_r2r_opql dst src) =
     (on_reg dst 0 8 (\<lambda>i. if i < 4 then [Reg src i] else [Reg src 3]) keep)"
  | "bit_mov_flow (Movsx_m2r_opwb dst src) =
     (on_reg dst 0 2 (\<lambda>i. [Mem src]) keep)"
  | "bit_mov_flow (Movsx_m2r_oplb dst src) =
     (on_reg dst 0 8 (\<lambda>i. if i < 4 then [Mem src] else []) keep)"
  | "bit_mov_flow (Movsx_m2r_oplw dst src) =
     (on_reg dst 0 8 (\<lambda>i. if i < 2 then [Mem (src + of_nat i)] else if i < 4 then [Mem
       (src + 1)] else []) keep)"
  | "bit_mov_flow (Movsx_m2r_opqb dst src) =
     (on_reg dst 0 8 (\<lambda>i. [Mem src]) keep)"
  | "bit_mov_flow (Movsx_m2r_opqw dst src) =
     (on_reg dst 0 8 (\<lambda>i. if i < 2 then [Mem (src + of_nat i)] else [Mem (src + 1)]) keep)"
  | "bit_mov_flow (Movsxd_m2r_opql dst src) =
     (on_reg dst 0 8 (\<lambda>i. if i < 4 then [Mem (src + of_nat i)] else [Mem (src + 3)]) keep)"
  | "bit_mov_flow (Movzx_r2r_opwb_u dst src) =
     (on_reg dst 0 2 (\<lambda>i. if i = 0 then [Reg src 1] else []) keep)"
  | "bit_mov_flow (Movzx_r2r_opwb_l dst src) =
     (on_reg dst 0 2 (\<lambda>i. if i = 0 then [Reg src 0] else []) keep)"
  | "bit_mov_flow (Movzx_r2r_oplb_u dst src) =
     (on_reg dst 0 8 (\<lambda>i. if i = 0 then [Reg src 1] else []) keep)"
  | "bit_mov_flow (Movzx_r2r_oplb_l dst src) =
     (on_reg dst 0 8 (\<lambda>i. if i = 0 then [Reg src 0] else []) keep)"
  | "bit_mov_flow (Movzx_r2r_oplw dst src) =
     (on_reg dst 0 8 (\<lambda>i. if i < 2 then [Reg src i] else []) keep)"
  | "bit_mov_flow (Movzx_r2r_opqb_u dst src) =
     (on_reg dst 0 8 (\<lambda>i. if i = 0 then [Reg src 1] else []) keep)"
  | "bit_mov_flow (Movzx_r2r_opqb_l dst src) =
     (on_reg dst 0 8 (\<lambda>i. if i = 0 then [Reg src 0] else []) keep)"
  | "bit_mov_flow (Movzx_r2r_opqw dst src) =
     (on_reg dst 0 8 (\<lambda>i. if i < 2 then [Reg src i] else []) keep)"
  | "bit_mov_flow (Movzx_m2r_opwb dst src) =
     (on_reg dst 0 2 (\<lambda>i. if i = 0 then [Mem src] else []) keep)"
  | "bit_mov_flow (Movzx_m2r_oplb dst src) =
     (on_reg dst 0 8 (\<lambda>i. if i = 0 then [Mem src] else []) keep)"
  | "bit_mov_flow (Movzx_m2r_oplw dst src) =
     (on_reg dst 0 8 (\<lambda>i. if i < 2 then [Mem (src + of_nat i)] else []) keep)"
  | "bit_mov_flow (Movzx_m2r_opqb dst src) =
     (on_reg dst 0 8 (\<lambda>i. if i = 0 then [Mem src] else []) keep)"
  | "bit_mov_flow (Movzx_m2r_opqw dst src) =
     (on_reg dst 0 8 (\<lambda>i. if i < 2 then [Mem (src + of_nat i)] else []) keep)"

fun bit_mov_ok ::
  "mov_call \<Rightarrow> bool" where
    "bit_mov_ok Cwde \<longleftrightarrow> True"
  | "bit_mov_ok Cdqe \<longleftrightarrow> True"
  | "bit_mov_ok (Movsx_r2r_opwb_u dst src) \<longleftrightarrow> dst < 17 \<and> src < 17"
  | "bit_mov_ok (Movsx_r2r_opwb_l dst src) \<longleftrightarrow> dst < 17 \<and> src < 17"
  | "bit_mov_ok (Movsx_r2r_oplb_u dst src) \<longleftrightarrow> dst < 17 \<and> src < 17"
  | "bit_mov_ok (Movsx_r2r_oplb_l dst src) \<longleftrightarrow> dst < 17 \<and> src < 17"
  | "bit_mov_ok (Movsx_r2r_oplw dst src) \<longleftrightarrow> dst < 17 \<and> src < 17"
  | "bit_mov_ok (Movsx_r2r_opqb_u dst src) \<longleftrightarrow> dst < 17 \<and> src < 17"
  | "bit_mov_ok (Movsx_r2r_opqb_l dst src) \<longleftrightarrow> dst < 17 \<and> src < 17"
  | "bit_mov_ok (Movsx_r2r_opqw dst src) \<longleftrightarrow> dst < 17 \<and> src < 17"
  | "bit_mov_ok (Movsxd_r2r_opql dst src) \<longleftrightarrow> dst < 17 \<and> src < 17"
  | "bit_mov_ok (Movsx_m2r_opwb dst src) \<longleftrightarrow> dst < 17 \<and> mem_ok src"
  | "bit_mov_ok (Movsx_m2r_oplb dst src) \<longleftrightarrow> dst < 17 \<and> mem_ok src"
  | "bit_mov_ok (Movsx_m2r_oplw dst src) \<longleftrightarrow> dst < 17 \<and> mem_ok src"
  | "bit_mov_ok (Movsx_m2r_opqb dst src) \<longleftrightarrow> dst < 17 \<and> mem_ok src"
  | "bit_mov_ok (Movsx_m2r_opqw dst src) \<longleftrightarrow> dst < 17 \<and> mem_ok src"
  | "bit_mov_ok (Movsxd_m2r_opql dst src) \<longleftrightarrow> dst < 17 \<and> mem_ok src"
  | "bit_mov_ok (Movzx_r2r_opwb_u dst src) \<longleftrightarrow> dst < 17 \<and> src < 17"
  | "bit_mov_ok (Movzx_r2r_opwb_l dst src) \<longleftrightarrow> dst < 17 \<and> src < 17"
  | "bit_mov_ok (Movzx_r2r_oplb_u dst src) \<longleftrightarrow> dst < 17 \<and> src < 17"
  | "bit_mov_ok (Movzx_r2r_oplb_l dst src) \<longleftrightarrow> dst < 17 \<and> src < 17"
  | "bit_mov_ok (Movzx_r2r_oplw dst src) \<longleftrightarrow> dst < 17 \<and> src < 17"
  | "bit_mov_ok (Movzx_r2r_opqb_u dst src) \<longleftrightarrow> dst < 17 \<and> src < 17"
  | "bit_mov_ok (Movzx_r2r_opqb_l dst src) \<longleftrightarrow> dst < 17 \<and> src < 17"
  | "bit_mov_ok (Movzx_r2r_opqw dst src) \<longleftrightarrow> dst < 17 \<and> src < 17"
  | "bit_mov_ok (Movzx_m2r_opwb dst src) \<longleftrightarrow> dst < 17 \<and> mem_ok src"
  | "bit_mov_ok (Movzx_m2r_oplb dst src) \<longleftrightarrow> dst < 17 \<and> mem_ok src"
  | "bit_mov_ok (Movzx_m2r_oplw dst src) \<longleftrightarrow> dst < 17 \<and> mem_ok src"
  | "bit_mov_ok (Movzx_m2r_opqb dst src) \<longleftrightarrow> dst < 17 \<and> mem_ok src"
  | "bit_mov_ok (Movzx_m2r_opqw dst src) \<longleftrightarrow> dst < 17 \<and> mem_ok src"

subsection \<open>Each call performs its flow\<close>

lemma cwde_runs:
  "bit_ready mal tc \<Longrightarrow> bit_mov_ok Cwde \<Longrightarrow>
   bit_runs (bit_mov_flow Cwde) tc (exec_bit_mov mal Cwde tc)"
  by (simp add: bit_ready_def bit_wf_def bit_cwde_def bit_exec Let_def)
    (auto intro!: bit_runs_intros simp: bit_eval dest: bit_low split: if_splits)

lemma cdqe_runs:
  "bit_ready mal tc \<Longrightarrow> bit_mov_ok Cdqe \<Longrightarrow>
   bit_runs (bit_mov_flow Cdqe) tc (exec_bit_mov mal Cdqe tc)"
  by (simp add: bit_ready_def bit_wf_def bit_cdqe_def bit_exec Let_def)
    (auto intro!: bit_runs_intros simp: bit_eval dest: bit_low split: if_splits)

lemma movsx_r2r_opwb_u_runs:
  "bit_ready mal tc \<Longrightarrow> bit_mov_ok (Movsx_r2r_opwb_u dst src) \<Longrightarrow>
   bit_runs (bit_mov_flow (Movsx_r2r_opwb_u dst src)) tc (exec_bit_mov mal (Movsx_r2r_opwb_u dst
     src) tc)"
  by (simp add: bit_ready_def bit_wf_def bit_movsx_r2r_opwb_u_def bit_exec Let_def)
    (auto intro!: bit_runs_intros simp: bit_eval dest: bit_low split: if_splits)

lemma movsx_r2r_opwb_l_runs:
  "bit_ready mal tc \<Longrightarrow> bit_mov_ok (Movsx_r2r_opwb_l dst src) \<Longrightarrow>
   bit_runs (bit_mov_flow (Movsx_r2r_opwb_l dst src)) tc (exec_bit_mov mal (Movsx_r2r_opwb_l dst
     src) tc)"
  by (simp add: bit_ready_def bit_wf_def bit_movsx_r2r_opwb_l_def bit_exec Let_def)
    (auto intro!: bit_runs_intros simp: bit_eval dest: bit_low split: if_splits)

lemma movsx_r2r_oplb_u_runs:
  "bit_ready mal tc \<Longrightarrow> bit_mov_ok (Movsx_r2r_oplb_u dst src) \<Longrightarrow>
   bit_runs (bit_mov_flow (Movsx_r2r_oplb_u dst src)) tc (exec_bit_mov mal (Movsx_r2r_oplb_u dst
     src) tc)"
  by (simp add: bit_ready_def bit_wf_def bit_movsx_r2r_oplb_u_def bit_exec Let_def)
    (auto intro!: bit_runs_intros simp: bit_eval dest: bit_low split: if_splits)

lemma movsx_r2r_oplb_l_runs:
  "bit_ready mal tc \<Longrightarrow> bit_mov_ok (Movsx_r2r_oplb_l dst src) \<Longrightarrow>
   bit_runs (bit_mov_flow (Movsx_r2r_oplb_l dst src)) tc (exec_bit_mov mal (Movsx_r2r_oplb_l dst
     src) tc)"
  by (simp add: bit_ready_def bit_wf_def bit_movsx_r2r_oplb_l_def bit_exec Let_def)
    (auto intro!: bit_runs_intros simp: bit_eval dest: bit_low split: if_splits)

lemma movsx_r2r_oplw_runs:
  "bit_ready mal tc \<Longrightarrow> bit_mov_ok (Movsx_r2r_oplw dst src) \<Longrightarrow>
   bit_runs (bit_mov_flow (Movsx_r2r_oplw dst src)) tc (exec_bit_mov mal (Movsx_r2r_oplw dst src)
     tc)"
  by (simp add: bit_ready_def bit_wf_def bit_movsx_r2r_oplw_def bit_exec Let_def)
    (auto intro!: bit_runs_intros simp: bit_eval dest: bit_low split: if_splits)

lemma movsx_r2r_opqb_u_runs:
  "bit_ready mal tc \<Longrightarrow> bit_mov_ok (Movsx_r2r_opqb_u dst src) \<Longrightarrow>
   bit_runs (bit_mov_flow (Movsx_r2r_opqb_u dst src)) tc (exec_bit_mov mal (Movsx_r2r_opqb_u dst
     src) tc)"
  by (simp add: bit_ready_def bit_wf_def bit_movsx_r2r_opqb_u_def bit_exec Let_def)
    (auto intro!: bit_runs_intros simp: bit_eval dest: bit_low split: if_splits)

lemma movsx_r2r_opqb_l_runs:
  "bit_ready mal tc \<Longrightarrow> bit_mov_ok (Movsx_r2r_opqb_l dst src) \<Longrightarrow>
   bit_runs (bit_mov_flow (Movsx_r2r_opqb_l dst src)) tc (exec_bit_mov mal (Movsx_r2r_opqb_l dst
     src) tc)"
  by (simp add: bit_ready_def bit_wf_def bit_movsx_r2r_opqb_l_def bit_exec Let_def)
    (auto intro!: bit_runs_intros simp: bit_eval dest: bit_low split: if_splits)

lemma movsx_r2r_opqw_runs:
  "bit_ready mal tc \<Longrightarrow> bit_mov_ok (Movsx_r2r_opqw dst src) \<Longrightarrow>
   bit_runs (bit_mov_flow (Movsx_r2r_opqw dst src)) tc (exec_bit_mov mal (Movsx_r2r_opqw dst src)
     tc)"
  by (simp add: bit_ready_def bit_wf_def bit_movsx_r2r_opqw_def bit_exec Let_def)
    (auto intro!: bit_runs_intros simp: bit_eval dest: bit_low split: if_splits)

lemma movsxd_r2r_opql_runs:
  "bit_ready mal tc \<Longrightarrow> bit_mov_ok (Movsxd_r2r_opql dst src) \<Longrightarrow>
   bit_runs (bit_mov_flow (Movsxd_r2r_opql dst src)) tc (exec_bit_mov mal (Movsxd_r2r_opql dst
     src) tc)"
  by (simp add: bit_ready_def bit_wf_def bit_movsxd_r2r_opql_def bit_exec Let_def)
    (auto intro!: bit_runs_intros simp: bit_eval dest: bit_low split: if_splits)

lemma movsx_m2r_opwb_runs:
  "bit_ready mal tc \<Longrightarrow> bit_mov_ok (Movsx_m2r_opwb dst src) \<Longrightarrow>
   bit_runs (bit_mov_flow (Movsx_m2r_opwb dst src)) tc (exec_bit_mov mal (Movsx_m2r_opwb dst src)
     tc)"
  by (simp add: bit_ready_def bit_wf_def bit_movsx_m2r_opwb_def bit_exec Let_def)
    (auto intro!: bit_runs_intros simp: bit_eval dest: bit_low split: if_splits)

lemma movsx_m2r_oplb_runs:
  "bit_ready mal tc \<Longrightarrow> bit_mov_ok (Movsx_m2r_oplb dst src) \<Longrightarrow>
   bit_runs (bit_mov_flow (Movsx_m2r_oplb dst src)) tc (exec_bit_mov mal (Movsx_m2r_oplb dst src)
     tc)"
  by (simp add: bit_ready_def bit_wf_def bit_movsx_m2r_oplb_def bit_exec Let_def)
    (auto intro!: bit_runs_intros simp: bit_eval dest: bit_low split: if_splits)

lemma movsx_m2r_oplw_runs:
  "bit_ready mal tc \<Longrightarrow> bit_mov_ok (Movsx_m2r_oplw dst src) \<Longrightarrow>
   bit_runs (bit_mov_flow (Movsx_m2r_oplw dst src)) tc (exec_bit_mov mal (Movsx_m2r_oplw dst src)
     tc)"
  by (simp add: bit_ready_def bit_wf_def bit_movsx_m2r_oplw_def bit_exec Let_def)
    (auto intro!: bit_runs_intros simp: bit_eval dest: bit_low split: if_splits)

lemma movsx_m2r_opqb_runs:
  "bit_ready mal tc \<Longrightarrow> bit_mov_ok (Movsx_m2r_opqb dst src) \<Longrightarrow>
   bit_runs (bit_mov_flow (Movsx_m2r_opqb dst src)) tc (exec_bit_mov mal (Movsx_m2r_opqb dst src)
     tc)"
  by (simp add: bit_ready_def bit_wf_def bit_movsx_m2r_opqb_def bit_exec Let_def)
    (auto intro!: bit_runs_intros simp: bit_eval dest: bit_low split: if_splits)

lemma movsx_m2r_opqw_runs:
  "bit_ready mal tc \<Longrightarrow> bit_mov_ok (Movsx_m2r_opqw dst src) \<Longrightarrow>
   bit_runs (bit_mov_flow (Movsx_m2r_opqw dst src)) tc (exec_bit_mov mal (Movsx_m2r_opqw dst src)
     tc)"
  by (simp add: bit_ready_def bit_wf_def bit_movsx_m2r_opqw_def bit_exec Let_def)
    (auto intro!: bit_runs_intros simp: bit_eval dest: bit_low split: if_splits)

lemma movsxd_m2r_opql_runs:
  "bit_ready mal tc \<Longrightarrow> bit_mov_ok (Movsxd_m2r_opql dst src) \<Longrightarrow>
   bit_runs (bit_mov_flow (Movsxd_m2r_opql dst src)) tc (exec_bit_mov mal (Movsxd_m2r_opql dst
     src) tc)"
  by (simp add: bit_ready_def bit_wf_def bit_movsxd_m2r_opql_def bit_exec Let_def)
    (auto intro!: bit_runs_intros simp: bit_eval dest: bit_low split: if_splits)

lemma movzx_r2r_opwb_u_runs:
  "bit_ready mal tc \<Longrightarrow> bit_mov_ok (Movzx_r2r_opwb_u dst src) \<Longrightarrow>
   bit_runs (bit_mov_flow (Movzx_r2r_opwb_u dst src)) tc (exec_bit_mov mal (Movzx_r2r_opwb_u dst
     src) tc)"
  by (simp add: bit_ready_def bit_wf_def bit_movzx_r2r_opwb_u_def bit_exec Let_def)
    (auto intro!: bit_runs_intros simp: bit_eval dest: bit_low split: if_splits)

lemma movzx_r2r_opwb_l_runs:
  "bit_ready mal tc \<Longrightarrow> bit_mov_ok (Movzx_r2r_opwb_l dst src) \<Longrightarrow>
   bit_runs (bit_mov_flow (Movzx_r2r_opwb_l dst src)) tc (exec_bit_mov mal (Movzx_r2r_opwb_l dst
     src) tc)"
  by (simp add: bit_ready_def bit_wf_def bit_movzx_r2r_opwb_l_def bit_exec Let_def)
    (auto intro!: bit_runs_intros simp: bit_eval dest: bit_low split: if_splits)

lemma movzx_r2r_oplb_u_runs:
  "bit_ready mal tc \<Longrightarrow> bit_mov_ok (Movzx_r2r_oplb_u dst src) \<Longrightarrow>
   bit_runs (bit_mov_flow (Movzx_r2r_oplb_u dst src)) tc (exec_bit_mov mal (Movzx_r2r_oplb_u dst
     src) tc)"
  by (simp add: bit_ready_def bit_wf_def bit_movzx_r2r_oplb_u_def bit_exec Let_def)
    (auto intro!: bit_runs_intros simp: bit_eval dest: bit_low split: if_splits)

lemma movzx_r2r_oplb_l_runs:
  "bit_ready mal tc \<Longrightarrow> bit_mov_ok (Movzx_r2r_oplb_l dst src) \<Longrightarrow>
   bit_runs (bit_mov_flow (Movzx_r2r_oplb_l dst src)) tc (exec_bit_mov mal (Movzx_r2r_oplb_l dst
     src) tc)"
  by (simp add: bit_ready_def bit_wf_def bit_movzx_r2r_oplb_l_def bit_exec Let_def)
    (auto intro!: bit_runs_intros simp: bit_eval dest: bit_low split: if_splits)

lemma movzx_r2r_oplw_runs:
  "bit_ready mal tc \<Longrightarrow> bit_mov_ok (Movzx_r2r_oplw dst src) \<Longrightarrow>
   bit_runs (bit_mov_flow (Movzx_r2r_oplw dst src)) tc (exec_bit_mov mal (Movzx_r2r_oplw dst src)
     tc)"
  by (simp add: bit_ready_def bit_wf_def bit_movzx_r2r_oplw_def bit_exec Let_def)
    (auto intro!: bit_runs_intros simp: bit_eval dest: bit_low split: if_splits)

lemma movzx_r2r_opqb_u_runs:
  "bit_ready mal tc \<Longrightarrow> bit_mov_ok (Movzx_r2r_opqb_u dst src) \<Longrightarrow>
   bit_runs (bit_mov_flow (Movzx_r2r_opqb_u dst src)) tc (exec_bit_mov mal (Movzx_r2r_opqb_u dst
     src) tc)"
  by (simp add: bit_ready_def bit_wf_def bit_movzx_r2r_opqb_u_def bit_exec Let_def)
    (auto intro!: bit_runs_intros simp: bit_eval dest: bit_low split: if_splits)

lemma movzx_r2r_opqb_l_runs:
  "bit_ready mal tc \<Longrightarrow> bit_mov_ok (Movzx_r2r_opqb_l dst src) \<Longrightarrow>
   bit_runs (bit_mov_flow (Movzx_r2r_opqb_l dst src)) tc (exec_bit_mov mal (Movzx_r2r_opqb_l dst
     src) tc)"
  by (simp add: bit_ready_def bit_wf_def bit_movzx_r2r_opqb_l_def bit_exec Let_def)
    (auto intro!: bit_runs_intros simp: bit_eval dest: bit_low split: if_splits)

lemma movzx_r2r_opqw_runs:
  "bit_ready mal tc \<Longrightarrow> bit_mov_ok (Movzx_r2r_opqw dst src) \<Longrightarrow>
   bit_runs (bit_mov_flow (Movzx_r2r_opqw dst src)) tc (exec_bit_mov mal (Movzx_r2r_opqw dst src)
     tc)"
  by (simp add: bit_ready_def bit_wf_def bit_movzx_r2r_opqw_def bit_exec Let_def)
    (auto intro!: bit_runs_intros simp: bit_eval dest: bit_low split: if_splits)

lemma movzx_m2r_opwb_runs:
  "bit_ready mal tc \<Longrightarrow> bit_mov_ok (Movzx_m2r_opwb dst src) \<Longrightarrow>
   bit_runs (bit_mov_flow (Movzx_m2r_opwb dst src)) tc (exec_bit_mov mal (Movzx_m2r_opwb dst src)
     tc)"
  by (simp add: bit_ready_def bit_wf_def bit_movzx_m2r_opwb_def bit_exec Let_def)
    (auto intro!: bit_runs_intros simp: bit_eval dest: bit_low split: if_splits)

lemma movzx_m2r_oplb_runs:
  "bit_ready mal tc \<Longrightarrow> bit_mov_ok (Movzx_m2r_oplb dst src) \<Longrightarrow>
   bit_runs (bit_mov_flow (Movzx_m2r_oplb dst src)) tc (exec_bit_mov mal (Movzx_m2r_oplb dst src)
     tc)"
  by (simp add: bit_ready_def bit_wf_def bit_movzx_m2r_oplb_def bit_exec Let_def)
    (auto intro!: bit_runs_intros simp: bit_eval dest: bit_low split: if_splits)

lemma movzx_m2r_oplw_runs:
  "bit_ready mal tc \<Longrightarrow> bit_mov_ok (Movzx_m2r_oplw dst src) \<Longrightarrow>
   bit_runs (bit_mov_flow (Movzx_m2r_oplw dst src)) tc (exec_bit_mov mal (Movzx_m2r_oplw dst src)
     tc)"
  by (simp add: bit_ready_def bit_wf_def bit_movzx_m2r_oplw_def bit_exec Let_def)
    (auto intro!: bit_runs_intros simp: bit_eval dest: bit_low split: if_splits)

lemma movzx_m2r_opqb_runs:
  "bit_ready mal tc \<Longrightarrow> bit_mov_ok (Movzx_m2r_opqb dst src) \<Longrightarrow>
   bit_runs (bit_mov_flow (Movzx_m2r_opqb dst src)) tc (exec_bit_mov mal (Movzx_m2r_opqb dst src)
     tc)"
  by (simp add: bit_ready_def bit_wf_def bit_movzx_m2r_opqb_def bit_exec Let_def)
    (auto intro!: bit_runs_intros simp: bit_eval dest: bit_low split: if_splits)

lemma movzx_m2r_opqw_runs:
  "bit_ready mal tc \<Longrightarrow> bit_mov_ok (Movzx_m2r_opqw dst src) \<Longrightarrow>
   bit_runs (bit_mov_flow (Movzx_m2r_opqw dst src)) tc (exec_bit_mov mal (Movzx_m2r_opqw dst src)
     tc)"
  by (simp add: bit_ready_def bit_wf_def bit_movzx_m2r_opqw_def bit_exec Let_def)
    (auto intro!: bit_runs_intros simp: bit_eval dest: bit_low split: if_splits)

lemmas bit_mov_runs =
  cwde_runs cdqe_runs movsx_r2r_opwb_u_runs
  movsx_r2r_opwb_l_runs movsx_r2r_oplb_u_runs movsx_r2r_oplb_l_runs
  movsx_r2r_oplw_runs movsx_r2r_opqb_u_runs movsx_r2r_opqb_l_runs
  movsx_r2r_opqw_runs movsxd_r2r_opql_runs movsx_m2r_opwb_runs
  movsx_m2r_oplb_runs movsx_m2r_oplw_runs movsx_m2r_opqb_runs
  movsx_m2r_opqw_runs movsxd_m2r_opql_runs movzx_r2r_opwb_u_runs
  movzx_r2r_opwb_l_runs movzx_r2r_oplb_u_runs movzx_r2r_oplb_l_runs
  movzx_r2r_oplw_runs movzx_r2r_opqb_u_runs movzx_r2r_opqb_l_runs
  movzx_r2r_opqw_runs movzx_m2r_opwb_runs movzx_m2r_oplb_runs
  movzx_m2r_oplw_runs movzx_m2r_opqb_runs movzx_m2r_opqw_runs

lemma exec_bit_mov_runs:
  "bit_ready mal tc \<Longrightarrow> bit_mov_ok c \<Longrightarrow> bit_runs (bit_mov_flow c) tc
    (exec_bit_mov mal c tc)"
  by (cases c) (simp_all only: bit_mov_runs bit_mov_ok.simps)

end
