(* ===== verification/BitXchg.thy ===== *)
theory BitXchg
  imports BitState CoreXchg
begin

text \<open>
  Exchange and exchange-and-add in the build without \<^verbatim>\<open>USE_CUSTOM_TAG\<close>:
    the other branches of the routines of
  theory \<^verbatim>\<open>CoreXchg\<close>, and their data flows. The two halves of a
    compare-and-exchange are executed one after the other, as
  the instrumentation attaches them.
\<close>

declare push_bit_Suc [simp del] drop_bit_Suc [simp del] of_nat_diff [simp del]

subsection \<open>Routines\<close>

definition bit_cmpxchg_r2r_opq_fast ::
  "bit_state \<Rightarrow> 64 word \<Rightarrow> nat \<Rightarrow> 64 word \<Rightarrow> (bool
    \<times> bit_state) option" where
  "bit_cmpxchg_r2r_opq_fast tc dst_val src src_val =
     do {
       g_7 \<leftarrow> GPR tc 7;
       tc \<leftarrow> set_GPR tc GPR_SCRATCH g_7;
       g_src \<leftarrow> GPR tc src;
       tc \<leftarrow> set_GPR tc 7 g_src;
       Some (dst_val = src_val, tc)
     }"

definition bit_cmpxchg_r2r_opq_slow ::
  "bit_state \<Rightarrow> nat \<Rightarrow> nat \<Rightarrow> bit_state option" where
  "bit_cmpxchg_r2r_opq_slow tc dst src =
     do {
       g_scratch \<leftarrow> GPR tc GPR_SCRATCH;
       tc \<leftarrow> set_GPR tc 7 g_scratch;
       g_src \<leftarrow> GPR tc src;
       set_GPR tc dst g_src
     }"

definition bit_cmpxchg_r2r_opl_fast ::
  "bit_state \<Rightarrow> 64 word \<Rightarrow> nat \<Rightarrow> 64 word \<Rightarrow> (bool
    \<times> bit_state) option" where
  "bit_cmpxchg_r2r_opl_fast tc dst_val src src_val =
     do {
       g_7 \<leftarrow> GPR tc 7;
       tc \<leftarrow> set_GPR tc GPR_SCRATCH g_7;
       g_src \<leftarrow> GPR tc src;
       tc \<leftarrow> set_GPR tc 7 (g_src AND VCPU_MASK32);
       Some (dst_val = src_val, tc)
     }"

definition bit_cmpxchg_r2r_opl_slow ::
  "bit_state \<Rightarrow> nat \<Rightarrow> nat \<Rightarrow> bit_state option" where
  "bit_cmpxchg_r2r_opl_slow tc dst src =
     do {
       g_scratch \<leftarrow> GPR tc GPR_SCRATCH;
       tc \<leftarrow> set_GPR tc 7 g_scratch;
       g_src \<leftarrow> GPR tc src;
       set_GPR tc dst (g_src AND VCPU_MASK32)
     }"

definition bit_cmpxchg_r2r_opw_fast ::
  "bit_state \<Rightarrow> 64 word \<Rightarrow> nat \<Rightarrow> 64 word \<Rightarrow> (bool
    \<times> bit_state) option" where
  "bit_cmpxchg_r2r_opw_fast tc dst_val src src_val =
     do {
       g_7 \<leftarrow> GPR tc 7;
       tc \<leftarrow> set_GPR tc GPR_SCRATCH g_7;
       g_7 \<leftarrow> GPR tc 7;
       g_src \<leftarrow> GPR tc src;
       tc \<leftarrow> set_GPR tc 7 ((g_7 AND (NOT VCPU_MASK16)) OR (g_src AND VCPU_MASK16));
       Some (dst_val = src_val, tc)
     }"

definition bit_cmpxchg_r2r_opw_slow ::
  "bit_state \<Rightarrow> nat \<Rightarrow> nat \<Rightarrow> bit_state option" where
  "bit_cmpxchg_r2r_opw_slow tc dst src =
     do {
       g_scratch \<leftarrow> GPR tc GPR_SCRATCH;
       tc \<leftarrow> set_GPR tc 7 g_scratch;
       g_dst \<leftarrow> GPR tc dst;
       g_src \<leftarrow> GPR tc src;
       set_GPR tc dst ((g_dst AND (NOT VCPU_MASK16)) OR (g_src AND VCPU_MASK16))
     }"

definition bit_cmpxchg_m2r_opq_fast ::
  "malloc_outcome \<Rightarrow> bit_state \<Rightarrow> 64 word \<Rightarrow> addr \<Rightarrow>
    64 word \<Rightarrow> (bool \<times> bit_state) option" where
  "bit_cmpxchg_m2r_opq_fast mal tc dst_val src mem_val =
     do {
       g_7 \<leftarrow> GPR tc 7;
       tc \<leftarrow> set_GPR tc GPR_SCRATCH g_7;
       (entry, tc) \<leftarrow> ENTRY mal tc src;
       entry_v \<leftarrow> LOAD tc entry;
       tc \<leftarrow> set_GPR tc 7 ((drop_bit (VIRT2BIT src) entry_v) AND VCPU_MASK64);
       Some (dst_val = mem_val, tc)
     }"

definition bit_cmpxchg_r2m_opq_slow ::
  "malloc_outcome \<Rightarrow> bit_state \<Rightarrow> addr \<Rightarrow> nat \<Rightarrow>
    bit_state option" where
  "bit_cmpxchg_r2m_opq_slow mal tc dst src =
     do {
       g_scratch \<leftarrow> GPR tc GPR_SCRATCH;
       tc \<leftarrow> set_GPR tc 7 g_scratch;
       (entry, tc) \<leftarrow> ENTRY mal tc dst;
       entry_v \<leftarrow> LOAD tc entry;
       g_src \<leftarrow> GPR tc src;
       STORE tc entry ((entry_v AND (NOT (push_bit (VIRT2BIT dst) QUAD_MASK))) OR (push_bit
         (VIRT2BIT dst) (ucast (ucast (g_src AND VCPU_MASK64) :: 16 word) :: 32 word)))
     }"

definition bit_cmpxchg_m2r_opl_fast ::
  "malloc_outcome \<Rightarrow> bit_state \<Rightarrow> 64 word \<Rightarrow> addr \<Rightarrow>
    64 word \<Rightarrow> (bool \<times> bit_state) option" where
  "bit_cmpxchg_m2r_opl_fast mal tc dst_val src mem_val =
     do {
       g_7 \<leftarrow> GPR tc 7;
       tc \<leftarrow> set_GPR tc GPR_SCRATCH g_7;
       (entry, tc) \<leftarrow> ENTRY mal tc src;
       entry_v \<leftarrow> LOAD tc entry;
       tc \<leftarrow> set_GPR tc 7 ((drop_bit (VIRT2BIT src) entry_v) AND VCPU_MASK32);
       Some ((ucast dst_val :: 32 word) = ucast mem_val, tc)
     }"

definition bit_cmpxchg_r2m_opl_slow ::
  "malloc_outcome \<Rightarrow> bit_state \<Rightarrow> addr \<Rightarrow> nat \<Rightarrow>
    bit_state option" where
  "bit_cmpxchg_r2m_opl_slow mal tc dst src =
     do {
       g_scratch \<leftarrow> GPR tc GPR_SCRATCH;
       tc \<leftarrow> set_GPR tc 7 g_scratch;
       (entry, tc) \<leftarrow> ENTRY mal tc dst;
       entry_v \<leftarrow> LOAD tc entry;
       g_src \<leftarrow> GPR tc src;
       STORE tc entry ((entry_v AND (NOT (push_bit (VIRT2BIT dst) LONG_MASK))) OR (push_bit
         (VIRT2BIT dst) (ucast (ucast (g_src AND VCPU_MASK32) :: 16 word) :: 32 word)))
     }"

definition bit_cmpxchg_m2r_opw_fast ::
  "malloc_outcome \<Rightarrow> bit_state \<Rightarrow> 64 word \<Rightarrow> addr \<Rightarrow>
    64 word \<Rightarrow> (bool \<times> bit_state) option" where
  "bit_cmpxchg_m2r_opw_fast mal tc dst_val src mem_val =
     do {
       g_7 \<leftarrow> GPR tc 7;
       tc \<leftarrow> set_GPR tc GPR_SCRATCH g_7;
       (entry, tc) \<leftarrow> ENTRY mal tc src;
       g_7 \<leftarrow> GPR tc 7;
       entry_v \<leftarrow> LOAD tc entry;
       tc \<leftarrow> set_GPR tc 7 ((g_7 AND (NOT VCPU_MASK16)) OR ((drop_bit (VIRT2BIT src)
         entry_v) AND VCPU_MASK16));
       Some ((ucast dst_val :: 16 word) = ucast mem_val, tc)
     }"

definition bit_cmpxchg_r2m_opw_slow ::
  "malloc_outcome \<Rightarrow> bit_state \<Rightarrow> addr \<Rightarrow> nat \<Rightarrow>
    bit_state option" where
  "bit_cmpxchg_r2m_opw_slow mal tc dst src =
     do {
       g_scratch \<leftarrow> GPR tc GPR_SCRATCH;
       tc \<leftarrow> set_GPR tc 7 g_scratch;
       (entry, tc) \<leftarrow> ENTRY mal tc dst;
       entry_v \<leftarrow> LOAD tc entry;
       g_src \<leftarrow> GPR tc src;
       STORE tc entry ((entry_v AND (NOT (push_bit (VIRT2BIT dst) WORD_MASK))) OR (push_bit
         (VIRT2BIT dst) (ucast (ucast (g_src AND VCPU_MASK16) :: 16 word) :: 32 word)))
     }"

definition bit_xchg_r2r_opb_ul ::
  "bit_state \<Rightarrow> nat \<Rightarrow> nat \<Rightarrow> bit_state option" where
  "bit_xchg_r2r_opb_ul tc dst src =
     do {
       g_dst \<leftarrow> GPR tc dst;
       let tmp_tag = (ucast (g_dst AND (push_bit 1 VCPU_MASK8)) :: 64 word);
       g_dst \<leftarrow> GPR tc dst;
       g_src \<leftarrow> GPR tc src;
       tc \<leftarrow> set_GPR tc dst ((g_dst AND (NOT (push_bit 1 VCPU_MASK8))) OR (push_bit 1
         (g_src AND VCPU_MASK8)));
       g_src \<leftarrow> GPR tc src;
       set_GPR tc src (ucast ((ucast (g_src AND (NOT VCPU_MASK8)) :: 64 word) OR (drop_bit 1
         tmp_tag)))
     }"

definition bit_xchg_r2r_opb_lu ::
  "bit_state \<Rightarrow> nat \<Rightarrow> nat \<Rightarrow> bit_state option" where
  "bit_xchg_r2r_opb_lu tc dst src =
     do {
       g_dst \<leftarrow> GPR tc dst;
       let tmp_tag = (ucast (g_dst AND VCPU_MASK8) :: 64 word);
       g_dst \<leftarrow> GPR tc dst;
       g_src \<leftarrow> GPR tc src;
       tc \<leftarrow> set_GPR tc dst ((g_dst AND (NOT VCPU_MASK8)) OR (drop_bit 1 (g_src AND
         (push_bit 1 VCPU_MASK8))));
       g_src \<leftarrow> GPR tc src;
       set_GPR tc src (ucast ((ucast (g_src AND (NOT (push_bit 1 VCPU_MASK8))) :: 64 word) OR
         (push_bit 1 tmp_tag)))
     }"

definition bit_xchg_r2r_opb_u ::
  "bit_state \<Rightarrow> nat \<Rightarrow> nat \<Rightarrow> bit_state option" where
  "bit_xchg_r2r_opb_u tc dst src =
     do {
       g_dst \<leftarrow> GPR tc dst;
       let tmp_tag = (ucast (g_dst AND (push_bit 1 VCPU_MASK8)) :: 64 word);
       g_dst \<leftarrow> GPR tc dst;
       g_src \<leftarrow> GPR tc src;
       tc \<leftarrow> set_GPR tc dst ((g_dst AND (NOT (push_bit 1 VCPU_MASK8))) OR (g_src AND
         (push_bit 1 VCPU_MASK8)));
       g_src \<leftarrow> GPR tc src;
       set_GPR tc src (ucast ((ucast (g_src AND (NOT (push_bit 1 VCPU_MASK8))) :: 64 word) OR
         tmp_tag))
     }"

definition bit_xchg_r2r_opb_l ::
  "bit_state \<Rightarrow> nat \<Rightarrow> nat \<Rightarrow> bit_state option" where
  "bit_xchg_r2r_opb_l tc dst src =
     do {
       g_dst \<leftarrow> GPR tc dst;
       let tmp_tag = (ucast (g_dst AND VCPU_MASK8) :: 64 word);
       g_dst \<leftarrow> GPR tc dst;
       g_src \<leftarrow> GPR tc src;
       tc \<leftarrow> set_GPR tc dst ((g_dst AND (NOT VCPU_MASK8)) OR (g_src AND VCPU_MASK8));
       g_src \<leftarrow> GPR tc src;
       set_GPR tc src (ucast ((ucast (g_src AND (NOT VCPU_MASK8)) :: 64 word) OR tmp_tag))
     }"

definition bit_xchg_r2r_opw ::
  "bit_state \<Rightarrow> nat \<Rightarrow> nat \<Rightarrow> bit_state option" where
  "bit_xchg_r2r_opw tc dst src =
     do {
       g_dst \<leftarrow> GPR tc dst;
       let tmp_tag = (ucast (g_dst AND VCPU_MASK16) :: 64 word);
       g_dst \<leftarrow> GPR tc dst;
       g_src \<leftarrow> GPR tc src;
       tc \<leftarrow> set_GPR tc dst ((g_dst AND (NOT VCPU_MASK16)) OR (g_src AND VCPU_MASK16));
       g_src \<leftarrow> GPR tc src;
       set_GPR tc src (ucast ((ucast (g_src AND (NOT VCPU_MASK16)) :: 64 word) OR tmp_tag))
     }"

definition bit_xchg_r2r_opl ::
  "bit_state \<Rightarrow> nat \<Rightarrow> nat \<Rightarrow> bit_state option" where
  "bit_xchg_r2r_opl tc dst src =
     do {
       g_dst \<leftarrow> GPR tc dst;
       let tmp_tag = (ucast (g_dst AND VCPU_MASK32) :: 64 word);
       g_src \<leftarrow> GPR tc src;
       tc \<leftarrow> set_GPR tc dst (g_src AND VCPU_MASK32);
       set_GPR tc src (ucast tmp_tag)
     }"

definition bit_xchg_r2r_opq ::
  "bit_state \<Rightarrow> nat \<Rightarrow> nat \<Rightarrow> bit_state option" where
  "bit_xchg_r2r_opq tc dst src =
     do {
       g_dst \<leftarrow> GPR tc dst;
       let tmp_tag = (ucast g_dst :: 64 word);
       g_src \<leftarrow> GPR tc src;
       tc \<leftarrow> set_GPR tc dst g_src;
       set_GPR tc src (ucast tmp_tag)
     }"

definition bit_xchg_m2r_opb_u ::
  "malloc_outcome \<Rightarrow> bit_state \<Rightarrow> nat \<Rightarrow> addr \<Rightarrow>
    bit_state option" where
  "bit_xchg_m2r_opb_u mal tc dst src =
     do {
       g_dst \<leftarrow> GPR tc dst;
       let tmp_tag = (ucast (g_dst AND (push_bit 1 VCPU_MASK8)) :: 64 word);
       (entry, tc) \<leftarrow> ENTRY mal tc src;
       g_dst \<leftarrow> GPR tc dst;
       entry_v \<leftarrow> LOAD tc entry;
       tc \<leftarrow> set_GPR tc dst ((g_dst AND (NOT (push_bit 1 VCPU_MASK8))) OR ((push_bit 1
         (drop_bit (VIRT2BIT src) entry_v)) AND (push_bit 1 VCPU_MASK8)));
       entry_v \<leftarrow> LOAD tc entry;
       STORE tc entry (ucast ((ucast (entry_v AND (NOT (push_bit (VIRT2BIT src) BYTE_MASK))) ::
         64 word) OR (push_bit (VIRT2BIT src) (drop_bit 1 tmp_tag))))
     }"

definition bit_xchg_m2r_opb_l ::
  "malloc_outcome \<Rightarrow> bit_state \<Rightarrow> nat \<Rightarrow> addr \<Rightarrow>
    bit_state option" where
  "bit_xchg_m2r_opb_l mal tc dst src =
     do {
       g_dst \<leftarrow> GPR tc dst;
       let tmp_tag = (ucast (g_dst AND VCPU_MASK8) :: 64 word);
       (entry, tc) \<leftarrow> ENTRY mal tc src;
       g_dst \<leftarrow> GPR tc dst;
       entry_v \<leftarrow> LOAD tc entry;
       tc \<leftarrow> set_GPR tc dst ((g_dst AND (NOT VCPU_MASK8)) OR ((drop_bit (VIRT2BIT src)
         entry_v) AND VCPU_MASK8));
       entry_v \<leftarrow> LOAD tc entry;
       STORE tc entry (ucast ((ucast (entry_v AND (NOT (push_bit (VIRT2BIT src) BYTE_MASK))) ::
         64 word) OR (push_bit (VIRT2BIT src) tmp_tag)))
     }"

definition bit_xchg_m2r_opw ::
  "malloc_outcome \<Rightarrow> bit_state \<Rightarrow> nat \<Rightarrow> addr \<Rightarrow>
    bit_state option" where
  "bit_xchg_m2r_opw mal tc dst src =
     do {
       g_dst \<leftarrow> GPR tc dst;
       let tmp_tag = (ucast (g_dst AND VCPU_MASK16) :: 64 word);
       (entry, tc) \<leftarrow> ENTRY mal tc src;
       g_dst \<leftarrow> GPR tc dst;
       entry_v \<leftarrow> LOAD tc entry;
       tc \<leftarrow> set_GPR tc dst ((g_dst AND (NOT VCPU_MASK16)) OR ((drop_bit (VIRT2BIT src)
         entry_v) AND VCPU_MASK16));
       entry_v \<leftarrow> LOAD tc entry;
       STORE tc entry ((entry_v AND (NOT (push_bit (VIRT2BIT src) WORD_MASK))) OR (push_bit
         (VIRT2BIT src) (ucast (ucast tmp_tag :: 16 word) :: 32 word)))
     }"

definition bit_xchg_m2r_opl ::
  "malloc_outcome \<Rightarrow> bit_state \<Rightarrow> nat \<Rightarrow> addr \<Rightarrow>
    bit_state option" where
  "bit_xchg_m2r_opl mal tc dst src =
     do {
       g_dst \<leftarrow> GPR tc dst;
       let tmp_tag = (ucast (g_dst AND VCPU_MASK32) :: 64 word);
       (entry, tc) \<leftarrow> ENTRY mal tc src;
       entry_v \<leftarrow> LOAD tc entry;
       tc \<leftarrow> set_GPR tc dst ((drop_bit (VIRT2BIT src) entry_v) AND VCPU_MASK32);
       entry_v \<leftarrow> LOAD tc entry;
       STORE tc entry ((entry_v AND (NOT (push_bit (VIRT2BIT src) LONG_MASK))) OR (push_bit
         (VIRT2BIT src) (ucast (ucast tmp_tag :: 16 word) :: 32 word)))
     }"

definition bit_xchg_m2r_opq ::
  "malloc_outcome \<Rightarrow> bit_state \<Rightarrow> nat \<Rightarrow> addr \<Rightarrow>
    bit_state option" where
  "bit_xchg_m2r_opq mal tc dst src =
     do {
       g_dst \<leftarrow> GPR tc dst;
       let tmp_tag = (ucast g_dst :: 64 word);
       (entry, tc) \<leftarrow> ENTRY mal tc src;
       entry_v \<leftarrow> LOAD tc entry;
       tc \<leftarrow> set_GPR tc dst ((drop_bit (VIRT2BIT src) entry_v) AND VCPU_MASK64);
       entry_v \<leftarrow> LOAD tc entry;
       STORE tc entry ((entry_v AND (NOT (push_bit (VIRT2BIT src) QUAD_MASK))) OR (push_bit
         (VIRT2BIT src) (ucast (ucast tmp_tag :: 16 word) :: 32 word)))
     }"

definition bit_xadd_r2r_opb_ul ::
  "bit_state \<Rightarrow> nat \<Rightarrow> nat \<Rightarrow> bit_state option" where
  "bit_xadd_r2r_opb_ul tc dst src =
     do {
       g_dst \<leftarrow> GPR tc dst;
       let tmp_tag = (ucast (g_dst AND (push_bit 1 VCPU_MASK8)) :: 64 word);
       g_dst \<leftarrow> GPR tc dst;
       g_src \<leftarrow> GPR tc src;
       tc \<leftarrow> set_GPR tc dst (g_dst OR (push_bit 1 (g_src AND VCPU_MASK8)));
       g_src \<leftarrow> GPR tc src;
       set_GPR tc src (ucast ((ucast (g_src AND (NOT VCPU_MASK8)) :: 64 word) OR (drop_bit 1
         tmp_tag)))
     }"

definition bit_xadd_r2r_opb_lu ::
  "bit_state \<Rightarrow> nat \<Rightarrow> nat \<Rightarrow> bit_state option" where
  "bit_xadd_r2r_opb_lu tc dst src =
     do {
       g_dst \<leftarrow> GPR tc dst;
       let tmp_tag = (ucast (g_dst AND VCPU_MASK8) :: 64 word);
       g_dst \<leftarrow> GPR tc dst;
       g_src \<leftarrow> GPR tc src;
       tc \<leftarrow> set_GPR tc dst (g_dst OR (drop_bit 1 (g_src AND (push_bit 1 VCPU_MASK8))));
       g_src \<leftarrow> GPR tc src;
       set_GPR tc src (ucast ((ucast (g_src AND (NOT (push_bit 1 VCPU_MASK8))) :: 64 word) OR
         (push_bit 1 tmp_tag)))
     }"

definition bit_xadd_r2r_opb_u ::
  "bit_state \<Rightarrow> nat \<Rightarrow> nat \<Rightarrow> bit_state option" where
  "bit_xadd_r2r_opb_u tc dst src =
     do {
       g_dst \<leftarrow> GPR tc dst;
       let tmp_tag = (ucast (g_dst AND (push_bit 1 VCPU_MASK8)) :: 64 word);
       g_dst \<leftarrow> GPR tc dst;
       g_src \<leftarrow> GPR tc src;
       tc \<leftarrow> set_GPR tc dst (g_dst OR (g_src AND (push_bit 1 VCPU_MASK8)));
       g_src \<leftarrow> GPR tc src;
       set_GPR tc src (ucast ((ucast (g_src AND (NOT (push_bit 1 VCPU_MASK8))) :: 64 word) OR
         tmp_tag))
     }"

definition bit_xadd_r2r_opb_l ::
  "bit_state \<Rightarrow> nat \<Rightarrow> nat \<Rightarrow> bit_state option" where
  "bit_xadd_r2r_opb_l tc dst src =
     do {
       g_dst \<leftarrow> GPR tc dst;
       let tmp_tag = (ucast (g_dst AND VCPU_MASK8) :: 64 word);
       g_dst \<leftarrow> GPR tc dst;
       g_src \<leftarrow> GPR tc src;
       tc \<leftarrow> set_GPR tc dst (g_dst OR (g_src AND VCPU_MASK8));
       g_src \<leftarrow> GPR tc src;
       set_GPR tc src (ucast ((ucast (g_src AND (NOT VCPU_MASK8)) :: 64 word) OR tmp_tag))
     }"

definition bit_xadd_r2r_opw ::
  "bit_state \<Rightarrow> nat \<Rightarrow> nat \<Rightarrow> bit_state option" where
  "bit_xadd_r2r_opw tc dst src =
     do {
       g_dst \<leftarrow> GPR tc dst;
       let tmp_tag = (ucast (g_dst AND VCPU_MASK16) :: 64 word);
       g_dst \<leftarrow> GPR tc dst;
       g_src \<leftarrow> GPR tc src;
       tc \<leftarrow> set_GPR tc dst (g_dst OR (g_src AND VCPU_MASK16));
       g_src \<leftarrow> GPR tc src;
       set_GPR tc src (ucast ((ucast (g_src AND (NOT VCPU_MASK16)) :: 64 word) OR tmp_tag))
     }"

definition bit_xadd_r2r_opl ::
  "bit_state \<Rightarrow> nat \<Rightarrow> nat \<Rightarrow> bit_state option" where
  "bit_xadd_r2r_opl tc dst src =
     do {
       g_dst \<leftarrow> GPR tc dst;
       let tmp_tag = (ucast (g_dst AND VCPU_MASK32) :: 64 word);
       g_dst \<leftarrow> GPR tc dst;
       g_src \<leftarrow> GPR tc src;
       tc \<leftarrow> set_GPR tc dst ((g_dst OR g_src) AND VCPU_MASK32);
       set_GPR tc src (ucast tmp_tag)
     }"

definition bit_xadd_r2r_opq ::
  "bit_state \<Rightarrow> nat \<Rightarrow> nat \<Rightarrow> bit_state option" where
  "bit_xadd_r2r_opq tc dst src =
     do {
       g_dst \<leftarrow> GPR tc dst;
       let tmp_tag = (ucast g_dst :: 64 word);
       g_dst \<leftarrow> GPR tc dst;
       g_src \<leftarrow> GPR tc src;
       tc \<leftarrow> set_GPR tc dst (g_dst OR g_src);
       set_GPR tc src (ucast tmp_tag)
     }"

definition bit_xadd_r2m_opb_u ::
  "malloc_outcome \<Rightarrow> bit_state \<Rightarrow> nat \<Rightarrow> addr \<Rightarrow>
    bit_state option" where
  "bit_xadd_r2m_opb_u mal tc src dst =
     do {
       (entry, tc) \<leftarrow> ENTRY mal tc dst;
       entry_v \<leftarrow> LOAD tc entry;
       let tmp_tag = (ucast ((drop_bit (VIRT2BIT dst) entry_v) AND BYTE_MASK) :: 64 word);
       g_src \<leftarrow> GPR tc src;
       entry_v \<leftarrow> LOAD tc entry;
       tc \<leftarrow> STORE tc entry (entry_v OR (push_bit (VIRT2BIT dst) (drop_bit 1 (g_src AND
         (push_bit 1 VCPU_MASK8)))));
       g_src \<leftarrow> GPR tc src;
       set_GPR tc src (ucast ((ucast (g_src AND (NOT (push_bit 1 VCPU_MASK8))) :: 64 word) OR
         (push_bit 1 tmp_tag)))
     }"

definition bit_xadd_r2m_opb_l ::
  "malloc_outcome \<Rightarrow> bit_state \<Rightarrow> nat \<Rightarrow> addr \<Rightarrow>
    bit_state option" where
  "bit_xadd_r2m_opb_l mal tc src dst =
     do {
       (entry, tc) \<leftarrow> ENTRY mal tc dst;
       entry_v \<leftarrow> LOAD tc entry;
       let tmp_tag = (ucast ((drop_bit (VIRT2BIT dst) entry_v) AND BYTE_MASK) :: 64 word);
       g_src \<leftarrow> GPR tc src;
       entry_v \<leftarrow> LOAD tc entry;
       tc \<leftarrow> STORE tc entry (entry_v OR (push_bit (VIRT2BIT dst) (g_src AND VCPU_MASK8)));
       g_src \<leftarrow> GPR tc src;
       set_GPR tc src (ucast ((ucast (g_src AND (NOT VCPU_MASK8)) :: 64 word) OR tmp_tag))
     }"

definition bit_xadd_r2m_opw ::
  "malloc_outcome \<Rightarrow> bit_state \<Rightarrow> nat \<Rightarrow> addr \<Rightarrow>
    bit_state option" where
  "bit_xadd_r2m_opw mal tc src dst =
     do {
       (entry, tc) \<leftarrow> ENTRY mal tc dst;
       entry_v \<leftarrow> LOAD tc entry;
       let tmp_tag = (ucast ((drop_bit (VIRT2BIT dst) entry_v) AND WORD_MASK) :: 64 word);
       g_src \<leftarrow> GPR tc src;
       entry_v \<leftarrow> LOAD tc entry;
       tc \<leftarrow> STORE tc entry (entry_v OR (push_bit (VIRT2BIT dst) (g_src AND
         VCPU_MASK16)));
       g_src \<leftarrow> GPR tc src;
       set_GPR tc src (ucast ((ucast (g_src AND (NOT VCPU_MASK16)) :: 64 word) OR tmp_tag))
     }"

definition bit_xadd_r2m_opl ::
  "malloc_outcome \<Rightarrow> bit_state \<Rightarrow> nat \<Rightarrow> addr \<Rightarrow>
    bit_state option" where
  "bit_xadd_r2m_opl mal tc src dst =
     do {
       (entry, tc) \<leftarrow> ENTRY mal tc dst;
       entry_v \<leftarrow> LOAD tc entry;
       let tmp_tag = (ucast ((drop_bit (VIRT2BIT dst) entry_v) AND LONG_MASK) :: 64 word);
       g_src \<leftarrow> GPR tc src;
       entry_v \<leftarrow> LOAD tc entry;
       tc \<leftarrow> STORE tc entry (entry_v OR (push_bit (VIRT2BIT dst) (g_src AND
         VCPU_MASK32)));
       set_GPR tc src (ucast tmp_tag)
     }"

definition bit_xadd_r2m_opq ::
  "malloc_outcome \<Rightarrow> bit_state \<Rightarrow> nat \<Rightarrow> addr \<Rightarrow>
    bit_state option" where
  "bit_xadd_r2m_opq mal tc src dst =
     do {
       (entry, tc) \<leftarrow> ENTRY mal tc dst;
       entry_v \<leftarrow> LOAD tc entry;
       let tmp_tag = (ucast ((drop_bit (VIRT2BIT dst) entry_v) AND QUAD_MASK) :: 64 word);
       g_src \<leftarrow> GPR tc src;
       entry_v \<leftarrow> LOAD tc entry;
       tc \<leftarrow> STORE tc entry (entry_v OR (push_bit (VIRT2BIT dst) (g_src AND
         VCPU_MASK64)));
       set_GPR tc src (ucast tmp_tag)
     }"

subsection \<open>Calls and their flows\<close>

fun exec_bit_xchg ::
  "malloc_outcome \<Rightarrow> xchg_call \<Rightarrow> bit_state \<Rightarrow> bit_state option"
    where
    "exec_bit_xchg mal (Cmpxchg_r2r_opq dst_val dst src src_val) tc = do {
       (eq, tc) \<leftarrow> bit_cmpxchg_r2r_opq_fast tc dst_val dst src_val;
       if eq then bit_cmpxchg_r2r_opq_slow tc dst src else Some tc }"
  | "exec_bit_xchg mal (Cmpxchg_m2r_opq eax_val raddr mem_val waddr src) tc = do {
       (eq, tc) \<leftarrow> bit_cmpxchg_m2r_opq_fast mal tc eax_val raddr mem_val;
       if eq then bit_cmpxchg_r2m_opq_slow mal tc waddr src else Some tc }"
  | "exec_bit_xchg mal (Cmpxchg_r2r_opl dst_val dst src src_val) tc = do {
       (eq, tc) \<leftarrow> bit_cmpxchg_r2r_opl_fast tc dst_val dst src_val;
       if eq then bit_cmpxchg_r2r_opl_slow tc dst src else Some tc }"
  | "exec_bit_xchg mal (Cmpxchg_m2r_opl eax_val raddr mem_val waddr src) tc = do {
       (eq, tc) \<leftarrow> bit_cmpxchg_m2r_opl_fast mal tc eax_val raddr mem_val;
       if eq then bit_cmpxchg_r2m_opl_slow mal tc waddr src else Some tc }"
  | "exec_bit_xchg mal (Cmpxchg_r2r_opw dst_val dst src src_val) tc = do {
       (eq, tc) \<leftarrow> bit_cmpxchg_r2r_opw_fast tc dst_val dst src_val;
       if eq then bit_cmpxchg_r2r_opw_slow tc dst src else Some tc }"
  | "exec_bit_xchg mal (Cmpxchg_m2r_opw eax_val raddr mem_val waddr src) tc = do {
       (eq, tc) \<leftarrow> bit_cmpxchg_m2r_opw_fast mal tc eax_val raddr mem_val;
       if eq then bit_cmpxchg_r2m_opw_slow mal tc waddr src else Some tc }"
  | "exec_bit_xchg mal (Xchg_r2r_opb_ul dst src) tc = bit_xchg_r2r_opb_ul tc dst src"
  | "exec_bit_xchg mal (Xchg_r2r_opb_lu dst src) tc = bit_xchg_r2r_opb_lu tc dst src"
  | "exec_bit_xchg mal (Xchg_r2r_opb_u dst src) tc = bit_xchg_r2r_opb_u tc dst src"
  | "exec_bit_xchg mal (Xchg_r2r_opb_l dst src) tc = bit_xchg_r2r_opb_l tc dst src"
  | "exec_bit_xchg mal (Xchg_r2r_opw dst src) tc = bit_xchg_r2r_opw tc dst src"
  | "exec_bit_xchg mal (Xchg_r2r_opl dst src) tc = bit_xchg_r2r_opl tc dst src"
  | "exec_bit_xchg mal (Xchg_r2r_opq dst src) tc = bit_xchg_r2r_opq tc dst src"
  | "exec_bit_xchg mal (Xchg_m2r_opb_u dst src) tc = bit_xchg_m2r_opb_u mal tc dst src"
  | "exec_bit_xchg mal (Xchg_m2r_opb_l dst src) tc = bit_xchg_m2r_opb_l mal tc dst src"
  | "exec_bit_xchg mal (Xchg_m2r_opw dst src) tc = bit_xchg_m2r_opw mal tc dst src"
  | "exec_bit_xchg mal (Xchg_m2r_opl dst src) tc = bit_xchg_m2r_opl mal tc dst src"
  | "exec_bit_xchg mal (Xchg_m2r_opq dst src) tc = bit_xchg_m2r_opq mal tc dst src"
  | "exec_bit_xchg mal (Xadd_r2r_opb_ul dst src) tc = bit_xadd_r2r_opb_ul tc dst src"
  | "exec_bit_xchg mal (Xadd_r2r_opb_lu dst src) tc = bit_xadd_r2r_opb_lu tc dst src"
  | "exec_bit_xchg mal (Xadd_r2r_opb_u dst src) tc = bit_xadd_r2r_opb_u tc dst src"
  | "exec_bit_xchg mal (Xadd_r2r_opb_l dst src) tc = bit_xadd_r2r_opb_l tc dst src"
  | "exec_bit_xchg mal (Xadd_r2r_opw dst src) tc = bit_xadd_r2r_opw tc dst src"
  | "exec_bit_xchg mal (Xadd_r2r_opl dst src) tc = bit_xadd_r2r_opl tc dst src"
  | "exec_bit_xchg mal (Xadd_r2r_opq dst src) tc = bit_xadd_r2r_opq tc dst src"
  | "exec_bit_xchg mal (Xadd_r2m_opb_u src dst) tc = bit_xadd_r2m_opb_u mal tc src dst"
  | "exec_bit_xchg mal (Xadd_r2m_opb_l src dst) tc = bit_xadd_r2m_opb_l mal tc src dst"
  | "exec_bit_xchg mal (Xadd_r2m_opw src dst) tc = bit_xadd_r2m_opw mal tc src dst"
  | "exec_bit_xchg mal (Xadd_r2m_opl src dst) tc = bit_xadd_r2m_opl mal tc src dst"
  | "exec_bit_xchg mal (Xadd_r2m_opq src dst) tc = bit_xadd_r2m_opq mal tc src dst"

fun bit_xchg_flow ::
  "xchg_call \<Rightarrow> bit_flow" where
    "bit_xchg_flow (Cmpxchg_r2r_opq dst_val dst src src_val) =
     (if dst_val = src_val then on_reg dst 0 8 (\<lambda>i. [Reg (unscratch src) i]) (on_reg 16 0
       8 (\<lambda>i. [Reg 7 i]) keep)
     else on_reg 7 0 8 (\<lambda>i. [Reg (unscratch dst) i]) (on_reg 16 0 8 (\<lambda>i. [Reg 7
       i]) keep))"
  | "bit_xchg_flow (Cmpxchg_m2r_opq eax_val raddr mem_val waddr src) =
     (if eax_val = mem_val then on_mem waddr 8 (\<lambda>i. [Reg (unscratch src) i]) (on_reg 16 0
       8 (\<lambda>i. [Reg 7 i]) keep)
     else on_reg 7 0 8 (\<lambda>i. [Mem (raddr + of_nat i)]) (on_reg 16 0 8 (\<lambda>i. [Reg 7
       i]) keep))"
  | "bit_xchg_flow (Cmpxchg_r2r_opl dst_val dst src src_val) =
     (if dst_val = src_val then on_reg dst 0 8 (\<lambda>i. if i < 4 then [Reg (unscratch src) i]
       else []) (on_reg 16 0 8 (\<lambda>i. [Reg 7 i]) keep)
     else on_reg 7 0 8 (\<lambda>i. if i < 4 then [Reg (unscratch dst) i] else []) (on_reg 16 0 8
       (\<lambda>i. [Reg 7 i]) keep))"
  | "bit_xchg_flow (Cmpxchg_m2r_opl eax_val raddr mem_val waddr src) =
     (if (ucast eax_val :: 32 word) = ucast mem_val then on_mem waddr 4 (\<lambda>i. [Reg
       (unscratch src) i]) (on_reg 16 0 8 (\<lambda>i. [Reg 7 i]) keep)
     else on_reg 7 0 8 (\<lambda>i. if i < 4 then [Mem (raddr + of_nat i)] else []) (on_reg 16 0
       8 (\<lambda>i. [Reg 7 i]) keep))"
  | "bit_xchg_flow (Cmpxchg_r2r_opw dst_val dst src src_val) =
     (if dst_val = src_val then on_reg dst 0 2 (\<lambda>i. [Reg (unscratch src) i]) (on_reg 16 0
       8 (\<lambda>i. [Reg 7 i]) keep)
     else on_reg 7 0 2 (\<lambda>i. [Reg (unscratch dst) i]) (on_reg 16 0 8 (\<lambda>i. [Reg 7
       i]) keep))"
  | "bit_xchg_flow (Cmpxchg_m2r_opw eax_val raddr mem_val waddr src) =
     (if (ucast eax_val :: 16 word) = ucast mem_val then on_mem waddr 2 (\<lambda>i. [Reg
       (unscratch src) i]) (on_reg 16 0 8 (\<lambda>i. [Reg 7 i]) keep)
     else on_reg 7 0 2 (\<lambda>i. [Mem (raddr + of_nat i)]) (on_reg 16 0 8 (\<lambda>i. [Reg 7
       i]) keep))"
  | "bit_xchg_flow (Xchg_r2r_opb_ul dst src) =
     (on_reg src 0 1 (\<lambda>i. [Reg dst 1]) (on_reg dst 1 2 (\<lambda>i. [Reg src 0]) keep))"
  | "bit_xchg_flow (Xchg_r2r_opb_lu dst src) =
     (on_reg src 1 2 (\<lambda>i. [Reg dst 0]) (on_reg dst 0 1 (\<lambda>i. [Reg src 1]) keep))"
  | "bit_xchg_flow (Xchg_r2r_opb_u dst src) =
     (on_reg src 1 2 (\<lambda>i. [Reg dst 1]) (on_reg dst 1 2 (\<lambda>i. [Reg src 1]) keep))"
  | "bit_xchg_flow (Xchg_r2r_opb_l dst src) =
     (on_reg src 0 1 (\<lambda>i. [Reg dst 0]) (on_reg dst 0 1 (\<lambda>i. [Reg src 0]) keep))"
  | "bit_xchg_flow (Xchg_r2r_opw dst src) =
     (on_reg src 0 2 (\<lambda>i. [Reg dst i]) (on_reg dst 0 2 (\<lambda>i. [Reg src i]) keep))"
  | "bit_xchg_flow (Xchg_r2r_opl dst src) =
     (on_reg src 0 8 (\<lambda>i. if i < 4 then [Reg dst i] else []) (on_reg dst 0 8 (\<lambda>i.
       if i < 4 then [Reg src i] else []) keep))"
  | "bit_xchg_flow (Xchg_r2r_opq dst src) =
     (on_reg src 0 8 (\<lambda>i. [Reg dst i]) (on_reg dst 0 8 (\<lambda>i. [Reg src i]) keep))"
  | "bit_xchg_flow (Xchg_m2r_opb_u dst src) =
     (on_mem src 1 (\<lambda>i. [Reg dst 1]) (on_reg dst 1 2 (\<lambda>i. [Mem src]) keep))"
  | "bit_xchg_flow (Xchg_m2r_opb_l dst src) =
     (on_mem src 1 (\<lambda>i. [Reg dst 0]) (on_reg dst 0 1 (\<lambda>i. [Mem src]) keep))"
  | "bit_xchg_flow (Xchg_m2r_opw dst src) =
     (on_mem src 2 (\<lambda>i. [Reg dst i]) (on_reg dst 0 2 (\<lambda>i. [Mem (src + of_nat i)])
       keep))"
  | "bit_xchg_flow (Xchg_m2r_opl dst src) =
     (on_mem src 4 (\<lambda>i. [Reg dst i]) (on_reg dst 0 8 (\<lambda>i. if i < 4 then [Mem (src
       + of_nat i)] else []) keep))"
  | "bit_xchg_flow (Xchg_m2r_opq dst src) =
     (on_mem src 8 (\<lambda>i. [Reg dst i]) (on_reg dst 0 8 (\<lambda>i. [Mem (src + of_nat i)])
       keep))"
  | "bit_xchg_flow (Xadd_r2r_opb_ul dst src) =
     (on_reg src 0 1 (\<lambda>i. [Reg dst 1]) (on_reg dst 1 2 (\<lambda>i. [Reg dst 1, Reg src
       0]) keep))"
  | "bit_xchg_flow (Xadd_r2r_opb_lu dst src) =
     (on_reg src 1 2 (\<lambda>i. [Reg dst 0]) (on_reg dst 0 1 (\<lambda>i. [Reg dst 0, Reg src
       1]) keep))"
  | "bit_xchg_flow (Xadd_r2r_opb_u dst src) =
     (on_reg src 1 2 (\<lambda>i. [Reg dst 1]) (on_reg dst 1 2 (\<lambda>i. [Reg dst 1, Reg src
       1]) keep))"
  | "bit_xchg_flow (Xadd_r2r_opb_l dst src) =
     (on_reg src 0 1 (\<lambda>i. [Reg dst 0]) (on_reg dst 0 1 (\<lambda>i. [Reg dst 0, Reg src
       0]) keep))"
  | "bit_xchg_flow (Xadd_r2r_opw dst src) =
     (on_reg src 0 2 (\<lambda>i. [Reg dst i]) (on_reg dst 0 2 (\<lambda>i. [Reg dst i, Reg src
       i]) keep))"
  | "bit_xchg_flow (Xadd_r2r_opl dst src) =
     (on_reg src 0 8 (\<lambda>i. if i < 4 then [Reg dst i] else []) (on_reg dst 0 8 (\<lambda>i.
       if i < 4 then [Reg dst i, Reg src i] else []) keep))"
  | "bit_xchg_flow (Xadd_r2r_opq dst src) =
     (on_reg src 0 8 (\<lambda>i. [Reg dst i]) (on_reg dst 0 8 (\<lambda>i. [Reg dst i, Reg src
       i]) keep))"
  | "bit_xchg_flow (Xadd_r2m_opb_u src dst) =
     (on_mem dst 1 (\<lambda>i. [Reg src 1, Mem dst]) (on_reg src 1 2 (\<lambda>i. [Mem dst])
       keep))"
  | "bit_xchg_flow (Xadd_r2m_opb_l src dst) =
     (on_mem dst 1 (\<lambda>i. [Reg src 0, Mem dst]) (on_reg src 0 1 (\<lambda>i. [Mem dst])
       keep))"
  | "bit_xchg_flow (Xadd_r2m_opw src dst) =
     (on_mem dst 2 (\<lambda>i. [Reg src i, Mem (dst + of_nat i)]) (on_reg src 0 2 (\<lambda>i.
       [Mem (dst + of_nat i)]) keep))"
  | "bit_xchg_flow (Xadd_r2m_opl src dst) =
     (on_mem dst 4 (\<lambda>i. [Reg src i, Mem (dst + of_nat i)]) (on_reg src 0 8 (\<lambda>i.
       if i < 4 then [Mem (dst + of_nat i)] else []) keep))"
  | "bit_xchg_flow (Xadd_r2m_opq src dst) =
     (on_mem dst 8 (\<lambda>i. [Reg src i, Mem (dst + of_nat i)]) (on_reg src 0 8 (\<lambda>i.
       [Mem (dst + of_nat i)]) keep))"

fun bit_xchg_ok ::
  "xchg_call \<Rightarrow> bool" where
    "bit_xchg_ok (Cmpxchg_r2r_opq dst_val dst src src_val) \<longleftrightarrow> dst < 17 \<and>
      src < 17"
  | "bit_xchg_ok (Cmpxchg_m2r_opq eax_val raddr mem_val waddr src) \<longleftrightarrow> mem_ok
    raddr \<and> mem_ok waddr \<and> src < 17"
  | "bit_xchg_ok (Cmpxchg_r2r_opl dst_val dst src src_val) \<longleftrightarrow> dst < 17 \<and>
    src < 17"
  | "bit_xchg_ok (Cmpxchg_m2r_opl eax_val raddr mem_val waddr src) \<longleftrightarrow> mem_ok
    raddr \<and> mem_ok waddr \<and> src < 17"
  | "bit_xchg_ok (Cmpxchg_r2r_opw dst_val dst src src_val) \<longleftrightarrow> dst < 17 \<and>
    src < 17"
  | "bit_xchg_ok (Cmpxchg_m2r_opw eax_val raddr mem_val waddr src) \<longleftrightarrow> mem_ok
    raddr \<and> mem_ok waddr \<and> src < 17"
  | "bit_xchg_ok (Xchg_r2r_opb_ul dst src) \<longleftrightarrow> dst < 17 \<and> src < 17"
  | "bit_xchg_ok (Xchg_r2r_opb_lu dst src) \<longleftrightarrow> dst < 17 \<and> src < 17"
  | "bit_xchg_ok (Xchg_r2r_opb_u dst src) \<longleftrightarrow> dst < 17 \<and> src < 17"
  | "bit_xchg_ok (Xchg_r2r_opb_l dst src) \<longleftrightarrow> dst < 17 \<and> src < 17"
  | "bit_xchg_ok (Xchg_r2r_opw dst src) \<longleftrightarrow> dst < 17 \<and> src < 17"
  | "bit_xchg_ok (Xchg_r2r_opl dst src) \<longleftrightarrow> dst < 17 \<and> src < 17"
  | "bit_xchg_ok (Xchg_r2r_opq dst src) \<longleftrightarrow> dst < 17 \<and> src < 17"
  | "bit_xchg_ok (Xchg_m2r_opb_u dst src) \<longleftrightarrow> dst < 17 \<and> mem_ok src"
  | "bit_xchg_ok (Xchg_m2r_opb_l dst src) \<longleftrightarrow> dst < 17 \<and> mem_ok src"
  | "bit_xchg_ok (Xchg_m2r_opw dst src) \<longleftrightarrow> dst < 17 \<and> mem_ok src"
  | "bit_xchg_ok (Xchg_m2r_opl dst src) \<longleftrightarrow> dst < 17 \<and> mem_ok src"
  | "bit_xchg_ok (Xchg_m2r_opq dst src) \<longleftrightarrow> dst < 17 \<and> mem_ok src"
  | "bit_xchg_ok (Xadd_r2r_opb_ul dst src) \<longleftrightarrow> dst < 17 \<and> src < 17"
  | "bit_xchg_ok (Xadd_r2r_opb_lu dst src) \<longleftrightarrow> dst < 17 \<and> src < 17"
  | "bit_xchg_ok (Xadd_r2r_opb_u dst src) \<longleftrightarrow> dst < 17 \<and> src < 17"
  | "bit_xchg_ok (Xadd_r2r_opb_l dst src) \<longleftrightarrow> dst < 17 \<and> src < 17"
  | "bit_xchg_ok (Xadd_r2r_opw dst src) \<longleftrightarrow> dst < 17 \<and> src < 17"
  | "bit_xchg_ok (Xadd_r2r_opl dst src) \<longleftrightarrow> dst < 17 \<and> src < 17"
  | "bit_xchg_ok (Xadd_r2r_opq dst src) \<longleftrightarrow> dst < 17 \<and> src < 17"
  | "bit_xchg_ok (Xadd_r2m_opb_u src dst) \<longleftrightarrow> src < 17 \<and> mem_ok dst"
  | "bit_xchg_ok (Xadd_r2m_opb_l src dst) \<longleftrightarrow> src < 17 \<and> mem_ok dst"
  | "bit_xchg_ok (Xadd_r2m_opw src dst) \<longleftrightarrow> src < 17 \<and> mem_ok dst"
  | "bit_xchg_ok (Xadd_r2m_opl src dst) \<longleftrightarrow> src < 17 \<and> mem_ok dst"
  | "bit_xchg_ok (Xadd_r2m_opq src dst) \<longleftrightarrow> src < 17 \<and> mem_ok dst"

subsection \<open>Each call performs its flow\<close>

lemma cmpxchg_r2r_opq_runs:
  "bit_ready mal tc \<Longrightarrow> bit_xchg_ok (Cmpxchg_r2r_opq dst_val dst src src_val)
    \<Longrightarrow>
   bit_runs (bit_xchg_flow (Cmpxchg_r2r_opq dst_val dst src src_val)) tc (exec_bit_xchg mal
     (Cmpxchg_r2r_opq dst_val dst src src_val) tc)"
  by (simp add: bit_ready_def bit_wf_def bit_cmpxchg_r2r_opq_fast_def
    bit_cmpxchg_r2r_opq_slow_def unscratch_def bit_exec Let_def)
    (auto intro!: bit_runs_intros simp: bit_eval dest: bit_low split: if_splits)

lemma cmpxchg_m2r_opq_runs:
  "bit_ready mal tc \<Longrightarrow> bit_xchg_ok (Cmpxchg_m2r_opq eax_val raddr mem_val waddr
    src) \<Longrightarrow>
   bit_runs (bit_xchg_flow (Cmpxchg_m2r_opq eax_val raddr mem_val waddr src)) tc (exec_bit_xchg
     mal (Cmpxchg_m2r_opq eax_val raddr mem_val waddr src) tc)"
  by (simp add: bit_ready_def bit_wf_def bit_cmpxchg_m2r_opq_fast_def
    bit_cmpxchg_r2m_opq_slow_def unscratch_def bit_exec Let_def)
    (auto intro!: bit_runs_intros simp: bit_eval dest: bit_low split: if_splits)

lemma cmpxchg_r2r_opl_runs:
  "bit_ready mal tc \<Longrightarrow> bit_xchg_ok (Cmpxchg_r2r_opl dst_val dst src src_val)
    \<Longrightarrow>
   bit_runs (bit_xchg_flow (Cmpxchg_r2r_opl dst_val dst src src_val)) tc (exec_bit_xchg mal
     (Cmpxchg_r2r_opl dst_val dst src src_val) tc)"
  by (simp add: bit_ready_def bit_wf_def bit_cmpxchg_r2r_opl_fast_def
    bit_cmpxchg_r2r_opl_slow_def unscratch_def bit_exec Let_def)
    (auto intro!: bit_runs_intros simp: bit_eval dest: bit_low split: if_splits)

lemma cmpxchg_m2r_opl_runs:
  "bit_ready mal tc \<Longrightarrow> bit_xchg_ok (Cmpxchg_m2r_opl eax_val raddr mem_val waddr
    src) \<Longrightarrow>
   bit_runs (bit_xchg_flow (Cmpxchg_m2r_opl eax_val raddr mem_val waddr src)) tc (exec_bit_xchg
     mal (Cmpxchg_m2r_opl eax_val raddr mem_val waddr src) tc)"
  by (simp add: bit_ready_def bit_wf_def bit_cmpxchg_m2r_opl_fast_def
    bit_cmpxchg_r2m_opl_slow_def unscratch_def bit_exec Let_def)
    (auto intro!: bit_runs_intros simp: bit_eval dest: bit_low split: if_splits)

lemma cmpxchg_r2r_opw_runs:
  "bit_ready mal tc \<Longrightarrow> bit_xchg_ok (Cmpxchg_r2r_opw dst_val dst src src_val)
    \<Longrightarrow>
   bit_runs (bit_xchg_flow (Cmpxchg_r2r_opw dst_val dst src src_val)) tc (exec_bit_xchg mal
     (Cmpxchg_r2r_opw dst_val dst src src_val) tc)"
  by (simp add: bit_ready_def bit_wf_def bit_cmpxchg_r2r_opw_fast_def
    bit_cmpxchg_r2r_opw_slow_def unscratch_def bit_exec Let_def)
    (auto intro!: bit_runs_intros simp: bit_eval dest: bit_low split: if_splits)

lemma cmpxchg_m2r_opw_runs:
  "bit_ready mal tc \<Longrightarrow> bit_xchg_ok (Cmpxchg_m2r_opw eax_val raddr mem_val waddr
    src) \<Longrightarrow>
   bit_runs (bit_xchg_flow (Cmpxchg_m2r_opw eax_val raddr mem_val waddr src)) tc (exec_bit_xchg
     mal (Cmpxchg_m2r_opw eax_val raddr mem_val waddr src) tc)"
  by (simp add: bit_ready_def bit_wf_def bit_cmpxchg_m2r_opw_fast_def
    bit_cmpxchg_r2m_opw_slow_def unscratch_def bit_exec Let_def)
    (auto intro!: bit_runs_intros simp: bit_eval dest: bit_low split: if_splits)

lemma xchg_r2r_opb_ul_runs:
  "bit_ready mal tc \<Longrightarrow> bit_xchg_ok (Xchg_r2r_opb_ul dst src) \<Longrightarrow>
   bit_runs (bit_xchg_flow (Xchg_r2r_opb_ul dst src)) tc (exec_bit_xchg mal (Xchg_r2r_opb_ul dst
     src) tc)"
  by (simp add: bit_ready_def bit_wf_def bit_xchg_r2r_opb_ul_def bit_exec Let_def)
    (auto intro!: bit_runs_intros simp: bit_eval dest: bit_low split: if_splits)

lemma xchg_r2r_opb_lu_runs:
  "bit_ready mal tc \<Longrightarrow> bit_xchg_ok (Xchg_r2r_opb_lu dst src) \<Longrightarrow>
   bit_runs (bit_xchg_flow (Xchg_r2r_opb_lu dst src)) tc (exec_bit_xchg mal (Xchg_r2r_opb_lu dst
     src) tc)"
  by (simp add: bit_ready_def bit_wf_def bit_xchg_r2r_opb_lu_def bit_exec Let_def)
    (auto intro!: bit_runs_intros simp: bit_eval dest: bit_low split: if_splits)

lemma xchg_r2r_opb_u_runs:
  "bit_ready mal tc \<Longrightarrow> bit_xchg_ok (Xchg_r2r_opb_u dst src) \<Longrightarrow>
   bit_runs (bit_xchg_flow (Xchg_r2r_opb_u dst src)) tc (exec_bit_xchg mal (Xchg_r2r_opb_u dst
     src) tc)"
  by (simp add: bit_ready_def bit_wf_def bit_xchg_r2r_opb_u_def bit_exec Let_def)
    (auto intro!: bit_runs_intros simp: bit_eval dest: bit_low split: if_splits)

lemma xchg_r2r_opb_l_runs:
  "bit_ready mal tc \<Longrightarrow> bit_xchg_ok (Xchg_r2r_opb_l dst src) \<Longrightarrow>
   bit_runs (bit_xchg_flow (Xchg_r2r_opb_l dst src)) tc (exec_bit_xchg mal (Xchg_r2r_opb_l dst
     src) tc)"
  by (simp add: bit_ready_def bit_wf_def bit_xchg_r2r_opb_l_def bit_exec Let_def)
    (auto intro!: bit_runs_intros simp: bit_eval dest: bit_low split: if_splits)

lemma xchg_r2r_opw_runs:
  "bit_ready mal tc \<Longrightarrow> bit_xchg_ok (Xchg_r2r_opw dst src) \<Longrightarrow>
   bit_runs (bit_xchg_flow (Xchg_r2r_opw dst src)) tc (exec_bit_xchg mal (Xchg_r2r_opw dst src) tc)"
  by (simp add: bit_ready_def bit_wf_def bit_xchg_r2r_opw_def bit_exec Let_def)
    (auto intro!: bit_runs_intros simp: bit_eval dest: bit_low split: if_splits)

lemma xchg_r2r_opl_runs:
  "bit_ready mal tc \<Longrightarrow> bit_xchg_ok (Xchg_r2r_opl dst src) \<Longrightarrow>
   bit_runs (bit_xchg_flow (Xchg_r2r_opl dst src)) tc (exec_bit_xchg mal (Xchg_r2r_opl dst src) tc)"
  by (simp add: bit_ready_def bit_wf_def bit_xchg_r2r_opl_def bit_exec Let_def)
    (auto intro!: bit_runs_intros simp: bit_eval dest: bit_low split: if_splits)

lemma xchg_r2r_opq_runs:
  "bit_ready mal tc \<Longrightarrow> bit_xchg_ok (Xchg_r2r_opq dst src) \<Longrightarrow>
   bit_runs (bit_xchg_flow (Xchg_r2r_opq dst src)) tc (exec_bit_xchg mal (Xchg_r2r_opq dst src) tc)"
  by (simp add: bit_ready_def bit_wf_def bit_xchg_r2r_opq_def bit_exec Let_def)
    (auto intro!: bit_runs_intros simp: bit_eval dest: bit_low split: if_splits)

lemma xchg_m2r_opb_u_runs:
  "bit_ready mal tc \<Longrightarrow> bit_xchg_ok (Xchg_m2r_opb_u dst src) \<Longrightarrow>
   bit_runs (bit_xchg_flow (Xchg_m2r_opb_u dst src)) tc (exec_bit_xchg mal (Xchg_m2r_opb_u dst
     src) tc)"
  by (simp add: bit_ready_def bit_wf_def bit_xchg_m2r_opb_u_def bit_exec Let_def)
    (auto intro!: bit_runs_intros simp: bit_eval dest: bit_low split: if_splits)

lemma xchg_m2r_opb_l_runs:
  "bit_ready mal tc \<Longrightarrow> bit_xchg_ok (Xchg_m2r_opb_l dst src) \<Longrightarrow>
   bit_runs (bit_xchg_flow (Xchg_m2r_opb_l dst src)) tc (exec_bit_xchg mal (Xchg_m2r_opb_l dst
     src) tc)"
  by (simp add: bit_ready_def bit_wf_def bit_xchg_m2r_opb_l_def bit_exec Let_def)
    (auto intro!: bit_runs_intros simp: bit_eval dest: bit_low split: if_splits)

lemma xchg_m2r_opw_runs:
  "bit_ready mal tc \<Longrightarrow> bit_xchg_ok (Xchg_m2r_opw dst src) \<Longrightarrow>
   bit_runs (bit_xchg_flow (Xchg_m2r_opw dst src)) tc (exec_bit_xchg mal (Xchg_m2r_opw dst src) tc)"
  by (simp add: bit_ready_def bit_wf_def bit_xchg_m2r_opw_def bit_exec Let_def)
    (auto intro!: bit_runs_intros simp: bit_eval dest: bit_low split: if_splits)

lemma xchg_m2r_opl_runs:
  "bit_ready mal tc \<Longrightarrow> bit_xchg_ok (Xchg_m2r_opl dst src) \<Longrightarrow>
   bit_runs (bit_xchg_flow (Xchg_m2r_opl dst src)) tc (exec_bit_xchg mal (Xchg_m2r_opl dst src) tc)"
  by (simp add: bit_ready_def bit_wf_def bit_xchg_m2r_opl_def bit_exec Let_def)
    (auto intro!: bit_runs_intros simp: bit_eval dest: bit_low split: if_splits)

lemma xchg_m2r_opq_runs:
  "bit_ready mal tc \<Longrightarrow> bit_xchg_ok (Xchg_m2r_opq dst src) \<Longrightarrow>
   bit_runs (bit_xchg_flow (Xchg_m2r_opq dst src)) tc (exec_bit_xchg mal (Xchg_m2r_opq dst src) tc)"
  by (simp add: bit_ready_def bit_wf_def bit_xchg_m2r_opq_def bit_exec Let_def)
    (auto intro!: bit_runs_intros simp: bit_eval dest: bit_low split: if_splits)

lemma xadd_r2r_opb_ul_runs:
  "bit_ready mal tc \<Longrightarrow> bit_xchg_ok (Xadd_r2r_opb_ul dst src) \<Longrightarrow>
   bit_runs (bit_xchg_flow (Xadd_r2r_opb_ul dst src)) tc (exec_bit_xchg mal (Xadd_r2r_opb_ul dst
     src) tc)"
  by (simp add: bit_ready_def bit_wf_def bit_xadd_r2r_opb_ul_def bit_exec Let_def)
    (auto intro!: bit_runs_intros simp: bit_eval dest: bit_low split: if_splits)

lemma xadd_r2r_opb_lu_runs:
  "bit_ready mal tc \<Longrightarrow> bit_xchg_ok (Xadd_r2r_opb_lu dst src) \<Longrightarrow>
   bit_runs (bit_xchg_flow (Xadd_r2r_opb_lu dst src)) tc (exec_bit_xchg mal (Xadd_r2r_opb_lu dst
     src) tc)"
  by (simp add: bit_ready_def bit_wf_def bit_xadd_r2r_opb_lu_def bit_exec Let_def)
    (auto intro!: bit_runs_intros simp: bit_eval dest: bit_low split: if_splits)

lemma xadd_r2r_opb_u_runs:
  "bit_ready mal tc \<Longrightarrow> bit_xchg_ok (Xadd_r2r_opb_u dst src) \<Longrightarrow>
   bit_runs (bit_xchg_flow (Xadd_r2r_opb_u dst src)) tc (exec_bit_xchg mal (Xadd_r2r_opb_u dst
     src) tc)"
  by (simp add: bit_ready_def bit_wf_def bit_xadd_r2r_opb_u_def bit_exec Let_def)
    (auto intro!: bit_runs_intros simp: bit_eval dest: bit_low split: if_splits)

lemma xadd_r2r_opb_l_runs:
  "bit_ready mal tc \<Longrightarrow> bit_xchg_ok (Xadd_r2r_opb_l dst src) \<Longrightarrow>
   bit_runs (bit_xchg_flow (Xadd_r2r_opb_l dst src)) tc (exec_bit_xchg mal (Xadd_r2r_opb_l dst
     src) tc)"
  by (simp add: bit_ready_def bit_wf_def bit_xadd_r2r_opb_l_def bit_exec Let_def)
    (auto intro!: bit_runs_intros simp: bit_eval dest: bit_low split: if_splits)

lemma xadd_r2r_opw_runs:
  "bit_ready mal tc \<Longrightarrow> bit_xchg_ok (Xadd_r2r_opw dst src) \<Longrightarrow>
   bit_runs (bit_xchg_flow (Xadd_r2r_opw dst src)) tc (exec_bit_xchg mal (Xadd_r2r_opw dst src) tc)"
  by (simp add: bit_ready_def bit_wf_def bit_xadd_r2r_opw_def bit_exec Let_def)
    (auto intro!: bit_runs_intros simp: bit_eval dest: bit_low split: if_splits)

lemma xadd_r2r_opl_runs:
  "bit_ready mal tc \<Longrightarrow> bit_xchg_ok (Xadd_r2r_opl dst src) \<Longrightarrow>
   bit_runs (bit_xchg_flow (Xadd_r2r_opl dst src)) tc (exec_bit_xchg mal (Xadd_r2r_opl dst src) tc)"
  by (simp add: bit_ready_def bit_wf_def bit_xadd_r2r_opl_def bit_exec Let_def)
    (auto intro!: bit_runs_intros simp: bit_eval dest: bit_low split: if_splits)

lemma xadd_r2r_opq_runs:
  "bit_ready mal tc \<Longrightarrow> bit_xchg_ok (Xadd_r2r_opq dst src) \<Longrightarrow>
   bit_runs (bit_xchg_flow (Xadd_r2r_opq dst src)) tc (exec_bit_xchg mal (Xadd_r2r_opq dst src) tc)"
  by (simp add: bit_ready_def bit_wf_def bit_xadd_r2r_opq_def bit_exec Let_def)
    (auto intro!: bit_runs_intros simp: bit_eval dest: bit_low split: if_splits)

lemma xadd_r2m_opb_u_runs:
  "bit_ready mal tc \<Longrightarrow> bit_xchg_ok (Xadd_r2m_opb_u src dst) \<Longrightarrow>
   bit_runs (bit_xchg_flow (Xadd_r2m_opb_u src dst)) tc (exec_bit_xchg mal (Xadd_r2m_opb_u src
     dst) tc)"
  by (simp add: bit_ready_def bit_wf_def bit_xadd_r2m_opb_u_def bit_exec Let_def)
    (auto intro!: bit_runs_intros simp: bit_eval dest: bit_low split: if_splits)

lemma xadd_r2m_opb_l_runs:
  "bit_ready mal tc \<Longrightarrow> bit_xchg_ok (Xadd_r2m_opb_l src dst) \<Longrightarrow>
   bit_runs (bit_xchg_flow (Xadd_r2m_opb_l src dst)) tc (exec_bit_xchg mal (Xadd_r2m_opb_l src
     dst) tc)"
  by (simp add: bit_ready_def bit_wf_def bit_xadd_r2m_opb_l_def bit_exec Let_def)
    (auto intro!: bit_runs_intros simp: bit_eval dest: bit_low split: if_splits)

lemma xadd_r2m_opw_runs:
  "bit_ready mal tc \<Longrightarrow> bit_xchg_ok (Xadd_r2m_opw src dst) \<Longrightarrow>
   bit_runs (bit_xchg_flow (Xadd_r2m_opw src dst)) tc (exec_bit_xchg mal (Xadd_r2m_opw src dst) tc)"
  by (simp add: bit_ready_def bit_wf_def bit_xadd_r2m_opw_def bit_exec Let_def)
    (auto intro!: bit_runs_intros simp: bit_eval dest: bit_low split: if_splits)

lemma xadd_r2m_opl_runs:
  "bit_ready mal tc \<Longrightarrow> bit_xchg_ok (Xadd_r2m_opl src dst) \<Longrightarrow>
   bit_runs (bit_xchg_flow (Xadd_r2m_opl src dst)) tc (exec_bit_xchg mal (Xadd_r2m_opl src dst) tc)"
  by (simp add: bit_ready_def bit_wf_def bit_xadd_r2m_opl_def bit_exec Let_def)
    (auto intro!: bit_runs_intros simp: bit_eval dest: bit_low split: if_splits)

lemma xadd_r2m_opq_runs:
  "bit_ready mal tc \<Longrightarrow> bit_xchg_ok (Xadd_r2m_opq src dst) \<Longrightarrow>
   bit_runs (bit_xchg_flow (Xadd_r2m_opq src dst)) tc (exec_bit_xchg mal (Xadd_r2m_opq src dst) tc)"
  by (simp add: bit_ready_def bit_wf_def bit_xadd_r2m_opq_def bit_exec Let_def)
    (auto intro!: bit_runs_intros simp: bit_eval dest: bit_low split: if_splits)

lemmas bit_xchg_runs =
  cmpxchg_r2r_opq_runs cmpxchg_m2r_opq_runs cmpxchg_r2r_opl_runs
  cmpxchg_m2r_opl_runs cmpxchg_r2r_opw_runs cmpxchg_m2r_opw_runs
  xchg_r2r_opb_ul_runs xchg_r2r_opb_lu_runs xchg_r2r_opb_u_runs
  xchg_r2r_opb_l_runs xchg_r2r_opw_runs xchg_r2r_opl_runs
  xchg_r2r_opq_runs xchg_m2r_opb_u_runs xchg_m2r_opb_l_runs
  xchg_m2r_opw_runs xchg_m2r_opl_runs xchg_m2r_opq_runs
  xadd_r2r_opb_ul_runs xadd_r2r_opb_lu_runs xadd_r2r_opb_u_runs
  xadd_r2r_opb_l_runs xadd_r2r_opw_runs xadd_r2r_opl_runs
  xadd_r2r_opq_runs xadd_r2m_opb_u_runs xadd_r2m_opb_l_runs
  xadd_r2m_opw_runs xadd_r2m_opl_runs xadd_r2m_opq_runs

lemma exec_bit_xchg_runs:
  "bit_ready mal tc \<Longrightarrow> bit_xchg_ok c \<Longrightarrow> bit_runs (bit_xchg_flow c)
    tc (exec_bit_xchg mal c tc)"
  by (cases c) (simp_all only: bit_xchg_runs bit_xchg_ok.simps)

end
