(* ===== verification/BitAlu.thy ===== *)
theory BitAlu
  imports BitState CoreAlu
begin

text \<open>
  Address computation and arithmetic in the build without
    \<^verbatim>\<open>USE_CUSTOM_TAG\<close>: the other branches of the routines of
  theory \<^verbatim>\<open>CoreAlu\<close>, and their data flows. Tags of operands are merged;
    32-bit results clear the upper half of the
  destination.
\<close>

declare push_bit_Suc [simp del] drop_bit_Suc [simp del] of_nat_diff [simp del]

subsection \<open>Routines\<close>

definition bit_lea_r2r_opw ::
  "bit_state \<Rightarrow> nat \<Rightarrow> nat \<Rightarrow> nat \<Rightarrow> bit_state
    option" where
  "bit_lea_r2r_opw tc dst base index =
     do {
       g_dst \<leftarrow> GPR tc dst;
       g_base \<leftarrow> GPR tc base;
       g_index \<leftarrow> GPR tc index;
       set_GPR tc dst (((g_dst AND (NOT VCPU_MASK16)) OR (g_base AND VCPU_MASK16)) OR (g_index
         AND VCPU_MASK16))
     }"

definition bit_lea_r2r_opl ::
  "bit_state \<Rightarrow> nat \<Rightarrow> nat \<Rightarrow> nat \<Rightarrow> bit_state
    option" where
  "bit_lea_r2r_opl tc dst base index =
     do {
       g_base \<leftarrow> GPR tc base;
       g_index \<leftarrow> GPR tc index;
       set_GPR tc dst ((g_base AND VCPU_MASK32) OR (g_index AND VCPU_MASK32))
     }"

definition bit_lea_r2r_opq ::
  "bit_state \<Rightarrow> nat \<Rightarrow> nat \<Rightarrow> nat \<Rightarrow> bit_state
    option" where
  "bit_lea_r2r_opq tc dst base index =
     do {
       g_base \<leftarrow> GPR tc base;
       g_index \<leftarrow> GPR tc index;
       set_GPR tc dst (g_base OR g_index)
     }"

definition bit_r2r_ternary_opb_u ::
  "bit_state \<Rightarrow> nat \<Rightarrow> bit_state option" where
  "bit_r2r_ternary_opb_u tc src =
     do {
       g_src \<leftarrow> GPR tc src;
       let tmp_tag = (ucast (g_src AND (push_bit 1 VCPU_MASK8)) :: 64 word);
       g_7 \<leftarrow> GPR tc 7;
       helper \<leftarrow> TAB MAP_8H_16 tmp_tag;
       set_GPR tc 7 (g_7 OR helper)
     }"

definition bit_r2r_ternary_opb_l ::
  "bit_state \<Rightarrow> nat \<Rightarrow> bit_state option" where
  "bit_r2r_ternary_opb_l tc src =
     do {
       g_src \<leftarrow> GPR tc src;
       let tmp_tag = (ucast (g_src AND VCPU_MASK8) :: 64 word);
       g_7 \<leftarrow> GPR tc 7;
       helper \<leftarrow> TAB MAP_8L_16 tmp_tag;
       set_GPR tc 7 (g_7 OR helper)
     }"

definition bit_r2r_ternary_opw ::
  "bit_state \<Rightarrow> nat \<Rightarrow> bit_state option" where
  "bit_r2r_ternary_opw tc src =
     do {
       g_src \<leftarrow> GPR tc src;
       let tmp_tag = (ucast (g_src AND VCPU_MASK16) :: 64 word);
       g_5 \<leftarrow> GPR tc 5;
       tc \<leftarrow> set_GPR tc 5 (ucast ((ucast g_5 :: 64 word) OR tmp_tag));
       g_7 \<leftarrow> GPR tc 7;
       set_GPR tc 7 (ucast ((ucast g_7 :: 64 word) OR tmp_tag))
     }"

definition bit_r2r_ternary_opl ::
  "bit_state \<Rightarrow> nat \<Rightarrow> bit_state option" where
  "bit_r2r_ternary_opl tc src =
     do {
       g_src \<leftarrow> GPR tc src;
       let tmp_tag = (ucast (g_src AND VCPU_MASK32) :: 64 word);
       g_5 \<leftarrow> GPR tc 5;
       tc \<leftarrow> set_GPR tc 5 (ucast ((ucast (g_5 AND VCPU_MASK32) :: 64 word) OR tmp_tag));
       g_7 \<leftarrow> GPR tc 7;
       set_GPR tc 7 (ucast ((ucast (g_7 AND VCPU_MASK32) :: 64 word) OR tmp_tag))
     }"

definition bit_r2r_ternary_opq ::
  "bit_state \<Rightarrow> nat \<Rightarrow> bit_state option" where
  "bit_r2r_ternary_opq tc src =
     do {
       g_5 \<leftarrow> GPR tc 5;
       g_src \<leftarrow> GPR tc src;
       tc \<leftarrow> set_GPR tc 5 (g_5 OR g_src);
       g_7 \<leftarrow> GPR tc 7;
       g_src \<leftarrow> GPR tc src;
       set_GPR tc 7 (g_7 OR g_src)
     }"

definition bit_m2r_ternary_opb ::
  "malloc_outcome \<Rightarrow> bit_state \<Rightarrow> addr \<Rightarrow> bit_state option" where
  "bit_m2r_ternary_opb mal tc src =
     do {
       (entry, tc) \<leftarrow> ENTRY mal tc src;
       entry_v \<leftarrow> LOAD tc entry;
       let tmp_tag = (ucast ((drop_bit (VIRT2BIT src) entry_v) AND VCPU_MASK8) :: 64 word);
       g_7 \<leftarrow> GPR tc 7;
       helper \<leftarrow> TAB MAP_8L_16 tmp_tag;
       set_GPR tc 7 (g_7 OR helper)
     }"

definition bit_m2r_ternary_opw ::
  "malloc_outcome \<Rightarrow> bit_state \<Rightarrow> addr \<Rightarrow> bit_state option" where
  "bit_m2r_ternary_opw mal tc src =
     do {
       (entry, tc) \<leftarrow> ENTRY mal tc src;
       entry_v \<leftarrow> LOAD tc entry;
       let tmp_tag = (ucast ((drop_bit (VIRT2BIT src) entry_v) AND VCPU_MASK16) :: 64 word);
       g_5 \<leftarrow> GPR tc 5;
       tc \<leftarrow> set_GPR tc 5 (ucast ((ucast g_5 :: 64 word) OR tmp_tag));
       g_7 \<leftarrow> GPR tc 7;
       set_GPR tc 7 (ucast ((ucast g_7 :: 64 word) OR tmp_tag))
     }"

definition bit_m2r_ternary_opl ::
  "malloc_outcome \<Rightarrow> bit_state \<Rightarrow> addr \<Rightarrow> bit_state option" where
  "bit_m2r_ternary_opl mal tc src =
     do {
       (entry, tc) \<leftarrow> ENTRY mal tc src;
       entry_v \<leftarrow> LOAD tc entry;
       let tmp_tag = (ucast ((drop_bit (VIRT2BIT src) entry_v) AND VCPU_MASK32) :: 64 word);
       g_5 \<leftarrow> GPR tc 5;
       tc \<leftarrow> set_GPR tc 5 (ucast ((ucast (g_5 AND VCPU_MASK32) :: 64 word) OR tmp_tag));
       g_7 \<leftarrow> GPR tc 7;
       set_GPR tc 7 (ucast ((ucast (g_7 AND VCPU_MASK32) :: 64 word) OR tmp_tag))
     }"

definition bit_m2r_ternary_opq ::
  "malloc_outcome \<Rightarrow> bit_state \<Rightarrow> addr \<Rightarrow> bit_state option" where
  "bit_m2r_ternary_opq mal tc src =
     do {
       (entry, tc) \<leftarrow> ENTRY mal tc src;
       entry_v \<leftarrow> LOAD tc entry;
       let tmp_tag = (ucast ((drop_bit (VIRT2BIT src) entry_v) AND VCPU_MASK64) :: 64 word);
       g_5 \<leftarrow> GPR tc 5;
       tc \<leftarrow> set_GPR tc 5 (ucast ((ucast g_5 :: 64 word) OR tmp_tag));
       g_7 \<leftarrow> GPR tc 7;
       set_GPR tc 7 (ucast ((ucast g_7 :: 64 word) OR tmp_tag))
     }"

definition bit_r2r_binary_opb_ul ::
  "bit_state \<Rightarrow> nat \<Rightarrow> nat \<Rightarrow> bit_state option" where
  "bit_r2r_binary_opb_ul tc dst src =
     do {
       g_dst \<leftarrow> GPR tc dst;
       g_src \<leftarrow> GPR tc src;
       set_GPR tc dst (g_dst OR (push_bit 1 (g_src AND VCPU_MASK8)))
     }"

definition bit_r2r_binary_opb_lu ::
  "bit_state \<Rightarrow> nat \<Rightarrow> nat \<Rightarrow> bit_state option" where
  "bit_r2r_binary_opb_lu tc dst src =
     do {
       g_dst \<leftarrow> GPR tc dst;
       g_src \<leftarrow> GPR tc src;
       set_GPR tc dst (g_dst OR (drop_bit 1 (g_src AND (push_bit 1 VCPU_MASK8))))
     }"

definition bit_r2r_binary_opb_u ::
  "bit_state \<Rightarrow> nat \<Rightarrow> nat \<Rightarrow> bit_state option" where
  "bit_r2r_binary_opb_u tc dst src =
     do {
       g_dst \<leftarrow> GPR tc dst;
       g_src \<leftarrow> GPR tc src;
       set_GPR tc dst (g_dst OR (g_src AND (push_bit 1 VCPU_MASK8)))
     }"

definition bit_r2r_binary_opb_l ::
  "bit_state \<Rightarrow> nat \<Rightarrow> nat \<Rightarrow> bit_state option" where
  "bit_r2r_binary_opb_l tc dst src =
     do {
       g_dst \<leftarrow> GPR tc dst;
       g_src \<leftarrow> GPR tc src;
       set_GPR tc dst (g_dst OR (g_src AND VCPU_MASK8))
     }"

definition bit_r2r_binary_opw ::
  "bit_state \<Rightarrow> nat \<Rightarrow> nat \<Rightarrow> bit_state option" where
  "bit_r2r_binary_opw tc dst src =
     do {
       g_dst \<leftarrow> GPR tc dst;
       g_src \<leftarrow> GPR tc src;
       set_GPR tc dst (g_dst OR (g_src AND VCPU_MASK16))
     }"

definition bit_r2r_binary_opl ::
  "bit_state \<Rightarrow> nat \<Rightarrow> nat \<Rightarrow> bit_state option" where
  "bit_r2r_binary_opl tc dst src =
     do {
       g_dst \<leftarrow> GPR tc dst;
       g_src \<leftarrow> GPR tc src;
       set_GPR tc dst ((g_dst AND VCPU_MASK32) OR (g_src AND VCPU_MASK32))
     }"

definition bit_r2r_binary_opq ::
  "bit_state \<Rightarrow> nat \<Rightarrow> nat \<Rightarrow> bit_state option" where
  "bit_r2r_binary_opq tc dst src =
     do {
       g_dst \<leftarrow> GPR tc dst;
       g_src \<leftarrow> GPR tc src;
       set_GPR tc dst (g_dst OR g_src)
     }"

definition bit_m2r_binary_opb_u ::
  "malloc_outcome \<Rightarrow> bit_state \<Rightarrow> nat \<Rightarrow> addr \<Rightarrow>
    bit_state option" where
  "bit_m2r_binary_opb_u mal tc dst src =
     do {
       (entry, tc) \<leftarrow> ENTRY mal tc src;
       g_dst \<leftarrow> GPR tc dst;
       entry_v \<leftarrow> LOAD tc entry;
       set_GPR tc dst (g_dst OR (push_bit 1 ((drop_bit (VIRT2BIT src) entry_v) AND VCPU_MASK8)))
     }"

definition bit_m2r_binary_opb_l ::
  "malloc_outcome \<Rightarrow> bit_state \<Rightarrow> nat \<Rightarrow> addr \<Rightarrow>
    bit_state option" where
  "bit_m2r_binary_opb_l mal tc dst src =
     do {
       (entry, tc) \<leftarrow> ENTRY mal tc src;
       g_dst \<leftarrow> GPR tc dst;
       entry_v \<leftarrow> LOAD tc entry;
       set_GPR tc dst (g_dst OR ((drop_bit (VIRT2BIT src) entry_v) AND VCPU_MASK8))
     }"

definition bit_m2r_binary_opw ::
  "malloc_outcome \<Rightarrow> bit_state \<Rightarrow> nat \<Rightarrow> addr \<Rightarrow>
    bit_state option" where
  "bit_m2r_binary_opw mal tc dst src =
     do {
       (entry, tc) \<leftarrow> ENTRY mal tc src;
       g_dst \<leftarrow> GPR tc dst;
       entry_v \<leftarrow> LOAD tc entry;
       set_GPR tc dst (g_dst OR ((drop_bit (VIRT2BIT src) entry_v) AND VCPU_MASK16))
     }"

definition bit_m2r_binary_opl ::
  "malloc_outcome \<Rightarrow> bit_state \<Rightarrow> nat \<Rightarrow> addr \<Rightarrow>
    bit_state option" where
  "bit_m2r_binary_opl mal tc dst src =
     do {
       (entry, tc) \<leftarrow> ENTRY mal tc src;
       g_dst \<leftarrow> GPR tc dst;
       entry_v \<leftarrow> LOAD tc entry;
       set_GPR tc dst ((g_dst AND VCPU_MASK32) OR ((drop_bit (VIRT2BIT src) entry_v) AND
         VCPU_MASK32))
     }"

definition bit_m2r_binary_opq ::
  "malloc_outcome \<Rightarrow> bit_state \<Rightarrow> nat \<Rightarrow> addr \<Rightarrow>
    bit_state option" where
  "bit_m2r_binary_opq mal tc dst src =
     do {
       (entry, tc) \<leftarrow> ENTRY mal tc src;
       g_dst \<leftarrow> GPR tc dst;
       entry_v \<leftarrow> LOAD tc entry;
       set_GPR tc dst (g_dst OR ((drop_bit (VIRT2BIT src) entry_v) AND VCPU_MASK64))
     }"

definition bit_r2m_binary_opb_u ::
  "malloc_outcome \<Rightarrow> bit_state \<Rightarrow> addr \<Rightarrow> nat \<Rightarrow>
    bit_state option" where
  "bit_r2m_binary_opb_u mal tc dst src =
     do {
       (entry, tc) \<leftarrow> ENTRY mal tc dst;
       g_src \<leftarrow> GPR tc src;
       entry_v \<leftarrow> LOAD tc entry;
       STORE tc entry (entry_v OR (push_bit (VIRT2BIT dst) (drop_bit 1 (g_src AND (push_bit 1
         VCPU_MASK8)))))
     }"

definition bit_r2m_binary_opb_l ::
  "malloc_outcome \<Rightarrow> bit_state \<Rightarrow> addr \<Rightarrow> nat \<Rightarrow>
    bit_state option" where
  "bit_r2m_binary_opb_l mal tc dst src =
     do {
       (entry, tc) \<leftarrow> ENTRY mal tc dst;
       g_src \<leftarrow> GPR tc src;
       entry_v \<leftarrow> LOAD tc entry;
       STORE tc entry (entry_v OR (push_bit (VIRT2BIT dst) (g_src AND VCPU_MASK8)))
     }"

definition bit_r2m_binary_opw ::
  "malloc_outcome \<Rightarrow> bit_state \<Rightarrow> addr \<Rightarrow> nat \<Rightarrow>
    bit_state option" where
  "bit_r2m_binary_opw mal tc dst src =
     do {
       (entry, tc) \<leftarrow> ENTRY mal tc dst;
       g_src \<leftarrow> GPR tc src;
       entry_v \<leftarrow> LOAD tc entry;
       STORE tc entry (entry_v OR (push_bit (VIRT2BIT dst) (g_src AND VCPU_MASK16)))
     }"

definition bit_r2m_binary_opl ::
  "malloc_outcome \<Rightarrow> bit_state \<Rightarrow> addr \<Rightarrow> nat \<Rightarrow>
    bit_state option" where
  "bit_r2m_binary_opl mal tc dst src =
     do {
       (entry, tc) \<leftarrow> ENTRY mal tc dst;
       g_src \<leftarrow> GPR tc src;
       entry_v \<leftarrow> LOAD tc entry;
       STORE tc entry (entry_v OR (push_bit (VIRT2BIT dst) (g_src AND VCPU_MASK32)))
     }"

definition bit_r2m_binary_opq ::
  "malloc_outcome \<Rightarrow> bit_state \<Rightarrow> addr \<Rightarrow> nat \<Rightarrow>
    bit_state option" where
  "bit_r2m_binary_opq mal tc dst src =
     do {
       (entry, tc) \<leftarrow> ENTRY mal tc dst;
       g_src \<leftarrow> GPR tc src;
       entry_v \<leftarrow> LOAD tc entry;
       STORE tc entry (entry_v OR (push_bit (VIRT2BIT dst) (g_src AND VCPU_MASK64)))
     }"

subsection \<open>Calls and their flows\<close>

fun exec_bit_alu ::
  "malloc_outcome \<Rightarrow> alu_call \<Rightarrow> bit_state \<Rightarrow> bit_state option"
    where
    "exec_bit_alu mal (Lea_r2r_opw dst base index) tc = bit_lea_r2r_opw tc dst base index"
  | "exec_bit_alu mal (Lea_r2r_opl dst base index) tc = bit_lea_r2r_opl tc dst base index"
  | "exec_bit_alu mal (Lea_r2r_opq dst base index) tc = bit_lea_r2r_opq tc dst base index"
  | "exec_bit_alu mal (R2r_ternary_opb_u src) tc = bit_r2r_ternary_opb_u tc src"
  | "exec_bit_alu mal (R2r_ternary_opb_l src) tc = bit_r2r_ternary_opb_l tc src"
  | "exec_bit_alu mal (R2r_ternary_opw src) tc = bit_r2r_ternary_opw tc src"
  | "exec_bit_alu mal (R2r_ternary_opl src) tc = bit_r2r_ternary_opl tc src"
  | "exec_bit_alu mal (R2r_ternary_opq src) tc = bit_r2r_ternary_opq tc src"
  | "exec_bit_alu mal (M2r_ternary_opb src) tc = bit_m2r_ternary_opb mal tc src"
  | "exec_bit_alu mal (M2r_ternary_opw src) tc = bit_m2r_ternary_opw mal tc src"
  | "exec_bit_alu mal (M2r_ternary_opl src) tc = bit_m2r_ternary_opl mal tc src"
  | "exec_bit_alu mal (M2r_ternary_opq src) tc = bit_m2r_ternary_opq mal tc src"
  | "exec_bit_alu mal (R2r_binary_opb_ul dst src) tc = bit_r2r_binary_opb_ul tc dst src"
  | "exec_bit_alu mal (R2r_binary_opb_lu dst src) tc = bit_r2r_binary_opb_lu tc dst src"
  | "exec_bit_alu mal (R2r_binary_opb_u dst src) tc = bit_r2r_binary_opb_u tc dst src"
  | "exec_bit_alu mal (R2r_binary_opb_l dst src) tc = bit_r2r_binary_opb_l tc dst src"
  | "exec_bit_alu mal (R2r_binary_opw dst src) tc = bit_r2r_binary_opw tc dst src"
  | "exec_bit_alu mal (R2r_binary_opl dst src) tc = bit_r2r_binary_opl tc dst src"
  | "exec_bit_alu mal (R2r_binary_opq dst src) tc = bit_r2r_binary_opq tc dst src"
  | "exec_bit_alu mal (M2r_binary_opb_u dst src) tc = bit_m2r_binary_opb_u mal tc dst src"
  | "exec_bit_alu mal (M2r_binary_opb_l dst src) tc = bit_m2r_binary_opb_l mal tc dst src"
  | "exec_bit_alu mal (M2r_binary_opw dst src) tc = bit_m2r_binary_opw mal tc dst src"
  | "exec_bit_alu mal (M2r_binary_opl dst src) tc = bit_m2r_binary_opl mal tc dst src"
  | "exec_bit_alu mal (M2r_binary_opq dst src) tc = bit_m2r_binary_opq mal tc dst src"
  | "exec_bit_alu mal (R2m_binary_opb_u dst src) tc = bit_r2m_binary_opb_u mal tc dst src"
  | "exec_bit_alu mal (R2m_binary_opb_l dst src) tc = bit_r2m_binary_opb_l mal tc dst src"
  | "exec_bit_alu mal (R2m_binary_opw dst src) tc = bit_r2m_binary_opw mal tc dst src"
  | "exec_bit_alu mal (R2m_binary_opl dst src) tc = bit_r2m_binary_opl mal tc dst src"
  | "exec_bit_alu mal (R2m_binary_opq dst src) tc = bit_r2m_binary_opq mal tc dst src"

fun bit_alu_flow ::
  "alu_call \<Rightarrow> bit_flow" where
    "bit_alu_flow (Lea_r2r_opw dst base index) =
     (on_reg dst 0 2 (\<lambda>i. [Reg base i, Reg index i]) keep)"
  | "bit_alu_flow (Lea_r2r_opl dst base index) =
     (on_reg dst 0 8 (\<lambda>i. if i < 4 then [Reg base i, Reg index i] else []) keep)"
  | "bit_alu_flow (Lea_r2r_opq dst base index) =
     (on_reg dst 0 8 (\<lambda>i. [Reg base i, Reg index i]) keep)"
  | "bit_alu_flow (R2r_ternary_opb_u src) =
     (on_reg 7 0 2 (\<lambda>i. [Reg 7 i, Reg src 1]) keep)"
  | "bit_alu_flow (R2r_ternary_opb_l src) =
     (on_reg 7 0 2 (\<lambda>i. [Reg 7 i, Reg src 0]) keep)"
  | "bit_alu_flow (R2r_ternary_opw src) =
     (on_reg 7 0 2 (\<lambda>i. [Reg 7 i, Reg src i]) (on_reg 5 0 2 (\<lambda>i. [Reg 5 i, Reg
       src i]) keep))"
  | "bit_alu_flow (R2r_ternary_opl src) =
     (on_reg 7 0 8 (\<lambda>i. if i < 4 then [Reg 7 i, Reg src i] else []) (on_reg 5 0 8
       (\<lambda>i. if i < 4 then [Reg 5 i, Reg src i] else []) keep))"
  | "bit_alu_flow (R2r_ternary_opq src) =
     (on_reg 7 0 8 (\<lambda>i. [Reg 7 i, Reg src i]) (on_reg 5 0 8 (\<lambda>i. [Reg 5 i, Reg
       src i]) keep))"
  | "bit_alu_flow (M2r_ternary_opb src) =
     (on_reg 7 0 2 (\<lambda>i. [Reg 7 i, Mem src]) keep)"
  | "bit_alu_flow (M2r_ternary_opw src) =
     (on_reg 7 0 2 (\<lambda>i. [Reg 7 i, Mem (src + of_nat i)]) (on_reg 5 0 2 (\<lambda>i. [Reg
       5 i, Mem (src + of_nat i)]) keep))"
  | "bit_alu_flow (M2r_ternary_opl src) =
     (on_reg 7 0 8 (\<lambda>i. if i < 4 then [Reg 7 i, Mem (src + of_nat i)] else []) (on_reg 5
       0 8 (\<lambda>i. if i < 4 then [Reg 5 i, Mem (src + of_nat i)] else []) keep))"
  | "bit_alu_flow (M2r_ternary_opq src) =
     (on_reg 7 0 8 (\<lambda>i. [Reg 7 i, Mem (src + of_nat i)]) (on_reg 5 0 8 (\<lambda>i. [Reg
       5 i, Mem (src + of_nat i)]) keep))"
  | "bit_alu_flow (R2r_binary_opb_ul dst src) =
     (on_reg dst 1 2 (\<lambda>i. [Reg dst 1, Reg src 0]) keep)"
  | "bit_alu_flow (R2r_binary_opb_lu dst src) =
     (on_reg dst 0 1 (\<lambda>i. [Reg dst 0, Reg src 1]) keep)"
  | "bit_alu_flow (R2r_binary_opb_u dst src) =
     (on_reg dst 1 2 (\<lambda>i. [Reg dst 1, Reg src 1]) keep)"
  | "bit_alu_flow (R2r_binary_opb_l dst src) =
     (on_reg dst 0 1 (\<lambda>i. [Reg dst 0, Reg src 0]) keep)"
  | "bit_alu_flow (R2r_binary_opw dst src) =
     (on_reg dst 0 2 (\<lambda>i. [Reg dst i, Reg src i]) keep)"
  | "bit_alu_flow (R2r_binary_opl dst src) =
     (on_reg dst 0 8 (\<lambda>i. if i < 4 then [Reg dst i, Reg src i] else []) keep)"
  | "bit_alu_flow (R2r_binary_opq dst src) =
     (on_reg dst 0 8 (\<lambda>i. [Reg dst i, Reg src i]) keep)"
  | "bit_alu_flow (M2r_binary_opb_u dst src) =
     (on_reg dst 1 2 (\<lambda>i. [Reg dst 1, Mem src]) keep)"
  | "bit_alu_flow (M2r_binary_opb_l dst src) =
     (on_reg dst 0 1 (\<lambda>i. [Reg dst 0, Mem src]) keep)"
  | "bit_alu_flow (M2r_binary_opw dst src) =
     (on_reg dst 0 2 (\<lambda>i. [Reg dst i, Mem (src + of_nat i)]) keep)"
  | "bit_alu_flow (M2r_binary_opl dst src) =
     (on_reg dst 0 8 (\<lambda>i. if i < 4 then [Reg dst i, Mem (src + of_nat i)] else []) keep)"
  | "bit_alu_flow (M2r_binary_opq dst src) =
     (on_reg dst 0 8 (\<lambda>i. [Reg dst i, Mem (src + of_nat i)]) keep)"
  | "bit_alu_flow (R2m_binary_opb_u dst src) =
     (on_mem dst 1 (\<lambda>i. [Mem dst, Reg src 1]) keep)"
  | "bit_alu_flow (R2m_binary_opb_l dst src) =
     (on_mem dst 1 (\<lambda>i. [Mem dst, Reg src 0]) keep)"
  | "bit_alu_flow (R2m_binary_opw dst src) =
     (on_mem dst 2 (\<lambda>i. [Mem (dst + of_nat i), Reg src i]) keep)"
  | "bit_alu_flow (R2m_binary_opl dst src) =
     (on_mem dst 4 (\<lambda>i. [Mem (dst + of_nat i), Reg src i]) keep)"
  | "bit_alu_flow (R2m_binary_opq dst src) =
     (on_mem dst 8 (\<lambda>i. [Mem (dst + of_nat i), Reg src i]) keep)"

fun bit_alu_ok ::
  "alu_call \<Rightarrow> bool" where
    "bit_alu_ok (Lea_r2r_opw dst base index) \<longleftrightarrow> dst < 17 \<and> base < 17
      \<and> index < 17"
  | "bit_alu_ok (Lea_r2r_opl dst base index) \<longleftrightarrow> dst < 17 \<and> base < 17
    \<and> index < 17"
  | "bit_alu_ok (Lea_r2r_opq dst base index) \<longleftrightarrow> dst < 17 \<and> base < 17
    \<and> index < 17"
  | "bit_alu_ok (R2r_ternary_opb_u src) \<longleftrightarrow> src < 17"
  | "bit_alu_ok (R2r_ternary_opb_l src) \<longleftrightarrow> src < 17"
  | "bit_alu_ok (R2r_ternary_opw src) \<longleftrightarrow> src < 17"
  | "bit_alu_ok (R2r_ternary_opl src) \<longleftrightarrow> src < 17"
  | "bit_alu_ok (R2r_ternary_opq src) \<longleftrightarrow> src < 17"
  | "bit_alu_ok (M2r_ternary_opb src) \<longleftrightarrow> mem_ok src"
  | "bit_alu_ok (M2r_ternary_opw src) \<longleftrightarrow> mem_ok src"
  | "bit_alu_ok (M2r_ternary_opl src) \<longleftrightarrow> mem_ok src"
  | "bit_alu_ok (M2r_ternary_opq src) \<longleftrightarrow> mem_ok src"
  | "bit_alu_ok (R2r_binary_opb_ul dst src) \<longleftrightarrow> dst < 17 \<and> src < 17"
  | "bit_alu_ok (R2r_binary_opb_lu dst src) \<longleftrightarrow> dst < 17 \<and> src < 17"
  | "bit_alu_ok (R2r_binary_opb_u dst src) \<longleftrightarrow> dst < 17 \<and> src < 17"
  | "bit_alu_ok (R2r_binary_opb_l dst src) \<longleftrightarrow> dst < 17 \<and> src < 17"
  | "bit_alu_ok (R2r_binary_opw dst src) \<longleftrightarrow> dst < 17 \<and> src < 17"
  | "bit_alu_ok (R2r_binary_opl dst src) \<longleftrightarrow> dst < 17 \<and> src < 17"
  | "bit_alu_ok (R2r_binary_opq dst src) \<longleftrightarrow> dst < 17 \<and> src < 17"
  | "bit_alu_ok (M2r_binary_opb_u dst src) \<longleftrightarrow> dst < 17 \<and> mem_ok src"
  | "bit_alu_ok (M2r_binary_opb_l dst src) \<longleftrightarrow> dst < 17 \<and> mem_ok src"
  | "bit_alu_ok (M2r_binary_opw dst src) \<longleftrightarrow> dst < 17 \<and> mem_ok src"
  | "bit_alu_ok (M2r_binary_opl dst src) \<longleftrightarrow> dst < 17 \<and> mem_ok src"
  | "bit_alu_ok (M2r_binary_opq dst src) \<longleftrightarrow> dst < 17 \<and> mem_ok src"
  | "bit_alu_ok (R2m_binary_opb_u dst src) \<longleftrightarrow> mem_ok dst \<and> src < 17"
  | "bit_alu_ok (R2m_binary_opb_l dst src) \<longleftrightarrow> mem_ok dst \<and> src < 17"
  | "bit_alu_ok (R2m_binary_opw dst src) \<longleftrightarrow> mem_ok dst \<and> src < 17"
  | "bit_alu_ok (R2m_binary_opl dst src) \<longleftrightarrow> mem_ok dst \<and> src < 17"
  | "bit_alu_ok (R2m_binary_opq dst src) \<longleftrightarrow> mem_ok dst \<and> src < 17"

subsection \<open>Each call performs its flow\<close>

lemma lea_r2r_opw_runs:
  "bit_ready mal tc \<Longrightarrow> bit_alu_ok (Lea_r2r_opw dst base index) \<Longrightarrow>
   bit_runs (bit_alu_flow (Lea_r2r_opw dst base index)) tc (exec_bit_alu mal (Lea_r2r_opw dst
     base index) tc)"
  by (simp add: bit_ready_def bit_wf_def bit_lea_r2r_opw_def bit_exec Let_def)
    (auto intro!: bit_runs_intros simp: bit_eval dest: bit_low split: if_splits)

lemma lea_r2r_opl_runs:
  "bit_ready mal tc \<Longrightarrow> bit_alu_ok (Lea_r2r_opl dst base index) \<Longrightarrow>
   bit_runs (bit_alu_flow (Lea_r2r_opl dst base index)) tc (exec_bit_alu mal (Lea_r2r_opl dst
     base index) tc)"
  by (simp add: bit_ready_def bit_wf_def bit_lea_r2r_opl_def bit_exec Let_def)
    (auto intro!: bit_runs_intros simp: bit_eval dest: bit_low split: if_splits)

lemma lea_r2r_opq_runs:
  "bit_ready mal tc \<Longrightarrow> bit_alu_ok (Lea_r2r_opq dst base index) \<Longrightarrow>
   bit_runs (bit_alu_flow (Lea_r2r_opq dst base index)) tc (exec_bit_alu mal (Lea_r2r_opq dst
     base index) tc)"
  by (simp add: bit_ready_def bit_wf_def bit_lea_r2r_opq_def bit_exec Let_def)
    (auto intro!: bit_runs_intros simp: bit_eval dest: bit_low split: if_splits)

lemma r2r_ternary_opb_u_runs:
  "bit_ready mal tc \<Longrightarrow> bit_alu_ok (R2r_ternary_opb_u src) \<Longrightarrow>
   bit_runs (bit_alu_flow (R2r_ternary_opb_u src)) tc (exec_bit_alu mal (R2r_ternary_opb_u src) tc)"
  by (simp add: bit_ready_def bit_wf_def bit_r2r_ternary_opb_u_def bit_exec Let_def)
    (auto intro!: bit_runs_intros simp: bit_eval dest: bit_low split: if_splits)

lemma r2r_ternary_opb_l_runs:
  "bit_ready mal tc \<Longrightarrow> bit_alu_ok (R2r_ternary_opb_l src) \<Longrightarrow>
   bit_runs (bit_alu_flow (R2r_ternary_opb_l src)) tc (exec_bit_alu mal (R2r_ternary_opb_l src) tc)"
  by (simp add: bit_ready_def bit_wf_def bit_r2r_ternary_opb_l_def bit_exec Let_def)
    (auto intro!: bit_runs_intros simp: bit_eval dest: bit_low split: if_splits)

lemma r2r_ternary_opw_runs:
  "bit_ready mal tc \<Longrightarrow> bit_alu_ok (R2r_ternary_opw src) \<Longrightarrow>
   bit_runs (bit_alu_flow (R2r_ternary_opw src)) tc (exec_bit_alu mal (R2r_ternary_opw src) tc)"
  by (simp add: bit_ready_def bit_wf_def bit_r2r_ternary_opw_def bit_exec Let_def)
    (auto intro!: bit_runs_intros simp: bit_eval dest: bit_low split: if_splits)

lemma r2r_ternary_opl_runs:
  "bit_ready mal tc \<Longrightarrow> bit_alu_ok (R2r_ternary_opl src) \<Longrightarrow>
   bit_runs (bit_alu_flow (R2r_ternary_opl src)) tc (exec_bit_alu mal (R2r_ternary_opl src) tc)"
  by (simp add: bit_ready_def bit_wf_def bit_r2r_ternary_opl_def bit_exec Let_def)
    (auto intro!: bit_runs_intros simp: bit_eval dest: bit_low split: if_splits)

lemma r2r_ternary_opq_runs:
  "bit_ready mal tc \<Longrightarrow> bit_alu_ok (R2r_ternary_opq src) \<Longrightarrow>
   bit_runs (bit_alu_flow (R2r_ternary_opq src)) tc (exec_bit_alu mal (R2r_ternary_opq src) tc)"
  by (simp add: bit_ready_def bit_wf_def bit_r2r_ternary_opq_def bit_exec Let_def)
    (auto intro!: bit_runs_intros simp: bit_eval dest: bit_low split: if_splits)

lemma m2r_ternary_opb_runs:
  "bit_ready mal tc \<Longrightarrow> bit_alu_ok (M2r_ternary_opb src) \<Longrightarrow>
   bit_runs (bit_alu_flow (M2r_ternary_opb src)) tc (exec_bit_alu mal (M2r_ternary_opb src) tc)"
  by (simp add: bit_ready_def bit_wf_def bit_m2r_ternary_opb_def bit_exec Let_def)
    (auto intro!: bit_runs_intros simp: bit_eval dest: bit_low split: if_splits)

lemma m2r_ternary_opw_runs:
  "bit_ready mal tc \<Longrightarrow> bit_alu_ok (M2r_ternary_opw src) \<Longrightarrow>
   bit_runs (bit_alu_flow (M2r_ternary_opw src)) tc (exec_bit_alu mal (M2r_ternary_opw src) tc)"
  by (simp add: bit_ready_def bit_wf_def bit_m2r_ternary_opw_def bit_exec Let_def)
    (auto intro!: bit_runs_intros simp: bit_eval dest: bit_low split: if_splits)

lemma m2r_ternary_opl_runs:
  "bit_ready mal tc \<Longrightarrow> bit_alu_ok (M2r_ternary_opl src) \<Longrightarrow>
   bit_runs (bit_alu_flow (M2r_ternary_opl src)) tc (exec_bit_alu mal (M2r_ternary_opl src) tc)"
  by (simp add: bit_ready_def bit_wf_def bit_m2r_ternary_opl_def bit_exec Let_def)
    (auto intro!: bit_runs_intros simp: bit_eval dest: bit_low split: if_splits)

lemma m2r_ternary_opq_runs:
  "bit_ready mal tc \<Longrightarrow> bit_alu_ok (M2r_ternary_opq src) \<Longrightarrow>
   bit_runs (bit_alu_flow (M2r_ternary_opq src)) tc (exec_bit_alu mal (M2r_ternary_opq src) tc)"
  by (simp add: bit_ready_def bit_wf_def bit_m2r_ternary_opq_def bit_exec Let_def)
    (auto intro!: bit_runs_intros simp: bit_eval dest: bit_low split: if_splits)

lemma r2r_binary_opb_ul_runs:
  "bit_ready mal tc \<Longrightarrow> bit_alu_ok (R2r_binary_opb_ul dst src) \<Longrightarrow>
   bit_runs (bit_alu_flow (R2r_binary_opb_ul dst src)) tc (exec_bit_alu mal (R2r_binary_opb_ul
     dst src) tc)"
  by (simp add: bit_ready_def bit_wf_def bit_r2r_binary_opb_ul_def bit_exec Let_def)
    (auto intro!: bit_runs_intros simp: bit_eval dest: bit_low split: if_splits)

lemma r2r_binary_opb_lu_runs:
  "bit_ready mal tc \<Longrightarrow> bit_alu_ok (R2r_binary_opb_lu dst src) \<Longrightarrow>
   bit_runs (bit_alu_flow (R2r_binary_opb_lu dst src)) tc (exec_bit_alu mal (R2r_binary_opb_lu
     dst src) tc)"
  by (simp add: bit_ready_def bit_wf_def bit_r2r_binary_opb_lu_def bit_exec Let_def)
    (auto intro!: bit_runs_intros simp: bit_eval dest: bit_low split: if_splits)

lemma r2r_binary_opb_u_runs:
  "bit_ready mal tc \<Longrightarrow> bit_alu_ok (R2r_binary_opb_u dst src) \<Longrightarrow>
   bit_runs (bit_alu_flow (R2r_binary_opb_u dst src)) tc (exec_bit_alu mal (R2r_binary_opb_u dst
     src) tc)"
  by (simp add: bit_ready_def bit_wf_def bit_r2r_binary_opb_u_def bit_exec Let_def)
    (auto intro!: bit_runs_intros simp: bit_eval dest: bit_low split: if_splits)

lemma r2r_binary_opb_l_runs:
  "bit_ready mal tc \<Longrightarrow> bit_alu_ok (R2r_binary_opb_l dst src) \<Longrightarrow>
   bit_runs (bit_alu_flow (R2r_binary_opb_l dst src)) tc (exec_bit_alu mal (R2r_binary_opb_l dst
     src) tc)"
  by (simp add: bit_ready_def bit_wf_def bit_r2r_binary_opb_l_def bit_exec Let_def)
    (auto intro!: bit_runs_intros simp: bit_eval dest: bit_low split: if_splits)

lemma r2r_binary_opw_runs:
  "bit_ready mal tc \<Longrightarrow> bit_alu_ok (R2r_binary_opw dst src) \<Longrightarrow>
   bit_runs (bit_alu_flow (R2r_binary_opw dst src)) tc (exec_bit_alu mal (R2r_binary_opw dst src)
     tc)"
  by (simp add: bit_ready_def bit_wf_def bit_r2r_binary_opw_def bit_exec Let_def)
    (auto intro!: bit_runs_intros simp: bit_eval dest: bit_low split: if_splits)

lemma r2r_binary_opl_runs:
  "bit_ready mal tc \<Longrightarrow> bit_alu_ok (R2r_binary_opl dst src) \<Longrightarrow>
   bit_runs (bit_alu_flow (R2r_binary_opl dst src)) tc (exec_bit_alu mal (R2r_binary_opl dst src)
     tc)"
  by (simp add: bit_ready_def bit_wf_def bit_r2r_binary_opl_def bit_exec Let_def)
    (auto intro!: bit_runs_intros simp: bit_eval dest: bit_low split: if_splits)

lemma r2r_binary_opq_runs:
  "bit_ready mal tc \<Longrightarrow> bit_alu_ok (R2r_binary_opq dst src) \<Longrightarrow>
   bit_runs (bit_alu_flow (R2r_binary_opq dst src)) tc (exec_bit_alu mal (R2r_binary_opq dst src)
     tc)"
  by (simp add: bit_ready_def bit_wf_def bit_r2r_binary_opq_def bit_exec Let_def)
    (auto intro!: bit_runs_intros simp: bit_eval dest: bit_low split: if_splits)

lemma m2r_binary_opb_u_runs:
  "bit_ready mal tc \<Longrightarrow> bit_alu_ok (M2r_binary_opb_u dst src) \<Longrightarrow>
   bit_runs (bit_alu_flow (M2r_binary_opb_u dst src)) tc (exec_bit_alu mal (M2r_binary_opb_u dst
     src) tc)"
  by (simp add: bit_ready_def bit_wf_def bit_m2r_binary_opb_u_def bit_exec Let_def)
    (auto intro!: bit_runs_intros simp: bit_eval dest: bit_low split: if_splits)

lemma m2r_binary_opb_l_runs:
  "bit_ready mal tc \<Longrightarrow> bit_alu_ok (M2r_binary_opb_l dst src) \<Longrightarrow>
   bit_runs (bit_alu_flow (M2r_binary_opb_l dst src)) tc (exec_bit_alu mal (M2r_binary_opb_l dst
     src) tc)"
  by (simp add: bit_ready_def bit_wf_def bit_m2r_binary_opb_l_def bit_exec Let_def)
    (auto intro!: bit_runs_intros simp: bit_eval dest: bit_low split: if_splits)

lemma m2r_binary_opw_runs:
  "bit_ready mal tc \<Longrightarrow> bit_alu_ok (M2r_binary_opw dst src) \<Longrightarrow>
   bit_runs (bit_alu_flow (M2r_binary_opw dst src)) tc (exec_bit_alu mal (M2r_binary_opw dst src)
     tc)"
  by (simp add: bit_ready_def bit_wf_def bit_m2r_binary_opw_def bit_exec Let_def)
    (auto intro!: bit_runs_intros simp: bit_eval dest: bit_low split: if_splits)

lemma m2r_binary_opl_runs:
  "bit_ready mal tc \<Longrightarrow> bit_alu_ok (M2r_binary_opl dst src) \<Longrightarrow>
   bit_runs (bit_alu_flow (M2r_binary_opl dst src)) tc (exec_bit_alu mal (M2r_binary_opl dst src)
     tc)"
  by (simp add: bit_ready_def bit_wf_def bit_m2r_binary_opl_def bit_exec Let_def)
    (auto intro!: bit_runs_intros simp: bit_eval dest: bit_low split: if_splits)

lemma m2r_binary_opq_runs:
  "bit_ready mal tc \<Longrightarrow> bit_alu_ok (M2r_binary_opq dst src) \<Longrightarrow>
   bit_runs (bit_alu_flow (M2r_binary_opq dst src)) tc (exec_bit_alu mal (M2r_binary_opq dst src)
     tc)"
  by (simp add: bit_ready_def bit_wf_def bit_m2r_binary_opq_def bit_exec Let_def)
    (auto intro!: bit_runs_intros simp: bit_eval dest: bit_low split: if_splits)

lemma r2m_binary_opb_u_runs:
  "bit_ready mal tc \<Longrightarrow> bit_alu_ok (R2m_binary_opb_u dst src) \<Longrightarrow>
   bit_runs (bit_alu_flow (R2m_binary_opb_u dst src)) tc (exec_bit_alu mal (R2m_binary_opb_u dst
     src) tc)"
  by (simp add: bit_ready_def bit_wf_def bit_r2m_binary_opb_u_def bit_exec Let_def)
    (auto intro!: bit_runs_intros simp: bit_eval dest: bit_low split: if_splits)

lemma r2m_binary_opb_l_runs:
  "bit_ready mal tc \<Longrightarrow> bit_alu_ok (R2m_binary_opb_l dst src) \<Longrightarrow>
   bit_runs (bit_alu_flow (R2m_binary_opb_l dst src)) tc (exec_bit_alu mal (R2m_binary_opb_l dst
     src) tc)"
  by (simp add: bit_ready_def bit_wf_def bit_r2m_binary_opb_l_def bit_exec Let_def)
    (auto intro!: bit_runs_intros simp: bit_eval dest: bit_low split: if_splits)

lemma r2m_binary_opw_runs:
  "bit_ready mal tc \<Longrightarrow> bit_alu_ok (R2m_binary_opw dst src) \<Longrightarrow>
   bit_runs (bit_alu_flow (R2m_binary_opw dst src)) tc (exec_bit_alu mal (R2m_binary_opw dst src)
     tc)"
  by (simp add: bit_ready_def bit_wf_def bit_r2m_binary_opw_def bit_exec Let_def)
    (auto intro!: bit_runs_intros simp: bit_eval dest: bit_low split: if_splits)

lemma r2m_binary_opl_runs:
  "bit_ready mal tc \<Longrightarrow> bit_alu_ok (R2m_binary_opl dst src) \<Longrightarrow>
   bit_runs (bit_alu_flow (R2m_binary_opl dst src)) tc (exec_bit_alu mal (R2m_binary_opl dst src)
     tc)"
  by (simp add: bit_ready_def bit_wf_def bit_r2m_binary_opl_def bit_exec Let_def)
    (auto intro!: bit_runs_intros simp: bit_eval dest: bit_low split: if_splits)

lemma r2m_binary_opq_runs:
  "bit_ready mal tc \<Longrightarrow> bit_alu_ok (R2m_binary_opq dst src) \<Longrightarrow>
   bit_runs (bit_alu_flow (R2m_binary_opq dst src)) tc (exec_bit_alu mal (R2m_binary_opq dst src)
     tc)"
  by (simp add: bit_ready_def bit_wf_def bit_r2m_binary_opq_def bit_exec Let_def)
    (auto intro!: bit_runs_intros simp: bit_eval dest: bit_low split: if_splits)

lemmas bit_alu_runs =
  lea_r2r_opw_runs lea_r2r_opl_runs lea_r2r_opq_runs
  r2r_ternary_opb_u_runs r2r_ternary_opb_l_runs r2r_ternary_opw_runs
  r2r_ternary_opl_runs r2r_ternary_opq_runs m2r_ternary_opb_runs
  m2r_ternary_opw_runs m2r_ternary_opl_runs m2r_ternary_opq_runs
  r2r_binary_opb_ul_runs r2r_binary_opb_lu_runs r2r_binary_opb_u_runs
  r2r_binary_opb_l_runs r2r_binary_opw_runs r2r_binary_opl_runs
  r2r_binary_opq_runs m2r_binary_opb_u_runs m2r_binary_opb_l_runs
  m2r_binary_opw_runs m2r_binary_opl_runs m2r_binary_opq_runs
  r2m_binary_opb_u_runs r2m_binary_opb_l_runs r2m_binary_opw_runs
  r2m_binary_opl_runs r2m_binary_opq_runs

lemma exec_bit_alu_runs:
  "bit_ready mal tc \<Longrightarrow> bit_alu_ok c \<Longrightarrow> bit_runs (bit_alu_flow c) tc
    (exec_bit_alu mal c tc)"
  by (cases c) (simp_all only: bit_alu_runs bit_alu_ok.simps)

end
