(* ===== verification/BitXfer.thy ===== *)
theory BitXfer
  imports BitState CoreXfer
begin

text \<open>
  Clearing and transfer in the build without \<^verbatim>\<open>USE_CUSTOM_TAG\<close>: the other
    branches of the routines of
  theory \<^verbatim>\<open>CoreXfer\<close>, and their data flows. The repeated stores
    (\<^verbatim>\<open>r2m_xfer_opbn\<close> to \<^verbatim>\<open>r2m_xfer_opqn\<close>) set or
      clear a whole range
  after one test of the source register.
\<close>

declare push_bit_Suc [simp del] drop_bit_Suc [simp del] of_nat_diff [simp del]

subsection \<open>Routines\<close>

definition bit_r_clrl4 ::
  "bit_state \<Rightarrow> bit_state option" where
  "bit_r_clrl4 tc =
     do {
       tc \<leftarrow> set_GPR tc 4 0;
       tc \<leftarrow> set_GPR tc 5 0;
       tc \<leftarrow> set_GPR tc 6 0;
       set_GPR tc 7 0
     }"

definition bit_r_clrl2 ::
  "bit_state \<Rightarrow> bit_state option" where
  "bit_r_clrl2 tc =
     do {
       tc \<leftarrow> set_GPR tc 5 0;
       set_GPR tc 7 0
     }"

definition bit_r_clrq ::
  "bit_state \<Rightarrow> nat \<Rightarrow> bit_state option" where
  "bit_r_clrq tc reg =
     set_GPR tc reg 0"

definition bit_r_clrl ::
  "bit_state \<Rightarrow> nat \<Rightarrow> bit_state option" where
  "bit_r_clrl tc reg =
     set_GPR tc reg 0"

definition bit_r_clrw ::
  "bit_state \<Rightarrow> nat \<Rightarrow> bit_state option" where
  "bit_r_clrw tc reg =
     do {
       g_reg \<leftarrow> GPR tc reg;
       set_GPR tc reg (g_reg AND (NOT VCPU_MASK16))
     }"

definition bit_r_clrb_u ::
  "bit_state \<Rightarrow> nat \<Rightarrow> bit_state option" where
  "bit_r_clrb_u tc reg =
     do {
       g_reg \<leftarrow> GPR tc reg;
       set_GPR tc reg (g_reg AND (NOT (push_bit 1 VCPU_MASK8)))
     }"

definition bit_r_clrb_l ::
  "bit_state \<Rightarrow> nat \<Rightarrow> bit_state option" where
  "bit_r_clrb_l tc reg =
     do {
       g_reg \<leftarrow> GPR tc reg;
       set_GPR tc reg (g_reg AND (NOT VCPU_MASK8))
     }"

definition bit_r2r_xfer_opb_ul ::
  "bit_state \<Rightarrow> nat \<Rightarrow> nat \<Rightarrow> bit_state option" where
  "bit_r2r_xfer_opb_ul tc dst src =
     do {
       g_dst \<leftarrow> GPR tc dst;
       g_src \<leftarrow> GPR tc src;
       set_GPR tc dst ((g_dst AND (NOT (push_bit 1 VCPU_MASK8))) OR (push_bit 1 (g_src AND
         VCPU_MASK8)))
     }"

definition bit_r2r_xfer_opb_lu ::
  "bit_state \<Rightarrow> nat \<Rightarrow> nat \<Rightarrow> bit_state option" where
  "bit_r2r_xfer_opb_lu tc dst src =
     do {
       g_dst \<leftarrow> GPR tc dst;
       g_src \<leftarrow> GPR tc src;
       set_GPR tc dst ((g_dst AND (NOT VCPU_MASK8)) OR (drop_bit 1 (g_src AND (push_bit 1
         VCPU_MASK8))))
     }"

definition bit_r2r_xfer_opb_u ::
  "bit_state \<Rightarrow> nat \<Rightarrow> nat \<Rightarrow> bit_state option" where
  "bit_r2r_xfer_opb_u tc dst src =
     do {
       g_dst \<leftarrow> GPR tc dst;
       g_src \<leftarrow> GPR tc src;
       set_GPR tc dst ((g_dst AND (NOT (push_bit 1 VCPU_MASK8))) OR (g_src AND (push_bit 1
         VCPU_MASK8)))
     }"

definition bit_r2r_xfer_opb_l ::
  "bit_state \<Rightarrow> nat \<Rightarrow> nat \<Rightarrow> bit_state option" where
  "bit_r2r_xfer_opb_l tc dst src =
     do {
       g_dst \<leftarrow> GPR tc dst;
       g_src \<leftarrow> GPR tc src;
       set_GPR tc dst ((g_dst AND (NOT VCPU_MASK8)) OR (g_src AND VCPU_MASK8))
     }"

definition bit_r2r_xfer_opw ::
  "bit_state \<Rightarrow> nat \<Rightarrow> nat \<Rightarrow> bit_state option" where
  "bit_r2r_xfer_opw tc dst src =
     do {
       g_dst \<leftarrow> GPR tc dst;
       g_src \<leftarrow> GPR tc src;
       set_GPR tc dst ((g_dst AND (NOT VCPU_MASK16)) OR (g_src AND VCPU_MASK16))
     }"

definition bit_r2r_xfer_opl ::
  "bit_state \<Rightarrow> nat \<Rightarrow> nat \<Rightarrow> bit_state option" where
  "bit_r2r_xfer_opl tc dst src =
     do {
       g_src \<leftarrow> GPR tc src;
       set_GPR tc dst (g_src AND VCPU_MASK32)
     }"

definition bit_r2r_xfer_opq ::
  "bit_state \<Rightarrow> nat \<Rightarrow> nat \<Rightarrow> bit_state option" where
  "bit_r2r_xfer_opq tc dst src =
     do {
       g_src \<leftarrow> GPR tc src;
       set_GPR tc dst g_src
     }"

definition bit_m2r_xfer_opb_u ::
  "malloc_outcome \<Rightarrow> bit_state \<Rightarrow> nat \<Rightarrow> addr \<Rightarrow>
    bit_state option" where
  "bit_m2r_xfer_opb_u mal tc dst src =
     do {
       (entry, tc) \<leftarrow> ENTRY mal tc src;
       g_dst \<leftarrow> GPR tc dst;
       entry_v \<leftarrow> LOAD tc entry;
       set_GPR tc dst ((g_dst AND (NOT (push_bit 1 VCPU_MASK8))) OR ((push_bit 1 (drop_bit
         (VIRT2BIT src) entry_v)) AND (push_bit 1 VCPU_MASK8)))
     }"

definition bit_m2r_xfer_opb_l ::
  "malloc_outcome \<Rightarrow> bit_state \<Rightarrow> nat \<Rightarrow> addr \<Rightarrow>
    bit_state option" where
  "bit_m2r_xfer_opb_l mal tc dst src =
     do {
       (entry, tc) \<leftarrow> ENTRY mal tc src;
       g_dst \<leftarrow> GPR tc dst;
       entry_v \<leftarrow> LOAD tc entry;
       set_GPR tc dst ((g_dst AND (NOT VCPU_MASK8)) OR ((drop_bit (VIRT2BIT src) entry_v) AND
         VCPU_MASK8))
     }"

definition bit_m2r_xfer_opw ::
  "malloc_outcome \<Rightarrow> bit_state \<Rightarrow> nat \<Rightarrow> addr \<Rightarrow>
    bit_state option" where
  "bit_m2r_xfer_opw mal tc dst src =
     do {
       (entry, tc) \<leftarrow> ENTRY mal tc src;
       g_dst \<leftarrow> GPR tc dst;
       entry_v \<leftarrow> LOAD tc entry;
       set_GPR tc dst ((g_dst AND (NOT VCPU_MASK16)) OR ((drop_bit (VIRT2BIT src) entry_v) AND
         VCPU_MASK16))
     }"

definition bit_m2r_xfer_opl ::
  "malloc_outcome \<Rightarrow> bit_state \<Rightarrow> nat \<Rightarrow> addr \<Rightarrow>
    bit_state option" where
  "bit_m2r_xfer_opl mal tc dst src =
     do {
       (entry, tc) \<leftarrow> ENTRY mal tc src;
       entry_v \<leftarrow> LOAD tc entry;
       set_GPR tc dst ((drop_bit (VIRT2BIT src) entry_v) AND VCPU_MASK32)
     }"

definition bit_m2r_xfer_opq ::
  "malloc_outcome \<Rightarrow> bit_state \<Rightarrow> nat \<Rightarrow> addr \<Rightarrow>
    bit_state option" where
  "bit_m2r_xfer_opq mal tc dst src =
     do {
       (entry, tc) \<leftarrow> ENTRY mal tc src;
       entry_v \<leftarrow> LOAD tc entry;
       set_GPR tc dst ((drop_bit (VIRT2BIT src) entry_v) AND VCPU_MASK64)
     }"

definition bit_r2m_xfer_opbn ::
  "malloc_outcome \<Rightarrow> bit_state \<Rightarrow> addr \<Rightarrow> 64 word \<Rightarrow>
    64 word \<Rightarrow> bit_state option" where
  "bit_r2m_xfer_opbn mal tc dst count eflags =
     do {
       if EFLAGS_DF eflags = 0
       then
         do {
           g_7 \<leftarrow> GPR tc 7;
           if (g_7 AND VCPU_MASK8) \<noteq> 0
           then
             do {
               st \<leftarrow> bit_tagmap_setn mal dst count (bstab tc);
               Some (tc\<lparr>bstab := st\<rparr>)
             }
           else
             do {
               st \<leftarrow> bit_tagmap_clrn mal dst count (bstab tc);
               Some (tc\<lparr>bstab := st\<rparr>)
             }
         }
       else
         do {
           g_7 \<leftarrow> GPR tc 7;
           if (g_7 AND VCPU_MASK8) \<noteq> 0
           then
             do {
               st \<leftarrow> bit_tagmap_setn mal ((dst - count) + 1) count (bstab tc);
               Some (tc\<lparr>bstab := st\<rparr>)
             }
           else
             do {
               st \<leftarrow> bit_tagmap_clrn mal ((dst - count) + 1) count (bstab tc);
               Some (tc\<lparr>bstab := st\<rparr>)
             }
         }
     }"

definition bit_r2m_xfer_opb_u ::
  "malloc_outcome \<Rightarrow> bit_state \<Rightarrow> addr \<Rightarrow> nat \<Rightarrow>
    bit_state option" where
  "bit_r2m_xfer_opb_u mal tc dst src =
     do {
       (entry, tc) \<leftarrow> ENTRY mal tc dst;
       entry_v \<leftarrow> LOAD tc entry;
       g_src \<leftarrow> GPR tc src;
       STORE tc entry ((entry_v AND (NOT (push_bit (VIRT2BIT dst) BYTE_MASK))) OR (push_bit
         (VIRT2BIT dst) (drop_bit 1 (g_src AND (push_bit 1 VCPU_MASK8)))))
     }"

definition bit_r2m_xfer_opb_l ::
  "malloc_outcome \<Rightarrow> bit_state \<Rightarrow> addr \<Rightarrow> nat \<Rightarrow>
    bit_state option" where
  "bit_r2m_xfer_opb_l mal tc dst src =
     do {
       (entry, tc) \<leftarrow> ENTRY mal tc dst;
       entry_v \<leftarrow> LOAD tc entry;
       g_src \<leftarrow> GPR tc src;
       STORE tc entry ((entry_v AND (NOT (push_bit (VIRT2BIT dst) BYTE_MASK))) OR (push_bit
         (VIRT2BIT dst) (g_src AND VCPU_MASK8)))
     }"

definition bit_r2m_xfer_opwn ::
  "malloc_outcome \<Rightarrow> bit_state \<Rightarrow> addr \<Rightarrow> 64 word \<Rightarrow>
    64 word \<Rightarrow> bit_state option" where
  "bit_r2m_xfer_opwn mal tc dst count eflags =
     do {
       if EFLAGS_DF eflags = 0
       then
         do {
           g_7 \<leftarrow> GPR tc 7;
           if (g_7 AND VCPU_MASK16) \<noteq> 0
           then
             do {
               st \<leftarrow> bit_tagmap_setn mal dst (push_bit 1 count) (bstab tc);
               Some (tc\<lparr>bstab := st\<rparr>)
             }
           else
             do {
               st \<leftarrow> bit_tagmap_clrn mal dst (push_bit 1 count) (bstab tc);
               Some (tc\<lparr>bstab := st\<rparr>)
             }
         }
       else
         do {
           g_7 \<leftarrow> GPR tc 7;
           if (g_7 AND VCPU_MASK16) \<noteq> 0
           then
             do {
               st \<leftarrow> bit_tagmap_setn mal ((dst - (push_bit 1 count)) + 1) (push_bit 1
                 count) (bstab tc);
               Some (tc\<lparr>bstab := st\<rparr>)
             }
           else
             do {
               st \<leftarrow> bit_tagmap_clrn mal ((dst - (push_bit 1 count)) + 1) (push_bit 1
                 count) (bstab tc);
               Some (tc\<lparr>bstab := st\<rparr>)
             }
         }
     }"

definition bit_r2m_xfer_opw ::
  "malloc_outcome \<Rightarrow> bit_state \<Rightarrow> addr \<Rightarrow> nat \<Rightarrow>
    bit_state option" where
  "bit_r2m_xfer_opw mal tc dst src =
     do {
       (entry, tc) \<leftarrow> ENTRY mal tc dst;
       entry_v \<leftarrow> LOAD tc entry;
       g_src \<leftarrow> GPR tc src;
       STORE tc entry ((entry_v AND (NOT (push_bit (VIRT2BIT dst) WORD_MASK))) OR (push_bit
         (VIRT2BIT dst) (ucast (ucast (g_src AND VCPU_MASK16) :: 16 word) :: 32 word)))
     }"

definition bit_r2m_xfer_opln ::
  "malloc_outcome \<Rightarrow> bit_state \<Rightarrow> addr \<Rightarrow> 64 word \<Rightarrow>
    64 word \<Rightarrow> bit_state option" where
  "bit_r2m_xfer_opln mal tc dst count eflags =
     do {
       if EFLAGS_DF eflags = 0
       then
         do {
           g_7 \<leftarrow> GPR tc 7;
           if (g_7 AND VCPU_MASK32) \<noteq> 0
           then
             do {
               st \<leftarrow> bit_tagmap_setn mal dst (push_bit 2 count) (bstab tc);
               Some (tc\<lparr>bstab := st\<rparr>)
             }
           else
             do {
               st \<leftarrow> bit_tagmap_clrn mal dst (push_bit 2 count) (bstab tc);
               Some (tc\<lparr>bstab := st\<rparr>)
             }
         }
       else
         do {
           g_7 \<leftarrow> GPR tc 7;
           if (g_7 AND VCPU_MASK32) \<noteq> 0
           then
             do {
               st \<leftarrow> bit_tagmap_setn mal ((dst - (push_bit 2 count)) + 1) (push_bit 2
                 count) (bstab tc);
               Some (tc\<lparr>bstab := st\<rparr>)
             }
           else
             do {
               st \<leftarrow> bit_tagmap_clrn mal ((dst - (push_bit 2 count)) + 1) (push_bit 2
                 count) (bstab tc);
               Some (tc\<lparr>bstab := st\<rparr>)
             }
         }
     }"

definition bit_r2m_xfer_opl ::
  "malloc_outcome \<Rightarrow> bit_state \<Rightarrow> addr \<Rightarrow> nat \<Rightarrow>
    bit_state option" where
  "bit_r2m_xfer_opl mal tc dst src =
     do {
       (entry, tc) \<leftarrow> ENTRY mal tc dst;
       entry_v \<leftarrow> LOAD tc entry;
       g_src \<leftarrow> GPR tc src;
       STORE tc entry ((entry_v AND (NOT (push_bit (VIRT2BIT dst) LONG_MASK))) OR (push_bit
         (VIRT2BIT dst) (ucast (ucast (g_src AND VCPU_MASK32) :: 16 word) :: 32 word)))
     }"

definition bit_r2m_xfer_opqn ::
  "malloc_outcome \<Rightarrow> bit_state \<Rightarrow> addr \<Rightarrow> 64 word \<Rightarrow>
    64 word \<Rightarrow> bit_state option" where
  "bit_r2m_xfer_opqn mal tc dst count eflags =
     do {
       if EFLAGS_DF eflags = 0
       then
         do {
           g_7 \<leftarrow> GPR tc 7;
           if (g_7 AND VCPU_MASK64) \<noteq> 0
           then
             do {
               st \<leftarrow> bit_tagmap_setn mal dst (push_bit 3 count) (bstab tc);
               Some (tc\<lparr>bstab := st\<rparr>)
             }
           else
             do {
               st \<leftarrow> bit_tagmap_clrn mal dst (push_bit 3 count) (bstab tc);
               Some (tc\<lparr>bstab := st\<rparr>)
             }
         }
       else
         do {
           g_7 \<leftarrow> GPR tc 7;
           if (g_7 AND VCPU_MASK64) \<noteq> 0
           then
             do {
               st \<leftarrow> bit_tagmap_setn mal ((dst - (push_bit 3 count)) + 1) (push_bit 3
                 count) (bstab tc);
               Some (tc\<lparr>bstab := st\<rparr>)
             }
           else
             do {
               st \<leftarrow> bit_tagmap_clrn mal ((dst - (push_bit 3 count)) + 1) (push_bit 3
                 count) (bstab tc);
               Some (tc\<lparr>bstab := st\<rparr>)
             }
         }
     }"

definition bit_r2m_xfer_opq ::
  "malloc_outcome \<Rightarrow> bit_state \<Rightarrow> addr \<Rightarrow> nat \<Rightarrow>
    bit_state option" where
  "bit_r2m_xfer_opq mal tc dst src =
     do {
       (entry, tc) \<leftarrow> ENTRY mal tc dst;
       entry_v \<leftarrow> LOAD tc entry;
       g_src \<leftarrow> GPR tc src;
       STORE tc entry ((entry_v AND (NOT (push_bit (VIRT2BIT dst) QUAD_MASK))) OR (push_bit
         (VIRT2BIT dst) (ucast (ucast (g_src AND VCPU_MASK64) :: 16 word) :: 32 word)))
     }"

definition bit_m2m_xfer_opw ::
  "malloc_outcome \<Rightarrow> bit_state \<Rightarrow> addr \<Rightarrow> addr \<Rightarrow>
    bit_state option" where
  "bit_m2m_xfer_opw mal tc dst src =
     do {
       (entry_src, tc) \<leftarrow> ENTRY mal tc src;
       (entry_dst, tc) \<leftarrow> ENTRY mal tc dst;
       entry_dst_v \<leftarrow> LOAD tc entry_dst;
       entry_src_v \<leftarrow> LOAD tc entry_src;
       STORE tc entry_dst ((entry_dst_v AND (NOT (push_bit (VIRT2BIT dst) WORD_MASK))) OR
         (push_bit (VIRT2BIT dst) ((drop_bit (VIRT2BIT src) entry_src_v) AND WORD_MASK)))
     }"

definition bit_m2m_xfer_opb ::
  "malloc_outcome \<Rightarrow> bit_state \<Rightarrow> addr \<Rightarrow> addr \<Rightarrow>
    bit_state option" where
  "bit_m2m_xfer_opb mal tc dst src =
     do {
       (entry_src, tc) \<leftarrow> ENTRY mal tc src;
       (entry_dst, tc) \<leftarrow> ENTRY mal tc dst;
       entry_dst_v \<leftarrow> LOAD tc entry_dst;
       entry_src_v \<leftarrow> LOAD tc entry_src;
       STORE tc entry_dst ((entry_dst_v AND (NOT (push_bit (VIRT2BIT dst) BYTE_MASK))) OR
         (push_bit (VIRT2BIT dst) ((drop_bit (VIRT2BIT src) entry_src_v) AND BYTE_MASK)))
     }"

definition bit_m2m_xfer_opl ::
  "malloc_outcome \<Rightarrow> bit_state \<Rightarrow> addr \<Rightarrow> addr \<Rightarrow>
    bit_state option" where
  "bit_m2m_xfer_opl mal tc dst src =
     do {
       (entry_src, tc) \<leftarrow> ENTRY mal tc src;
       (entry_dst, tc) \<leftarrow> ENTRY mal tc dst;
       entry_dst_v \<leftarrow> LOAD tc entry_dst;
       entry_src_v \<leftarrow> LOAD tc entry_src;
       STORE tc entry_dst ((entry_dst_v AND (NOT (push_bit (VIRT2BIT dst) LONG_MASK))) OR
         (push_bit (VIRT2BIT dst) ((drop_bit (VIRT2BIT src) entry_src_v) AND LONG_MASK)))
     }"

definition bit_m2m_xfer_opq ::
  "malloc_outcome \<Rightarrow> bit_state \<Rightarrow> addr \<Rightarrow> addr \<Rightarrow>
    bit_state option" where
  "bit_m2m_xfer_opq mal tc dst src =
     do {
       (entry_src, tc) \<leftarrow> ENTRY mal tc src;
       (entry_dst, tc) \<leftarrow> ENTRY mal tc dst;
       entry_dst_v \<leftarrow> LOAD tc entry_dst;
       entry_src_v \<leftarrow> LOAD tc entry_src;
       STORE tc entry_dst ((entry_dst_v AND (NOT (push_bit (VIRT2BIT dst) QUAD_MASK))) OR
         (push_bit (VIRT2BIT dst) ((drop_bit (VIRT2BIT src) entry_src_v) AND QUAD_MASK)))
     }"

subsection \<open>Calls and their flows\<close>

fun exec_bit_xfer ::
  "malloc_outcome \<Rightarrow> xfer_call \<Rightarrow> bit_state \<Rightarrow> bit_state option"
    where
    "exec_bit_xfer mal R_clrl4 tc = bit_r_clrl4 tc"
  | "exec_bit_xfer mal R_clrl2 tc = bit_r_clrl2 tc"
  | "exec_bit_xfer mal (R_clrq reg) tc = bit_r_clrq tc reg"
  | "exec_bit_xfer mal (R_clrl reg) tc = bit_r_clrl tc reg"
  | "exec_bit_xfer mal (R_clrw reg) tc = bit_r_clrw tc reg"
  | "exec_bit_xfer mal (R_clrb_u reg) tc = bit_r_clrb_u tc reg"
  | "exec_bit_xfer mal (R_clrb_l reg) tc = bit_r_clrb_l tc reg"
  | "exec_bit_xfer mal (R2r_xfer_opb_ul dst src) tc = bit_r2r_xfer_opb_ul tc dst src"
  | "exec_bit_xfer mal (R2r_xfer_opb_lu dst src) tc = bit_r2r_xfer_opb_lu tc dst src"
  | "exec_bit_xfer mal (R2r_xfer_opb_u dst src) tc = bit_r2r_xfer_opb_u tc dst src"
  | "exec_bit_xfer mal (R2r_xfer_opb_l dst src) tc = bit_r2r_xfer_opb_l tc dst src"
  | "exec_bit_xfer mal (R2r_xfer_opw dst src) tc = bit_r2r_xfer_opw tc dst src"
  | "exec_bit_xfer mal (R2r_xfer_opl dst src) tc = bit_r2r_xfer_opl tc dst src"
  | "exec_bit_xfer mal (R2r_xfer_opq dst src) tc = bit_r2r_xfer_opq tc dst src"
  | "exec_bit_xfer mal (M2r_xfer_opb_u dst src) tc = bit_m2r_xfer_opb_u mal tc dst src"
  | "exec_bit_xfer mal (M2r_xfer_opb_l dst src) tc = bit_m2r_xfer_opb_l mal tc dst src"
  | "exec_bit_xfer mal (M2r_xfer_opw dst src) tc = bit_m2r_xfer_opw mal tc dst src"
  | "exec_bit_xfer mal (M2r_xfer_opl dst src) tc = bit_m2r_xfer_opl mal tc dst src"
  | "exec_bit_xfer mal (M2r_xfer_opq dst src) tc = bit_m2r_xfer_opq mal tc dst src"
  | "exec_bit_xfer mal (R2m_xfer_opbn dst count eflags) tc = bit_r2m_xfer_opbn mal tc dst count
    eflags"
  | "exec_bit_xfer mal (R2m_xfer_opb_u dst src) tc = bit_r2m_xfer_opb_u mal tc dst src"
  | "exec_bit_xfer mal (R2m_xfer_opb_l dst src) tc = bit_r2m_xfer_opb_l mal tc dst src"
  | "exec_bit_xfer mal (R2m_xfer_opwn dst count eflags) tc = bit_r2m_xfer_opwn mal tc dst count
    eflags"
  | "exec_bit_xfer mal (R2m_xfer_opw dst src) tc = bit_r2m_xfer_opw mal tc dst src"
  | "exec_bit_xfer mal (R2m_xfer_opln dst count eflags) tc = bit_r2m_xfer_opln mal tc dst count
    eflags"
  | "exec_bit_xfer mal (R2m_xfer_opl dst src) tc = bit_r2m_xfer_opl mal tc dst src"
  | "exec_bit_xfer mal (R2m_xfer_opqn dst count eflags) tc = bit_r2m_xfer_opqn mal tc dst count
    eflags"
  | "exec_bit_xfer mal (R2m_xfer_opq dst src) tc = bit_r2m_xfer_opq mal tc dst src"
  | "exec_bit_xfer mal (M2m_xfer_opw dst src) tc = bit_m2m_xfer_opw mal tc dst src"
  | "exec_bit_xfer mal (M2m_xfer_opb dst src) tc = bit_m2m_xfer_opb mal tc dst src"
  | "exec_bit_xfer mal (M2m_xfer_opl dst src) tc = bit_m2m_xfer_opl mal tc dst src"
  | "exec_bit_xfer mal (M2m_xfer_opq dst src) tc = bit_m2m_xfer_opq mal tc dst src"

fun bit_xfer_flow ::
  "xfer_call \<Rightarrow> bit_flow" where
    "bit_xfer_flow R_clrl4 =
     (on_reg 7 0 8 (\<lambda>i. []) (on_reg 6 0 8 (\<lambda>i. []) (on_reg 5 0 8 (\<lambda>i. [])
       (on_reg 4 0 8 (\<lambda>i. []) keep))))"
  | "bit_xfer_flow R_clrl2 =
     (on_reg 7 0 8 (\<lambda>i. []) (on_reg 5 0 8 (\<lambda>i. []) keep))"
  | "bit_xfer_flow (R_clrq reg) =
     (on_reg reg 0 8 (\<lambda>i. []) keep)"
  | "bit_xfer_flow (R_clrl reg) =
     (on_reg reg 0 8 (\<lambda>i. []) keep)"
  | "bit_xfer_flow (R_clrw reg) =
     (on_reg reg 0 2 (\<lambda>i. []) keep)"
  | "bit_xfer_flow (R_clrb_u reg) =
     (on_reg reg 1 2 (\<lambda>i. []) keep)"
  | "bit_xfer_flow (R_clrb_l reg) =
     (on_reg reg 0 1 (\<lambda>i. []) keep)"
  | "bit_xfer_flow (R2r_xfer_opb_ul dst src) =
     (on_reg dst 1 2 (\<lambda>i. [Reg src 0]) keep)"
  | "bit_xfer_flow (R2r_xfer_opb_lu dst src) =
     (on_reg dst 0 1 (\<lambda>i. [Reg src 1]) keep)"
  | "bit_xfer_flow (R2r_xfer_opb_u dst src) =
     (on_reg dst 1 2 (\<lambda>i. [Reg src 1]) keep)"
  | "bit_xfer_flow (R2r_xfer_opb_l dst src) =
     (on_reg dst 0 1 (\<lambda>i. [Reg src 0]) keep)"
  | "bit_xfer_flow (R2r_xfer_opw dst src) =
     (on_reg dst 0 2 (\<lambda>i. [Reg src i]) keep)"
  | "bit_xfer_flow (R2r_xfer_opl dst src) =
     (on_reg dst 0 8 (\<lambda>i. if i < 4 then [Reg src i] else []) keep)"
  | "bit_xfer_flow (R2r_xfer_opq dst src) =
     (on_reg dst 0 8 (\<lambda>i. [Reg src i]) keep)"
  | "bit_xfer_flow (M2r_xfer_opb_u dst src) =
     (on_reg dst 1 2 (\<lambda>i. [Mem src]) keep)"
  | "bit_xfer_flow (M2r_xfer_opb_l dst src) =
     (on_reg dst 0 1 (\<lambda>i. [Mem src]) keep)"
  | "bit_xfer_flow (M2r_xfer_opw dst src) =
     (on_reg dst 0 2 (\<lambda>i. [Mem (src + of_nat i)]) keep)"
  | "bit_xfer_flow (M2r_xfer_opl dst src) =
     (on_reg dst 0 8 (\<lambda>i. if i < 4 then [Mem (src + of_nat i)] else []) keep)"
  | "bit_xfer_flow (M2r_xfer_opq dst src) =
     (on_reg dst 0 8 (\<lambda>i. [Mem (src + of_nat i)]) keep)"
  | "bit_xfer_flow (R2m_xfer_opbn dst count eflags) =
     (keep)"
  | "bit_xfer_flow (R2m_xfer_opb_u dst src) =
     (on_mem dst 1 (\<lambda>i. [Reg src 1]) keep)"
  | "bit_xfer_flow (R2m_xfer_opb_l dst src) =
     (on_mem dst 1 (\<lambda>i. [Reg src 0]) keep)"
  | "bit_xfer_flow (R2m_xfer_opwn dst count eflags) =
     (keep)"
  | "bit_xfer_flow (R2m_xfer_opw dst src) =
     (on_mem dst 2 (\<lambda>i. [Reg src i]) keep)"
  | "bit_xfer_flow (R2m_xfer_opln dst count eflags) =
     (keep)"
  | "bit_xfer_flow (R2m_xfer_opl dst src) =
     (on_mem dst 4 (\<lambda>i. [Reg src i]) keep)"
  | "bit_xfer_flow (R2m_xfer_opqn dst count eflags) =
     (keep)"
  | "bit_xfer_flow (R2m_xfer_opq dst src) =
     (on_mem dst 8 (\<lambda>i. [Reg src i]) keep)"
  | "bit_xfer_flow (M2m_xfer_opw dst src) =
     (on_mem dst 2 (\<lambda>i. [Mem (src + of_nat i)]) keep)"
  | "bit_xfer_flow (M2m_xfer_opb dst src) =
     (on_mem dst 1 (\<lambda>i. [Mem (src + of_nat i)]) keep)"
  | "bit_xfer_flow (M2m_xfer_opl dst src) =
     (on_mem dst 4 (\<lambda>i. [Mem (src + of_nat i)]) keep)"
  | "bit_xfer_flow (M2m_xfer_opq dst src) =
     (on_mem dst 8 (\<lambda>i. [Mem (src + of_nat i)]) keep)"

fun bit_xfer_ok ::
  "xfer_call \<Rightarrow> bool" where
    "bit_xfer_ok R_clrl4 \<longleftrightarrow> True"
  | "bit_xfer_ok R_clrl2 \<longleftrightarrow> True"
  | "bit_xfer_ok (R_clrq reg) \<longleftrightarrow> reg < 17"
  | "bit_xfer_ok (R_clrl reg) \<longleftrightarrow> reg < 17"
  | "bit_xfer_ok (R_clrw reg) \<longleftrightarrow> reg < 17"
  | "bit_xfer_ok (R_clrb_u reg) \<longleftrightarrow> reg < 17"
  | "bit_xfer_ok (R_clrb_l reg) \<longleftrightarrow> reg < 17"
  | "bit_xfer_ok (R2r_xfer_opb_ul dst src) \<longleftrightarrow> dst < 17 \<and> src < 17"
  | "bit_xfer_ok (R2r_xfer_opb_lu dst src) \<longleftrightarrow> dst < 17 \<and> src < 17"
  | "bit_xfer_ok (R2r_xfer_opb_u dst src) \<longleftrightarrow> dst < 17 \<and> src < 17"
  | "bit_xfer_ok (R2r_xfer_opb_l dst src) \<longleftrightarrow> dst < 17 \<and> src < 17"
  | "bit_xfer_ok (R2r_xfer_opw dst src) \<longleftrightarrow> dst < 17 \<and> src < 17"
  | "bit_xfer_ok (R2r_xfer_opl dst src) \<longleftrightarrow> dst < 17 \<and> src < 17"
  | "bit_xfer_ok (R2r_xfer_opq dst src) \<longleftrightarrow> dst < 17 \<and> src < 17"
  | "bit_xfer_ok (M2r_xfer_opb_u dst src) \<longleftrightarrow> dst < 17 \<and> mem_ok src"
  | "bit_xfer_ok (M2r_xfer_opb_l dst src) \<longleftrightarrow> dst < 17 \<and> mem_ok src"
  | "bit_xfer_ok (M2r_xfer_opw dst src) \<longleftrightarrow> dst < 17 \<and> mem_ok src"
  | "bit_xfer_ok (M2r_xfer_opl dst src) \<longleftrightarrow> dst < 17 \<and> mem_ok src"
  | "bit_xfer_ok (M2r_xfer_opq dst src) \<longleftrightarrow> dst < 17 \<and> mem_ok src"
  | "bit_xfer_ok (R2m_xfer_opbn dst count eflags) \<longleftrightarrow> False"
  | "bit_xfer_ok (R2m_xfer_opb_u dst src) \<longleftrightarrow> mem_ok dst \<and> src < 17"
  | "bit_xfer_ok (R2m_xfer_opb_l dst src) \<longleftrightarrow> mem_ok dst \<and> src < 17"
  | "bit_xfer_ok (R2m_xfer_opwn dst count eflags) \<longleftrightarrow> False"
  | "bit_xfer_ok (R2m_xfer_opw dst src) \<longleftrightarrow> mem_ok dst \<and> src < 17"
  | "bit_xfer_ok (R2m_xfer_opln dst count eflags) \<longleftrightarrow> False"
  | "bit_xfer_ok (R2m_xfer_opl dst src) \<longleftrightarrow> mem_ok dst \<and> src < 17"
  | "bit_xfer_ok (R2m_xfer_opqn dst count eflags) \<longleftrightarrow> False"
  | "bit_xfer_ok (R2m_xfer_opq dst src) \<longleftrightarrow> mem_ok dst \<and> src < 17"
  | "bit_xfer_ok (M2m_xfer_opw dst src) \<longleftrightarrow> mem_ok dst \<and> mem_ok src"
  | "bit_xfer_ok (M2m_xfer_opb dst src) \<longleftrightarrow> mem_ok dst \<and> mem_ok src"
  | "bit_xfer_ok (M2m_xfer_opl dst src) \<longleftrightarrow> mem_ok dst \<and> mem_ok src"
  | "bit_xfer_ok (M2m_xfer_opq dst src) \<longleftrightarrow> mem_ok dst \<and> mem_ok src"

subsection \<open>Each call performs its flow\<close>

lemma r_clrl4_runs:
  "bit_ready mal tc \<Longrightarrow> bit_xfer_ok R_clrl4 \<Longrightarrow>
   bit_runs (bit_xfer_flow R_clrl4) tc (exec_bit_xfer mal R_clrl4 tc)"
  by (simp add: bit_ready_def bit_wf_def bit_r_clrl4_def bit_exec Let_def)
    (auto intro!: bit_runs_intros simp: bit_eval dest: bit_low split: if_splits)

lemma r_clrl2_runs:
  "bit_ready mal tc \<Longrightarrow> bit_xfer_ok R_clrl2 \<Longrightarrow>
   bit_runs (bit_xfer_flow R_clrl2) tc (exec_bit_xfer mal R_clrl2 tc)"
  by (simp add: bit_ready_def bit_wf_def bit_r_clrl2_def bit_exec Let_def)
    (auto intro!: bit_runs_intros simp: bit_eval dest: bit_low split: if_splits)

lemma r_clrq_runs:
  "bit_ready mal tc \<Longrightarrow> bit_xfer_ok (R_clrq reg) \<Longrightarrow>
   bit_runs (bit_xfer_flow (R_clrq reg)) tc (exec_bit_xfer mal (R_clrq reg) tc)"
  by (simp add: bit_ready_def bit_wf_def bit_r_clrq_def bit_exec Let_def)
    (auto intro!: bit_runs_intros simp: bit_eval dest: bit_low split: if_splits)

lemma r_clrl_runs:
  "bit_ready mal tc \<Longrightarrow> bit_xfer_ok (R_clrl reg) \<Longrightarrow>
   bit_runs (bit_xfer_flow (R_clrl reg)) tc (exec_bit_xfer mal (R_clrl reg) tc)"
  by (simp add: bit_ready_def bit_wf_def bit_r_clrl_def bit_exec Let_def)
    (auto intro!: bit_runs_intros simp: bit_eval dest: bit_low split: if_splits)

lemma r_clrw_runs:
  "bit_ready mal tc \<Longrightarrow> bit_xfer_ok (R_clrw reg) \<Longrightarrow>
   bit_runs (bit_xfer_flow (R_clrw reg)) tc (exec_bit_xfer mal (R_clrw reg) tc)"
  by (simp add: bit_ready_def bit_wf_def bit_r_clrw_def bit_exec Let_def)
    (auto intro!: bit_runs_intros simp: bit_eval dest: bit_low split: if_splits)

lemma r_clrb_u_runs:
  "bit_ready mal tc \<Longrightarrow> bit_xfer_ok (R_clrb_u reg) \<Longrightarrow>
   bit_runs (bit_xfer_flow (R_clrb_u reg)) tc (exec_bit_xfer mal (R_clrb_u reg) tc)"
  by (simp add: bit_ready_def bit_wf_def bit_r_clrb_u_def bit_exec Let_def)
    (auto intro!: bit_runs_intros simp: bit_eval dest: bit_low split: if_splits)

lemma r_clrb_l_runs:
  "bit_ready mal tc \<Longrightarrow> bit_xfer_ok (R_clrb_l reg) \<Longrightarrow>
   bit_runs (bit_xfer_flow (R_clrb_l reg)) tc (exec_bit_xfer mal (R_clrb_l reg) tc)"
  by (simp add: bit_ready_def bit_wf_def bit_r_clrb_l_def bit_exec Let_def)
    (auto intro!: bit_runs_intros simp: bit_eval dest: bit_low split: if_splits)

lemma r2r_xfer_opb_ul_runs:
  "bit_ready mal tc \<Longrightarrow> bit_xfer_ok (R2r_xfer_opb_ul dst src) \<Longrightarrow>
   bit_runs (bit_xfer_flow (R2r_xfer_opb_ul dst src)) tc (exec_bit_xfer mal (R2r_xfer_opb_ul dst
     src) tc)"
  by (simp add: bit_ready_def bit_wf_def bit_r2r_xfer_opb_ul_def bit_exec Let_def)
    (auto intro!: bit_runs_intros simp: bit_eval dest: bit_low split: if_splits)

lemma r2r_xfer_opb_lu_runs:
  "bit_ready mal tc \<Longrightarrow> bit_xfer_ok (R2r_xfer_opb_lu dst src) \<Longrightarrow>
   bit_runs (bit_xfer_flow (R2r_xfer_opb_lu dst src)) tc (exec_bit_xfer mal (R2r_xfer_opb_lu dst
     src) tc)"
  by (simp add: bit_ready_def bit_wf_def bit_r2r_xfer_opb_lu_def bit_exec Let_def)
    (auto intro!: bit_runs_intros simp: bit_eval dest: bit_low split: if_splits)

lemma r2r_xfer_opb_u_runs:
  "bit_ready mal tc \<Longrightarrow> bit_xfer_ok (R2r_xfer_opb_u dst src) \<Longrightarrow>
   bit_runs (bit_xfer_flow (R2r_xfer_opb_u dst src)) tc (exec_bit_xfer mal (R2r_xfer_opb_u dst
     src) tc)"
  by (simp add: bit_ready_def bit_wf_def bit_r2r_xfer_opb_u_def bit_exec Let_def)
    (auto intro!: bit_runs_intros simp: bit_eval dest: bit_low split: if_splits)

lemma r2r_xfer_opb_l_runs:
  "bit_ready mal tc \<Longrightarrow> bit_xfer_ok (R2r_xfer_opb_l dst src) \<Longrightarrow>
   bit_runs (bit_xfer_flow (R2r_xfer_opb_l dst src)) tc (exec_bit_xfer mal (R2r_xfer_opb_l dst
     src) tc)"
  by (simp add: bit_ready_def bit_wf_def bit_r2r_xfer_opb_l_def bit_exec Let_def)
    (auto intro!: bit_runs_intros simp: bit_eval dest: bit_low split: if_splits)

lemma r2r_xfer_opw_runs:
  "bit_ready mal tc \<Longrightarrow> bit_xfer_ok (R2r_xfer_opw dst src) \<Longrightarrow>
   bit_runs (bit_xfer_flow (R2r_xfer_opw dst src)) tc (exec_bit_xfer mal (R2r_xfer_opw dst src) tc)"
  by (simp add: bit_ready_def bit_wf_def bit_r2r_xfer_opw_def bit_exec Let_def)
    (auto intro!: bit_runs_intros simp: bit_eval dest: bit_low split: if_splits)

lemma r2r_xfer_opl_runs:
  "bit_ready mal tc \<Longrightarrow> bit_xfer_ok (R2r_xfer_opl dst src) \<Longrightarrow>
   bit_runs (bit_xfer_flow (R2r_xfer_opl dst src)) tc (exec_bit_xfer mal (R2r_xfer_opl dst src) tc)"
  by (simp add: bit_ready_def bit_wf_def bit_r2r_xfer_opl_def bit_exec Let_def)
    (auto intro!: bit_runs_intros simp: bit_eval dest: bit_low split: if_splits)

lemma r2r_xfer_opq_runs:
  "bit_ready mal tc \<Longrightarrow> bit_xfer_ok (R2r_xfer_opq dst src) \<Longrightarrow>
   bit_runs (bit_xfer_flow (R2r_xfer_opq dst src)) tc (exec_bit_xfer mal (R2r_xfer_opq dst src) tc)"
  by (simp add: bit_ready_def bit_wf_def bit_r2r_xfer_opq_def bit_exec Let_def)
    (auto intro!: bit_runs_intros simp: bit_eval dest: bit_low split: if_splits)

lemma m2r_xfer_opb_u_runs:
  "bit_ready mal tc \<Longrightarrow> bit_xfer_ok (M2r_xfer_opb_u dst src) \<Longrightarrow>
   bit_runs (bit_xfer_flow (M2r_xfer_opb_u dst src)) tc (exec_bit_xfer mal (M2r_xfer_opb_u dst
     src) tc)"
  by (simp add: bit_ready_def bit_wf_def bit_m2r_xfer_opb_u_def bit_exec Let_def)
    (auto intro!: bit_runs_intros simp: bit_eval dest: bit_low split: if_splits)

lemma m2r_xfer_opb_l_runs:
  "bit_ready mal tc \<Longrightarrow> bit_xfer_ok (M2r_xfer_opb_l dst src) \<Longrightarrow>
   bit_runs (bit_xfer_flow (M2r_xfer_opb_l dst src)) tc (exec_bit_xfer mal (M2r_xfer_opb_l dst
     src) tc)"
  by (simp add: bit_ready_def bit_wf_def bit_m2r_xfer_opb_l_def bit_exec Let_def)
    (auto intro!: bit_runs_intros simp: bit_eval dest: bit_low split: if_splits)

lemma m2r_xfer_opw_runs:
  "bit_ready mal tc \<Longrightarrow> bit_xfer_ok (M2r_xfer_opw dst src) \<Longrightarrow>
   bit_runs (bit_xfer_flow (M2r_xfer_opw dst src)) tc (exec_bit_xfer mal (M2r_xfer_opw dst src) tc)"
  by (simp add: bit_ready_def bit_wf_def bit_m2r_xfer_opw_def bit_exec Let_def)
    (auto intro!: bit_runs_intros simp: bit_eval dest: bit_low split: if_splits)

lemma m2r_xfer_opl_runs:
  "bit_ready mal tc \<Longrightarrow> bit_xfer_ok (M2r_xfer_opl dst src) \<Longrightarrow>
   bit_runs (bit_xfer_flow (M2r_xfer_opl dst src)) tc (exec_bit_xfer mal (M2r_xfer_opl dst src) tc)"
  by (simp add: bit_ready_def bit_wf_def bit_m2r_xfer_opl_def bit_exec Let_def)
    (auto intro!: bit_runs_intros simp: bit_eval dest: bit_low split: if_splits)

lemma m2r_xfer_opq_runs:
  "bit_ready mal tc \<Longrightarrow> bit_xfer_ok (M2r_xfer_opq dst src) \<Longrightarrow>
   bit_runs (bit_xfer_flow (M2r_xfer_opq dst src)) tc (exec_bit_xfer mal (M2r_xfer_opq dst src) tc)"
  by (simp add: bit_ready_def bit_wf_def bit_m2r_xfer_opq_def bit_exec Let_def)
    (auto intro!: bit_runs_intros simp: bit_eval dest: bit_low split: if_splits)

lemma r2m_xfer_opb_u_runs:
  "bit_ready mal tc \<Longrightarrow> bit_xfer_ok (R2m_xfer_opb_u dst src) \<Longrightarrow>
   bit_runs (bit_xfer_flow (R2m_xfer_opb_u dst src)) tc (exec_bit_xfer mal (R2m_xfer_opb_u dst
     src) tc)"
  by (simp add: bit_ready_def bit_wf_def bit_r2m_xfer_opb_u_def bit_exec Let_def)
    (auto intro!: bit_runs_intros simp: bit_eval dest: bit_low split: if_splits)

lemma r2m_xfer_opb_l_runs:
  "bit_ready mal tc \<Longrightarrow> bit_xfer_ok (R2m_xfer_opb_l dst src) \<Longrightarrow>
   bit_runs (bit_xfer_flow (R2m_xfer_opb_l dst src)) tc (exec_bit_xfer mal (R2m_xfer_opb_l dst
     src) tc)"
  by (simp add: bit_ready_def bit_wf_def bit_r2m_xfer_opb_l_def bit_exec Let_def)
    (auto intro!: bit_runs_intros simp: bit_eval dest: bit_low split: if_splits)

lemma r2m_xfer_opw_runs:
  "bit_ready mal tc \<Longrightarrow> bit_xfer_ok (R2m_xfer_opw dst src) \<Longrightarrow>
   bit_runs (bit_xfer_flow (R2m_xfer_opw dst src)) tc (exec_bit_xfer mal (R2m_xfer_opw dst src) tc)"
  by (simp add: bit_ready_def bit_wf_def bit_r2m_xfer_opw_def bit_exec Let_def)
    (auto intro!: bit_runs_intros simp: bit_eval dest: bit_low split: if_splits)

lemma r2m_xfer_opl_runs:
  "bit_ready mal tc \<Longrightarrow> bit_xfer_ok (R2m_xfer_opl dst src) \<Longrightarrow>
   bit_runs (bit_xfer_flow (R2m_xfer_opl dst src)) tc (exec_bit_xfer mal (R2m_xfer_opl dst src) tc)"
  by (simp add: bit_ready_def bit_wf_def bit_r2m_xfer_opl_def bit_exec Let_def)
    (auto intro!: bit_runs_intros simp: bit_eval dest: bit_low split: if_splits)

lemma r2m_xfer_opq_runs:
  "bit_ready mal tc \<Longrightarrow> bit_xfer_ok (R2m_xfer_opq dst src) \<Longrightarrow>
   bit_runs (bit_xfer_flow (R2m_xfer_opq dst src)) tc (exec_bit_xfer mal (R2m_xfer_opq dst src) tc)"
  by (simp add: bit_ready_def bit_wf_def bit_r2m_xfer_opq_def bit_exec Let_def)
    (auto intro!: bit_runs_intros simp: bit_eval dest: bit_low split: if_splits)

lemma m2m_xfer_opw_runs:
  "bit_ready mal tc \<Longrightarrow> bit_xfer_ok (M2m_xfer_opw dst src) \<Longrightarrow>
   bit_runs (bit_xfer_flow (M2m_xfer_opw dst src)) tc (exec_bit_xfer mal (M2m_xfer_opw dst src) tc)"
  by (simp add: bit_ready_def bit_wf_def bit_m2m_xfer_opw_def bit_exec Let_def)
    (auto intro!: bit_runs_intros simp: bit_eval dest: bit_low split: if_splits)

lemma m2m_xfer_opb_runs:
  "bit_ready mal tc \<Longrightarrow> bit_xfer_ok (M2m_xfer_opb dst src) \<Longrightarrow>
   bit_runs (bit_xfer_flow (M2m_xfer_opb dst src)) tc (exec_bit_xfer mal (M2m_xfer_opb dst src) tc)"
  by (simp add: bit_ready_def bit_wf_def bit_m2m_xfer_opb_def bit_exec Let_def)
    (auto intro!: bit_runs_intros simp: bit_eval dest: bit_low split: if_splits)

lemma m2m_xfer_opl_runs:
  "bit_ready mal tc \<Longrightarrow> bit_xfer_ok (M2m_xfer_opl dst src) \<Longrightarrow>
   bit_runs (bit_xfer_flow (M2m_xfer_opl dst src)) tc (exec_bit_xfer mal (M2m_xfer_opl dst src) tc)"
  by (simp add: bit_ready_def bit_wf_def bit_m2m_xfer_opl_def bit_exec Let_def)
    (auto intro!: bit_runs_intros simp: bit_eval dest: bit_low split: if_splits)

lemma m2m_xfer_opq_runs:
  "bit_ready mal tc \<Longrightarrow> bit_xfer_ok (M2m_xfer_opq dst src) \<Longrightarrow>
   bit_runs (bit_xfer_flow (M2m_xfer_opq dst src)) tc (exec_bit_xfer mal (M2m_xfer_opq dst src) tc)"
  by (simp add: bit_ready_def bit_wf_def bit_m2m_xfer_opq_def bit_exec Let_def)
    (auto intro!: bit_runs_intros simp: bit_eval dest: bit_low split: if_splits)

lemmas bit_xfer_runs =
  r_clrl4_runs r_clrl2_runs r_clrq_runs
  r_clrl_runs r_clrw_runs r_clrb_u_runs
  r_clrb_l_runs r2r_xfer_opb_ul_runs r2r_xfer_opb_lu_runs
  r2r_xfer_opb_u_runs r2r_xfer_opb_l_runs r2r_xfer_opw_runs
  r2r_xfer_opl_runs r2r_xfer_opq_runs m2r_xfer_opb_u_runs
  m2r_xfer_opb_l_runs m2r_xfer_opw_runs m2r_xfer_opl_runs
  m2r_xfer_opq_runs r2m_xfer_opb_u_runs r2m_xfer_opb_l_runs
  r2m_xfer_opw_runs r2m_xfer_opl_runs r2m_xfer_opq_runs
  m2m_xfer_opw_runs m2m_xfer_opb_runs m2m_xfer_opl_runs
  m2m_xfer_opq_runs

lemma exec_bit_xfer_runs:
  "bit_ready mal tc \<Longrightarrow> bit_xfer_ok c \<Longrightarrow> bit_runs (bit_xfer_flow c)
    tc (exec_bit_xfer mal c tc)"
  by (cases c) (simp_all only: bit_xfer_runs bit_xfer_ok.simps)

end
