(* ===== verification/BitMisc.thy ===== *)
theory BitMisc
  imports BitState CoreMisc
begin

text \<open>
  Bit scan, save and restore in the build without \<^verbatim>\<open>USE_CUSTOM_TAG\<close>: the
    other branches of the routines of
  theory \<^verbatim>\<open>CoreMisc\<close>, and their data flows. Bit scan merges the tags of
    the operand into the lowest byte of the destination.
\<close>

declare push_bit_Suc [simp del] drop_bit_Suc [simp del] of_nat_diff [simp del]

subsection \<open>Routines\<close>

definition bit_m2r_bitscan_opq ::
  "malloc_outcome \<Rightarrow> bit_state \<Rightarrow> nat \<Rightarrow> addr \<Rightarrow>
    bit_state option" where
  "bit_m2r_bitscan_opq mal tc dst src =
     do {
       (entry_src, tc) \<leftarrow> ENTRY mal tc src;
       entry_src_v \<leftarrow> LOAD tc entry_src;
       if ((drop_bit (VIRT2BIT src) entry_src_v) AND QUAD_MASK) \<noteq> 0
       then
         set_GPR tc dst 1
       else
         set_GPR tc dst 0
     }"

definition bit_m2r_bitscan_opl ::
  "malloc_outcome \<Rightarrow> bit_state \<Rightarrow> nat \<Rightarrow> addr \<Rightarrow>
    bit_state option" where
  "bit_m2r_bitscan_opl mal tc dst src =
     do {
       (entry_src, tc) \<leftarrow> ENTRY mal tc src;
       entry_src_v \<leftarrow> LOAD tc entry_src;
       if ((drop_bit (VIRT2BIT src) entry_src_v) AND LONG_MASK) \<noteq> 0
       then
         set_GPR tc dst 1
       else
         set_GPR tc dst 0
     }"

definition bit_m2r_bitscan_opw ::
  "malloc_outcome \<Rightarrow> bit_state \<Rightarrow> nat \<Rightarrow> addr \<Rightarrow>
    bit_state option" where
  "bit_m2r_bitscan_opw mal tc dst src =
     do {
       (entry_src, tc) \<leftarrow> ENTRY mal tc src;
       entry_src_v \<leftarrow> LOAD tc entry_src;
       if ((drop_bit (VIRT2BIT src) entry_src_v) AND WORD_MASK) \<noteq> 0
       then
         do {
           g_dst \<leftarrow> GPR tc dst;
           set_GPR tc dst ((g_dst AND (NOT VCPU_MASK16)) OR 1)
         }
       else
         do {
           g_dst \<leftarrow> GPR tc dst;
           set_GPR tc dst (g_dst AND (NOT VCPU_MASK16))
         }
     }"

definition bit_r2r_bitscan_opq ::
  "bit_state \<Rightarrow> nat \<Rightarrow> nat \<Rightarrow> bit_state option" where
  "bit_r2r_bitscan_opq tc dst src =
     do {
       g_src \<leftarrow> GPR tc src;
       if (g_src AND VCPU_MASK64) \<noteq> 0
       then
         set_GPR tc dst 1
       else
         set_GPR tc dst 0
     }"

definition bit_r2r_bitscan_opl ::
  "bit_state \<Rightarrow> nat \<Rightarrow> nat \<Rightarrow> bit_state option" where
  "bit_r2r_bitscan_opl tc dst src =
     do {
       g_src \<leftarrow> GPR tc src;
       if (g_src AND VCPU_MASK32) \<noteq> 0
       then
         set_GPR tc dst 1
       else
         set_GPR tc dst 0
     }"

definition bit_r2r_bitscan_opw ::
  "bit_state \<Rightarrow> nat \<Rightarrow> nat \<Rightarrow> bit_state option" where
  "bit_r2r_bitscan_opw tc dst src =
     do {
       g_src \<leftarrow> GPR tc src;
       if (g_src AND VCPU_MASK16) \<noteq> 0
       then
         do {
           g_dst \<leftarrow> GPR tc dst;
           set_GPR tc dst ((g_dst AND (NOT VCPU_MASK16)) OR 1)
         }
       else
         do {
           g_dst \<leftarrow> GPR tc dst;
           set_GPR tc dst (g_dst AND (NOT VCPU_MASK16))
         }
     }"

definition bit_m2r_restore_opw ::
  "malloc_outcome \<Rightarrow> bit_state \<Rightarrow> addr \<Rightarrow> bit_state option" where
  "bit_m2r_restore_opw mal tc src =
     do {
       (entry, tc) \<leftarrow> ENTRY mal tc src;
       entry_v \<leftarrow> LOAD tc entry;
       let src_val = entry_v;
       g_0 \<leftarrow> GPR tc 0;
       tc \<leftarrow> set_GPR tc 0 ((g_0 AND (NOT VCPU_MASK16)) OR ((drop_bit (VIRT2BIT src)
         src_val) AND VCPU_MASK16));
       g_1 \<leftarrow> GPR tc 1;
       tc \<leftarrow> set_GPR tc 1 ((g_1 AND (NOT VCPU_MASK16)) OR ((drop_bit (VIRT2BIT (src +
         2)) src_val) AND VCPU_MASK16));
       g_2 \<leftarrow> GPR tc 2;
       tc \<leftarrow> set_GPR tc 2 ((g_2 AND (NOT VCPU_MASK16)) OR ((drop_bit (VIRT2BIT (src +
         4)) src_val) AND VCPU_MASK16));
       let src = src + 8;
       (entry, tc) \<leftarrow> ENTRY mal tc src;
       entry_v \<leftarrow> LOAD tc entry;
       let src_val = entry_v;
       g_4 \<leftarrow> GPR tc 4;
       tc \<leftarrow> set_GPR tc 4 ((g_4 AND (NOT VCPU_MASK16)) OR ((drop_bit (VIRT2BIT src)
         src_val) AND VCPU_MASK16));
       g_5 \<leftarrow> GPR tc 5;
       tc \<leftarrow> set_GPR tc 5 ((g_5 AND (NOT VCPU_MASK16)) OR ((drop_bit (VIRT2BIT (src +
         2)) src_val) AND VCPU_MASK16));
       g_6 \<leftarrow> GPR tc 6;
       tc \<leftarrow> set_GPR tc 6 ((g_6 AND (NOT VCPU_MASK16)) OR ((drop_bit (VIRT2BIT (src +
         4)) src_val) AND VCPU_MASK16));
       g_7 \<leftarrow> GPR tc 7;
       set_GPR tc 7 ((g_7 AND (NOT VCPU_MASK16)) OR ((drop_bit (VIRT2BIT (src + 6)) src_val) AND
         VCPU_MASK16))
     }"

definition bit_m2r_restore_opl ::
  "malloc_outcome \<Rightarrow> bit_state \<Rightarrow> addr \<Rightarrow> bit_state option" where
  "bit_m2r_restore_opl mal tc src =
     do {
       (entry, tc) \<leftarrow> ENTRY mal tc src;
       entry_v \<leftarrow> LOAD tc entry;
       let src_val = entry_v;
       g_0 \<leftarrow> GPR tc 0;
       tc \<leftarrow> set_GPR tc 0 ((g_0 AND (NOT VCPU_MASK32)) OR ((drop_bit (VIRT2BIT src)
         src_val) AND VCPU_MASK32));
       g_1 \<leftarrow> GPR tc 1;
       tc \<leftarrow> set_GPR tc 1 ((g_1 AND (NOT VCPU_MASK32)) OR ((drop_bit (VIRT2BIT (src +
         4)) src_val) AND VCPU_MASK32));
       let src = src + 8;
       (entry, tc) \<leftarrow> ENTRY mal tc src;
       entry_v \<leftarrow> LOAD tc entry;
       let src_val = entry_v;
       g_2 \<leftarrow> GPR tc 2;
       tc \<leftarrow> set_GPR tc 2 ((g_2 AND (NOT VCPU_MASK32)) OR ((drop_bit (VIRT2BIT src)
         src_val) AND VCPU_MASK32));
       let src = src + 8;
       (entry, tc) \<leftarrow> ENTRY mal tc src;
       entry_v \<leftarrow> LOAD tc entry;
       let src_val = entry_v;
       g_4 \<leftarrow> GPR tc 4;
       tc \<leftarrow> set_GPR tc 4 ((g_4 AND (NOT VCPU_MASK32)) OR ((drop_bit (VIRT2BIT src)
         src_val) AND VCPU_MASK32));
       g_5 \<leftarrow> GPR tc 5;
       tc \<leftarrow> set_GPR tc 5 ((g_5 AND (NOT VCPU_MASK32)) OR ((drop_bit (VIRT2BIT (src +
         4)) src_val) AND VCPU_MASK32));
       let src = src + 8;
       (entry, tc) \<leftarrow> ENTRY mal tc src;
       entry_v \<leftarrow> LOAD tc entry;
       let src_val = entry_v;
       g_6 \<leftarrow> GPR tc 6;
       tc \<leftarrow> set_GPR tc 6 ((g_6 AND (NOT VCPU_MASK32)) OR ((drop_bit (VIRT2BIT src)
         src_val) AND VCPU_MASK32));
       g_7 \<leftarrow> GPR tc 7;
       set_GPR tc 7 ((g_7 AND (NOT VCPU_MASK32)) OR ((drop_bit (VIRT2BIT (src + 4)) src_val) AND
         VCPU_MASK32))
     }"

definition bit_r2m_save_opw ::
  "malloc_outcome \<Rightarrow> bit_state \<Rightarrow> addr \<Rightarrow> bit_state option" where
  "bit_r2m_save_opw mal tc dst =
     do {
       (entry, tc) \<leftarrow> ENTRY mal tc dst;
       entry_v \<leftarrow> LOAD tc entry;
       g_0 \<leftarrow> GPR tc 0;
       tc \<leftarrow> STORE tc entry ((entry_v AND (NOT (push_bit (VIRT2BIT dst) WORD_MASK))) OR
         (push_bit (VIRT2BIT dst) (ucast (ucast (g_0 AND VCPU_MASK16) :: 16 word) :: 32 word)));
       let dst = dst + 2;
       (entry, tc) \<leftarrow> ENTRY mal tc dst;
       entry_v \<leftarrow> LOAD tc entry;
       g_1 \<leftarrow> GPR tc 1;
       tc \<leftarrow> STORE tc entry ((entry_v AND (NOT (push_bit (VIRT2BIT dst) WORD_MASK))) OR
         (push_bit (VIRT2BIT dst) (ucast (ucast (g_1 AND VCPU_MASK16) :: 16 word) :: 32 word)));
       let dst = dst + 2;
       (entry, tc) \<leftarrow> ENTRY mal tc dst;
       entry_v \<leftarrow> LOAD tc entry;
       g_2 \<leftarrow> GPR tc 2;
       tc \<leftarrow> STORE tc entry ((entry_v AND (NOT (push_bit (VIRT2BIT dst) WORD_MASK))) OR
         (push_bit (VIRT2BIT dst) (ucast (ucast (g_2 AND VCPU_MASK16) :: 16 word) :: 32 word)));
       let dst = dst + 2;
       (entry, tc) \<leftarrow> ENTRY mal tc dst;
       entry_v \<leftarrow> LOAD tc entry;
       g_3 \<leftarrow> GPR tc 3;
       tc \<leftarrow> STORE tc entry ((entry_v AND (NOT (push_bit (VIRT2BIT dst) WORD_MASK))) OR
         (push_bit (VIRT2BIT dst) (ucast (ucast (g_3 AND VCPU_MASK16) :: 16 word) :: 32 word)));
       let dst = dst + 2;
       (entry, tc) \<leftarrow> ENTRY mal tc dst;
       entry_v \<leftarrow> LOAD tc entry;
       g_4 \<leftarrow> GPR tc 4;
       tc \<leftarrow> STORE tc entry ((entry_v AND (NOT (push_bit (VIRT2BIT dst) WORD_MASK))) OR
         (push_bit (VIRT2BIT dst) (ucast (ucast (g_4 AND VCPU_MASK16) :: 16 word) :: 32 word)));
       let dst = dst + 2;
       (entry, tc) \<leftarrow> ENTRY mal tc dst;
       entry_v \<leftarrow> LOAD tc entry;
       g_5 \<leftarrow> GPR tc 5;
       tc \<leftarrow> STORE tc entry ((entry_v AND (NOT (push_bit (VIRT2BIT dst) WORD_MASK))) OR
         (push_bit (VIRT2BIT dst) (ucast (ucast (g_5 AND VCPU_MASK16) :: 16 word) :: 32 word)));
       let dst = dst + 2;
       (entry, tc) \<leftarrow> ENTRY mal tc dst;
       entry_v \<leftarrow> LOAD tc entry;
       g_6 \<leftarrow> GPR tc 6;
       tc \<leftarrow> STORE tc entry ((entry_v AND (NOT (push_bit (VIRT2BIT dst) WORD_MASK))) OR
         (push_bit (VIRT2BIT dst) (ucast (ucast (g_6 AND VCPU_MASK16) :: 16 word) :: 32 word)));
       let dst = dst + 2;
       (entry, tc) \<leftarrow> ENTRY mal tc dst;
       entry_v \<leftarrow> LOAD tc entry;
       g_7 \<leftarrow> GPR tc 7;
       STORE tc entry ((entry_v AND (NOT (push_bit (VIRT2BIT dst) WORD_MASK))) OR (push_bit
         (VIRT2BIT dst) (ucast (ucast (g_7 AND VCPU_MASK16) :: 16 word) :: 32 word)))
     }"

definition bit_r2m_save_opl ::
  "malloc_outcome \<Rightarrow> bit_state \<Rightarrow> addr \<Rightarrow> bit_state option" where
  "bit_r2m_save_opl mal tc dst =
     do {
       (entry, tc) \<leftarrow> ENTRY mal tc dst;
       entry_v \<leftarrow> LOAD tc entry;
       g_0 \<leftarrow> GPR tc 0;
       tc \<leftarrow> STORE tc entry ((entry_v AND (NOT (push_bit (VIRT2BIT dst) LONG_MASK))) OR
         (push_bit (VIRT2BIT dst) (ucast (ucast (g_0 AND VCPU_MASK32) :: 16 word) :: 32 word)));
       let dst = dst + 4;
       (entry, tc) \<leftarrow> ENTRY mal tc dst;
       entry_v \<leftarrow> LOAD tc entry;
       g_1 \<leftarrow> GPR tc 1;
       tc \<leftarrow> STORE tc entry ((entry_v AND (NOT (push_bit (VIRT2BIT dst) LONG_MASK))) OR
         (push_bit (VIRT2BIT dst) (ucast (ucast (g_1 AND VCPU_MASK32) :: 16 word) :: 32 word)));
       let dst = dst + 4;
       (entry, tc) \<leftarrow> ENTRY mal tc dst;
       entry_v \<leftarrow> LOAD tc entry;
       g_2 \<leftarrow> GPR tc 2;
       tc \<leftarrow> STORE tc entry ((entry_v AND (NOT (push_bit (VIRT2BIT dst) LONG_MASK))) OR
         (push_bit (VIRT2BIT dst) (ucast (ucast (g_2 AND VCPU_MASK32) :: 16 word) :: 32 word)));
       let dst = dst + 4;
       (entry, tc) \<leftarrow> ENTRY mal tc dst;
       entry_v \<leftarrow> LOAD tc entry;
       g_3 \<leftarrow> GPR tc 3;
       tc \<leftarrow> STORE tc entry ((entry_v AND (NOT (push_bit (VIRT2BIT dst) LONG_MASK))) OR
         (push_bit (VIRT2BIT dst) (ucast (ucast (g_3 AND VCPU_MASK32) :: 16 word) :: 32 word)));
       let dst = dst + 4;
       (entry, tc) \<leftarrow> ENTRY mal tc dst;
       entry_v \<leftarrow> LOAD tc entry;
       g_4 \<leftarrow> GPR tc 4;
       tc \<leftarrow> STORE tc entry ((entry_v AND (NOT (push_bit (VIRT2BIT dst) LONG_MASK))) OR
         (push_bit (VIRT2BIT dst) (ucast (ucast (g_4 AND VCPU_MASK32) :: 16 word) :: 32 word)));
       let dst = dst + 4;
       (entry, tc) \<leftarrow> ENTRY mal tc dst;
       entry_v \<leftarrow> LOAD tc entry;
       g_5 \<leftarrow> GPR tc 5;
       tc \<leftarrow> STORE tc entry ((entry_v AND (NOT (push_bit (VIRT2BIT dst) LONG_MASK))) OR
         (push_bit (VIRT2BIT dst) (ucast (ucast (g_5 AND VCPU_MASK32) :: 16 word) :: 32 word)));
       let dst = dst + 4;
       (entry, tc) \<leftarrow> ENTRY mal tc dst;
       entry_v \<leftarrow> LOAD tc entry;
       g_6 \<leftarrow> GPR tc 6;
       tc \<leftarrow> STORE tc entry ((entry_v AND (NOT (push_bit (VIRT2BIT dst) LONG_MASK))) OR
         (push_bit (VIRT2BIT dst) (ucast (ucast (g_6 AND VCPU_MASK32) :: 16 word) :: 32 word)));
       let dst = dst + 4;
       (entry, tc) \<leftarrow> ENTRY mal tc dst;
       entry_v \<leftarrow> LOAD tc entry;
       g_7 \<leftarrow> GPR tc 7;
       STORE tc entry ((entry_v AND (NOT (push_bit (VIRT2BIT dst) LONG_MASK))) OR (push_bit
         (VIRT2BIT dst) (ucast (ucast (g_7 AND VCPU_MASK32) :: 16 word) :: 32 word)))
     }"

definition bit_m_clrn ::
  "malloc_outcome \<Rightarrow> bit_state \<Rightarrow> addr \<Rightarrow> nat \<Rightarrow>
    bit_state option" where
  "bit_m_clrn mal tc addr n =
     do {
       st \<leftarrow> bit_tagmap_clrn mal addr (of_nat n) (bstab tc);
       Some (tc\<lparr>bstab := st\<rparr>)
     }"

subsection \<open>Calls and their flows\<close>

fun exec_bit_misc ::
  "malloc_outcome \<Rightarrow> misc_call \<Rightarrow> bit_state \<Rightarrow> bit_state option"
    where
    "exec_bit_misc mal (M2r_bitscan_opq dst src) tc = bit_m2r_bitscan_opq mal tc dst src"
  | "exec_bit_misc mal (M2r_bitscan_opl dst src) tc = bit_m2r_bitscan_opl mal tc dst src"
  | "exec_bit_misc mal (M2r_bitscan_opw dst src) tc = bit_m2r_bitscan_opw mal tc dst src"
  | "exec_bit_misc mal (R2r_bitscan_opq dst src) tc = bit_r2r_bitscan_opq tc dst src"
  | "exec_bit_misc mal (R2r_bitscan_opl dst src) tc = bit_r2r_bitscan_opl tc dst src"
  | "exec_bit_misc mal (R2r_bitscan_opw dst src) tc = bit_r2r_bitscan_opw tc dst src"
  | "exec_bit_misc mal (M2r_restore_opw src) tc = bit_m2r_restore_opw mal tc src"
  | "exec_bit_misc mal (M2r_restore_opl src) tc = bit_m2r_restore_opl mal tc src"
  | "exec_bit_misc mal (R2m_save_opw dst) tc = bit_r2m_save_opw mal tc dst"
  | "exec_bit_misc mal (R2m_save_opl dst) tc = bit_r2m_save_opl mal tc dst"
  | "exec_bit_misc mal (M_clrn addr n) tc = bit_m_clrn mal tc addr n"

fun bit_misc_flow ::
  "misc_call \<Rightarrow> bit_flow" where
    "bit_misc_flow (M2r_bitscan_opq dst src) =
     (on_reg dst 0 8 (\<lambda>i. if i = 0 then map (\<lambda>k. Mem (src + of_nat k)) [0..<8]
       else []) keep)"
  | "bit_misc_flow (M2r_bitscan_opl dst src) =
     (on_reg dst 0 8 (\<lambda>i. if i = 0 then map (\<lambda>k. Mem (src + of_nat k)) [0..<4]
       else []) keep)"
  | "bit_misc_flow (M2r_bitscan_opw dst src) =
     (on_reg dst 0 2 (\<lambda>i. if i = 0 then map (\<lambda>k. Mem (src + of_nat k)) [0..<2]
       else []) keep)"
  | "bit_misc_flow (R2r_bitscan_opq dst src) =
     (on_reg dst 0 8 (\<lambda>i. if i = 0 then map (\<lambda>k. Reg src k) [0..<8] else []) keep)"
  | "bit_misc_flow (R2r_bitscan_opl dst src) =
     (on_reg dst 0 8 (\<lambda>i. if i = 0 then map (\<lambda>k. Reg src k) [0..<4] else []) keep)"
  | "bit_misc_flow (R2r_bitscan_opw dst src) =
     (on_reg dst 0 2 (\<lambda>i. if i = 0 then map (\<lambda>k. Reg src k) [0..<2] else []) keep)"
  | "bit_misc_flow (M2r_restore_opw src) =
     (keep)"
  | "bit_misc_flow (M2r_restore_opl src) =
     (keep)"
  | "bit_misc_flow (R2m_save_opw dst) =
     (keep)"
  | "bit_misc_flow (R2m_save_opl dst) =
     (keep)"
  | "bit_misc_flow (M_clrn addr n) =
     (keep)"

fun bit_misc_ok ::
  "misc_call \<Rightarrow> bool" where
    "bit_misc_ok (M2r_bitscan_opq dst src) \<longleftrightarrow> dst < 17 \<and> mem_ok src"
  | "bit_misc_ok (M2r_bitscan_opl dst src) \<longleftrightarrow> dst < 17 \<and> mem_ok src"
  | "bit_misc_ok (M2r_bitscan_opw dst src) \<longleftrightarrow> dst < 17 \<and> mem_ok src"
  | "bit_misc_ok (R2r_bitscan_opq dst src) \<longleftrightarrow> dst < 17 \<and> src < 17"
  | "bit_misc_ok (R2r_bitscan_opl dst src) \<longleftrightarrow> dst < 17 \<and> src < 17"
  | "bit_misc_ok (R2r_bitscan_opw dst src) \<longleftrightarrow> dst < 17 \<and> src < 17"
  | "bit_misc_ok (M2r_restore_opw src) \<longleftrightarrow> False"
  | "bit_misc_ok (M2r_restore_opl src) \<longleftrightarrow> False"
  | "bit_misc_ok (R2m_save_opw dst) \<longleftrightarrow> False"
  | "bit_misc_ok (R2m_save_opl dst) \<longleftrightarrow> False"
  | "bit_misc_ok (M_clrn addr n) \<longleftrightarrow> False"

subsection \<open>Each call performs its flow\<close>

lemma m2r_bitscan_opq_runs:
  "bit_ready mal tc \<Longrightarrow> bit_misc_ok (M2r_bitscan_opq dst src) \<Longrightarrow>
   bit_runs (bit_misc_flow (M2r_bitscan_opq dst src)) tc (exec_bit_misc mal (M2r_bitscan_opq dst
     src) tc)"
  by (simp add: bit_ready_def bit_wf_def bit_m2r_bitscan_opq_def bit_exec Let_def)
    (auto intro!: bit_runs_intros simp: bit_eval dest: bit_low split: if_splits)

lemma m2r_bitscan_opl_runs:
  "bit_ready mal tc \<Longrightarrow> bit_misc_ok (M2r_bitscan_opl dst src) \<Longrightarrow>
   bit_runs (bit_misc_flow (M2r_bitscan_opl dst src)) tc (exec_bit_misc mal (M2r_bitscan_opl dst
     src) tc)"
  by (simp add: bit_ready_def bit_wf_def bit_m2r_bitscan_opl_def bit_exec Let_def)
    (auto intro!: bit_runs_intros simp: bit_eval dest: bit_low split: if_splits)

lemma m2r_bitscan_opw_runs:
  "bit_ready mal tc \<Longrightarrow> bit_misc_ok (M2r_bitscan_opw dst src) \<Longrightarrow>
   bit_runs (bit_misc_flow (M2r_bitscan_opw dst src)) tc (exec_bit_misc mal (M2r_bitscan_opw dst
     src) tc)"
  by (simp add: bit_ready_def bit_wf_def bit_m2r_bitscan_opw_def bit_exec Let_def)
    (auto intro!: bit_runs_intros simp: bit_eval dest: bit_low split: if_splits)

lemma r2r_bitscan_opq_runs:
  "bit_ready mal tc \<Longrightarrow> bit_misc_ok (R2r_bitscan_opq dst src) \<Longrightarrow>
   bit_runs (bit_misc_flow (R2r_bitscan_opq dst src)) tc (exec_bit_misc mal (R2r_bitscan_opq dst
     src) tc)"
  by (simp add: bit_ready_def bit_wf_def bit_r2r_bitscan_opq_def bit_exec Let_def)
    (auto intro!: bit_runs_intros simp: bit_eval dest: bit_low split: if_splits; blast)

lemma r2r_bitscan_opl_runs:
  "bit_ready mal tc \<Longrightarrow> bit_misc_ok (R2r_bitscan_opl dst src) \<Longrightarrow>
   bit_runs (bit_misc_flow (R2r_bitscan_opl dst src)) tc (exec_bit_misc mal (R2r_bitscan_opl dst
     src) tc)"
  by (simp add: bit_ready_def bit_wf_def bit_r2r_bitscan_opl_def bit_exec Let_def)
    (auto intro!: bit_runs_intros simp: bit_eval dest: bit_low split: if_splits)

lemma r2r_bitscan_opw_runs:
  "bit_ready mal tc \<Longrightarrow> bit_misc_ok (R2r_bitscan_opw dst src) \<Longrightarrow>
   bit_runs (bit_misc_flow (R2r_bitscan_opw dst src)) tc (exec_bit_misc mal (R2r_bitscan_opw dst
     src) tc)"
  by (simp add: bit_ready_def bit_wf_def bit_r2r_bitscan_opw_def bit_exec Let_def)
    (auto intro!: bit_runs_intros simp: bit_eval dest: bit_low split: if_splits)

lemmas bit_misc_runs =
  m2r_bitscan_opq_runs m2r_bitscan_opl_runs m2r_bitscan_opw_runs
  r2r_bitscan_opq_runs r2r_bitscan_opl_runs r2r_bitscan_opw_runs

lemma exec_bit_misc_runs:
  "bit_ready mal tc \<Longrightarrow> bit_misc_ok c \<Longrightarrow> bit_runs (bit_misc_flow c)
    tc (exec_bit_misc mal c tc)"
  by (cases c) (simp_all only: bit_misc_runs bit_misc_ok.simps)

end
