(* ===== verification/BitCalls.thy ===== *)
theory BitCalls
  imports BitMov BitXchg BitAlu BitXfer BitMisc Calls
begin

text \<open>
  Sequences of analysis calls in the build without \<^verbatim>\<open>USE_CUSTOM_TAG\<close>. The locale \<open>flow_machine\<close>
  is what the two builds share: a call succeeds on good states and gives every location the
  union of the values of the sources its flow names; runs then compose the flows. It is
  interpreted on both builds (\<open>tag_build\<close>, \<open>bit_build\<close>).
\<close>

declare push_bit_Suc [simp del] drop_bit_Suc [simp del] of_nat_diff [simp del]

subsection \<open>Calls\<close>

definition bit_clr ::
  "(addr \<Rightarrow> stab \<Rightarrow> stab option) \<Rightarrow> addr \<Rightarrow> bit_state \<Rightarrow> bit_state option" where
  "bit_clr f a tc = do { st \<leftarrow> f a (bstab tc); Some (tc\<lparr>bstab := st\<rparr>) }"

fun bit_exec_call :: "malloc_outcome \<Rightarrow> call \<Rightarrow> bit_state \<Rightarrow> bit_state option" where
  "bit_exec_call mal (MovC c) tc = exec_bit_mov mal c tc"
| "bit_exec_call mal (XchgC c) tc = exec_bit_xchg mal c tc"
| "bit_exec_call mal (AluC c) tc = exec_bit_alu mal c tc"
| "bit_exec_call mal (XferC c) tc = exec_bit_xfer mal c tc"
| "bit_exec_call mal (MiscC c) tc = exec_bit_misc mal c tc"
| "bit_exec_call mal (Tagmap_clrb a) tc = bit_clr (bit_tagmap_clrb mal) a tc"
| "bit_exec_call mal (Tagmap_clrw a) tc = bit_clr (bit_tagmap_clrw mal) a tc"
| "bit_exec_call mal (Tagmap_clrl a) tc = bit_clr (bit_tagmap_clrl mal) a tc"
| "bit_exec_call mal (Tagmap_clrq a) tc = bit_clr (bit_tagmap_clrq mal) a tc"

definition bit_exec_calls :: "malloc_outcome \<Rightarrow> call list \<Rightarrow> bit_state \<Rightarrow> bit_state option" where
  "bit_exec_calls mal cs tc = iterM (bit_exec_call mal) cs tc"

fun bit_call_flow :: "call \<Rightarrow> bit_flow" where
  "bit_call_flow (MovC c) = bit_mov_flow c"
| "bit_call_flow (XchgC c) = bit_xchg_flow c"
| "bit_call_flow (AluC c) = bit_alu_flow c"
| "bit_call_flow (XferC c) = bit_xfer_flow c"
| "bit_call_flow (MiscC c) = bit_misc_flow c"
| "bit_call_flow (Tagmap_clrb a) = on_mem a 1 (\<lambda>i. []) keep"
| "bit_call_flow (Tagmap_clrw a) = on_mem a 2 (\<lambda>i. []) keep"
| "bit_call_flow (Tagmap_clrl a) = on_mem a 4 (\<lambda>i. []) keep"
| "bit_call_flow (Tagmap_clrq a) = on_mem a 8 (\<lambda>i. []) keep"

fun bit_call_ok :: "call \<Rightarrow> bool" where
  "bit_call_ok (MovC c) = bit_mov_ok c"
| "bit_call_ok (XchgC c) = bit_xchg_ok c"
| "bit_call_ok (AluC c) = bit_alu_ok c"
| "bit_call_ok (XferC c) = bit_xfer_ok c"
| "bit_call_ok (MiscC c) = bit_misc_ok c"
| "bit_call_ok (Tagmap_clrb a) = mem_ok a"
| "bit_call_ok (Tagmap_clrw a) = mem_ok a"
| "bit_call_ok (Tagmap_clrl a) = mem_ok a"
| "bit_call_ok (Tagmap_clrq a) = mem_ok a"

fun sources :: "('c \<Rightarrow> loc \<Rightarrow> loc list) \<Rightarrow> 'c list \<Rightarrow> loc \<Rightarrow> loc list" where
  "sources flow [] l = [l]"
| "sources flow (c # cs) l = concat (map (flow c) (sources flow cs l))"

lemma clr_runs:
  assumes "bit_ready mal tc" "mem_ok a" "w \<le> 8" "\<And>st. f a st = entry_andn mal (mask w) a st"
  shows "bit_runs (on_mem a w (\<lambda>i. []) keep) tc (bit_clr f a tc)"
proof -
  have "entry_ready mal a (bstab tc)" and tc: "bit_wf tc"
    using assms(1,2) by (auto simp: entry_ready_def bit_ready_def bit_wf_def mem_ok_def)
  then obtain st where st: "f a (bstab tc) = Some st"
      "\<forall>n. bit_at st n \<longleftrightarrow> bit_at (bstab tc) n \<and> \<not> (pos a \<le> n \<and> n < pos a + w)"
    using entry_andn_spec [OF assms(3), of mal a "bstab tc"] by (auto simp: assms(4) split: option.splits)
  moreover have "st \<noteq> None"
    using st(1) by (auto simp: assms(4) entry_andn_def dest!: store16_not_None split: Option.bind_splits)
  ultimately show ?thesis
    using tc by (auto simp: bit_clr_def bit_runs_Some bit_wf_def on_mem_def keep_def)
qed

lemma bit_exec_call_runs:
  assumes "bit_ready mal tc" "bit_call_ok c"
  shows "bit_runs (bit_call_flow c) tc (bit_exec_call mal c tc)"
  using assms
  by (cases c)
    (simp_all add: exec_bit_mov_runs exec_bit_xchg_runs exec_bit_alu_runs exec_bit_xfer_runs
      exec_bit_misc_runs clr_runs bit_tagmap_defs masks)

text \<open>Flows lead from bytes of registers and memory to such bytes.\<close>

definition closed :: "bit_flow \<Rightarrow> bool" where
  "closed F \<longleftrightarrow> (\<forall>l. loc_ok l \<longrightarrow> list_all loc_ok (F l))"

lemma closed_keep [simp]: "closed keep"
  by (simp add: closed_def keep_def)

lemma closed_on_reg:
  "closed f \<Longrightarrow> (\<And>i. m \<le> i \<Longrightarrow> i < n \<Longrightarrow> list_all loc_ok (S i)) \<Longrightarrow> closed (on_reg d m n S f)"
  by (auto simp: closed_def on_reg_def split: loc.splits)

lemma closed_on_mem:
  "closed f \<Longrightarrow> (\<And>i. i < n \<Longrightarrow> list_all loc_ok (S i)) \<Longrightarrow> closed (on_mem a n S f)"
  by (auto simp: closed_def on_mem_def split: loc.splits)

lemma loc_ok_simps [simp]: "loc_ok (Mem a)" "loc_ok (Reg r i) \<longleftrightarrow> r < 17 \<and> i < 8"
  by (simp_all add: loc_ok_def)

lemma list_all_if [simp]: "list_all P (if b then xs else ys) \<longleftrightarrow> (if b then list_all P xs else list_all P ys)"
  by simp

lemmas closed_intros = closed_keep closed_on_reg closed_on_mem

lemma unscratch_less [simp]: "r < 17 \<Longrightarrow> unscratch r < 17"
  by (simp add: unscratch_def)

lemma bit_mov_closed: "bit_mov_ok c \<Longrightarrow> closed (bit_mov_flow c)"
  by (cases c) (auto intro!: closed_intros)

lemma bit_xchg_closed: "bit_xchg_ok c \<Longrightarrow> closed (bit_xchg_flow c)"
  by (cases c) (auto intro!: closed_intros)

lemma bit_alu_closed: "bit_alu_ok c \<Longrightarrow> closed (bit_alu_flow c)"
  by (cases c) (auto intro!: closed_intros)

lemma bit_xfer_closed: "bit_xfer_ok c \<Longrightarrow> closed (bit_xfer_flow c)"
  by (cases c) (auto intro!: closed_intros)

lemma bit_misc_closed: "bit_misc_ok c \<Longrightarrow> closed (bit_misc_flow c)"
  by (cases c) (auto intro!: closed_intros simp: list_all_iff)

lemma bit_call_closed: "bit_call_ok c \<Longrightarrow> closed (bit_call_flow c)"
  by (cases c)
    (auto simp: bit_mov_closed bit_xchg_closed bit_alu_closed bit_xfer_closed bit_misc_closed
      intro!: closed_on_mem)

subsection \<open>The contract of both builds\<close>

locale flow_machine =
  fixes step :: "'c \<Rightarrow> 's \<Rightarrow> 's option"
    and flow :: "'c \<Rightarrow> loc \<Rightarrow> loc list"
    and good_call :: "'c \<Rightarrow> bool"
    and good :: "'s \<Rightarrow> bool"
    and val :: "'s \<Rightarrow> loc \<Rightarrow> 'v set"
    and cell :: "loc \<Rightarrow> bool"
  assumes step_flow: "good s \<Longrightarrow> good_call c \<Longrightarrow>
      \<exists>s'. step c s = Some s' \<and> good s' \<and> (\<forall>l. cell l \<longrightarrow> val s' l = (\<Union>x\<in>set (flow c l). val s x))"
    and flow_cell: "good_call c \<Longrightarrow> cell l \<Longrightarrow> x \<in> set (flow c l) \<Longrightarrow> cell x"
begin

lemma sources_cell: "list_all good_call cs \<Longrightarrow> cell l \<Longrightarrow> x \<in> set (sources flow cs l) \<Longrightarrow> cell x"
  by (induction cs arbitrary: x) (auto intro: flow_cell)

lemma run_flow:
  "good s \<Longrightarrow> list_all good_call cs \<Longrightarrow>
   \<exists>s'. iterM step cs s = Some s' \<and> good s' \<and>
     (\<forall>l. cell l \<longrightarrow> val s' l = (\<Union>x\<in>set (sources flow cs l). val s x))"
proof (induction cs arbitrary: s)
  case (Cons c cs)
  obtain s1 where s1: "step c s = Some s1" "good s1"
      "\<And>l. cell l \<Longrightarrow> val s1 l = (\<Union>x\<in>set (flow c l). val s x)"
    using step_flow [of s c] Cons.prems by auto
  obtain s2 where s2: "iterM step cs s1 = Some s2" "good s2"
      "\<And>l. cell l \<Longrightarrow> val s2 l = (\<Union>x\<in>set (sources flow cs l). val s1 x)"
    using Cons.IH [OF s1(2)] Cons.prems by auto
  have "val s2 l = (\<Union>x\<in>set (sources flow (c # cs) l). val s x)" if "cell l" for l
    using s1(3) s2(3) [OF that] sources_cell [OF _ that, of cs] Cons.prems by auto
  then show ?case
    using s1(1) s2(1,2) by auto
qed simp

end

definition bit_val :: "bit_state \<Rightarrow> loc \<Rightarrow> unit set" where
  "bit_val tc l = {u. bit_of tc l}"

lemma bit_val_eq: "bit_val tc' l = (\<Union>x\<in>X. bit_val tc x) \<longleftrightarrow> (bit_of tc' l \<longleftrightarrow> (\<exists>x\<in>X. bit_of tc x))"
  by (auto simp: bit_val_def)

definition tag_val :: "'u::linorder taint_state \<Rightarrow> loc \<Rightarrow> 'u set" where
  "tag_val tc l = tag_members (tag_of tc l)"

interpretation tag_build: flow_machine exec_call "\<lambda>c. flow_at (call_flow c)" call_ok "\<lambda>_. True" tag_val "\<lambda>_. True"
  by unfold_locales (auto simp: exec_call_flow tag_val_def tag_of_apply_flow members_combine_all)

interpretation bit_build: flow_machine "bit_exec_call mal" bit_call_flow bit_call_ok "bit_ready mal" bit_val loc_ok
  for mal
proof
  fix s c assume ok: "bit_ready mal s" "bit_call_ok c"
  show "\<exists>s'. bit_exec_call mal c s = Some s' \<and> bit_ready mal s' \<and>
      (\<forall>l. loc_ok l \<longrightarrow> bit_val s' l = (\<Union>x\<in>set (bit_call_flow c l). bit_val s x))"
    using bit_exec_call_runs [OF ok] ok(1) unfolding bit_runs_def bit_ready_def bit_val_eq by blast
next
  show "bit_call_ok c \<Longrightarrow> loc_ok l \<Longrightarrow> x \<in> set (bit_call_flow c l) \<Longrightarrow> loc_ok x" for c l x
    using bit_call_closed [of c] by (auto simp: closed_def list_all_iff)
qed

end
