(* ===== verification/BitAgree.thy ===== *)
theory BitAgree
  imports BitCalls
begin

text \<open>
  The two builds of the analysis routines side by side. The locale \<open>two_builds\<close> takes two flow
  machines and the calls on which their flows agree; runs of such calls keep the states
  related. The calls \<open>agree\<close> lists are the 8, 16 and 64 bit forms that both builds implement
  alike (32-bit register destinations, sign extension, bit scan and repeated stores are treated
  differently), on addresses below 4 GB, where neither build confuses two addresses.

  Last, the routines of the bit build that save all registers are sequences of transfers, and
  the repeated stores fill a range with one decision for all bytes of the source.
\<close>

declare push_bit_Suc [simp del] drop_bit_Suc [simp del] of_nat_diff [simp del]

subsection \<open>Two machines\<close>

locale two_builds =
  a: flow_machine step_a flow_a ok_a good_a val_a cell_a +
  b: flow_machine step_b flow_b ok_b good_b val_b cell_b
  for step_a :: "'c \<Rightarrow> 's \<Rightarrow> 's option" and flow_a ok_a good_a and val_a :: "'s \<Rightarrow> loc \<Rightarrow> 'v set" and cell_a
    and step_b :: "'c \<Rightarrow> 't \<Rightarrow> 't option" and flow_b ok_b good_b and val_b :: "'t \<Rightarrow> loc \<Rightarrow> 'w set" and cell_b +
  fixes same :: "'c \<Rightarrow> bool" and shared :: "loc \<Rightarrow> bool"
  assumes same_ok: "same c \<Longrightarrow> ok_a c \<and> ok_b c"
    and same_flow: "same c \<Longrightarrow> shared l \<Longrightarrow> set (flow_a c l) = set (flow_b c l)"
    and same_shared: "same c \<Longrightarrow> shared l \<Longrightarrow> x \<in> set (flow_a c l) \<Longrightarrow> shared x"
    and shared_cell: "shared l \<Longrightarrow> cell_a l \<and> cell_b l"
begin

definition related :: "'s \<Rightarrow> 't \<Rightarrow> bool" where
  "related s t \<longleftrightarrow> (\<forall>l. shared l \<longrightarrow> (val_a s l \<noteq> {} \<longleftrightarrow> val_b t l \<noteq> {}))"

lemma same_shared_b: "same c \<Longrightarrow> shared l \<Longrightarrow> x \<in> set (flow_b c l) \<Longrightarrow> shared x"
  using same_flow same_shared by blast

lemma sources_same:
  "list_all same cs \<Longrightarrow> shared l \<Longrightarrow>
   set (sources flow_a cs l) = set (sources flow_b cs l) \<and> (\<forall>x\<in>set (sources flow_a cs l). shared x)"
  by (induction cs) (auto simp: same_flow intro: same_shared_b)

lemma runs_related:
  assumes "good_a s" "good_b t" "related s t" "list_all same cs"
  shows "\<exists>s' t'. iterM step_a cs s = Some s' \<and> iterM step_b cs t = Some t' \<and>
    good_a s' \<and> good_b t' \<and> related s' t'"
proof -
  have ok: "list_all ok_a cs" "list_all ok_b cs"
    using assms(4) same_ok by (simp_all add: list_all_iff)
  obtain s' where s': "iterM step_a cs s = Some s'" "good_a s'"
      "\<forall>l. cell_a l \<longrightarrow> val_a s' l = (\<Union>x\<in>set (sources flow_a cs l). val_a s x)"
    using a.run_flow [OF assms(1) ok(1)] by blast
  obtain t' where t': "iterM step_b cs t = Some t'" "good_b t'"
      "\<forall>l. cell_b l \<longrightarrow> val_b t' l = (\<Union>x\<in>set (sources flow_b cs l). val_b t x)"
    using b.run_flow [OF assms(2) ok(2)] by blast
  have "val_a s' l \<noteq> {} \<longleftrightarrow> val_b t' l \<noteq> {}" if "shared l" for l
    using s'(3) t'(3) shared_cell [OF that] sources_same [OF assms(4) that] assms(3)
    unfolding related_def by simp
  then show ?thesis
    using s'(1,2) t'(1,2) by (auto simp: related_def)
qed

end

subsection \<open>Shared addresses\<close>

definition low :: "loc \<Rightarrow> bool" where
  "low l \<longleftrightarrow> (case l of Reg r i \<Rightarrow> r < 17 \<and> i < 8 | Mem a \<Rightarrow> unat a < 2 ^ 32)"

definition low_mem :: "addr \<Rightarrow> bool" where
  "low_mem a \<longleftrightarrow> mem_ok a \<and> unat a + 8 \<le> 2 ^ 32"

fun agree_mov :: "mov_call \<Rightarrow> bool" where
  "agree_mov (Movzx_r2r_opwb_u dst src) \<longleftrightarrow> dst < 17 \<and> src < 17"
| "agree_mov (Movzx_r2r_opwb_l dst src) \<longleftrightarrow> dst < 17 \<and> src < 17"
| "agree_mov (Movzx_r2r_opqb_u dst src) \<longleftrightarrow> dst < 17 \<and> src < 17"
| "agree_mov (Movzx_r2r_opqb_l dst src) \<longleftrightarrow> dst < 17 \<and> src < 17"
| "agree_mov (Movzx_r2r_opqw dst src) \<longleftrightarrow> dst < 17 \<and> src < 17"
| "agree_mov (Movzx_m2r_opwb dst src) \<longleftrightarrow> dst < 17 \<and> low_mem src"
| "agree_mov (Movzx_m2r_opqb dst src) \<longleftrightarrow> dst < 17 \<and> low_mem src"
| "agree_mov (Movzx_m2r_opqw dst src) \<longleftrightarrow> dst < 17 \<and> low_mem src"
| "agree_mov _ \<longleftrightarrow> False"

fun agree_xchg :: "xchg_call \<Rightarrow> bool" where
  "agree_xchg (Xchg_r2r_opb_ul dst src) \<longleftrightarrow> dst < 17 \<and> src < 17"
| "agree_xchg (Xchg_r2r_opb_lu dst src) \<longleftrightarrow> dst < 17 \<and> src < 17"
| "agree_xchg (Xchg_r2r_opb_u dst src) \<longleftrightarrow> dst < 17 \<and> src < 17"
| "agree_xchg (Xchg_r2r_opb_l dst src) \<longleftrightarrow> dst < 17 \<and> src < 17"
| "agree_xchg (Xchg_r2r_opw dst src) \<longleftrightarrow> dst < 17 \<and> src < 17"
| "agree_xchg (Xchg_r2r_opq dst src) \<longleftrightarrow> dst < 17 \<and> src < 17"
| "agree_xchg (Xchg_m2r_opb_u dst src) \<longleftrightarrow> dst < 17 \<and> low_mem src"
| "agree_xchg (Xchg_m2r_opb_l dst src) \<longleftrightarrow> dst < 17 \<and> low_mem src"
| "agree_xchg (Xchg_m2r_opw dst src) \<longleftrightarrow> dst < 17 \<and> low_mem src"
| "agree_xchg (Xchg_m2r_opq dst src) \<longleftrightarrow> dst < 17 \<and> low_mem src"
| "agree_xchg (Xadd_r2r_opb_ul dst src) \<longleftrightarrow> dst < 17 \<and> src < 17"
| "agree_xchg (Xadd_r2r_opb_lu dst src) \<longleftrightarrow> dst < 17 \<and> src < 17"
| "agree_xchg (Xadd_r2r_opb_u dst src) \<longleftrightarrow> dst < 17 \<and> src < 17"
| "agree_xchg (Xadd_r2r_opb_l dst src) \<longleftrightarrow> dst < 17 \<and> src < 17"
| "agree_xchg (Xadd_r2r_opw dst src) \<longleftrightarrow> dst < 17 \<and> src < 17"
| "agree_xchg (Xadd_r2r_opq dst src) \<longleftrightarrow> dst < 17 \<and> src < 17"
| "agree_xchg (Xadd_r2m_opb_u src dst) \<longleftrightarrow> src < 17 \<and> low_mem dst"
| "agree_xchg (Xadd_r2m_opb_l src dst) \<longleftrightarrow> src < 17 \<and> low_mem dst"
| "agree_xchg (Xadd_r2m_opw src dst) \<longleftrightarrow> src < 17 \<and> low_mem dst"
| "agree_xchg (Xadd_r2m_opq src dst) \<longleftrightarrow> src < 17 \<and> low_mem dst"
| "agree_xchg _ \<longleftrightarrow> False"

fun agree_alu :: "alu_call \<Rightarrow> bool" where
  "agree_alu (Lea_r2r_opw dst base index) \<longleftrightarrow> dst < 17 \<and> base < 17 \<and> index < 17"
| "agree_alu (Lea_r2r_opq dst base index) \<longleftrightarrow> dst < 17 \<and> base < 17 \<and> index < 17"
| "agree_alu (R2r_ternary_opb_u src) \<longleftrightarrow> src < 17"
| "agree_alu (R2r_ternary_opb_l src) \<longleftrightarrow> src < 17"
| "agree_alu (R2r_ternary_opw src) \<longleftrightarrow> src < 17"
| "agree_alu (R2r_ternary_opq src) \<longleftrightarrow> src < 17"
| "agree_alu (M2r_ternary_opb src) \<longleftrightarrow> low_mem src"
| "agree_alu (M2r_ternary_opw src) \<longleftrightarrow> low_mem src"
| "agree_alu (M2r_ternary_opq src) \<longleftrightarrow> low_mem src"
| "agree_alu (R2r_binary_opb_ul dst src) \<longleftrightarrow> dst < 17 \<and> src < 17"
| "agree_alu (R2r_binary_opb_lu dst src) \<longleftrightarrow> dst < 17 \<and> src < 17"
| "agree_alu (R2r_binary_opb_u dst src) \<longleftrightarrow> dst < 17 \<and> src < 17"
| "agree_alu (R2r_binary_opb_l dst src) \<longleftrightarrow> dst < 17 \<and> src < 17"
| "agree_alu (R2r_binary_opw dst src) \<longleftrightarrow> dst < 17 \<and> src < 17"
| "agree_alu (R2r_binary_opq dst src) \<longleftrightarrow> dst < 17 \<and> src < 17"
| "agree_alu (M2r_binary_opb_u dst src) \<longleftrightarrow> dst < 17 \<and> low_mem src"
| "agree_alu (M2r_binary_opb_l dst src) \<longleftrightarrow> dst < 17 \<and> low_mem src"
| "agree_alu (M2r_binary_opw dst src) \<longleftrightarrow> dst < 17 \<and> low_mem src"
| "agree_alu (M2r_binary_opq dst src) \<longleftrightarrow> dst < 17 \<and> low_mem src"
| "agree_alu (R2m_binary_opb_u dst src) \<longleftrightarrow> low_mem dst \<and> src < 17"
| "agree_alu (R2m_binary_opb_l dst src) \<longleftrightarrow> low_mem dst \<and> src < 17"
| "agree_alu (R2m_binary_opw dst src) \<longleftrightarrow> low_mem dst \<and> src < 17"
| "agree_alu (R2m_binary_opl dst src) \<longleftrightarrow> low_mem dst \<and> src < 17"
| "agree_alu (R2m_binary_opq dst src) \<longleftrightarrow> low_mem dst \<and> src < 17"
| "agree_alu _ \<longleftrightarrow> False"

fun agree_xfer :: "xfer_call \<Rightarrow> bool" where
  "agree_xfer R_clrl4 \<longleftrightarrow> True"
| "agree_xfer R_clrl2 \<longleftrightarrow> True"
| "agree_xfer (R_clrq reg) \<longleftrightarrow> reg < 17"
| "agree_xfer (R_clrw reg) \<longleftrightarrow> reg < 17"
| "agree_xfer (R_clrb_u reg) \<longleftrightarrow> reg < 17"
| "agree_xfer (R_clrb_l reg) \<longleftrightarrow> reg < 17"
| "agree_xfer (R2r_xfer_opb_ul dst src) \<longleftrightarrow> dst < 17 \<and> src < 17"
| "agree_xfer (R2r_xfer_opb_lu dst src) \<longleftrightarrow> dst < 17 \<and> src < 17"
| "agree_xfer (R2r_xfer_opb_u dst src) \<longleftrightarrow> dst < 17 \<and> src < 17"
| "agree_xfer (R2r_xfer_opb_l dst src) \<longleftrightarrow> dst < 17 \<and> src < 17"
| "agree_xfer (R2r_xfer_opw dst src) \<longleftrightarrow> dst < 17 \<and> src < 17"
| "agree_xfer (R2r_xfer_opq dst src) \<longleftrightarrow> dst < 17 \<and> src < 17"
| "agree_xfer (M2r_xfer_opb_u dst src) \<longleftrightarrow> dst < 17 \<and> low_mem src"
| "agree_xfer (M2r_xfer_opb_l dst src) \<longleftrightarrow> dst < 17 \<and> low_mem src"
| "agree_xfer (M2r_xfer_opw dst src) \<longleftrightarrow> dst < 17 \<and> low_mem src"
| "agree_xfer (M2r_xfer_opq dst src) \<longleftrightarrow> dst < 17 \<and> low_mem src"
| "agree_xfer (R2m_xfer_opb_u dst src) \<longleftrightarrow> low_mem dst \<and> src < 17"
| "agree_xfer (R2m_xfer_opb_l dst src) \<longleftrightarrow> low_mem dst \<and> src < 17"
| "agree_xfer (R2m_xfer_opw dst src) \<longleftrightarrow> low_mem dst \<and> src < 17"
| "agree_xfer (R2m_xfer_opl dst src) \<longleftrightarrow> low_mem dst \<and> src < 17"
| "agree_xfer (R2m_xfer_opq dst src) \<longleftrightarrow> low_mem dst \<and> src < 17"
| "agree_xfer (M2m_xfer_opw dst src) \<longleftrightarrow> low_mem dst \<and> low_mem src"
| "agree_xfer (M2m_xfer_opb dst src) \<longleftrightarrow> low_mem dst \<and> low_mem src"
| "agree_xfer (M2m_xfer_opl dst src) \<longleftrightarrow> low_mem dst \<and> low_mem src"
| "agree_xfer (M2m_xfer_opq dst src) \<longleftrightarrow> low_mem dst \<and> low_mem src"
| "agree_xfer _ \<longleftrightarrow> False"

fun agree :: "call \<Rightarrow> bool" where
  "agree (MovC c) = agree_mov c"
| "agree (XchgC c) = agree_xchg c"
| "agree (AluC c) = agree_alu c"
| "agree (XferC c) = agree_xfer c"
| "agree (MiscC c) = False"
| "agree (Tagmap_clrb a) = low_mem a"
| "agree (Tagmap_clrw a) = low_mem a"
| "agree (Tagmap_clrl a) = low_mem a"
| "agree (Tagmap_clrq a) = low_mem a"

lemma low_simps [simp]: "low (Reg r i) \<longleftrightarrow> r < 17 \<and> i < 8"
  by (simp add: low_def)

lemma low_mem_plus:
  assumes "low_mem a" "k < 8"
  shows "unat (a + of_nat k) = unat a + k" "low (Mem (a + of_nat k))"
proof -
  have "unat a + k < 2 ^ 64"
    using assms by (simp add: low_mem_def)
  moreover have "unat (of_nat k :: addr) = k"
    using assms(2) by (simp add: unat_of_nat)
  ultimately show *: "unat (a + of_nat k) = unat a + k"
    by (simp add: unat_word_ariths)
  show "low (Mem (a + of_nat k))"
    using assms unfolding low_def loc.case * by (simp add: low_mem_def)
qed

lemma low_mem_0 [simp]: "low_mem a \<Longrightarrow> low (Mem a)"
  using low_mem_plus [of a 0] by simp

lemma low_norm: "low (Mem a) \<Longrightarrow> low (Mem b) \<Longrightarrow> norm_loc (Mem a) = norm_loc (Mem b) \<longleftrightarrow> unat a = unat b"
  unfolding norm_Mem_eq by (simp add: low_def word_unat_eq_iff unsigned_ucast_eq take_bit_nat_eq_self)

lemma low_pos: "low (Mem a) \<Longrightarrow> pos a = unat a"
  by (simp add: low_def pos_def)

subsection \<open>Flows of the tag build in the form of the bit build\<close>

lemma flow_at_snoc: "flow_at (F @ [(x, s)]) l = (if norm_loc x = norm_loc l then s else flow_at F l)"
  by (auto simp: flow_at_append flow_at_def)

lemmas flow_at_snoc2 = flow_at_snoc [of "F @ G" for F G, unfolded append_assoc]

lemma flow_at_regs_on:
  "flow_at (F @ map (\<lambda>i. (Reg d i, S i)) [m..<n]) l = on_reg d m n S (flow_at F) l"
proof (induction n)
  case (Suc n)
  then show ?case
    by (auto simp: flow_at_snoc2 on_reg_def split: loc.splits)
qed (simp add: on_reg_def split: loc.splits)

lemma flow_at_mems_on:
  assumes "low_mem a" "low l" "n \<le> 8"
  shows "flow_at (F @ map (\<lambda>i. (Mem (a + of_nat i), S i)) [0..<n]) l = on_mem a n S (flow_at F) l"
  using assms(3)
proof (induction n)
  case (Suc n)
  have "norm_loc (Mem (a + of_nat n)) = norm_loc (Mem b) \<longleftrightarrow> pos b = pos a + n" if "l = Mem b" for b
    using Suc.prems assms(1,2) low_mem_plus [of a n] that
    by (simp add: low_norm low_pos del: norm_loc.simps) arith
  with Suc show ?case
    by (auto simp: flow_at_snoc2 on_mem_def split: loc.splits simp del: norm_loc.simps(2))
qed (auto simp: on_mem_def split: loc.splits)

lemma flow_at_keep: "flow_at [] = keep"
  by (simp add: fun_eq_iff keep_def)

lemma flow_at_reg_on: "flow_at (F @ [(Reg d i, s)]) l = on_reg d i (Suc i) (\<lambda>_. s) (flow_at F) l"
  using flow_at_regs_on [of F d "\<lambda>_. s" i "Suc i" l] by simp

lemma flow_at_mem_on:
  "low_mem a \<Longrightarrow> low l \<Longrightarrow> flow_at (F @ [(Mem a, s)]) l = on_mem a 1 (\<lambda>_. s) (flow_at F) l"
  using flow_at_mems_on [of a l 1 F "\<lambda>_. s"] by simp

lemma flow_at_pairs_on:
  "d \<noteq> e \<Longrightarrow> flow_at (concat (map (\<lambda>i. [(Reg d i, S i), (Reg e i, T i)]) [0..<n])) l =
     on_reg e 0 n T (on_reg d 0 n S keep) l"
proof (induction n)
  case (Suc n)
  then show ?case
    using flow_at_snoc [of "concat (map (\<lambda>i. [(Reg d i, S i), (Reg e i, T i)]) [0..<n]) @ [(Reg d n, S n)]" "Reg e n" "T n" l]
      flow_at_snoc [of "concat (map (\<lambda>i. [(Reg d i, S i), (Reg e i, T i)]) [0..<n])" "Reg d n" "S n" l]
    by (auto simp: on_reg_def split: loc.splits)
qed (simp add: on_reg_def keep_def split: loc.splits)

lemma flow_at_clears:
  "\<forall>(x, s)\<in>set F. s = [] \<Longrightarrow> flow_at F l = (if norm_loc l \<in> (norm_loc \<circ> fst) ` set F then [] else [l])"
proof (induction F rule: rev_induct)
  case (snoc x F)
  then show ?case
    by (cases x) (auto simp: flow_at_snoc)
qed simp

lemma flow_at_four:
  "flow_at (concat (map (\<lambda>i. [(Reg p i, []), (Reg q i, []), (Reg r i, []), (Reg s i, [])]) [0..<n])) l =
     (case l of Reg x i \<Rightarrow> if x \<in> {p, q, r, s} \<and> i < n then [] else [l] | Mem a \<Rightarrow> [l])"
  by (subst flow_at_clears) (auto simp: image_iff split: loc.splits)

lemmas flow_at_on =
  flow_at_regs_on flow_at_mems_on flow_at_regs_on [where F = "[]", simplified] flow_at_mems_on [where F = "[]", simplified]
  flow_at_reg_on [where F = "[]", simplified] flow_at_mem_on [where F = "[]", simplified]
  flow_at_reg_on [where F = "[x]" for x, simplified] flow_at_mem_on [where F = "[x]" for x, simplified]
  flow_at_regs_on [where F = "[x]" for x, simplified] flow_at_pairs_on flow_at_keep flow_at_four

definition agrees :: "bit_flow \<Rightarrow> flow \<Rightarrow> bool" where
  "agrees b F \<longleftrightarrow> (\<forall>l. low l \<longrightarrow> set (b l) = set (flow_at F l) \<and> list_all low (b l))"

lemma agree_mov_flow: "agree_mov c \<Longrightarrow> agrees (bit_mov_flow c) (mov_flow c)"
  by (cases c)
    (auto simp: agrees_def copy_rr_def copy_mr_def clear_r_def flow_at_on on_reg_def keep_def low_mem_plus
      split: loc.splits simp del: upt_rec_numeral)

lemma agree_alu_flow: "agree_alu c \<Longrightarrow> agrees (bit_alu_flow c) (alu_flow c)"
  by (cases c)
    (auto simp: agrees_def merge_rr_def flow_at_on on_reg_def on_mem_def keep_def low_mem_plus split: loc.splits)

lemma agree_xchg_flow: "agree_xchg c \<Longrightarrow> agrees (bit_xchg_flow c) (xchg_flow c)"
  by (cases c)
    (auto simp: agrees_def copy_rr_def copy_mr_def copy_rm_def merge_rr_def flow_at_on on_reg_def on_mem_def
      keep_def low_mem_plus split: loc.splits)

lemma agree_xfer_flow: "agree_xfer c \<Longrightarrow> agrees (bit_xfer_flow c) (xfer_flow c)"
  by (cases c)
    (auto simp: agrees_def copy_rr_def copy_mr_def copy_rm_def copy_mm_def clear_r_def flow_at_on on_reg_def on_mem_def
      keep_def low_mem_plus split: loc.splits)

lemma agree_clear_flow:
  assumes "low_mem a" "n \<le> 8"
  shows "agrees (on_mem a n (\<lambda>i. []) keep) (clear_m a n)"
  using assms by (auto simp: agrees_def clear_m_def flow_at_on on_mem_def keep_def split: loc.splits)

lemma agree_flow: "agree c \<Longrightarrow> agrees (bit_call_flow c) (call_flow c)"
  by (cases c)
    (simp_all add: agree_mov_flow agree_xchg_flow agree_alu_flow agree_xfer_flow agree_clear_flow)

lemma low_mem_ok: "low_mem a \<Longrightarrow> mem_ok a"
  by (simp add: low_mem_def)

lemma agree_mov_ok: "agree_mov c \<Longrightarrow> mov_ok c \<and> bit_mov_ok c"
  by (cases c) (simp_all add: low_mem_ok)

lemma agree_xchg_ok: "agree_xchg c \<Longrightarrow> xchg_ok c \<and> bit_xchg_ok c"
  by (cases c) (simp_all add: low_mem_ok)

lemma agree_alu_ok: "agree_alu c \<Longrightarrow> alu_ok c \<and> bit_alu_ok c"
  by (cases c) (simp_all add: low_mem_ok)

lemma agree_xfer_ok: "agree_xfer c \<Longrightarrow> xfer_ok c \<and> bit_xfer_ok c"
  by (cases c) (simp_all add: low_mem_ok)

lemma agree_ok: "agree c \<Longrightarrow> call_ok c \<and> bit_call_ok c"
  by (cases c) (simp_all add: agree_mov_ok agree_xchg_ok agree_alu_ok agree_xfer_ok low_mem_ok)

interpretation builds: two_builds
  exec_call "\<lambda>c. flow_at (call_flow c)" call_ok "\<lambda>_. True" tag_val "\<lambda>_. True"
  "bit_exec_call mal" bit_call_flow bit_call_ok "bit_ready mal" bit_val loc_ok agree low
  for mal
proof
  show "agree c \<Longrightarrow> call_ok c \<and> bit_call_ok c" for c
    by (rule agree_ok)
  show "set (flow_at (call_flow c) l) = set (bit_call_flow c l)" if "agree c" "low l" for c l
    using agree_flow [OF that(1)] that(2) by (simp add: agrees_def)
  show "low x" if "agree c" "low l" "x \<in> set (flow_at (call_flow c) l)" for c l x
    using agree_flow [OF that(1)] that(2,3) by (simp add: agrees_def list_all_iff)
  show "low l \<Longrightarrow> True \<and> loc_ok l" for l
    by (cases l) (simp_all add: loc_ok_def low_def)
qed

text \<open>A byte is tainted in both builds or in neither.\<close>

definition taints_alike :: "'u::linorder taint_state \<Rightarrow> bit_state \<Rightarrow> bool" where
  "taints_alike tc bc \<longleftrightarrow> (\<forall>l. low l \<longrightarrow> (tag_members (tag_of tc l) \<noteq> {} \<longleftrightarrow> bit_of bc l))"

lemma builds_related: "builds.related tc bc \<longleftrightarrow> taints_alike tc bc"
  by (auto simp: builds.related_def taints_alike_def tag_val_def bit_val_def)

lemma builds_agree:
  assumes "bit_ready mal bc" "taints_alike tc bc" "list_all agree cs"
  shows "\<exists>tc' bc'. exec_calls cs tc = Some tc' \<and> bit_exec_calls mal cs bc = Some bc' \<and>
    bit_ready mal bc' \<and> taints_alike tc' bc'"
  using builds.runs_related [where s = tc and t = bc and mal = mal and cs = cs] assms
  by (simp add: builds_related exec_calls_def bit_exec_calls_def)

subsection \<open>Saving registers\<close>

lemma iterM_fun: "iterM f [] = Some" "iterM f (i # is) = (\<lambda>s. f i s \<bind> iterM f is)"
  by (simp_all add: fun_eq_iff)

lemma save_opw_calls:
  "bit_r2m_save_opw mal tc dst =
     bit_exec_calls mal (map (\<lambda>i. XferC (R2m_xfer_opw (dst + of_nat (2 * i)) i)) [0..<8]) tc"
  by (simp add: bit_exec_calls_def upts bit_r2m_save_opw_def bit_r2m_xfer_opw_def Let_def iterM_fun
      case_prod_unfold Option.bind_assoc Option.bind_runit add.assoc)

lemma save_opl_calls:
  "bit_r2m_save_opl mal tc dst =
     bit_exec_calls mal (map (\<lambda>i. XferC (R2m_xfer_opl (dst + of_nat (4 * i)) i)) [0..<8]) tc"
  by (simp add: bit_exec_calls_def upts bit_r2m_save_opl_def bit_r2m_xfer_opl_def Let_def iterM_fun
      case_prod_unfold Option.bind_assoc Option.bind_runit add.assoc)

subsection \<open>Repeated stores\<close>

text \<open>One decision for the whole range: the taint of any byte of the source.\<close>

definition fill ::
  "malloc_outcome \<Rightarrow> bit_state \<Rightarrow> nat \<Rightarrow> addr \<Rightarrow> 64 word \<Rightarrow> bit_state option" where
  "fill mal tc w a n =
     do {
       st \<leftarrow> (if \<exists>i<w. bit_of tc (Reg 7 i) then bit_tagmap_setn mal a n (bstab tc)
             else bit_tagmap_clrn mal a n (bstab tc));
       Some (tc\<lparr>bstab := st\<rparr>)
     }"

lemma low_bit_clear: "(x :: 32 word) AND 1 = 0 \<longleftrightarrow> \<not> bit x 0"
  using masked_zero [of x 1] by simp

lemma rep_stores_fill:
  "bit_r2m_xfer_opbn mal tc dst n eflags =
     fill mal tc 1 (if EFLAGS_DF eflags = 0 then dst else dst - n + 1) n"
  "bit_r2m_xfer_opwn mal tc dst n eflags =
     fill mal tc 2 (if EFLAGS_DF eflags = 0 then dst else dst - push_bit 1 n + 1) (push_bit 1 n)"
  "bit_r2m_xfer_opln mal tc dst n eflags =
     fill mal tc 4 (if EFLAGS_DF eflags = 0 then dst else dst - push_bit 2 n + 1) (push_bit 2 n)"
  "bit_r2m_xfer_opqn mal tc dst n eflags =
     fill mal tc 8 (if EFLAGS_DF eflags = 0 then dst else dst - push_bit 3 n + 1) (push_bit 3 n)"
  by (auto simp: fill_def bit_r2m_xfer_opbn_def bit_r2m_xfer_opwn_def bit_r2m_xfer_opln_def
      bit_r2m_xfer_opqn_def GPR_def vcpu_masks masked_zero low_bit_clear)

subsection \<open>A sample state\<close>

definition sample_bits :: bit_state where
  "sample_bits = \<lparr>bgpr = (\<lambda>_. VCPU_MASK64), bstab = Some (\<lambda>_. None)\<rparr>"

lemma sample_gpr: "bit VCPU_MASK64 i \<longleftrightarrow> i < 8"
  by (auto simp: vcpu_masks bit_mask_iff)

lemma sample_bits_ready: "bit_ready (\<lambda>_ _. True) sample_bits"
  by (simp add: bit_ready_def bit_wf_def sample_bits_def sample_gpr)

lemma seg_off_4096: "seg_off 4096 = 512"
  by (simp add: seg_off_pos pos_def)

end
