(* ===== verification/BitTrace.thy ===== *)
theory BitTrace
  imports BitAgree PolicyIns
begin

text \<open>
  Instructions and traces in both builds. \<^verbatim>\<open>ins_inspect\<close> is the same code in both, so the calls of
  theory \<^verbatim>\<open>Inspect\<close> are those of either build. The instructions \<open>alike_ops\<close>, without 32-bit
  register operands and on addresses below 4 GB, only use calls on which the builds agree.
\<close>

definition narrow :: "INS \<Rightarrow> bool" where
  "narrow ins \<longleftrightarrow> list_all (\<lambda>op. \<not> REG_is_gr32 (INS_OperandReg ins op)) [0, 1, 2, 3]"

definition low_env :: "ENV \<Rightarrow> bool" where
  "low_env env \<longleftrightarrow> low_mem (IARG_MEMORYREAD_EA env) \<and> low_mem (IARG_MEMORYWRITE_EA env)"

definition alike_ops :: "nat list" where
  "alike_ops = binary_ops @ cmov_ops @
     [XED_ICLASS_MOV, XED_ICLASS_MOVZX, XED_ICLASS_XCHG, XED_ICLASS_XADD, XED_ICLASS_PUSH, XED_ICLASS_POP,
      XED_ICLASS_LEA, XED_ICLASS_LEAVE, XED_ICLASS_CALL_NEAR, XED_ICLASS_XLAT, XED_ICLASS_LODSB, XED_ICLASS_LODSW,
      XED_ICLASS_LODSQ, XED_ICLASS_MOVSB, XED_ICLASS_MOVSW, XED_ICLASS_MOVSD, XED_ICLASS_MOVSQ, XED_ICLASS_CWD,
      XED_ICLASS_CQO, XED_ICLASS_CPUID, XED_ICLASS_LAHF, XED_ICLASS_PUSHF, XED_ICLASS_PUSHFD, XED_ICLASS_PUSHFQ]"

definition alike_event :: "event \<Rightarrow> bool" where
  "alike_event ev \<longleftrightarrow> INS_Opcode (fst ev) \<in> set alike_ops \<and> narrow (fst ev) \<and> low_env (snd ev)"

lemma agree_moves:
  assumes "narrow ins" "low_env env"
  shows "list_all agree (case ins_mov pin ins env of Break cs \<Rightarrow> cs | Return cs \<Rightarrow> cs)"
    "list_all agree (ins_cmov ins env)" "list_all agree (ins_movzx pin ins env)"
  using assms unfolding narrow_def low_env_def
  by (auto simp: ins_mov_def ins_mov_imm_def ins_mov_r2r_def ins_mov_m2r_def ins_mov_r2m_def ins_cmov_def
      ins_movzx_def ins_movzx_r2r_def ins_movzx_m2r_def Let_def)

lemma agree_binary: "narrow ins \<Longrightarrow> low_env env \<Longrightarrow> list_all agree (ins_binary pin ins env)"
  by (auto simp: narrow_def low_env_def ins_binary_def ins_binary_r2r_wide_def ins_binary_r2r_byte_def
      ins_binary_m2r_def ins_binary_r2m_def Let_def)

lemma agree_exchanges:
  assumes "narrow ins" "low_env env"
  shows "list_all agree (ins_xchg pin ins env)" "list_all agree (ins_xadd pin ins env)"
  using assms unfolding narrow_def low_env_def
  by (auto simp: ins_xchg_def ins_xchg_r2r_def ins_xchg_m2r_def ins_xadd_def ins_xadd_r2r_def ins_xadd_r2m_def Let_def)

lemma agree_stack:
  assumes "narrow ins" "low_env env"
  shows "list_all agree (ins_push ins env)" "list_all agree (ins_pop ins env)" "list_all agree (ins_lea ins)"
    "list_all agree (ins_leave ins env)" "list_all agree (ins_call_near ins env)"
  using assms unfolding narrow_def low_env_def
  by (auto simp: ins_push_def ins_pop_def ins_lea_def ins_lea_none_def ins_lea_base_def ins_lea_indx_def
      ins_lea_both_def ins_leave_def ins_call_near_def Let_def)

lemma agree_fixed:
  assumes "low_env env"
  shows "list_all agree (ins_xlat env)" "list_all agree (ins_lodsb env)" "list_all agree (ins_lodsw env)"
    "list_all agree (ins_lodsq env)" "list_all agree (ins_movsq env)" "list_all agree (ins_movsd env)"
    "list_all agree (ins_movsw env)" "list_all agree (ins_movsb env)" "list_all agree (ins_pushf env)"
    "list_all agree (ins_pushfd env)" "list_all agree (ins_pushfq env)" "list_all agree ins_cwd"
    "list_all agree ins_cqo" "list_all agree ins_cpuid" "list_all agree ins_lahf"
  using assms unfolding low_env_def
  by (auto simp: ins_xlat_def ins_lodsb_def ins_lodsw_def ins_lodsq_def ins_movsq_def ins_movsd_def ins_movsw_def
      ins_movsb_def ins_pushf_def ins_pushfd_def ins_pushfq_def ins_cwd_def ins_cqo_def ins_cpuid_def ins_lahf_def)

lemmas agree_ins = agree_moves agree_binary agree_exchanges agree_stack

lemma alike_ins:
  assumes "INS_Opcode ins \<in> set alike_ops" "narrow ins" "low_env env"
  shows "list_all agree (ins_calls pin ins env)"
  using assms(1)
  by (subst ins_calls_eq)
    (auto simp: alike_ops_def ins_switch_def agree_ins [OF assms(2,3)] agree_fixed [OF assms(3)])

lemma alike_trace: "list_all alike_event evs \<Longrightarrow> list_all agree (trace_calls pin evs)"
  by (induction evs) (auto simp: trace_calls_def alike_event_def alike_ins)

end
