(* ===== verification/BitClear.thy ===== *)
theory BitClear
  imports BitRange
begin

text \<open>
  Clearing a range of the bit map, for every length. When the last loop of \<^verbatim>\<open>tagmap_clrn\<close> is left
  with seven bytes it multiplies the 16-bit entry by \<^verbatim>\<open>~0x7f\<close>, that is, by -128: the entry becomes
  the two's complement of itself, moved up by seven bits. This also changes the bits of bytes
  behind the range.
\<close>

subsection \<open>Negation, bit by bit\<close>

lemma bit_minus_int: "bit (- k) n \<longleftrightarrow> bit k n \<noteq> (\<exists>j<n. bit k j)" for k :: int
proof (induction n arbitrary: k)
  case (Suc n)
  have ex: "(\<exists>j<Suc n. bit k j) \<longleftrightarrow> odd k \<or> (\<exists>j<n. bit (k div 2) j)"
    by (simp only: Ex_less_Suc2 bit_0 bit_Suc)
  show ?case
  proof (cases "even k")
    case True
    then have "(- k) div 2 = - (k div 2)" by auto
    with True Suc ex show ?thesis by (simp add: bit_Suc)
  next
    case False
    then have "(- k) div 2 = NOT (k div 2)"
      by (auto simp: not_int_def elim!: oddE)
    with False ex show ?thesis by (simp add: bit_Suc bit_not_int_iff)
  qed
qed (simp add: bit_0)

lemma bit_minus_word:
  assumes "n < LENGTH('a)"
  shows "bit (- w :: 'a::len word) n \<longleftrightarrow> bit w n \<noteq> (\<exists>j<n. bit w j)"
proof -
  have neg: "bit (- w) n \<longleftrightarrow> bit (- uint w) n"
    using bit_word_of_int_iff [of "- uint w" n, where ?'a = 'a] assms by simp
  have "bit w j = bit (uint w) j" if "j \<le> n" for j
    using that assms by (simp add: bit_uint_iff)
  then show ?thesis
    unfolding neg bit_minus_int by auto
qed

subsection \<open>The multiplied entry\<close>

definition mul7 :: "(nat \<Rightarrow> bool) \<Rightarrow> nat \<Rightarrow> nat \<Rightarrow> bool" where
  "mul7 f q n =
     (if q \<le> n \<and> n < q + 16 then q + 7 \<le> n \<and> f (n - 7) \<noteq> (\<exists>j. q \<le> j \<and> j < n - 7 \<and> f j) else f n)"

lemma ucast_of_int: "(ucast (word_of_int k :: 32 word) :: 16 word) = word_of_int k"
  by (rule bit_word_eqI) (simp add: bit_ucast_iff bit_word_of_int_iff)

lemma mul_entry: "(ucast (ucast v * NOT (mask 7) :: 32 word) :: 16 word) = - push_bit 7 v" for v :: "16 word"
proof -
  have m: "NOT (mask 7) = (word_of_int (- 128) :: 32 word)"
    by (simp add: mask_eq_exp_minus_1)
  have "(ucast (ucast v * NOT (mask 7) :: 32 word) :: 16 word) = word_of_int (uint v * - 128)"
    unfolding m ucast_eq [of v] wi_hom_mult ucast_of_int ..
  also have "\<dots> = - (v * 128)"
    by (simp only: wi_hom_mult [symmetric] word_of_int_uint) simp
  finally show ?thesis
    by (simp add: push_bit_eq_mult)
qed

lemma bit_mul_entry:
  assumes "k < 16"
  shows "bit (- push_bit 7 (v :: 16 word)) k \<longleftrightarrow> 7 \<le> k \<and> bit v (k - 7) \<noteq> (\<exists>j<k - 7. bit v j)"
proof (cases "7 \<le> k")
  case True
  have "(\<exists>j<k. bit (push_bit 7 v) j) \<longleftrightarrow> (\<exists>j<k - 7. bit v j)"
  proof
    assume "\<exists>j<k. bit (push_bit 7 v) j"
    then obtain j where "j < k" "7 \<le> j" "bit v (j - 7)" by (auto simp: bit_simps)
    then show "\<exists>j<k - 7. bit v j" by (intro exI [of _ "j - 7"]) auto
  next
    assume "\<exists>j<k - 7. bit v j"
    then obtain j where "j < k - 7" "bit v j" by blast
    then show "\<exists>j<k. bit (push_bit 7 v) j"
      using assms by (intro exI [of _ "j + 7"]) (auto simp: bit_simps)
  qed
  moreover have "bit (push_bit 7 v) k = bit v (k - 7)"
    using True assms by (simp add: bit_simps)
  ultimately show ?thesis
    using bit_minus_word [of k "push_bit 7 v"] True assms by simp
next
  case False
  then have "\<not> bit (push_bit 7 v) j" if "j \<le> k" for j
    using that by (simp add: bit_push_bit_iff)
  with False show ?thesis
    using bit_minus_word [of k "push_bit 7 v"] assms by auto
qed

lemma muln_bits:
  assumes "pos a mod 8 = 0" "entry_ready mal a st"
  shows "\<exists>st'. entry_muln mal MASK_7BYTE a st = Some st' \<and> st' \<noteq> None \<and> bit_at st' = mul7 (bit_at st) (pos a)"
proof -
  have al: "VIRT2BIT a = 0" "ent_base a = pos a"
    using assms(1) by (auto simp: VIRT2BIT_pos ent_base_def)
  obtain st' where st': "entry_muln mal MASK_7BYTE a st = Some st'"
    and bits: "bit_at st' n = (if pos a \<le> n \<and> n < pos a + 16
      then bit (- push_bit 7 (window16 st (pos a))) (n - pos a) else bit_at st n)" for n
    using entry_update [of mal a st "\<lambda>v. ucast (ucast v * NOT (push_bit (VIRT2BIT a) MASK_7BYTE))"] assms(2) al
    by (auto simp: entry_muln_def masks mul_entry split: option.splits)
  have "st' \<noteq> None"
    using st' by (auto simp: entry_muln_def dest!: store16_not_None split: Option.bind_splits)
  moreover have "bit_at st' n = mul7 (bit_at st) (pos a) n" for n
  proof (cases "pos a \<le> n \<and> n < pos a + 16")
    case True
    have "(\<exists>j<n - pos a - 7. bit_at st (pos a + j)) \<longleftrightarrow> (\<exists>j. pos a \<le> j \<and> j < n - 7 \<and> bit_at st j)"
    proof
      assume "\<exists>j<n - pos a - 7. bit_at st (pos a + j)"
      then obtain j where "j < n - pos a - 7" "bit_at st (pos a + j)" by blast
      then show "\<exists>j. pos a \<le> j \<and> j < n - 7 \<and> bit_at st j" by (intro exI [of _ "pos a + j"]) auto
    next
      assume "\<exists>j. pos a \<le> j \<and> j < n - 7 \<and> bit_at st j"
      then obtain j where "pos a \<le> j" "j < n - 7" "bit_at st j" by blast
      then show "\<exists>j<n - pos a - 7. bit_at st (pos a + j)" by (intro exI [of _ "j - pos a"]) auto
    qed
    moreover have "(\<exists>j<n - pos a - 7. bit (window16 st (pos a)) j) \<longleftrightarrow>
        (\<exists>j<n - pos a - 7. bit_at st (pos a + j))"
      using True by (auto simp: bit_window16)
    moreover have "7 \<le> n - pos a \<Longrightarrow> bit (window16 st (pos a)) (n - pos a - 7) = bit_at st (n - 7)"
      using True by (auto simp: bit_window16)
    moreover have "7 \<le> n - pos a \<longleftrightarrow> pos a + 7 \<le> n" "n - pos a < 16"
      using True by auto
    ultimately show ?thesis
      using True bit_mul_entry [of "n - pos a" "window16 st (pos a)"] by (auto simp only: bits mul7_def simp_thms if_True)
  next
    case False
    then show ?thesis unfolding bits mul7_def by (simp only: if_False)
  qed
  ultimately show ?thesis using st' by blast
qed

subsection \<open>The last loop\<close>

lemma aligned_in_segment:
  assumes "pos a mod 8 = 0" "in_segment a 7"
  shows "in_segment a 8"
proof -
  have "8 dvd pos a mod 2 ^ 26"
    using assms(1) mod_mod_cancel [of 8 "2 ^ 26" "pos a"] by (simp add: dvd_eq_mod_eq_0)
  then obtain y where "pos a mod 2 ^ 26 = 8 * y" ..
  with assms(2) show ?thesis
    by (simp add: in_segment_def)
qed

lemma clrn_slow_seven:
  assumes "pos a mod 8 = 0" "in_segment a 7" "\<forall>tab i. mal tab i" "unat num mod 8 = 7" "st \<noteq> None"
  shows "\<exists>st'. bit_clrn_slow mal a num st = Some st' \<and>
    bit_at st' = mul7 (\<lambda>n. (unat num < 8 \<or> n \<notin> rng a 8) \<and> bit_at st n) (pos a)"
  using assms(4,5)
proof (induction "unat num" arbitrary: num st rule: less_induct)
  case less
  have n0: "num \<noteq> 0" using less.prems(1) by auto
  show ?case
  proof (cases "unat num < 8")
    case True
    then have num: "num = 7" "num < 8"
      using less.prems(1) by (simp_all add: word_unat_eq_iff word_less_nat_alt)
    have "entry_ready mal a st"
      using entry_ready_in_segment [OF less.prems(2) assms(3,2)] by simp
    from muln_bits [OF assms(1) this] num show ?thesis
      by (subst bit_clrn_slow.simps) auto
  next
    case False
    then have num: "\<not> num < 8" "unat (num - 8) = unat num - 8"
      by (simp_all add: word_less_nat_alt unat_sub word_le_nat_alt)
    obtain st1 where st1: "bit_tagmap_clrq mal a st = Some st1" "st1 \<noteq> None"
      "bit_at st1 = (\<lambda>n. n \<notin> rng a 8 \<and> bit_at st n)"
      using clrq_writes [of mal a st] less.prems(2) assms(3) aligned_in_segment [OF assms(1,2)]
      by (auto simp: writes_def fun_eq_iff split: option.splits)
    have "unat (num - 8) < unat num" "unat (num - 8) mod 8 = 7"
      using False less.prems(1) num(2) by (auto simp: le_mod_geq)
    from less.hyps [OF this st1(2)] obtain st' where "bit_clrn_slow mal a (num - 8) st1 = Some st'"
      "bit_at st' = mul7 (\<lambda>n. (unat (num - 8) < 8 \<or> n \<notin> rng a 8) \<and> bit_at st1 n) (pos a)" by blast
    moreover have "(\<lambda>n. (unat (num - 8) < 8 \<or> n \<notin> rng a 8) \<and> bit_at st1 n) =
        (\<lambda>n. (unat num < 8 \<or> n \<notin> rng a 8) \<and> bit_at st n)"
      using False st1(3) by auto
    moreover have "bit_clrn_slow mal a num st = bit_clrn_slow mal a (num - 8) st1"
      using n0 num(1) st1(1) by (subst bit_clrn_slow.simps) simp
    ultimately show ?thesis by auto
  qed
qed

subsection \<open>The whole operation\<close>

lemma clrn_seven:
  assumes "st \<noteq> None" "\<forall>tab i. mal tab i" "in_segment a (unat num)"
    and t: "tail_of a (unat num) mod 8 = 7"
  defines "t \<equiv> tail_of a (unat num)"
  defines "q \<equiv> pos a + (unat num - t)"
  shows "\<exists>st'. bit_tagmap_clrn mal a num st = Some st' \<and>
    bit_at st' = mul7 (\<lambda>n. n \<notin> rng a (unat num - t + (if t < 8 then 0 else 8)) \<and> bit_at st n) q \<and>
    t \<le> unat num \<and> t < 32"
proof -
  let ?off = "8 - of_nat (VIRT2BIT a) :: 64 word"
  define i where "i = (if ?off = 8 then 0 else ?off)"
  define m where "m = unat (num - i)"
  define k where "k = unat i + 32 * (m div 32)"
  note al = align_off [of a, folded i_def]
  have big: "\<not> num \<le> 8"
    using t by (auto simp: tail_of_def word_le_nat_alt)
  have n: "unat num = unat i + m"
    using big al(2) by (auto simp: m_def unat_sub word_le_nat_alt)
  have "unat i = (8 - pos a mod 8) mod 8"
    using align_count [of a] by (simp add: i_def)
  with big n have t': "t = m mod 32"
    by (simp add: t_def tail_of_def word_le_nat_alt)
  have k: "unat num = k + t" "7 \<le> t"
    using n t t' mult_div_mod_eq [of 32 m] by (simp_all add: k_def t_def)
  let ?fast = "bit_clrn_fast mal (a + i) (num - i)"
  have fast: "writes False mal (a + i) (32 * (m div 32)) st' (map_option (snd \<circ> snd) (?fast st'))"
    "?fast st' = Some (a', num', st'') \<Longrightarrow> a' = a + of_nat k \<and> unat num' = t" for st' a' num' st''
    using clr_chunks.loop_writes [OF al(3), of mal "num - i" st'] by (auto simp: m_def k_def t' add.assoc)
  let ?r = "bit_clrn_case mal ?off a st \<bind> (\<lambda>st. map_option (snd \<circ> snd) (?fast st))"
  have "writes False mal a k st ?r"
    unfolding k_def
  proof (rule writes_seq)
    show "writes False mal a (unat i) st (bit_clrn_case mal ?off a st)"
      using al(1) clrn_case_writes [of ?off mal a st] by (auto simp: bit_clrn_case_def)
    show "0 < 32 * (m div 32) \<or> (\<forall>st'. map_option (snd \<circ> snd) (?fast st') = Some st')"
      by (cases "num - i \<ge> 32")
        (auto simp: m_def word_le_nat_alt div_greater_zero_iff clr_chunks.loop_unfold [of _ "a + i" "num - i"])
  qed (simp add: fast(1))
  then obtain st2 where st2: "?r = Some st2" "st2 \<noteq> None" "bit_at st2 = (\<lambda>n. n \<notin> rng a k \<and> bit_at st n)"
    using assms(1-3) k(1) by (auto simp: writes_def in_segment_def fun_eq_iff split: option.splits)
  then obtain st1 a' num' where "bit_clrn_case mal ?off a st = Some st1" "?fast st1 = Some (a', num', st2)"
    by (auto split: Option.bind_splits)
  with fast(2) have clrn: "bit_tagmap_clrn mal a num st = bit_clrn_slow mal (a + of_nat k) num' st2" and num': "unat num' = t"
    using big by (auto simp: bit_tagmap_clrn_def Let_def i_def)
  have "in_segment (a + of_nat k) t"
    using in_segment_plus [of a k t] assms(3) k by simp
  then have seg: "in_segment (a + of_nat k) 7" using k(2) by (simp add: in_segment_def)
  have q: "pos (a + of_nat k) = q"
    using pos_plus [of a k] pos_in_segment [of a] assms(3) k by (simp add: q_def in_segment_def)
  have "pos a + k = pos a + unat i + 8 * (4 * (m div 32))"
    by (simp add: k_def)
  then have "(pos a + k) mod 8 = (pos a + unat i) mod 8"
    by (simp only: mod_mult_self2)
  then have "pos (a + of_nat k) mod 8 = pos (a + of_nat (unat i)) mod 8"
    unfolding pos_plus mod_pow_48 .
  with al(3) have "pos (a + of_nat k) mod 8 = 0" by simp
  from clrn_slow_seven [OF this seg assms(2) _ st2(2), of num'] obtain st' where
    "bit_clrn_slow mal (a + of_nat k) num' st2 = Some st'"
    "bit_at st' = mul7 (\<lambda>n. (t < 8 \<or> n \<notin> rng (a + of_nat k) 8) \<and> bit_at st2 n) q"
    using t num' q by (auto simp: t_def)
  moreover have "(\<lambda>n. (t < 8 \<or> n \<notin> rng (a + of_nat k) 8) \<and> bit_at st2 n) =
      (\<lambda>n. n \<notin> rng a (unat num - t + (if t < 8 then 0 else 8)) \<and> bit_at st n)"
    using k(1) by (auto simp: st2(3) rng_add fun_eq_iff)
  ultimately show ?thesis using clrn k(1) t' by simp
qed

lemma mul7_short:
  assumes "b \<le> q"
  shows "mul7 (\<lambda>n. \<not> (b \<le> n \<and> n < q) \<and> g n) q p =
    (if q + 7 \<le> p \<and> p < q + 16 then g (p - 7) \<noteq> (\<exists>j. q \<le> j \<and> j < p - 7 \<and> g j)
     else \<not> (b \<le> p \<and> p < q + 7) \<and> g p)"
proof (cases "q + 7 \<le> p \<and> p < q + 16")
  case True
  then have "(\<exists>j. q \<le> j \<and> j < p - 7 \<and> \<not> (b \<le> j \<and> j < q) \<and> g j) \<longleftrightarrow> (\<exists>j. q \<le> j \<and> j < p - 7 \<and> g j)"
    by (meson not_less)
  moreover have "\<not> p - 7 < q" using True by auto
  ultimately show ?thesis using True by (simp add: mul7_def)
qed (use assms in \<open>auto simp: mul7_def\<close>)

lemma mul7_long:
  assumes "b \<le> q"
  shows "mul7 (\<lambda>n. \<not> (b \<le> n \<and> n < q + 8) \<and> g n) q p =
    (if p = q + 15 then g (q + 8) else \<not> (b \<le> p \<and> p < q + 15) \<and> g p)"
proof (cases "q + 7 \<le> p \<and> p < q + 16")
  case True
  then have none: "\<not> (\<exists>j. q \<le> j \<and> j < p - 7 \<and> \<not> (b \<le> j \<and> j < q + 8) \<and> g j)"
    using assms by auto
  have "p = q + 15 \<or> p - 7 < q + 8 \<and> b \<le> p - 7 \<and> p < q + 15 \<and> b \<le> p" using True assms by auto
  with True show ?thesis unfolding mul7_def using none by (auto simp: add.commute)
qed (use assms in \<open>auto simp: mul7_def\<close>)

text \<open>
  What the multiplication leaves, in terms of the old bits. With a tail of seven bytes the range is
  cleared, and the nine bits behind it get the two's complement of the nine bits from the tail
  on. With a longer tail the first eight bits of the entry are already clear, so the bit of the
  ninth moves to the sixteenth position.
\<close>

lemma clrn_seven_bits:
  assumes "st \<noteq> None" "\<forall>tab i. mal tab i" "in_segment a (unat num)" "tail_of a (unat num) mod 8 = 7"
  defines "t \<equiv> tail_of a (unat num)"
  defines "q \<equiv> pos a + (unat num - t)"
  shows "\<exists>st'. bit_tagmap_clrn mal a num st = Some st' \<and> bit_at st' =
    (if t = 7
     then (\<lambda>p. if q + 7 \<le> p \<and> p < q + 16 then bit_at st (p - 7) \<noteq> (\<exists>j. q \<le> j \<and> j < p - 7 \<and> bit_at st j)
       else p \<notin> rng a (unat num) \<and> bit_at st p)
     else (\<lambda>p. if p = q + 15 then bit_at st (q + 8) else p \<notin> rng a (unat num - (t - 15)) \<and> bit_at st p))"
proof -
  obtain st' where st': "bit_tagmap_clrn mal a num st = Some st'" "t \<le> unat num"
    "bit_at st' = mul7 (\<lambda>n. n \<notin> rng a (unat num - t + (if t < 8 then 0 else 8)) \<and> bit_at st n) q"
    using clrn_seven [OF assms(1-4)] by (auto simp: t_def q_def)
  have rng: "p \<in> rng a k \<longleftrightarrow> pos a \<le> p \<and> p < pos a + k" if "k \<le> unat num + 8" for p k
    using that assms(3) pos_in_segment [of a] by (intro rng_low) (simp add: in_segment_def)
  have q: "pos a \<le> q" by (simp add: q_def)
  have mod7: "t mod 8 = 7" using assms(4) by (simp add: t_def)
  show ?thesis
  proof (cases "t = 7")
    case True
    have "bit_at st' = mul7 (\<lambda>n. \<not> (pos a \<le> n \<and> n < q) \<and> bit_at st n) q"
      using st'(3) True by (simp add: rng q_def)
    then have "bit_at st' = (\<lambda>p. if q + 7 \<le> p \<and> p < q + 16
        then bit_at st (p - 7) \<noteq> (\<exists>j. q \<le> j \<and> j < p - 7 \<and> bit_at st j)
        else \<not> (pos a \<le> p \<and> p < q + 7) \<and> bit_at st p)"
      by (simp only: fun_eq_iff mul7_short [OF q] simp_thms)
    moreover have "pos a \<le> p \<and> p < q + 7 \<longleftrightarrow> p \<in> rng a (unat num)" for p
      using True st'(2) by (auto simp: rng q_def)
    ultimately show ?thesis using st'(1) True by simp
  next
    case False
    have "15 \<le> t"
    proof (rule ccontr)
      assume "\<not> 15 \<le> t"
      then have "t < 8 \<or> 8 \<le> t \<and> t - 8 < 7" by auto
      with mod7 False show False by (auto simp: le_mod_geq)
    qed
    then have "bit_at st' = mul7 (\<lambda>n. \<not> (pos a \<le> n \<and> n < q + 8) \<and> bit_at st n) q"
      using st'(2,3) by (simp add: rng q_def add.assoc)
    then have "bit_at st' = (\<lambda>p. if p = q + 15 then bit_at st (q + 8)
        else \<not> (pos a \<le> p \<and> p < q + 15) \<and> bit_at st p)"
      by (simp only: fun_eq_iff mul7_long [OF q] simp_thms)
    moreover have "pos a \<le> p \<and> p < q + 15 \<longleftrightarrow> p \<in> rng a (unat num - (t - 15))" for p
      using \<open>15 \<le> t\<close> st'(2) by (auto simp: rng q_def)
    ultimately show ?thesis using st'(1) False by simp
  qed
qed

end
