(* ===== verification/Spec2Isabelle.thy ===== *)
theory Spec2Isabelle
  imports Threads TagNames TagPrint DbTables BitTrace BitClear
begin

text \<open>
  \<^bold>\<open>Verification of the THEIA taint engine.\<close>

  The program (under \<^verbatim>\<open>src/taint64/taint64\<close>) is a dynamic taint tracker: a Pin tool that attaches
  analysis calls to the instructions of a replayed process, keeps a set of tags for every byte
  of registers and memory, gives a tag to data read from the inbound objects of a query, and
  records in a database which inbound objects the data written to outbound objects derives from.

  \<^bold>\<open>Parts and theories.\<close> The theories follow the files and their order.

  \<^item> \<^verbatim>\<open>Prelude\<close> holds shared lemmas. \<^verbatim>\<open>TagTraits\<close> models the tag values and their combination
    (\<^verbatim>\<open>tag_traits.cc\<close>): \<open>std_set\<close> is a sorted list without repetition. Its locale \<open>tag_algebra\<close> is
    the contract of a tag type, interpreted for set, byte and bit-set tags. \<^verbatim>\<open>TagPrint\<close>: printing,
    with the locale \<open>item_format\<close> of texts that can be told apart.
  \<^item> \<^verbatim>\<open>TagDir\<close> and \<^verbatim>\<open>TagMap\<close>: the two-level directory of tag pages (\<^verbatim>\<open>tagmap_custom.h\<close>) and the
    operations of the tag map on it (\<^verbatim>\<open>tagmap64.cc\<close>). The locale \<open>byte_shadow\<close> is the contract of a
    shadow memory whose cells are identified by part of the address.
  \<^item> \<^verbatim>\<open>TaintState\<close>: register and memory tags of a thread, and data flows, the abstract
    specification of an analysis routine: a list of locations with the locations whose tags
    they get. \<^verbatim>\<open>CoreMov\<close>, \<^verbatim>\<open>CoreXchg\<close>, \<^verbatim>\<open>CoreAlu\<close>, \<^verbatim>\<open>CoreXfer\<close>, \<^verbatim>\<open>CoreMisc\<close>: the analysis routines of
    \<^verbatim>\<open>libdft_core64.cc\<close>, one definition per routine, each proved equal to its flow.
    \<^verbatim>\<open>Calls\<close>: sequences of calls and the dependence of locations through them.
  \<^item> \<^verbatim>\<open>BitMap\<close>, \<^verbatim>\<open>BitRange\<close>, \<^verbatim>\<open>BitClear\<close>, \<^verbatim>\<open>BitState\<close>, \<^verbatim>\<open>BitMov\<close>, \<^verbatim>\<open>BitXchg\<close>, \<^verbatim>\<open>BitAlu\<close>, \<^verbatim>\<open>BitXfer\<close>, \<^verbatim>\<open>BitMisc\<close>: the same
    files in the build without \<^verbatim>\<open>USE_CUSTOM_TAG\<close>, with one bit per byte in 64 MB segments; ranges,
    and each routine with its flow. \<^verbatim>\<open>BitCalls\<close>: the locale \<open>flow_machine\<close>, what both builds
    promise of a call, and what follows for runs. \<^verbatim>\<open>BitAgree\<close>: the locale \<open>two_builds\<close>, the
    calls on which the builds agree, and that runs of them keep the same bytes tainted;
    \<^verbatim>\<open>BitTrace\<close>: the same for the instructions of a trace.
  \<^item> \<^verbatim>\<open>PinRegs\<close> and \<^verbatim>\<open>Pin\<close>: registers, the maps to register indices (\<^verbatim>\<open>libdft_api64.cc\<close>), and what
    the tool sees of Pin. \<^verbatim>\<open>InspectMov\<close>, \<^verbatim>\<open>InspectAlu\<close>, \<^verbatim>\<open>InspectStr\<close>, \<^verbatim>\<open>Inspect\<close>: \<^verbatim>\<open>ins_inspect\<close>, the
    choice of analysis calls for every opcode. \<^verbatim>\<open>Policy\<close>, \<^verbatim>\<open>PolicyCases\<close>, \<^verbatim>\<open>PolicyIns\<close>: operands as
    lists of bytes and what each class of instructions does to their tags.
  \<^item> \<^verbatim>\<open>SeqPatterns\<close> (\<^verbatim>\<open>ins_seq_patterns.cc\<close>) and \<^verbatim>\<open>InsDesc\<close>: a recognised instruction sequence;
    start of the engine, instruction descriptors and inspection of traces.
  \<^item> \<^verbatim>\<open>CxxString\<close> models what the sources use of the C++ library's strings and numbers, with
    exceptions and undefined behaviour as values. \<^verbatim>\<open>Uuid\<close>: identifiers of objects, printed, read
    and built; the locale \<open>uuid_codec\<close> is the contract of a printer with a reader. \<^verbatim>\<open>Db\<close>, \<^verbatim>\<open>DbTables\<close>,
    \<^verbatim>\<open>TagNames\<close>: the database client (\<^verbatim>\<open>TheiaDB.cpp\<close>) and the translation to local tags.
  \<^item> \<^verbatim>\<open>Hooks\<close>, \<^verbatim>\<open>HooksFacts\<close>: the taint sources and sinks (\<^verbatim>\<open>dta_api64.cc\<close>). \<^verbatim>\<open>SyscallHooks\<close>, \<^verbatim>\<open>Syscalls\<close>,
    \<^verbatim>\<open>SyscallFacts\<close>: the other handlers, the table of 312 descriptors (\<^verbatim>\<open>syscall_desc64.cc\<close>), and
    system call entry and exit. \<^verbatim>\<open>Start\<close>: the tool's \<^verbatim>\<open>main\<close> (\<^verbatim>\<open>tools/libdft-dta64.cc\<close>).
  \<^item> \<^verbatim>\<open>EndToEnd\<close> composes source, instructions and sink; \<^verbatim>\<open>ToolRun\<close> makes the tool a transition
    system, with the locale \<open>invariant_system\<close> for invariants of reachable states. \<^verbatim>\<open>Replay\<close>: the
    callbacks for the clock of the replay (\<^verbatim>\<open>tools/libdft-dta64.cc\<close>). \<^verbatim>\<open>Threads\<close>: contexts of threads
    on the heap (\<^verbatim>\<open>thread_alloc\<close>, \<^verbatim>\<open>thread_free\<close>), and the process: any interleaving of the tool's steps
    and callbacks of its threads, which share the tag map, the names and the database.

  \<^bold>\<open>State and failures.\<close> Analysis routines and traces return \<open>None\<close> when a register index is out of
  bounds. Library calls return a sum whose left side is an exception, undefined behaviour or
  divergence; exceptions that a function catches end there. Machine integers are words of
  their width. Loops over addresses are recursions with a termination proof; the one loop of
  the system call handlers that need not end is a partial function whose value is then \<open>None\<close>.
  There is no fuel in the development.

  \<^bold>\<open>Parameters.\<close> Pin's answers (\<open>INS\<close>, \<open>PIN\<close>, \<open>ENV\<close>), structure sizes and kernel constants (\<open>ABI\<close>), the
  memory of the traced process (\<open>guest\<close>), the database and libpqxx (\<open>DBMS\<close>, \<open>conversions\<close>), the
  description of a descriptor that the kernel module returns (\<open>inode\<close>), the floating-point
  logarithm, and values of uninitialised variables. A step of the process that starts a thread
  says what the C library gives: a new block whose tags are clear, or no block. The kernel
  module's part of the replay is a step that leaves the mark 999 for a thread.

  \<^bold>\<open>What is shown.\<close> The tag of every location after a trace is the union of the initial tags it
  depends on, in both builds, which taint the same bytes where their flows agree; each class of
  instructions follows its policy, including where the code departs
  from the processor; the register array is never indexed out of bounds but in one case; the
  shadow memory reads what was written, modulo 32 address bits; sources, sinks and all system
  call handlers do exactly what they should to the tags or where they do not; identifiers
  survive printing and reading. For whole processes: in every interleaving of the threads only
  inbound objects are reported, no thread changes the register tags of another, and each mark
  of the replay's kernel is answered at the next trace.

  \<^bold>\<open>Not modelled.\<close> In the bit build no flow is given for the restoring of registers, for repeated
  stores and for the clearing of a block (\<^verbatim>\<open>m_clrn\<close>): they are defined, their entries in the flow
  tables are placeholders, and \<open>bit_call_ok\<close> excludes them from the results on runs. The stores and
  the clearing are reduced to the range operations, the saving of registers to transfers. Registration with Pin beyond the list of callbacks, logging, and
  Kafka and Avro output (network and files): no state that the tags depend on. The race between
  two threads within one callback: a callback is one step. The lifetime of the two global
  database pointers. The 32-bit predecessor (\<^verbatim>\<open>libdft_core.c\<close>, \<^verbatim>\<open>libdft_api.c\<close>, \<^verbatim>\<open>tagmap.c\<close>,
  \<^verbatim>\<open>syscall_desc.c\<close>), which is not part of the build, the other example tools, the Pin kit and the
  replay server.
\<close>

subsection \<open>Taint propagation over traces\<close>

text \<open>
  C1. Taint provenance. Running the instrumentation of a trace of instructions fails exactly
  when some instruction is a memory bit scan at an address that is no register index;
  otherwise a tag unit is in the tag of a location afterwards if and only if it was, before, in
  the tag of a location that the final one depends on through the data flows of the trace.
\<close>

theorem trace_taint_provenance:
  "case exec_trace pin evs (tc :: 'u::linorder taint_state) of
     None \<Rightarrow> \<not> list_all event_safe evs
   | Some tc' \<Rightarrow> list_all event_safe evs \<and>
       (\<forall>l u. u \<in> tag_members (tag_of tc' l) \<longleftrightarrow>
          (\<exists>l0. dep (trace_calls pin evs) l0 l \<and> u \<in> tag_members (tag_of tc l0)))"
proof (cases "exec_trace pin evs tc")
  case None
  then show ?thesis
    using exec_calls_ok [of "trace_calls pin evs" tc] by (auto simp: exec_trace_calls trace_calls_ok)
next
  case (Some tc')
  then have run: "exec_calls (trace_calls pin evs) tc = Some tc'"
    by (simp add: exec_trace_calls)
  then have "list_all event_safe evs"
    using exec_calls_oob [of "trace_calls pin evs" tc] by (auto simp: trace_calls_ok)
  with Some run show ?thesis
    by (simp add: exec_calls_members)
qed

text \<open>
  C2. Every analysis routine is the simultaneous assignment of its data flow, for all register
  indices within the array and all addresses, overlapping ranges included; with a register
  index outside the array it has no defined result.
\<close>

theorem routine_refines_flow:
  "exec_call c tc = (if call_ok c then Some (apply_flow (call_flow c) tc) else None)"
  by (simp add: exec_call_flow exec_call_oob)

subsection \<open>The policy of the instructions\<close>

text \<open>
  C3. The policy \<^verbatim>\<open>t[dst] = t[src]\<close> of \<^verbatim>\<open>MOV\<close>. For every form of the operands (two registers
  of one width, a register and memory, either way, of 8, 16, 32 or 64 bits, the high byte
  registers included) the bytes of the destination get the tags of the bytes of the source, in
  order, and every other location keeps its tag.
\<close>

theorem mov_policy:
  assumes "pin_ok pin" "INS_Opcode ins = XED_ICLASS_MOV" "operands ins env = Some (ds, ss)"
  shows "\<exists>tc'. exec_ins pin (ins, env) tc = Some tc' \<and> assigns tc ds (map (tag_of tc) ss) tc'"
  using mov_performs [OF assms(1,3), of tc] assms(2)
  by (intro exec_ins_performs) (auto simp: calls_mov)

theorem mov_policy_witness:
  "\<exists>tc'. exec_ins pin_doc (sample_ins XED_ICLASS_MOV REG_AH REG_DIL, sample_env) sample_state =
      Some tc' \<and> assigns sample_state [Reg 7 1] [tag_of sample_state (Reg 0 0)] tc'"
  using mov_policy [of pin_doc "sample_ins XED_ICLASS_MOV REG_AH REG_DIL" sample_env
      "[Reg 7 1]" "[Reg 0 0]" sample_state]
  by (simp add: sample_simps)

text \<open>
  C4. The policy \<^verbatim>\<open>t[dst] |= t[src]\<close> of the two-operand arithmetic and logic instructions
  (\<^verbatim>\<open>ADC\<close>, \<^verbatim>\<open>ADD\<close>, \<^verbatim>\<open>AND\<close>, \<^verbatim>\<open>OR\<close>, \<^verbatim>\<open>XOR\<close>, \<^verbatim>\<open>SBB\<close>, \<^verbatim>\<open>SUB\<close>): unless the
  instruction is an idiom that clears a register, each byte of the destination gets the union
  of its tag and the tag of the corresponding source byte; nothing else changes.
\<close>

theorem binary_policy:
  assumes "pin_ok pin" "INS_Opcode ins \<in> set binary_ops" "operands ins env = Some (ds, ss)"
    and "INS_MemoryOperandCount ins \<noteq> 0 \<or>
      \<not> clear_idiom ins (INS_OperandReg ins OP_0) (INS_OperandReg ins OP_1)"
  shows "\<exists>tc'. exec_ins pin (ins, env) tc = Some tc' \<and> assigns tc ds (merged tc ds ss) tc'"
  using binary_performs [OF assms(1,3), of tc] assms(4) calls_binary [OF assms(2)]
  by (intro exec_ins_performs) auto

theorem binary_policy_witness:
  "\<exists>tc'. exec_ins pin_doc (sample_ins XED_ICLASS_ADD REG_CX REG_R9W, sample_env) sample_state =
      Some tc' \<and> assigns sample_state [Reg 6 0, Reg 6 1]
        (merged sample_state [Reg 6 0, Reg 6 1] [Reg 9 0, Reg 9 1]) tc'"
  using binary_policy [of pin_doc "sample_ins XED_ICLASS_ADD REG_CX REG_R9W" sample_env
      "[Reg 6 0, Reg 6 1]" "[Reg 9 0, Reg 9 1]" sample_state]
  by (simp add: sample_simps)

text \<open>
  C5. The idioms that clear a register. \<^verbatim>\<open>XOR\<close>, \<^verbatim>\<open>SUB\<close> and \<^verbatim>\<open>SBB\<close> of a general purpose
  register with itself clear the tags of exactly the bytes the register's name denotes.
\<close>

theorem clear_idiom_policy:
  assumes "pin_ok pin" "INS_Opcode ins \<in> {XED_ICLASS_XOR, XED_ICLASS_SUB, XED_ICLASS_SBB}"
    and "INS_OperandReg ins OP_0 = r" "INS_OperandReg ins OP_1 = r" "0 < reg_width r"
    and "\<not> INS_OperandIsImmediate ins OP_1" "INS_MemoryOperandCount ins = 0"
  shows "\<exists>tc'. exec_ins pin (ins, env) tc = Some tc' \<and>
    assigns tc (reg_locs r) (replicate (reg_width r) cleared_val) tc'"
proof (rule exec_ins_performs)
  have "clear_idiom ins r r" "INS_Opcode ins \<in> set binary_ops"
    using assms(2) by (auto simp: clear_idiom_def)
  then show "performs (ins_calls pin ins env) tc (reg_locs r) (replicate (reg_width r) cleared_val)"
    using clear_performs [OF assms(1), of ins env tc] assms(3-) calls_binary by simp
qed

theorem clear_idiom_policy_witness:
  "\<exists>tc'. exec_ins pin_doc (sample_ins XED_ICLASS_XOR REG_EAX REG_EAX, sample_env) sample_state =
      Some tc' \<and> assigns sample_state (reg_locs REG_EAX) (replicate (reg_width REG_EAX) cleared_val) tc'"
  using clear_idiom_policy [of pin_doc "sample_ins XED_ICLASS_XOR REG_EAX REG_EAX" REG_EAX sample_env
      sample_state]
  by (simp add: sample_simps)

text \<open>
  \<^verbatim>\<open>XADD\<close>: the destination gets the union of both tags, the source the destination's old
  tag, byte by byte, for registers and for a memory destination.
\<close>

theorem xadd_policy:
  assumes "pin_ok pin" "INS_Opcode ins = XED_ICLASS_XADD" "operands ins env = Some (ds, ss)"
    and "\<not> INS_OperandIsMemory ins OP_1"
  shows "\<exists>tc'. exec_ins pin (ins, env) tc = Some tc' \<and>
    assigns tc (ds @ ss) (merged tc ds ss @ map (tag_of tc) ds) tc'"
  using xadd_performs [OF assms(1,3,4), of tc] assms(2)
  by (intro exec_ins_performs) (simp add: calls_cases)

theorem xadd_policy_witness:
  "\<exists>tc'. exec_ins pin_doc (sample_ins XED_ICLASS_XADD REG_SIL REG_BH, sample_env) sample_state =
      Some tc' \<and> assigns sample_state [Reg 1 0, Reg 4 1]
        (merged sample_state [Reg 1 0] [Reg 4 1] @ map (tag_of sample_state) [Reg 1 0]) tc'"
  using xadd_policy [of pin_doc "sample_ins XED_ICLASS_XADD REG_SIL REG_BH" sample_env
      "[Reg 1 0]" "[Reg 4 1]" sample_state]
  by (simp add: sample_simps)

text \<open>
  C6. \<^verbatim>\<open>MOVZX\<close> and \<^verbatim>\<open>MOVSX\<close> between registers: the low bytes of the destination get the
  source's tags and the extension bytes are cleared, for the sign extension too, although
  those bytes copy the source's sign bit.
\<close>

theorem extension_policy:
  assumes "pin_ok pin" "INS_Opcode ins \<in> {XED_ICLASS_MOVZX, XED_ICLASS_MOVSX}"
    and "d = INS_OperandReg ins OP_0" "s = INS_OperandReg ins OP_1" "INS_MemoryOperandCount ins = 0"
    and "0 < reg_width s" "reg_width s < reg_width d" "reg_width s \<noteq> 4"
  shows "\<exists>tc'. exec_ins pin (ins, env) tc = Some tc' \<and> assigns tc (reg_locs d)
    (map (tag_of tc) (reg_locs s) @ replicate (reg_width d - reg_width s) cleared_val) tc'"
  using extend_performs [OF assms(1,3-8), of env tc] assms(2)
  by (intro exec_ins_performs) (auto simp: calls_cases)

theorem extension_policy_witness:
  "\<exists>tc'. exec_ins pin_doc (sample_ins XED_ICLASS_MOVSX REG_EBX REG_CH, sample_env) sample_state =
      Some tc' \<and> assigns sample_state (reg_locs REG_EBX)
        (map (tag_of sample_state) (reg_locs REG_CH) @ replicate 3 cleared_val) tc'"
  using extension_policy [of pin_doc "sample_ins XED_ICLASS_MOVSX REG_EBX REG_CH" REG_EBX REG_CH
      sample_env sample_state]
  by (simp add: sample_simps)

text \<open>
  C7. Push and pop: pushing a register and popping the same stack slot into a register of
  the same width gives that register, and the slot, the tags of the pushed one.
\<close>

theorem push_pop_roundtrip:
  assumes "INS_Opcode ins1 = XED_ICLASS_PUSH" "INS_OperandIsReg ins1 OP_0"
    and "INS_OperandReg ins1 OP_0 = s" "1 < reg_width s"
    and "INS_Opcode ins2 = XED_ICLASS_POP" "INS_OperandIsReg ins2 OP_0"
    and "INS_OperandReg ins2 OP_0 = d" "reg_width d = reg_width s"
    and "IARG_MEMORYREAD_EA env2 = IARG_MEMORYWRITE_EA env1"
  shows "\<exists>tc'. exec_trace pin [(ins1, env1), (ins2, env2)] tc = Some tc' \<and>
    assigns tc (mem_locs (IARG_MEMORYWRITE_EA env1) (reg_width s) @ reg_locs d)
      (map (tag_of tc) (reg_locs s @ reg_locs s)) tc'"
proof -
  obtain tc1 where 1: "exec_ins pin (ins1, env1) tc = Some tc1"
    "assigns tc (mem_locs (IARG_MEMORYWRITE_EA env1) (reg_width s)) (map (tag_of tc) (reg_locs s)) tc1"
    using exec_ins_performs [of pin ins1 env1 tc] push_performs [OF assms(2-4), of env1 tc] assms(1)
    by (auto simp: calls_cases)
  obtain tc2 where 2: "exec_ins pin (ins2, env2) tc1 = Some tc2"
    "assigns tc1 (reg_locs d) (map (tag_of tc1) (mem_locs (IARG_MEMORYWRITE_EA env1) (reg_width s))) tc2"
    using exec_ins_performs [of pin ins2 env2 tc1] pop_performs [OF assms(6,7), of env2 tc1]
      assms(4,5,8,9) by (auto simp: calls_cases)
  have "map (tag_of tc1) (mem_locs (IARG_MEMORYWRITE_EA env1) (reg_width s)) = map (tag_of tc) (reg_locs s)"
    using 1(2) by (simp add: assigns_def)
  with assigns_compose [OF 1(2) 2(2) reg_mem_disjoint(1)] 1(1) 2(1) show ?thesis
    by (simp add: exec_trace_def)
qed

theorem push_pop_roundtrip_witness:
  "\<exists>tc'. exec_trace pin_doc [(sample_ins XED_ICLASS_PUSH REG_RDI REG_INVALID, sample_env),
      (sample_ins XED_ICLASS_POP REG_RDX REG_INVALID, sample_env)] sample_state = Some tc' \<and>
    assigns sample_state (mem_locs 4096 8 @ reg_locs REG_RDX)
      (map (tag_of sample_state) (reg_locs REG_RDI @ reg_locs REG_RDI)) tc'"
  using push_pop_roundtrip [of "sample_ins XED_ICLASS_PUSH REG_RDI REG_INVALID" REG_RDI
      "sample_ins XED_ICLASS_POP REG_RDX REG_INVALID" REG_RDX sample_env sample_env pin_doc sample_state]
  by (simp add: sample_simps)

text \<open>
  C8. \<^verbatim>\<open>LEA\<close>: each byte of the destination gets the union of the tags of the base and index
  registers that are present (the cleared tag if there is none), and nothing else changes,
  although the form with base and index inserts a second, 16-bit call for 64-bit registers.
\<close>

theorem lea_policy:
  assumes "INS_Opcode ins = XED_ICLASS_LEA" "INS_OperandReg ins OP_0 = d" "1 < reg_width d"
    and "INS_MemoryBaseReg ins = REG_INVALID \<or> reg_width (INS_MemoryBaseReg ins) = reg_width d"
    and "INS_MemoryIndexReg ins = REG_INVALID \<or> reg_width (INS_MemoryIndexReg ins) = reg_width d"
  shows "\<exists>tc'. exec_ins pin (ins, env) tc = Some tc' \<and> assigns tc (reg_locs d)
    (map (\<lambda>i. combine_all (map (\<lambda>r. tag_of tc (reg_loc r i))
      (filter (\<lambda>r. r \<noteq> REG_INVALID) [INS_MemoryBaseReg ins, INS_MemoryIndexReg ins])))
      [0..<reg_width d]) tc'"
  using lea_performs [OF assms(2-5), of tc] assms(1)
  by (intro exec_ins_performs) (simp add: calls_cases)

theorem lea_policy_witness:
  "\<exists>tc'. exec_ins pin_doc ((sample_ins XED_ICLASS_LEA REG_RAX REG_INVALID)
      \<lparr>INS_MemoryBaseReg := REG_RBX, INS_MemoryIndexReg := REG_RCX\<rparr>, sample_env) sample_state =
      Some tc' \<and> assigns sample_state (reg_locs REG_RAX)
    (map (\<lambda>i. combine_all (map (\<lambda>r. tag_of sample_state (reg_loc r i)) [REG_RBX, REG_RCX])) [0..<8]) tc'"
  using lea_policy [of "(sample_ins XED_ICLASS_LEA REG_RAX REG_INVALID)
      \<lparr>INS_MemoryBaseReg := REG_RBX, INS_MemoryIndexReg := REG_RCX\<rparr>" REG_RAX pin_doc sample_env
      sample_state]
  by (simp add: sample_simps)

text \<open>
  C9. \<^verbatim>\<open>DIV\<close>, \<^verbatim>\<open>IDIV\<close> and \<^verbatim>\<open>MUL\<close> with a memory operand only read memory, so Pin reports
  a write size of zero and the byte routine is chosen whatever the operand's width: only the
  two low bytes of \<^verbatim>\<open>RAX\<close> are merged, with the first byte of the operand, and \<^verbatim>\<open>RDX\<close>
  keeps its tags.
\<close>

theorem div_mul_memory:
  assumes "INS_Opcode ins \<in> {XED_ICLASS_DIV, XED_ICLASS_IDIV, XED_ICLASS_MUL}"
    and "INS_OperandIsMemory ins OP_0" "INS_MemoryWriteSize ins = 0"
  shows "\<exists>tc'. exec_ins pin (ins, env) tc = Some tc' \<and>
    assigns tc [Reg GPR_EAX 0, Reg GPR_EAX 1]
      (map (\<lambda>i. tag_combine (tag_of tc (Reg GPR_EAX i)) (tag_of tc (Mem (IARG_MEMORYREAD_EA env)))) [0, 1]) tc'"
  using div_mem_performs [OF assms(2,3), of pin env tc] assms(1)
  by (intro exec_ins_performs) (auto simp: calls_cases)

theorem div_mul_memory_witness:
  "\<exists>tc'. exec_ins pin_doc ((sample_ins XED_ICLASS_DIV REG_INVALID REG_INVALID)
      \<lparr>INS_OperandIsMemory := (\<lambda>i. i = 0), INS_MemoryOperandCount := 1, INS_IsMemoryRead := True,
       INS_MemoryReadSize := 8\<rparr>, sample_env) sample_state = Some tc' \<and>
    assigns sample_state [Reg 7 0, Reg 7 1] (map (\<lambda>i. tag_combine (tag_of sample_state (Reg 7 i))
      (tag_of sample_state (Mem (IARG_MEMORYREAD_EA sample_env)))) [0, 1]) tc'"
  using div_mul_memory [of "(sample_ins XED_ICLASS_DIV REG_INVALID REG_INVALID)
      \<lparr>INS_OperandIsMemory := (\<lambda>i. i = 0), INS_MemoryOperandCount := 1, INS_IsMemoryRead := True,
       INS_MemoryReadSize := 8\<rparr>" pin_doc sample_env sample_state]
  by (simp add: sample_ins_def)

text \<open>
  C10. \<^verbatim>\<open>XCHG\<close> swaps the tags of its operands, byte by byte, in every form; when both operands
  are the same register nothing changes. Pin gives one address for the read and the write of
  the memory operand.
\<close>

theorem xchg_policy:
  assumes "pin_ok pin" "INS_Opcode ins = XED_ICLASS_XCHG" "operands ins env = Some (ds, ss)"
    and "IARG_MEMORYREAD_EA env = IARG_MEMORYWRITE_EA env"
  shows "\<exists>tc'. exec_ins pin (ins, env) tc = Some tc' \<and>
    assigns tc (ds @ ss) (map (tag_of tc) (ss @ ds)) tc'"
  using xchg_performs [OF assms(1,3,4), of tc] assms(2)
  by (intro exec_ins_performs) (simp add: calls_cases)

theorem xchg_policy_witness:
  "\<exists>tc'. exec_ins pin_doc (sample_ins XED_ICLASS_XCHG REG_AH REG_AL, sample_env) sample_state =
      Some tc' \<and> assigns sample_state [Reg 7 1, Reg 7 0]
        (map (tag_of sample_state) [Reg 7 0, Reg 7 1]) tc'"
  using xchg_policy [of pin_doc "sample_ins XED_ICLASS_XCHG REG_AH REG_AL" sample_env
      "[Reg 7 1]" "[Reg 7 0]" sample_state]
  by (simp add: sample_simps)

text \<open>
  C11. A repeated \<^verbatim>\<open>STOSB\<close> is handled once, at its first iteration: the tag of \<^verbatim>\<open>AL\<close> goes to
  exactly the bytes the block covers, upwards from the write address when the direction flag
  is clear and downwards when it is set, for every count; at later iterations nothing changes.
\<close>

theorem rep_stosb:
  assumes "INS_Opcode ins = XED_ICLASS_STOSB" "INS_RepPrefix ins" "IARG_EXECUTING env"
    and "IARG_REG_VALUE env (INS_RepCountRegister ins) = count"
    and "IARG_REG_VALUE env (INS_OperandReg ins OP_4) = flags"
  shows "\<exists>tc'. exec_ins pin (ins, env) tc = Some tc' \<and>
    (\<forall>a. tag_of tc' (Mem a) =
       (if IARG_FIRST_REP_ITERATION env \<and> (ucast a :: 32 word) \<in>
          (\<lambda>k. ucast (IARG_MEMORYWRITE_EA env) + (if EFLAGS_DF flags = 0 then of_nat k else - of_nat k)) `
            {..<unat count}
        then tag_of tc (Reg GPR_EAX 0) else tag_of tc (Mem a))) \<and>
    (\<forall>r i. tag_of tc' (Reg r i) = tag_of tc (Reg r i))"
  using stosb_tags [OF assms(2-5), of tc] assms(1)
  by (simp add: exec_ins_def calls_cases)

theorem rep_stosb_witness:
  "\<exists>tc'. exec_ins pin_doc ((sample_ins XED_ICLASS_STOSB REG_INVALID REG_INVALID)
      \<lparr>INS_RepPrefix := True, INS_RepCountRegister := REG_RCX\<rparr>,
      sample_env\<lparr>IARG_REG_VALUE := (\<lambda>r. if r = REG_RCX then 3 else 0), IARG_FIRST_REP_ITERATION := True\<rparr>)
      sample_state = Some tc' \<and>
    (\<forall>a. tag_of tc' (Mem a) =
       (if (ucast a :: 32 word) \<in> (\<lambda>k. 4096 + of_nat k) ` {..<3}
        then tag_of sample_state (Reg 7 0) else tag_of sample_state (Mem a))) \<and>
    (\<forall>r i. tag_of tc' (Reg r i) = tag_of sample_state (Reg r i))"
  using rep_stosb [of "(sample_ins XED_ICLASS_STOSB REG_INVALID REG_INVALID)
      \<lparr>INS_RepPrefix := True, INS_RepCountRegister := REG_RCX\<rparr>"
      "sample_env\<lparr>IARG_REG_VALUE := (\<lambda>r. if r = REG_RCX then 3 else 0), IARG_FIRST_REP_ITERATION := True\<rparr>"
      3 0 pin_doc sample_state]
  by (simp add: sample_ins_def sample_env_def EFLAGS_DF_def)

subsection \<open>Register bounds\<close>

text \<open>
  C12. Register bounds. The calls inserted for an instruction index the 17 register-tag rows
  within bounds, whatever Pin answers, unless the instruction is a bit scan of a memory
  operand, whose routine uses the effective address as a row number.
\<close>

theorem instrumentation_in_bounds:
  "list_all call_ok (ins_calls pin ins env) =
     (\<not> (bitscan_mem ins \<and> 17 \<le> unat (IARG_MEMORYREAD_EA env)))"
  by (auto simp: ins_calls_ok)

subsection \<open>Conditional moves\<close>

text \<open>
  C13. The conditional moves (\<^verbatim>\<open>CMOVcc\<close>) propagate only when their condition holds: then the
  bytes of the destination get the source's tags, for two registers and for a memory source, of
  16, 32 or 64 bits; otherwise no tag changes.
\<close>

theorem cmov_policy:
  assumes "INS_Opcode ins \<in> set cmov_ops" "operands ins env = Some (ds, ss)" "1 < length ds"
    and "INS_MemoryOperandCount ins = 0 \<or> INS_OperandIsMemory ins OP_1"
  shows "\<exists>tc'. exec_ins pin (ins, env) tc = Some tc' \<and>
    assigns tc ds (map (tag_of tc) (if IARG_EXECUTING env then ss else ds)) tc'"
  using cmov_performs [OF assms(2-4), of tc] assms(1)
  by (intro exec_ins_performs) (simp only: calls_cmov)

theorem cmov_policy_witness:
  "\<exists>tc'. exec_ins pin_doc (sample_ins XED_ICLASS_CMOVZ REG_DX REG_SI, sample_env) sample_state =
      Some tc' \<and> assigns sample_state [Reg 5 0, Reg 5 1]
        (map (tag_of sample_state) (if IARG_EXECUTING sample_env then [Reg 1 0, Reg 1 1]
          else [Reg 5 0, Reg 5 1])) tc'"
  using cmov_policy [of "sample_ins XED_ICLASS_CMOVZ REG_DX REG_SI" sample_env
      "[Reg 5 0, Reg 5 1]" "[Reg 1 0, Reg 1 1]" pin_doc sample_state]
  by (simp add: sample_simps)

subsection \<open>Shadow memory\<close>

text \<open>
  C14. A write to the shadow directory returns unless the page is missing and an allocation
  it needs fails; then every address reads the new tag if it agrees with the written one in its
  low 32 bits and its old tag otherwise. In particular addresses that differ only above bit 31
  share one tag.
\<close>

theorem shadow_write_read:
  "case tag_dir_setb new m a t of
     None \<Rightarrow> \<not> mapped m a \<and> \<not> (new_page_ok new \<and> m (virt2table a) \<noteq> None) \<and>
       \<not> (new_page_ok new \<and> new_table_ok new)
   | Some m' \<Rightarrow>
       (\<forall>b. tag_dir_getb m' b = (if (ucast a :: 32 word) = ucast b then t else tag_dir_getb m b)) \<and>
       mapped m' a"
proof (cases "tag_dir_setb new m a t")
  case None
  then show ?thesis
    by (auto simp: tag_dir_setb_def mapped_def split: option.splits if_splits)
next
  case (Some m')
  then have "mapped m' a"
    by (auto simp: tag_dir_setb_def mapped_def split: option.splits if_splits bind_splits)
  with Some tag_dir_setb_get [OF Some] show ?thesis by simp
qed

text \<open>
  The three indices of an address are within the directory, table and page, and two
  addresses have the same indices exactly when they agree in their low 32 bits.
\<close>

theorem shadow_indices:
  "unat (virt2table a) < unat DIR_SZ \<and> unat (virt2page a) < unat DIR_TABLE_SZ \<and>
   unat (virt2offset a) < unat DIR_PAGE_SZ \<and>
   ((virt2table a, virt2page a, virt2offset a) = (virt2table b, virt2page b, virt2offset b)) =
     ((ucast a :: 32 word) = ucast b)"
  using virt_in_bounds [of a] virt_eq_iff [of a b]
  by (simp add: DIR_SZ_def DIR_TABLE_SZ_def DIR_PAGE_SZ_def DIR_BITS_def DIR_TABLE_BITS_def
      DIR_PAGE_BITS_def)

text \<open>
  The quad-word operations of the tag map: setting and clearing act on exactly the eight
  bytes from the address, and reading gives the union of their tags.
\<close>

theorem tagmap_quad:
  "tag_dir_getb (tagmap_setq m a) b =
     (if (ucast b :: 32 word) \<in> set (map (\<lambda>i. ucast (a + of_nat i)) [0..<8])
      then set_val else tag_dir_getb m b) \<and>
   tag_dir_getb (tagmap_clrq m a) b =
     (if (ucast b :: 32 word) \<in> set (map (\<lambda>i. ucast (a + of_nat i)) [0..<8])
      then cleared_val else tag_dir_getb m b) \<and>
   tagmap_getq m a = combine_all (map (\<lambda>i. tagmap_getb m (a + of_nat i)) [0..<8])"
  by (simp add: tagmap_setq_fold tagmap_clrq_fold tagmap_getq_all dir_shadow.get_fold_set image_image
      atLeast0LessThan)

text \<open>
  C15. The range operations of the tag map set or clear exactly the addresses from the start
  up to the end computed with 64-bit wrap-around, seen modulo the 32 bits the directory uses.
\<close>

theorem tagmap_range:
  "tag_dir_getb (tagmap_setn m a n) b =
     (if \<exists>i. a \<le> i \<and> i < a + n \<and> (ucast i :: 32 word) = ucast b then set_val else tag_dir_getb m b) \<and>
   tag_dir_getb (tagmap_clrn m a n) b =
     (if \<exists>i. a \<le> i \<and> i < a + n \<and> (ucast i :: 32 word) = ucast b then cleared_val else tag_dir_getb m b)"
  by (simp add: tagmap_setn_def tagmap_clrn_def tagmap_setb_def tagmap_clrb_def get_for_addr_setb)

subsection \<open>Tags and registers\<close>

text \<open>
  C16. Combining set tags: the merge and the in-place insertion give the same tag, its
  elements are strictly increasing and are those of either tag, and it is tainted exactly when one
  of them is.
\<close>

theorem tag_combine_union:
  "tag_combine_inplace s t = tag_combine s t \<and>
   sorted_wrt (<) (elems (tag_combine s t)) \<and>
   set (elems (tag_combine s t)) = set (elems s) \<union> set (elems t) \<and>
   tainted (tag_combine s t) = (tainted s \<or> tainted t)"
  using members_combine [of s t] by (simp add: set_tag.inplace tag_members_def)

text \<open>
  C17. Register indices: for every Pin register the four maps give a row of the register-tag
  array, and the 64, 32, 16 and 8 bit names of each of the sixteen general purpose registers
  give the same row, in the order of the enumeration.
\<close>

theorem register_indices:
  "REG64_INDX r < 17 \<and> REG32_INDX r < 17 \<and> REG16_INDX r < 17 \<and> REG8_INDX r < 17 \<and>
   map (\<lambda>(q, l, w, bs). REG64_INDX q) gpr_names = [0..<16] \<and>
   map (\<lambda>(q, l, w, bs). REG32_INDX l) gpr_names = [0..<16] \<and>
   map (\<lambda>(q, l, w, bs). REG16_INDX w) gpr_names = [0..<16] \<and>
   map (\<lambda>(q, l, w, bs). remdups (map REG8_INDX bs)) gpr_names = map (\<lambda>i. [i]) [0..<16]"
  by (intro conjI REG_INDX_less)
    (simp_all add: gpr_names_def REG64_INDX_def REG32_INDX_def REG16_INDX_def REG8_INDX_def upts)

subsection \<open>Sources and sinks\<close>

text \<open>
  C18. From a source to a sink. A successful \<^verbatim>\<open>read\<close> of an inbound object taints its buffer;
  if, after the instructions of a trace, a byte handed to a sink depends on a byte of that
  buffer, then the sink completes, the object's identifier is among the origins it reports, and
  the reported origins are exactly the names of the tags that the bytes of the sink depend on.
  It needs the tag units to be at most 32 bits wide, a free unit, and a tainted first byte.
\<close>

theorem source_to_sink:
  assumes "hooks_inv (st :: ('w::len, 'db) hooks_state)" "card (dom (uuid_to_tag st)) < 2 ^ LENGTH('w)"
    and "LENGTH('w) \<le> 32" "0 < sint (ctx_ret ctx)"
    and "get_current_uuid (ip_buffer st) inode (Some no_endpoints) = Inr (u, type, ep, ips)"
    and "u \<in> set (inbound_uuid_array_global cfg)"
    and "post_read_hook dbms cfg junk inode ctx st = Inr st1"
    and "exec_trace pin evs \<lparr>gpr = g, tag_dir = dir st1\<rparr> = Some tc"
    and "x \<in> {ctx_arg ctx 1..<ctx_arg ctx 1 + ctx_ret ctx}" "y \<in> {b..<b + m}"
    and "dep (trace_calls pin evs) (Mem x) (Mem y)" "tainted (tagmap_getb (tag_dir tc) b)"
  shows "\<exists>st2 rs. sink_loop dbms cfg ev s b m (st1\<lparr>dir := tag_dir tc\<rparr>) = Inr (st2, rs) \<and>
    uuid_to_string u \<in> tag_members rs \<and>
    tag_members rs = {tag_name (tag_to_tag_uuid st1) t | t y l0. y \<in> {b..<b + m} \<and>
      dep (trace_calls pin evs) l0 (Mem y) \<and> t \<in> tag_members (tag_of \<lparr>gpr = g, tag_dir = dir st1\<rparr> l0)}"
proof -
  obtain remote cross ips' d where st1: "st1 = taint_source cfg ''EVENT_READ'' (uuid_to_string u) remote cross
      (ctx_arg ctx 1) (ctx_ret ctx) (st\<lparr>ip_buffer := ips', db := d\<rparr>)"
    using assms(7) by (rule read_hook_cases) (use assms(4,5) in auto)
  obtain t where t: "tag_name (tag_to_tag_uuid st1) t = uuid_to_string u"
    "tagmap_getb (dir st1) x = std_insert t std_empty"
    using taint_source_effect [of "st\<lparr>ip_buffer := ips', db := d\<rparr>" "uuid_to_string u" cfg "''EVENT_READ''" remote
        cross "ctx_arg ctx 1" "ctx_ret ctx"] assms(1-3,6,9) by (auto simp: st1 span_def)
  then have "t \<in> tag_members (tag_of \<lparr>gpr = g, tag_dir = dir st1\<rparr> (Mem x))"
    by (simp add: tagmap_getb_def M8TAG_def flip: M8TAG_tag_of)
  moreover obtain st2 rs where r: "sink_loop dbms cfg ev s b m (st1\<lparr>dir := tag_dir tc\<rparr>) = Inr (st2, rs)"
    using sink_loop_outcome [where dbms = dbms and cfg = cfg and ev = ev and s = s and a = b and n = m
        and st = "st1\<lparr>dir := tag_dir tc\<rparr>"] assms(12) by (auto split: sum.splits)
  ultimately show ?thesis
    using sink_after_trace [OF assms(8) r] t(1) assms(10,11) by fastforce
qed

theorem source_to_sink_witness:
  "\<exists>st1 st2 rs. post_read_hook sample_dbms sample_cfg zero_uuid sample_inode sample_ctx sample_hooks = Inr st1 \<and>
     sink_loop sample_dbms sample_cfg ''EVENT_WRITE'' ''x'' 4096 4 st1 = Inr (st2, rs) \<and>
     uuid_to_string sample_uuid \<in> tag_members rs"
proof -
  obtain st1 where r: "post_read_hook sample_dbms sample_cfg zero_uuid sample_inode sample_ctx sample_hooks = Inr st1"
    using sample_read(1) by blast
  note t = sample_read_tainted [OF r]
  have "\<exists>st2 rs. sink_loop sample_dbms sample_cfg ''EVENT_WRITE'' ''x'' 4096 4 st1 = Inr (st2, rs) \<and>
      uuid_to_string sample_uuid \<in> tag_members rs"
    using source_to_sink [of sample_hooks sample_ctx sample_inode sample_uuid INODE_TYPE "Some no_endpoints"
        "ip_buffer sample_hooks" sample_cfg sample_dbms zero_uuid st1 pin_doc "[]" "\<lambda>_ _. cleared_val"
        "\<lparr>gpr = \<lambda>_ _. cleared_val, tag_dir = dir st1\<rparr>" 4096 4096 4096 4 "''EVENT_WRITE''" "''x''"]
      sample_hooks_inv r t
    by (simp add: sample_current sample_ctx_def sample_cfg_def exec_trace_def trace_calls_def)
      (force simp: sample_hooks_def)
  with r show ?thesis by blast
qed

text \<open>
  C19. What a sink does. It reports the names of the tags of all bytes of the range and keeps
  the tags and the source tags' names; but if the first byte of a nonempty range is untainted
  and the database can be reached, it removes a character from an empty string, which is undefined.
  The origins of a byte accumulate: they are not reset between the bytes of one call.
\<close>

theorem sink_outcome:
  "case sink_loop dbms cfg ev s a n st of
     Inl e \<Rightarrow> e = Undefined_behaviour \<and> a < a + n \<and> \<not> tainted (tagmap_getb (dir st) a)
   | Inr (st', rs) \<Rightarrow>
       \<not> (a < a + n \<and> fst (open_connection dbms (db st)) \<and> \<not> tainted (tagmap_getb (dir st) a)) \<and>
       dir st' = dir st \<and> uuid_to_tag st' = uuid_to_tag st \<and>
       tag_members rs = (\<Union>i \<in> {a..<a + n}. tag_name (tag_to_tag_uuid st) ` tag_members (tagmap_getb (dir st) i))"
proof -
  have org: "origins st = (\<lambda>i. tag_name (tag_to_tag_uuid st) ` tag_members (tagmap_getb (dir st) i))"
    by (rule ext) (simp add: origins_def)
  show ?thesis
    using sink_loop_outcome [where dbms = dbms and cfg = cfg and ev = ev and s = s and a = a and n = n and st = st]
    by (auto simp: same_taint_def org split: sum.splits)
qed

text \<open>
  C20. Whole runs with any number of threads. After any interleaving of starting and ending
  threads, of entering and leaving system calls, each with its own descriptor, guest memory and
  database, of executing instrumented instructions and of replay callbacks, the two tag maps
  are inverse to each other, and every tag in memory names an inbound object: no sink
  can ever report anything else. It needs as many tag units as there are inbound objects.
\<close>

theorem threads_report_inbound:
  assumes "fresh_process p" "(\<lambda>p p'. \<exists>l. proc_step cfg abi pin l p p')\<^sup>*\<^sup>* p (p' :: ('w::len, 'db) process)"
    and "LENGTH('w) \<le> 32" "card (uuid_to_string ` set (inbound_uuid_array_global cfg)) \<le> 2 ^ LENGTH('w)"
  shows "hooks_inv (shared p') \<and>
    origins (shared p') b \<subseteq> uuid_to_string ` set (inbound_uuid_array_global cfg)"
proof -
  have "tags_known cfg (\<lambda>_ _. cleared_val) (shared p')"
    using process.steps_inv [OF assms(2) fresh_process_inv [OF assms(1)]] by (simp add: proc_inv_def)
  with known_origins [OF this assms(3,4)] show ?thesis by (simp add: tags_known_def)
qed

theorem threads_report_inbound_witness:
  "\<exists>st'. sysexit_save sample_hook_env (tool_syscall_desc sample_abi) 4 (sample_tool 0) = Inr st' \<and>
     origins (shared (update 0 (\<lambda>_ _. cleared_val, st') (sample_run 0))) 0 \<subseteq> {uuid_to_string sample_uuid}"
proof -
  obtain st' where r: "sysexit_save sample_hook_env (tool_syscall_desc sample_abi) 4 (sample_tool 0) = Inr st'"
    using sample_exit by blast
  have "tool_step sample_cfg sample_abi pin_doc (\<lambda>_ _. cleared_val, sample_tool 0) (\<lambda>_ _. cleared_val, st')"
    by (rule tool_step.leave [OF _ r]) (simp add: sample_hook_env_def)
  then have "proc_step sample_cfg sample_abi pin_doc (Tool 0) (sample_run 0) (update 0 (\<lambda>_ _. cleared_val, st') (sample_run 0))"
    using proc_step.tool [OF _ sample_view] sample_mapped by blast
  then have "(\<lambda>p p'. \<exists>l. proc_step sample_cfg sample_abi pin_doc l p p')\<^sup>*\<^sup>* sample_process
      (update 0 (\<lambda>_ _. cleared_val, st') (sample_run 0))"
    using sample_start by (blast intro: rtranclp.rtrancl_into_rtrancl rtranclp.rtrancl_refl)
  from threads_report_inbound [OF sample_fresh_process this, of 0] r show ?thesis
    by (auto simp: sample_cfg_def)
qed

text \<open>
  C21. Threads do not disturb each other. In every process that is reached from its start, a step
  of one thread, its creation and its end included, leaves the register tags, the saved system
  call and the replay data of every other living thread as they are.
\<close>

theorem thread_isolation:
  assumes "fresh_process p" "(\<lambda>p p'. \<exists>l. proc_step cfg abi pin l p p')\<^sup>*\<^sup>* p p'"
    and "proc_step cfg abi pin l p' p''" "thread_ctx_map p' u = Some q" "u \<noteq> thread_of l"
  shows "regs u p'' = regs u p' \<and> tls p'' u = tls p' u \<and> thread_ctx_map p'' u = Some q"
proof -
  have "own_ctxs p'"
    using process.steps_inv [OF assms(2) fresh_process_inv [OF assms(1)]] by (simp add: proc_inv_def)
  from step_isolated [OF this assms(3-5)] show ?thesis .
qed

theorem thread_isolation_witness:
  "\<exists>p. proc_step sample_cfg sample_abi pin_doc (Start 1) (sample_run 0) p \<and> regs 0 p = regs 0 (sample_run 0)"
proof -
  let ?e = "sample_thread\<lparr>calloc_block := Some 32\<rparr>"
  obtain p where p: "thread_alloc ?e 1 (sample_run 0) = Some p"
    by (simp add: thread_alloc_def sample_thread_def Let_def)
  have step: "proc_step sample_cfg sample_abi pin_doc (Start 1) (sample_run 0) p"
    by (rule proc_step.start [OF _ _ _ _ p])
      (simp_all add: thread_alloc_def sample_process_def sample_thread_def sample_tool_def Let_def)
  have "(\<lambda>p p'. \<exists>l. proc_step sample_cfg sample_abi pin_doc l p p')\<^sup>*\<^sup>* sample_process (sample_run 0)"
    using sample_start by blast
  from thread_isolation [OF sample_fresh_process this step sample_mapped] step show ?thesis by auto
qed

text \<open>
  C22. The clock of the replay. In every infinite run of the process in which a thread enters
  traces again and again, each mark that the kernel leaves for the thread is answered: at the
  first trace after it, and not before, the thread waits for the clock once and takes the mark back. A system call
  ends a trace, so the thread enters a trace between the mark and its next system call.
\<close>

theorem clock_answered:
  assumes "\<And>n. proc_step cfg abi pin (lab n) (run n) (run (Suc n))" "\<And>n. \<exists>m>n. lab m = Trace t"
    and "\<And>n. lab n \<noteq> Start t"
    and "\<And>k m n. k < m \<Longrightarrow> lab k = Kernel t \<Longrightarrow> lab m = Syscall_ins t n \<Longrightarrow> \<exists>j. k < j \<and> j < m \<and> lab j = Trace t"
    and "lab k = Kernel t" "tls (run k) t \<noteq> None"
  shows "\<exists>m>k. lab m = Trace t \<and> (\<forall>j. k < j \<and> j < m \<longrightarrow> lab j \<noteq> Trace t) \<and>
    pending (tls (run m) t) \<and> clock_log (run (Suc m)) = clock_log (run m) @ [Check_after] \<and>
    \<not> pending (tls (run (Suc m)) t)"
  using assms by (rule mark_answered)

theorem clock_answered_witness:
  "\<exists>m>0. clock_log (sample_run (Suc m)) = clock_log (sample_run m) @ [Check_after]"
proof -
  have fair: "\<exists>m>n. sample_label m = Trace 0" for n
    by (intro exI [of _ "2 * n + 1"]) simp
  have live: "sample_label n \<noteq> Start 0" for n by simp
  have ends: "\<exists>j. k < j \<and> j < m \<and> sample_label j = Trace 0"
    if "k < m" "sample_label k = Kernel 0" "sample_label m = Syscall_ins 0 n" for k m n
    using that(3) by (simp split: if_splits)
  have mark: "sample_label 0 = Kernel 0" by simp
  have ctx: "tls (sample_run 0) 0 \<noteq> None"
    by (simp add: thread_alloc_def sample_thread_def Let_def)
  note steps = sample_steps [where cfg = sample_cfg and abi = sample_abi and pin = pin_doc]
  have "\<exists>m>0. sample_label m = Trace 0 \<and> (\<forall>j. 0 < j \<and> j < m \<longrightarrow> sample_label j \<noteq> Trace 0) \<and>
      pending (tls (sample_run m) 0) \<and> clock_log (sample_run (Suc m)) = clock_log (sample_run m) @ [Check_after] \<and>
      \<not> pending (tls (sample_run (Suc m)) 0)"
    by (rule clock_answered [OF steps fair live _ mark ctx]) (rule ends)
  then show ?thesis by (elim exE conjE) (intro exI conjI)
qed

text \<open>
  C23. Exhausted tag units. When all values of a tag unit are in use, the next new source gets
  unit 0 again and takes over its name: data of the first source is then reported as data of
  the new one.
\<close>

theorem tag_units_wrap:
  assumes "hooks_inv (st :: ('w::len, 'db) hooks_state)" "card (dom (uuid_to_tag st)) = 2 ^ LENGTH('w)"
    and "LENGTH('w) \<le> 32" "uuid_to_tag st s = None" "uuid_to_tag st first = Some 0"
  shows "case new_source_tag cfg ev s remote cross st of (t, st') \<Rightarrow>
    t = 0 \<and> tag_name (tag_to_tag_uuid st) 0 = first \<and> tag_name (tag_to_tag_uuid st') 0 = s \<and>
    uuid_to_tag st' first = Some 0"
proof -
  obtain t st' where new: "new_source_tag cfg ev s remote cross st = (t, st')" by fastforce
  note f = new_source_tag_fields [OF new]
  have "tag_counter st = 0" using assms(1,2) by (simp add: hooks_inv_def)
  moreover have "first \<noteq> s" using assms(4,5) by auto
  moreover have "tag_name (tag_to_tag_uuid st) 0 = first"
    using tag_name_assigned [OF assms(1) _ assms(3,5)] assms(2) by simp
  ultimately show ?thesis
    using assms(5) by (simp add: new f(1,3,4) tag_name_def)
qed

theorem tag_units_wrap_witness:
  "case new_source_tag sample_cfg ''EVENT_READ'' ''c'' [] std_empty
      \<lparr>dir = tag_dir_init, tag_counter = 0, uuid_to_tag = [''a'' \<mapsto> 0, ''b'' \<mapsto> 1],
       tag_to_tag_uuid = [0 \<mapsto> ''a'', (1 :: 1 word) \<mapsto> ''b''], generated_tag_uuid_set = {},
       tag_counter_global = 2, ip_buffer = [], kafka = [], avro = [], db = ()\<rparr> of (t, st') \<Rightarrow>
    t = 0 \<and> tag_name (tag_to_tag_uuid st') 0 = ''c'' \<and> uuid_to_tag st' ''a'' = Some 0"
proof -
  let ?st = "\<lparr>dir = tag_dir_init, tag_counter = 0, uuid_to_tag = [''a'' \<mapsto> 0, ''b'' \<mapsto> 1],
       tag_to_tag_uuid = [0 \<mapsto> ''a'', (1 :: 1 word) \<mapsto> ''b''], generated_tag_uuid_set = {},
       tag_counter_global = 2, ip_buffer = [], kafka = [], avro = [], db = ()\<rparr> :: (1, unit) hooks_state"
  have card: "card (dom (uuid_to_tag ?st)) = 2" by simp
  have "unat (1 :: 1 word) = 1" by simp
  then have "hooks_inv ?st" by (auto simp: hooks_inv_def split: if_splits)
  from tag_units_wrap [OF this, of "''c''" "''a''" sample_cfg "''EVENT_READ''" "[]" std_empty] card
  show ?thesis by (auto split: prod.splits)
qed

text \<open>
  C24. What a source does. After a successful \<^verbatim>\<open>read\<close> or \<^verbatim>\<open>recvfrom\<close> from an inbound
  object, exactly the bytes of the buffer (modulo the 32 address bits of the directory) carry
  one tag, whose name is the object's identifier, and all others are unchanged; for any other
  object no tag changes.
\<close>

theorem source_effect:
  assumes "hooks_inv (st :: ('w::len, 'db) hooks_state)" "card (dom (uuid_to_tag st)) < 2 ^ LENGTH('w)"
    and "LENGTH('w) \<le> 32" "0 < sint (ctx_ret ctx)"
    and "get_current_uuid (ip_buffer st) inode (Some no_endpoints) = Inr (u, type, ep, ips)"
    and "list_all (\<lambda>v. length v = 16) (inbound_uuid_array_global cfg)"
    and "hook \<in> {post_read_hook dbms cfg junk inode ctx, post_recvfrom_hook dbms cfg junk inode ctx}"
  shows "\<exists>st'. hook st = Inr st' \<and>
    (if u \<in> set (inbound_uuid_array_global cfg)
     then \<exists>t. tag_name (tag_to_tag_uuid st') t = uuid_to_string u \<and>
       (\<forall>b. tagmap_getb (dir st') b =
         (if ucast b \<in> span (ctx_arg ctx 1) (ctx_ret ctx) then std_insert t std_empty else tagmap_getb (dir st) b))
     else dir st' = dir st)"
proof -
  obtain st' e remote cross ips' d where r: "hook st = Inr st'"
    and st': "st' = taint_source cfg e (uuid_to_string u) remote cross
      (ctx_arg ctx 1) (ctx_ret ctx) (st\<lparr>ip_buffer := ips', db := d\<rparr>)"
  proof (cases "hook = post_read_hook dbms cfg junk inode ctx")
    case True
    then obtain st' where "post_read_hook dbms cfg junk inode ctx st = Inr st'" "hook st = Inr st'"
      using source_hooks_return(1) [OF assms(5)] by fastforce
    then show thesis by - (rule read_hook_cases, assumption, use assms(4,5) in \<open>auto intro: that\<close>)
  next
    case False
    then obtain st' where "post_recvfrom_hook dbms cfg junk inode ctx st = Inr st'" "hook st = Inr st'"
      using source_hooks_return(2) [OF assms(5)] assms(7) by fastforce
    then show thesis by - (rule recvfrom_hook_cases, assumption, use assms(4,5) in \<open>auto intro: that\<close>)
  qed
  have "length u = 16" using get_current_uuid_length [OF assms(5)] by simp
  note mem = handler_codec.enc_mem [OF this assms(6)]
  have "if u \<in> set (inbound_uuid_array_global cfg)
    then \<exists>t. tag_name (tag_to_tag_uuid st') t = uuid_to_string u \<and>
      (\<forall>b. tagmap_getb (dir st') b =
        (if ucast b \<in> span (ctx_arg ctx 1) (ctx_ret ctx) then std_insert t std_empty else tagmap_getb (dir st) b))
    else dir st' = dir st"
  proof (cases "u \<in> set (inbound_uuid_array_global cfg)")
    case True
    then show ?thesis
      using taint_source_effect [of "st\<lparr>ip_buffer := ips', db := d\<rparr>" "uuid_to_string u" cfg e remote cross
          "ctx_arg ctx 1" "ctx_ret ctx"] assms(1-3) by (auto simp: st')
  next
    case False
    then show ?thesis by (simp add: st' taint_source_eq mem)
  qed
  with r show ?thesis by blast
qed

theorem source_effect_witness:
  "\<exists>st' t. post_read_hook sample_dbms sample_cfg zero_uuid sample_inode sample_ctx sample_hooks = Inr st' \<and>
     tag_name (tag_to_tag_uuid st') t = uuid_to_string sample_uuid"
proof -
  obtain st' where r: "post_read_hook sample_dbms sample_cfg zero_uuid sample_inode sample_ctx sample_hooks = Inr st'"
    using sample_read(1) by blast
  have "0 < sint (ctx_ret sample_ctx)" "card (dom (uuid_to_tag sample_hooks)) < 2 ^ LENGTH(8)"
    "list_all (\<lambda>v. length v = 16) (inbound_uuid_array_global sample_cfg)"
    "sample_uuid \<in> set (inbound_uuid_array_global sample_cfg)"
    by (simp_all add: sample_ctx_def sample_hooks_def sample_cfg_def sample_uuid_def)
  with source_effect [OF sample_hooks_inv this(2) _ this(1) sample_current this(3),
      of "post_read_hook sample_dbms sample_cfg zero_uuid sample_inode sample_ctx" sample_dbms zero_uuid]
  show ?thesis by auto
qed

subsection \<open>Identifiers\<close>

text \<open>
  C25. Identifiers as text. Reading the printed form of an identifier, by the handlers or by the
  database client, gives the identifier back, so printed identifiers are equal exactly when
  the identifiers are.
\<close>

theorem uuid_text_roundtrip:
  assumes "length u = 16" "length v = 16" "length junk = 16"
  shows "string_to_uuid (uuid_to_string u) = u \<and> get_cdm_uuid junk (uuid_to_string u) = Inr u \<and>
    (uuid_to_string u = uuid_to_string v) = uuid_eq u v"
  using assms
  by (simp add: string_to_uuid_to_string get_cdm_uuid_to_string handler_codec.enc_inject uuid_eq_iff)

theorem uuid_text_roundtrip_witness:
  "string_to_uuid (uuid_to_string (get_file_uuid 1 2 3)) = get_file_uuid 1 2 3 \<and>
   get_cdm_uuid zero_uuid (uuid_to_string (get_file_uuid 1 2 3)) = Inr (get_file_uuid 1 2 3) \<and>
   (uuid_to_string (get_file_uuid 1 2 3) = uuid_to_string zero_uuid) = uuid_eq (get_file_uuid 1 2 3) zero_uuid"
  by (rule uuid_text_roundtrip) simp_all

text \<open>
  Files. The description of a file, with its three numbers in hexadecimal, gives the
  identifier that packs them, and different files have different identifiers.
\<close>

theorem file_descriptor_uuid:
  "get_current_uuid ips (join (CHR ''|'') [''I'', show_nat 16 (unat dev), show_nat 16 (unat ino),
      show_nat 16 (unat crtime)]) ep = Inr (get_file_uuid dev ino crtime, INODE_TYPE, ep, ips) \<and>
   length (get_file_uuid dev ino crtime) = 16 \<and>
   (get_file_uuid dev ino crtime = get_file_uuid dev' ino' crtime') =
     (dev = dev' \<and> ino = ino' \<and> crtime = crtime')"
  by (simp add: get_current_uuid_file del: join_simps)

text \<open>
  C26. Network flows. The description of a socket with dotted addresses gives the identifier
  with the local and remote addresses and ports, whatever the address buffer held, and
  fills in the caller's endpoints.
\<close>

theorem socket_descriptor_uuid:
  assumes "length ips = 4"
  shows "get_current_uuid ips (join (CHR ''|'') [''S'', dotted [e, f, g, h], show_nat 10 (unat rp),
      dotted [a, b, c, d], show_nat 10 (unat lp)]) (Some ep) =
    Inr ([a, b, c, d, ucast (lp AND 0xff), ucast (drop_bit 8 lp AND 0xff),
          e, f, g, h, ucast (rp AND 0xff), ucast (drop_bit 8 rp AND 0xff), 0, 0, 0, 0],
      SOCKET_TYPE, Some \<lparr>rip = dotted [e, f, g, h], rport = rp, lip = dotted [a, b, c, d], lport = lp\<rparr>,
      [e, f, g, h])"
  by (simp only: get_current_uuid_socket [OF dotted_plain(4) dotted_plain(4)]
      get_netflow_uuid_dotted [OF assms] uncaught_simps and_then_simps prod.case option.map)

theorem socket_descriptor_uuid_witness:
  "get_current_uuid [9, 9, 9, 9] (join (CHR ''|'') [''S'', dotted [10, 0, 0, 2], show_nat 10 (unat (80 :: 16 word)),
      dotted [10, 0, 0, 1], show_nat 10 (unat (4660 :: 16 word))]) (Some no_endpoints) =
    Inr ([10, 0, 0, 1, 52, 18, 10, 0, 0, 2, 80, 0, 0, 0, 0, 0], SOCKET_TYPE,
      Some \<lparr>rip = dotted [10, 0, 0, 2], rport = 80, lip = dotted [10, 0, 0, 1], lport = 4660\<rparr>, [10, 0, 0, 2])"
  using socket_descriptor_uuid [of "[9, 9, 9, 9]" 10 0 0 2 80 10 0 0 1 4660 no_endpoints]
  by (simp del: join_simps)

subsection \<open>The database\<close>

text \<open>
  C27. The overlay's lists of origins. Packing a nonempty set and parsing the text again gives
  back only the last origin unchanged: every other one loses its last character. Packing the
  empty set is undefined.
\<close>

theorem overlay_pack_parse:
  assumes "tag_members S \<noteq> {}" "list_all (\<lambda>s. s \<noteq> [] \<and> CHR ''|'' \<notin> set s) (elems S)"
  shows "pack_uuids std_empty = Inl Undefined_behaviour \<and>
    (case pack_uuids S of Inl e \<Rightarrow> False | Inr text \<Rightarrow>
      tag_members (parse_uuids text std_empty) = butlast ` set (butlast (elems S)) \<union> {last (elems S)})"
  using assms members_parse_uuids [of "elems S" std_empty]
  by (auto simp: pack_uuids_join pack_uuids_empty tag_members_def)

theorem overlay_pack_parse_witness:
  "case pack_uuids (std_insert ''7 1'' (std_insert ''5 23'' std_empty)) of Inl e \<Rightarrow> False | Inr text \<Rightarrow>
     tag_members (parse_uuids text std_empty) = {''5 2'', ''7 1''}"
  using overlay_pack_parse [of "std_insert ''7 1'' (std_insert ''5 23'' std_empty)"]
  by (auto simp: less_char_def split: sum.splits)

subsection \<open>System calls\<close>

text \<open>
  C28. Only sources taint. Leaving any system call other than \<^verbatim>\<open>read\<close> and \<^verbatim>\<open>recvfrom\<close> can
  only clear tags of memory: every byte keeps its tag or has none. In particular data that
  arrives through any other call (\<^verbatim>\<open>pread64\<close>, \<^verbatim>\<open>readv\<close>, \<^verbatim>\<open>recvmsg\<close>, \<^verbatim>\<open>mmap\<close>) is untainted.
\<close>

theorem only_sources_taint:
  assumes "sysexit_save e (tool_syscall_desc abi) ret st = Inr st'"
    and "sint (ctx_nr (syscall_ctx st)) < 312" "sint (ctx_nr (syscall_ctx st)) \<notin> {0, 45}"
  shows "tagmap_getb (dir (hooks st')) a \<in> {tagmap_getb (dir (hooks st)) a, cleared_val}"
  using sysexit_clears [OF assms] by (auto simp: only_clears_def clears_def tagmap_getb_def)

theorem only_sources_taint_witness:
  "\<exists>st'. sysexit_save sample_hook_env (tool_syscall_desc sample_abi) 0 (sample_tool 3) = Inr st' \<and>
     tagmap_getb (dir (hooks st')) 0 \<in> {tagmap_getb (dir (hooks (sample_tool 3))) 0, cleared_val}"
proof -
  obtain st' where r: "sysexit_save sample_hook_env (tool_syscall_desc sample_abi) 0 (sample_tool 3) = Inr st'"
    by (simp add: sysexit_save_def inst_syscall_end_def increment_syscall_cnt_def ignored_syscall_def Let_def
        sample_tool_def thread_start_def tool_desc_nth syscall_desc_def nth_append syscall_table_0_def desc_def)
  with only_sources_taint [OF r, of 0] show ?thesis by (simp add: sample_tool_def)
qed

text \<open>
  Vectors of buffers. The handlers of \<^verbatim>\<open>readv\<close> and \<^verbatim>\<open>recvmsg\<close> clear exactly the parts of
  the buffers that the kernel filled: the buffers in order, up to the number of bytes
  returned, which they cover when the buffers are large enough.
\<close>

theorem vector_clear:
  "(\<forall>b. tagmap_getb (readv_loop abi g n iov tot m) b =
     (if ucast b \<in> spans (filled (iov_list abi g n iov) (unat tot)) then cleared_val else tagmap_getb m b)) \<and>
   sum_list (map (unat \<circ> snd) (filled (iov_list abi g n iov) (unat tot))) =
     min (unat tot) (sum_list (map (unat \<circ> snd) (iov_list abi g n iov)))"
  using readv_loop_clears [of m abi g n iov tot] by (simp add: filled_total clears_def tagmap_getb_def)

text \<open>
  C29. The loop of \<^verbatim>\<open>process_vm_readv\<close> has no bound on the number of vectors. It returns when
  the first vectors hold at least the number of bytes, and then clears what the vectors hold;
  after a failed call, whose unsigned return value is huge, it may read on for ever.
\<close>

theorem vm_readv_returns:
  assumes "unat tot \<le> sum_list (map (unat \<circ> snd) (iov_list abi g n iov))"
  shows "\<exists>m'. vm_readv_loop abi g iov tot m = Some m' \<and>
    clears m m' (spans (filled (iov_list abi g n iov) (unat tot))) \<and>
    vm_readv_loop abi (g\<lparr>rd64 := \<lambda>_. 0\<rparr>) iov (- 1) m = None"
  using vm_readv_clears [OF assms, of m] by (simp add: vm_readv_diverges word_gt_0)

theorem vm_readv_returns_witness:
  "\<exists>m'. vm_readv_loop sample_abi sample_guest 4096 100 (tag_dir_init :: nat tag_dir_t) = Some m' \<and>
    clears tag_dir_init m' (span 64 64 \<union> span 64 36)"
  using vm_readv_returns [of 100 sample_abi sample_guest "Suc (Suc 0)" 4096 "tag_dir_init :: nat tag_dir_t"]
  by (auto simp: sample_abi_def sample_guest_def)

text \<open>
  C30. The table of descriptors has one entry for each of the 312 system calls, and all are
  consistent (at most six arguments, saved arguments where there is a handler, sizes only for
  existing arguments and only where the entry says that arguments are written), except 247
  (\<^verbatim>\<open>waitid\<close>, whose resource usage is the fifth of four arguments) and 262 (\<^verbatim>\<open>newfstatat\<close>).
\<close>

theorem syscall_table_consistent:
  assumes "sizeof abi Rusage \<noteq> 0" "sizeof abi Stat \<noteq> 0"
  shows "length (syscall_desc abi) = unat SYSCALL_MAX \<and> bad_from 0 (syscall_desc abi) = [247, 262]"
  using table_206_bad [OF assms]
  by (simp add: syscall_desc_def bad_from_append bad_from_ok tables_ok SYSCALL_MAX_def)

theorem syscall_table_consistent_witness:
  "bad_from 0 (syscall_desc sample_abi) = [247, 262]"
  using syscall_table_consistent [of sample_abi] by (simp add: sample_abi_def)

text \<open>
  C31. Entering and leaving \<^verbatim>\<open>read\<close>, \<^verbatim>\<open>recvfrom\<close>, \<^verbatim>\<open>write\<close> or \<^verbatim>\<open>sendto\<close> runs the tool's
  handler for it exactly once, on the arguments and the return value of that very call.
\<close>

theorem syscall_handler_once:
  assumes "source_or_sink nr = Some h" "tdata st = Some td"
  shows "and_then (sysenter_save e (tool_syscall_desc abi) nr args st)
      (\<lambda>st1. map_sum id hooks (sysexit_save e (tool_syscall_desc abi) ret st1)) =
    map_sum id snd (run_post e h
      \<lparr>ctx_nr = ucast nr, ctx_arg = save_syscall_args (if nr \<in> {0, 1} then 3 else 6) args (ctx_arg (syscall_ctx st)),
       ctx_ret = ret\<rparr> (hooks st))"
  using assms by (rule syscall_runs_handler)

theorem syscall_handler_once_witness:
  "and_then (sysenter_save sample_hook_env (tool_syscall_desc sample_abi) 1 (\<lambda>_. 8) (sample_tool 0))
      (\<lambda>st1. map_sum id hooks (sysexit_save sample_hook_env (tool_syscall_desc sample_abi) 0 st1)) =
    Inr sample_hooks"
  using syscall_handler_once [of 1 Dta_write "sample_tool 0" _ sample_hook_env sample_abi "\<lambda>_. 8" 0]
  by (simp add: source_or_sink_def post_write_hook_def sample_tool_def)

subsection \<open>The engine and the tool\<close>

text \<open>
  C32. From the start of the engine to executed analysis calls. After \<^verbatim>\<open>libdft_init\<close> a trace whose
  version is not masked runs, along every path, exactly the data flow of its instructions in
  order; a masked version runs nothing. Disabling the default action of one opcode removes
  exactly the instructions with that opcode.
\<close>

theorem trace_instrumentation:
  assumes "libdft_init claimed vm lib = (0, lib')" "on_path bbls path"
    and "ins_set_dflact (Some (ins_desc lib' ! opc)) 1 = (0, Some d)"
  shows "run_path (trace_inspect (ins_desc lib') pin vm v bbls) path tc =
      (if vm \<noteq> 0 \<and> v AND vm \<noteq> 0 then Some tc else exec_trace pin (path_events bbls path) tc) \<and>
    run_path (trace_inspect ((ins_desc lib')[opc := d]) pin 0 v bbls) path tc =
      exec_trace pin (filter ((\<lambda>ins. INS_Opcode ins \<noteq> opc) \<circ> fst) (path_events bbls path)) tc"
proof -
  note ds = libdft_init_ok [OF assms(1), THEN conjunct2, THEN conjunct1]
  have "run_path (trace_inspect (ins_desc lib') pin vm v bbls) path tc = exec_trace pin (path_events bbls path) tc"
    if "vm = 0 \<or> v AND vm = 0"
    using run_path_select [OF that _ assms(2), of "ins_desc lib'" pin "\<lambda>_. True" tc]
    by (simp add: ds inspect_ins_zero comp_def)
  moreover have "run_path (trace_inspect ((ins_desc lib')[opc := d]) pin 0 v bbls) path tc =
      exec_trace pin (filter ((\<lambda>ins. INS_Opcode ins \<noteq> opc) \<circ> fst) (path_events bbls path)) tc"
    using assms(3) by (intro run_path_select assms(2)) (auto simp: ds inspect_ins_disabled)
  ultimately show ?thesis
    using run_path_masked [OF _ _ assms(2)] by auto
qed

theorem trace_instrumentation_witness:
  "\<exists>lib'. libdft_init 5 0 \<lparr>thread_ctx_ptr = 0, registered = [], ins_desc = []\<rparr> = (0, lib') \<and>
     run_path (trace_inspect (ins_desc lib') pin_doc 0 0 [[sample_ins XED_ICLASS_MOV REG_AH REG_DIL]])
       [(0, sample_env)] sample_state =
     exec_trace pin_doc [(sample_ins XED_ICLASS_MOV REG_AH REG_DIL, sample_env)] sample_state"
proof -
  let ?lib = "\<lparr>thread_ctx_ptr = 0, registered = [], ins_desc = []\<rparr>"
  let ?bbls = "[[sample_ins XED_ICLASS_MOV REG_AH REG_DIL]]"
  obtain lib' where l: "libdft_init 5 0 ?lib = (0, lib')"
    by (simp add: libdft_init_def thread_ctx_init_def tagmap_alloc_def)
  have "on_path ?bbls [(0, sample_env)]" by (simp add: on_path_def sample_ins_def)
  moreover obtain d where "ins_set_dflact (Some (ins_desc lib' ! 1)) 1 = (0, Some d)"
    by (simp add: ins_set_dflact_def)
  ultimately show ?thesis
    using trace_instrumentation [OF l, of ?bbls "[(0, sample_env)]" 1 d pin_doc 0 sample_state, THEN conjunct1] l
    by (simp add: path_events_def)
qed

text \<open>
  C33. From the start of the tool to a source. When the database holds the printed identifiers of
  the inbound and outbound objects of the query, the start succeeds with exactly these objects
  and no tainted byte, and the first successful \<^verbatim>\<open>read\<close> from an inbound object taints exactly
  its buffer, with that object as the only origin.
\<close>

theorem start_then_source:
  assumes "is_open dbms dz" "length junk = 16" "list_all (\<lambda>u. length u = 16) (inb @ outb)"
    and "exec_query dbms dz (inbound_query (QueryId k) (SubjectUUID k)) =
      Some (map (\<lambda>u. [uuid_to_string u, nf u]) inb)"
    and "exec_query dbms dz (outbound_query (QueryId k) (SubjectUUID k)) =
      Some (map (\<lambda>u. [uuid_to_string u, nf u]) outb)"
    and "0 \<le> rc" "claimed \<noteq> REG_INVALID" "LENGTH('w::len) \<le> 32" "0 < sint (ctx_ret ctx)"
    and "get_current_uuid [0xff, 0xff, 0xff, 0xff] inode (Some no_endpoints) = Inr (u, type, ep, ips)"
    and "u \<in> set inb"
  shows "\<exists>(t :: ('w, 'db) started) st'.
    tool_main rc False claimed abi dbms junk k lib dz = Inr (Inr t) \<and>
    inbound_uuid_array_global (started_cfg t) = inb \<and> outbound_uuid_array_global (started_cfg t) = outb \<and>
    (\<forall>a. tagmap_getb (dir (started_hooks t)) a = cleared_val) \<and>
    post_read_hook dbms (started_cfg t) junk inode ctx (started_hooks t) = Inr st' \<and>
    (\<forall>b. origins st' b = (if ucast b \<in> span (ctx_arg ctx 1) (ctx_ret ctx) then {uuid_to_string u} else {}))"
proof -
  obtain t :: "('w, 'db) started" where t: "tool_main rc False claimed abi dbms junk k lib dz = Inr (Inr t)"
    and cfg: "inbound_uuid_array_global (started_cfg t) = inb" "outbound_uuid_array_global (started_cfg t) = outb"
    and hooks: "started_hooks t = initial_hooks (strtoul 0 (TagCounter k)) dz"
    using tool_main_objects [OF assms(1-7), of abi lib] by blast
  have card: "card (dom (uuid_to_tag (started_hooks t))) < 2 ^ LENGTH('w)"
    and buf: "ip_buffer (started_hooks t) = [0xff, 0xff, 0xff, 0xff]"
    by (simp_all add: hooks initial_hooks_def)
  obtain st' where st': "post_read_hook dbms (started_cfg t) junk inode ctx (started_hooks t) = Inr st'"
    using source_hooks_return(1) [of "started_hooks t" inode u type ep ips dbms "started_cfg t" junk ctx] assms(10)
    by (simp add: buf) blast
  obtain remote cross ips' d where eq: "st' = taint_source (started_cfg t) ''EVENT_READ'' (uuid_to_string u) remote
      cross (ctx_arg ctx 1) (ctx_ret ctx) ((started_hooks t)\<lparr>ip_buffer := ips', db := d\<rparr>)"
    using st' by (rule read_hook_cases) (use assms(9,10) in \<open>auto simp: buf\<close>)
  have "\<forall>b. origins st' b = (if ucast b \<in> span (ctx_arg ctx 1) (ctx_ret ctx) then {uuid_to_string u} else {})"
    using taint_source_effect [of "(started_hooks t)\<lparr>ip_buffer := ips', db := d\<rparr>" "uuid_to_string u" "started_cfg t"
        "''EVENT_READ''" remote cross "ctx_arg ctx 1" "ctx_ret ctx", folded eq] card assms(8,11)
    by (auto simp: origins_def cfg hooks initial_hooks_inv initial_hooks_clear)
  with t cfg st' show ?thesis
    by (auto simp: hooks initial_hooks_clear)
qed

theorem start_then_source_witness:
  "\<exists>(t :: (8, bool) started) st'.
     tool_main 0 False 5 sample_abi sample_rows_dbms zero_uuid sample_knobs
       \<lparr>thread_ctx_ptr = 0, registered = [], ins_desc = []\<rparr> True = Inr (Inr t) \<and>
     post_read_hook sample_rows_dbms (started_cfg t) zero_uuid sample_inode sample_ctx (started_hooks t) = Inr st' \<and>
     origins st' 4096 = {uuid_to_string sample_uuid}"
proof -
  have rows: "is_open sample_rows_dbms True" "exec_query sample_rows_dbms True s = Some (map (\<lambda>u. [uuid_to_string u, []]) [sample_uuid])" for s
    by (simp_all add: sample_rows_dbms_def sample_dbms_def)
  have u: "length zero_uuid = 16" "list_all (\<lambda>u. length u = 16) ([sample_uuid] @ [sample_uuid])"
    "(0 :: int) \<le> 0" "(5 :: nat) \<noteq> 0" "LENGTH(8) \<le> 32" "0 < sint (ctx_ret sample_ctx)"
    "sample_uuid \<in> set [sample_uuid]"
    by (simp_all add: sample_uuid_length sample_ctx_def)
  have "ucast (4096 :: addr) \<in> span (ctx_arg sample_ctx 1) (ctx_ret sample_ctx)"
    unfolding span_def by (rule imageI) (simp add: sample_ctx_def word_less_nat_alt)
  with start_then_source [OF rows(1) u(1,2) rows(2) rows(2) u(3-6) sample_current u(7), of sample_abi sample_knobs
      "\<lparr>thread_ctx_ptr = 0, registered = [], ins_desc = []\<rparr>"]
  show ?thesis by metis
qed

text \<open>
  C34. Local tags. The tag of object number \<^verbatim>\<open>i\<close> is \<^verbatim>\<open>i\<close> modulo the width chosen, which is the
  truncated logarithm rounded up to 8, 16, 32 or 64 bits, so that 8 bits are also used for up
  to 511 objects and their tags then coincide. The way back divides the size in bytes by the
  width in bits: when it succeeds it returns one eighth of the objects.
\<close>

theorem local_tag_translation:
  assumes "global2local log2i dbms d q s us = Inr (0, w, Some (tags, sz), d')"
    and "local2global dbms' junk d' q s w tags sz [] = Inr (0, vs, d'')"
  shows "w \<in> {8, 16, 32, 64} \<and> log2i (length us) \<le> w \<and>
    list_all (\<lambda>i. local_tag w tags i = Inr (i mod 2 ^ nat w)) [0..<length us] \<and>
    length vs = length us div 8"
proof -
  have m: "minimal_tags (log2i (length us)) (length us) = Some (w, tags, sz)"
    using assms(1) by (auto simp: global2local_def Let_def split: option.splits if_splits)
  note w = minimal_tags_width [OF m]
  then have "local2global_loop dbms' junk q s w tags (sz div nat w) 0 [] d' = Inr (0, vs, d'')"
    using assms(2) by (auto simp: local2global_def)
  from local2global_loop_length [OF this] have "length vs = sz div nat w" by simp
  also have "\<dots> = length us div 8" using w by auto
  finally show ?thesis using w by (simp add: list_all_iff)
qed

theorem local_tag_translation_witness:
  "\<exists>w tags sz d' vs d''. global2local (\<lambda>_. 1) sample_dbms True ''1'' ''2'' [zero_uuid, zero_uuid] =
      Inr (0, w, Some (tags, sz), d') \<and>
    local2global sample_dbms zero_uuid d' ''1'' ''2'' w tags sz [] = Inr (0, vs, d'') \<and> vs = []"
proof -
  obtain w tags sz d' where g: "global2local (\<lambda>_. 1) sample_dbms True ''1'' ''2'' [zero_uuid, zero_uuid] =
      Inr (0, w, Some (tags, sz), d')" and w: "w = 8" "sz = 2"
    by (simp add: global2local_def minimal_tags_def)
  then have l: "local2global sample_dbms zero_uuid d' ''1'' ''2'' w tags sz [] = Inr (0, [], d')"
    by (simp add: local2global_def)
  from local_tag_translation [OF g l] g l show ?thesis by auto
qed

text \<open>
  C35. The subjects of a query are copied into arrays of fixed size. Printed identifiers always
  fit their 64 characters; a path of more than 4096 characters is written past its array.
\<close>

theorem subject_buffers:
  assumes "run_query dbms d (subjects_query q) = (Some (map subject_row rows), d')" "rows \<noteq> []"
    and "list_all (\<lambda>(pid, _). as_int conv pid \<noteq> None) rows"
  shows "if list_all (\<lambda>(_, path, _). length path \<le> 4096) rows
    then \<exists>ss. get_subjects_for_taint conv dbms d q = Inr (int (length rows), Some ss, d') \<and>
      length ss = length rows
    else get_subjects_for_taint conv dbms d q = Inl Undefined_behaviour"
  using read_subjects_rows [OF assms(3)] assms(1,2)
  by (auto simp: get_subjects_for_taint_def split: if_splits)

theorem subject_buffers_witness:
  "get_subjects_for_taint \<lparr>as_int = \<lambda>_. Some 7, as_ulong = \<lambda>_. None, as_ssize = \<lambda>_. None, as_int64 = \<lambda>_. None\<rparr>
     (sample_dbms\<lparr>exec_query := \<lambda>_ _. Some [subject_row (''7'', replicate 5000 (CHR ''x''), zero_uuid, zero_uuid)]\<rparr>)
     True ''1'' = Inl Undefined_behaviour"
  using subject_buffers [of "sample_dbms\<lparr>exec_query := \<lambda>_ _. Some [subject_row (''7'', replicate 5000 (CHR ''x''), zero_uuid, zero_uuid)]\<rparr>"
      True "''1''" "[(''7'', replicate 5000 (CHR ''x''), zero_uuid, zero_uuid)]" True
      "\<lparr>as_int = \<lambda>_. Some 7, as_ulong = \<lambda>_. None, as_ssize = \<lambda>_. None, as_int64 = \<lambda>_. None\<rparr>"]
  by (simp add: run_query_def open_connection_def sample_dbms_def)

subsection \<open>The build with one bit per byte\<close>

lemma sample_taints_alike: "taints_alike sample_state sample_bits"
proof -
  have "tag_members (tag_of sample_state l) \<noteq> {} \<longleftrightarrow> bit_of sample_bits l" if "low l" for l
    using that
    by (cases l) (simp_all add: sample_state_def sample_bits_def sample_gpr tag_of.simps bit_at_def tag_members_def Std_set_inverse
        cleared_val.rep_eq)
  then show ?thesis
    by (simp add: taints_alike_def)
qed

text \<open>
  C36. The two builds taint alike. Start the tag build and the bit build with the same bytes
  tainted, and run any sequence of calls among the 8, 16 and 64 bit transfers, arithmetic, exchanges,
  zero extensions and clearings, in segments that are not read at their last eight bytes and
  below 4 GB. Both runs return, and again the same bytes are tainted.
\<close>

theorem builds_taint_alike:
  assumes "bit_ready mal bc" "taints_alike tc bc" "list_all agree cs"
  shows "\<exists>tc' bc'. exec_calls cs tc = Some tc' \<and> bit_exec_calls mal cs bc = Some bc' \<and>
    bit_ready mal bc' \<and> taints_alike tc' bc'"
  using builds_agree [OF assms] .

theorem builds_taint_alike_witness:
  "\<exists>tc' bc'. exec_calls [XferC (R2m_xfer_opq 4096 0), XferC (R_clrq 0)] sample_state = Some tc' \<and>
     bit_exec_calls (\<lambda>_ _. True) [XferC (R2m_xfer_opq 4096 0), XferC (R_clrq 0)] sample_bits = Some bc' \<and>
     taints_alike tc' bc'"
  using builds_taint_alike [OF sample_bits_ready sample_taints_alike, of "[XferC (R2m_xfer_opq 4096 0), XferC (R_clrq 0)]"]
  by (auto simp: low_mem_def mem_ok_def seg_off_4096)

text \<open>
  C37. The same for instructions. Executing the instrumentation of a trace of moves, two-operand
  arithmetic, exchanges, stack and string instructions without 32-bit registers, on addresses
  below 4 GB, returns in both builds and leaves the same bytes tainted.
\<close>

theorem traces_taint_alike:
  assumes "bit_ready mal bc" "taints_alike tc bc" "list_all alike_event evs"
  shows "\<exists>tc' bc'. exec_trace pin evs tc = Some tc' \<and>
    bit_exec_calls mal (trace_calls pin evs) bc = Some bc' \<and> bit_ready mal bc' \<and> taints_alike tc' bc'"
  using builds_agree [OF assms(1,2) alike_trace [OF assms(3)]] by (simp add: exec_trace_calls)

theorem traces_taint_alike_witness:
  "\<exists>tc' bc'. exec_trace pin_doc [(sample_ins XED_ICLASS_XCHG REG_AH REG_DX, sample_env)] sample_state = Some tc' \<and>
     bit_exec_calls (\<lambda>_ _. True) (trace_calls pin_doc [(sample_ins XED_ICLASS_XCHG REG_AH REG_DX, sample_env)])
       sample_bits = Some bc' \<and> taints_alike tc' bc'"
  using traces_taint_alike [OF sample_bits_ready sample_taints_alike,
      of "[(sample_ins XED_ICLASS_XCHG REG_AH REG_DX, sample_env)]" pin_doc]
  by (auto simp: alike_event_def alike_ops_def narrow_def low_env_def sample_ins_def sample_env_def REG_is_gr32_def
      low_mem_def mem_ok_def seg_off_pos pos_def)

text \<open>
  C38. Taint provenance in the bit build. A sequence of calls on registers of the array and
  addresses away from the end of a segment returns, keeps the state well formed, and leaves a
  byte tainted exactly when one of the bytes it depends on, through the flows of the calls, was
  tainted before.
\<close>

theorem bit_run_provenance:
  assumes "bit_ready mal tc" "list_all bit_call_ok cs"
  shows "\<exists>tc'. bit_exec_calls mal cs tc = Some tc' \<and> bit_ready mal tc' \<and>
    (\<forall>l. loc_ok l \<longrightarrow> (bit_of tc' l \<longleftrightarrow> (\<exists>x\<in>set (sources bit_call_flow cs l). bit_of tc x)))"
  using bit_build.run_flow [OF assms] by (simp add: bit_exec_calls_def bit_val_eq)

theorem bit_run_provenance_witness:
  "\<exists>tc'. bit_exec_calls (\<lambda>_ _. True) [MovC (Movsx_r2r_opqb_l 1 0), XferC (R2m_xfer_opw 4096 1)] sample_bits = Some tc' \<and>
     bit_of tc' (Mem 4097)"
proof -
  let ?cs = "[MovC (Movsx_r2r_opqb_l 1 0), XferC (R2m_xfer_opw 4096 1)]"
  have "list_all bit_call_ok ?cs"
    by (simp add: mem_ok_def seg_off_4096)
  from bit_run_provenance [OF sample_bits_ready this] obtain tc' where
    "bit_exec_calls (\<lambda>_ _. True) ?cs sample_bits = Some tc'"
    "\<forall>l. loc_ok l \<longrightarrow> (bit_of tc' l \<longleftrightarrow> (\<exists>x\<in>set (sources bit_call_flow ?cs l). bit_of sample_bits x))"
    by blast
  moreover have "bit_of sample_bits (Reg 0 0)" "sources bit_call_flow ?cs (Mem 4097) = [Reg 0 0]"
    by (simp_all add: on_mem_def on_reg_def keep_def pos_def sample_bits_def sample_gpr)
  moreover have "loc_ok (Mem 4097)"
    by simp
  ultimately show ?thesis
    by (metis list.set_intros(1))
qed

text \<open>
  C39. Ranges in the bit map. Within a segment, setting a range returns and sets exactly its
  bits, however the range lies to the 8 and 32 bit chunks of the loops; asking whether a range
  is tainted returns non-zero exactly when some bit of it is set, and changes no bit.
\<close>

theorem bitmap_range:
  assumes "st \<noteq> None" "\<forall>tab i. mal tab i" "in_segment a (unat num)"
  shows "\<exists>st1 st2 tag. bit_tagmap_setn mal a num st = Some st1 \<and>
    bit_at st1 = (\<lambda>n. n \<in> rng a (unat num) \<or> bit_at st n) \<and>
    bit_tagmap_issetn mal a num st = Some (tag, st2) \<and> bit_at st2 = bit_at st \<and>
    (tag \<noteq> 0 \<longleftrightarrow> (\<exists>n\<in>rng a (unat num). bit_at st n))"
  using setn_writes [of mal a num st] issetn_reads [of mal a num st] assms
  by (auto simp: writes_def reads_def fun_eq_iff split: option.splits)

theorem bitmap_range_witness:
  "\<exists>st1 st2 tag. bit_tagmap_setn (\<lambda>_ _. True) 4099 100 (Some (\<lambda>_. None)) = Some st1 \<and> bit_at st1 4198 \<and>
     bit_tagmap_issetn (\<lambda>_ _. True) 4099 100 (Some (\<lambda>_. None)) = Some (tag, st2) \<and> tag = 0"
proof -
  have "in_segment 4099 (unat (100 :: 64 word))" and r: "4198 \<in> rng 4099 (unat (100 :: 64 word))"
    by (simp_all add: in_segment_def pos_def rng_low)
  moreover have "\<not> bit_at (Some (\<lambda>_. None)) n" for n
    by (simp add: bit_at_def)
  ultimately show ?thesis
    using bitmap_range [of "Some (\<lambda>_. None)" "\<lambda>_ _. True" 4099 100] by auto
qed

text \<open>
  C40. Clearing a range in the bit map. The loop for the last, fewer than 32, bytes never
  advances the address. Let \<open>t\<close> be their number and \<open>q\<close> the position of the first of them. If \<open>t\<close> is not 7, 15,
  23 or 31, only the first eight of them are cleared, with the bytes before them, and the rest
  of the range stays as it was. Otherwise the loop ends with seven bytes and multiplies the
  entry. For \<open>t = 7\<close> the range is cleared, but the nine bytes behind it get the two's complement of
  the nine bits from \<open>q\<close> on; for 15, 23 and 31 the first fifteen are cleared and the sixteenth gets
  the old bit of the ninth. All other bits are kept.
\<close>

theorem bitmap_clear:
  assumes "st \<noteq> None" "\<forall>tab i. mal tab i" "in_segment a (unat num)"
    and "t = tail_of a (unat num)" "q = pos a + (unat num - t)"
  shows "\<exists>st'. bit_tagmap_clrn mal a num st = Some st' \<and> bit_at st' =
    (if t mod 8 \<noteq> 7 then (\<lambda>p. p \<notin> rng a (unat num - (t - 8)) \<and> bit_at st p)
     else if t = 7
     then (\<lambda>p. if q + 7 \<le> p \<and> p < q + 16 then bit_at st (p - 7) \<noteq> (\<exists>j. q \<le> j \<and> j < p - 7 \<and> bit_at st j)
       else p \<notin> rng a (unat num) \<and> bit_at st p)
     else (\<lambda>p. if p = q + 15 then bit_at st (q + 8) else p \<notin> rng a (unat num - (t - 15)) \<and> bit_at st p))"
proof (cases "t mod 8 = 7")
  case True
  then have "tail_of a (unat num) mod 8 = 7" using assms(4) by simp
  from clrn_seven_bits [OF assms(1-3) this, folded assms(4), folded assms(5)]
  show ?thesis unfolding True by (simp only: simp_thms if_False)
next
  case False
  have "in_segment a (unat num - (t - 8))"
    using assms(3) by (simp add: in_segment_def)
  with False show ?thesis
    using clrn_writes [of a num mal st] assms(1,2)
    by (auto simp: assms(4) writes_def fun_eq_iff split: option.splits)
qed

text \<open>
  The witness sets and clears 50 and 47 bytes from 4096. Of the 50, the last stays tainted; clearing
  the 47 taints the byte behind them.
\<close>

lemma sample_setn:
  assumes "num = 50 \<or> num = 47"
  shows "\<exists>st. bit_tagmap_setn (\<lambda>_ _. True) 4096 num (Some (\<lambda>_. None)) = Some st \<and> st \<noteq> None \<and>
    in_segment 4096 (unat num) \<and> bit_at st = (\<lambda>n. 4096 \<le> n \<and> n < 4096 + unat num)"
proof -
  have seg: "in_segment 4096 (unat num)" using assms by (auto simp: in_segment_def pos_def)
  have "n \<in> rng 4096 (unat num) \<longleftrightarrow> 4096 \<le> n \<and> n < 4096 + unat num" for n
    using assms by (auto simp: rng_low pos_def)
  moreover have "\<not> bit_at (Some (\<lambda>_. None)) n" for n by (simp add: bit_at_def)
  ultimately show ?thesis
    using setn_writes [of "\<lambda>_ _. True" 4096 num "Some (\<lambda>_. None)"] seg
    by (auto simp: writes_def fun_eq_iff split: option.splits)
qed

theorem bitmap_clear_witness:
  "(\<exists>st1 st2. bit_tagmap_setn (\<lambda>_ _. True) 4096 50 (Some (\<lambda>_. None)) = Some st1 \<and>
      bit_tagmap_clrn (\<lambda>_ _. True) 4096 50 st1 = Some st2 \<and> bit_at st2 4145 \<and> \<not> bit_at st2 4096) \<and>
   (\<exists>st1 st2. bit_tagmap_setn (\<lambda>_ _. True) 4096 47 (Some (\<lambda>_. None)) = Some st1 \<and> \<not> bit_at st1 4143 \<and>
      bit_tagmap_clrn (\<lambda>_ _. True) 4096 47 st1 = Some st2 \<and> bit_at st2 4143 \<and> \<not> bit_at st2 4142)"
proof (intro conjI)
  have t: "tail_of 4096 50 = 18" "tail_of 4096 47 = 15" "pos 4096 = 4096"
    by (simp_all add: tail_of_def pos_def)
  obtain st1 where st1: "bit_tagmap_setn (\<lambda>_ _. True) 4096 50 (Some (\<lambda>_. None)) = Some st1" "st1 \<noteq> None"
    "in_segment 4096 (unat (50 :: 64 word))" "bit_at st1 = (\<lambda>n. 4096 \<le> n \<and> n < 4096 + unat (50 :: 64 word))"
    using sample_setn [of 50] by blast
  from bitmap_clear [OF st1(2) _ st1(3) refl refl, of "\<lambda>_ _. True"] st1(1,4)
  show "\<exists>st1 st2. bit_tagmap_setn (\<lambda>_ _. True) 4096 50 (Some (\<lambda>_. None)) = Some st1 \<and>
      bit_tagmap_clrn (\<lambda>_ _. True) 4096 50 st1 = Some st2 \<and> bit_at st2 4145 \<and> \<not> bit_at st2 4096"
    by (auto simp: t rng_low)
  obtain st2 where st2: "bit_tagmap_setn (\<lambda>_ _. True) 4096 47 (Some (\<lambda>_. None)) = Some st2" "st2 \<noteq> None"
    "in_segment 4096 (unat (47 :: 64 word))" "bit_at st2 = (\<lambda>n. 4096 \<le> n \<and> n < 4096 + unat (47 :: 64 word))"
    using sample_setn [of 47] by blast
  from bitmap_clear [OF st2(2) _ st2(3) refl refl, of "\<lambda>_ _. True"] st2(1,4)
  show "\<exists>st1 st2. bit_tagmap_setn (\<lambda>_ _. True) 4096 47 (Some (\<lambda>_. None)) = Some st1 \<and> \<not> bit_at st1 4143 \<and>
      bit_tagmap_clrn (\<lambda>_ _. True) 4096 47 st1 = Some st2 \<and> bit_at st2 4143 \<and> \<not> bit_at st2 4142"
    by (auto simp: t rng_low)
qed

end
